(* ===== verification/Prelude.thy ===== *)
theory Prelude
  imports Main "HOL-Library.Word" "HOL-Library.AList"
begin

text \<open>
  Shared vocabulary of the development: the widths of the Rust integers, the outcome
  type of code that can return an error or panic, the representation of a Rust
  \<open>HashMap\<close> as an association list with distinct keys (the list order stands for the
  unspecified iteration order), and the generic lemmas the component theories use.
\<close>

unbundle bit_operations_syntax

named_theorems hashmap_simps \<open>lookup after insert, remove, modify and retain\<close>
named_theorems hashmap_inv \<open>the operations keep the keys distinct\<close>

section \<open>Machine integers\<close>

type_synonym u8 = "8 word"
type_synonym u16 = "16 word"
type_synonym u32 = "32 word"
type_synonym u64 = "64 word"
type_synonym u128 = "128 word"
type_synonym usize = "64 word"
type_synonym bytes = "u8 list"

text \<open>\<open>wrap32\<close> is \<open>as i32\<close> on a mathematical integer (two's complement), \<open>as_usize\<close> the cast
  \<open>i32 as usize\<close> on a 64-bit target: a negative number becomes a huge one.\<close>

definition wrap32 :: "int \<Rightarrow> int" where
  "wrap32 n = (n + 2 ^ 31) mod 2 ^ 32 - 2 ^ 31"

definition as_usize :: "int \<Rightarrow> nat" where
  "as_usize n = nat (n mod 2 ^ 64)"

definition is_i32 :: "int \<Rightarrow> bool" where
  "is_i32 n \<longleftrightarrow> - (2 ^ 31) \<le> n \<and> n < 2 ^ 31"

section \<open>Results that may panic\<close>

datatype ('e, 'a) outcome = Ok 'a | Err 'e | Panic

definition is_panic :: "('e, 'a) outcome \<Rightarrow> bool" where
  "is_panic r \<longleftrightarrow> (case r of Panic \<Rightarrow> True | _ \<Rightarrow> False)"

section \<open>Runs of a component\<close>

text \<open>A component that reacts to events, None standing for a panic of the handler.\<close>

primrec run_steps :: "('e \<Rightarrow> 's \<Rightarrow> 's option) \<Rightarrow> 'e list \<Rightarrow> 's \<Rightarrow> 's option" where
  "run_steps step [] s = Some s"
| "run_steps step (e # es) s = (case step e s of None \<Rightarrow> None | Some s' \<Rightarrow> run_steps step es s')"

locale safety_system =
  fixes step :: "'e \<Rightarrow> 's \<Rightarrow> 's option"
    and inv :: "'s \<Rightarrow> bool"
  assumes step_keeps: "inv s \<Longrightarrow> step e s = Some s' \<Longrightarrow> inv s'"
begin

lemma run_keeps: "inv s \<Longrightarrow> run_steps step es s = Some s' \<Longrightarrow> inv s'"
proof (induction es arbitrary: s)
  case (Cons e es)
  then obtain s1 where "step e s = Some s1" "run_steps step es s1 = Some s'"
    by (auto split: option.splits)
  with Cons.IH [of s1] step_keeps [OF Cons.prems(1)] show ?case by blast
qed simp

end

text \<open>A component whose handlers do not panic either.\<close>

locale invariant_system = safety_system +
  assumes step_total: "inv s \<Longrightarrow> step e s \<noteq> None"
begin

lemma run_ok: "inv s \<Longrightarrow> \<exists>s'. run_steps step es s = Some s' \<and> inv s'"
proof (induction es arbitrary: s)
  case (Cons e es)
  obtain s1 where "step e s = Some s1" using step_total [OF Cons.prems] by blast
  with Cons.IH [of s1] step_keeps [OF Cons.prems] show ?case by simp
qed simp

end

section \<open>Iterators\<close>

definition iter_min :: "'a::linorder list \<Rightarrow> 'a option" where
  "iter_min xs = (case xs of [] \<Rightarrow> None | y # ys \<Rightarrow> Some (fold min ys y))"

definition iter_max :: "'a::linorder list \<Rightarrow> 'a option" where
  "iter_max xs = (case xs of [] \<Rightarrow> None | y # ys \<Rightarrow> Some (fold max ys y))"

text \<open>\<open>max_by\<close> on a key: the last of several maximal elements.\<close>

definition iter_max_by :: "('a \<Rightarrow> 'b::linorder) \<Rightarrow> 'a list \<Rightarrow> 'a option" where
  "iter_max_by key xs = (case xs of [] \<Rightarrow> None
     | y # ys \<Rightarrow> Some (fold (\<lambda>x best. if key best \<le> key x then x else best) ys y))"

section \<open>HashMaps\<close>

type_synonym ('k, 'v) hashmap = "('k \<times> 'v) list"

definition wf_map :: "('k, 'v) hashmap \<Rightarrow> bool" where
  "wf_map m \<longleftrightarrow> distinct (map fst m)"

definition hm_get :: "('k, 'v) hashmap \<Rightarrow> 'k \<Rightarrow> 'v option" where
  "hm_get m k = map_of m k"

definition hm_insert :: "'k \<Rightarrow> 'v \<Rightarrow> ('k, 'v) hashmap \<Rightarrow> ('k, 'v) hashmap" where
  "hm_insert k v m = AList.update k v m"

definition hm_remove :: "'k \<Rightarrow> ('k, 'v) hashmap \<Rightarrow> ('k, 'v) hashmap" where
  "hm_remove k m = AList.delete k m"

text \<open>\<open>if let Some(v) = m.get_mut(k) { *v = f(v) }\<close>\<close>

definition hm_modify :: "'k \<Rightarrow> ('v \<Rightarrow> 'v) \<Rightarrow> ('k, 'v) hashmap \<Rightarrow> ('k, 'v) hashmap" where
  "hm_modify k f m = map (\<lambda>(k', v). if k' = k then (k', f v) else (k', v)) m"

definition hm_retain :: "('k \<Rightarrow> 'v \<Rightarrow> bool) \<Rightarrow> ('k, 'v) hashmap \<Rightarrow> ('k, 'v) hashmap" where
  "hm_retain P m = filter (\<lambda>(k, v). P k v) m"

definition hm_values :: "('k, 'v) hashmap \<Rightarrow> 'v list" where
  "hm_values m = map snd m"

section \<open>Lemmas\<close>

lemma wrap32_id [simp]: "is_i32 n \<Longrightarrow> wrap32 n = n"
  by (simp add: wrap32_def is_i32_def)

lemma is_i32_wrap32 [simp]: "is_i32 (wrap32 n)"
  using pos_mod_bound [of "2 ^ 32" "n + 2 ^ 31"] pos_mod_sign [of "2 ^ 32" "n + 2 ^ 31"]
  by (simp add: wrap32_def is_i32_def)

lemma as_usize_nonneg: "0 \<le> n \<Longrightarrow> is_i32 n \<Longrightarrow> as_usize n = nat n"
  by (simp add: as_usize_def is_i32_def)

lemma as_usize_neg: "n < 0 \<Longrightarrow> is_i32 n \<Longrightarrow> 2 ^ 63 \<le> as_usize n"
proof -
  assume "n < 0" and "is_i32 n"
  then have "(n + 2 ^ 64) mod (2 ^ 64 :: int) = n + 2 ^ 64"
    by (intro mod_pos_pos_trivial) (simp_all add: is_i32_def)
  then have "n mod (2 ^ 64 :: int) = n + 2 ^ 64"
    by simp
  with \<open>is_i32 n\<close> show ?thesis by (simp add: as_usize_def is_i32_def le_nat_iff)
qed

lemma is_panic_simps [simp]:
  "is_panic Panic" "\<not> is_panic (Ok a)" "\<not> is_panic (Err e)"
  by (simp_all add: is_panic_def)

lemma iter_min_None_iff [simp]: "iter_min xs = None \<longleftrightarrow> xs = []"
  by (simp add: iter_min_def split: list.split)

lemma iter_max_None_iff [simp]: "iter_max xs = None \<longleftrightarrow> xs = []"
  by (simp add: iter_max_def split: list.split)

lemma iter_min_Some: "iter_min xs = Some m \<longleftrightarrow> xs \<noteq> [] \<and> m = Min (set xs)"
  by (auto simp: iter_min_def simp flip: Min.set_eq_fold split: list.split)

lemma iter_max_Some: "iter_max xs = Some m \<longleftrightarrow> xs \<noteq> [] \<and> m = Max (set xs)"
  by (auto simp: iter_max_def simp flip: Max.set_eq_fold split: list.split)

lemma iter_min_mem: "iter_min xs = Some m \<Longrightarrow> m \<in> set xs"
  using Min_in [of "set xs"] by (auto simp: iter_min_Some)

lemma iter_min_le: "iter_min xs = Some m \<Longrightarrow> x \<in> set xs \<Longrightarrow> m \<le> x"
  using Min_le [of "set xs" x] by (auto simp: iter_min_Some)

lemma iter_max_mem: "iter_max xs = Some m \<Longrightarrow> m \<in> set xs"
  using Max_in [of "set xs"] by (auto simp: iter_max_Some)

lemma iter_max_ge: "iter_max xs = Some m \<Longrightarrow> x \<in> set xs \<Longrightarrow> x \<le> m"
  using Max_ge [of "set xs" x] by (auto simp: iter_max_Some)

lemma fold_best_mem:
  "fold (\<lambda>x best. if key best \<le> key x then x else best) ys y \<in> insert y (set ys)"
  by (induction ys arbitrary: y) (simp, fastforce)

lemma iter_max_by_mem: "iter_max_by key xs = Some m \<Longrightarrow> m \<in> set xs"
  using fold_best_mem by (fastforce simp: iter_max_by_def split: list.splits)

lemma fold_best_self:
  fixes key :: "'a \<Rightarrow> 'b::linorder"
  shows "key y \<le> key (fold (\<lambda>x best. if key best \<le> key x then x else best) ys y)"
  by (induction ys arbitrary: y) (simp, fastforce intro: order_trans)

lemma fold_best_ge:
  fixes key :: "'a \<Rightarrow> 'b::linorder"
  shows "x \<in> insert y (set ys) \<Longrightarrow>
     key x \<le> key (fold (\<lambda>x best. if key best \<le> key x then x else best) ys y)"
proof (induction ys arbitrary: y)
  case (Cons z ys)
  define b where "b = (if key y \<le> key z then z else y)"
  have "key x \<le> key b \<or> x \<in> set ys"
    using Cons.prems by (auto simp: b_def)
  moreover have "key b \<le> key (fold (\<lambda>x best. if key best \<le> key x then x else best) ys b)"
    "x \<in> set ys \<Longrightarrow>
       key x \<le> key (fold (\<lambda>x best. if key best \<le> key x then x else best) ys b)"
    using Cons.IH [of b] Cons.IH [of b] by (auto intro: fold_best_self)
  ultimately show ?case by (auto simp: b_def [symmetric])
qed simp

lemma iter_max_by_ge: "iter_max_by key xs = Some m \<Longrightarrow> x \<in> set xs \<Longrightarrow> key x \<le> key m"
  using fold_best_ge [where key = key] by (auto simp: iter_max_by_def split: list.splits)

lemma hm_get_Nil [hashmap_simps, simp]: "hm_get [] k = None"
  by (simp add: hm_get_def)

lemma hm_remove_Nil [simp]: "hm_remove k [] = []"
  by (simp add: hm_remove_def)

lemma hm_get_Cons [simp]: "hm_get ((k', v) # m) k = (if k = k' then Some v else hm_get m k)"
  by (simp add: hm_get_def)

lemma hm_get_insert [hashmap_simps]:
  "hm_get (hm_insert k v m) k' = (if k' = k then Some v else hm_get m k')"
  by (simp add: hm_get_def hm_insert_def update_conv)

lemma hm_get_remove [hashmap_simps]:
  "hm_get (hm_remove k m) k' = (if k' = k then None else hm_get m k')"
  by (simp add: hm_get_def hm_remove_def delete_conv)

lemma hm_get_modify [hashmap_simps]:
  "hm_get (hm_modify k f m) k' = (if k' = k then map_option f (hm_get m k) else hm_get m k')"
  by (induction m) (auto simp: hm_get_def hm_modify_def)

lemma hm_get_mem: "hm_get m k = Some v \<Longrightarrow> (k, v) \<in> set m"
  by (simp add: hm_get_def map_of_SomeD)

lemma hm_get_iff: "wf_map m \<Longrightarrow> hm_get m k = Some v \<longleftrightarrow> (k, v) \<in> set m"
  by (simp add: hm_get_def wf_map_def)

lemma hm_get_None_iff: "hm_get m k = None \<longleftrightarrow> k \<notin> fst ` set m"
  by (simp add: hm_get_def map_of_eq_None_iff)

lemma fst_hm_modify [simp]: "map fst (hm_modify k f m) = map fst m"
  by (induction m) (auto simp: hm_modify_def)

lemma wf_map_insert [hashmap_inv]: "wf_map m \<Longrightarrow> wf_map (hm_insert k v m)"
  by (simp add: wf_map_def hm_insert_def distinct_update)

lemma wf_map_remove [hashmap_inv]: "wf_map m \<Longrightarrow> wf_map (hm_remove k m)"
  by (simp add: wf_map_def hm_remove_def distinct_delete)

lemma wf_map_modify [hashmap_inv]: "wf_map (hm_modify k f m) \<longleftrightarrow> wf_map m"
  by (simp add: wf_map_def)

lemma wf_map_retain [hashmap_inv]: "wf_map m \<Longrightarrow> wf_map (hm_retain P m)"
  by (simp add: wf_map_def hm_retain_def distinct_map_filter)

lemma wf_map_Nil [hashmap_inv, simp]: "wf_map []"
  by (simp add: wf_map_def)

lemma hm_get_retain [hashmap_simps]:
  "wf_map m \<Longrightarrow> hm_get (hm_retain P m) k =
     (case hm_get m k of None \<Rightarrow> None | Some v \<Rightarrow> if P k v then Some v else None)"
proof (induction m)
  case Nil
  then show ?case by (simp add: hm_retain_def)
next
  case (Cons a m)
  obtain k' v where a: "a = (k', v)" by (cases a)
  from Cons.prems a have wf: "wf_map m" and new: "k' \<notin> fst ` set m"
    by (auto simp: wf_map_def)
  have "hm_get (hm_retain P m) k' = None"
    using new by (auto simp: hm_get_None_iff hm_retain_def)
  with Cons.IH [OF wf] a show ?case
    by (auto simp: hm_retain_def split: option.splits)
qed

lemma set_hm_insert: "wf_map m \<Longrightarrow>
  set (hm_insert k v m) = insert (k, v) {p \<in> set m. fst p \<noteq> k}"
  unfolding hm_insert_def wf_map_def by (induction m) (auto intro: rev_image_eqI)

lemma set_hm_remove: "set (hm_remove k m) = {p \<in> set m. fst p \<noteq> k}"
  by (auto simp: hm_remove_def AList.delete_eq)

lemma set_hm_modify: "set (hm_modify k f m) =
  (\<lambda>(k', v). if k' = k then (k', f v) else (k', v)) ` set m"
  by (simp add: hm_modify_def)

lemma keys_hm_insert: "fst ` set (hm_insert k v m) = insert k (fst ` set m)"
  by (simp add: hm_insert_def dom_update)

lemma keys_hm_remove: "fst ` set (hm_remove k m) = fst ` set m - {k}"
  by (auto simp: set_hm_remove)

end
