(* ===== verification/Bytes_Codec.thy ===== *)
theory Bytes_Codec
  imports Prelude
begin

text \<open>
  The framing codec of \<open>libs/hbb_common/src/bytes_codec.rs\<close>: every message on a TCP
  stream is preceded by a head of one to four bytes whose two low bits give the length
  of the head. The codec keeps a \<open>DecodeState\<close> between calls, so that a frame may arrive
  in any number of pieces.

  \<open>usize\<close> is a 64-bit word and a buffer is a list of bytes. \<open>reserve\<close> only affects
  capacity and is not modelled.
\<close>

section \<open>State and operations\<close>

datatype DecodeState = Head | Data usize

record BytesCodec =
  state :: DecodeState
  raw :: bool
  max_packet_length :: usize

datatype codec_error = TooBigPacket | Overflow

definition codec_new :: BytesCodec where
  "codec_new = \<lparr>state = Head, raw = False, max_packet_length = - 1\<rparr>"

definition set_raw :: "BytesCodec \<Rightarrow> BytesCodec" where
  "set_raw c = c\<lparr>raw := True\<rparr>"

definition set_max_packet_length :: "usize \<Rightarrow> BytesCodec \<Rightarrow> BytesCodec" where
  "set_max_packet_length n c = c\<lparr>max_packet_length := n\<rparr>"

definition head_length :: "u8 \<Rightarrow> nat" where
  "head_length b = unat ((b AND 0x3) + 1)"

definition head_value :: "bytes \<Rightarrow> nat \<Rightarrow> usize" where
  "head_value src head_len =
     (let n = ucast (src ! 0);
          n = (if head_len > 1 then n OR push_bit 8 (ucast (src ! 1)) else n);
          n = (if head_len > 2 then n OR push_bit 16 (ucast (src ! 2)) else n);
          n = (if head_len > 3 then n OR push_bit 24 (ucast (src ! 3)) else n)
      in drop_bit 2 n)"

definition decode_head :: "BytesCodec \<Rightarrow> bytes \<Rightarrow> codec_error + (usize \<times> bytes) option" where
  "decode_head c src =
     (if src = [] then Inr None
      else let head_len = head_length (src ! 0) in
        if length src < head_len then Inr None
        else let n = head_value src head_len in
          if n > max_packet_length c then Inl TooBigPacket
          else Inr (Some (n, drop head_len src)))"

definition decode_data :: "usize \<Rightarrow> bytes \<Rightarrow> (bytes \<times> bytes) option" where
  "decode_data n src =
     (if length src < unat n then None else Some (take (unat n) src, drop (unat n) src))"

text \<open>\<open>decode\<close> returns the error or the optional frame, with the codec and the buffer it
  leaves behind.\<close>

definition decode ::
  "BytesCodec \<Rightarrow> bytes \<Rightarrow> (codec_error + bytes option) \<times> BytesCodec \<times> bytes" where
  "decode c src =
     (if raw c then
        (if src \<noteq> [] then (Inr (Some src), c, []) else (Inr None, c, src))
      else
        (case (case state c of
                 Head \<Rightarrow> decode_head c src
               | Data n \<Rightarrow> Inr (Some (n, src))) of
           Inl e \<Rightarrow> (Inl e, c, src)
         | Inr None \<Rightarrow> (Inr None, c, src)
         | Inr (Some (n, src1)) \<Rightarrow>
             (case decode_data n src1 of
                Some (data, src2) \<Rightarrow> (Inr (Some data), c\<lparr>state := Head\<rparr>, src2)
              | None \<Rightarrow> (Inr None, c\<lparr>state := Data n\<rparr>, src1))))"

definition put_u16_le :: "u16 \<Rightarrow> bytes" where
  "put_u16_le w = [ucast w, ucast (drop_bit 8 w)]"

definition put_u32_le :: "u32 \<Rightarrow> bytes" where
  "put_u32_le w =
     [ucast w, ucast (drop_bit 8 w), ucast (drop_bit 16 w), ucast (drop_bit 24 w)]"

definition encode_head :: "usize \<Rightarrow> codec_error + bytes" where
  "encode_head len =
     (if len \<le> 0x3F then Inr [ucast (push_bit 2 len)]
      else if len \<le> 0x3FFF then Inr (put_u16_le (ucast (push_bit 2 len) OR 0x1))
      else if len \<le> 0x3FFFFF then
        (let h = (ucast (push_bit 2 len) :: u32) OR 0x2
         in Inr (put_u16_le (ucast (h AND 0xFFFF)) @ [ucast (drop_bit 16 h)]))
      else if len \<le> 0x3FFFFFFF then Inr (put_u32_le (ucast (push_bit 2 len) OR 0x3))
      else Inl Overflow)"

definition encode :: "BytesCodec \<Rightarrow> bytes \<Rightarrow> bytes \<Rightarrow> codec_error + bytes" where
  "encode c data buf =
     (if raw c then Inr (buf @ data)
      else case encode_head (word_of_nat (length data)) of
             Inl e \<Rightarrow> Inl e
           | Inr h \<Rightarrow> Inr (buf @ h @ data))"

section \<open>Reading every frame of a buffer\<close>

text \<open>The limit the codec promises for a frame whose head it has already accepted.\<close>

definition codec_within_limit :: "BytesCodec \<Rightarrow> bool" where
  "codec_within_limit c \<longleftrightarrow> (case state c of Head \<Rightarrow> True | Data n \<Rightarrow> n \<le> max_packet_length c)"

text \<open>A framed reader calls \<open>decode\<close> until it returns \<open>None\<close> or an error. Each frame
  either uses up a head or completes one that was read before.\<close>

definition pending :: "BytesCodec \<Rightarrow> nat" where
  "pending c = (case state c of Head \<Rightarrow> 0 | Data _ \<Rightarrow> 1)"

lemma head_length_bounds: "1 \<le> head_length b \<and> head_length b \<le> 4"
proof -
  have "unat (b AND 3) \<le> unat (3 :: u8)"
    by (rule word_and_le1 [THEN word_le_nat_alt [THEN iffD1]])
  then have "unat ((b AND 3) + 1) = unat (b AND 3) + 1"
    by (subst unat_add_lem [THEN iffD1]) simp_all
  with \<open>unat (b AND 3) \<le> _\<close> show ?thesis by (simp add: head_length_def)
qed

lemma decode_head_shorter:
  "decode_head c src = Inr (Some (n, src')) \<Longrightarrow> length src' < length src"
  using head_length_bounds [of "src ! 0"]
  by (auto simp: decode_head_def Let_def split: if_splits)

lemma decode_progress:
  "decode c src = (Inr (Some f), c', src') \<Longrightarrow>
     2 * length src' + pending c' < 2 * length src + pending c"
  by (auto simp: decode_def decode_data_def pending_def
      split: if_splits sum.splits option.splits DecodeState.splits dest!: decode_head_shorter)

function drain ::
  "BytesCodec \<Rightarrow> bytes \<Rightarrow> bytes list \<times> codec_error option \<times> BytesCodec \<times> bytes" where
  "drain c src =
     (case decode c src of
        (Inl e, c', src') \<Rightarrow> ([], Some e, c', src')
      | (Inr None, c', src') \<Rightarrow> ([], None, c', src')
      | (Inr (Some f), c', src') \<Rightarrow> (let (fs, r) = drain c' src' in (f # fs, r)))"
  by pat_completeness auto
termination
  by (relation "measure (\<lambda>(c, src). 2 * length src + pending c)") (auto dest: decode_progress [OF sym])

declare drain.simps [simp del]

section \<open>Chunks: the frames do not depend on how the bytes arrive\<close>

lemma head_value_append:
  "head_len \<le> length s \<Longrightarrow> s \<noteq> [] \<Longrightarrow> head_value (s @ t) head_len = head_value s head_len"
  by (auto simp: head_value_def nth_append Let_def)

lemma decode_head_append:
  "decode_head c s = Inr (Some (n, s')) \<Longrightarrow> decode_head c (s @ t) = Inr (Some (n, s' @ t))"
  by (auto simp: decode_head_def Let_def nth_append head_value_append split: if_splits)

lemma decode_head_append_error:
  "decode_head c s = Inl e \<Longrightarrow> decode_head c (s @ t) = Inl e"
  by (auto simp: decode_head_def Let_def nth_append head_value_append split: if_splits)

lemma decode_append_frame:
  "\<not> raw c \<Longrightarrow> decode c s = (Inr (Some f), c', s') \<Longrightarrow>
     decode c (s @ t) = (Inr (Some f), c', s' @ t)"
  by (auto simp: decode_def decode_data_def decode_head_append
      split: if_splits sum.splits option.splits DecodeState.splits prod.splits)

lemma decode_append_error:
  "\<not> raw c \<Longrightarrow> decode c s = (Inl e, c', s') \<Longrightarrow> decode c (s @ t) = (Inl e, c', s' @ t)"
  by (auto simp: decode_def decode_data_def decode_head_append_error
      split: if_splits sum.splits option.splits DecodeState.splits prod.splits)

lemma decode_append_wait:
  assumes "\<not> raw c" and "decode c s = (Inr None, c', s')"
  shows "decode c (s @ t) = decode c' (s' @ t)"
proof (cases "state c")
  case Head
  show ?thesis
  proof (cases "decode_head c s")
    case (Inl e)
    with assms Head show ?thesis by (simp add: decode_def)
  next
    case (Inr r)
    show ?thesis
    proof (cases r)
      case None
      with assms Head Inr show ?thesis by (simp add: decode_def)
    next
      case (Some p)
      obtain n s1 where p: "p = (n, s1)" by (cases p)
      with Inr Some have h: "decode_head c s = Inr (Some (n, s1))" by simp
      from assms Head h have "c' = c\<lparr>state := Data n\<rparr>" and "s' = s1"
        by (auto simp: decode_def split: option.splits)
      with assms(1) Head decode_head_append [OF h, of t] show ?thesis
        by (auto simp: decode_def split: option.splits)
    qed
  qed
next
  case (Data n)
  with assms show ?thesis
    by (auto simp: decode_def split: option.splits)
qed

lemma raw_decode: "decode c s = (r, c', s') \<Longrightarrow> raw c' = raw c"
  by (auto simp: decode_def split: if_splits sum.splits option.splits DecodeState.splits)

lemma drain_append:
  assumes "\<not> raw c" and "drain c s = (fs, e, c', s')"
  shows "drain c (s @ t) =
    (case e of
       Some _ \<Rightarrow> (fs, e, c', s' @ t)
     | None \<Rightarrow> (let (gs, r) = drain c' (s' @ t) in (fs @ gs, r)))"
  using assms
proof (induction c s arbitrary: fs rule: drain.induct)
  case (1 c s)
  obtain d c1 s1 where d: "decode c s = (d, c1, s1)" by (cases "decode c s") auto
  show ?case
  proof (cases d)
    case (Inl er)
    with "1.prems" d show ?thesis
      by (auto simp: drain.simps [of c s] drain.simps [of c "s @ t"] decode_append_error)
  next
    case (Inr r)
    show ?thesis
    proof (cases r)
      case None
      with d Inr have dn: "decode c s = (Inr None, c1, s1)" by simp
      have "drain c (s @ t) = drain c1 (s1 @ t)"
        by (subst (1 2) drain.simps) (simp add: decode_append_wait [OF "1.prems"(1) dn])
      with dn "1.prems" show ?thesis
        by (auto simp: drain.simps [of c s] split: prod.splits)
    next
      case (Some f)
      with d Inr have df: "decode c s = (Inr (Some f), c1, s1)" by simp
      obtain gs r1 where g: "drain c1 s1 = (gs, r1)" by (cases "drain c1 s1")
      with df "1.prems"(2) have r1: "r1 = (e, c', s')" and fs: "fs = f # gs"
        by (auto simp: drain.simps [of c s])
      have "\<not> raw c1" using raw_decode [OF df] "1.prems"(1) by simp
      with "1.IH" [OF df [symmetric] refl refl refl] g r1 have ih: "drain c1 (s1 @ t) =
          (case e of Some _ \<Rightarrow> (gs, e, c', s' @ t)
           | None \<Rightarrow> (let (hs, r) = drain c' (s' @ t) in (gs @ hs, r)))"
        by blast
      have "drain c (s @ t) = (let (hs, r) = drain c1 (s1 @ t) in (f # hs, r))"
        by (subst drain.simps) (simp add: decode_append_frame [OF "1.prems"(1) df])
      with ih fs show ?thesis by (auto split: option.splits prod.splits)
    qed
  qed
qed

section \<open>Round trip\<close>

lemma bit_usize_bound:
  fixes len :: usize
  assumes "unat len < 2 ^ k" and "bit len i"
  shows "i < k"
proof (rule ccontr)
  assume "\<not> i < k"
  then have "(2 :: nat) ^ k \<le> 2 ^ i" by simp
  with assms(1) have "unat len < 2 ^ i" by (rule less_le_trans)
  then have "unat len div 2 ^ i = 0" by (rule div_less)
  moreover have "bit (unat len) i" using assms(2) by (simp add: bit_unsigned_iff)
  ultimately show False by (simp add: bit_iff_odd)
qed

lemma head_1:
  fixes len :: usize
  assumes "unat len < 2 ^ 6"
  shows "drop_bit 2 (ucast (ucast (push_bit 2 len) :: u8)) = len"
proof (rule bit_word_eqI)
  fix i assume "i < LENGTH(64)"
  show "bit (drop_bit 2 (ucast (ucast (push_bit 2 len) :: u8)) :: usize) i = bit len i"
    using bit_usize_bound [OF assms, of i] \<open>i < LENGTH(64)\<close> by (auto simp: bit_simps)
qed

text \<open>Reassembling the little-endian bytes of a word gives the word back.\<close>

lemma length_put [simp]: "length (put_u16_le w) = 2" "length (put_u32_le v) = 4"
  by (simp_all add: put_u16_le_def put_u32_le_def)

lemma put_nonempty [simp]: "put_u16_le w \<noteq> []" "put_u32_le v \<noteq> []"
  by (simp_all add: put_u16_le_def put_u32_le_def)

lemma bytes_2:
  "ucast (ucast h :: u8) OR push_bit 8 (ucast (ucast (drop_bit 8 h) :: u8))
     = (ucast (h :: u16) :: usize)"
proof (rule bit_word_eqI)
  fix i :: nat
  consider "i < 8" | "8 \<le> i" by linarith
  then show "bit (ucast (ucast h :: u8) OR push_bit 8 (ucast (ucast (drop_bit 8 h) :: u8)) :: usize) i
      = bit (ucast h :: usize) i"
    by cases (auto simp: bit_simps dest: bit_imp_le_length)
qed

lemma bytes_3:
  "ucast (ucast (take_bit 16 h) :: u16) OR push_bit 16 (ucast (ucast (drop_bit 16 h) :: u8))
     = (ucast (take_bit 24 (h :: u32)) :: usize)"
proof (rule bit_word_eqI)
  fix i :: nat
  consider "i < 16" | "16 \<le> i" by linarith
  then show "bit (ucast (ucast (take_bit 16 h) :: u16) OR push_bit 16 (ucast (ucast (drop_bit 16 h) :: u8)) :: usize) i
      = bit (ucast (take_bit 24 h) :: usize) i"
    by cases (auto simp: bit_simps dest: bit_imp_le_length)
qed

lemma bytes_4:
  "((ucast (ucast h :: u8) OR push_bit 8 (ucast (ucast (drop_bit 8 h) :: u8)))
     OR push_bit 16 (ucast (ucast (drop_bit 16 h) :: u8)))
     OR push_bit 24 (ucast (ucast (drop_bit 24 h) :: u8)) = (ucast (h :: u32) :: usize)"
proof (rule bit_word_eqI)
  fix i :: nat
  consider "i < 8" | "8 \<le> i \<and> i < 16" | "16 \<le> i \<and> i < 24" | "24 \<le> i" by linarith
  then show "bit (((ucast (ucast h :: u8) OR push_bit 8 (ucast (ucast (drop_bit 8 h) :: u8)))
     OR push_bit 16 (ucast (ucast (drop_bit 16 h) :: u8)))
     OR push_bit 24 (ucast (ucast (drop_bit 24 h) :: u8)) :: usize) i = bit (ucast h :: usize) i"
    by cases (auto simp: bit_simps dest: bit_imp_le_length)
qed

lemma head_value_2: "head_value (put_u16_le h @ rest) 2 = drop_bit 2 (ucast h)"
  by (simp add: head_value_def put_u16_le_def bytes_2 del: drop_bit_or)

lemma head_value_3:
  "head_value (put_u16_le (ucast (take_bit 16 h)) @ ucast (drop_bit 16 h) # rest) 3
     = drop_bit 2 (ucast (take_bit 24 h))" for h :: u32
  by (simp add: head_value_def put_u16_le_def bytes_2 bytes_3 del: drop_bit_or)

lemma head_value_4: "head_value (put_u32_le h @ rest) 4 = drop_bit 2 (ucast h)"
  by (simp add: head_value_def put_u32_le_def bytes_4 del: drop_bit_or)

text \<open>Bits of the numerals that tag the head.\<close>

lemma bit_tag:
  "bit (1 :: u16) i \<longleftrightarrow> i = 0" "bit (2 :: u32) i \<longleftrightarrow> i = 1" "bit (3 :: u32) i \<longleftrightarrow> i < 2"
  using bit_exp_iff [of 1 i, where ?'a = u32] bit_mask_iff [of 2 i, where ?'a = u32]
  by (auto simp: bit_1_iff mask_numeral possible_bit_def)

lemma head_2:
  fixes len :: usize
  assumes "unat len < 2 ^ 14"
  shows "drop_bit 2 (ucast ((ucast (push_bit 2 len) :: u16) OR 1)) = len"
proof (rule bit_word_eqI)
  fix i assume "i < LENGTH(64)"
  show "bit (drop_bit 2 (ucast ((ucast (push_bit 2 len) :: u16) OR 1)) :: usize) i = bit len i"
    using bit_usize_bound [OF assms, of i] by (auto simp: bit_simps bit_tag)
qed

lemma head_3:
  fixes len :: usize
  assumes "unat len < 2 ^ 22"
  shows "drop_bit 2 (ucast (take_bit 24 ((ucast (push_bit 2 len) :: u32) OR 2))) = len"
proof (rule bit_word_eqI)
  fix i assume "i < LENGTH(64)"
  show "bit (drop_bit 2 (ucast (take_bit 24 ((ucast (push_bit 2 len) :: u32) OR 2))) :: usize) i = bit len i"
    using bit_usize_bound [OF assms, of i] by (auto simp: bit_simps bit_tag)
qed

lemma head_4:
  fixes len :: usize
  assumes "unat len < 2 ^ 30"
  shows "drop_bit 2 (ucast ((ucast (push_bit 2 len) :: u32) OR 3)) = len"
proof (rule bit_word_eqI)
  fix i assume "i < LENGTH(64)"
  show "bit (drop_bit 2 (ucast ((ucast (push_bit 2 len) :: u32) OR 3)) :: usize) i = bit len i"
    using bit_usize_bound [OF assms, of i] by (auto simp: bit_simps bit_tag)
qed

lemma head_length_low_bits:
  "bit b 0 = x \<Longrightarrow> bit b (Suc 0) = y \<Longrightarrow> head_length b = 1 + of_bool x + 2 * of_bool y"
proof -
  assume b: "bit b 0 = x" "bit b (Suc 0) = y"
  have "b AND 3 = take_bit 2 b"
    by (simp add: take_bit_eq_mask mask_numeral)
  also have "\<dots> = of_bool x + 2 * of_bool y"
    using b by (auto simp: numeral_2_eq_2 take_bit_Suc bit_Suc bit_0 mod_2_eq_odd)
  finally show ?thesis by (cases x; cases y) (simp_all add: head_length_def)
qed

lemma encode_head_correct:
  assumes "encode_head len = Inr h"
  shows "h \<noteq> []" and "length h = head_length (h ! 0)" and "head_value (h @ rest) (length h) = len"
proof -
  have mask16: "x AND 0xFFFF = take_bit 16 x" for x :: u32
    by (simp add: take_bit_eq_mask mask_numeral)
  have "(h \<noteq> [] \<and> length h = head_length (h ! 0)) \<and> head_value (h @ rest) (length h) = len"
  proof -
    consider (a) "len \<le> 0x3F" | (b) "\<not> len \<le> 0x3F" "len \<le> 0x3FFF"
      | (c) "\<not> len \<le> 0x3F" "\<not> len \<le> 0x3FFF" "len \<le> 0x3FFFFF"
      | (d) "\<not> len \<le> 0x3F" "\<not> len \<le> 0x3FFF" "\<not> len \<le> 0x3FFFFF" "len \<le> 0x3FFFFFFF"
      using assms by (auto simp: encode_head_def split: if_splits)
    then show ?thesis
    proof cases
      case a
      then have "unat len < 2 ^ 6" by (simp add: word_le_nat_alt)
      moreover from a assms have h: "h = [ucast (push_bit 2 len)]"
        by (simp add: encode_head_def)
      moreover have "head_length (h ! 0) = 1"
        unfolding h by (subst head_length_low_bits [OF refl refl]) (simp add: bit_simps)
      ultimately show ?thesis
        using head_1 [of len] by (simp add: head_value_def)
    next
      case b
      then have "unat len < 2 ^ 14" by (simp add: word_le_nat_alt)
      moreover from b assms have h: "h = put_u16_le (ucast (push_bit 2 len) OR 1)"
        by (simp add: encode_head_def)
      moreover have "head_length (h ! 0) = 2"
        unfolding h put_u16_le_def by (subst head_length_low_bits [OF refl refl]) (simp add: bit_simps bit_tag)
      ultimately show ?thesis
        using head_2 [of len] head_value_2 [of _ rest] by simp
    next
      case c
      define w :: u32 where "w = ucast (push_bit 2 len) OR 2"
      from c have "unat len < 2 ^ 22" by (simp add: word_le_nat_alt)
      then have v: "drop_bit 2 (ucast (take_bit 24 w)) = len"
        unfolding w_def by (rule head_3)
      from c assms have h: "h = put_u16_le (ucast (take_bit 16 w)) @ [ucast (drop_bit 16 w)]"
        by (simp add: encode_head_def Let_def mask16 flip: w_def)
      moreover have "head_length (h ! 0) = 3"
        unfolding h put_u16_le_def w_def
        by (subst head_length_low_bits [OF refl refl]) (simp add: bit_simps bit_tag)
      ultimately show ?thesis
        using v head_value_3 [of w rest] by simp
    next
      case d
      then have "unat len < 2 ^ 30" by (simp add: word_le_nat_alt)
      moreover from d assms have h: "h = put_u32_le (ucast (push_bit 2 len) OR 3)"
        by (simp add: encode_head_def)
      moreover have "head_length (h ! 0) = 4"
        unfolding h put_u32_le_def by (subst head_length_low_bits [OF refl refl]) (simp add: bit_simps bit_tag)
      ultimately show ?thesis
        using head_4 [of len] head_value_4 [of _ rest] by simp
    qed
  qed
  then show "h \<noteq> []" "length h = head_length (h ! 0)" "head_value (h @ rest) (length h) = len"
    by auto
qed

lemma decode_encode:
  assumes "\<not> raw c" and "state c = Head"
    and "encode c data [] = Inr enc" and "length data \<le> unat (max_packet_length c)"
  shows "decode c (enc @ rest) = (Inr (Some data), c, rest)"
proof -
  let ?len = "word_of_nat (length data) :: usize"
  have "length data < 2 ^ 64"
    using assms(4) unsigned_less [of "max_packet_length c", where ?'a = nat] by simp
  then have len: "unat ?len = length data"
    by (simp add: unat_of_nat)
  from assms(1,3) obtain h where h: "encode_head ?len = Inr h" and enc: "enc = h @ data"
    by (auto simp: encode_def split: sum.splits)
  note hc = encode_head_correct [OF h]
  have "decode_head c (enc @ rest) = Inr (Some (?len, data @ rest))"
    using hc(1) hc(2) [symmetric] hc(3) [of "data @ rest"] assms(4) len
    by (simp add: decode_head_def enc nth_append Let_def word_less_nat_alt)
  with assms(1,2) len show ?thesis
    by (simp add: decode_def decode_data_def)
qed

fun encode_all :: "BytesCodec \<Rightarrow> bytes list \<Rightarrow> codec_error + bytes" where
  "encode_all c [] = Inr []"
| "encode_all c (d # ds) =
     (case encode c d [] of
        Inl e \<Rightarrow> Inl e
      | Inr enc \<Rightarrow> (case encode_all c ds of Inl e \<Rightarrow> Inl e | Inr r \<Rightarrow> Inr (enc @ r)))"

lemma drain_encode_all:
  "\<not> raw c \<Longrightarrow> state c = Head \<Longrightarrow> encode_all c ds = Inr enc \<Longrightarrow>
     list_all (\<lambda>d. length d \<le> unat (max_packet_length c)) ds \<Longrightarrow> drain c enc = (ds, None, c, [])"
proof (induction ds arbitrary: enc)
  case Nil
  then have "decode c [] = (Inr None, c, [])"
    by (simp add: decode_def decode_head_def)
  with Nil.prems show ?case
    by (simp add: drain.simps [of c "[]"])
next
  case (Cons d ds)
  then obtain e r where e: "encode c d [] = Inr e" and r: "encode_all c ds = Inr r"
    and enc: "enc = e @ r"
    by (auto split: sum.splits)
  with Cons have "drain c r = (ds, None, c, [])" by simp
  moreover have "decode c (e @ r) = (Inr (Some d), c, r)"
    using Cons.prems e by (intro decode_encode) simp_all
  ultimately show ?case
    by (simp add: drain.simps [of c "e @ r"] enc)
qed

lemma decode_within_limit:
  assumes "\<not> raw c" and "codec_within_limit c" and "decode c s = (r, c', s')"
  shows "codec_within_limit c' \<and> max_packet_length c' = max_packet_length c
     \<and> (\<forall>f. r = Inr (Some f) \<longrightarrow> length f \<le> unat (max_packet_length c))"
  using assms
  by (auto simp: decode_def decode_data_def decode_head_def codec_within_limit_def Let_def
      word_le_nat_alt word_less_nat_alt
      split: if_splits sum.splits option.splits DecodeState.splits prod.splits)

lemma drain_within_limit:
  assumes "\<not> raw c" and "codec_within_limit c" and "drain c s = (fs, e, c', s')"
  shows "codec_within_limit c' \<and> max_packet_length c' = max_packet_length c
     \<and> list_all (\<lambda>f. length f \<le> unat (max_packet_length c)) fs"
  using assms
proof (induction c s arbitrary: fs rule: drain.induct)
  case (1 c s)
  obtain d c1 s1 where d: "decode c s = (d, c1, s1)" by (cases "decode c s") auto
  note lim = decode_within_limit [OF "1.prems"(1,2) d]
  show ?case
  proof (cases "\<exists>f. d = Inr (Some f)")
    case True
    then obtain f where f: "d = Inr (Some f)" by blast
    with d have df: "decode c s = (Inr (Some f), c1, s1)" by simp
    obtain gs where g: "drain c1 s1 = (gs, e, c', s')" and fs: "fs = f # gs"
      using "1.prems"(3) df by (cases "drain c1 s1") (auto simp: drain.simps [of c s])
    have "\<not> raw c1" using raw_decode [OF df] "1.prems"(1) by simp
    with "1.IH" [OF df [symmetric] refl refl refl] g lim f fs show ?thesis by auto
  next
    case False
    with "1.prems"(3) d lim show ?thesis
      by (auto simp: drain.simps [of c s] split: sum.splits option.splits)
  qed
qed

section \<open>Properties\<close>

text \<open>C25: encoding a sequence of messages (each within the size limit) and reading the bytes
  back in two arbitrary pieces yields exactly the messages, in order, whatever the split; the codec
  is back in its initial state and nothing is left over.\<close>

theorem codec_roundtrip_chunked:
  assumes "\<not> raw c" and "state c = Head" and "encode_all c ds = Inr (p @ q)"
    and "list_all (\<lambda>d. length d \<le> unat (max_packet_length c)) ds"
  shows "\<exists>fs gs c' s'. drain c p = (fs, None, c', s') \<and>
     drain c' (s' @ q) = (gs, None, c, []) \<and> fs @ gs = ds"
proof -
  have all: "drain c (p @ q) = (ds, None, c, [])"
    using assms by (rule drain_encode_all)
  obtain fs e c' s' where d: "drain c p = (fs, e, c', s')"
    by (cases "drain c p") auto
  from all drain_append [OF assms(1) d, of q] have "e = None"
    by (cases e) auto
  with all d drain_append [OF assms(1) d, of q] show ?thesis
    by (auto split: prod.splits)
qed

theorem codec_roundtrip_chunked_witness:
  "\<exists>fs gs c' s'. drain codec_new [8] = (fs, None, c', s') \<and>
     drain c' (s' @ [7, 9]) = (gs, None, codec_new, []) \<and> fs @ gs = [[7, 9]]"
proof (rule codec_roundtrip_chunked)
  show "encode_all codec_new [[7, 9]] = Inr ([8] @ [7, 9])"
    by (simp add: encode_def encode_head_def codec_new_def)
qed (simp_all add: codec_new_def unsigned_minus_1_eq_mask mask_numeral)

text \<open>C26: the frames read from a byte stream do not depend on how the stream is cut: reading
  \<open>s\<close> and then the rest \<open>t\<close> gives the same frames, error, codec state and left-over bytes as
  reading them together.\<close>

theorem drain_chunk_independent:
  assumes "\<not> raw c"
  shows "drain c (s @ t) =
    (case drain c s of
       (fs, Some e, c', s') \<Rightarrow> (fs, Some e, c', s' @ t)
     | (fs, None, c', s') \<Rightarrow> (let (gs, r) = drain c' (s' @ t) in (fs @ gs, r)))"
  using drain_append [OF assms, of s _ _ _ _ t] by (auto split: option.splits prod.splits)

theorem drain_chunk_independent_witness:
  "drain codec_new ([8] @ [7, 9]) =
    (case drain codec_new [8] of
       (fs, Some e, c', s') \<Rightarrow> (fs, Some e, c', s' @ [7, 9])
     | (fs, None, c', s') \<Rightarrow> (let (gs, r) = drain c' (s' @ [7, 9]) in (fs @ gs, r)))"
  by (rule drain_chunk_independent) (simp add: codec_new_def)

text \<open>a codec with a packet limit never returns a longer frame, whatever bytes the peer sends,
  and it refuses a head that announces more with \<open>TooBigPacket\<close>, leaving the buffer untouched.\<close>

theorem packet_limit_enforced:
  assumes "\<not> raw c" and "codec_within_limit c"
  shows "(case drain c s of (fs, e, c', s') \<Rightarrow>
            codec_within_limit c' \<and> list_all (\<lambda>f. length f \<le> unat (max_packet_length c)) fs)
     \<and> (\<forall>n. state c = Head \<and> s \<noteq> [] \<and> head_length (s ! 0) \<le> length s
           \<and> head_value s (head_length (s ! 0)) = n \<and> n > max_packet_length c
         \<longrightarrow> decode c s = (Inl TooBigPacket, c, s))"
  using assms drain_within_limit [OF assms, of s]
  by (auto simp: decode_def decode_head_def Let_def split: prod.splits)

theorem packet_limit_enforced_witness:
  "decode (set_max_packet_length 1 codec_new) [8, 7, 9]
     = (Inl TooBigPacket, set_max_packet_length 1 codec_new, [8, 7, 9])"
proof -
  let ?c = "set_max_packet_length 1 codec_new"
  have "\<not> raw ?c" "codec_within_limit ?c" "state ?c = Head" "max_packet_length ?c = 1"
    by (simp_all add: set_max_packet_length_def codec_new_def codec_within_limit_def)
  moreover have "head_length 8 = 1" "head_value [8, 7, 9] 1 = 2"
    by (simp_all add: head_length_def head_value_def)
  ultimately show ?thesis
    using packet_limit_enforced [of ?c "[8, 7, 9]"] by simp
qed

end
