(* ===== verification/Addr_Mangle.thy ===== *)
theory Addr_Mangle
  imports Prelude
begin

text \<open>
  \<open>AddrMangle\<close> of \<open>libs/hbb_common/src/lib.rs\<close>: socket addresses are hidden from packet
  inspection by mixing them with a time stamp. The clock is an argument of \<open>mangle_encode\<close>
  (\<open>tm\<close>, the low 32 bits of the microseconds since the epoch). Arithmetic is that of the
  release profile, where an unsigned subtraction wraps.
\<close>

section \<open>Socket addresses and their encoding\<close>

text \<open>An IPv4 address is its four octets, an IPv6 address its sixteen; a V6 socket address also
  has a flow label and a scope.\<close>

datatype SocketAddr = V4 bytes u16 | V6 bytes u16 u32 u32

fun wf_addr :: "SocketAddr \<Rightarrow> bool" where
  "wf_addr (V4 ip _) = (length ip = 4)"
| "wf_addr (V6 ip _ _ _) = (length ip = 16)"

definition is_loopback_v6 :: "bytes \<Rightarrow> bool" where
  "is_loopback_v6 ip \<longleftrightarrow> ip = replicate 15 0 @ [1]"

text \<open>\<open>Ipv6Addr::to_ipv4\<close>: the IPv4-mapped and the IPv4-compatible addresses.\<close>

definition to_ipv4 :: "bytes \<Rightarrow> bytes option" where
  "to_ipv4 ip =
     (if take 10 ip = replicate 10 0 \<and> (take 2 (drop 10 ip) = [0, 0] \<or> take 2 (drop 10 ip) = [255, 255])
      then Some (drop 12 ip) else None)"

fun try_into_v4 :: "SocketAddr \<Rightarrow> SocketAddr" where
  "try_into_v4 (V6 ip port fl sc) =
     (if \<not> is_loopback_v6 ip then
        (case to_ipv4 ip of Some v4 \<Rightarrow> V4 v4 port | None \<Rightarrow> V6 ip port fl sc)
      else V6 ip port fl sc)"
| "try_into_v4 a = a"

definition to_le_bytes :: "u128 \<Rightarrow> bytes" where
  "to_le_bytes v = map (\<lambda>i. ucast (drop_bit (8 * i) v)) [0..<16]"

fun from_le_bytes :: "bytes \<Rightarrow> u128" where
  "from_le_bytes [] = 0"
| "from_le_bytes (b # bs) = ucast b OR push_bit 8 (from_le_bytes bs)"

definition count_padding :: "bytes \<Rightarrow> nat" where
  "count_padding bs = length (takeWhile (\<lambda>b. b = 0) (rev bs))"

definition mangle_value :: "u32 \<Rightarrow> u32 \<Rightarrow> u16 \<Rightarrow> u128" where
  "mangle_value tm ip port =
     (let tm = ucast tm; ip = ucast ip; port = ucast port
      in push_bit 49 (ip + tm) OR push_bit 17 tm OR (port + (tm AND 0xFFFF)))"

fun mangle_encode :: "u32 \<Rightarrow> SocketAddr \<Rightarrow> bytes" where
  "mangle_encode tm addr =
     (case try_into_v4 addr of
        V4 ip port \<Rightarrow>
          (let v = mangle_value tm (ucast (from_le_bytes ip)) port;
               bs = to_le_bytes v
           in take (16 - count_padding bs) bs)
      | V6 ip port _ _ \<Rightarrow> ip @ [ucast port, ucast (drop_bit 8 port)])"

definition get_any_listen_addr :: "bool \<Rightarrow> SocketAddr" where
  "get_any_listen_addr is_ipv4 =
     (if is_ipv4 then V4 (replicate 4 0) 0 else V6 (replicate 16 0) 0 0 0)"

definition mangle_decode :: "bytes \<Rightarrow> SocketAddr" where
  "mangle_decode bs =
     (if length bs > 16 then
        (if length bs \<noteq> 18 then get_any_listen_addr False
         else V6 (take 16 bs) (ucast (from_le_bytes (drop 16 bs))) 0 0)
      else
        (let number = from_le_bytes (bs @ replicate (16 - length bs) 0);
             tm = drop_bit 17 number AND 0xFFFFFFFF;
             ip = (ucast (drop_bit 49 number - tm) :: u32);
             port = (number AND 0xFFFFFF) - (tm AND 0xFFFF)
         in V4 [ucast ip, ucast (drop_bit 8 ip), ucast (drop_bit 16 ip), ucast (drop_bit 24 ip)]
              (ucast port)))"

section \<open>Little-endian bytes\<close>

lemma bit_from_le_bytes:
  "bit (from_le_bytes bs) i \<longleftrightarrow> i < 128 \<and> i div 8 < length bs \<and> bit (bs ! (i div 8)) (i mod 8)"
proof (induction bs arbitrary: i)
  case Nil
  then show ?case by simp
next
  case (Cons b bs)
  show ?case
  proof (cases "i < 8")
    case True
    then show ?thesis by (auto simp: bit_simps)
  next
    case False
    then have i: "i div 8 = Suc ((i - 8) div 8)" "i mod 8 = (i - 8) mod 8"
      by (simp_all add: le_div_geq le_mod_geq)
    from False have "bit (from_le_bytes (b # bs)) i \<longleftrightarrow> i < 128 \<and> bit (from_le_bytes bs) (i - 8)"
      by (auto simp: bit_simps dest: bit_imp_le_length)
    with Cons [of "i - 8"] False i show ?thesis by auto
  qed
qed

lemma nth_to_le_bytes: "k < 16 \<Longrightarrow> to_le_bytes v ! k = ucast (drop_bit (8 * k) v)"
  unfolding to_le_bytes_def by (subst nth_map_upt) simp_all

lemma length_to_le_bytes [simp]: "length (to_le_bytes v) = 16"
  by (simp only: to_le_bytes_def length_map length_upt)

lemma bit_nth_to_le_bytes:
  "k < 16 \<Longrightarrow> j < 8 \<Longrightarrow> bit (to_le_bytes v ! k) j \<longleftrightarrow> bit v (8 * k + j)"
  by (auto simp: nth_to_le_bytes bit_simps dest: bit_imp_le_length)

lemma from_to_le_bytes: "from_le_bytes (to_le_bytes v) = v"
proof (rule bit_word_eqI)
  fix i assume i: "i < LENGTH(128)"
  then have i128: "i < 128" by simp
  then have "i div 8 < 16" by simp
  then have "bit (to_le_bytes v ! (i div 8)) (i mod 8) \<longleftrightarrow> bit v (8 * (i div 8) + i mod 8)"
    by (intro bit_nth_to_le_bytes) simp_all
  moreover have "bit (from_le_bytes (to_le_bytes v)) i \<longleftrightarrow> bit (to_le_bytes v ! (i div 8)) (i mod 8)"
    by (simp only: bit_from_le_bytes length_to_le_bytes i128 \<open>i div 8 < 16\<close> simp_thms)
  ultimately show "bit (from_le_bytes (to_le_bytes v)) i = bit v i"
    by (simp only: mult_div_mod_eq)
qed

lemma strip_padding: "take (length bs - count_padding bs) bs @ replicate (count_padding bs) 0 = bs"
proof -
  let ?z = "takeWhile (\<lambda>b. b = 0) (rev bs)" and ?r = "dropWhile (\<lambda>b. b = 0) (rev bs)"
  have "replicate (length ?z) 0 = ?z"
    by (rule replicate_length_same) (auto dest: set_takeWhileD)
  then have z: "rev ?z = replicate (length ?z) 0"
    using rev_replicate [of "length ?z" "0 :: u8"] by simp
  have "rev bs = ?z @ ?r" by simp
  then have bs: "bs = rev ?r @ rev ?z"
    by (metis rev_append rev_swap)
  have "take (length bs - length ?z) bs = rev ?r"
    using arg_cong [OF bs, of "take (length bs - length ?z)"] arg_cong [OF bs, of length] by simp
  with bs z show ?thesis
    unfolding count_padding_def by simp
qed

lemma count_padding_le: "count_padding bs \<le> length bs"
  unfolding count_padding_def by (metis length_rev length_takeWhile_le)

text \<open>The decoder sees the sixteen bytes again, whatever was stripped.\<close>

lemma padded_encode:
  fixes v :: u128
  defines "bs \<equiv> to_le_bytes v"
  defines "enc \<equiv> take (16 - count_padding bs) bs"
  shows "length enc \<le> 16" and "from_le_bytes (enc @ replicate (16 - length enc) 0) = v"
proof -
  show "length enc \<le> 16" by (simp add: enc_def bs_def)
  have "16 - length enc = count_padding bs"
    using count_padding_le [of bs] by (simp add: enc_def bs_def)
  then show "from_le_bytes (enc @ replicate (16 - length enc) 0) = v"
    using strip_padding [of bs] by (simp add: enc_def bs_def from_to_le_bytes)
qed

section \<open>Unpacking the mangled number\<close>

lemma and_mask128: "x AND 0xFFFF = take_bit 16 x" "x AND 0xFFFFFF = take_bit 24 x"
  "x AND 0xFFFFFFFF = take_bit 32 x" for x :: u128
  by (simp_all add: take_bit_eq_mask mask_numeral)

lemma bit_bound128:
  fixes x :: u128
  assumes "unat x < 2 ^ k" and "bit x i"
  shows "i < k"
proof (rule ccontr)
  assume "\<not> i < k"
  then have "(2 :: nat) ^ k \<le> 2 ^ i" by simp
  with assms(1) have "unat x < 2 ^ i" by (rule less_le_trans)
  then have "unat x div 2 ^ i = 0" by (rule div_less)
  moreover have "bit (unat x) i" using assms(2) by (simp add: bit_unsigned_iff)
  ultimately show False by (simp add: bit_iff_odd)
qed

lemma unat_add_128:
  "unat (x :: u128) < 2 ^ 64 \<Longrightarrow> unat (y :: u128) < 2 ^ 64 \<Longrightarrow> unat (x + y) = unat x + unat y"
  by (subst unat_add_lem [THEN iffD1]) simp_all

lemma unat_and_mask16: "unat (x AND 0xFFFF :: u128) < 2 ^ 16"
proof -
  have "unat (x AND 0xFFFF) \<le> unat (0xFFFF :: u128)"
    by (rule word_and_le1 [THEN word_le_nat_alt [THEN iffD1]])
  then show ?thesis by simp
qed

lemma unpack_number:
  fixes a t low :: u128
  assumes "unat a < 2 ^ 33" and "unat t < 2 ^ 32" and "unat low < 2 ^ 17"
  defines "v \<equiv> push_bit 49 a OR push_bit 17 t OR low"
  shows "drop_bit 17 v AND 0xFFFFFFFF = t" and "drop_bit 49 v = a"
    and "(ucast (v AND 0xFFFFFF) :: u16) = ucast low"
proof -
  note b = bit_bound128 [OF assms(1)] bit_bound128 [OF assms(2)] bit_bound128 [OF assms(3)]
  show "drop_bit 17 v AND 0xFFFFFFFF = t"
    unfolding and_mask128 v_def by (rule bit_word_eqI) (auto simp: bit_simps dest: b)
  show "drop_bit 49 v = a"
    unfolding v_def by (rule bit_word_eqI) (auto simp: bit_simps dest: b)
  show "(ucast (v AND 0xFFFFFF) :: u16) = ucast low"
    unfolding and_mask128 v_def by (rule bit_word_eqI) (auto simp: bit_simps)
qed

lemma take_bit_16_of_128:
  "take_bit 16 (take_bit 128 x + take_bit 128 y) = take_bit 16 (x + y)"
  "take_bit 16 (take_bit 128 x - take_bit 128 y) = take_bit 16 (x - y)" for x y :: int
proof -
  have t: "take_bit 16 (take_bit 128 z) = take_bit 16 z" for z :: int
    by simp
  show "take_bit 16 (take_bit 128 x + take_bit 128 y) = take_bit 16 (x + y)"
    by (metis t take_bit_add)
  show "take_bit 16 (take_bit 128 x - take_bit 128 y) = take_bit 16 (x - y)"
    by (metis t take_bit_diff)
qed

lemma ucast_u16_arith:
  "(ucast (x + y) :: u16) = ucast x + ucast y" "(ucast (x - y) :: u16) = ucast x - ucast y"
  for x y :: u128
  by (transfer, simp add: take_bit_16_of_128)+

lemma unat_up_128: "unat (ucast x :: u128) = unat x" "unat (ucast y :: u128) = unat y"
  for x :: u32 and y :: u16
  by (transfer, simp)+

lemma unmangle:
  fixes tm ip :: u32 and port :: u16
  defines "v \<equiv> mangle_value tm ip port"
  defines "t \<equiv> drop_bit 17 v AND 0xFFFFFFFF"
  shows "(ucast (drop_bit 49 v - t) :: u32) = ip"
    and "(ucast ((v AND 0xFFFFFF) - (t AND 0xFFFF)) :: u16) = port"
proof -
  let ?t = "ucast tm :: u128" and ?ip = "ucast ip :: u128" and ?p = "ucast port :: u128"
  have u: "unat ?t < 2 ^ 32" "unat ?ip < 2 ^ 32" "unat ?p < 2 ^ 16"
    using unsigned_less [of tm, where ?'a = nat] unsigned_less [of ip, where ?'a = nat]
      unsigned_less [of port, where ?'a = nat]
    by (simp_all add: unat_up_128)
  have a: "unat (?ip + ?t) < 2 ^ 33"
    using u by (simp add: unat_add_128)
  have low: "unat (?p + (?t AND 0xFFFF)) < 2 ^ 17"
    using u unat_and_mask16 [of ?t] by (simp add: unat_add_128)
  have v: "v = push_bit 49 (?ip + ?t) OR push_bit 17 ?t OR (?p + (?t AND 0xFFFF))"
    by (simp add: v_def mangle_value_def Let_def)
  note un = unpack_number [OF a u(1) low, folded v]
  have t: "t = ?t" using un(1) by (simp add: t_def)
  show "(ucast (drop_bit 49 v - t) :: u32) = ip"
    using un(2) by (simp add: t ucast_up_ucast_id is_up)
  have "(ucast ((v AND 0xFFFFFF) - (t AND 0xFFFF)) :: u16)
      = ucast (?p + (?t AND 0xFFFF)) - ucast (?t AND 0xFFFF)"
    using un(3) by (simp add: t ucast_u16_arith)
  also have "\<dots> = port"
    by (simp add: ucast_u16_arith ucast_up_ucast_id is_up)
  finally show "(ucast ((v AND 0xFFFFFF) - (t AND 0xFFFF)) :: u16) = port" .
qed

lemma from_le_bytes_4:
  assumes "length ip = 4"
  defines "w \<equiv> (ucast (from_le_bytes ip) :: u32)"
  shows "[ucast w, ucast (drop_bit 8 w), ucast (drop_bit 16 w), ucast (drop_bit 24 w)] = ip"
proof (rule nth_equalityI)
  have byte: "ucast (drop_bit (8 * k) w) = ip ! k" if "k < 4" for k
  proof (rule bit_word_eqI)
    fix j assume "j < LENGTH(8)"
    then have "(8 * k + j) div 8 = k" "(8 * k + j) mod 8 = j" by simp_all
    with \<open>j < LENGTH(8)\<close> that show "bit (ucast (drop_bit (8 * k) w) :: u8) j = bit (ip ! k) j"
      by (simp add: w_def bit_simps bit_from_le_bytes assms(1))
  qed
  fix k assume "k < length [ucast w :: u8, ucast (drop_bit 8 w), ucast (drop_bit 16 w), ucast (drop_bit 24 w)]"
  then have "k = 0 \<or> k = 1 \<or> k = 2 \<or> k = 3" by auto
  then show "[ucast w, ucast (drop_bit 8 w), ucast (drop_bit 16 w), ucast (drop_bit 24 w)] ! k = ip ! k"
    using byte [of 0] byte [of 1] byte [of 2] byte [of 3] by auto
qed (simp add: assms(1))

lemma from_le_bytes_port: "(ucast (from_le_bytes [ucast p, ucast (drop_bit 8 p)]) :: u16) = p"
  by (rule bit_word_eqI) (auto simp: bit_simps dest: bit_imp_le_length)

lemma try_into_v4_wf: "wf_addr a \<Longrightarrow> wf_addr (try_into_v4 a)"
  by (cases a) (auto simp: to_ipv4_def split: option.splits)

lemma try_into_v4_idem: "try_into_v4 (try_into_v4 a) = try_into_v4 a"
  by (cases a) (auto split: option.splits)

section \<open>Properties\<close>

text \<open>What the receiver can recover: the address with IPv4-mapped and IPv4-compatible forms turned
  into IPv4, and without flow label and scope.\<close>

fun canonical :: "SocketAddr \<Rightarrow> SocketAddr" where
  "canonical (V4 ip port) = V4 ip port"
| "canonical (V6 ip port _ _) = V6 ip port 0 0"

text \<open>mangling and unmangling an address gives back its canonical form, at every time of
  encoding: the port and the IPv4 address are recovered exactly although both were masked with
  the clock and trailing zero bytes were dropped.\<close>

theorem mangle_roundtrip:
  assumes "wf_addr addr"
  shows "mangle_decode (mangle_encode tm addr) = canonical (try_into_v4 addr)"
proof (cases "try_into_v4 addr")
  case (V4 ip port)
  with try_into_v4_wf [OF assms] have "length ip = 4" by simp
  let ?v = "mangle_value tm (ucast (from_le_bytes ip)) port"
  note pe = padded_encode [of ?v]
  show ?thesis
    using V4 pe unmangle [of tm "ucast (from_le_bytes ip)" port] from_le_bytes_4 [OF \<open>length ip = 4\<close>]
    by (auto simp: mangle_decode_def Let_def)
next
  case (V6 ip port fl sc)
  with try_into_v4_wf [OF assms] have "length ip = 16" by simp
  with V6 show ?thesis
    using from_le_bytes_port [of port] by (simp add: mangle_decode_def)
qed

theorem mangle_roundtrip_witness:
  "mangle_decode (mangle_encode 305419896 (V4 [192, 168, 16, 32] 21116)) = V4 [192, 168, 16, 32] 21116"
  using mangle_roundtrip [of "V4 [192, 168, 16, 32] 21116" 305419896] by simp

text \<open>the decoder is total on hostile input: a byte string longer than 16 bytes that is not
  exactly 18 bytes long decodes to the unspecified address with port 0, and every result is a
  well-formed address.\<close>

theorem mangle_decode_total:
  "wf_addr (mangle_decode bs) \<and>
   (16 < length bs \<and> length bs \<noteq> 18 \<longrightarrow> mangle_decode bs = V6 (replicate 16 0) 0 0 0)"
  by (auto simp: mangle_decode_def get_any_listen_addr_def Let_def)

theorem mangle_decode_total_witness:
  "mangle_decode (replicate 17 1) = V6 (replicate 16 0) 0 0 0"
  using mangle_decode_total [of "replicate 17 1"] by simp

end
