(* ===== verification/F32.thy ===== *)
theory F32
  imports Prelude Complex_Main "HOL-Library.Log_Nat"
begin

text \<open>
  Rust's \<open>f32\<close> arithmetic on non-negative numbers: a value is the rational it denotes and
  every operation is the exact one followed by \<open>f32\<close>, rounding to 24 significant bits
  with ties to even.  The numbers of the program stay between \<open>2 ^ - 40\<close> and \<open>2 ^ 40\<close>, inside
  the range of the normal numbers, so that overflow and subnormal numbers do not occur.
\<close>

definition rne :: "rat \<Rightarrow> int" where
  "rne y = (let n = \<lfloor>y\<rfloor>; d = y - of_int n in
     if d < 1 / 2 then n else if 1 / 2 < d then n + 1 else if even n then n else n + 1)"

definition f32_exp :: "rat \<Rightarrow> int" where
  "f32_exp x = (let (p, q) = quotient_of x; e = bitlen p - bitlen q in
     if 2 powi e \<le> x then e else e - 1)"

definition f32 :: "rat \<Rightarrow> rat" where
  "f32 x = (if x \<le> 0 then 0
     else let u = 2 powi (f32_exp x - 23) in of_int (rne (x / u)) * u)"

text \<open>\<open>f as u32\<close>: truncation towards zero, saturating at the bounds of the type.\<close>

definition f32_as_u32 :: "rat \<Rightarrow> nat" where
  "f32_as_u32 x = min (nat \<lfloor>x\<rfloor>) (2 ^ 32 - 1)"

text \<open>\<open>clamp\<close> panics, the value None, when its lower bound exceeds the upper one.\<close>

definition clamp :: "'a::linorder \<Rightarrow> 'a \<Rightarrow> 'a \<Rightarrow> 'a option" where
  "clamp lo hi x = (if lo \<le> hi then Some (if x < lo then lo else if hi < x then hi else x) else None)"

lemma clamp_ok: "lo \<le> hi \<Longrightarrow> \<exists>y. clamp lo hi x = Some y \<and> lo \<le> y \<and> y \<le> hi"
  by (simp add: clamp_def not_less)

lemma clamp_SomeD: "clamp lo hi x = Some y \<Longrightarrow> lo \<le> y \<and> y \<le> hi"
  by (auto simp: clamp_def split: if_splits)

lemma clamp_upper: "clamp lo hi x = Some y \<Longrightarrow> x \<le> b \<Longrightarrow> lo \<le> b \<Longrightarrow> y \<le> b"
  by (auto simp: clamp_def split: if_splits)

lemma rne_bounds: "\<lfloor>y\<rfloor> \<le> rne y" "rne y \<le> \<lceil>y\<rceil>"
proof -
  show "\<lfloor>y\<rfloor> \<le> rne y" by (simp add: rne_def Let_def)
  have "y = of_int \<lfloor>y\<rfloor> \<or> \<lceil>y\<rceil> = \<lfloor>y\<rfloor> + 1"
    by (metis ceiling_altdef)
  then show "rne y \<le> \<lceil>y\<rceil>"
  proof
    assume *: "y = of_int \<lfloor>y\<rfloor>"
    then have "rne y = \<lfloor>y\<rfloor>" by (simp add: rne_def Let_def)
    then show ?thesis by (metis * ceiling_of_int order_refl)
  qed (auto simp: rne_def Let_def)
qed

lemma rne_of_int [simp]: "rne (of_int n) = n"
  by (simp add: rne_def Let_def)

lemma rne_mono: "y \<le> z \<Longrightarrow> rne y \<le> rne z"
proof (cases "\<lfloor>y\<rfloor> = \<lfloor>z\<rfloor>")
  case True
  moreover assume "y \<le> z"
  ultimately show ?thesis by (auto simp: rne_def Let_def)
next
  case False
  moreover assume "y \<le> z"
  ultimately have "\<lfloor>y\<rfloor> + 1 \<le> \<lfloor>z\<rfloor>" using floor_mono [of y z] by linarith
  moreover have "rne y \<le> \<lfloor>y\<rfloor> + 1" by (simp add: rne_def Let_def)
  ultimately show ?thesis using rne_bounds(1) [of z] by linarith
qed

lemma two_powi_mono: "a \<le> b \<Longrightarrow> (2::rat) powi a \<le> 2 powi b"
  by (intro power_int_increasing) simp_all

lemma f32_exp_bounds:
  assumes "0 < x"
  shows "2 powi f32_exp x \<le> x" and "x < 2 powi (f32_exp x + 1)"
proof -
  obtain p q where pq: "quotient_of x = (p, q)" by (cases "quotient_of x")
  have q: "0 < q" using pq by (rule quotient_of_denom_pos)
  have x: "x = of_int p / of_int q" using pq by (rule quotient_of_div)
  have p: "0 < p" using assms q unfolding x by (simp add: zero_less_divide_iff)
  define a b where "a = bitlen p" and "b = bitlen q"
  have ab: "1 \<le> a" "1 \<le> b"
    using p q by (auto simp: a_def b_def bitlen_alt_def)
  have powi: "(2::rat) powi k = 2 ^ nat k" if "0 \<le> k" for k
    using that by (simp add: power_int_def)
  have bounds: "2 powi (bitlen n - 1) \<le> (of_int n :: rat) \<and> (of_int n :: rat) < 2 powi bitlen n"
    if n: "0 < n" for n :: int
  proof -
    have "1 \<le> bitlen n" using n by (auto simp: bitlen_alt_def)
    moreover have "(of_int (2 ^ nat (bitlen n - 1)) :: rat) \<le> of_int n"
      using bitlen_bounds [OF n] by (intro of_int_le_iff [THEN iffD2]) simp
    moreover have "(of_int n :: rat) < of_int (2 ^ nat (bitlen n))"
      using bitlen_bounds [OF n] by (intro of_int_less_iff [THEN iffD2]) simp
    ultimately show ?thesis by (simp add: powi)
  qed
  have pb: "2 powi (a - 1) \<le> (of_int p :: rat)" "(of_int p :: rat) < 2 powi a"
    and qb: "2 powi (b - 1) \<le> (of_int q :: rat)" "(of_int q :: rat) < 2 powi b"
    using bounds [OF p] bounds [OF q] by (simp_all add: a_def b_def)
  have "x < 2 powi a / 2 powi (b - 1)"
    unfolding x using pb qb q p by (intro frac_less) simp_all
  also have "\<dots> = 2 powi (a - b + 1)"
    by (simp flip: power_int_diff add: algebra_simps)
  finally have up: "x < 2 powi (a - b + 1)" .
  have "2 powi (a - 1) / 2 powi b < x"
    unfolding x using pb qb q p by (intro frac_less2) simp_all
  moreover have "(2::rat) powi (a - 1) / 2 powi b = 2 powi (a - b - 1)"
    by (simp flip: power_int_diff add: algebra_simps)
  ultimately have lo: "2 powi (a - b - 1) \<le> x" by simp
  have e: "f32_exp x = (if 2 powi (a - b) \<le> x then a - b else a - b - 1)"
    by (simp add: f32_exp_def pq a_def b_def)
  show "2 powi f32_exp x \<le> x" using lo by (simp add: e)
  show "x < 2 powi (f32_exp x + 1)" using up by (auto simp: e)
qed

lemma f32_binade:
  assumes "0 < x"
  shows "2 powi f32_exp x \<le> f32 x" and "f32 x \<le> 2 powi (f32_exp x + 1)"
proof -
  define u :: rat where "u = 2 powi (f32_exp x - 23)"
  have u: "0 < u" by (simp add: u_def)
  have lo: "2 powi f32_exp x = of_int (2 ^ 23) * u"
    using power_int_add [of "2::rat" 23 "f32_exp x - 23"] by (simp add: u_def power_int_def)
  have hi: "2 powi (f32_exp x + 1) = of_int (2 ^ 24) * u"
    using power_int_add [of "2::rat" 24 "f32_exp x - 23"] power_int_of_nat [of "2::rat" 24]
    by (simp add: u_def add.commute)
  have "of_int (2 ^ 23) \<le> x / u" "x / u \<le> of_int (2 ^ 24)"
    using f32_exp_bounds [OF assms] u unfolding lo hi by (simp_all add: field_simps)
  then have "2 ^ 23 \<le> rne (x / u)" "rne (x / u) \<le> 2 ^ 24"
    using rne_mono rne_of_int by metis+
  then have "of_int (2 ^ 23) * u \<le> of_int (rne (x / u)) * u"
    and "of_int (rne (x / u)) * u \<le> of_int (2 ^ 24) * u"
    using u by (auto intro!: mult_right_mono simp del: of_int_power)
  moreover have "f32 x = of_int (rne (x / u)) * u"
    using assms by (simp add: f32_def u_def Let_def)
  ultimately show "2 powi f32_exp x \<le> f32 x" "f32 x \<le> 2 powi (f32_exp x + 1)"
    by (simp_all only: lo hi)
qed

lemma f32_exp_mono: "0 < x \<Longrightarrow> x \<le> y \<Longrightarrow> f32_exp x \<le> f32_exp y"
proof (rule ccontr)
  assume xy: "0 < x" "x \<le> y" and "\<not> f32_exp x \<le> f32_exp y"
  then have "2 powi (f32_exp y + 1) \<le> (2::rat) powi f32_exp x"
    by (intro two_powi_mono) simp
  with f32_exp_bounds [of x] f32_exp_bounds [of y] xy show False by linarith
qed

lemma f32_nonneg [simp]: "0 \<le> f32 x"
proof (cases "0 < x")
  case True
  have "0 < (2::rat) powi f32_exp x" by simp
  with f32_binade(1) [OF True] show ?thesis by linarith
qed (simp add: f32_def)

lemma f32_mono: "x \<le> y \<Longrightarrow> f32 x \<le> f32 y"
proof (cases "0 < x")
  case False
  then show ?thesis by (simp add: f32_def [of x])
next
  case True
  assume xy: "x \<le> y"
  then have y: "0 < y" using True by simp
  consider "f32_exp x = f32_exp y" | "f32_exp x + 1 \<le> f32_exp y"
    using f32_exp_mono [OF True xy] by linarith
  then show ?thesis
  proof cases
    case 1
    have "rne (x / 2 powi (f32_exp y - 23)) \<le> rne (y / 2 powi (f32_exp y - 23))"
      using xy by (intro rne_mono divide_right_mono) simp_all
    then show ?thesis
      using True y by (simp add: f32_def Let_def 1)
  next
    case 2
    then have "(2::rat) powi (f32_exp x + 1) \<le> 2 powi f32_exp y" by (rule two_powi_mono)
    with f32_binade(2) [OF True] f32_binade(1) [OF y] show ?thesis by linarith
  qed
qed

text \<open>Numbers with at most 24 significant bits are represented exactly; hence integers up to
  \<open>2 ^ 24\<close> are, and rounding is idempotent.\<close>

lemma f32_exact:
  assumes "m < 2 ^ 24"
  shows "f32 (of_nat m * 2 powi k) = of_nat m * 2 powi k"
proof (cases "m = 0")
  case False
  define x :: rat where "x = of_nat m * 2 powi k"
  have x: "0 < x" using False by (simp add: x_def)
  have "(of_nat m :: rat) < of_nat (2 ^ 24)" using assms by (simp only: of_nat_less_iff)
  then have "x < 2 ^ 24 * 2 powi k" by (simp add: x_def)
  also have "\<dots> = 2 powi (24 + k)"
    using power_int_add [of "2::rat" 24 k] power_int_of_nat [of "2::rat" 24] by simp
  finally have up: "x < 2 powi (24 + k)" .
  have "f32_exp x < 24 + k"
  proof (rule ccontr)
    assume "\<not> f32_exp x < 24 + k"
    then have "(2::rat) powi (24 + k) \<le> 2 powi f32_exp x" by (intro two_powi_mono) simp
    with up f32_exp_bounds(1) [OF x] show False by linarith
  qed
  define j where "j = nat (k + 23 - f32_exp x)"
  have k: "k = int j + (f32_exp x - 23)"
    using \<open>f32_exp x < 24 + k\<close> by (simp add: j_def)
  have pk: "(2::rat) powi k = 2 ^ j * 2 powi (f32_exp x - 23)"
    by (subst k) (simp add: power_int_add)
  have xu: "x = of_nat m * (2 ^ j * 2 powi (f32_exp x - 23))"
    unfolding pk [symmetric] by (fact x_def)
  then have "x / 2 powi (f32_exp x - 23) = of_int (int m * 2 ^ j)"
    by (simp add: divide_eq_eq)
  then have "f32 x = of_int (int m * 2 ^ j) * 2 powi (f32_exp x - 23)"
    using x by (simp add: f32_def Let_def del: of_int_mult)
  also have "\<dots> = x" using xu by simp
  finally show ?thesis by (simp add: x_def)
qed (simp add: f32_def)

lemma f32_of_nat: "n < 2 ^ 24 \<Longrightarrow> f32 (of_nat n) = of_nat n"
  using f32_exact [of n 0] by simp

lemma f32_exact_le:
  assumes "m \<le> 2 ^ 24"
  shows "f32 (of_nat m * 2 powi k) = of_nat m * 2 powi k"
proof (cases "m = 2 ^ 24")
  case True
  have "of_nat m * 2 powi k = of_nat (2 ^ 23) * (2::rat) powi (k + 1)"
    unfolding True by (simp add: power_int_add)
  then show ?thesis using f32_exact [of "2 ^ 23" "k + 1"] by simp
qed (use assms in \<open>intro f32_exact, simp\<close>)

lemma f32_idem [simp]: "f32 (f32 x) = f32 x"
proof (cases "0 < x")
  case True
  define u :: rat where "u = 2 powi (f32_exp x - 23)"
  define m where "m = rne (x / u)"
  have fx: "f32 x = of_int m * u"
    using True by (simp add: f32_def u_def m_def Let_def)
  have u: "0 < u" by (simp add: u_def)
  have "2 powi (f32_exp x + 1) = of_int (2 ^ 24) * u"
    using power_int_add [of "2::rat" 24 "f32_exp x - 23"] power_int_of_nat [of "2::rat" 24]
    by (simp add: u_def add.commute)
  then have "of_int m * u \<le> of_int (2 ^ 24) * u"
    using f32_binade(2) [OF True] by (simp add: fx)
  then have "(of_int m :: rat) \<le> of_int (2 ^ 24)"
    using u by simp
  then have "m \<le> 2 ^ 24" by (simp only: of_int_le_iff)
  moreover have "0 \<le> m"
    using rne_mono [of 0 "x / u"] rne_of_int [of 0] True u by (simp add: m_def)
  ultimately have "nat m \<le> 2 ^ 24" "of_int m = (of_nat (nat m) :: rat)"
    by simp_all
  then show ?thesis unfolding fx u_def using f32_exact_le by metis
qed (simp add: f32_def)

lemma f32_le_nat: "n < 2 ^ 24 \<Longrightarrow> x \<le> of_nat n \<Longrightarrow> f32 x \<le> of_nat n"
  using f32_mono [of x "of_nat n"] f32_of_nat [of n] by simp

lemma f32_ge_nat: "n < 2 ^ 24 \<Longrightarrow> of_nat n \<le> x \<Longrightarrow> of_nat n \<le> f32 x"
  using f32_mono [of "of_nat n" x] f32_of_nat [of n] by simp

lemma f32_as_u32_mono: "x \<le> y \<Longrightarrow> f32_as_u32 x \<le> f32_as_u32 y"
  using floor_mono [of x y] by (auto simp: f32_as_u32_def min_def)

lemma f32_as_u32_of_nat: "n < 2 ^ 32 \<Longrightarrow> f32_as_u32 (of_nat n) = n"
  by (simp add: f32_as_u32_def)

end
