(* ===== verification/Video_QoS.thy ===== *)
theory Video_QoS
  imports F32
begin

text \<open>
  The controller of frame rate and bit-rate ratio, \<open>src/src/server/video_qos.rs\<close>: the RTT
  estimate and delay history of each user, the operations the connections and the video
  services call, and the two common adjustments.  Integers of type \<open>u32\<close> are naturals with the
  wrap-around of a release build written out, instants are milliseconds of a clock passed to the
  operations that read it, and None is a panic of \<open>clamp\<close>.  The events of a controller form an
  \<open>invariant_system\<close>: no sequence of calls panics or leaves the ranges of fps and ratio.
\<close>

section \<open>Constants\<close>

datatype Quality = Best | Balanced | Low | Custom rat

definition FPS :: nat where "FPS = 30"
definition MIN_FPS :: nat where "MIN_FPS = 1"
definition MAX_FPS :: nat where "MAX_FPS = 120"
definition INIT_FPS :: nat where "INIT_FPS = 15"

definition BR_BEST :: rat where "BR_BEST = f32 (3 / 2)"
definition BR_BALANCED :: rat where "BR_BALANCED = f32 (67 / 100)"
definition BR_SPEED :: rat where "BR_SPEED = f32 (1 / 2)"
definition BR_MAX :: rat where "BR_MAX = f32 40"
definition BR_MIN :: rat where "BR_MIN = f32 (1 / 5)"
definition BR_MIN_HIGH_RESOLUTION :: rat where "BR_MIN_HIGH_RESOLUTION = f32 (1 / 10)"

definition HISTORY_DELAY_LEN :: nat where "HISTORY_DELAY_LEN = 2"
definition ADJUST_RATIO_INTERVAL :: nat where "ADJUST_RATIO_INTERVAL = 3"
definition DYNAMIC_SCREEN_THRESHOLD :: nat where "DYNAMIC_SCREEN_THRESHOLD = 2"
definition DELAY_THRESHOLD_150MS :: nat where "DELAY_THRESHOLD_150MS = 150"
definition WINDOW_SAMPLES :: nat where "WINDOW_SAMPLES = 60"
definition MIN_SAMPLES :: nat where "MIN_SAMPLES = 10"

lemmas qos_consts = FPS_def MIN_FPS_def MAX_FPS_def INIT_FPS_def DELAY_THRESHOLD_150MS_def
  HISTORY_DELAY_LEN_def WINDOW_SAMPLES_def MIN_SAMPLES_def

fun quality_ratio :: "Quality \<Rightarrow> rat" where
  "quality_ratio Best = BR_BEST"
| "quality_ratio Balanced = BR_BALANCED"
| "quality_ratio Low = BR_SPEED"
| "quality_ratio (Custom v) = v"

definition u32_add :: "nat \<Rightarrow> nat \<Rightarrow> nat" where
  "u32_add a b = (a + b) mod 2 ^ 32"

section \<open>RTT estimate\<close>

record RttCalculator =
  min_rtt :: "nat option"
  window_min_rtt :: "nat option"
  smoothed_rtt :: "nat option"
  samples :: "nat list"

definition rtt_default :: RttCalculator where
  "rtt_default = \<lparr>min_rtt = None, window_min_rtt = None, smoothed_rtt = None, samples = []\<rparr>"

text \<open>The weighted average with \<open>ALPHA = 0.5\<close>.\<close>

definition weighted_rtt :: "nat \<Rightarrow> nat \<Rightarrow> nat" where
  "weighted_rtt m wm =
     f32_as_u32 (f32 (f32 (f32 (1 - 1 / 2) * f32 (of_nat m)) + f32 (1 / 2 * f32 (of_nat wm))))"

definition rtt_update :: "nat \<Rightarrow> RttCalculator \<Rightarrow> RttCalculator" where
  "rtt_update delay r =
    (let m = (case min_rtt r of
          Some m \<Rightarrow> if delay < m then Some delay else Some m
        | None \<Rightarrow> Some delay);
      ss = (if WINDOW_SAMPLES \<le> length (samples r) then tl (samples r) else samples r) @ [delay];
      wm = iter_min ss;
      sr = (if WINDOW_SAMPLES \<le> length ss
            then (case (m, wm) of (Some a, Some b) \<Rightarrow> Some (weighted_rtt a b) | _ \<Rightarrow> smoothed_rtt r)
            else smoothed_rtt r)
    in \<lparr>min_rtt = m, window_min_rtt = wm, smoothed_rtt = sr, samples = ss\<rparr>)"

definition get_rtt :: "RttCalculator \<Rightarrow> nat option" where
  "get_rtt r = (case smoothed_rtt r of
     Some rtt \<Rightarrow> Some rtt
   | None \<Rightarrow> if MIN_SAMPLES \<le> length (samples r) then min_rtt r else None)"

section \<open>Users and displays\<close>

record UserDelay =
  response_delayed :: bool
  delay_history :: "nat list"
  delay_fps :: "nat option"
  rtt_calculator :: RttCalculator
  quick_increase_fps_count :: nat
  increase_fps_count :: nat

definition user_delay_default :: UserDelay where
  "user_delay_default = \<lparr>response_delayed = False, delay_history = [], delay_fps = None,
     rtt_calculator = rtt_default, quick_increase_fps_count = 0, increase_fps_count = 0\<rparr>"

definition add_delay :: "nat \<Rightarrow> UserDelay \<Rightarrow> UserDelay" where
  "add_delay d u = u\<lparr>rtt_calculator := rtt_update d (rtt_calculator u),
     delay_history := (if HISTORY_DELAY_LEN < length (delay_history u)
                       then tl (delay_history u) else delay_history u) @ [d]\<rparr>"

definition avg_delay :: "UserDelay \<Rightarrow> nat" where
  "avg_delay u = (let len = length (delay_history u) in
     if 0 < len then
       let avg = (sum_list (delay_history u) mod 2 ^ 32) div len in
       (case get_rtt (rtt_calculator u) of
          Some rtt \<Rightarrow> if rtt < avg then avg - rtt else avg
        | None \<Rightarrow> avg)
     else DELAY_THRESHOLD_150MS)"

record UserData =
  auto_adjust_fps :: "nat option"
  custom_fps :: "nat option"
  quality :: "(int \<times> Quality) option"
  delay :: UserDelay
  record_on :: bool

definition user_default :: UserData where
  "user_default = \<lparr>auto_adjust_fps = None, custom_fps = None, quality = None,
     delay = user_delay_default, record_on = False\<rparr>"

record DisplayData =
  send_counter :: nat
  support_changing_quality :: bool

definition display_default :: DisplayData where
  "display_default = \<lparr>send_counter = 0, support_changing_quality = False\<rparr>"

record VideoQoS =
  fps :: nat
  ratio :: rat
  users :: "(int, UserData) hashmap"
  displays :: "(string, DisplayData) hashmap"
  bitrate_store :: nat
  adjust_ratio_instant :: nat
  abr_config :: bool
  new_user_instant :: nat

definition qos_default :: "nat \<Rightarrow> VideoQoS" where
  "qos_default now = \<lparr>fps = FPS, ratio = BR_BALANCED, users = [], displays = [],
     bitrate_store = 0, adjust_ratio_instant = now, abr_config = True, new_user_instant = now\<rparr>"

section \<open>Basic functionality\<close>

definition get_fps :: "VideoQoS \<Rightarrow> nat" where
  "get_fps q = (if MIN_FPS \<le> fps q \<and> fps q \<le> MAX_FPS then fps q else FPS)"

text \<open>\<open>Duration::from_secs_f32\<close> of this number of seconds.\<close>

definition spf :: "VideoQoS \<Rightarrow> rat" where
  "spf q = f32 (1 / f32 (of_nat (get_fps q)))"

definition store_bitrate :: "nat \<Rightarrow> VideoQoS \<Rightarrow> VideoQoS" where
  "store_bitrate b q = q\<lparr>bitrate_store := b\<rparr>"

definition get_ratio :: "VideoQoS \<Rightarrow> VideoQoS \<times> rat" where
  "get_ratio q =
    (let q' = (if ratio q < BR_MIN_HIGH_RESOLUTION \<or> BR_MAX < ratio q
               then q\<lparr>ratio := BR_BALANCED\<rparr> else q)
     in (q', ratio q'))"

definition qos_record :: "VideoQoS \<Rightarrow> bool" where
  "qos_record q = list_ex record_on (hm_values (users q))"

definition set_support_changing_quality :: "string \<Rightarrow> bool \<Rightarrow> VideoQoS \<Rightarrow> VideoQoS" where
  "set_support_changing_quality name support q =
     q\<lparr>displays := hm_modify name (\<lambda>d. d\<lparr>support_changing_quality := support\<rparr>) (displays q)\<rparr>"

definition in_vbr_state :: "VideoQoS \<Rightarrow> bool" where
  "in_vbr_state q \<longleftrightarrow> abr_config q \<and> list_all support_changing_quality (hm_values (displays q))"

section \<open>Common adjustments\<close>

definition user_fps :: "UserData \<Rightarrow> nat" where
  "user_fps u = (let f = (case custom_fps u of Some f \<Rightarrow> f | None \<Rightarrow> FPS) in
     case auto_adjust_fps u of
       Some a \<Rightarrow> if f = 0 \<or> a < f then a else f
     | None \<Rightarrow> f)"

definition highest_fps :: "VideoQoS \<Rightarrow> nat option" where
  "highest_fps q =
    (let f = (case iter_min (filter (\<lambda>f. MIN_FPS \<le> f) (map user_fps (hm_values (users q)))) of
                Some f \<Rightarrow> f | None \<Rightarrow> FPS)
     in clamp MIN_FPS MAX_FPS f)"

definition latest_quality :: "VideoQoS \<Rightarrow> Quality" where
  "latest_quality q =
    (case iter_max_by (\<lambda>x. case x of Some (t, _) \<Rightarrow> t | None \<Rightarrow> 0)
            (filter (\<lambda>x. x \<noteq> None) (map quality (hm_values (users q)))) of
       Some (Some (_, ql)) \<Rightarrow> ql
     | _ \<Rightarrow> Balanced)"

definition ratio_min :: "Quality \<Rightarrow> rat option \<Rightarrow> rat" where
  "ratio_min tq ratio_1mbps = (case tq of
     Best \<Rightarrow>
       (let m = f32 (BR_BEST / f32 (5 / 2));
            m' = (case ratio_1mbps of Some r \<Rightarrow> if r < m then r else m | None \<Rightarrow> m)
        in max m' BR_MIN)
   | Balanced \<Rightarrow>
       (let m = min (f32 (BR_BALANCED / 2)) (f32 (2 / 5));
            m' = (case ratio_1mbps of Some r \<Rightarrow> if r < m then r else m | None \<Rightarrow> m)
        in max m' BR_MIN_HIGH_RESOLUTION)
   | Low \<Rightarrow> BR_MIN_HIGH_RESOLUTION
   | Custom _ \<Rightarrow> BR_MIN_HIGH_RESOLUTION)"

definition ratio_step :: "nat \<Rightarrow> bool \<Rightarrow> rat \<Rightarrow> rat" where
  "ratio_step max_delay dynamic_screen r =
    (if max_delay < 50 then (if dynamic_screen then f32 (r * f32 (115 / 100)) else r)
     else if max_delay < 100 then (if dynamic_screen then f32 (r * f32 (11 / 10)) else r)
     else if max_delay < DELAY_THRESHOLD_150MS then
       (if dynamic_screen then f32 (r * f32 (105 / 100)) else r)
     else if max_delay < 200 then f32 (r * f32 (95 / 100))
     else if max_delay < 300 then f32 (r * f32 (9 / 10))
     else if max_delay < 500 then f32 (r * f32 (85 / 100))
     else f32 (r * f32 (8 / 10)))"

definition adjust_ratio :: "bool \<Rightarrow> nat \<Rightarrow> VideoQoS \<Rightarrow> VideoQoS option" where
  "adjust_ratio dynamic_screen now q =
    (if \<not> in_vbr_state q then Some q
     else case iter_max (map (\<lambda>u. avg_delay (delay u)) (hm_values (users q))) of
       None \<Rightarrow> Some q
     | Some max_delay \<Rightarrow>
        let target_quality = latest_quality q;
            target_ratio = quality_ratio target_quality;
            current_ratio = ratio q;
            current_bitrate = bitrate_store q;
            ratio_1mbps = (if 0 < current_bitrate
              then Some (max (f32 (f32 (current_ratio * 1000) / f32 (of_nat current_bitrate)))
                             BR_MIN_HIGH_RESOLUTION)
              else None);
            ratio_add_150kbps = (if 0 < current_bitrate
              then Some (f32 (f32 (f32 (of_nat (u32_add current_bitrate 150)) * current_ratio)
                              / f32 (of_nat current_bitrate)))
              else None);
            mn = ratio_min target_quality ratio_1mbps;
            mx = f32 (target_ratio * 1);
            v = ratio_step max_delay dynamic_screen current_ratio;
            v' = (case ratio_add_150kbps of
                None \<Rightarrow> v
              | Some r \<Rightarrow> if r < v \<and> current_ratio < r \<and> BR_SPEED \<le> current_ratio then r else v)
        in case clamp mn mx v' of
             None \<Rightarrow> None
           | Some r \<Rightarrow> Some (q\<lparr>ratio := r, adjust_ratio_instant := now\<rparr>))"

text \<open>The minimum over the users, capped for late responses and for new connections.\<close>

definition fps_candidate :: "nat \<Rightarrow> VideoQoS \<Rightarrow> nat" where
  "fps_candidate now q =
    (let f0 = (case iter_min (map (\<lambda>u. case delay_fps (delay u) of Some f \<Rightarrow> f | None \<Rightarrow> INIT_FPS)
                                   (hm_values (users q))) of
                  Some f \<Rightarrow> f | None \<Rightarrow> INIT_FPS);
         f1 = (if list_ex (\<lambda>u. response_delayed (delay u)) (hm_values (users q))
                  \<and> MIN_FPS + 1 < f0 then MIN_FPS + 1 else f0)
     in if (now - new_user_instant q) div 1000 < 1 \<and> INIT_FPS < f1 then INIT_FPS else f1)"

definition adjust_fps :: "nat \<Rightarrow> VideoQoS \<Rightarrow> VideoQoS option" where
  "adjust_fps now q = (case highest_fps q of
     None \<Rightarrow> None
   | Some highest \<Rightarrow> (case clamp MIN_FPS highest (fps_candidate now q) of
       None \<Rightarrow> None
     | Some f \<Rightarrow> Some (q\<lparr>fps := f\<rparr>)))"

section \<open>User session management\<close>

definition on_connection_open :: "int \<Rightarrow> string \<Rightarrow> nat \<Rightarrow> VideoQoS \<Rightarrow> VideoQoS" where
  "on_connection_open i enable_abr now q =
     q\<lparr>users := hm_insert i user_default (users q), abr_config := enable_abr \<noteq> ''N'',
       new_user_instant := now\<rparr>"

definition on_connection_close :: "int \<Rightarrow> nat \<Rightarrow> VideoQoS \<Rightarrow> VideoQoS" where
  "on_connection_close i now q =
    (let q' = q\<lparr>users := hm_remove i (users q)\<rparr>
     in if users q' = [] then qos_default now else q')"

definition user_custom_fps :: "int \<Rightarrow> nat \<Rightarrow> VideoQoS \<Rightarrow> VideoQoS" where
  "user_custom_fps i f q =
    (if f < MIN_FPS \<or> MAX_FPS < f then q
     else q\<lparr>users := hm_modify i (\<lambda>u. u\<lparr>custom_fps := Some f\<rparr>) (users q)\<rparr>)"

definition user_auto_adjust_fps :: "int \<Rightarrow> nat \<Rightarrow> VideoQoS \<Rightarrow> VideoQoS" where
  "user_auto_adjust_fps i f q =
    (if f < MIN_FPS \<or> MAX_FPS < f then q
     else q\<lparr>users := hm_modify i (\<lambda>u. u\<lparr>auto_adjust_fps := Some f\<rparr>) (users q)\<rparr>)"

definition convert_quality :: "int \<Rightarrow> Quality option" where
  "convert_quality x =
    (if x = 3 then Some Balanced
     else if x = 2 then Some Low
     else if x = 4 then Some Best
     else let b = f32 (f32 (of_int (((x div 2 ^ 8) mod 2 ^ 12) * 2)) / 100)
          in map_option Custom (clamp BR_MIN BR_MAX b))"

definition user_image_quality :: "int \<Rightarrow> int \<Rightarrow> int \<Rightarrow> VideoQoS \<Rightarrow> VideoQoS option" where
  "user_image_quality i image_quality time q =
    (case convert_quality image_quality of
       None \<Rightarrow> None
     | Some ql \<Rightarrow>
        if hm_get (users q) i = None then Some q
        else let q' = q\<lparr>users := hm_modify i (\<lambda>u. u\<lparr>quality := Some (time, ql)\<rparr>) (users q)\<rparr>
             in Some (q'\<lparr>ratio := quality_ratio (latest_quality q')\<rparr>))"

definition user_record :: "int \<Rightarrow> bool \<Rightarrow> VideoQoS \<Rightarrow> VideoQoS" where
  "user_record i v q = q\<lparr>users := hm_modify i (\<lambda>u. u\<lparr>record_on := v\<rparr>) (users q)\<rparr>"

definition fps_targets :: "rat \<Rightarrow> nat \<times> nat" where
  "fps_targets target_ratio =
    (if BR_BEST \<le> target_ratio then (8, 16)
     else if BR_BALANCED \<le> target_ratio then (10, 20)
     else (12, 24))"

definition devide_fps :: "nat \<Rightarrow> nat \<Rightarrow> nat" where
  "devide_fps f avg = f32_as_u32 (of_int \<lceil>f32 (f32 (of_nat f) /
     f32 (f32 (of_nat avg) / f32 (of_nat DELAY_THRESHOLD_150MS)))\<rceil>)"

text \<open>The adaptive adjustment: the new fps and the new \<open>quick_increase_fps_count\<close>.\<close>

definition adaptive_fps ::
  "nat \<Rightarrow> nat \<Rightarrow> nat \<Rightarrow> nat \<Rightarrow> nat \<Rightarrow> nat \<Rightarrow> nat \<times> nat" where
  "adaptive_fps min_fps normal_fps old_avg avg quick f =
    (let dividend_ms = DELAY_THRESHOLD_150MS * min_fps in
     if avg < 50 then
       let quick' = quick + 1;
           step = (if f < normal_fps then 1 else 0)
       in if 3 \<le> quick' then (max min_fps (u32_add f 5), 0)
          else (max min_fps (u32_add f step), quick')
     else if avg < 100 then
       let step = (if avg < old_avg then (if f < normal_fps then 1 else 0) else 0)
       in (max min_fps (u32_add f step), quick)
     else if avg < DELAY_THRESHOLD_150MS then (max min_fps f, quick)
     else if avg < 200 then (max min_fps (devide_fps f avg), quick)
     else if avg < 300 then (min min_fps (devide_fps f avg), quick)
     else if avg < 600 then (dividend_ms div avg, quick)
     else (min (dividend_ms div avg) (devide_fps f avg), quick))"

text \<open>The body of \<open>if let Some(user) = self.users.get_mut(&id)\<close>.\<close>

definition user_delay_update :: "nat \<Rightarrow> nat \<Rightarrow> nat \<Rightarrow> nat \<Rightarrow> nat \<Rightarrow> UserDelay \<Rightarrow> UserDelay option" where
  "user_delay_update min_fps normal_fps highest cur_fps d u =
    (let d' = max d 10;
         old_avg = avg_delay u;
         u1 = add_delay d' u;
         avg = max (avg_delay u1) 10;
         (f1, quick) = adaptive_fps min_fps normal_fps old_avg avg (quick_increase_fps_count u1) cur_fps;
         inc = (if avg < DELAY_THRESHOLD_150MS then increase_fps_count u1 + 1 else 0);
         (f2, inc') = (if 3 \<le> inc then (u32_add f1 1, 0) else (f1, inc));
         quick' = (if 50 < avg then 0 else quick)
     in case clamp MIN_FPS highest f2 of
          None \<Rightarrow> None
        | Some f \<Rightarrow> Some (u1\<lparr>quick_increase_fps_count := quick', increase_fps_count := inc',
                              delay_fps := Some f\<rparr>))"

definition user_network_delay :: "bool \<Rightarrow> int \<Rightarrow> nat \<Rightarrow> nat \<Rightarrow> VideoQoS \<Rightarrow> VideoQoS option" where
  "user_network_delay linux i d now q =
    (case highest_fps q of None \<Rightarrow> None | Some highest \<Rightarrow>
      let (min_fps, normal_fps) = fps_targets (quality_ratio (latest_quality q)) in
      case hm_get (users q) i of
        None \<Rightarrow> adjust_fps now q
      | Some user \<Rightarrow>
         (case user_delay_update min_fps normal_fps highest (fps q) d (delay user) of
            None \<Rightarrow> None
          | Some ud \<Rightarrow>
             let first = (delay_fps (delay user) = None);
                 q1 = q\<lparr>users := hm_modify i (\<lambda>u. u\<lparr>delay := ud\<rparr>) (users q)\<rparr>
             in case adjust_fps now q1 of
                  None \<Rightarrow> None
                | Some q2 \<Rightarrow> if first \<and> \<not> linux then adjust_ratio False now q2 else Some q2))"

definition user_delay_response_elapsed :: "int \<Rightarrow> nat \<Rightarrow> nat \<Rightarrow> VideoQoS \<Rightarrow> VideoQoS option" where
  "user_delay_response_elapsed i elapsed now q =
    (case hm_get (users q) i of
       None \<Rightarrow> Some q
     | Some user \<Rightarrow>
        if 2000 < elapsed
        then adjust_fps now (q\<lparr>users := hm_modify i (\<lambda>u. u\<lparr>delay :=
               add_delay (elapsed mod 2 ^ 32) ((delay u)\<lparr>response_delayed := True\<rparr>)\<rparr>) (users q)\<rparr>)
        else Some (q\<lparr>users := hm_modify i (\<lambda>u. u\<lparr>delay :=
               (delay u)\<lparr>response_delayed := False\<rparr>\<rparr>) (users q)\<rparr>))"

section \<open>Displays\<close>

definition new_display :: "string \<Rightarrow> VideoQoS \<Rightarrow> VideoQoS" where
  "new_display name q = q\<lparr>displays := hm_insert name display_default (displays q)\<rparr>"

definition remove_display :: "string \<Rightarrow> VideoQoS \<Rightarrow> VideoQoS" where
  "remove_display name q = q\<lparr>displays := hm_remove name (displays q)\<rparr>"

definition update_display_data :: "string \<Rightarrow> nat \<Rightarrow> nat \<Rightarrow> VideoQoS \<Rightarrow> VideoQoS option" where
  "update_display_data name n now q =
    (let q0 = q\<lparr>displays := hm_modify name
                 (\<lambda>d. d\<lparr>send_counter := (send_counter d + n) mod 2 ^ 64\<rparr>) (displays q)\<rparr>
     in case adjust_fps now q0 of
          None \<Rightarrow> None
        | Some q1 \<Rightarrow>
           if in_vbr_state q1 then
             if ADJUST_RATIO_INTERVAL \<le> (now - adjust_ratio_instant q1) div 1000 then
               let dynamic_screen = list_ex
                     (\<lambda>d. ADJUST_RATIO_INTERVAL * DYNAMIC_SCREEN_THRESHOLD \<le> send_counter d)
                     (hm_values (displays q1));
                   q2 = q1\<lparr>displays := map (\<lambda>(k, d). (k, d\<lparr>send_counter := 0\<rparr>)) (displays q1)\<rparr>
               in adjust_ratio dynamic_screen now q2
             else Some q1
           else Some (q1\<lparr>ratio := quality_ratio (latest_quality q1)\<rparr>))"

section \<open>The calls as events\<close>

datatype QosEvent =
    EvOpen int string nat
  | EvClose int nat
  | EvCustomFps int nat
  | EvAutoAdjustFps int nat
  | EvImageQuality int int int
  | EvRecord int bool
  | EvNetworkDelay bool int nat nat
  | EvResponseElapsed int nat nat
  | EvNewDisplay string
  | EvRemoveDisplay string
  | EvSupport string bool
  | EvDisplayData string nat nat
  | EvStoreBitrate nat
  | EvGetRatio

fun qos_step :: "QosEvent \<Rightarrow> VideoQoS \<Rightarrow> VideoQoS option" where
  "qos_step (EvOpen i abr now) q = Some (on_connection_open i abr now q)"
| "qos_step (EvClose i now) q = Some (on_connection_close i now q)"
| "qos_step (EvCustomFps i f) q = Some (user_custom_fps i f q)"
| "qos_step (EvAutoAdjustFps i f) q = Some (user_auto_adjust_fps i f q)"
| "qos_step (EvImageQuality i x time) q = user_image_quality i x time q"
| "qos_step (EvRecord i v) q = Some (user_record i v q)"
| "qos_step (EvNetworkDelay linux i d now) q = user_network_delay linux i d now q"
| "qos_step (EvResponseElapsed i e now) q = user_delay_response_elapsed i e now q"
| "qos_step (EvNewDisplay n) q = Some (new_display n q)"
| "qos_step (EvRemoveDisplay n) q = Some (remove_display n q)"
| "qos_step (EvSupport n b) q = Some (set_support_changing_quality n b q)"
| "qos_step (EvDisplayData n c now) q = update_display_data n c now q"
| "qos_step (EvStoreBitrate b) q = Some (store_bitrate b q)"
| "qos_step EvGetRatio q = Some (fst (get_ratio q))"

section \<open>Invariant\<close>

definition fps_in_range :: "nat option \<Rightarrow> bool" where
  "fps_in_range x = (case x of None \<Rightarrow> True | Some f \<Rightarrow> MIN_FPS \<le> f \<and> f \<le> MAX_FPS)"

definition quality_ok :: "Quality \<Rightarrow> bool" where
  "quality_ok ql \<longleftrightarrow> BR_MIN_HIGH_RESOLUTION \<le> quality_ratio ql \<and> quality_ratio ql \<le> BR_MAX
     \<and> f32 (quality_ratio ql) = quality_ratio ql"

definition user_delay_inv :: "UserDelay \<Rightarrow> bool" where
  "user_delay_inv u \<longleftrightarrow> fps_in_range (delay_fps u) \<and> length (delay_history u) \<le> HISTORY_DELAY_LEN + 1
     \<and> length (samples (rtt_calculator u)) \<le> WINDOW_SAMPLES
     \<and> quick_increase_fps_count u < 3 \<and> increase_fps_count u < 3"

definition user_inv :: "UserData \<Rightarrow> bool" where
  "user_inv u \<longleftrightarrow> fps_in_range (custom_fps u) \<and> fps_in_range (auto_adjust_fps u)
     \<and> (case quality u of None \<Rightarrow> True | Some (_, ql) \<Rightarrow> quality_ok ql) \<and> user_delay_inv (delay u)"

definition qos_inv :: "VideoQoS \<Rightarrow> bool" where
  "qos_inv q \<longleftrightarrow> MIN_FPS \<le> fps q \<and> fps q \<le> MAX_FPS
     \<and> BR_MIN_HIGH_RESOLUTION \<le> ratio q \<and> ratio q \<le> BR_MAX \<and> f32 (ratio q) = ratio q
     \<and> wf_map (users q) \<and> wf_map (displays q) \<and> list_all user_inv (hm_values (users q))"

section \<open>The operations keep the invariant\<close>

lemma br_f32 [simp]:
  "f32 BR_BEST = BR_BEST" "f32 BR_BALANCED = BR_BALANCED" "f32 BR_SPEED = BR_SPEED"
  "f32 BR_MIN = BR_MIN" "f32 BR_MAX = BR_MAX"
  "f32 BR_MIN_HIGH_RESOLUTION = BR_MIN_HIGH_RESOLUTION"
  by (simp_all add: BR_BEST_def BR_BALANCED_def BR_SPEED_def BR_MIN_def BR_MAX_def
      BR_MIN_HIGH_RESOLUTION_def)

lemma br_order:
  "BR_MIN_HIGH_RESOLUTION \<le> BR_MIN" "BR_MIN \<le> BR_SPEED" "BR_SPEED \<le> BR_BALANCED"
  "BR_BALANCED \<le> BR_BEST" "BR_BEST \<le> BR_MAX"
  unfolding BR_BEST_def BR_BALANCED_def BR_SPEED_def BR_MIN_def BR_MAX_def
    BR_MIN_HIGH_RESOLUTION_def
  by (intro f32_mono; simp)+

lemma quality_ok_fixed [simp]: "quality_ok Best" "quality_ok Balanced" "quality_ok Low"
  using br_order by (auto simp: quality_ok_def)

lemma f32_ge_1: "1 \<le> x \<Longrightarrow> 1 \<le> f32 x"
  using f32_ge_nat [of 1 x] by simp

lemma f32_div_le: "0 \<le> r \<Longrightarrow> f32 r = r \<Longrightarrow> 1 \<le> y \<Longrightarrow> f32 (r / y) \<le> r"
  using f32_mono [of "r / y" r] divide_left_mono [of 1 y r] by simp

lemma ratio_min_le:
  assumes "quality_ok ql"
  shows "ratio_min ql r \<le> f32 (quality_ratio ql * 1)" "BR_MIN_HIGH_RESOLUTION \<le> ratio_min ql r"
proof -
  have best: "f32 (BR_BEST / f32 (5 / 2)) \<le> BR_BEST"
    by (intro f32_div_le f32_ge_1) (simp_all add: BR_BEST_def)
  have bal: "f32 (BR_BALANCED / 2) \<le> BR_BALANCED"
    by (intro f32_div_le) (simp_all add: BR_BALANCED_def)
  show "ratio_min ql r \<le> f32 (quality_ratio ql * 1)"
    using assms best bal br_order
    by (cases ql) (auto simp: ratio_min_def quality_ok_def Let_def split: option.split)
  show "BR_MIN_HIGH_RESOLUTION \<le> ratio_min ql r"
    using br_order by (cases ql) (auto simp: ratio_min_def Let_def)
qed

lemma users_ok_latest:
  assumes "list_all user_inv (hm_values (users q))"
  shows "quality_ok (latest_quality q)"
proof -
  have "quality_ok ql" if m: "iter_max_by key (filter (\<lambda>x. x \<noteq> None) (map quality (hm_values (users q))))
      = Some (Some (t, ql))" for key :: "(int \<times> Quality) option \<Rightarrow> int" and t ql
  proof -
    obtain u where "u \<in> set (hm_values (users q))" "quality u = Some (t, ql)"
      using iter_max_by_mem [OF m] by auto
    with assms show ?thesis by (auto simp: list_all_iff user_inv_def)
  qed
  then show ?thesis by (auto simp: latest_quality_def split: option.split)
qed

lemma highest_fps_ok: "\<exists>h. highest_fps q = Some h \<and> MIN_FPS \<le> h \<and> h \<le> MAX_FPS"
  unfolding highest_fps_def Let_def by (rule clamp_ok) (simp add: qos_consts)

lemma adjust_fps_ok:
  "\<exists>f. adjust_fps now q = Some (q\<lparr>fps := f\<rparr>) \<and> MIN_FPS \<le> f \<and> f \<le> MAX_FPS"
proof -
  obtain h where h: "highest_fps q = Some h" "MIN_FPS \<le> h" "h \<le> MAX_FPS"
    using highest_fps_ok by blast
  show ?thesis
    using h clamp_ok [OF h(2), of "fps_candidate now q"] by (auto simp: adjust_fps_def)
qed

lemma adjust_fps_inv: "qos_inv q \<Longrightarrow> \<exists>q'. adjust_fps now q = Some q' \<and> qos_inv q'"
  using adjust_fps_ok [of now q] by (auto simp: qos_inv_def)

lemma f32_clamp:
  "clamp lo hi x = Some y \<Longrightarrow> f32 lo = lo \<Longrightarrow> f32 hi = hi \<Longrightarrow> f32 x = x \<Longrightarrow> f32 y = y"
  by (auto simp: clamp_def split: if_splits)

lemma f32_ratio_min: "(\<And>x. r = Some x \<Longrightarrow> f32 x = x) \<Longrightarrow> f32 (ratio_min ql r) = ratio_min ql r"
  by (cases ql) (auto simp: ratio_min_def Let_def max_def min_def split: option.split)

lemma f32_ratio_step: "f32 r = r \<Longrightarrow> f32 (ratio_step d b r) = ratio_step d b r"
  by (simp add: ratio_step_def)

lemma adjust_ratio_inv:
  assumes inv: "qos_inv q"
  shows "\<exists>q'. adjust_ratio dyn now q = Some q' \<and> qos_inv q'"
proof (cases "in_vbr_state q \<and> users q \<noteq> []")
  case False
  then show ?thesis using inv
    by (auto simp: adjust_ratio_def iter_max_def hm_values_def)
next
  case True
  then obtain md where md: "iter_max (map (\<lambda>u. avg_delay (delay u)) (hm_values (users q))) = Some md"
    by (cases "iter_max (map (\<lambda>u. avg_delay (delay u)) (hm_values (users q)))")
      (auto simp: hm_values_def)
  define lq where "lq = latest_quality q"
  have ok: "quality_ok lq"
    using inv users_ok_latest by (auto simp: qos_inv_def lq_def)
  define r1 where "r1 = (if 0 < bitrate_store q
     then Some (max (f32 (f32 (ratio q * 1000) / f32 (of_nat (bitrate_store q))))
                BR_MIN_HIGH_RESOLUTION) else None)"
  define r2 where "r2 = (if 0 < bitrate_store q
     then Some (f32 (f32 (f32 (of_nat (u32_add (bitrate_store q) 150)) * ratio q)
                / f32 (of_nat (bitrate_store q)))) else None)"
  define v where "v = (case r2 of None \<Rightarrow> ratio_step md dyn (ratio q)
     | Some r \<Rightarrow> if r < ratio_step md dyn (ratio q) \<and> ratio q < r \<and> BR_SPEED \<le> ratio q
                 then r else ratio_step md dyn (ratio q))"
  note bounds = ratio_min_le [OF ok, of r1]
  obtain y where y: "clamp (ratio_min lq r1) (f32 (quality_ratio lq * 1)) v = Some y"
    "ratio_min lq r1 \<le> y" "y \<le> f32 (quality_ratio lq * 1)"
    using clamp_ok [OF bounds(1), of v] by blast
  have eq: "adjust_ratio dyn now q = Some (q\<lparr>ratio := y, adjust_ratio_instant := now\<rparr>)"
    using True md y by (simp add: adjust_ratio_def Let_def r1_def r2_def v_def lq_def)
  have "f32 v = v"
    using inv by (auto simp: v_def r2_def qos_inv_def f32_ratio_step split: option.split)
  moreover have "f32 (ratio_min lq r1) = ratio_min lq r1"
    by (rule f32_ratio_min) (auto simp: r1_def max_def split: if_splits)
  ultimately have "f32 y = y"
    using f32_clamp [OF y(1)] by simp
  then have "qos_inv (q\<lparr>ratio := y, adjust_ratio_instant := now\<rparr>)"
    using inv bounds(2) y ok by (auto simp: qos_inv_def quality_ok_def)
  with eq show ?thesis by blast
qed

lemma fps_in_range_simps [simp]:
  "fps_in_range None" "fps_in_range (Some f) \<longleftrightarrow> MIN_FPS \<le> f \<and> f \<le> MAX_FPS"
  by (simp_all add: fps_in_range_def)

lemma user_inv_default [simp]: "user_inv user_default"
  by (simp add: user_inv_def user_default_def user_delay_inv_def user_delay_default_def rtt_default_def)

lemma qos_inv_default [simp]: "qos_inv (qos_default now)"
  using br_order by (simp add: qos_inv_def qos_default_def qos_consts hm_values_def)

lemma list_all_hm_modify:
  "list_all P (hm_values m) \<Longrightarrow> (\<And>u. P u \<Longrightarrow> P (f u)) \<Longrightarrow> list_all P (hm_values (hm_modify i f m))"
  by (force simp: hm_values_def hm_modify_def list_all_iff)

lemma qos_inv_modify:
  "qos_inv q \<Longrightarrow> (\<And>u. user_inv u \<Longrightarrow> user_inv (f u)) \<Longrightarrow> qos_inv (q\<lparr>users := hm_modify i f (users q)\<rparr>)"
  by (auto simp: qos_inv_def wf_map_modify intro: list_all_hm_modify)

lemma rtt_update_samples:
  "length (samples r) \<le> WINDOW_SAMPLES \<Longrightarrow> length (samples (rtt_update d r)) \<le> WINDOW_SAMPLES"
  by (simp add: rtt_update_def Let_def qos_consts)

lemma user_delay_inv_add: "user_delay_inv u \<Longrightarrow> user_delay_inv (add_delay d u)"
  by (auto simp: user_delay_inv_def add_delay_def rtt_update_samples)

lemma user_delay_inv_response [simp]:
  "user_delay_inv (u\<lparr>response_delayed := b\<rparr>) = user_delay_inv u"
  by (simp add: user_delay_inv_def)

lemma convert_quality_ok: "\<exists>ql. convert_quality x = Some ql \<and> quality_ok ql"
proof -
  define b where "b = f32 (f32 (of_int (((x div 2 ^ 8) mod 2 ^ 12) * 2)) / 100)"
  obtain y where y: "clamp BR_MIN BR_MAX b = Some y" "BR_MIN \<le> y" "y \<le> BR_MAX"
    using clamp_ok [of BR_MIN BR_MAX b] br_order by force
  then have "f32 y = y" using f32_clamp [OF y(1)] by (simp add: b_def)
  with y br_order have "quality_ok (Custom y)" by (simp add: quality_ok_def)
  with y(1) show ?thesis by (simp add: convert_quality_def Let_def b_def)
qed

lemma user_delay_update_ok:
  assumes "user_delay_inv u" and "MIN_FPS \<le> h" and "h \<le> MAX_FPS"
  shows "\<exists>u'. user_delay_update mn nm h cur d u = Some u' \<and> user_delay_inv u'"
proof -
  define u1 where "u1 = add_delay (max d 10) u"
  define avg where "avg = max (avg_delay u1) 10"
  obtain f1 k where fk: "adaptive_fps mn nm (avg_delay u) avg (quick_increase_fps_count u1) cur = (f1, k)"
    by fastforce
  have u1: "user_delay_inv u1" using assms(1) by (simp add: u1_def user_delay_inv_add)
  then have "k < 3"
    using fk by (auto simp: adaptive_fps_def Let_def user_delay_inv_def split: if_splits)
  define inc where "inc = (if avg < DELAY_THRESHOLD_150MS then increase_fps_count u1 + 1 else 0)"
  obtain f2 inc' where f2: "(if 3 \<le> inc then (u32_add f1 1, 0) else (f1, inc)) = (f2, inc')"
    by fastforce
  then have "inc' < 3" by (auto split: if_splits)
  obtain f where f: "clamp MIN_FPS h f2 = Some f" "MIN_FPS \<le> f" "f \<le> h"
    using clamp_ok [OF assms(2)] by blast
  have "user_delay_update mn nm h cur d u = Some (u1\<lparr>quick_increase_fps_count :=
      (if 50 < avg then 0 else k), increase_fps_count := inc', delay_fps := Some f\<rparr>)"
    using fk f2 f
    by (simp only: user_delay_update_def Let_def u1_def [symmetric] avg_def [symmetric]
        inc_def [symmetric] split option.case)
  with u1 \<open>k < 3\<close> \<open>inc' < 3\<close> f assms show ?thesis
    by (auto simp: user_delay_inv_def)
qed

lemma user_of_map:
  "qos_inv q \<Longrightarrow> hm_get (users q) i = Some u \<Longrightarrow> user_inv u"
  by (force simp: qos_inv_def list_all_iff hm_values_def dest: hm_get_mem)

lemma user_network_delay_inv:
  assumes inv: "qos_inv q"
  shows "\<exists>q'. user_network_delay linux i d now q = Some q' \<and> qos_inv q'"
proof -
  obtain h where h: "highest_fps q = Some h" "MIN_FPS \<le> h" "h \<le> MAX_FPS"
    using highest_fps_ok by blast
  obtain mn nm where t: "fps_targets (quality_ratio (latest_quality q)) = (mn, nm)" by fastforce
  show ?thesis
  proof (cases "hm_get (users q) i")
    case None
    then show ?thesis using h t adjust_fps_inv [OF inv, of now] by (simp add: user_network_delay_def)
  next
    case (Some u)
    have "user_delay_inv (delay u)" using user_of_map [OF inv Some] by (simp add: user_inv_def)
    then obtain ud where ud: "user_delay_update mn nm h (fps q) d (delay u) = Some ud"
      "user_delay_inv ud"
      using user_delay_update_ok h by blast
    have "qos_inv (q\<lparr>users := hm_modify i (\<lambda>u. u\<lparr>delay := ud\<rparr>) (users q)\<rparr>)"
      using inv ud(2) by (intro qos_inv_modify) (auto simp: user_inv_def)
    then obtain q2 where q2: "adjust_fps now (q\<lparr>users := hm_modify i (\<lambda>u. u\<lparr>delay := ud\<rparr>) (users q)\<rparr>)
        = Some q2" "qos_inv q2"
      using adjust_fps_inv by blast
    then show ?thesis
      using h t Some ud adjust_ratio_inv [OF q2(2), of False now]
      by (simp add: user_network_delay_def Let_def)
  qed
qed

lemma user_delay_response_elapsed_inv:
  assumes inv: "qos_inv q"
  shows "\<exists>q'. user_delay_response_elapsed i e now q = Some q' \<and> qos_inv q'"
proof -
  have a: "qos_inv (q\<lparr>users := hm_modify i (\<lambda>u. u\<lparr>delay :=
      add_delay (e mod 2 ^ 32) ((delay u)\<lparr>response_delayed := True\<rparr>)\<rparr>) (users q)\<rparr>)"
    using inv by (rule qos_inv_modify) (simp add: user_inv_def user_delay_inv_add)
  have b: "qos_inv (q\<lparr>users := hm_modify i (\<lambda>u. u\<lparr>delay :=
      (delay u)\<lparr>response_delayed := False\<rparr>\<rparr>) (users q)\<rparr>)"
    using inv by (rule qos_inv_modify) (simp add: user_inv_def)
  show ?thesis
    using inv adjust_fps_inv [OF a, of now] b
    by (simp add: user_delay_response_elapsed_def split: option.split)
qed

lemma user_image_quality_inv:
  assumes inv: "qos_inv q"
  shows "\<exists>q'. user_image_quality i x time q = Some q' \<and> qos_inv q'"
proof -
  obtain ql where ql: "convert_quality x = Some ql" "quality_ok ql"
    using convert_quality_ok by blast
  define q1 where "q1 = q\<lparr>users := hm_modify i (\<lambda>u. u\<lparr>quality := Some (time, ql)\<rparr>) (users q)\<rparr>"
  have "qos_inv q1" unfolding q1_def
    using inv ql(2) by (intro qos_inv_modify) (auto simp: user_inv_def)
  moreover from this have "quality_ok (latest_quality q1)"
    by (intro users_ok_latest) (simp add: qos_inv_def)
  ultimately have "qos_inv (q1\<lparr>ratio := quality_ratio (latest_quality q1)\<rparr>)"
    by (simp add: qos_inv_def quality_ok_def)
  then show ?thesis
    using inv ql by (simp add: user_image_quality_def Let_def q1_def)
qed

lemma update_display_data_inv:
  assumes inv: "qos_inv q"
  shows "\<exists>q'. update_display_data n c now q = Some q' \<and> qos_inv q'"
proof -
  define q0 where "q0 = q\<lparr>displays := hm_modify n
     (\<lambda>d. d\<lparr>send_counter := (send_counter d + c) mod 2 ^ 64\<rparr>) (displays q)\<rparr>"
  have "qos_inv q0" using inv by (simp add: q0_def qos_inv_def wf_map_modify)
  then obtain q1 where q1: "adjust_fps now q0 = Some q1" "qos_inv q1"
    using adjust_fps_inv by blast
  have "qos_inv (q1\<lparr>displays := map (\<lambda>(k, d). (k, d\<lparr>send_counter := 0\<rparr>)) (displays q1)\<rparr>)"
    using q1(2) by (simp add: qos_inv_def wf_map_def case_prod_unfold comp_def)
  note vbr = adjust_ratio_inv [OF this]
  have "quality_ok (latest_quality q1)"
    using q1(2) by (intro users_ok_latest) (simp add: qos_inv_def)
  then have "qos_inv (q1\<lparr>ratio := quality_ratio (latest_quality q1)\<rparr>)"
    using q1(2) by (simp add: qos_inv_def quality_ok_def)
  then show ?thesis
    using q1 vbr [of _ now] by (simp add: update_display_data_def q0_def Let_def)
qed

lemma qos_inv_remove: "qos_inv q \<Longrightarrow> qos_inv (q\<lparr>users := hm_remove i (users q)\<rparr>)"
  by (auto simp: qos_inv_def wf_map_remove list_all_iff hm_values_def set_hm_remove)

lemma qos_step_ok: "qos_inv q \<Longrightarrow> \<exists>q'. qos_step e q = Some q' \<and> qos_inv q'"
proof (cases e)
  case (EvOpen i a now)
  then show "qos_inv q \<Longrightarrow> ?thesis"
    by (auto simp: on_connection_open_def qos_inv_def wf_map_insert list_all_iff hm_values_def set_hm_insert)
next
  case (EvClose i now)
  then show "qos_inv q \<Longrightarrow> ?thesis"
    by (auto simp: on_connection_close_def Let_def intro: qos_inv_remove)
next
  case (EvCustomFps i f)
  then show "qos_inv q \<Longrightarrow> ?thesis"
    by (auto simp: user_custom_fps_def not_less user_inv_def intro!: qos_inv_modify)
next
  case (EvAutoAdjustFps i f)
  then show "qos_inv q \<Longrightarrow> ?thesis"
    by (auto simp: user_auto_adjust_fps_def not_less user_inv_def intro!: qos_inv_modify)
next
  case (EvRecord i v)
  then show "qos_inv q \<Longrightarrow> ?thesis"
    by (auto simp: user_record_def user_inv_def intro!: qos_inv_modify)
next
  case EvGetRatio
  then show "qos_inv q \<Longrightarrow> ?thesis"
    by (auto simp: get_ratio_def Let_def qos_inv_def)
qed (simp_all add: user_image_quality_inv user_network_delay_inv user_delay_response_elapsed_inv
    update_display_data_inv,
  auto simp: new_display_def remove_display_def set_support_changing_quality_def store_bitrate_def
    qos_inv_def hashmap_inv)

interpretation qos: invariant_system qos_step qos_inv
proof unfold_locales
  fix q e q'
  assume "qos_inv q"
  then obtain q1 where "qos_step e q = Some q1" "qos_inv q1" using qos_step_ok by blast
  then show "qos_step e q \<noteq> None" "qos_step e q = Some q' \<Longrightarrow> qos_inv q'" by simp_all
qed

section \<open>The RTT estimate\<close>

lemma f32_half: "n < 2 ^ 24 \<Longrightarrow> f32 (of_nat n / 2) = of_nat n / 2"
  using f32_exact [of n "-1"] unfolding power_int_minus1_right divide_inverse by blast

lemma f32_half_const: "f32 (1 - 1 / 2) = 1 / 2"
  using f32_half [of 1] by simp

lemma weighted_rtt_between:
  assumes "a \<le> b" and "b < 2 ^ 24"
  shows "a \<le> weighted_rtt a b" "weighted_rtt a b \<le> b"
proof -
  have w: "weighted_rtt a b = f32_as_u32 (f32 (of_nat a / 2 + of_nat b / 2))"
    using assms f32_half [of a] f32_half [of b] f32_of_nat [of a] f32_of_nat [of b]
    unfolding weighted_rtt_def f32_half_const by (simp only: mult.left_neutral times_divide_eq_left)
  have "of_nat a \<le> f32 (of_nat a / 2 + of_nat b / 2)"
    using assms by (intro f32_ge_nat) simp_all
  moreover have "f32 (of_nat a / 2 + of_nat b / 2) \<le> of_nat b"
    using assms by (intro f32_le_nat) simp_all
  ultimately have "f32_as_u32 (of_nat a) \<le> weighted_rtt a b" "weighted_rtt a b \<le> f32_as_u32 (of_nat b)"
    unfolding w by (simp_all add: f32_as_u32_mono)
  then show "a \<le> weighted_rtt a b" "weighted_rtt a b \<le> b"
    using assms by (simp_all add: f32_as_u32_of_nat)
qed

definition window :: "nat list \<Rightarrow> nat list" where
  "window ds = drop (length ds - WINDOW_SAMPLES) ds"

definition rtt_of :: "nat list \<Rightarrow> RttCalculator" where
  "rtt_of ds = fold rtt_update ds rtt_default"

lemma window_snoc:
  "window (ds @ [d]) = (if WINDOW_SAMPLES \<le> length (window ds) then tl (window ds) else window ds) @ [d]"
proof (cases "60 \<le> length ds")
  case True
  then have "length ds - 59 = Suc (length ds - 60)" by simp
  with True show ?thesis by (simp add: window_def WINDOW_SAMPLES_def drop_Suc tl_drop)
qed (simp add: window_def WINDOW_SAMPLES_def)

lemma length_window: "length (window ds) = min WINDOW_SAMPLES (length ds)"
  by (simp add: window_def)

lemma rtt_of_fields:
  "samples (rtt_of ds) = window ds
   \<and> min_rtt (rtt_of ds) = iter_min ds
   \<and> smoothed_rtt (rtt_of ds) = (if WINDOW_SAMPLES \<le> length ds
       then Some (weighted_rtt (Min (set ds)) (Min (set (window ds)))) else None)"
proof (induction ds rule: rev_induct)
  case Nil
  then show ?case by (simp add: rtt_of_def rtt_default_def window_def iter_min_def WINDOW_SAMPLES_def)
next
  case (snoc d ds)
  have step: "rtt_of (ds @ [d]) = rtt_update d (rtt_of ds)" by (simp add: rtt_of_def)
  have s: "samples (rtt_of (ds @ [d])) = window (ds @ [d])"
    unfolding step using snoc.IH by (simp add: rtt_update_def Let_def window_snoc)
  have mn: "min_rtt (rtt_of (ds @ [d])) = iter_min (ds @ [d])"
    unfolding step using snoc.IH
    by (cases ds) (simp_all add: rtt_update_def Let_def iter_min_def)
  have wne: "window (ds @ [d]) \<noteq> []" by (simp add: window_snoc)
  have mine: "iter_min (ds @ [d]) = Some (Min (set (ds @ [d])))"
    "iter_min (window (ds @ [d])) = Some (Min (set (window (ds @ [d]))))"
    using wne by (simp_all only: iter_min_Some) simp_all
  have "smoothed_rtt (rtt_update d (rtt_of ds)) =
     (if WINDOW_SAMPLES \<le> length (samples (rtt_update d (rtt_of ds)))
      then (case (min_rtt (rtt_update d (rtt_of ds)), iter_min (samples (rtt_update d (rtt_of ds))))
            of (Some a, Some b) \<Rightarrow> Some (weighted_rtt a b) | _ \<Rightarrow> smoothed_rtt (rtt_of ds))
      else smoothed_rtt (rtt_of ds))"
    by (simp add: rtt_update_def Let_def)
  then have "smoothed_rtt (rtt_of (ds @ [d])) = (if WINDOW_SAMPLES \<le> length (ds @ [d])
       then Some (weighted_rtt (Min (set (ds @ [d]))) (Min (set (window (ds @ [d]))))) else None)"
    using snoc.IH
    by (simp only: s [unfolded step] mn [unfolded step] mine step) (simp add: length_window)
  with s mn show ?case by blast
qed

text \<open>The RTT estimate after any history of samples: none before ten samples, the minimum ever
  seen before sixty, and from then on a value between that minimum and the minimum of the last
  sixty samples.\<close>

theorem rtt_estimate_correct:
  assumes "\<forall>d \<in> set ds. d < 2 ^ 24"
  shows "if length ds < MIN_SAMPLES then get_rtt (rtt_of ds) = None
         else if length ds < WINDOW_SAMPLES then get_rtt (rtt_of ds) = Some (Min (set ds))
         else \<exists>r. get_rtt (rtt_of ds) = Some r \<and> Min (set ds) \<le> r \<and> r \<le> Min (set (window ds))"
proof (cases "length ds < WINDOW_SAMPLES")
  case True
  then have "iter_min ds = Some (Min (set ds))" if "\<not> length ds < MIN_SAMPLES"
    using that by (auto simp: iter_min_Some MIN_SAMPLES_def)
  with True show ?thesis
    using rtt_of_fields [of ds] by (auto simp: get_rtt_def length_window)
next
  case False
  then have ne: "window ds \<noteq> []" using length_window [of ds] by (auto simp: WINDOW_SAMPLES_def)
  have sub: "set (window ds) \<subseteq> set ds" by (simp add: window_def set_drop_subset)
  have "Min (set ds) \<le> Min (set (window ds))"
    using ne sub by (intro Min_antimono) simp_all
  moreover have "Min (set (window ds)) < 2 ^ 24"
    using ne sub assms Min_in [of "set (window ds)"] by (meson List.finite_set set_empty subsetD)
  ultimately show ?thesis
    using False weighted_rtt_between rtt_of_fields [of ds]
    by (auto simp: get_rtt_def qos_consts)
qed

theorem rtt_estimate_correct_witness:
  "(\<exists>r. get_rtt (rtt_of (replicate 59 30 @ [20])) = Some r \<and> 20 \<le> r \<and> r \<le> 20)"
  using rtt_estimate_correct [of "replicate 59 30 @ [20]"]
  by (simp add: qos_consts window_def)

section \<open>Frame rate\<close>

text \<open>C27: No sequence of calls from the connections and the video services makes the controller
  panic; the frame rate it reports is always the one it stores, between 1 and 120, and the ratio it
  reports is always the one it stores, between the high-resolution minimum and \<open>BR_MAX\<close>.\<close>

theorem qos_run_safe:
  "\<exists>q. run_steps qos_step es (qos_default now) = Some q
     \<and> MIN_FPS \<le> fps q \<and> fps q \<le> MAX_FPS \<and> get_fps q = fps q
     \<and> BR_MIN_HIGH_RESOLUTION \<le> ratio q \<and> ratio q \<le> BR_MAX \<and> get_ratio q = (q, ratio q)"
proof -
  obtain q where "run_steps qos_step es (qos_default now) = Some q" "qos_inv q"
    using qos.run_ok [OF qos_inv_default] by blast
  then show ?thesis by (simp add: qos_inv_def get_fps_def get_ratio_def not_less)
qed

lemma fps_candidate_le:
  assumes "u \<in> set (hm_values (users q))"
  shows "fps_candidate now q \<le> (case delay_fps (delay u) of Some f \<Rightarrow> f | None \<Rightarrow> INIT_FPS)"
proof -
  define g where "g u = (case delay_fps (delay u) of Some f \<Rightarrow> f | None \<Rightarrow> INIT_FPS)" for u :: UserData
  obtain m where m: "iter_min (map g (hm_values (users q))) = Some m"
    using assms by (cases "iter_min (map g (hm_values (users q)))") auto
  have "m \<le> g u" using iter_min_le [OF m, of "g u"] assms by simp
  moreover have "fps_candidate now q \<le> m"
    using m by (simp add: fps_candidate_def g_def [abs_def] Let_def)
  ultimately show ?thesis by (simp add: g_def)
qed

lemma adjust_fps_SomeD:
  assumes "adjust_fps now q = Some q'"
  shows "q' = q\<lparr>fps := fps q'\<rparr>" "fps_candidate now q \<le> b \<Longrightarrow> MIN_FPS \<le> b \<Longrightarrow> fps q' \<le> b"
  using assms by (auto simp: adjust_fps_def intro: clamp_upper split: option.splits)

lemma user_fps_ok: "user_inv u \<Longrightarrow> MIN_FPS \<le> user_fps u \<and> user_fps u \<le> MAX_FPS"
  by (auto simp: user_inv_def user_fps_def qos_consts split: option.splits if_splits)

lemma highest_fps_le:
  assumes "qos_inv q" and "u \<in> set (hm_values (users q))" and "highest_fps q = Some h"
  shows "h \<le> user_fps u"
proof -
  have ok: "MIN_FPS \<le> user_fps u" "user_fps u \<le> MAX_FPS"
    using assms(1,2) user_fps_ok by (auto simp: qos_inv_def list_all_iff)
  define fs where "fs = filter (\<lambda>f. MIN_FPS \<le> f) (map user_fps (hm_values (users q)))"
  have mem: "user_fps u \<in> set fs" using assms(2) ok by (auto simp: fs_def)
  then obtain m where m: "iter_min fs = Some m" by (cases "iter_min fs") auto
  have "m \<le> user_fps u" by (rule iter_min_le [OF m mem])
  then show ?thesis
    using assms(3) m ok by (auto simp: highest_fps_def fs_def clamp_def split: if_splits)
qed

text \<open>The frame rate set by \<open>adjust_fps\<close> respects every user: it is at most the limit the user
  asked for and at most the rate its network allows; it is at most 2 while a response is overdue
  and at most \<open>INIT_FPS\<close> in the first second after a connection; nothing else changes.\<close>

theorem adjust_fps_caps:
  assumes "qos_inv q" and "adjust_fps now q = Some q'" and "hm_get (users q) i = Some u"
  shows "q' = q\<lparr>fps := fps q'\<rparr> \<and> fps q' \<le> user_fps u
     \<and> (\<forall>f. delay_fps (delay u) = Some f \<longrightarrow> fps q' \<le> f)
     \<and> (response_delayed (delay u) \<longrightarrow> fps q' \<le> 2)
     \<and> (now < new_user_instant q + 1000 \<longrightarrow> fps q' \<le> INIT_FPS)"
proof -
  have mem: "u \<in> set (hm_values (users q))"
    using hm_get_mem [OF assms(3)] by (force simp: hm_values_def)
  have inv: "user_inv u" by (rule user_of_map [OF assms(1,3)])
  note up = adjust_fps_SomeD(2) [OF assms(2)]
  obtain h where h: "highest_fps q = Some h" using highest_fps_ok by blast
  have "fps q' \<le> h"
    using assms(2) h by (auto simp: adjust_fps_def dest: clamp_SomeD split: option.splits)
  then have "fps q' \<le> user_fps u" using highest_fps_le [OF assms(1) mem h] by simp
  moreover have "fps q' \<le> f" if "delay_fps (delay u) = Some f" for f
    using fps_candidate_le [OF mem, of now] that inv
    by (intro up) (auto simp: user_inv_def user_delay_inv_def)
  moreover have "fps q' \<le> 2" if "response_delayed (delay u)"
    using that mem by (intro up) (auto simp: fps_candidate_def Let_def list_ex_iff qos_consts)
  moreover have "fps q' \<le> INIT_FPS" if "now < new_user_instant q + 1000"
    using that by (intro up) (auto simp: fps_candidate_def Let_def qos_consts)
  ultimately show ?thesis using adjust_fps_SomeD(1) [OF assms(2)] by blast
qed

text \<open>One user, connected at time 0 with adaptive bit rate on.\<close>

definition one_user :: VideoQoS where
  "one_user = on_connection_open 1 ''Y'' 0 (qos_default 0)"

lemma one_user_inv: "qos_inv one_user"
  using qos.step_keeps [OF qos_inv_default [of 0], of "EvOpen 1 ''Y'' 0" one_user]
  by (simp add: one_user_def)

lemma one_user_get: "hm_get (users one_user) 1 = Some user_default"
  by (simp add: one_user_def on_connection_open_def hashmap_simps)

theorem adjust_fps_caps_witness:
  "qos_inv one_user \<and> hm_get (users one_user) 1 = Some user_default
   \<and> (\<exists>q'. adjust_fps 500 one_user = Some q' \<and> fps q' \<le> INIT_FPS)"
proof -
  obtain q' where q': "adjust_fps 500 one_user = Some q'"
    using adjust_fps_inv [OF one_user_inv] by blast
  have "500 < new_user_instant one_user + 1000"
    by (simp add: one_user_def on_connection_open_def qos_default_def)
  with adjust_fps_caps [OF one_user_inv q' one_user_get] q' one_user_inv one_user_get
  show ?thesis by blast
qed

lemma devide_fps_le:
  assumes "f < 2 ^ 24" and "DELAY_THRESHOLD_150MS \<le> avg"
  shows "devide_fps f avg \<le> f"
proof -
  have "150 \<le> f32 (of_nat avg)" using f32_ge_nat [of 150 "of_nat avg"] assms(2)
    by (simp add: DELAY_THRESHOLD_150MS_def)
  then have "1 \<le> f32 (of_nat avg) / f32 (of_nat DELAY_THRESHOLD_150MS)"
    using f32_of_nat [of 150] by (simp add: DELAY_THRESHOLD_150MS_def)
  then have "1 \<le> f32 (f32 (of_nat avg) / f32 (of_nat DELAY_THRESHOLD_150MS))" (is "1 \<le> ?d")
    by (rule f32_ge_1)
  then have "f32 (f32 (of_nat f) / ?d) \<le> of_nat f"
    using assms(1) f32_of_nat [of f] by (intro f32_le_nat) (simp_all add: divide_le_eq mult_le_cancel_left1)
  then have "\<lceil>f32 (f32 (of_nat f) / ?d)\<rceil> \<le> int f" by (simp add: ceiling_le_iff)
  then show ?thesis by (simp add: devide_fps_def f32_as_u32_def)
qed

lemma adaptive_fps_congested:
  assumes "f < 2 ^ 24" and "DELAY_THRESHOLD_150MS \<le> avg"
  shows "fst (adaptive_fps mn nm old avg k f) \<le> max mn f"
    and "200 \<le> avg \<Longrightarrow> fst (adaptive_fps mn nm old avg k f) \<le> mn"
proof -
  have "DELAY_THRESHOLD_150MS * mn div avg \<le> avg * mn div avg"
    using assms(2) by (intro div_le_mono mult_right_mono) simp_all
  then have dividend: "DELAY_THRESHOLD_150MS * mn div avg \<le> mn"
    using assms(2) by (simp add: DELAY_THRESHOLD_150MS_def)
  then show "200 \<le> avg \<Longrightarrow> fst (adaptive_fps mn nm old avg k f) \<le> mn"
    by (auto simp: adaptive_fps_def Let_def DELAY_THRESHOLD_150MS_def)
  from dividend show "fst (adaptive_fps mn nm old avg k f) \<le> max mn f"
    using devide_fps_le [OF assms] assms(2)
    by (auto simp: adaptive_fps_def Let_def DELAY_THRESHOLD_150MS_def)
qed

lemma user_delay_update_congested:
  assumes upd: "user_delay_update mn nm h cur d u = Some u'" and "cur < 2 ^ 24" and "MIN_FPS \<le> mn"
    and avg: "DELAY_THRESHOLD_150MS \<le> avg_delay (add_delay (max d 10) u)"
  obtains f where "delay_fps u' = Some f" "f \<le> max mn cur"
    "200 \<le> avg_delay (add_delay (max d 10) u) \<Longrightarrow> f \<le> mn"
proof -
  let ?avg = "max (avg_delay (add_delay (max d 10) u)) 10"
  obtain f1 k where fk: "adaptive_fps mn nm (avg_delay u) ?avg
      (quick_increase_fps_count (add_delay (max d 10) u)) cur = (f1, k)"
    by fastforce
  have avg': "\<not> ?avg < DELAY_THRESHOLD_150MS" "DELAY_THRESHOLD_150MS \<le> ?avg" using avg by auto
  obtain f where f: "clamp MIN_FPS h f1 = Some f" "delay_fps u' = Some f"
    using upd fk avg' by (auto simp: user_delay_update_def Let_def split: option.splits)
  have "f1 \<le> max mn cur" "200 \<le> ?avg \<Longrightarrow> f1 \<le> mn"
    using adaptive_fps_congested [OF assms(2) avg'(2)] fk by (metis fst_conv)+
  then have "f \<le> max mn cur" "200 \<le> ?avg \<Longrightarrow> f \<le> mn"
    using f(1) assms(3) by (auto intro: clamp_upper)
  with f(2) show thesis by (intro that) auto
qed

lemma adjust_ratio_fps: "adjust_ratio dyn now q = Some q' \<Longrightarrow> fps q' = fps q"
  by (auto simp: adjust_ratio_def Let_def split: if_splits option.splits)

lemma fps_targets_ge: "fps_targets r = (mn, nm) \<Longrightarrow> MIN_FPS \<le> mn"
  by (auto simp: fps_targets_def MIN_FPS_def split: if_splits)

text \<open>When a delay report brings a user's average delay to 150 ms or more, the frame rate never
  rises above the larger of its current value and the minimum frame rate of the image quality; from
  200 ms on it is at most that minimum.\<close>

theorem congestion_never_raises_fps:
  assumes inv: "qos_inv q" and user: "hm_get (users q) i = Some u"
    and targets: "fps_targets (quality_ratio (latest_quality q)) = (min_fps, normal_fps)"
    and avg: "DELAY_THRESHOLD_150MS \<le> avg_delay (add_delay (max d 10) (delay u))"
    and run: "user_network_delay linux i d now q = Some q'"
  shows "fps q' \<le> max min_fps (fps q)
    \<and> (200 \<le> avg_delay (add_delay (max d 10) (delay u)) \<longrightarrow> fps q' \<le> min_fps)"
proof -
  obtain h where h: "highest_fps q = Some h" using highest_fps_ok by blast
  obtain ud where ud: "user_delay_update min_fps normal_fps h (fps q) d (delay u) = Some ud"
    using run h targets user by (auto simp: user_network_delay_def split: option.splits)
  define q1 where "q1 = q\<lparr>users := hm_modify i (\<lambda>u. u\<lparr>delay := ud\<rparr>) (users q)\<rparr>"
  obtain q2 where q2: "adjust_fps now q1 = Some q2" and fps2: "fps q' = fps q2"
    using run h targets user ud
    by (auto simp: user_network_delay_def Let_def q1_def [symmetric] adjust_ratio_fps
        split: option.splits if_splits)
  have mn: "MIN_FPS \<le> min_fps" by (rule fps_targets_ge [OF targets])
  have small: "fps q < 2 ^ 24" using inv by (simp add: qos_inv_def MAX_FPS_def)
  obtain f where f: "delay_fps ud = Some f" "f \<le> max min_fps (fps q)"
    "200 \<le> avg_delay (add_delay (max d 10) (delay u)) \<Longrightarrow> f \<le> min_fps"
    by (rule user_delay_update_congested [OF ud small mn avg]) blast
  have "hm_get (users q1) i = Some (u\<lparr>delay := ud\<rparr>)"
    using user by (simp add: q1_def hashmap_simps)
  then have "u\<lparr>delay := ud\<rparr> \<in> set (hm_values (users q1))"
    by (force simp: hm_values_def dest: hm_get_mem)
  from fps_candidate_le [OF this, of now] have "fps_candidate now q1 \<le> f" by (simp add: f(1))
  then have "fps q2 \<le> max f MIN_FPS" by (intro adjust_fps_SomeD(2) [OF q2]) auto
  with f(2,3) mn fps2 show ?thesis by auto
qed

lemma BR_BALANCED_less_BEST: "BR_BALANCED < BR_BEST"
proof -
  have "BR_BALANCED \<le> 1" using f32_le_nat [of 1 "67 / 100"] by (simp add: BR_BALANCED_def)
  moreover have "BR_BEST = 3 / 2" using f32_half [of 3] by (simp add: BR_BEST_def)
  ultimately show ?thesis by simp
qed

lemma latest_quality_one_user: "latest_quality one_user = Balanced"
  by (simp add: latest_quality_def one_user_def on_connection_open_def qos_default_def hm_values_def
      hm_insert_def user_default_def iter_max_by_def)

lemma one_user_targets: "fps_targets (quality_ratio (latest_quality one_user)) = (10, 20)"
  using BR_BALANCED_less_BEST by (simp add: latest_quality_one_user fps_targets_def)

lemma one_user_avg: "avg_delay (add_delay (max 400 10) (delay user_default)) = 400"
  by (simp add: avg_delay_def add_delay_def user_default_def user_delay_default_def rtt_default_def
      rtt_update_def Let_def qos_consts get_rtt_def)

theorem congestion_never_raises_fps_witness:
  "qos_inv one_user \<and> hm_get (users one_user) 1 = Some user_default
   \<and> DELAY_THRESHOLD_150MS \<le> avg_delay (add_delay (max 400 10) (delay user_default))
   \<and> (\<exists>q'. user_network_delay True 1 400 5000 one_user = Some q' \<and> fps q' \<le> 10)"
proof -
  obtain q' where q': "user_network_delay True 1 400 5000 one_user = Some q'"
    using user_network_delay_inv [OF one_user_inv] by blast
  have avg: "DELAY_THRESHOLD_150MS \<le> avg_delay (add_delay (max 400 10) (delay user_default))"
    unfolding one_user_avg by (simp add: DELAY_THRESHOLD_150MS_def)
  have "fps q' \<le> 10"
    using congestion_never_raises_fps [OF one_user_inv one_user_get one_user_targets avg q']
    unfolding one_user_avg by simp
  with q' avg one_user_inv one_user_get show ?thesis by blast
qed

section \<open>Ratio\<close>

lemma ratio_step_congested:
  assumes "0 \<le> r" "f32 r = r" "DELAY_THRESHOLD_150MS \<le> d"
  shows "ratio_step d b r \<le> r"
proof -
  have "f32 (r * f32 c) \<le> r" if "c \<le> 1" for c
  proof -
    have "f32 c \<le> 1" using f32_le_nat [of 1 c] that by simp
    then have "r * f32 c \<le> r" using assms(1) by (simp add: mult_left_le)
    then show ?thesis using f32_mono assms(2) by metis
  qed
  then show ?thesis using assms(3) by (simp add: ratio_step_def DELAY_THRESHOLD_150MS_def)
qed

lemma ratio_min_None: "ratio_min ql r \<le> ratio_min ql None"
  by (cases ql) (auto simp: ratio_min_def Let_def split: option.split)

lemma BR_MIN_HIGH_RESOLUTION_nonneg [simp]: "0 \<le> BR_MIN_HIGH_RESOLUTION"
  by (simp add: BR_MIN_HIGH_RESOLUTION_def)

text \<open>While some user's average delay is 150 ms or more, adjusting the ratio never raises it
  above the larger of its current value and the minimum of the chosen image quality, whatever the
  stored bit rate and the screen activity.\<close>

theorem congestion_never_raises_ratio:
  assumes inv: "qos_inv q" and user: "hm_get (users q) i = Some u"
    and avg: "DELAY_THRESHOLD_150MS \<le> avg_delay (delay u)"
    and run: "adjust_ratio dyn now q = Some q'"
  shows "ratio q' \<le> max (ratio q) (ratio_min (latest_quality q) None)"
proof (cases "in_vbr_state q")
  case False
  then show ?thesis using run by (simp add: adjust_ratio_def)
next
  case True
  have mem: "u \<in> set (hm_values (users q))"
    using hm_get_mem [OF user] by (force simp: hm_values_def)
  then obtain md where md: "iter_max (map (\<lambda>u. avg_delay (delay u)) (hm_values (users q))) = Some md"
    by (cases "iter_max (map (\<lambda>u. avg_delay (delay u)) (hm_values (users q)))") auto
  have "avg_delay (delay u) \<le> md" using iter_max_ge [OF md] mem by simp
  then have "DELAY_THRESHOLD_150MS \<le> md" using avg by simp
  moreover have "0 \<le> ratio q"
    using inv BR_MIN_HIGH_RESOLUTION_nonneg by (simp only: qos_inv_def) linarith
  ultimately have step: "ratio_step md dyn (ratio q) \<le> ratio q"
    using inv by (intro ratio_step_congested) (auto simp: qos_inv_def)
  obtain r1 y where "clamp (ratio_min (latest_quality q) r1) (f32 (quality_ratio (latest_quality q) * 1))
      (ratio_step md dyn (ratio q)) = Some y" "ratio q' = y"
    using run True md step by (auto simp: adjust_ratio_def Let_def split: option.splits if_splits)
  then have "ratio q' \<le> max (ratio q) (ratio_min (latest_quality q) r1)"
    using step by (auto intro: clamp_upper)
  then show ?thesis using ratio_min_None [of "latest_quality q" r1] by (simp add: le_max_iff_disj) linarith
qed

theorem congestion_never_raises_ratio_witness:
  "qos_inv one_user \<and> hm_get (users one_user) 1 = Some user_default
   \<and> DELAY_THRESHOLD_150MS \<le> avg_delay (delay user_default)
   \<and> (\<exists>q'. adjust_ratio True 5000 one_user = Some q'
        \<and> ratio q' \<le> max (ratio one_user) (ratio_min Balanced None))"
proof -
  obtain q' where q': "adjust_ratio True 5000 one_user = Some q'"
    using adjust_ratio_inv [OF one_user_inv] by blast
  have avg: "DELAY_THRESHOLD_150MS \<le> avg_delay (delay user_default)"
    by (simp add: avg_delay_def user_default_def user_delay_default_def)
  show ?thesis
    using congestion_never_raises_ratio [OF one_user_inv one_user_get avg q'] q' avg
      one_user_inv one_user_get by (auto simp: latest_quality_one_user)
qed

end
