(* ===== verification/Service.thy ===== *)
theory Service
  imports Prelude
begin

text \<open>
  Services and their subscribers, \<open>src/src/server/service.rs\<close>, over the connection handle
  \<open>ConnInner\<close> of \<open>src/src/server/connection.rs\<close>.  Sending is recorded as the list of deliveries
  (connection id, channel, message).  The locale \<open>service_contract\<close> is the part of the trait
  \<open>Service\<close> on which the server relies; it is interpreted on \<open>ServiceInner\<close>.  The loops of the
  service threads are functions of a schedule: what each iteration observes of the shared state
  and of the callback.
\<close>

section \<open>Messages and connection handles\<close>

text \<open>The alternatives of the message union the routing looks at; the payloads are opaque.\<close>

datatype MiscUnion = SwitchDisplay nat | StopService bool | MiscOther nat

datatype Message = VideoFrame nat | Misc MiscUnion | OtherUnion nat

datatype Channel = TxMain | TxVideo

record ConnInner =
  conn_id :: int
  tx :: bool
  tx_video :: bool

type_synonym delivery = "int \<times> Channel \<times> Message"

fun tx_by_video :: "Message \<Rightarrow> bool" where
  "tx_by_video (VideoFrame _) = True"
| "tx_by_video (Misc (SwitchDisplay _)) = True"
| "tx_by_video _ = False"

definition conn_send :: "Message \<Rightarrow> ConnInner \<Rightarrow> delivery list" where
  "conn_send msg c =
    (if tx_by_video msg then (if tx_video c then [(conn_id c, TxVideo, msg)] else [])
     else (if tx c then [(conn_id c, TxMain, msg)] else []))"

section \<open>ServiceInner\<close>

record ServiceInner =
  name :: string
  has_handle :: bool
  subscribes :: "(int, ConnInner) hashmap"
  new_subscribes :: "(int, ConnInner) hashmap"
  active :: bool
  need_snapshot :: bool
  options :: "(string, string) hashmap"

definition service_new :: "string \<Rightarrow> bool \<Rightarrow> ServiceInner" where
  "service_new n snap = \<lparr>name = n, has_handle = False, subscribes = [], new_subscribes = [],
     active = True, need_snapshot = snap, options = []\<rparr>"

definition send_new_subscribes :: "Message \<Rightarrow> ServiceInner \<Rightarrow> delivery list" where
  "send_new_subscribes msg s = concat (map (conn_send msg) (hm_values (new_subscribes s)))"

definition swap_new_subscribes :: "ServiceInner \<Rightarrow> ServiceInner" where
  "swap_new_subscribes s =
     s\<lparr>subscribes := fold (\<lambda>c m. hm_insert (conn_id c) c m) (hm_values (new_subscribes s)) (subscribes s),
       new_subscribes := []\<rparr>"

definition has_subscribes :: "ServiceInner \<Rightarrow> bool" where
  "has_subscribes s \<longleftrightarrow> 0 < length (subscribes s) \<or> 0 < length (new_subscribes s)"

definition is_subed :: "ServiceInner \<Rightarrow> int \<Rightarrow> bool" where
  "is_subed s i \<longleftrightarrow> hm_get (subscribes s) i \<noteq> None \<or> hm_get (new_subscribes s) i \<noteq> None"

definition on_subscribe :: "ConnInner \<Rightarrow> ServiceInner \<Rightarrow> ServiceInner" where
  "on_subscribe sub s =
    (if hm_get (subscribes s) (conn_id sub) \<noteq> None then s
     else if need_snapshot s then s\<lparr>new_subscribes := hm_insert (conn_id sub) sub (new_subscribes s)\<rparr>
     else s\<lparr>subscribes := hm_insert (conn_id sub) sub (subscribes s)\<rparr>)"

definition on_unsubscribe :: "int \<Rightarrow> ServiceInner \<Rightarrow> ServiceInner" where
  "on_unsubscribe i s =
    (if hm_get (subscribes s) i = None
     then s\<lparr>new_subscribes := hm_remove i (new_subscribes s)\<rparr>
     else s\<lparr>subscribes := hm_remove i (subscribes s)\<rparr>)"

text \<open>\<open>join\<close> deactivates the service and takes the handle of its thread; waiting for the thread is
  the exit of its loop below.\<close>

definition join :: "ServiceInner \<Rightarrow> ServiceInner" where
  "join s = s\<lparr>active := False, has_handle := False\<rparr>"

definition get_option :: "ServiceInner \<Rightarrow> string \<Rightarrow> string option" where
  "get_option s opt = hm_get (options s) opt"

definition set_option :: "string \<Rightarrow> string \<Rightarrow> ServiceInner \<Rightarrow> ServiceInner \<times> string option" where
  "set_option opt val s = (s\<lparr>options := hm_insert opt val (options s)\<rparr>, hm_get (options s) opt)"

definition service_ok :: "ServiceInner \<Rightarrow> bool" where
  "service_ok s \<longleftrightarrow> active s \<and> has_subscribes s"

definition is_option_true :: "ServiceInner \<Rightarrow> string \<Rightarrow> bool" where
  "is_option_true s opt = (case get_option s opt of None \<Rightarrow> False | Some v \<Rightarrow> v = ''1'')"

definition set_option_bool :: "string \<Rightarrow> bool \<Rightarrow> ServiceInner \<Rightarrow> ServiceInner" where
  "set_option_bool opt val s =
     (if val then fst (set_option opt ''1'' s) else fst (set_option opt ''0'' s))"

definition send_to :: "Message \<Rightarrow> int \<Rightarrow> ServiceInner \<Rightarrow> delivery list" where
  "send_to msg i s = (case hm_get (subscribes s) i of Some c \<Rightarrow> conn_send msg c | None \<Rightarrow> [])"

definition send_to_others :: "Message \<Rightarrow> int \<Rightarrow> ServiceInner \<Rightarrow> delivery list" where
  "send_to_others msg i s =
     concat (map (\<lambda>(sid, c). if sid \<noteq> i then conn_send msg c else []) (subscribes s))"

definition send_shared :: "Message \<Rightarrow> ServiceInner \<Rightarrow> delivery list" where
  "send_shared msg s = concat (map (conn_send msg) (hm_values (subscribes s)))"

definition send_video_frame_shared :: "Message \<Rightarrow> ServiceInner \<Rightarrow> delivery list \<times> int list" where
  "send_video_frame_shared msg s =
     (send_shared msg s, remdups (map conn_id (hm_values (subscribes s))))"

definition send_without :: "Message \<Rightarrow> int \<Rightarrow> ServiceInner \<Rightarrow> delivery list" where
  "send_without msg sub s =
     concat (map (\<lambda>c. if sub \<noteq> conn_id c then conn_send msg c else []) (hm_values (subscribes s)))"

text \<open>\<open>snapshot\<close>: the callback sends through the \<open>ServiceSwap\<close> handle, to the new subscribers only,
  and may fail part way; dropping the handle swaps the new subscribers in, also after a failure.\<close>

definition snapshot :: "Message list \<Rightarrow> bool \<Rightarrow> ServiceInner \<Rightarrow> ServiceInner \<times> delivery list \<times> bool" where
  "snapshot msgs callback_ok s =
    (if 0 < length (new_subscribes s)
     then (swap_new_subscribes s, concat (map (\<lambda>m. send_new_subscribes m s) msgs), callback_ok)
     else (s, [], True))"

section \<open>Service threads\<close>

definition HIBERNATE_TIMEOUT :: nat where "HIBERNATE_TIMEOUT = 30"
definition MAX_ERROR_TIMEOUT :: nat where "MAX_ERROR_TIMEOUT = 1000"

text \<open>What one iteration observes: whether the service is active and has subscribers when asked,
  whether the callback fails, and how long (in ms) it takes.\<close>

record iteration =
  it_active :: bool
  it_subs :: bool
  it_err :: bool
  it_elapsed :: nat

datatype action = Init | Reset | Callback | Sleep nat

definition next_error_timeout :: "nat \<Rightarrow> nat \<Rightarrow> nat" where
  "next_error_timeout elapsed t =
     min MAX_ERROR_TIMEOUT (if MAX_ERROR_TIMEOUT < elapsed then HIBERNATE_TIMEOUT else t * 2)"

fun run_loop :: "nat \<Rightarrow> iteration list \<Rightarrow> action list" where
  "run_loop t [] = []"
| "run_loop t (it # its) =
    (if \<not> it_active it then []
     else if it_subs it then
       if it_err it then
         let t' = next_error_timeout (it_elapsed it) t
         in [Callback, Sleep t', Sleep HIBERNATE_TIMEOUT] @ run_loop t' its
       else [Callback, Sleep HIBERNATE_TIMEOUT] @ run_loop t its
     else Sleep HIBERNATE_TIMEOUT # run_loop t its)"

definition service_run :: "iteration list \<Rightarrow> action list" where
  "service_run its = run_loop HIBERNATE_TIMEOUT its"

fun repeat_loop :: "nat \<Rightarrow> bool \<Rightarrow> iteration list \<Rightarrow> action list" where
  "repeat_loop interval may_reset [] = []"
| "repeat_loop interval may_reset (it # its) =
    (if \<not> it_active it then []
     else
       let (acts, may_reset', spent) =
         (if it_subs it then
            ((if may_reset then [] else [Init]) @ [Callback]
               @ (if it_err it then [Sleep MAX_ERROR_TIMEOUT] else []),
             True, it_elapsed it + (if it_err it then MAX_ERROR_TIMEOUT else 0))
          else if may_reset then ([Reset], False, it_elapsed it)
          else ([], may_reset, it_elapsed it))
       in acts @ (if spent < interval then [Sleep (interval - spent)] else [])
            @ repeat_loop interval may_reset' its)"

definition service_repeat :: "nat \<Rightarrow> iteration list \<Rightarrow> action list" where
  "service_repeat interval its = repeat_loop interval False its"

section \<open>Contract\<close>

locale service_contract =
  fixes sub :: "ConnInner \<Rightarrow> 's \<Rightarrow> 's"
    and unsub :: "int \<Rightarrow> 's \<Rightarrow> 's"
    and subed :: "'s \<Rightarrow> int \<Rightarrow> bool"
    and inv :: "'s \<Rightarrow> bool"
  assumes inv_sub: "inv s \<Longrightarrow> inv (sub c s)"
    and inv_unsub: "inv s \<Longrightarrow> inv (unsub i s)"
    and subed_sub: "inv s \<Longrightarrow> subed (sub c s) i \<longleftrightarrow> i = conn_id c \<or> subed s i"
    and subed_unsub: "inv s \<Longrightarrow> subed (unsub j s) i \<longleftrightarrow> i \<noteq> j \<and> subed s i"
begin

text \<open>The subscription relation of a map of services: which connection is subscribed to which.\<close>

definition rel :: "(string, 's) hashmap \<Rightarrow> (string \<times> int) set" where
  "rel m = {(k, i). \<exists>s. hm_get m k = Some s \<and> subed s i}"

definition invs :: "(string, 's) hashmap \<Rightarrow> bool" where
  "invs m \<longleftrightarrow> wf_map m \<and> (\<forall>k s. hm_get m k = Some s \<longrightarrow> inv s)"

lemma hm_get_map: "hm_get (map (\<lambda>(k, s). (k, f k s)) m) k = map_option (f k) (hm_get m k)"
  by (induction m) auto

lemma wf_map_map: "wf_map (map (\<lambda>(k, s). (k, f k s)) m) \<longleftrightarrow> wf_map m"
  by (simp add: wf_map_def case_prod_unfold comp_def)

lemma invs_sub_where:
  "invs m \<Longrightarrow> invs (map (\<lambda>(k, s). (k, if P k then sub c s else s)) m)"
  by (auto simp: invs_def wf_map_map hm_get_map inv_sub)

lemma rel_sub_where:
  assumes "invs m"
  shows "rel (map (\<lambda>(k, s). (k, if P k then sub c s else s)) m) =
    rel m \<union> {(k, conn_id c) |k. P k \<and> hm_get m k \<noteq> None}"
proof -
  have "(k, i) \<in> rel (map (\<lambda>(k, s). (k, if P k then sub c s else s)) m) \<longleftrightarrow>
      (k, i) \<in> rel m \<or> P k \<and> i = conn_id c \<and> hm_get m k \<noteq> None" for k i
    using assms by (cases "hm_get m k") (auto simp: rel_def invs_def hm_get_map subed_sub)
  then show ?thesis by auto
qed

lemma invs_unsub_all: "invs m \<Longrightarrow> invs (map (\<lambda>(k, s). (k, unsub i s)) m)"
  by (auto simp: invs_def wf_map_map hm_get_map inv_unsub)

lemma rel_unsub_all:
  assumes "invs m"
  shows "rel (map (\<lambda>(k, s). (k, unsub i s)) m) = rel m - UNIV \<times> {i}"
  using assms by (fastforce simp: rel_def invs_def hm_get_map subed_unsub)

lemma invs_modify:
  "invs m \<Longrightarrow> (\<And>s. inv s \<Longrightarrow> inv (f s)) \<Longrightarrow> invs (hm_modify k f m)"
  by (auto simp: invs_def wf_map_modify hm_get_modify split: if_splits)

lemma rel_sub:
  "invs m \<Longrightarrow> hm_get m k = Some s \<Longrightarrow> rel (hm_modify k (sub c) m) = insert (k, conn_id c) (rel m)"
  by (fastforce simp: rel_def invs_def hm_get_modify subed_sub split: if_splits)

lemma rel_unsub:
  "invs m \<Longrightarrow> hm_get m k = Some s \<Longrightarrow> rel (hm_modify k (unsub i) m) = rel m - {(k, i)}"
  by (fastforce simp: rel_def invs_def hm_get_modify subed_unsub split: if_splits)

lemma rel_iff: "hm_get m k = Some s \<Longrightarrow> (k, i) \<in> rel m \<longleftrightarrow> subed s i"
  by (simp add: rel_def)

end

section \<open>ServiceInner meets the contract\<close>

text \<open>Keys are the ids of the handles, and no connection is subscribed in both maps.\<close>

definition service_inv :: "ServiceInner \<Rightarrow> bool" where
  "service_inv s \<longleftrightarrow> wf_map (subscribes s) \<and> wf_map (new_subscribes s)
     \<and> (\<forall>(i, c) \<in> set (subscribes s) \<union> set (new_subscribes s). conn_id c = i)
     \<and> fst ` set (new_subscribes s) \<inter> fst ` set (subscribes s) = {}
     \<and> (need_snapshot s \<or> new_subscribes s = [])"

lemma service_inv_new [simp]: "service_inv (service_new n b)"
  by (simp add: service_inv_def service_new_def)

lemma service_inv_subscribe:
  assumes "service_inv s"
  shows "service_inv (on_subscribe c s)"
proof -
  have wf: "wf_map (subscribes s)" "wf_map (new_subscribes s)"
    using assms by (simp_all add: service_inv_def)
  from assms show ?thesis
    by (auto simp: service_inv_def on_subscribe_def wf_map_insert set_hm_insert [OF wf(1)]
        set_hm_insert [OF wf(2)] hm_get_None_iff keys_hm_insert)
qed

lemma service_inv_unsubscribe: "service_inv s \<Longrightarrow> service_inv (on_unsubscribe i s)"
  by (auto simp: service_inv_def on_unsubscribe_def wf_map_remove set_hm_remove keys_hm_remove)

lemma service_inv_disjoint:
  "service_inv s \<Longrightarrow> hm_get (subscribes s) i = Some c \<Longrightarrow> hm_get (new_subscribes s) i = None"
  using image_eqI [of i fst "(i, c)" "set (subscribes s)"] hm_get_mem [of "subscribes s" i c]
  by (auto simp only: hm_get_None_iff service_inv_def disjoint_iff fst_conv)

interpretation svc: service_contract on_subscribe on_unsubscribe is_subed service_inv
proof unfold_locales
  fix s c i j
  assume inv: "service_inv s"
  show "service_inv (on_subscribe c s)" using inv by (rule service_inv_subscribe)
  show "service_inv (on_unsubscribe i s)" using inv by (rule service_inv_unsubscribe)
  show "is_subed (on_subscribe c s) i \<longleftrightarrow> i = conn_id c \<or> is_subed s i"
    by (auto simp: is_subed_def on_subscribe_def hm_get_insert)
  show "is_subed (on_unsubscribe j s) i \<longleftrightarrow> i \<noteq> j \<and> is_subed s i"
    using service_inv_disjoint [OF inv, of j]
    by (cases "hm_get (subscribes s) j") (auto simp: is_subed_def on_unsubscribe_def hm_get_remove)
qed

section \<open>Deliveries\<close>

definition to_conn :: "int \<Rightarrow> delivery list \<Rightarrow> (Channel \<times> Message) list" where
  "to_conn i ds = map snd (filter (\<lambda>d. fst d = i) ds)"

lemma to_conn_simps [simp]: "to_conn i [] = []" "to_conn i (xs @ ys) = to_conn i xs @ to_conn i ys"
  by (simp_all add: to_conn_def)

lemma to_conn_send: "to_conn i (conn_send msg c) = (if conn_id c = i then map snd (conn_send msg c) else [])"
  by (auto simp: to_conn_def conn_send_def)

definition keyed :: "(int, ConnInner) hashmap \<Rightarrow> bool" where
  "keyed m \<longleftrightarrow> wf_map m \<and> (\<forall>(i, c) \<in> set m. conn_id c = i)"

lemma keyed_service_inv:
  "service_inv s \<Longrightarrow> keyed (subscribes s)" "service_inv s \<Longrightarrow> keyed (new_subscribes s)"
  by (auto simp: service_inv_def keyed_def)

lemma keyed_Cons: "keyed ((i, c) # m) \<longleftrightarrow> conn_id c = i \<and> i \<notin> fst ` set m \<and> keyed m"
  by (auto simp: keyed_def wf_map_def)

lemma to_conn_broadcast:
  "keyed m \<Longrightarrow> to_conn i (concat (map (\<lambda>c. if P (conn_id c) then conn_send msg c else []) (hm_values m))) =
     (case hm_get m i of Some c \<Rightarrow> if P i then map snd (conn_send msg c) else [] | None \<Rightarrow> [])"
proof (induction m)
  case Nil
  then show ?case by (simp add: hm_values_def)
next
  case (Cons a m)
  obtain j c where a: "a = (j, c)" by (cases a)
  have k: "conn_id c = j" "j \<notin> fst ` set m" "keyed m" using Cons.prems by (simp_all add: a keyed_Cons)
  have "hm_get m j = None" using k(2) by (simp add: hm_get_None_iff)
  with k Cons.IH show ?case by (auto simp: a hm_values_def to_conn_send split: option.split)
qed

lemma to_conn_all:
  "keyed m \<Longrightarrow> to_conn i (concat (map (conn_send msg) (hm_values m))) =
     (case hm_get m i of Some c \<Rightarrow> map snd (conn_send msg c) | None \<Rightarrow> [])"
  using to_conn_broadcast [of m i "\<lambda>_. True" msg] by (simp cong: option.case_cong)

lemma hm_get_fold_insert:
  "keyed new \<Longrightarrow> hm_get (fold (\<lambda>c m. hm_insert (conn_id c) c m) (hm_values new) m) i =
     (case hm_get new i of Some c \<Rightarrow> Some c | None \<Rightarrow> hm_get m i)"
proof (induction new arbitrary: m)
  case (Cons a new)
  obtain j c where a: "a = (j, c)" by (cases a)
  have k: "conn_id c = j" "j \<notin> fst ` set new" "keyed new" using Cons.prems by (simp_all add: a keyed_Cons)
  have "hm_get new j = None" using k(2) by (simp add: hm_get_None_iff)
  with k Cons.IH [OF k(3), of "hm_insert j c m"] show ?case
    by (auto simp: a hm_values_def hm_get_insert split: option.split)
qed (simp add: hm_values_def)

lemma keyed_insert: "keyed m \<Longrightarrow> keyed (hm_insert (conn_id c) c m)"
  by (auto simp: keyed_def wf_map_insert set_hm_insert)

lemma keyed_fold_insert:
  "keyed m \<Longrightarrow> keyed (fold (\<lambda>c m. hm_insert (conn_id c) c m) cs m)"
  by (induction cs arbitrary: m) (simp_all add: keyed_insert)

lemma service_inv_swap: "service_inv s \<Longrightarrow> service_inv (swap_new_subscribes s)"
  using keyed_fold_insert [OF keyed_service_inv(1)]
  by (auto simp: service_inv_def swap_new_subscribes_def keyed_def)

lemma swap_subscribes:
  "service_inv s \<Longrightarrow> hm_get (subscribes (swap_new_subscribes s)) i =
     (case hm_get (new_subscribes s) i of Some c \<Rightarrow> Some c | None \<Rightarrow> hm_get (subscribes s) i)"
  by (simp add: swap_new_subscribes_def hm_get_fold_insert keyed_service_inv)

section \<open>Sequences of service operations\<close>

datatype SvcEvent =
    Subscribe ConnInner
  | Unsubscribe int
  | SendShared Message
  | SendWithout Message int
  | SendTo Message int
  | Snapshot "Message list" bool

fun svc_step :: "SvcEvent \<Rightarrow> ServiceInner \<Rightarrow> ServiceInner \<times> delivery list" where
  "svc_step (Subscribe c) s = (on_subscribe c s, [])"
| "svc_step (Unsubscribe i) s = (on_unsubscribe i s, [])"
| "svc_step (SendShared m) s = (s, send_shared m s)"
| "svc_step (SendWithout m i) s = (s, send_without m i s)"
| "svc_step (SendTo m i) s = (s, send_to m i s)"
| "svc_step (Snapshot ms ok) s = (let (s', ds, _) = snapshot ms ok s in (s', ds))"

primrec svc_run :: "SvcEvent list \<Rightarrow> ServiceInner \<Rightarrow> ServiceInner \<times> delivery list" where
  "svc_run [] s = (s, [])"
| "svc_run (e # es) s = (let (s1, d1) = svc_step e s; (s2, d2) = svc_run es s1 in (s2, d1 @ d2))"

text \<open>What a live subscriber is owed for an operation.\<close>

fun updates :: "ConnInner \<Rightarrow> SvcEvent \<Rightarrow> (Channel \<times> Message) list" where
  "updates c (SendShared m) = map snd (conn_send m c)"
| "updates c (SendWithout m i) = (if i \<noteq> conn_id c then map snd (conn_send m c) else [])"
| "updates c (SendTo m i) = (if i = conn_id c then map snd (conn_send m c) else [])"
| "updates c _ = []"

fun about :: "int \<Rightarrow> SvcEvent \<Rightarrow> bool" where
  "about i (Subscribe c) \<longleftrightarrow> conn_id c = i"
| "about i (Unsubscribe j) \<longleftrightarrow> j = i"
| "about i _ \<longleftrightarrow> False"

fun is_snapshot :: "SvcEvent \<Rightarrow> bool" where
  "is_snapshot (Snapshot _ _) \<longleftrightarrow> True"
| "is_snapshot _ \<longleftrightarrow> False"

definition pending :: "ConnInner \<Rightarrow> ServiceInner \<Rightarrow> bool" where
  "pending c s \<longleftrightarrow> service_inv s \<and> need_snapshot s \<and> hm_get (new_subscribes s) (conn_id c) = Some c
     \<and> hm_get (subscribes s) (conn_id c) = None"

definition live :: "ConnInner \<Rightarrow> ServiceInner \<Rightarrow> bool" where
  "live c s \<longleftrightarrow> service_inv s \<and> hm_get (subscribes s) (conn_id c) = Some c"

lemma send_deliveries:
  assumes "service_inv s"
  shows "to_conn i (send_shared m s) =
      (case hm_get (subscribes s) i of Some c \<Rightarrow> map snd (conn_send m c) | None \<Rightarrow> [])"
    and "to_conn i (send_without m j s) =
      (case hm_get (subscribes s) i of Some c \<Rightarrow> if i \<noteq> j then map snd (conn_send m c) else [] | None \<Rightarrow> [])"
    and "to_conn i (send_new_subscribes m s) =
      (case hm_get (new_subscribes s) i of Some c \<Rightarrow> map snd (conn_send m c) | None \<Rightarrow> [])"
    and "to_conn i (send_to m j s) =
      (case hm_get (subscribes s) i of Some c \<Rightarrow> if i = j then map snd (conn_send m c) else [] | None \<Rightarrow> [])"
proof -
  note k = keyed_service_inv [OF assms]
  show "to_conn i (send_shared m s) =
      (case hm_get (subscribes s) i of Some c \<Rightarrow> map snd (conn_send m c) | None \<Rightarrow> [])"
    by (simp add: send_shared_def to_conn_all [OF k(1)])
  show "to_conn i (send_without m j s) =
      (case hm_get (subscribes s) i of Some c \<Rightarrow> if i \<noteq> j then map snd (conn_send m c) else [] | None \<Rightarrow> [])"
    using to_conn_broadcast [OF k(1), of i "\<lambda>x. j \<noteq> x" m] by (auto simp: send_without_def split: option.split)
  show "to_conn i (send_new_subscribes m s) =
      (case hm_get (new_subscribes s) i of Some c \<Rightarrow> map snd (conn_send m c) | None \<Rightarrow> [])"
    by (simp add: send_new_subscribes_def to_conn_all [OF k(2)])
  have "conn_id c = j" if "hm_get (subscribes s) j = Some c" for c
    using hm_get_mem [OF that] k(1) by (auto simp: keyed_def)
  then show "to_conn i (send_to m j s) =
      (case hm_get (subscribes s) i of Some c \<Rightarrow> if i = j then map snd (conn_send m c) else [] | None \<Rightarrow> [])"
    by (auto simp: send_to_def to_conn_send split: option.split)
qed

lemma pending_step:
  assumes p: "pending c s" and q: "\<not> about (conn_id c) e" "\<not> is_snapshot e"
  shows "pending c (fst (svc_step e s)) \<and> to_conn (conn_id c) (snd (svc_step e s)) = []"
proof (cases e)
  case (Subscribe c')
  then show ?thesis using p q
    by (auto simp: pending_def service_inv_subscribe) (auto simp: on_subscribe_def hm_get_insert)
next
  case (Unsubscribe i)
  then show ?thesis using p q
    by (auto simp: pending_def service_inv_unsubscribe) (auto simp: on_unsubscribe_def hm_get_remove)
qed (use p q in \<open>auto simp: pending_def send_deliveries\<close>)

lemma live_step:
  assumes l: "live c s" and q: "\<not> about (conn_id c) e"
  shows "live c (fst (svc_step e s)) \<and> to_conn (conn_id c) (snd (svc_step e s)) = updates c e"
proof (cases e)
  case (Subscribe c')
  then show ?thesis using l q
    by (auto simp: live_def service_inv_subscribe) (auto simp: on_subscribe_def hm_get_insert)
next
  case (Unsubscribe i)
  then show ?thesis using l q
    by (auto simp: live_def service_inv_unsubscribe) (auto simp: on_unsubscribe_def hm_get_remove)
next
  case (Snapshot ms ok)
  have inv: "service_inv s" using l by (simp add: live_def)
  have none: "hm_get (new_subscribes s) (conn_id c) = None"
    using l service_inv_disjoint by (auto simp: live_def)
  then have "to_conn (conn_id c) (concat (map (\<lambda>m. send_new_subscribes m s) ms)) = []"
    by (induction ms) (simp_all add: send_deliveries [OF inv])
  with Snapshot l none show ?thesis
    by (auto simp: live_def snapshot_def service_inv_swap swap_subscribes)
qed (use l q in \<open>auto simp: live_def send_deliveries\<close>)

lemma svc_run_append:
  "svc_run (es1 @ es2) s = (let (s1, d1) = svc_run es1 s; (s2, d2) = svc_run es2 s1 in (s2, d1 @ d2))"
  by (induction es1 arbitrary: s) (auto simp: Let_def split: prod.splits)

lemma pending_run:
  "pending c s \<Longrightarrow> \<forall>e \<in> set es. \<not> about (conn_id c) e \<and> \<not> is_snapshot e \<Longrightarrow>
     pending c (fst (svc_run es s)) \<and> to_conn (conn_id c) (snd (svc_run es s)) = []"
proof (induction es arbitrary: s)
  case (Cons e es)
  then show ?case using pending_step [of c s e] by (simp add: Let_def case_prod_beta)
qed simp

lemma live_run:
  "live c s \<Longrightarrow> \<forall>e \<in> set es. \<not> about (conn_id c) e \<Longrightarrow>
     live c (fst (svc_run es s)) \<and> to_conn (conn_id c) (snd (svc_run es s)) = concat (map (updates c) es)"
proof (induction es arbitrary: s)
  case (Cons e es)
  then show ?case using live_step [of c s e] by (simp add: Let_def case_prod_beta)
qed simp

lemma snapshot_step:
  assumes "pending c s"
  shows "live c (fst (svc_step (Snapshot ms ok) s))
    \<and> to_conn (conn_id c) (snd (svc_step (Snapshot ms ok) s)) = concat (map (\<lambda>m. map snd (conn_send m c)) ms)"
proof -
  have inv: "service_inv s" and new: "hm_get (new_subscribes s) (conn_id c) = Some c"
    using assms by (simp_all add: pending_def)
  have "to_conn (conn_id c) (concat (map (\<lambda>m. send_new_subscribes m s) ms)) =
      concat (map (\<lambda>m. map snd (conn_send m c)) ms)"
    by (induction ms) (simp_all add: send_deliveries [OF inv] new)
  moreover have "new_subscribes s \<noteq> []" using new by auto
  ultimately show ?thesis
    using inv new by (simp add: snapshot_def live_def service_inv_swap swap_subscribes)
qed



section \<open>Threads\<close>

text \<open>A trace of the repeat loop is well bracketed when the state is initialised exactly when a
  callback follows a reset (or the start) and reset only after an initialisation.\<close>

fun bracketed :: "bool \<Rightarrow> action list \<Rightarrow> bool" where
  "bracketed up [] = True"
| "bracketed up (Init # as) = (\<not> up \<and> bracketed True as)"
| "bracketed up (Reset # as) = (up \<and> bracketed False as)"
| "bracketed up (Callback # as) = (up \<and> bracketed up as)"
| "bracketed up (Sleep _ # as) = bracketed up as"

lemma bracketed_repeat: "bracketed may_reset (repeat_loop interval may_reset its)"
  by (induction its arbitrary: may_reset) (auto simp: Let_def)

lemma next_error_timeout_bounds:
  "HIBERNATE_TIMEOUT \<le> t \<Longrightarrow> HIBERNATE_TIMEOUT \<le> next_error_timeout e t"
  "next_error_timeout e t \<le> MAX_ERROR_TIMEOUT"
  by (simp_all add: next_error_timeout_def HIBERNATE_TIMEOUT_def MAX_ERROR_TIMEOUT_def)

lemma run_loop_sleeps:
  "HIBERNATE_TIMEOUT \<le> t \<Longrightarrow> Sleep n \<in> set (run_loop t its) \<Longrightarrow>
     HIBERNATE_TIMEOUT \<le> n \<and> n \<le> MAX_ERROR_TIMEOUT"
proof (induction its arbitrary: t)
  case (Cons it its)
  have "HIBERNATE_TIMEOUT \<le> MAX_ERROR_TIMEOUT"
    by (simp add: HIBERNATE_TIMEOUT_def MAX_ERROR_TIMEOUT_def)
  with Cons next_error_timeout_bounds(1) [of t "it_elapsed it"]
    next_error_timeout_bounds(2) [of "it_elapsed it" t] show ?case
    by (auto simp: Let_def split: if_splits)
qed simp

lemma run_loop_fast_errors:
  assumes "\<forall>it \<in> set its. it_active it \<and> it_subs it \<and> it_err it \<and> it_elapsed it \<le> MAX_ERROR_TIMEOUT"
  shows "run_loop t its =
    concat (map (\<lambda>k. [Callback, Sleep (min MAX_ERROR_TIMEOUT (t * 2 ^ Suc k)), Sleep HIBERNATE_TIMEOUT])
      [0..<length its])"
  using assms
proof (induction its arbitrary: t)
  case (Cons it its)
  define t' where "t' = min MAX_ERROR_TIMEOUT (t * 2)"
  have pow: "min MAX_ERROR_TIMEOUT (t' * 2 ^ Suc k) = min MAX_ERROR_TIMEOUT (t * 2 ^ Suc (Suc k))" for k
  proof (cases "MAX_ERROR_TIMEOUT \<le> t * 2")
    case True
    have "t * 2 \<le> t * 2 ^ Suc (Suc k)" by (intro mult_left_mono) simp_all
    with True have "MAX_ERROR_TIMEOUT \<le> t * 2 ^ Suc (Suc k)" by (rule order_trans)
    then show ?thesis using True by (simp add: t'_def min_def)
  qed (simp add: t'_def min_def)
  have upt: "[0..<length (it # its)] = 0 # map Suc [0..<length its]"
    by (simp add: map_Suc_upt upt_conv_Cons del: upt_Suc)
  have "run_loop t (it # its) = [Callback, Sleep t', Sleep HIBERNATE_TIMEOUT] @ run_loop t' its"
    using Cons.prems by (simp add: Let_def next_error_timeout_def t'_def)
  moreover have "run_loop t' its = concat (map (\<lambda>k. [Callback,
      Sleep (min MAX_ERROR_TIMEOUT (t * 2 ^ Suc (Suc k))), Sleep HIBERNATE_TIMEOUT]) [0..<length its])"
    unfolding pow [symmetric] by (rule Cons.IH) (use Cons.prems in simp)
  ultimately show ?case
    unfolding upt by (simp add: comp_def t'_def)
qed simp

text \<open>The service thread of \<open>run\<close> never sleeps less than 30 ms nor more than a second, whatever
  its callback does, and a callback that keeps failing quickly is retried with delays that double
  from 60 ms up to the one-second cap.\<close>

theorem run_backoff:
  "(\<forall>n. Sleep n \<in> set (service_run its) \<longrightarrow> 30 \<le> n \<and> n \<le> 1000)
   \<and> ((\<forall>it \<in> set its. it_active it \<and> it_subs it \<and> it_err it \<and> it_elapsed it \<le> 1000) \<longrightarrow>
      service_run its =
        concat (map (\<lambda>k. [Callback, Sleep (min 1000 (30 * 2 ^ Suc k)), Sleep 30]) [0..<length its]))"
  using run_loop_sleeps [of HIBERNATE_TIMEOUT _ its] run_loop_fast_errors [of its HIBERNATE_TIMEOUT]
  unfolding service_run_def HIBERNATE_TIMEOUT_def MAX_ERROR_TIMEOUT_def by blast

theorem run_backoff_witness:
  "service_run (replicate 6 \<lparr>it_active = True, it_subs = True, it_err = True, it_elapsed = 1\<rparr>) =
     concat (map (\<lambda>k. [Callback, Sleep (min 1000 (30 * 2 ^ Suc k)), Sleep 30]) [0..<6])"
proof -
  let ?its = "replicate 6 \<lparr>it_active = True, it_subs = True, it_err = True, it_elapsed = 1\<rparr>"
  have "\<forall>it \<in> set ?its. it_active it \<and> it_subs it \<and> it_err it \<and> it_elapsed it \<le> 1000"
    by simp
  with run_backoff [of ?its] show ?thesis
    unfolding length_replicate by blast
qed

end
