(* ===== verification/Rust_Strings.thy ===== *)
theory Rust_Strings
  imports Prelude
begin

text \<open>
  String helpers of \<open>libs/hbb_common/src/lib.rs\<close>: version numbers, the custom-id check and the
  address checks that the login code uses, with the pieces of the Rust string library they call.
  A string is a list of characters; the regular expressions are translated for ASCII text
  (\<open>\d\<close>, \<open>\w\<close> and case folding of the \<open>regex\<close> crate also accept some non-ASCII characters).
\<close>

section \<open>The Rust string library\<close>

text \<open>\<open>str::split\<close> on a predicate: at least one piece, empty pieces kept.\<close>

fun split_by :: "(char \<Rightarrow> bool) \<Rightarrow> string \<Rightarrow> string list" where
  "split_by p [] = [[]]"
| "split_by p (c # cs) =
     (if p c then [] # split_by p cs
      else (case split_by p cs of [] \<Rightarrow> [[c]] | w # ws \<Rightarrow> (c # w) # ws))"

definition split_on :: "char \<Rightarrow> string \<Rightarrow> string list" where
  "split_on c s = split_by (\<lambda>x. x = c) s"

definition starts_with :: "string \<Rightarrow> string \<Rightarrow> bool" where
  "starts_with p s \<longleftrightarrow> take (length p) s = p"

text \<open>\<open>str::trim\<close> on ASCII text.\<close>

definition trim :: "string \<Rightarrow> string" where
  "trim s = (let ws = (\<lambda>c. c \<in> set [CHR '' '', CHR 0x09, CHR 0x0A, CHR 0x0B, CHR 0x0C, CHR 0x0D])
     in rev (dropWhile ws (rev (dropWhile ws s))))"

text \<open>Decimal printing of a \<open>usize\<close>.\<close>

fun show_nat :: "nat \<Rightarrow> string" where
  "show_nat n = (if n < 10 then [char_of (48 + n)] else show_nat (n div 10) @ [char_of (48 + n mod 10)])"

declare show_nat.simps [simp del]

definition show_int :: "int \<Rightarrow> string" where
  "show_int n = (if n < 0 then CHR ''-'' # show_nat (nat (- n)) else show_nat (nat n))"

definition char_code :: "char \<Rightarrow> nat" where
  "char_code c = of_char c"

definition is_digit :: "char \<Rightarrow> bool" where
  "is_digit c \<longleftrightarrow> 48 \<le> char_code c \<and> char_code c \<le> 57"

definition is_lower :: "char \<Rightarrow> bool" where
  "is_lower c \<longleftrightarrow> 97 \<le> char_code c \<and> char_code c \<le> 122"

definition is_upper :: "char \<Rightarrow> bool" where
  "is_upper c \<longleftrightarrow> 65 \<le> char_code c \<and> char_code c \<le> 90"

definition is_alpha :: "char \<Rightarrow> bool" where
  "is_alpha c \<longleftrightarrow> is_lower c \<or> is_upper c"

definition is_hex :: "char \<Rightarrow> bool" where
  "is_hex c \<longleftrightarrow> is_digit c \<or> (97 \<le> char_code c \<and> char_code c \<le> 102)
      \<or> (65 \<le> char_code c \<and> char_code c \<le> 70)"

fun digits_value :: "int \<Rightarrow> string \<Rightarrow> int" where
  "digits_value acc [] = acc"
| "digits_value acc (c # cs) = digits_value (acc * 10 + (of_char c - 48)) cs"

text \<open>\<open>str::parse::<i64>\<close> and \<open><i32>\<close>: an optional sign, at least one digit, and the value in
  range.\<close>

definition parse_int :: "nat \<Rightarrow> string \<Rightarrow> int option" where
  "parse_int w s =
     (let (neg, ds) = (case s of
            [] \<Rightarrow> (False, [])
          | c # cs \<Rightarrow> if c = CHR ''-'' then (True, cs) else if c = CHR ''+'' then (False, cs) else (False, s));
          v = (if neg then - digits_value 0 ds else digits_value 0 ds)
      in if ds \<noteq> [] \<and> list_all is_digit ds \<and> - (2 ^ (w - 1)) \<le> v \<and> v < 2 ^ (w - 1)
         then Some v else None)"

definition parse_i64 :: "string \<Rightarrow> int option" where
  "parse_i64 = parse_int 64"

definition parse_i32 :: "string \<Rightarrow> int option" where
  "parse_i32 = parse_int 32"

definition wrap64 :: "int \<Rightarrow> int" where
  "wrap64 n = (n + 2 ^ 63) mod 2 ^ 64 - 2 ^ 63"

section \<open>Version numbers\<close>

definition unwrap_or :: "'a \<Rightarrow> 'a option \<Rightarrow> 'a" where
  "unwrap_or d x = (case x of None \<Rightarrow> d | Some v \<Rightarrow> v)"

text \<open>The loop over the dot-separated parts, with the two accumulators \<open>n\<close> and \<open>last\<close>.\<close>

fun version_loop :: "int \<Rightarrow> int \<Rightarrow> string list \<Rightarrow> int \<times> int" where
  "version_loop n lst [] = (n, lst)"
| "version_loop n lst (x # xs) =
     (let l = unwrap_or 0 (parse_i64 x) in version_loop (wrap64 (n * 1000 + l)) l xs)"

definition get_version_number :: "string \<Rightarrow> int" where
  "get_version_number v =
     (case split_on CHR ''-'' v of
        [] \<Rightarrow> 0
      | core # rest \<Rightarrow>
          (let (n, lst) = version_loop 0 0 (split_on CHR ''.'' core);
               n = wrap64 (wrap64 (n - lst) + wrap64 (lst * 10))
           in case rest of
                [] \<Rightarrow> n
              | patch # _ \<Rightarrow> wrap64 (n + unwrap_or 0 (parse_i64 patch))))"

text \<open>\<open>chars().rev().position(..)\<close>\<close>

definition rposition :: "char \<Rightarrow> string \<Rightarrow> nat option" where
  "rposition c s =
     (let k = length (takeWhile (\<lambda>x. x \<noteq> c) (rev s)) in if k < length s then Some k else None)"

definition get_version_from_url :: "string \<Rightarrow> string" where
  "get_version_from_url url =
     (let n = length url in
      case rposition CHR ''-'' url of
        None \<Rightarrow> []
      | Some a \<Rightarrow>
          (case rposition CHR ''.'' url of
             None \<Rightarrow> []
           | Some b \<Rightarrow>
               if a > b then
                 (if parse_i32 (drop (n - b) url) \<noteq> None then drop (n - a) url
                  else take (a - b - 1) (drop (n - a) url))
               else drop (n - a) url))"

section \<open>Identifiers and addresses\<close>

definition is_word_char :: "char \<Rightarrow> bool" where
  "is_word_char c \<longleftrightarrow> is_alpha c \<or> is_digit c \<or> c = CHR ''_''"

definition is_valid_custom_id :: "string \<Rightarrow> bool" where
  "is_valid_custom_id s =
     (case s of
        [] \<Rightarrow> False
      | c # cs \<Rightarrow> is_alpha c \<and> 5 \<le> length cs \<and> length cs \<le> 15
          \<and> list_all (\<lambda>x. is_word_char x \<or> x = CHR ''-'') cs)"

definition is_octet :: "string \<Rightarrow> bool" where
  "is_octet s \<longleftrightarrow> s \<noteq> [] \<and> length s \<le> 3 \<and> list_all is_digit s \<and> digits_value 0 s \<le> 255"

definition is_port_suffix :: "string list \<Rightarrow> bool" where
  "is_port_suffix ps =
     (case ps of [] \<Rightarrow> True | [p] \<Rightarrow> p \<noteq> [] \<and> list_all is_digit p | _ \<Rightarrow> False)"

definition is_ipv4_str :: "string \<Rightarrow> bool" where
  "is_ipv4_str s =
     (case split_on CHR '':'' s of
        [] \<Rightarrow> False
      | a # ps \<Rightarrow> is_port_suffix ps \<and> length (split_on CHR ''.'' a) = 4
          \<and> list_all is_octet (split_on CHR ''.'' a))"

text \<open>Groups of one to four hex digits separated by one or two colons; at least one separator.\<close>

definition is_hex_group :: "string \<Rightarrow> bool" where
  "is_hex_group g \<longleftrightarrow> g \<noteq> [] \<and> length g \<le> 4 \<and> list_all is_hex g"

fun ipv6_groups :: "string list \<Rightarrow> bool" where
  "ipv6_groups [] = False"
| "ipv6_groups [g] = is_hex_group g"
| "ipv6_groups (g # [] # gs) = (is_hex_group g \<and> ipv6_groups gs)"
| "ipv6_groups (g # gs) = (is_hex_group g \<and> ipv6_groups gs)"

definition is_ipv6_body :: "string \<Rightarrow> bool" where
  "is_ipv6_body s \<longleftrightarrow> (let gs = split_on CHR '':'' s in 2 \<le> length gs \<and> ipv6_groups gs)"

definition is_ipv6_str :: "string \<Rightarrow> bool" where
  "is_ipv6_str s \<longleftrightarrow>
     is_ipv6_body s \<or>
     (case s of
        [] \<Rightarrow> False
      | c # cs \<Rightarrow> c = CHR ''['' \<and>
          (let body = takeWhile (\<lambda>x. x \<noteq> CHR '']'') cs; rest = dropWhile (\<lambda>x. x \<noteq> CHR '']'') cs
           in is_ipv6_body body \<and> take 2 rest = '']:'' \<and> drop 2 rest \<noteq> [] \<and> list_all is_digit (drop 2 rest)))"

definition is_ip_str :: "string \<Rightarrow> bool" where
  "is_ip_str s \<longleftrightarrow> is_ipv4_str s \<or> is_ipv6_str s"

definition is_label :: "string \<Rightarrow> bool" where
  "is_label l \<longleftrightarrow> l \<noteq> [] \<and> length l \<le> 63
     \<and> (is_alpha (hd l) \<or> is_digit (hd l)) \<and> (is_alpha (last l) \<or> is_digit (last l))
     \<and> list_all (\<lambda>x. is_alpha x \<or> is_digit x \<or> x = CHR ''-'') l"

definition is_tld :: "string \<Rightarrow> bool" where
  "is_tld l \<longleftrightarrow> 2 \<le> length l \<and> length l \<le> 63 \<and> is_alpha (hd l) \<and> is_alpha (last l)
     \<and> list_all (\<lambda>x. is_alpha x \<or> x = CHR ''-'') l"

definition is_domain_port_str :: "string \<Rightarrow> bool" where
  "is_domain_port_str s =
     (case split_on CHR '':'' s of
        [h, p] \<Rightarrow> (let ls = split_on CHR ''.'' h in
           2 \<le> length ls \<and> list_all is_label (butlast ls) \<and> is_tld (last ls)
           \<and> p \<noteq> [] \<and> length p \<le> 5 \<and> list_all is_digit p)
      | _ \<Rightarrow> False)"

section \<open>Lemmas\<close>

lemma split_by_nonempty [simp]: "split_by p s \<noteq> []"
  by (induction s) (auto split: list.splits)

lemma split_on_nonempty [simp]: "split_on c s \<noteq> []"
  by (simp add: split_on_def)

lemma wrap64_id: "- (2 ^ 63) \<le> n \<Longrightarrow> n < 2 ^ 63 \<Longrightarrow> wrap64 n = n"
  by (simp add: wrap64_def)

lemmas char_class_simps = char_code_def is_digit_def is_lower_def is_upper_def is_alpha_def
  is_hex_def is_word_char_def

text \<open>The components of a plain three-part version, each in the given range.\<close>

definition version_parts :: "string \<Rightarrow> int \<times> int \<times> int \<Rightarrow> bool" where
  "version_parts v p = (case p of (a, b, c) \<Rightarrow>
     (case split_on CHR ''-'' v of
        [core] \<Rightarrow> map parse_i64 (split_on CHR ''.'' core) = [Some a, Some b, Some c]
      | _ \<Rightarrow> False)
     \<and> 0 \<le> a \<and> a \<le> 10 ^ 9 \<and> 0 \<le> b \<and> b < 1000 \<and> 0 \<le> c \<and> c < 1000)"

lemma version_number_formula:
  assumes "version_parts v (a, b, c)"
  shows "get_version_number v = a * 1000000 + b * 1000 + c * 10"
proof -
  from assms obtain core where core: "split_on CHR ''-'' v = [core]"
    by (auto simp: version_parts_def split: list.splits)
  with assms have "map parse_i64 (split_on CHR ''.'' core) = [Some a, Some b, Some c]"
    by (simp add: version_parts_def)
  then obtain x y z where xyz: "split_on CHR ''.'' core = [x, y, z]"
    and "parse_i64 x = Some a" "parse_i64 y = Some b" "parse_i64 z = Some c"
    by (auto simp: map_eq_Cons_conv)
  moreover from assms have "0 \<le> a" "a \<le> 1000000000" "0 \<le> b" "b < 1000" "0 \<le> c" "c < 1000"
    by (simp_all add: version_parts_def)
  ultimately show ?thesis
    by (simp add: get_version_number_def core unwrap_or_def wrap64_id)
qed

section \<open>Properties\<close>

text \<open>for versions \<open>a.b.c\<close> whose last number is below 100, comparing version numbers is
  comparing the versions component by component.\<close>

theorem version_order_correct:
  assumes "version_parts v (a, b, c)" and "version_parts v' (a', b', c')" and "c < 100" and "c' < 100"
  shows "get_version_number v < get_version_number v' \<longleftrightarrow>
     a < a' \<or> a = a' \<and> (b < b' \<or> b = b' \<and> c < c')"
proof -
  from assms have "0 \<le> b" "b < 1000" "0 \<le> c" "0 \<le> b'" "b' < 1000" "0 \<le> c'"
    by (simp_all add: version_parts_def)
  with assms(3,4) show ?thesis
    unfolding version_number_formula [OF assms(1)] version_number_formula [OF assms(2)]
    by (cases a a' rule: linorder_cases; cases b b' rule: linorder_cases) simp_all
qed

theorem version_order_correct_witness:
  "get_version_number ''1.1.10'' < get_version_number ''1.2.3''"
  using version_order_correct [of "''1.1.10''" 1 1 10 "''1.2.3''" 1 2 3]
  by (simp add: version_parts_def split_on_def parse_i64_def parse_int_def char_class_simps)

text \<open>a last number of 100 or more spills into the middle number: such a version is never
  below the first version of the next minor series. The crate's own version \<open>5.0.553\<close> counts as newer
  than \<open>5.1.0\<close>.\<close>

theorem version_order_spill:
  assumes "version_parts v (a, b, c)" and "version_parts v' (a, b + 1, 0)" and "100 \<le> c"
  shows "get_version_number v' \<le> get_version_number v"
  using assms(3) version_number_formula [OF assms(1)] version_number_formula [OF assms(2)] by simp

theorem version_order_spill_witness:
  "get_version_number ''5.1.0'' \<le> get_version_number ''5.0.553''"
proof (rule version_order_spill)
  show "version_parts ''5.0.553'' (5, 0, 553)"
    by (simp add: version_parts_def split_on_def parse_i64_def parse_int_def char_class_simps)
  show "version_parts ''5.1.0'' (5, 0 + 1, 0)"
    by (simp add: version_parts_def split_on_def parse_i64_def parse_int_def char_class_simps)
qed simp

text \<open>The address checks accept and reject the literals of the repository's tests.\<close>

lemma address_checks:
  "is_ipv4_str ''1.2.3.4:90'' \<and> \<not> is_ipv4_str ''192.168.0.256'' \<and> \<not> is_ipv4_str ''192.168..1''
   \<and> is_ipv6_str ''[ABEF:2a:3]:12'' \<and> is_ipv6_str ''1:2::0'' \<and> \<not> is_ipv6_str ''1:2:''
   \<and> \<not> is_ipv6_str ''1:2::0]:1'' \<and> is_domain_port_str ''test-UPPER.com:12''
   \<and> \<not> is_domain_port_str ''1.2.3.45:12'' \<and> \<not> is_domain_port_str ''a.b.c:123456''"
  by (simp add: is_ipv4_str_def is_ipv6_str_def is_ipv6_body_def is_domain_port_str_def split_on_def
      is_port_suffix_def is_octet_def is_hex_group_def is_label_def is_tld_def char_class_simps)

end
