(* ===== verification/Host_Server.thy ===== *)
theory Host_Server
  imports Service Rust_Strings
begin

text \<open>
  The host's server object, \<open>src/src/server.rs\<close>: the connections, the named services and the
  operations by which a connection is subscribed to them.  What the server promises is stated on
  the subscription relation \<open>svc.rel\<close> between service names and connection ids, from the contract
  of the services.  The build is the Linux desktop one with file clipboard; what the
  platform reports (embedded cursor, X11, primary display, camera) is an argument.
\<close>

datatype VideoSource = Monitor | Camera

fun service_name_prefix :: "VideoSource \<Rightarrow> string" where
  "service_name_prefix Monitor = ''monitor''"
| "service_name_prefix Camera = ''camera''"

definition get_service_name :: "VideoSource \<Rightarrow> nat \<Rightarrow> string" where
  "get_service_name source idx = service_name_prefix source @ show_nat idx"

definition video_service_new :: "VideoSource \<Rightarrow> nat \<Rightarrow> ServiceInner" where
  "video_service_new source idx = (service_new (get_service_name source idx) True)\<lparr>has_handle := True\<rparr>"

record Server =
  connections :: "(int, ConnInner) hashmap"
  services :: "(string, ServiceInner) hashmap"
  id_count :: int

definition add_service :: "ServiceInner \<Rightarrow> Server \<Rightarrow> Server" where
  "add_service service sv = sv\<lparr>services := hm_insert (name service) service (services sv)\<rparr>"

text \<open>\<open>%\<close> on a signed integer: the sign of the dividend.\<close>

definition int_rem :: "int \<Rightarrow> int \<Rightarrow> int" where
  "int_rem a b = sgn a * (\<bar>a\<bar> mod \<bar>b\<bar>)"

definition started :: "string \<Rightarrow> bool \<Rightarrow> ServiceInner" where
  "started n snap = (service_new n snap)\<lparr>has_handle := True\<rparr>"

definition server_new :: "int \<Rightarrow> bool \<Rightarrow> bool \<Rightarrow> Server" where
  "server_new rnd cursor_embedded x11 =
    (let sv0 = \<lparr>connections = [], services = [], id_count = int_rem rnd 1000 + 1000\<rparr>;
         sv1 = add_service (started ''audio'' True) sv0;
         sv2 = add_service (started ''display'' True) sv1;
         sv3 = add_service (started ''clipboard'' False) sv2;
         sv4 = add_service (started ''file-clipboard'' False) sv3
     in if cursor_embedded then sv4
        else let sv5 = add_service (started ''mouse_cursor'' True) sv4;
                 sv6 = add_service (started ''mouse_pos'' False) sv5
             in if x11 then add_service (started ''window_focus'' False) sv6 else sv6)"

definition is_video_service_name :: "string \<Rightarrow> bool" where
  "is_video_service_name n \<longleftrightarrow>
     starts_with (service_name_prefix Monitor) n \<or> starts_with (service_name_prefix Camera) n"

definition server_contains :: "string \<Rightarrow> Server \<Rightarrow> bool" where
  "server_contains n sv \<longleftrightarrow> hm_get (services sv) n \<noteq> None"

definition PRIMARY_CAMERA_IDX :: nat where "PRIMARY_CAMERA_IDX = 0"

definition try_add_primary_camera_service :: "bool \<Rightarrow> Server \<Rightarrow> Server" where
  "try_add_primary_camera_service camera_exists sv =
    (if \<not> camera_exists then sv
     else if \<not> server_contains (get_service_name Camera PRIMARY_CAMERA_IDX) sv
     then add_service (video_service_new Camera PRIMARY_CAMERA_IDX) sv else sv)"

definition try_add_primay_video_service :: "nat \<Rightarrow> Server \<Rightarrow> Server" where
  "try_add_primay_video_service primary sv =
    (if \<not> server_contains (get_service_name Monitor primary) sv
     then add_service (video_service_new Monitor primary) sv else sv)"

definition add_camera_connection :: "bool \<Rightarrow> ConnInner \<Rightarrow> Server \<Rightarrow> Server" where
  "add_camera_connection camera_exists conn sv =
    (let sv' = (if camera_exists
       then sv\<lparr>services := hm_modify (get_service_name Camera PRIMARY_CAMERA_IDX) (on_subscribe conn) (services sv)\<rparr>
       else sv)
     in sv'\<lparr>connections := hm_insert (conn_id conn) conn (connections sv')\<rparr>)"

definition add_connection :: "nat \<Rightarrow> ConnInner \<Rightarrow> string list \<Rightarrow> Server \<Rightarrow> Server" where
  "add_connection primary conn noperms sv =
    (let primary_video_service_name = get_service_name Monitor primary;
         svcs = map (\<lambda>(k, s).
            (k, if is_video_service_name (name s) \<and> name s \<noteq> primary_video_service_name then s
                else if name s \<notin> set noperms then on_subscribe conn s else s)) (services sv)
     in sv\<lparr>services := svcs, connections := hm_insert (conn_id conn) conn (connections sv)\<rparr>)"

definition remove_connection :: "ConnInner \<Rightarrow> Server \<Rightarrow> Server" where
  "remove_connection conn sv =
     sv\<lparr>services := map (\<lambda>(k, s). (k, on_unsubscribe (conn_id conn) s)) (services sv),
        connections := hm_remove (conn_id conn) (connections sv)\<rparr>"

definition close_connections :: "Server \<Rightarrow> delivery list" where
  "close_connections sv = concat (map (conn_send (Misc (StopService True))) (hm_values (connections sv)))"

definition subscribe :: "string \<Rightarrow> ConnInner \<Rightarrow> bool \<Rightarrow> Server \<Rightarrow> Server" where
  "subscribe n conn sub sv = (case hm_get (services sv) n of
     None \<Rightarrow> sv
   | Some s \<Rightarrow>
      if is_subed s (conn_id conn) = sub then sv
      else if sub then sv\<lparr>services := hm_modify n (on_subscribe conn) (services sv)\<rparr>
      else sv\<lparr>services := hm_modify n (on_unsubscribe (conn_id conn)) (services sv)\<rparr>)"

definition get_new_id :: "Server \<Rightarrow> Server \<times> int" where
  "get_new_id sv = (let i = wrap32 (id_count sv + 1) in (sv\<lparr>id_count := i\<rparr>, i))"

definition set_video_service_opt :: "(VideoSource \<times> nat) option \<Rightarrow> string \<Rightarrow> string \<Rightarrow> Server \<Rightarrow> Server" where
  "set_video_service_opt display opt value sv =
     sv\<lparr>services := map (\<lambda>(k, s).
       (k, if (case display of Some (source, d) \<Rightarrow> k \<noteq> get_service_name source d | None \<Rightarrow> False) then s
           else if is_video_service_name k then fst (set_option opt value s) else s)) (services sv)\<rparr>"

definition get_subbed_displays_count :: "int \<Rightarrow> Server \<Rightarrow> nat" where
  "get_subbed_displays_count i sv =
     length (filter (\<lambda>k. is_video_service_name k \<and>
       (case hm_get (services sv) k of Some s \<Rightarrow> is_subed s i | None \<Rightarrow> False)) (map fst (services sv)))"

fun capture_loop :: "string list \<Rightarrow> ConnInner \<Rightarrow> bool \<Rightarrow> bool \<Rightarrow> string list \<Rightarrow> Server \<Rightarrow> Server" where
  "capture_loop displays conn incl excl [] sv = sv"
| "capture_loop displays conn incl excl (n # ns) sv =
    capture_loop displays conn incl excl ns
     (if is_video_service_name n then
        if n \<in> set displays then (if incl then subscribe n conn True sv else sv)
        else (if excl then subscribe n conn False sv else sv)
      else sv)"

definition capture_displays :: "ConnInner \<Rightarrow> VideoSource \<Rightarrow> nat list \<Rightarrow> bool \<Rightarrow> bool \<Rightarrow> Server \<Rightarrow> Server" where
  "capture_displays conn source displays incl excl sv =
     capture_loop (map (get_service_name source) displays) conn incl excl (map fst (services sv)) sv"

text \<open>Dropping the server joins every service.\<close>

definition server_drop :: "Server \<Rightarrow> Server" where
  "server_drop sv = sv\<lparr>services := map (\<lambda>(k, s). (k, join s)) (services sv)\<rparr>"

section \<open>Invariant\<close>

definition server_inv :: "Server \<Rightarrow> bool" where
  "server_inv sv \<longleftrightarrow> svc.invs (services sv) \<and> keyed (connections sv)
     \<and> (\<forall>k s. hm_get (services sv) k = Some s \<longrightarrow> name s = k)"

definition subs :: "Server \<Rightarrow> (string \<times> int) set" where
  "subs sv = svc.rel (services sv)"

lemma name_on_subscribe [simp]: "name (on_subscribe c s) = name s"
  by (simp add: on_subscribe_def)

lemma name_on_unsubscribe [simp]: "name (on_unsubscribe i s) = name s"
  by (simp add: on_unsubscribe_def)

lemma service_inv_started [simp]: "service_inv (started n b)"
  by (simp add: started_def service_inv_def service_new_def)

lemma name_started [simp]: "name (started n b) = n"
  by (simp add: started_def service_new_def)

lemma server_inv_add_service:
  "server_inv sv \<Longrightarrow> service_inv s \<Longrightarrow> server_inv (add_service s sv)"
  by (auto simp: server_inv_def add_service_def svc.invs_def wf_map_insert hm_get_insert split: if_splits)

lemma server_inv_new: "server_inv (server_new rnd ce x11)"
proof -
  have "server_inv \<lparr>connections = [], services = [], id_count = n\<rparr>" for n
    by (simp add: server_inv_def svc.invs_def keyed_def)
  then show ?thesis by (simp add: server_new_def Let_def server_inv_add_service)
qed

lemma keyed_remove: "keyed m \<Longrightarrow> keyed (hm_remove i m)"
  by (auto simp: keyed_def wf_map_remove set_hm_remove)

lemma server_inv_modify:
  assumes "server_inv sv" and "\<And>s. service_inv s \<Longrightarrow> service_inv (f s)" and "\<And>s. name (f s) = name s"
  shows "server_inv (sv\<lparr>services := hm_modify k f (services sv)\<rparr>)"
  using assms by (auto simp: server_inv_def hm_get_modify intro: svc.invs_modify)

lemma server_inv_subscribe: "server_inv sv \<Longrightarrow> server_inv (subscribe n c b sv)"
  by (auto simp: subscribe_def service_inv_subscribe service_inv_unsubscribe
      intro!: server_inv_modify split: option.split)

text \<open>The services \<open>add_connection\<close> subscribes to, by key, since a service is stored under its
  name.\<close>

lemma add_connection_services:
  assumes "server_inv sv"
  shows "services (add_connection primary conn noperms sv) =
    map (\<lambda>(k, s). (k, if k \<notin> set noperms \<and> (is_video_service_name k \<longrightarrow> k = get_service_name Monitor primary)
      then on_subscribe conn s else s)) (services sv)"
proof -
  have "name s = k" if "(k, s) \<in> set (services sv)" for k s
    using assms that by (auto simp: server_inv_def svc.invs_def hm_get_iff)
  then show ?thesis by (auto simp: add_connection_def)
qed

lemma server_inv_add_connection:
  assumes "server_inv sv"
  shows "server_inv (add_connection primary conn noperms sv)"
proof -
  have "svc.invs (services (add_connection primary conn noperms sv))"
    unfolding add_connection_services [OF assms]
    by (rule svc.invs_sub_where) (use assms in \<open>simp add: server_inv_def\<close>)
  moreover have "name s = k" if "hm_get (services (add_connection primary conn noperms sv)) k = Some s" for k s
    using that assms unfolding add_connection_services [OF assms]
    by (auto simp: server_inv_def svc.hm_get_map split: if_splits)
  moreover have "keyed (connections (add_connection primary conn noperms sv))"
    using assms by (simp add: add_connection_def server_inv_def keyed_insert)
  ultimately show ?thesis by (simp add: server_inv_def)
qed

lemma server_inv_remove_connection: "server_inv sv \<Longrightarrow> server_inv (remove_connection c sv)"
  by (auto simp: server_inv_def remove_connection_def svc.invs_unsub_all keyed_remove svc.hm_get_map)

section \<open>Subscriptions\<close>

text \<open>C29: Adding a connection refines adding pairs to the subscription relation: the connection gets
  exactly the services it is not denied, of the video services only the one of the primary display;
  every other subscription is kept, the connection is registered, and the invariant holds.\<close>

theorem add_connection_refines:
  assumes "server_inv sv"
  shows "subs (add_connection primary conn noperms sv) = subs sv \<union>
      {(k, conn_id conn) |k. hm_get (services sv) k \<noteq> None \<and> k \<notin> set noperms
         \<and> (is_video_service_name k \<longrightarrow> k = get_service_name Monitor primary)}
    \<and> hm_get (connections (add_connection primary conn noperms sv)) (conn_id conn) = Some conn
    \<and> server_inv (add_connection primary conn noperms sv)"
proof -
  have inv: "svc.invs (services sv)" using assms by (simp add: server_inv_def)
  have "subs (add_connection primary conn noperms sv) = subs sv \<union>
      {(k, conn_id conn) |k. hm_get (services sv) k \<noteq> None \<and> k \<notin> set noperms
         \<and> (is_video_service_name k \<longrightarrow> k = get_service_name Monitor primary)}"
    unfolding subs_def add_connection_services [OF assms] svc.rel_sub_where [OF inv] by auto
  then show ?thesis
    using server_inv_add_connection [OF assms] by (simp add: add_connection_def hm_get_insert)
qed

theorem add_connection_refines_witness:
  "server_inv (server_new 5 False True) \<and>
   (''audio'', 9) \<notin> subs (add_connection 0 \<lparr>conn_id = 9, tx = True, tx_video = True\<rparr> [''audio'']
       (server_new 5 False True)) \<and>
   (''display'', 9) \<in> subs (add_connection 0 \<lparr>conn_id = 9, tx = True, tx_video = True\<rparr> [''audio'']
       (server_new 5 False True))"
proof -
  have "(''audio'', 9) \<notin> subs (server_new 5 False True)"
    by (simp add: subs_def svc.rel_def server_new_def Let_def add_service_def hm_get_insert started_def
        service_new_def is_subed_def)
  moreover have "hm_get (services (server_new 5 False True)) ''display'' \<noteq> None"
    by (simp add: server_new_def Let_def add_service_def hm_get_insert)
  moreover have "\<not> is_video_service_name ''display''"
    by (simp add: is_video_service_name_def starts_with_def)
  ultimately show ?thesis
    using add_connection_refines [OF server_inv_new, of 0 "\<lparr>conn_id = 9, tx = True, tx_video = True\<rparr>"
        "[''audio'']" 5 False True] server_inv_new
    by auto
qed

lemma subs_remove_connection:
  "server_inv sv \<Longrightarrow> subs (remove_connection conn sv) = subs sv - UNIV \<times> {conn_id conn}"
  using svc.rel_unsub_all [of "services sv"] by (simp add: subs_def remove_connection_def server_inv_def)

text \<open>C30: Removing a connection removes it from every service, in whichever of the two maps of the
  service it is, and from the connections; the subscriptions of the others are untouched.\<close>

theorem remove_connection_refines:
  assumes "server_inv sv"
  shows "subs (remove_connection conn sv) = subs sv - UNIV \<times> {conn_id conn}
    \<and> hm_get (connections (remove_connection conn sv)) (conn_id conn) = None
    \<and> server_inv (remove_connection conn sv)"
  using subs_remove_connection [OF assms] server_inv_remove_connection [OF assms]
  by (simp add: remove_connection_def hm_get_remove)

theorem remove_connection_refines_witness:
  "\<exists>sv. server_inv sv \<and> (''display'', 9) \<in> subs sv \<and>
    (''display'', 9) \<notin> subs (remove_connection \<lparr>conn_id = 9, tx = True, tx_video = True\<rparr> sv)"
proof -
  let ?c = "\<lparr>conn_id = 9, tx = True, tx_video = True\<rparr>"
  let ?sv = "subscribe ''display'' ?c True (server_new 5 False True)"
  have inv: "server_inv ?sv" by (intro server_inv_subscribe server_inv_new)
  moreover have "(''display'', 9) \<in> subs ?sv"
    by (simp add: subscribe_def subs_def svc.rel_def server_new_def Let_def add_service_def hm_get_insert
        hm_get_modify started_def service_new_def is_subed_def on_subscribe_def)
  ultimately show ?thesis using remove_connection_refines [OF inv, of ?c] by auto
qed

lemma subs_subscribe:
  assumes "server_inv sv"
  shows "subs (subscribe n c b sv) =
    (if hm_get (services sv) n = None then subs sv
     else if b then insert (n, conn_id c) (subs sv) else subs sv - {(n, conn_id c)})"
proof (cases "hm_get (services sv) n")
  case (Some s)
  have inv: "svc.invs (services sv)" using assms by (simp add: server_inv_def)
  have "(n, conn_id c) \<in> subs sv \<longleftrightarrow> is_subed s (conn_id c)"
    by (simp add: subs_def svc.rel_iff [OF Some])
  then show ?thesis
    using svc.rel_sub [OF inv Some] svc.rel_unsub [OF inv Some] Some
    by (auto simp: subscribe_def subs_def)
qed (simp add: subscribe_def)

lemma keys_subscribe: "map fst (services (subscribe n c b sv)) = map fst (services sv)"
  by (simp add: subscribe_def split: option.split)

lemma get_None_keys: "hm_get m k = None \<longleftrightarrow> k \<notin> set (map fst m)"
  by (simp add: hm_get_None_iff)

lemma capture_loop_spec:
  assumes "server_inv sv" and "set ns \<subseteq> set (map fst (services sv))"
  shows "server_inv (capture_loop ds c incl excl ns sv)"
    and "subs (capture_loop ds c incl excl ns sv) =
      (subs sv \<union> {(n, conn_id c) |n. incl \<and> n \<in> set ns \<and> is_video_service_name n \<and> n \<in> set ds})
        - {(n, conn_id c) |n. excl \<and> n \<in> set ns \<and> is_video_service_name n \<and> n \<notin> set ds}"
proof -
  have "server_inv (capture_loop ds c incl excl ns sv) \<and>
    subs (capture_loop ds c incl excl ns sv) =
      (subs sv \<union> {(n, conn_id c) |n. incl \<and> n \<in> set ns \<and> is_video_service_name n \<and> n \<in> set ds})
        - {(n, conn_id c) |n. excl \<and> n \<in> set ns \<and> is_video_service_name n \<and> n \<notin> set ds}"
    using assms
  proof (induction ns arbitrary: sv)
    case (Cons n ns)
    define sv' where "sv' = (if is_video_service_name n then
        if n \<in> set ds then (if incl then subscribe n c True sv else sv)
        else (if excl then subscribe n c False sv else sv) else sv)"
    have inv: "server_inv sv'" using Cons.prems by (simp add: sv'_def server_inv_subscribe)
    have keys: "map fst (services sv') = map fst (services sv)" by (simp add: sv'_def keys_subscribe)
    obtain s where s: "hm_get (services sv) n = Some s"
      using Cons.prems(2) get_None_keys [of "services sv" n] by (cases "hm_get (services sv) n") auto
    have subs': "subs sv' = (if is_video_service_name n then
        if n \<in> set ds then (if incl then insert (n, conn_id c) (subs sv) else subs sv)
        else (if excl then subs sv - {(n, conn_id c)} else subs sv) else subs sv)"
      using subs_subscribe [OF Cons.prems(1), of n c] by (simp add: sv'_def s)
    have "set ns \<subseteq> set (map fst (services sv'))" using Cons.prems(2) keys by simp
    from Cons.IH [OF inv this] show ?case
      unfolding capture_loop.simps sv'_def [symmetric] subs' by auto
  qed simp
  then show "server_inv (capture_loop ds c incl excl ns sv)"
    and "subs (capture_loop ds c incl excl ns sv) =
      (subs sv \<union> {(n, conn_id c) |n. incl \<and> n \<in> set ns \<and> is_video_service_name n \<and> n \<in> set ds})
        - {(n, conn_id c) |n. excl \<and> n \<in> set ns \<and> is_video_service_name n \<and> n \<notin> set ds}"
    by blast+
qed

text \<open>After \<open>capture_displays\<close> with both flags (a switch of displays), the video services the
  connection is subscribed to are exactly the running ones of the requested displays; its other
  services and all other connections are untouched.\<close>

theorem capture_displays_exact:
  assumes "server_inv sv"
  shows "subs (capture_displays c source ds True True sv) =
     {(k, i) \<in> subs sv. i \<noteq> conn_id c \<or> \<not> is_video_service_name k} \<union>
     {(k, conn_id c) |k. is_video_service_name k \<and> hm_get (services sv) k \<noteq> None
        \<and> k \<in> get_service_name source ` set ds}"
proof -
  have "k \<in> set (map fst (services sv))" if "(k, i) \<in> subs sv" for k i
    using that get_None_keys [of "services sv" k] by (auto simp: subs_def svc.rel_def)
  then show ?thesis
    unfolding capture_displays_def capture_loop_spec(2) [OF assms order_refl]
    by (auto simp: get_None_keys)
qed

theorem capture_displays_exact_witness:
  "\<exists>sv. server_inv sv \<and> (''monitor0'', 9) \<in> subs sv \<and>
     (''monitor0'', 9) \<notin> subs (capture_displays \<lparr>conn_id = 9, tx = True, tx_video = True\<rparr> Monitor [1] True True sv)
     \<and> (''monitor1'', 9) \<in> subs (capture_displays \<lparr>conn_id = 9, tx = True, tx_video = True\<rparr> Monitor [1] True True sv)"
proof -
  let ?c = "\<lparr>conn_id = 9, tx = True, tx_video = True\<rparr>"
  let ?sv = "subscribe ''monitor0'' ?c True
     (add_service (started ''monitor1'' True) (add_service (started ''monitor0'' True) (server_new 5 False True)))"
  have inv: "server_inv ?sv"
    by (intro server_inv_subscribe server_inv_add_service server_inv_new service_inv_started)
  have names: "get_service_name Monitor 1 = ''monitor1''" "is_video_service_name ''monitor1''"
    "is_video_service_name ''monitor0''"
    by (simp_all add: get_service_name_def show_nat.simps is_video_service_name_def starts_with_def char_of_def bit_0)
  have "(''monitor0'', 9) \<in> subs ?sv"
    by (simp add: subscribe_def subs_def svc.rel_def server_new_def Let_def add_service_def hm_get_insert
        hm_get_modify started_def service_new_def is_subed_def on_subscribe_def)
  moreover have "hm_get (services ?sv) ''monitor1'' \<noteq> None"
    by (simp add: subscribe_def server_new_def Let_def add_service_def hm_get_insert hm_get_modify
        started_def service_new_def is_subed_def)
  ultimately show ?thesis
    using capture_displays_exact [OF inv, of ?c Monitor "[1]"] names inv
    by (intro exI [of _ ?sv]) auto
qed

section \<open>Connection ids\<close>

primrec new_ids :: "nat \<Rightarrow> Server \<Rightarrow> int list" where
  "new_ids 0 sv = []"
| "new_ids (Suc n) sv = (let (sv', i) = get_new_id sv in i # new_ids n sv')"

lemma int_rem_bounds: "0 < b \<Longrightarrow> \<bar>int_rem a b\<bar> < b"
  by (auto simp: int_rem_def abs_mult sgn_if)

lemma new_ids_eq:
  "0 \<le> id_count sv \<Longrightarrow> id_count sv + int n < 2 ^ 31 \<Longrightarrow>
     new_ids n sv = map (\<lambda>k. id_count sv + 1 + int k) [0..<n]"
proof (induction n arbitrary: sv)
  case (Suc n)
  have "is_i32 (id_count sv + 1)" using Suc.prems by (simp add: is_i32_def)
  then have "new_ids (Suc n) sv = (id_count sv + 1) # new_ids n (sv\<lparr>id_count := id_count sv + 1\<rparr>)"
    by (simp add: get_new_id_def Let_def)
  also have "new_ids n (sv\<lparr>id_count := id_count sv + 1\<rparr>) = map (\<lambda>k. id_count sv + 2 + int k) [0..<n]"
    using Suc by simp
  finally show ?case
    by (simp add: upt_conv_Cons map_Suc_upt [symmetric] comp_def algebra_simps del: upt_Suc)
qed simp

text \<open>A fresh server hands out positive connection ids, all different, for at least two thousand
  million connections, whatever the random start.\<close>

theorem connection_ids_unique:
  assumes "n \<le> 2000000000"
  shows "distinct (new_ids n (server_new rnd ce x11)) \<and> (\<forall>i \<in> set (new_ids n (server_new rnd ce x11)). 0 < i)"
proof -
  have id0: "id_count (server_new rnd ce x11) = int_rem rnd 1000 + 1000"
    by (simp add: server_new_def Let_def add_service_def)
  have b: "\<bar>int_rem rnd 1000\<bar> < 1000" by (rule int_rem_bounds) simp
  have "new_ids n (server_new rnd ce x11) = map (\<lambda>k. int_rem rnd 1000 + 1001 + int k) [0..<n]"
    using new_ids_eq [of "server_new rnd ce x11" n] b assms by (simp add: id0)
  then show ?thesis using b by (auto simp: distinct_map inj_on_def)
qed

theorem connection_ids_unique_witness:
  "distinct (new_ids 1000 (server_new (- 999) True True))"
  using connection_ids_unique [of 1000 "- 999" True True] by simp

end
