(* ===== verification/Utf8.thy ===== *)
theory Utf8
  imports Rust_Strings
begin

text \<open>
  UTF-8 as the standard library treats it: validity, the number of characters and the lossy
  conversion.  A \<open>string\<close> is the list of the bytes of a text.
\<close>

section \<open>UTF-8\<close>

text \<open>The byte ranges that may follow a lead byte; None for a byte that cannot start a character.\<close>

definition utf8_follow :: "nat \<Rightarrow> (nat \<times> nat) list option" where
  "utf8_follow b =
    (if b < 128 then Some []
     else if 194 \<le> b \<and> b \<le> 223 then Some [(128, 191)]
     else if b = 224 then Some [(160, 191), (128, 191)]
     else if b = 237 then Some [(128, 159), (128, 191)]
     else if 225 \<le> b \<and> b \<le> 239 then Some [(128, 191), (128, 191)]
     else if b = 240 then Some [(144, 191), (128, 191), (128, 191)]
     else if 241 \<le> b \<and> b \<le> 243 then Some [(128, 191), (128, 191), (128, 191)]
     else if b = 244 then Some [(128, 143), (128, 191), (128, 191)]
     else None)"

fun utf8_match :: "(nat \<times> nat) list \<Rightarrow> string \<Rightarrow> nat" where
  "utf8_match ((lo, hi) # rs) (c # cs) =
     (if lo \<le> char_code c \<and> char_code c \<le> hi then Suc (utf8_match rs cs) else 0)"
| "utf8_match _ _ = 0"

text \<open>Whether a text starts with a valid character, and the bytes of it (or of the longest part of
  one) after the first.\<close>

definition utf8_head :: "char \<Rightarrow> string \<Rightarrow> bool \<times> nat" where
  "utf8_head c cs = (case utf8_follow (char_code c) of
     None \<Rightarrow> (False, 0)
   | Some rs \<Rightarrow> (utf8_match rs cs = length rs, utf8_match rs cs))"

fun utf8_valid :: "string \<Rightarrow> bool" where
  "utf8_valid [] \<longleftrightarrow> True"
| "utf8_valid (c # cs) \<longleftrightarrow> (let (ok, n) = utf8_head c cs in ok \<and> utf8_valid (drop n cs))"

fun utf8_count :: "string \<Rightarrow> nat" where
  "utf8_count [] = 0"
| "utf8_count (c # cs) = Suc (utf8_count (drop (snd (utf8_head c cs)) cs))"

text \<open>\<open>String::from_utf8_lossy\<close>: each maximal invalid part becomes U+FFFD.\<close>

fun from_utf8_lossy :: "string \<Rightarrow> string" where
  "from_utf8_lossy [] = []"
| "from_utf8_lossy (c # cs) = (let (ok, n) = utf8_head c cs in
     (if ok then c # take n cs else map char_of [239 :: nat, 191, 189]) @ from_utf8_lossy (drop n cs))"

lemma from_utf8_lossy_id: "utf8_valid s \<Longrightarrow> from_utf8_lossy s = s"
  by (induction s rule: from_utf8_lossy.induct) (auto simp: Let_def split: prod.splits)

lemma utf8_ascii: "\<forall>c \<in> set s. char_code c < 128 \<Longrightarrow> utf8_valid s \<and> utf8_count s = length s"
  by (induction s) (simp_all add: utf8_head_def utf8_follow_def)

end
