(* ===== verification/Password_Security.thy ===== *)
theory Password_Security
  imports Utf8
begin

text \<open>
  Encryption of stored secrets, the second half of
  \<open>src/libs/hbb_common/src/password_security.rs\<close>.  A \<open>string\<close> is the list of the bytes of the
  UTF-8 text.  The crypto library and the machine it runs on are parameters, collected in the
  record \<open>Crypto\<close>; \<open>crypto_ok\<close> is what their documentation promises: decoding inverts base64
  encoding, opening inverts sealing under the same key, and sealing adds \<open>MACBYTES\<close> bytes.
\<close>

section \<open>The library\<close>

definition KEYBYTES :: nat where "KEYBYTES = 32"
definition MACBYTES :: nat where "MACBYTES = 16"

record Crypto =
  sb_seal :: "string \<Rightarrow> string \<Rightarrow> string"
  sb_open :: "string \<Rightarrow> string \<Rightarrow> string option"
  b64_encode :: "string \<Rightarrow> string"
  b64_decode :: "string \<Rightarrow> string option"
  machine_uuid :: string
  existing_pk :: "string option"

definition crypto_ok :: "Crypto \<Rightarrow> bool" where
  "crypto_ok cr \<longleftrightarrow> (\<forall>d. b64_decode cr (b64_encode cr d) = Some d \<and> (d \<noteq> [] \<longrightarrow> b64_encode cr d \<noteq> []))
     \<and> (\<forall>m k. length k = KEYBYTES \<longrightarrow> sb_open cr (sb_seal cr m k) k = Some m)
     \<and> (\<forall>m k. length (sb_seal cr m k) = length m + MACBYTES)"

definition resize :: "nat \<Rightarrow> string \<Rightarrow> string" where
  "resize n s = take n s @ replicate (n - length s) (char_of (0 :: nat))"

section \<open>Encryption\<close>

definition symmetric_crypt :: "Crypto \<Rightarrow> string \<Rightarrow> bool \<Rightarrow> string option" where
  "symmetric_crypt cr data enc =
    (let uuid = machine_uuid cr; key = resize KEYBYTES uuid in
     if enc then Some (sb_seal cr data key)
     else case sb_open cr data key of
       Some v \<Rightarrow> Some v
     | None \<Rightarrow> (case existing_pk cr of
         Some pk \<Rightarrow> if pk \<noteq> uuid then sb_open cr data (resize KEYBYTES pk) else None
       | None \<Rightarrow> None))"

definition encrypt :: "Crypto \<Rightarrow> string \<Rightarrow> string option" where
  "encrypt cr v = (if v \<noteq> [] then map_option (b64_encode cr) (symmetric_crypt cr v True) else None)"

definition decrypt :: "Crypto \<Rightarrow> string \<Rightarrow> string option" where
  "decrypt cr v = (if v \<noteq> [] then
     (case b64_decode cr v of Some d \<Rightarrow> symmetric_crypt cr d False | None \<Rightarrow> None) else None)"

definition VERSION_LEN :: nat where "VERSION_LEN = 2"

definition is_encrypted :: "Crypto \<Rightarrow> string \<Rightarrow> bool" where
  "is_encrypted cr v =
    (if length v \<le> VERSION_LEN \<or> \<not> starts_with ''00'' v then False
     else case b64_decode cr (drop VERSION_LEN v) of
       Some d \<Rightarrow> MACBYTES \<le> length d
     | None \<Rightarrow> False)"

definition encrypt_str_or_original :: "Crypto \<Rightarrow> string \<Rightarrow> string \<Rightarrow> nat \<Rightarrow> string" where
  "encrypt_str_or_original cr s version max_len =
    (if is_encrypted cr s then s
     else if max_len < utf8_count s then []
     else if version = ''00'' then (case encrypt cr s of Some e \<Rightarrow> version @ e | None \<Rightarrow> s)
     else s)"

definition decrypt_str_or_original :: "Crypto \<Rightarrow> string \<Rightarrow> string \<Rightarrow> string \<times> bool \<times> bool" where
  "decrypt_str_or_original cr s current_version =
    (let failed = (s, False, s \<noteq> [] \<and> \<not> is_encrypted cr s) in
     if VERSION_LEN < length s \<and> starts_with ''00'' s then
       (case decrypt cr (drop VERSION_LEN s) of
          Some v \<Rightarrow> (from_utf8_lossy v, True, ''00'' \<noteq> current_version)
        | None \<Rightarrow> failed)
     else failed)"

definition encrypt_vec_or_original :: "Crypto \<Rightarrow> string \<Rightarrow> string \<Rightarrow> nat \<Rightarrow> string" where
  "encrypt_vec_or_original cr v version max_len =
    (if is_encrypted cr v then v
     else if max_len < length v then []
     else if version = ''00'' then (case encrypt cr v of Some e \<Rightarrow> version @ e | None \<Rightarrow> v)
     else v)"

definition decrypt_vec_or_original :: "Crypto \<Rightarrow> string \<Rightarrow> string \<Rightarrow> string \<times> bool \<times> bool" where
  "decrypt_vec_or_original cr v current_version =
    (let failed = (v, False, v \<noteq> [] \<and> \<not> is_encrypted cr v) in
     if VERSION_LEN < length v then
       let version = from_utf8_lossy (take VERSION_LEN v) in
       if version = ''00'' then
         (case decrypt cr (drop VERSION_LEN v) of
            Some d \<Rightarrow> (d, True, version \<noteq> current_version)
          | None \<Rightarrow> failed)
       else failed
     else failed)"

section \<open>Facts\<close>

lemma length_resize [simp]: "length (resize n s) = n"
  by (simp add: resize_def)

lemma symmetric_crypt_roundtrip:
  assumes "crypto_ok cr" and "symmetric_crypt cr m True = Some d"
  shows "symmetric_crypt cr d False = Some m" and "MACBYTES \<le> length d"
  using assms by (auto simp: symmetric_crypt_def crypto_ok_def Let_def)

text \<open>An encrypted text is recognised as such, and decrypts.\<close>

lemma encrypt_Some:
  assumes "encrypt cr v = Some e"
  shows "\<exists>d. symmetric_crypt cr v True = Some d \<and> e = b64_encode cr d \<and> v \<noteq> []"
  using assms by (auto simp: encrypt_def split: if_splits)

lemma encrypt_total: "v \<noteq> [] \<Longrightarrow> \<exists>e. encrypt cr v = Some e"
  by (simp add: encrypt_def symmetric_crypt_def Let_def)

lemma encrypt_nonempty:
  assumes "crypto_ok cr" and "encrypt cr v = Some e"
  shows "e \<noteq> []"
proof -
  obtain d where d: "symmetric_crypt cr v True = Some d" "e = b64_encode cr d"
    using encrypt_Some [OF assms(2)] by blast
  have "d \<noteq> []" using symmetric_crypt_roundtrip(2) [OF assms(1) d(1)] by (auto simp: MACBYTES_def)
  then show ?thesis using assms(1) d(2) by (auto simp: crypto_ok_def)
qed

lemma decrypt_encrypt:
  assumes "crypto_ok cr" and "encrypt cr v = Some e"
  shows "decrypt cr e = Some v"
  using encrypt_Some [OF assms(2)] symmetric_crypt_roundtrip(1) [OF assms(1)] assms(1)
    encrypt_nonempty [OF assms]
  by (auto simp: decrypt_def crypto_ok_def)

lemma is_encrypted_encrypt:
  assumes "crypto_ok cr" and "encrypt cr v = Some e"
  shows "is_encrypted cr (''00'' @ e)"
proof -
  obtain d where d: "symmetric_crypt cr v True = Some d" "e = b64_encode cr d"
    using encrypt_Some [OF assms(2)] by blast
  moreover have "b64_decode cr (b64_encode cr d) = Some d" using assms(1) by (simp add: crypto_ok_def)
  ultimately show ?thesis
    using symmetric_crypt_roundtrip(2) [OF assms(1) d(1)] encrypt_nonempty [OF assms]
    by (simp add: is_encrypted_def VERSION_LEN_def starts_with_def)
qed

lemma pk_fallback:
  assumes "crypto_ok cr" and "existing_pk cr = Some pk" and "pk \<noteq> machine_uuid cr"
    and "sb_open cr (sb_seal cr m (resize KEYBYTES pk)) (resize KEYBYTES (machine_uuid cr)) = None"
  shows "symmetric_crypt cr (sb_seal cr m (resize KEYBYTES pk)) False = Some m"
  using assms by (simp add: symmetric_crypt_def crypto_ok_def)

lemma from_utf8_lossy_00: "from_utf8_lossy ''00'' = ''00''"
  by (rule from_utf8_lossy_id) (simp add: utf8_head_def utf8_follow_def char_code_def)

lemma encrypt_str_new:
  assumes "\<not> is_encrypted cr s" and "utf8_count s \<le> max_len" and "s \<noteq> []"
  shows "\<exists>e. encrypt cr s = Some e \<and> encrypt_str_or_original cr s ''00'' max_len = ''00'' @ e"
  using assms encrypt_total [of s cr] by (auto simp: encrypt_str_or_original_def)

lemma encrypt_vec_new:
  assumes "\<not> is_encrypted cr s" and "length s \<le> max_len" and "s \<noteq> []"
  shows "\<exists>e. encrypt cr s = Some e \<and> encrypt_vec_or_original cr s ''00'' max_len = ''00'' @ e"
  using assms encrypt_total [of s cr] by (auto simp: encrypt_vec_or_original_def)

lemma decrypt_str_encrypted:
  assumes "crypto_ok cr" and "encrypt cr s = Some e" and "utf8_valid s"
  shows "decrypt_str_or_original cr (''00'' @ e) ''00'' = (s, True, False)"
  using decrypt_encrypt [OF assms(1,2)] encrypt_nonempty [OF assms(1,2)] from_utf8_lossy_id [OF assms(3)]
  by (simp add: decrypt_str_or_original_def Let_def VERSION_LEN_def starts_with_def)

lemma decrypt_vec_encrypted:
  assumes "crypto_ok cr" and "encrypt cr s = Some e"
  shows "decrypt_vec_or_original cr (''00'' @ e) ''00'' = (s, True, False)"
  using decrypt_encrypt [OF assms(1,2)] encrypt_nonempty [OF assms(1,2)] from_utf8_lossy_00
  by (simp add: decrypt_vec_or_original_def Let_def VERSION_LEN_def)

text \<open>Reading back a stored text: what \<open>load\<close> of the configuration sees of what \<open>store\<close> wrote.\<close>

definition storable :: "Crypto \<Rightarrow> nat \<Rightarrow> string \<Rightarrow> bool" where
  "storable cr max_len s \<longleftrightarrow> utf8_valid s \<and> utf8_count s \<le> max_len \<and> \<not> is_encrypted cr s"

lemma is_encrypted_Nil [simp]: "\<not> is_encrypted cr []"
  by (simp add: is_encrypted_def)

lemma stored_str_readback:
  assumes "crypto_ok cr" and "storable cr max_len s"
  shows "decrypt_str_or_original cr (encrypt_str_or_original cr s ''00'' max_len) ''00'' = (s, s \<noteq> [], False)"
proof (cases "s = []")
  case True
  then show ?thesis
    by (simp add: encrypt_str_or_original_def encrypt_def decrypt_str_or_original_def Let_def)
next
  case False
  obtain e where "encrypt cr s = Some e" "encrypt_str_or_original cr s ''00'' max_len = ''00'' @ e"
    using encrypt_str_new [of cr s max_len] assms(2) False by (auto simp: storable_def)
  with decrypt_str_encrypted [OF assms(1)] assms(2) False show ?thesis by (simp add: storable_def)
qed

text \<open>A secret of admissible length that does not already look encrypted is recovered from its
  stored form, by the text and by the byte variant, without a request to store it again; the stored
  form is recognised as encrypted, so that encrypting it once more changes nothing.\<close>

theorem secret_roundtrip:
  assumes "crypto_ok cr" and "s \<noteq> []" and "utf8_valid s" and "\<not> is_encrypted cr s"
    and "utf8_count s \<le> max_chars" and "length s \<le> max_bytes"
  defines "es \<equiv> encrypt_str_or_original cr s ''00'' max_chars"
    and "ev \<equiv> encrypt_vec_or_original cr s ''00'' max_bytes"
  shows "decrypt_str_or_original cr es ''00'' = (s, True, False)
    \<and> decrypt_vec_or_original cr ev ''00'' = (s, True, False)
    \<and> is_encrypted cr es \<and> encrypt_str_or_original cr es ''00'' max_chars = es \<and> ev = es"
proof -
  obtain e where e: "encrypt cr s = Some e" "es = ''00'' @ e"
    using encrypt_str_new [OF assms(4,5,2)] unfolding es_def by blast
  have ev: "ev = ''00'' @ e"
    using encrypt_vec_new [OF assms(4,6,2)] e(1) unfolding ev_def by auto
  have "is_encrypted cr es" using is_encrypted_encrypt [OF assms(1) e(1)] by (simp add: e(2))
  then show ?thesis
    using decrypt_str_encrypted [OF assms(1) e(1) assms(3)] decrypt_vec_encrypted [OF assms(1) e(1)]
    by (simp add: e(2) ev encrypt_str_or_original_def)
qed

text \<open>A stand-in for the library that satisfies the documented laws.\<close>

definition plain_crypto :: Crypto where
  "plain_crypto = \<lparr>sb_seal = (\<lambda>m k. replicate MACBYTES (CHR ''m'') @ m),
     sb_open = (\<lambda>d k. if MACBYTES \<le> length d then Some (drop MACBYTES d) else None),
     b64_encode = (\<lambda>d. d), b64_decode = (\<lambda>d. Some d),
     machine_uuid = ''uuid'', existing_pk = None\<rparr>"

lemma plain_crypto_ok [simp]: "crypto_ok plain_crypto"
  by (simp add: crypto_ok_def plain_crypto_def)

theorem secret_roundtrip_witness:
  "crypto_ok plain_crypto \<and> \<not> is_encrypted plain_crypto ''secret'' \<and>
   decrypt_str_or_original plain_crypto (encrypt_str_or_original plain_crypto ''secret'' ''00'' 128) ''00''
     = (''secret'', True, False)"
proof -
  have u: "utf8_valid ''secret'' \<and> utf8_count ''secret'' = length ''secret''"
    by (rule utf8_ascii) (simp add: char_code_def)
  have n: "\<not> is_encrypted plain_crypto ''secret''"
    by (simp add: is_encrypted_def starts_with_def)
  from secret_roundtrip [OF plain_crypto_ok, of "''secret''" 128 128] u n show ?thesis by simp
qed

end
