(* ===== verification/Config_Store.thy ===== *)
theory Config_Store
  imports Password_Security
begin

text \<open>
  The process-wide configuration, \<open>src/libs/hbb_common/src/config.rs\<close> (options, secrets, trusted
  devices and what is written to the two files), and the password policy of
  \<open>src/libs/hbb_common/src/password_security.rs\<close>.  The lazily initialised globals are the record
  \<open>Store\<close>; reading and writing a file of a value is exact, \<open>conf_file\<close> and \<open>conf_file2\<close> hold the
  value last written.  The crypto library, the JSON library and the clock are in the record \<open>Env\<close>.
\<close>

section \<open>Data\<close>

record Socks5Server =
  proxy :: string
  username :: string
  socks_password :: string

record Config =
  cfg_id :: string
  enc_id :: string
  password :: string
  salt :: string
  key_pair :: "string \<times> string"
  key_confirmed :: bool
  keys_confirmed :: "(string, bool) hashmap"

record Config2 =
  rendezvous_server :: string
  nat_type :: int
  serial :: int
  unlock_pin :: string
  trusted_devices :: string
  socks :: "Socks5Server option"
  opts :: "(string, string) hashmap"

record TrustedDevice =
  hwid :: string
  td_time :: int
  td_id :: string
  td_name :: string
  td_platform :: string

record Store =
  default_settings :: "(string, string) hashmap"
  overwrite_settings :: "(string, string) hashmap"
  hard_settings :: "(string, string) hashmap"
  builtin_settings :: "(string, string) hashmap"
  config :: Config
  config2 :: Config2
  trusted :: "TrustedDevice list \<times> bool"
  temporary :: string
  conf_file :: Config
  conf_file2 :: Config2

record Env =
  crypto :: Crypto
  to_json :: "TrustedDevice list \<Rightarrow> string"
  from_json :: "string \<Rightarrow> TrustedDevice list option"
  now :: int

definition PASSWORD_ENC_VERSION :: string where "PASSWORD_ENC_VERSION = ''00''"
definition ENCRYPT_MAX_LEN :: nat where "ENCRYPT_MAX_LEN = 128"

section \<open>Writing and reading the files\<close>

definition encrypted_config2 :: "Crypto \<Rightarrow> Config2 \<Rightarrow> Config2" where
  "encrypted_config2 cr c =
     c\<lparr>socks := map_option (\<lambda>s. s\<lparr>socks_password :=
          encrypt_str_or_original cr (socks_password s) PASSWORD_ENC_VERSION ENCRYPT_MAX_LEN\<rparr>) (socks c),
       unlock_pin := encrypt_str_or_original cr (unlock_pin c) PASSWORD_ENC_VERSION ENCRYPT_MAX_LEN\<rparr>"

definition config2_store :: "Crypto \<Rightarrow> Store \<Rightarrow> Store" where
  "config2_store cr st = st\<lparr>conf_file2 := encrypted_config2 cr (config2 st)\<rparr>"

definition encrypted_config :: "Crypto \<Rightarrow> Config \<Rightarrow> Config" where
  "encrypted_config cr c =
     c\<lparr>password := encrypt_str_or_original cr (password c) PASSWORD_ENC_VERSION ENCRYPT_MAX_LEN,
       enc_id := encrypt_str_or_original cr (cfg_id c) PASSWORD_ENC_VERSION ENCRYPT_MAX_LEN,
       cfg_id := []\<rparr>"

definition config_store :: "Crypto \<Rightarrow> Store \<Rightarrow> Store" where
  "config_store cr st = st\<lparr>conf_file := encrypted_config cr (config st)\<rparr>"

text \<open>\<open>Config2::load\<close>: the value read and whether it is stored again.\<close>

definition config2_load :: "Crypto \<Rightarrow> Config2 \<Rightarrow> Config2 \<times> bool" where
  "config2_load cr c =
    (let (c1, st1) = (case socks c of
          Some s \<Rightarrow> (let (p, _, st2) = decrypt_str_or_original cr (socks_password s) PASSWORD_ENC_VERSION
                     in (c\<lparr>socks := Some (s\<lparr>socks_password := p\<rparr>)\<rparr>, st2))
        | None \<Rightarrow> (c, False));
       (pin, _, st2) = decrypt_str_or_original cr (unlock_pin c1) PASSWORD_ENC_VERSION
     in (c1\<lparr>unlock_pin := pin\<rparr>, st1 \<or> st2))"

text \<open>\<open>Config::load\<close>, given the results of up to three attempts to generate an id.\<close>

definition first_id :: "string option list \<Rightarrow> string option" where
  "first_id gen = (case filter (\<lambda>g. g \<noteq> None) (take 3 gen) of [] \<Rightarrow> None | g # _ \<Rightarrow> g)"

definition config_load :: "Crypto \<Rightarrow> string option list \<Rightarrow> Config \<Rightarrow> Config \<times> bool" where
  "config_load cr gen c =
    (let (p, _, store1) = decrypt_str_or_original cr (password c) PASSWORD_ENC_VERSION;
         c1 = c\<lparr>password := p\<rparr>;
         (i, encrypted, store2) = decrypt_str_or_original cr (enc_id c1) PASSWORD_ENC_VERSION
     in if encrypted then (c1\<lparr>cfg_id := i\<rparr>, store1 \<or> store2)
        else if cfg_id c1 \<noteq> [] \<and> enc_id c1 = []
             \<and> \<not> fst (snd (decrypt_str_or_original cr (cfg_id c1) PASSWORD_ENC_VERSION))
        then (c1, True)
        else (case first_id gen of
                Some g \<Rightarrow> (c1\<lparr>cfg_id := g\<rparr>, True)
              | None \<Rightarrow> (c1, store1)))"

section \<open>Options\<close>

definition get_or :: "(string, string) hashmap \<Rightarrow> (string, string) hashmap \<Rightarrow> (string, string) hashmap \<Rightarrow> string \<Rightarrow> string option" where
  "get_or a b c k = (case hm_get a k of Some v \<Rightarrow> Some v
     | None \<Rightarrow> (case hm_get b k of Some v \<Rightarrow> Some v | None \<Rightarrow> hm_get c k))"

definition is_option_can_save :: "(string, string) hashmap \<Rightarrow> string \<Rightarrow> (string, string) hashmap \<Rightarrow> string \<Rightarrow> bool" where
  "is_option_can_save overwrite k defaults v \<longleftrightarrow>
     \<not> (hm_get overwrite k \<noteq> None \<or> (case hm_get defaults k of Some x \<Rightarrow> x = v | None \<Rightarrow> False))"

definition extend :: "('k, 'v) hashmap \<Rightarrow> ('k, 'v) hashmap \<Rightarrow> ('k, 'v) hashmap" where
  "extend m m' = fold (\<lambda>(k, v) acc. hm_insert k v acc) m' m"

definition hm_eq :: "('k, 'v) hashmap \<Rightarrow> ('k, 'v) hashmap \<Rightarrow> bool" where
  "hm_eq m m' \<longleftrightarrow> list_all (\<lambda>(k, v). hm_get m' k = Some v) m \<and> list_all (\<lambda>(k, v). hm_get m k = Some v) m'"

definition get_options :: "Store \<Rightarrow> (string, string) hashmap" where
  "get_options st = extend (extend (default_settings st) (opts (config2 st))) (overwrite_settings st)"

definition purify_options :: "Store \<Rightarrow> (string, string) hashmap \<Rightarrow> (string, string) hashmap" where
  "purify_options st v =
     hm_retain (\<lambda>k x. is_option_can_save (overwrite_settings st) k (default_settings st) x) v"

definition with_opts :: "(string, string) hashmap \<Rightarrow> Store \<Rightarrow> Store" where
  "with_opts m st = st\<lparr>config2 := (config2 st)\<lparr>opts := m\<rparr>\<rparr>"

definition set_options :: "Env \<Rightarrow> (string, string) hashmap \<Rightarrow> Store \<Rightarrow> Store" where
  "set_options env v st =
    (let v' = purify_options st v in
     if hm_eq (opts (config2 st)) v' then st
     else config2_store (crypto env) (with_opts v' st))"

definition get_opt :: "Store \<Rightarrow> string \<Rightarrow> string" where
  "get_opt st k =
     unwrap_or [] (get_or (overwrite_settings st) (opts (config2 st)) (default_settings st) k)"

definition option2bool :: "string \<Rightarrow> string \<Rightarrow> bool" where
  "option2bool opt val =
    (if starts_with ''enable-'' opt then val \<noteq> ''N''
     else if starts_with ''allow-'' opt \<or> opt = ''stop-service'' \<or> opt = ''direct-server''
       \<or> opt = ''force-always-relay'' then val = ''Y''
     else val \<noteq> ''N'')"

definition get_bool_option :: "Store \<Rightarrow> string \<Rightarrow> bool" where
  "get_bool_option st k = option2bool k (get_opt st k)"

definition set_opt :: "Env \<Rightarrow> string \<Rightarrow> string \<Rightarrow> Store \<Rightarrow> Store" where
  "set_opt env k v st =
    (let os = opts (config2 st) in
     if \<not> is_option_can_save (overwrite_settings st) k (default_settings st) v then
       (if hm_get os k \<noteq> None then config2_store (crypto env) (with_opts (hm_remove k os) st) else st)
     else
       let v2 = (if v = [] then None else Some v) in
       if v2 \<noteq> hm_get os k then
         config2_store (crypto env)
           (with_opts (if v2 = None then hm_remove k os else hm_insert k v os) st)
       else st)"

section \<open>Hard-coded and built-in settings\<close>

definition hard_eq :: "Store \<Rightarrow> string \<Rightarrow> string \<Rightarrow> bool" where
  "hard_eq st k v \<longleftrightarrow> (case hm_get (hard_settings st) k of Some x \<Rightarrow> x = v | None \<Rightarrow> False)"

definition is_incoming_only :: "Store \<Rightarrow> bool" where
  "is_incoming_only st \<longleftrightarrow> hard_eq st ''conn-type'' ''incoming''"

definition is_outgoing_only :: "Store \<Rightarrow> bool" where
  "is_outgoing_only st \<longleftrightarrow> hard_eq st ''conn-type'' ''outgoing''"

definition is_some_hard_opton :: "Store \<Rightarrow> string \<Rightarrow> bool" where
  "is_some_hard_opton st n \<longleftrightarrow> hard_eq st n ''Y''"

definition builtin_eq :: "Store \<Rightarrow> string \<Rightarrow> string \<Rightarrow> bool" where
  "builtin_eq st k v \<longleftrightarrow> (case hm_get (builtin_settings st) k of Some x \<Rightarrow> x = v | None \<Rightarrow> False)"

definition is_disable_change_permanent_password :: "Store \<Rightarrow> bool" where
  "is_disable_change_permanent_password st \<longleftrightarrow> builtin_eq st ''disable-change-permanent-password'' ''Y''"

definition is_disable_change_id :: "Store \<Rightarrow> bool" where
  "is_disable_change_id st \<longleftrightarrow> builtin_eq st ''disable-change-id'' ''Y''"

definition is_disable_unlock_pin :: "Store \<Rightarrow> bool" where
  "is_disable_unlock_pin st \<longleftrightarrow> builtin_eq st ''disable-unlock-pin'' ''Y''"

definition no_register_device :: "Store \<Rightarrow> bool" where
  "no_register_device st \<longleftrightarrow> builtin_eq st ''register-device'' ''N''"

section \<open>Trusted devices\<close>

definition outdate :: "Env \<Rightarrow> TrustedDevice \<Rightarrow> bool" where
  "outdate env d \<longleftrightarrow> wrap64 (td_time d + 90 * 24 * 60 * 60 * 1000) < now env"

definition set_trusted_devices :: "Env \<Rightarrow> TrustedDevice list \<Rightarrow> Store \<Rightarrow> Store" where
  "set_trusted_devices env tds st =
    (let tds' = filter (\<lambda>d. \<not> outdate env d) tds;
         devices = to_json env tds';
         max_len = 1024 * 1024
     in if max_len < length devices then st
        else let st1 = st\<lparr>config2 := (config2 st)\<lparr>trusted_devices :=
                      encrypt_str_or_original (crypto env) devices PASSWORD_ENC_VERSION max_len\<rparr>\<rparr>
             in (config2_store (crypto env) st1)\<lparr>trusted := (tds', True)\<rparr>)"

definition get_trusted_devices :: "Env \<Rightarrow> Store \<Rightarrow> Store \<times> TrustedDevice list" where
  "get_trusted_devices env st =
    (if snd (trusted st) then (st, fst (trusted st))
     else
       let (devices, succ, store) =
             decrypt_str_or_original (crypto env) (trusted_devices (config2 st)) PASSWORD_ENC_VERSION
       in if succ then
            let all = unwrap_or [] (from_json env devices);
                kept = filter (\<lambda>d. \<not> outdate env d) all;
                st1 = (if store \<or> length kept \<noteq> length all then set_trusted_devices env kept st else st)
            in (st1\<lparr>trusted := (kept, True)\<rparr>, kept)
          else (st, []))"

definition add_trusted_device :: "Env \<Rightarrow> TrustedDevice \<Rightarrow> Store \<Rightarrow> Store" where
  "add_trusted_device env device st =
    (let (st1, devices) = get_trusted_devices env st
     in set_trusted_devices env (filter (\<lambda>d. hwid d \<noteq> hwid device) devices @ [device]) st1)"

definition remove_trusted_devices :: "Env \<Rightarrow> string list \<Rightarrow> Store \<Rightarrow> Store" where
  "remove_trusted_devices env hwids st =
    (let (st1, devices) = get_trusted_devices env st
     in set_trusted_devices env (filter (\<lambda>d. hwid d \<notin> set hwids) devices) st1)"

definition clear_trusted_devices :: "Env \<Rightarrow> Store \<Rightarrow> Store" where
  "clear_trusted_devices env st = set_trusted_devices env [] st"

section \<open>Secrets\<close>

definition set_permanent_password :: "Env \<Rightarrow> string \<Rightarrow> Store \<Rightarrow> Store" where
  "set_permanent_password env p st =
    (if is_disable_change_permanent_password st then st
     else if hard_eq st ''password'' p \<and> password (config st) = [] then st
     else if p = password (config st) then st
     else clear_trusted_devices env
            (config_store (crypto env) (st\<lparr>config := (config st)\<lparr>password := p\<rparr>\<rparr>)))"

definition get_permanent_password :: "Store \<Rightarrow> string" where
  "get_permanent_password st =
    (if password (config st) = []
     then (case hm_get (hard_settings st) ''password'' of Some v \<Rightarrow> v | None \<Rightarrow> password (config st))
     else password (config st))"

definition set_salt :: "Env \<Rightarrow> string \<Rightarrow> Store \<Rightarrow> Store" where
  "set_salt env s st =
    (if s = salt (config st) then st
     else config_store (crypto env) (st\<lparr>config := (config st)\<lparr>salt := s\<rparr>\<rparr>))"

definition NUM_CHARS :: string where "NUM_CHARS = ''0123456789''"
definition CHARS :: string where "CHARS = ''23456789abcdefghijkmnpqrstuvwxyz''"

text \<open>The random numbers drawn are an argument.\<close>

definition get_auto_password_with_chars :: "nat list \<Rightarrow> nat \<Rightarrow> string \<Rightarrow> string" where
  "get_auto_password_with_chars rnd len chars = map (\<lambda>i. chars ! ((rnd ! i) mod length chars)) [0..<len]"

definition get_salt :: "Env \<Rightarrow> nat list \<Rightarrow> Store \<Rightarrow> Store \<times> string" where
  "get_salt env rnd st =
    (if salt (config st) = []
     then let s = get_auto_password_with_chars rnd 6 CHARS in (set_salt env s st, s)
     else (st, salt (config st)))"

definition set_id :: "Env \<Rightarrow> string \<Rightarrow> Store \<Rightarrow> Store" where
  "set_id env i st =
    (if i = cfg_id (config st) then st
     else config_store (crypto env) (st\<lparr>config := (config st)\<lparr>cfg_id := i\<rparr>\<rparr>))"

definition set_key_confirmed :: "Env \<Rightarrow> bool \<Rightarrow> Store \<Rightarrow> Store" where
  "set_key_confirmed env v st =
    (if key_confirmed (config st) = v then st
     else config_store (crypto env) (st\<lparr>config := (config st)\<lparr>key_confirmed := v,
            keys_confirmed := (if v then keys_confirmed (config st) else [])\<rparr>\<rparr>))"

definition get_host_key_confirmed :: "Store \<Rightarrow> string \<Rightarrow> bool" where
  "get_host_key_confirmed st host \<longleftrightarrow> hm_get (keys_confirmed (config st)) host = Some True"

definition set_host_key_confirmed :: "Env \<Rightarrow> string \<Rightarrow> bool \<Rightarrow> Store \<Rightarrow> Store" where
  "set_host_key_confirmed env host v st =
    (if get_host_key_confirmed st host = v then st
     else config_store (crypto env) (st\<lparr>config := (config st)\<lparr>keys_confirmed :=
            hm_insert host v (keys_confirmed (config st))\<rparr>\<rparr>))"

definition get_unlock_pin :: "Store \<Rightarrow> string" where
  "get_unlock_pin st = (if is_disable_unlock_pin st then [] else unlock_pin (config2 st))"

definition set_unlock_pin :: "Env \<Rightarrow> string \<Rightarrow> Store \<Rightarrow> Store" where
  "set_unlock_pin env pin st =
    (if is_disable_unlock_pin st then st
     else if pin = unlock_pin (config2 st) then st
     else config2_store (crypto env) (st\<lparr>config2 := (config2 st)\<lparr>unlock_pin := pin\<rparr>\<rparr>))"

section \<open>Proxy\<close>

definition socks_default :: Socks5Server where
  "socks_default = \<lparr>proxy = [], username = [], socks_password = []\<rparr>"

definition set_socks :: "Env \<Rightarrow> Socks5Server option \<Rightarrow> Store \<Rightarrow> Store" where
  "set_socks env s st =
    (if hm_get (overwrite_settings st) ''proxy-url'' \<noteq> None then st
     else if socks (config2 st) = s then st
     else
       let equal_to_default = (\<lambda>k v. hm_get (default_settings st) k = Some v);
           d = unwrap_or socks_default s
       in if socks (config2 st) = None \<and> hm_get (default_settings st) ''proxy-url'' \<noteq> None
             \<and> equal_to_default ''proxy-url'' (proxy d) \<and> equal_to_default ''proxy-username'' (username d)
             \<and> equal_to_default ''proxy-password'' (socks_password d)
          then st
          else config2_store (crypto env) (st\<lparr>config2 := (config2 st)\<lparr>socks := s\<rparr>\<rparr>))"

definition socks_from_settings :: "(string, string) hashmap \<Rightarrow> Socks5Server option" where
  "socks_from_settings m = (case hm_get m ''proxy-url'' of
     None \<Rightarrow> None
   | Some url \<Rightarrow> Some \<lparr>proxy = url, username = unwrap_or [] (hm_get m ''proxy-username''),
       socks_password = unwrap_or [] (hm_get m ''proxy-password'')\<rparr>)"

definition get_socks :: "Store \<Rightarrow> Socks5Server option" where
  "get_socks st = (case socks_from_settings (overwrite_settings st) of
     Some s \<Rightarrow> Some s
   | None \<Rightarrow> (case socks (config2 st) of Some s \<Rightarrow> Some s
       | None \<Rightarrow> socks_from_settings (default_settings st)))"

datatype NetworkType = Direct | ProxySocks

definition get_network_type :: "Store \<Rightarrow> NetworkType" where
  "get_network_type st =
    (if hm_get (overwrite_settings st) ''proxy-url'' \<noteq> None then ProxySocks
     else if socks (config2 st) \<noteq> None then ProxySocks
     else if hm_get (default_settings st) ''proxy-url'' \<noteq> None then ProxySocks
     else Direct)"

section \<open>Password policy\<close>

datatype VerificationMethod = OnlyUseTemporaryPassword | OnlyUsePermanentPassword | UseBothPasswords

datatype ApproveMode = ApproveBoth | ApprovePassword | ApproveClick

definition verification_method :: "Store \<Rightarrow> VerificationMethod" where
  "verification_method st =
    (let m = get_opt st ''verification-method'' in
     if m = ''use-temporary-password'' then OnlyUseTemporaryPassword
     else if m = ''use-permanent-password'' then OnlyUsePermanentPassword
     else UseBothPasswords)"

definition temporary_password_length :: "Store \<Rightarrow> nat" where
  "temporary_password_length st =
    (let l = get_opt st ''temporary-password-length'' in
     if l = ''8'' then 8 else if l = ''10'' then 10 else 6)"

definition get_auto_password :: "nat list \<Rightarrow> Store \<Rightarrow> string" where
  "get_auto_password rnd st =
    (let len = temporary_password_length st in
     if get_bool_option st ''allow-numeric-one-time-password''
     then get_auto_password_with_chars rnd len NUM_CHARS
     else get_auto_password_with_chars rnd len CHARS)"

definition update_temporary_password :: "nat list \<Rightarrow> Store \<Rightarrow> Store" where
  "update_temporary_password rnd st = st\<lparr>temporary := get_auto_password rnd st\<rparr>"

definition temporary_enabled :: "Store \<Rightarrow> bool" where
  "temporary_enabled st \<longleftrightarrow> verification_method st \<noteq> OnlyUsePermanentPassword"

definition permanent_enabled :: "Store \<Rightarrow> bool" where
  "permanent_enabled st \<longleftrightarrow> verification_method st \<noteq> OnlyUseTemporaryPassword"

definition has_valid_password :: "Store \<Rightarrow> bool" where
  "has_valid_password st \<longleftrightarrow> temporary_enabled st \<and> temporary st \<noteq> []
     \<or> permanent_enabled st \<and> get_permanent_password st \<noteq> []"

definition approve_mode :: "Store \<Rightarrow> ApproveMode" where
  "approve_mode st =
    (let m = get_opt st ''approve-mode'' in
     if m = ''password'' then ApprovePassword
     else if m = ''click'' then ApproveClick else ApproveBoth)"

definition hide_cm :: "Store \<Rightarrow> bool" where
  "hide_cm st \<longleftrightarrow> approve_mode st = ApprovePassword
     \<and> verification_method st = OnlyUsePermanentPassword
     \<and> option2bool ''allow-hide-cm'' (get_opt st ''allow-hide-cm'')"

section \<open>Options: facts\<close>

lemma hm_get_extend: "hm_get (extend m m') k = (if k \<in> fst ` set m' then map_of (rev m') k else hm_get m k)"
proof (induction m' rule: rev_induct)
  case (snoc p m')
  obtain k' v where "p = (k', v)" by (cases p)
  with snoc show ?case by (auto simp: extend_def hm_get_insert)
qed (simp add: extend_def)

lemma wf_map_extend: "wf_map m \<Longrightarrow> wf_map (extend m m')"
  unfolding extend_def by (induction m' arbitrary: m) (auto simp: wf_map_insert)

lemma map_of_rev_wf: "wf_map m \<Longrightarrow> map_of (rev m) k = hm_get m k"
  unfolding wf_map_def hm_get_def by (metis map_of_eqI distinct_rev list.set_map rev_map set_rev
      map_of_inject_set set_map)

lemma hm_get_extend_wf:
  "wf_map m' \<Longrightarrow> hm_get (extend m m') k = (case hm_get m' k of Some v \<Rightarrow> Some v | None \<Rightarrow> hm_get m k)"
  using hm_get_None_iff [of m' k] by (auto simp: hm_get_extend map_of_rev_wf split: option.split)

lemma get_options_get_or:
  assumes "wf_map (opts (config2 st))" and "wf_map (overwrite_settings st)"
  shows "hm_get (get_options st) k =
    get_or (overwrite_settings st) (opts (config2 st)) (default_settings st) k"
  using assms by (simp add: get_options_def hm_get_extend_wf get_or_def split: option.split)

text \<open>Reading an option after setting it: an overwritten option keeps its fixed value, an empty
  value restores the default, any other value is returned; no other option changes its value.\<close>

theorem option_set_get:
  "get_opt (set_opt env k v st) k' =
    (if k' = k
     then (case hm_get (overwrite_settings st) k of
             Some fixed \<Rightarrow> fixed
           | None \<Rightarrow> if v = [] then unwrap_or [] (hm_get (default_settings st) k) else v)
     else get_opt st k')"
  by (auto simp: set_opt_def Let_def get_opt_def get_or_def is_option_can_save_def config2_store_def
      with_opts_def hm_get_remove hm_get_insert unwrap_or_def split: option.split)

section \<open>Runs of the configuration\<close>

definition persisted :: "Crypto \<Rightarrow> Store \<Rightarrow> bool" where
  "persisted cr st \<longleftrightarrow> conf_file st = encrypted_config cr (config st)
     \<and> conf_file2 st = encrypted_config2 cr (config2 st)"

definition purified :: "Store \<Rightarrow> bool" where
  "purified st \<longleftrightarrow> wf_map (opts (config2 st)) \<and> (\<forall>k v. hm_get (opts (config2 st)) k = Some v \<longrightarrow>
     is_option_can_save (overwrite_settings st) k (default_settings st) v)"

definition config_inv :: "Env \<Rightarrow> Store \<Rightarrow> bool" where
  "config_inv env st \<longleftrightarrow> persisted (crypto env) st \<and> purified st"

datatype ConfigEvent =
    SetOption string string
  | SetOptions "(string \<times> string) list"
  | SetPermanentPassword string
  | SetSalt string
  | GetSalt "nat list"
  | SetId string
  | SetKeyConfirmed bool
  | SetHostKeyConfirmed string bool
  | SetUnlockPin string
  | SetSocks "Socks5Server option"
  | GetTrustedDevices
  | AddTrustedDevice TrustedDevice
  | RemoveTrustedDevices "string list"
  | ClearTrustedDevices
  | UpdateTemporaryPassword "nat list"

fun config_op :: "Env \<Rightarrow> ConfigEvent \<Rightarrow> Store \<Rightarrow> Store" where
  "config_op env (SetOption k v) st = set_opt env k v st"
| "config_op env (SetOptions kvs) st = set_options env (extend [] kvs) st"
| "config_op env (SetPermanentPassword p) st = set_permanent_password env p st"
| "config_op env (SetSalt s) st = set_salt env s st"
| "config_op env (GetSalt rnd) st = fst (get_salt env rnd st)"
| "config_op env (SetId i) st = set_id env i st"
| "config_op env (SetKeyConfirmed v) st = set_key_confirmed env v st"
| "config_op env (SetHostKeyConfirmed h v) st = set_host_key_confirmed env h v st"
| "config_op env (SetUnlockPin p) st = set_unlock_pin env p st"
| "config_op env (SetSocks s) st = set_socks env s st"
| "config_op env GetTrustedDevices st = fst (get_trusted_devices env st)"
| "config_op env (AddTrustedDevice d) st = add_trusted_device env d st"
| "config_op env (RemoveTrustedDevices hs) st = remove_trusted_devices env hs st"
| "config_op env ClearTrustedDevices st = clear_trusted_devices env st"
| "config_op env (UpdateTemporaryPassword rnd) st = update_temporary_password rnd st"

text \<open>Each operation happens at a time of its own.\<close>

definition config_step :: "Env \<Rightarrow> int \<times> ConfigEvent \<Rightarrow> Store \<Rightarrow> Store option" where
  "config_step env te st = Some (config_op (env\<lparr>now := fst te\<rparr>) (snd te) st)"

lemmas store_defs = config2_store_def config_store_def persisted_def encrypted_config_def
  encrypted_config2_def

lemma persisted_store2 [simp]:
  "persisted cr (config2_store cr (st\<lparr>config2 := c\<rparr>)) \<longleftrightarrow> conf_file st = encrypted_config cr (config st)"
  by (simp add: persisted_def config2_store_def)

lemma persisted_store [simp]:
  "persisted cr (config_store cr (st\<lparr>config := c\<rparr>)) \<longleftrightarrow> conf_file2 st = encrypted_config2 cr (config2 st)"
  by (simp add: persisted_def config_store_def)

lemma persisted_trusted [simp]: "persisted cr (st\<lparr>trusted := t\<rparr>) = persisted cr st"
  by (simp add: persisted_def)

lemma purified_store [simp]:
  "purified (config_store cr (st\<lparr>config := c\<rparr>)) = purified st" "purified (st\<lparr>trusted := t\<rparr>) = purified st"
  by (simp_all add: purified_def config_store_def)

lemma purified_store2:
  "opts c = opts (config2 st) \<Longrightarrow> purified (config2_store cr (st\<lparr>config2 := c\<rparr>)) = purified st"
  by (simp add: purified_def config2_store_def)

lemma persistedD:
  "persisted cr st \<Longrightarrow> conf_file st = encrypted_config cr (config st)"
  "persisted cr st \<Longrightarrow> conf_file2 st = encrypted_config2 cr (config2 st)"
  by (simp_all add: persisted_def)

lemma inv_set_trusted: "config_inv env st \<Longrightarrow> config_inv env (set_trusted_devices env ds st)"
  by (simp add: config_inv_def set_trusted_devices_def Let_def purified_store2 persistedD)

lemma inv_get_trusted: "config_inv env st \<Longrightarrow> config_inv env (fst (get_trusted_devices env st))"
proof -
  assume inv: "config_inv env st"
  have "config_inv env (s\<lparr>trusted := t\<rparr>) = config_inv env s" for s t by (simp add: config_inv_def)
  with inv inv_set_trusted [OF inv] show ?thesis
    by (simp add: get_trusted_devices_def Let_def split: prod.split)
qed

lemma inv_config_store:
  "config_inv env st \<Longrightarrow> config_inv env (config_store (crypto env) (st\<lparr>config := c\<rparr>))"
  by (simp add: config_inv_def persistedD)

lemma inv_config2_store:
  "config_inv env st \<Longrightarrow> opts c = opts (config2 st) \<Longrightarrow>
     config_inv env (config2_store (crypto env) (st\<lparr>config2 := c\<rparr>))"
  by (simp add: config_inv_def persistedD purified_store2)

lemma inv_with_opts:
  assumes "config_inv env st" and "wf_map m"
    and "\<And>k v. hm_get m k = Some v \<Longrightarrow> is_option_can_save (overwrite_settings st) k (default_settings st) v"
  shows "config_inv env (config2_store (crypto env) (with_opts m st))"
  using assms by (simp add: config_inv_def purified_def with_opts_def config2_store_def persisted_def)

lemma inv_set_opt:
  assumes inv: "config_inv env st"
  shows "config_inv env (set_opt env k v st)"
proof -
  have wf: "wf_map (opts (config2 st))"
    and save: "\<And>k v. hm_get (opts (config2 st)) k = Some v \<Longrightarrow>
      is_option_can_save (overwrite_settings st) k (default_settings st) v"
    using inv by (auto simp: config_inv_def purified_def)
  have rem: "config_inv env (config2_store (crypto env) (with_opts (hm_remove k (opts (config2 st))) st))"
    using inv wf save by (intro inv_with_opts) (auto simp: hashmap_inv hashmap_simps split: if_splits)
  have ins: "config_inv env (config2_store (crypto env) (with_opts (hm_insert k v (opts (config2 st))) st))"
    if "is_option_can_save (overwrite_settings st) k (default_settings st) v"
    using inv wf save that by (intro inv_with_opts) (auto simp: hashmap_inv hashmap_simps split: if_splits)
  show ?thesis using inv rem ins by (simp add: set_opt_def Let_def)
qed

lemma inv_set_options:
  assumes "config_inv env st"
  shows "config_inv env (set_options env (extend [] kvs) st)"
proof -
  have wf: "wf_map (extend [] kvs :: (string, string) hashmap)" by (rule wf_map_extend) simp
  have "is_option_can_save (overwrite_settings st) k (default_settings st) v"
    if "hm_get (purify_options st (extend [] kvs)) k = Some v" for k v
    using that hm_get_retain [OF wf] by (auto simp: purify_options_def split: option.splits if_splits)
  then show ?thesis
    using assms wf by (auto simp: set_options_def Let_def purify_options_def hashmap_inv intro!: inv_with_opts)
qed

lemma config_inv_now [simp]: "config_inv (env\<lparr>now := t\<rparr>) st = config_inv env st"
  by (simp add: config_inv_def)

lemma config_op_inv: "config_inv env st \<Longrightarrow> config_inv env (config_op env e st)"
proof (cases e)
  case (SetPermanentPassword p)
  then show "config_inv env st \<Longrightarrow> ?thesis"
    by (simp add: set_permanent_password_def clear_trusted_devices_def inv_set_trusted inv_config_store)
next
  case (AddTrustedDevice d)
  then show "config_inv env st \<Longrightarrow> ?thesis"
    using inv_get_trusted [of env st]
    by (auto simp: add_trusted_device_def inv_set_trusted split: prod.split)
next
  case (RemoveTrustedDevices hs)
  then show "config_inv env st \<Longrightarrow> ?thesis"
    using inv_get_trusted [of env st]
    by (auto simp: remove_trusted_devices_def inv_set_trusted split: prod.split)
next
  case (UpdateTemporaryPassword rnd)
  then show "config_inv env st \<Longrightarrow> ?thesis"
    by (simp add: update_temporary_password_def config_inv_def persisted_def purified_def)
next
  case (SetSocks s)
  then show "config_inv env st \<Longrightarrow> ?thesis"
    by (simp add: set_socks_def Let_def inv_config2_store)
qed (simp_all add: inv_set_opt inv_set_options set_salt_def get_salt_def set_id_def set_key_confirmed_def
    set_host_key_confirmed_def set_unlock_pin_def inv_config_store inv_config2_store inv_get_trusted
    clear_trusted_devices_def inv_set_trusted Let_def)

interpretation conf: invariant_system "config_step env" "config_inv env" for env
  by unfold_locales (auto simp: config_step_def config_op_inv [of "_\<lparr>now := _\<rparr>", simplified])

section \<open>Restart\<close>

definition secrets_storable :: "Crypto \<Rightarrow> Store \<Rightarrow> bool" where
  "secrets_storable cr st \<longleftrightarrow> storable cr ENCRYPT_MAX_LEN (password (config st))
     \<and> cfg_id (config st) \<noteq> [] \<and> storable cr ENCRYPT_MAX_LEN (cfg_id (config st))
     \<and> storable cr ENCRYPT_MAX_LEN (unlock_pin (config2 st))
     \<and> (case socks (config2 st) of None \<Rightarrow> True
        | Some s \<Rightarrow> storable cr ENCRYPT_MAX_LEN (socks_password s))"

lemma config2_load_stored:
  assumes "crypto_ok cr" and "storable cr ENCRYPT_MAX_LEN (unlock_pin c)"
    and "case socks c of None \<Rightarrow> True | Some s \<Rightarrow> storable cr ENCRYPT_MAX_LEN (socks_password s)"
  shows "config2_load cr (encrypted_config2 cr c) = (c, False)"
  using assms stored_str_readback [OF assms(1)]
  by (cases "socks c") (simp_all add: config2_load_def encrypted_config2_def PASSWORD_ENC_VERSION_def)

lemma config_load_stored:
  assumes "crypto_ok cr" and "storable cr ENCRYPT_MAX_LEN (password c)"
    and "cfg_id c \<noteq> []" and "storable cr ENCRYPT_MAX_LEN (cfg_id c)"
  shows "\<exists>e. config_load cr gen (encrypted_config cr c) = (c\<lparr>enc_id := e\<rparr>, False)"
  using assms stored_str_readback [OF assms(1)]
  by (auto simp: config_load_def encrypted_config_def PASSWORD_ENC_VERSION_def)

text \<open>C31: The files always hold the configuration: after any sequence of operations, loading the two
  files gives back the configuration in memory (the encrypted copy of the id apart) with nothing to
  store again, provided the secrets are texts of at most 128 characters that do not themselves look
  encrypted; and no stored option repeats a default or an overwritten setting.\<close>

theorem config_survives_restart:
  assumes "crypto_ok (crypto env)" and "config_inv env st"
    and "run_steps (config_step env) es st = Some st'" and "secrets_storable (crypto env) st'"
  shows "config2_load (crypto env) (conf_file2 st') = (config2 st', False)
    \<and> (\<exists>e. config_load (crypto env) gen (conf_file st') = ((config st')\<lparr>enc_id := e\<rparr>, False))
    \<and> (\<forall>k v. hm_get (opts (config2 st')) k = Some v \<longrightarrow> hm_get (overwrite_settings st') k = None
         \<and> hm_get (default_settings st') k \<noteq> Some v)"
proof -
  have inv: "config_inv env st'" by (rule conf.run_keeps [OF assms(2,3)])
  then have files: "conf_file st' = encrypted_config (crypto env) (config st')"
    "conf_file2 st' = encrypted_config2 (crypto env) (config2 st')"
    by (simp_all add: config_inv_def persisted_def)
  show ?thesis
    using config2_load_stored [OF assms(1)] config_load_stored [OF assms(1), of "config st'" gen] assms(4) inv
    by (auto simp: files secrets_storable_def config_inv_def purified_def is_option_can_save_def
        split: option.splits)
qed

definition json_ok :: "Env \<Rightarrow> bool" where
  "json_ok env \<longleftrightarrow> (\<forall>ds. from_json env (to_json env ds) = Some ds \<and> utf8_valid (to_json env ds)
     \<and> starts_with ''['' (to_json env ds)) \<and> to_json env [] = ''[]''"

lemma utf8_count_le: "utf8_count s \<le> length s"
proof (induction s rule: utf8_count.induct)
  case (2 c cs)
  then show ?case by simp
qed simp

lemma json_okD:
  assumes "json_ok env"
  shows "from_json env (to_json env ds) = Some ds" "utf8_valid (to_json env ds)"
    "take 1 (to_json env ds) = ''[''" "to_json env [] = ''[]''" "from_json env ''[]'' = Some []"
proof -
  show "from_json env (to_json env ds) = Some ds" "utf8_valid (to_json env ds)"
    "take 1 (to_json env ds) = ''[''" "to_json env [] = ''[]''"
    using assms by (simp_all add: json_ok_def starts_with_def)
  show "from_json env ''[]'' = Some []" using assms by (metis json_ok_def)
qed

lemma json_nonempty: "json_ok env \<Longrightarrow> to_json env ds \<noteq> []"
  using json_okD(3) [of env ds] by auto

lemma json_storable: "json_ok env \<Longrightarrow> length (to_json env ds) \<le> n \<Longrightarrow> storable cr n (to_json env ds)"
  using utf8_count_le [of "to_json env ds"]
    json_okD(2,3) [of env ds]
  by (cases "to_json env ds") (auto simp: storable_def is_encrypted_def starts_with_def
      simp del: utf8_valid.simps utf8_count.simps)

lemma set_trusted_small:
  assumes "length (to_json env (filter (\<lambda>d. \<not> outdate env d) ds)) \<le> 1024 * 1024"
  shows "trusted (set_trusted_devices env ds st) = (filter (\<lambda>d. \<not> outdate env d) ds, True)"
    and "trusted_devices (config2 (set_trusted_devices env ds st)) =
      encrypt_str_or_original (crypto env) (to_json env (filter (\<lambda>d. \<not> outdate env d) ds))
        PASSWORD_ENC_VERSION (1024 * 1024)"
  using assms by (simp_all add: set_trusted_devices_def Let_def config2_store_def)


text \<open>A trusted device that is added stays trusted, as the only one with its hardware id, in this
  process and after a restart, until it is 90 days old; devices of other hardware ids are kept.\<close>

theorem trusted_device_remembered:
  assumes "crypto_ok (crypto env)" and "json_ok env" and "\<not> outdate env d"
    and "snd (get_trusted_devices env st) = ds"
    and "\<forall>x \<in> set ds. \<not> outdate env x"
    and "length (to_json env (filter (\<lambda>x. hwid x \<noteq> hwid d) ds @ [d])) \<le> 1024 * 1024"
  defines "st' \<equiv> add_trusted_device env d st"
  shows "snd (get_trusted_devices env st') = filter (\<lambda>x. hwid x \<noteq> hwid d) ds @ [d]
    \<and> snd (get_trusted_devices env (st'\<lparr>trusted := ([], False)\<rparr>)) = filter (\<lambda>x. hwid x \<noteq> hwid d) ds @ [d]"
proof -
  define ds' where "ds' = filter (\<lambda>x. hwid x \<noteq> hwid d) ds @ [d]"
  obtain st1 where st1: "get_trusted_devices env st = (st1, ds)"
    using assms(4) by (cases "get_trusted_devices env st") simp
  have fresh: "filter (\<lambda>d. \<not> outdate env d) ds' = ds'"
    using assms(3,5) by (auto simp: ds'_def cong: filter_cong)
  have st': "st' = set_trusted_devices env ds' st1"
    by (simp add: st'_def add_trusted_device_def st1 ds'_def)
  have small: "length (to_json env (filter (\<lambda>d. \<not> outdate env d) ds')) \<le> 1024 * 1024"
    unfolding fresh using assms(6) by (simp add: ds'_def)
  have small': "length (to_json env ds') \<le> 1024 * 1024" using small by (simp only: fresh)
  have "decrypt_str_or_original (crypto env) (trusted_devices (config2 st')) PASSWORD_ENC_VERSION
      = (to_json env ds', True, False)"
    using stored_str_readback [OF assms(1) json_storable [OF assms(2) small']]
      set_trusted_small(2) [OF small, of st1, unfolded fresh] json_nonempty [OF assms(2), of ds']
    by (simp only: st' PASSWORD_ENC_VERSION_def) simp
  then have "snd (get_trusted_devices env (st'\<lparr>trusted := ([], False)\<rparr>)) = ds'"
    using json_okD(1) [OF assms(2), of ds'] fresh
    by (simp add: get_trusted_devices_def Let_def unwrap_or_def)
  moreover have "snd (get_trusted_devices env st') = ds'"
    using set_trusted_small(1) [OF small, of st1] fresh by (simp add: get_trusted_devices_def st')
  ultimately show ?thesis by (simp add: ds'_def)
qed

section \<open>A library that satisfies the documented laws\<close>

text \<open>A bracket and the numbers of the devices in unary stand in for the JSON text.\<close>

definition enc_nat :: "nat \<Rightarrow> string" where
  "enc_nat n = replicate n (CHR ''a'') @ ''b''"

fun dec_nats :: "nat \<Rightarrow> string \<Rightarrow> nat list" where
  "dec_nats k [] = []"
| "dec_nats k (c # cs) = (if c = CHR ''a'' then dec_nats (Suc k) cs else k # dec_nats 0 cs)"

definition enc_str :: "string \<Rightarrow> nat list" where
  "enc_str s = length s # map of_char s"

definition dec_str :: "nat list \<Rightarrow> string \<times> nat list" where
  "dec_str ns = (map char_of (take (hd ns) (tl ns)), drop (hd ns) (tl ns))"

definition enc_dev :: "TrustedDevice \<Rightarrow> nat list" where
  "enc_dev d = [nat (td_time d), nat (- td_time d)] @ enc_str (hwid d) @ enc_str (td_id d)
     @ enc_str (td_name d) @ enc_str (td_platform d)"

definition dec_dev :: "nat list \<Rightarrow> TrustedDevice \<times> nat list" where
  "dec_dev ns = (let (h, r1) = dec_str (drop 2 ns); (i, r2) = dec_str r1; (n, r3) = dec_str r2;
       (p, r4) = dec_str r3
     in (\<lparr>hwid = h, td_time = int (ns ! 0) - int (ns ! 1), td_id = i, td_name = n, td_platform = p\<rparr>, r4))"

primrec dec_devs :: "nat \<Rightarrow> nat list \<Rightarrow> TrustedDevice list" where
  "dec_devs 0 ns = []"
| "dec_devs (Suc k) ns = (let (d, r) = dec_dev ns in d # dec_devs k r)"

definition plain_env :: Env where
  "plain_env = \<lparr>crypto = plain_crypto,
     to_json = (\<lambda>ds. CHR ''['' # (if ds = [] then '']''
        else concat (map enc_nat (length ds # concat (map enc_dev ds))))),
     from_json = (\<lambda>s. if s = ''[]'' then Some []
        else let ns = dec_nats 0 (tl s) in Some (dec_devs (hd ns) (tl ns))),
     now = 0\<rparr>"

lemma dec_nats_enc: "dec_nats k (enc_nat n @ s) = (k + n) # dec_nats 0 s"
  by (induction n arbitrary: k) (simp_all add: enc_nat_def)

lemma dec_nats_concat: "dec_nats 0 (concat (map enc_nat ns)) = ns"
  by (induction ns) (simp_all add: dec_nats_enc)

lemma dec_str_enc [simp]: "dec_str (enc_str s @ ns) = (s, ns)"
  by (simp add: dec_str_def enc_str_def comp_def)

lemma dec_dev_enc: "dec_dev (enc_dev d @ ns) = (d, ns)"
  by (simp add: dec_dev_def enc_dev_def)

lemma dec_devs_enc: "dec_devs (length ds) (concat (map enc_dev ds)) = ds"
  by (induction ds) (simp_all add: dec_dev_enc)

lemma plain_json_ascii: "\<forall>c \<in> set (to_json plain_env ds). char_code c < 128"
  by (auto simp: plain_env_def enc_nat_def char_code_def split: if_splits)

lemma plain_env_ok: "json_ok plain_env" "crypto_ok (crypto plain_env)"
proof -
  have "from_json plain_env (to_json plain_env ds) = Some ds" for ds
  proof (cases "ds = []")
    case False
    let ?ns = "length ds # concat (map enc_dev ds)"
    have "concat (map enc_nat ?ns) \<noteq> '']''" using False by (cases ds) (simp_all add: enc_nat_def)
    then show ?thesis
      using dec_nats_concat [of ?ns] False by (simp add: plain_env_def dec_devs_enc Let_def)
  qed (simp add: plain_env_def)
  moreover have "starts_with ''['' (to_json plain_env ds)" for ds
    by (simp add: plain_env_def starts_with_def)
  moreover have "to_json plain_env [] = ''[]''" by (simp add: plain_env_def)
  ultimately show "json_ok plain_env"
    using utf8_ascii [OF plain_json_ascii] by (simp add: json_ok_def)
  show "crypto_ok (crypto plain_env)" by (simp add: plain_env_def)
qed

definition first_run :: Store where
  "first_run = \<lparr>default_settings = [], overwrite_settings = [], hard_settings = [], builtin_settings = [],
     config = \<lparr>cfg_id = ''123'', enc_id = [], password = [], salt = [], key_pair = ([], []),
       key_confirmed = False, keys_confirmed = []\<rparr>,
     config2 = \<lparr>rendezvous_server = [], nat_type = 0, serial = 0, unlock_pin = [], trusted_devices = [],
       socks = None, opts = []\<rparr>,
     trusted = ([], False), temporary = [],
     conf_file = encrypted_config plain_crypto \<lparr>cfg_id = ''123'', enc_id = [], password = [], salt = [],
       key_pair = ([], []), key_confirmed = False, keys_confirmed = []\<rparr>,
     conf_file2 = encrypted_config2 plain_crypto \<lparr>rendezvous_server = [], nat_type = 0, serial = 0,
       unlock_pin = [], trusted_devices = [], socks = None, opts = []\<rparr>\<rparr>"

theorem config_survives_restart_witness:
  "\<exists>st'. run_steps (config_step plain_env) [(5, SetUnlockPin ''1234'')] first_run = Some st'
     \<and> unlock_pin (config2 st') = ''1234'' \<and> config2_load plain_crypto (conf_file2 st') = (config2 st', False)"
proof -
  define st' where "st' = set_unlock_pin (plain_env\<lparr>now := 5\<rparr>) ''1234'' first_run"
  have inv: "config_inv plain_env first_run"
    by (simp add: config_inv_def persisted_def purified_def first_run_def plain_env_def)
  have run: "run_steps (config_step plain_env) [(5, SetUnlockPin ''1234'')] first_run = Some st'"
    by (simp add: config_step_def st'_def)
  have fields: "unlock_pin (config2 st') = ''1234''" "socks (config2 st') = None"
    "password (config st') = []" "cfg_id (config st') = ''123''"
    by (simp_all add: st'_def set_unlock_pin_def first_run_def is_disable_unlock_pin_def builtin_eq_def
        config2_store_def)
  have ascii: "utf8_valid s \<and> utf8_count s = length s" if "s \<in> {''1234'', ''123''}" for s
    using that by (intro utf8_ascii) (auto simp: char_code_def)
  have "storable plain_crypto ENCRYPT_MAX_LEN s" if "s \<in> {''1234'', ''123''}" for s
    using that ascii [OF that]
    by (auto simp: storable_def is_encrypted_def starts_with_def ENCRYPT_MAX_LEN_def)
  moreover have "storable plain_crypto ENCRYPT_MAX_LEN []" by (simp add: storable_def)
  ultimately have "secrets_storable (crypto plain_env) st'"
    using fields by (simp add: secrets_storable_def plain_env_def)
  from config_survives_restart [OF plain_env_ok(2) inv run this] fields run show ?thesis
    by (auto simp: plain_env_def)
qed


theorem trusted_device_remembered_witness:
  "\<exists>d. \<not> outdate plain_env d \<and> snd (get_trusted_devices plain_env (add_trusted_device plain_env d first_run)) = [d]"
proof -
  define d where "d = \<lparr>hwid = ''h'', td_time = 0, td_id = [], td_name = [], td_platform = []\<rparr>"
  have fresh: "\<not> outdate plain_env d" by (simp add: outdate_def d_def plain_env_def wrap64_def)
  have none: "snd (get_trusted_devices plain_env first_run) = []"
    by (simp add: get_trusted_devices_def first_run_def decrypt_str_or_original_def)
  have small: "length (to_json plain_env (filter (\<lambda>x. hwid x \<noteq> hwid d) [] @ [d])) \<le> 1024 * 1024"
    by (simp add: plain_env_def d_def enc_dev_def enc_str_def enc_nat_def)
  from trusted_device_remembered [OF plain_env_ok(2,1) fresh none _ small] fresh show ?thesis
    by auto
qed

end
