(* ===== verification/File_Listing.thy ===== *)
theory File_Listing
  imports Utf8
begin

text \<open>
  Listing and pruning of directory trees, \<open>src/libs/hbb_common/src/fs.rs\<close> on Unix.  A tree is what
  the calls of the standard library see of the file system below a path: regular files with size and
  modification time, directories that may refuse to be read or changed, symbolic links (to a
  directory or not), and entries that vanish between listing and inspection.
\<close>

datatype fnode =
    RegFile nat nat
  | Directory bool bool nat "(string \<times> fnode) list"
  | SymLink bool nat
  | Gone

text \<open>A directory carries its read and write permission, its modification time and its items in
  listing order.  A path that is itself a link stands for the tree it resolves to.\<close>

datatype FileType = TFile | TDir | TDirLink | TFileLink

record FileEntry =
  entry_type :: FileType
  name :: string
  is_hidden :: bool
  size :: nat
  modified_time :: nat

record FileDirectory =
  fd_path :: string
  entries :: "FileEntry list"

text \<open>\<open>Path::join\<close>: an absolute second path replaces the first.\<close>

definition path_join :: "string \<Rightarrow> string \<Rightarrow> string" where
  "path_join p n =
    (if starts_with ''/'' n then n
     else if p = [] \<or> last p = CHR ''/'' then p @ n
     else p @ ''/'' @ n)"

definition TransferJob_join :: "string \<Rightarrow> string \<Rightarrow> string" where
  "TransferJob_join p n = (if n = [] then p else path_join p n)"

text \<open>The entry made of one item of a directory, None when it is passed over.\<close>

definition read_entry :: "bool \<Rightarrow> string \<times> fnode \<Rightarrow> FileEntry option" where
  "read_entry include_hidden item =
    (case item of (raw, node) \<Rightarrow>
      let nm = (if utf8_valid raw then raw else []);
          hidden = (starts_with ''.'' nm)
      in if nm = [] then None
         else if node = Gone then None
         else if hidden \<and> \<not> include_hidden then None
         else
           let (ty, sz, mt) = (case node of
                 Directory _ _ mt _ \<Rightarrow> (TDir, 0, mt)
               | SymLink d mt \<Rightarrow> (if d then TDirLink else TFileLink, 0, mt)
               | RegFile sz mt \<Rightarrow> (TFile, sz, mt)
               | Gone \<Rightarrow> (TFile, 0, 0))
           in Some \<lparr>entry_type = ty, name = nm, is_hidden = hidden, size = sz, modified_time = mt\<rparr>)"

definition read_dir :: "string \<Rightarrow> fnode \<Rightarrow> bool \<Rightarrow> FileDirectory option" where
  "read_dir path node include_hidden =
    (case node of
       Directory True _ _ items \<Rightarrow>
         Some \<lparr>fd_path = path, entries = List.map_filter (read_entry include_hidden) items\<rparr>
     | _ \<Rightarrow> None)"

text \<open>The recursive listing.  The recursion follows the items of the directory; an item is descended
  into exactly when its entry has type \<open>Dir\<close>, which symbolic links have not.\<close>

fun read_dir_recursive :: "fnode \<Rightarrow> string \<Rightarrow> bool \<Rightarrow> FileEntry list option"
  and read_items :: "(string \<times> fnode) list \<Rightarrow> string \<Rightarrow> bool \<Rightarrow> FileEntry list" where
  "read_dir_recursive (Directory readable w mt items) prefix include_hidden =
     (if readable then Some (read_items items prefix include_hidden) else None)"
| "read_dir_recursive (RegFile sz mt) prefix include_hidden =
     Some [\<lparr>entry_type = TFile, name = [], is_hidden = False, size = sz, modified_time = mt\<rparr>]"
| "read_dir_recursive (SymLink d mt) prefix include_hidden = None"
| "read_dir_recursive Gone prefix include_hidden = None"
| "read_items [] prefix include_hidden = []"
| "read_items ((raw, node) # items) prefix include_hidden =
     (case read_entry include_hidden (raw, node) of
        None \<Rightarrow> []
      | Some e \<Rightarrow>
         (case entry_type e of
            TFile \<Rightarrow> [e\<lparr>name := path_join prefix (name e)\<rparr>]
          | TDir \<Rightarrow> (case read_dir_recursive node (path_join prefix (name e)) include_hidden of
              Some tmp \<Rightarrow> tmp | None \<Rightarrow> [])
          | _ \<Rightarrow> []))
     @ read_items items prefix include_hidden"

fun read_empty_dirs_recursive :: "fnode \<Rightarrow> string \<Rightarrow> bool \<Rightarrow> FileDirectory list option"
  and read_empty_items :: "(string \<times> fnode) list \<Rightarrow> string \<Rightarrow> bool \<Rightarrow> FileDirectory list" where
  "read_empty_dirs_recursive (Directory readable w mt items) path include_hidden =
     (if \<not> readable then None
      else if List.map_filter (read_entry include_hidden) items = []
      then Some [\<lparr>fd_path = path, entries = []\<rparr>]
      else Some (read_empty_items items path include_hidden))"
| "read_empty_dirs_recursive (RegFile sz mt) path include_hidden = Some []"
| "read_empty_dirs_recursive (SymLink d mt) path include_hidden = None"
| "read_empty_dirs_recursive Gone path include_hidden = None"
| "read_empty_items [] path include_hidden = []"
| "read_empty_items ((raw, node) # items) path include_hidden =
     (case read_entry include_hidden (raw, node) of
        None \<Rightarrow> []
      | Some e \<Rightarrow>
         (case entry_type e of
            TDir \<Rightarrow> (case read_empty_dirs_recursive node (path_join path (name e)) include_hidden of
              Some tmp \<Rightarrow> tmp | None \<Rightarrow> [])
          | _ \<Rightarrow> []))
     @ read_empty_items items path include_hidden"

text \<open>\<open>remove_all_empty_dir\<close> on the directory at a path: what is left there (None: removed).  The
  first argument says whether the parent directory may be changed.\<close>

fun remove_all_empty_dir :: "bool \<Rightarrow> fnode \<Rightarrow> fnode option"
  and remove_empty_items :: "bool \<Rightarrow> (string \<times> fnode) list \<Rightarrow> (string \<times> fnode) list" where
  "remove_all_empty_dir parent_w (Directory readable w mt items) =
     (if \<not> readable then Some (Directory readable w mt items)
      else let items' = remove_empty_items w items
           in if items' = [] \<and> parent_w then None else Some (Directory readable w mt items'))"
| "remove_all_empty_dir parent_w (RegFile sz mt) = Some (RegFile sz mt)"
| "remove_all_empty_dir parent_w (SymLink d mt) = Some (SymLink d mt)"
| "remove_all_empty_dir parent_w Gone = Some Gone"
| "remove_empty_items w [] = []"
| "remove_empty_items w ((raw, node) # items) =
     (case read_entry True (raw, node) of
        None \<Rightarrow> [(raw, node)]
      | Some e \<Rightarrow>
         (case entry_type e of
            TDir \<Rightarrow> (case remove_all_empty_dir w node of Some n \<Rightarrow> [(raw, n)] | None \<Rightarrow> [])
          | TFile \<Rightarrow> [(raw, node)]
          | _ \<Rightarrow> if w then [] else [(raw, node)]))
     @ remove_empty_items w items"

section \<open>The listing is exact\<close>

definition visible :: "bool \<Rightarrow> string \<Rightarrow> bool" where
  "visible h raw \<longleftrightarrow> utf8_valid raw \<and> raw \<noteq> [] \<and> (h \<or> \<not> starts_with ''.'' raw)"

text \<open>The regular files below a node, by the names on the way to them, through directories that can
  be read and names that are shown; links are not followed.\<close>

inductive reg_at :: "bool \<Rightarrow> fnode \<Rightarrow> string list \<Rightarrow> nat \<Rightarrow> nat \<Rightarrow> bool" where
  reg_file: "reg_at h (RegFile s m) [] s m"
| reg_dir: "(raw, n) \<in> set items \<Longrightarrow> visible h raw \<Longrightarrow> reg_at h n cs s m \<Longrightarrow>
    reg_at h (Directory True w mt items) (raw # cs) s m"

inductive_simps reg_at_simps [simp]:
  "reg_at h (RegFile s' m') cs s m"
  "reg_at h (SymLink d m') cs s m"
  "reg_at h Gone cs s m"

inductive_simps reg_at_dir_iff: "reg_at h (Directory r w mt items) cs s m"

definition triple :: "FileEntry \<Rightarrow> string \<times> nat \<times> nat" where
  "triple e = (name e, size e, modified_time e)"

lemma read_entry_cases:
  "read_entry h (raw, n) = (if visible h raw \<and> n \<noteq> Gone then Some \<lparr>entry_type = (case n of
       Directory _ _ _ _ \<Rightarrow> TDir | SymLink d _ \<Rightarrow> (if d then TDirLink else TFileLink) | _ \<Rightarrow> TFile),
     name = raw, is_hidden = starts_with ''.'' raw,
     size = (case n of RegFile s _ \<Rightarrow> s | _ \<Rightarrow> 0),
     modified_time = (case n of RegFile _ m \<Rightarrow> m | Directory _ _ m _ \<Rightarrow> m | SymLink _ m \<Rightarrow> m | Gone \<Rightarrow> 0)\<rparr>
     else None)"
  by (cases n) (auto simp: read_entry_def visible_def Let_def starts_with_def)

definition item_files :: "bool \<Rightarrow> string \<Rightarrow> (string \<times> fnode) list \<Rightarrow> (string \<times> nat \<times> nat) set" where
  "item_files h prefix items =
     {(foldl path_join prefix (raw # cs), s, m) |raw n cs s m.
        (raw, n) \<in> set items \<and> visible h raw \<and> reg_at h n cs s m}"

lemma item_files_Cons:
  "item_files h prefix ((raw, n) # items) =
     {(foldl path_join prefix (raw # cs), s, m) |cs s m. visible h raw \<and> reg_at h n cs s m}
       \<union> item_files h prefix items"
  unfolding item_files_def by (simp only: list.set insert_iff prod.inject) blast

lemma read_listing:
  "(case n of Directory _ _ _ _ \<Rightarrow> True | _ \<Rightarrow> False) \<longrightarrow>
     (case read_dir_recursive n prefix h of
        Some fs \<Rightarrow> triple ` set fs = {(foldl path_join prefix cs, s, m) |cs s m. reg_at h n cs s m}
      | None \<Rightarrow> (\<forall>cs s m. \<not> reg_at h n cs s m))"
  "triple ` set (read_items items prefix h) = item_files h prefix items"
proof (induction n prefix h and items prefix h rule: read_dir_recursive_read_items.induct)
  case (1 r w mt items prefix h)
  then show ?case
    by (auto simp: reg_at_dir_iff item_files_def) (metis foldl_Cons)+
next
  case (6 raw n items prefix h)
  let ?here = "{(foldl path_join prefix (raw # cs), s, m) |cs s m. visible h raw \<and> reg_at h n cs s m}"
  define hd_entries where "hd_entries = (case read_entry h (raw, n) of None \<Rightarrow> []
      | Some e \<Rightarrow> (case entry_type e of TFile \<Rightarrow> [e\<lparr>name := path_join prefix (name e)\<rparr>]
          | TDir \<Rightarrow> (case read_dir_recursive n (path_join prefix (name e)) h of Some tmp \<Rightarrow> tmp | None \<Rightarrow> [])
          | _ \<Rightarrow> []))"
  have "triple ` set hd_entries = ?here"
  proof (cases n)
    case (Directory r w mt its)
    show ?thesis
    proof (cases "visible h raw")
      case True
      have re: "read_entry h (raw, n) = Some \<lparr>entry_type = TDir, name = raw,
          is_hidden = starts_with ''.'' raw, size = 0, modified_time = mt\<rparr>"
        using True by (simp add: read_entry_cases Directory)
      have "triple ` set hd_entries = {(foldl path_join (path_join prefix raw) cs, s, m) |cs s m.
          reg_at h n cs s m}"
        using "6.IH"(1) [OF re] unfolding hd_entries_def re
        by (simp add: Directory del: read_dir_recursive.simps split: option.splits)
      with True show ?thesis by simp
    qed (simp add: hd_entries_def read_entry_cases)
  qed (auto simp: hd_entries_def read_entry_cases triple_def)
  then show ?case
    using "6.IH"(2) by (simp add: item_files_Cons hd_entries_def image_Un)
qed (auto simp: item_files_def)

text \<open>C38: Listing a directory for a transfer yields exactly the regular files below it that are reached
  through readable directories and shown names (hidden ones on request), each with the path joined
  from the names on the way, its size and modification time; symbolic links are never followed.\<close>

theorem recursive_listing_exact:
  assumes "read_dir_recursive (Directory r w mt items) prefix h = Some fs"
  shows "triple ` set fs =
    {(foldl path_join prefix cs, s, m) |cs s m. reg_at h (Directory r w mt items) cs s m}"
  using read_listing(1) [where n = "Directory r w mt items" and prefix = prefix and h = h] assms by simp

definition sample_tree :: fnode where
  "sample_tree = Directory True True 0
     [(''a'', RegFile 3 7), (''.hid'', RegFile 1 1), (''ln'', SymLink True 0),
      (''d'', Directory True True 0 [(''b'', RegFile 4 9)])]"

theorem recursive_listing_exact_witness:
  "\<exists>fs. read_dir_recursive sample_tree [] False = Some fs \<and> length fs = 2
     \<and> (''d/b'', 4, 9) \<in> triple ` set fs"
proof -
  have v: "visible False ''a''" "\<not> visible False ''.hid''" "visible False ''ln''" "visible False ''d''"
    "visible False ''b''"
    by (simp_all add: visible_def starts_with_def utf8_head_def utf8_follow_def char_code_def)
  have r: "read_dir_recursive sample_tree [] False =
    Some [\<lparr>entry_type = TFile, name = ''a'', is_hidden = False, size = 3, modified_time = 7\<rparr>,
      \<lparr>entry_type = TFile, name = ''d/b'', is_hidden = False, size = 4, modified_time = 9\<rparr>]"
    using v by (simp add: sample_tree_def read_entry_cases path_join_def starts_with_def)
  have "reg_at False sample_tree [''d'', ''b''] 4 9"
    using v by (simp add: sample_tree_def reg_at_dir_iff)
  moreover have "foldl path_join [] [''d'', ''b''] = ''d/b''"
    by (simp add: path_join_def starts_with_def)
  ultimately have "(''d/b'', 4, 9) \<in> {(foldl path_join [] cs, s, m) |cs s m. reg_at False sample_tree cs s m}"
    by force
  with recursive_listing_exact [OF r [unfolded sample_tree_def]] r show ?thesis
    by (simp add: sample_tree_def)
qed

section \<open>Pruning keeps the files\<close>

text \<open>All regular files below a node, whether or not they can be listed.\<close>

inductive reg_any :: "fnode \<Rightarrow> string list \<Rightarrow> nat \<Rightarrow> nat \<Rightarrow> bool" where
  any_file: "reg_any (RegFile s m) [] s m"
| any_dir: "(raw, n) \<in> set items \<Longrightarrow> reg_any n cs s m \<Longrightarrow> reg_any (Directory r w mt items) (raw # cs) s m"

inductive_simps reg_any_simps [simp]:
  "reg_any (RegFile s' m') cs s m"
  "reg_any (SymLink d m') cs s m"
  "reg_any Gone cs s m"

inductive_simps reg_any_dir_iff: "reg_any (Directory r w mt items) cs s m"

definition left_any :: "fnode option \<Rightarrow> string list \<Rightarrow> nat \<Rightarrow> nat \<Rightarrow> bool" where
  "left_any n cs s m = (case n of None \<Rightarrow> False | Some n' \<Rightarrow> reg_any n' cs s m)"

definition items_any :: "(string \<times> fnode) list \<Rightarrow> string list \<Rightarrow> nat \<Rightarrow> nat \<Rightarrow> bool" where
  "items_any items cs s m \<longleftrightarrow> (\<exists>raw n cs'. cs = raw # cs' \<and> (raw, n) \<in> set items \<and> reg_any n cs' s m)"

lemma items_any_simps [simp]:
  "items_any [] cs s m \<longleftrightarrow> False"
  "items_any ((raw, n) # items) cs s m \<longleftrightarrow>
     (\<exists>cs'. cs = raw # cs' \<and> reg_any n cs' s m) \<or> items_any items cs s m"
  by (auto simp: items_any_def)

lemma items_any_append [simp]:
  "items_any (xs @ ys) cs s m \<longleftrightarrow> items_any xs cs s m \<or> items_any ys cs s m"
  by (auto simp: items_any_def)

lemma reg_any_items: "reg_any (Directory r w mt items) cs s m \<longleftrightarrow> items_any items cs s m"
  by (auto simp: reg_any_dir_iff items_any_def)

lemma prune_any:
  "left_any (remove_all_empty_dir pw n) cs s m \<longleftrightarrow> reg_any n cs s m"
  "items_any (remove_empty_items w items) cs s m \<longleftrightarrow> items_any items cs s m"
proof (induction pw n and w items arbitrary: cs and cs rule: remove_all_empty_dir_remove_empty_items.induct)
  case (6 w raw n items)
  show ?case
  proof (cases "read_entry True (raw, n)")
    case None
    then show ?thesis using "6.IH"(2) by simp
  next
    case (Some e)
    have "items_any (case remove_all_empty_dir w n of Some n' \<Rightarrow> [(raw, n')] | None \<Rightarrow> []) cs s m
        \<longleftrightarrow> (\<exists>cs'. cs = raw # cs' \<and> reg_any n cs' s m)" if "entry_type e = TDir"
      using "6.IH"(1) [OF Some that] by (auto simp: left_any_def split: option.splits)
    moreover have "\<not> reg_any n cs' s m" if "entry_type e = TDirLink \<or> entry_type e = TFileLink" for cs'
      using Some that by (cases n) (auto simp: read_entry_cases split: if_splits)
    ultimately show ?thesis
      using "6.IH"(2) Some by (cases "entry_type e") (auto split: option.splits)
  qed
qed (auto simp: left_any_def reg_any_items Let_def)

text \<open>A tree in which everything can be pruned: directories that may be read and changed, and links,
  under names the listing shows.\<close>

fun prunable :: "fnode \<Rightarrow> bool" and prunable_items :: "(string \<times> fnode) list \<Rightarrow> bool" where
  "prunable (Directory r w mt items) \<longleftrightarrow> r \<and> w \<and> prunable_items items"
| "prunable (SymLink d mt) \<longleftrightarrow> True"
| "prunable (RegFile s m) \<longleftrightarrow> False"
| "prunable Gone \<longleftrightarrow> False"
| "prunable_items [] \<longleftrightarrow> True"
| "prunable_items ((raw, n) # items) \<longleftrightarrow> visible True raw \<and> prunable n \<and> prunable_items items"

lemma prune_all:
  "prunable n \<Longrightarrow> (case n of Directory _ _ _ _ \<Rightarrow> remove_all_empty_dir True n = None | _ \<Rightarrow> True)"
  "prunable_items items \<Longrightarrow> remove_empty_items True items = []"
proof (induction n and items rule: prunable_prunable_items.induct)
  case (6 raw n items)
  then show ?case by (cases n) (auto simp: read_entry_cases)
qed simp_all

text \<open>Removing empty directories never deletes a regular file: exactly the same files are left,
  at the same places with the same contents' size and time.  A directory tree without regular files
  whose directories may all be read and changed is removed completely.\<close>

theorem prune_keeps_files:
  "(left_any (remove_all_empty_dir parent_w node) cs s m \<longleftrightarrow> reg_any node cs s m)
   \<and> (prunable (Directory r w mt items) \<longrightarrow> remove_all_empty_dir True (Directory r w mt items) = None)"
  using prune_any(1) prune_all(1) [of "Directory r w mt items"] by simp

theorem prune_keeps_files_witness:
  "prunable (Directory True True 0 [(''e'', Directory True True 0 []), (''l'', SymLink True 0)])
   \<and> remove_all_empty_dir True
       (Directory True True 0 [(''e'', Directory True True 0 []), (''l'', SymLink True 0)]) = None"
proof -
  have "prunable (Directory True True 0 [(''e'', Directory True True 0 []), (''l'', SymLink True 0)])"
    by (simp add: visible_def starts_with_def utf8_head_def utf8_follow_def char_code_def)
  with prune_keeps_files [of True Gone "[]" 0 0 True True 0
      "[(''e'', Directory True True 0 []), (''l'', SymLink True 0)]"]
  show ?thesis by blast
qed

end
