(* ===== verification/File_Transfer.thy ===== *)
theory File_Transfer
  imports File_Listing
begin

text \<open>
  Transfer jobs, \<open>src/libs/hbb_common/src/fs.rs\<close> (from \<open>JobType\<close> on) and
  \<open>src/libs/hbb_common/src/compress.rs\<close>.  The file system is a map from paths to inodes, so that
  an open file survives the renaming of its path; directories exist as needed and \<open>denied\<close> lists
  the paths the operating system refuses.  The compression and JSON libraries are parameters
  (record \<open>Lib\<close>).  Failures of single calls (sync, write, remove, network) are arguments, and a
  read follows a schedule of short reads and errors.
\<close>

section \<open>Files\<close>

record Inode =
  content :: bytes
  mtime :: nat

record FS =
  paths :: "(string, nat) hashmap"
  inodes :: "(nat, Inode) hashmap"
  next_ino :: nat
  denied :: "string list"

definition fs_exists :: "FS \<Rightarrow> string \<Rightarrow> bool" where
  "fs_exists fs p \<longleftrightarrow> hm_get (paths fs) p \<noteq> None"

definition fs_file :: "FS \<Rightarrow> string \<Rightarrow> Inode option" where
  "fs_file fs p = (case hm_get (paths fs) p of Some i \<Rightarrow> hm_get (inodes fs) i | None \<Rightarrow> None)"

definition fs_open :: "FS \<Rightarrow> string \<Rightarrow> nat option" where
  "fs_open fs p = (if p \<in> set (denied fs) then None else hm_get (paths fs) p)"

text \<open>\<open>File::create\<close>: truncates an existing file.\<close>

definition fs_create :: "string \<Rightarrow> FS \<Rightarrow> (FS \<times> nat) option" where
  "fs_create p fs =
    (if p \<in> set (denied fs) then None
     else case hm_get (paths fs) p of
       Some i \<Rightarrow> Some (fs\<lparr>inodes := hm_insert i \<lparr>content = [], mtime = 0\<rparr> (inodes fs)\<rparr>, i)
     | None \<Rightarrow> let i = next_ino fs in
         Some (fs\<lparr>paths := hm_insert p i (paths fs),
                  inodes := hm_insert i \<lparr>content = [], mtime = 0\<rparr> (inodes fs), next_ino := Suc i\<rparr>, i))"

definition overwrite_at :: "nat \<Rightarrow> bytes \<Rightarrow> bytes \<Rightarrow> bytes" where
  "overwrite_at pos data c =
     take pos c @ replicate (pos - length c) 0 @ data @ drop (pos + length data) c"

definition fs_write :: "nat \<Rightarrow> nat \<Rightarrow> bytes \<Rightarrow> FS \<Rightarrow> FS" where
  "fs_write i pos data fs =
     fs\<lparr>inodes := hm_modify i (\<lambda>n. n\<lparr>content := overwrite_at pos data (content n)\<rparr>) (inodes fs)\<rparr>"

definition fs_remove :: "string \<Rightarrow> FS \<Rightarrow> FS" where
  "fs_remove p fs = fs\<lparr>paths := hm_remove p (paths fs)\<rparr>"

definition fs_rename :: "string \<Rightarrow> string \<Rightarrow> FS \<Rightarrow> FS" where
  "fs_rename a b fs = (case hm_get (paths fs) a of
     Some i \<Rightarrow> fs\<lparr>paths := hm_insert b i (hm_remove a (paths fs))\<rparr>
   | None \<Rightarrow> fs)"

definition fs_set_mtime :: "string \<Rightarrow> nat \<Rightarrow> FS \<Rightarrow> FS" where
  "fs_set_mtime p t fs = (case hm_get (paths fs) p of
     Some i \<Rightarrow> fs\<lparr>inodes := hm_modify i (\<lambda>n. n\<lparr>mtime := t\<rparr>) (inodes fs)\<rparr>
   | None \<Rightarrow> fs)"

definition fs_write_file :: "string \<Rightarrow> bytes \<Rightarrow> FS \<Rightarrow> FS" where
  "fs_write_file p data fs = (case fs_create p fs of
     Some (fs', i) \<Rightarrow> fs_write i 0 data fs' | None \<Rightarrow> fs)"

section \<open>Libraries\<close>

record FileDigest =
  dg_size :: nat
  dg_modified :: nat

record Lib =
  zstd_compress :: "bytes \<Rightarrow> bytes option"
  zstd_decode :: "bytes \<Rightarrow> bytes option"
  digest_json :: "FileDigest \<Rightarrow> bytes"
  digest_parse :: "bytes \<Rightarrow> FileDigest option"

definition compress :: "Lib \<Rightarrow> bytes \<Rightarrow> bytes" where
  "compress lib data = (case zstd_compress lib data of Some r \<Rightarrow> r | None \<Rightarrow> [])"

definition decompress :: "Lib \<Rightarrow> bytes \<Rightarrow> bytes" where
  "decompress lib data = (case zstd_decode lib data of Some r \<Rightarrow> r | None \<Rightarrow> [])"

section \<open>Jobs\<close>

datatype JobType = Generic | Printer

definition JobType_from :: "int \<Rightarrow> JobType" where
  "JobType_from v = (if v = 0 then Generic else if v = 1 then Printer else Generic)"

datatype DataSource = FilePath string | MemoryCursor bytes

definition to_meta :: "DataSource \<Rightarrow> string" where
  "to_meta ds = (case ds of FilePath p \<Rightarrow> from_utf8_lossy p | MemoryCursor _ \<Rightarrow> [])"

text \<open>An open file with its position, or a memory buffer with its position.\<close>

datatype DataStream = FileStream nat nat | BufStream bytes nat

record TransferJob =
  job_id :: int
  job_type :: JobType
  remote :: string
  data_source :: DataSource
  show_hidden :: bool
  is_remote :: bool
  is_last_job :: bool
  is_resume :: bool
  file_num :: int
  files :: "FileEntry list"
  job_conn_id :: int
  data_stream :: "DataStream option"
  total_size :: nat
  finished_size :: nat
  transferred :: nat
  enable_overwrite_detection :: bool
  file_confirmed :: bool
  file_skipped :: bool
  file_is_waiting :: bool
  default_overwrite_strategy :: "bool option"
  digest :: FileDigest

record TransferJobMeta =
  meta_id :: int
  meta_remote :: string
  meta_to :: string
  meta_show_hidden :: bool
  meta_file_num :: int
  meta_is_remote :: bool

record FileTransferBlock =
  blk_id :: int
  blk_file_num :: int
  blk_data :: bytes
  blk_compressed :: bool

definition u64_sum :: "nat list \<Rightarrow> nat" where
  "u64_sum xs = sum_list xs mod 2 ^ 64"

definition u64_add :: "nat \<Rightarrow> nat \<Rightarrow> nat" where
  "u64_add a b = (a + b) mod 2 ^ 64"

definition rfind_dot :: "string \<Rightarrow> nat option" where
  "rfind_dot s = (case filter (\<lambda>i. s ! i = CHR ''.'') (rev [0..<length s]) of [] \<Rightarrow> None | i # _ \<Rightarrow> Some i)"

definition get_ext :: "string \<Rightarrow> string" where
  "get_ext n = (case rfind_dot n of Some i \<Rightarrow> drop (i + 1) n | None \<Rightarrow> [])"

definition is_compressed_file :: "string \<Rightarrow> bool" where
  "is_compressed_file n \<longleftrightarrow>
     get_ext n \<in> set [''xz'', ''gz'', ''zip'', ''7z'', ''rar'', ''bz2'', ''tgz'', ''png'', ''jpg'']"

definition new_job :: "int \<Rightarrow> JobType \<Rightarrow> string \<Rightarrow> DataSource \<Rightarrow> int \<Rightarrow> bool \<Rightarrow> bool \<Rightarrow> FileEntry list \<Rightarrow> nat \<Rightarrow> bool \<Rightarrow> TransferJob" where
  "new_job i ty rem ds fnum hidden is_rem fs tot detect =
     \<lparr>job_id = i, job_type = ty, remote = rem, data_source = ds, show_hidden = hidden, is_remote = is_rem,
      is_last_job = False, is_resume = False, file_num = fnum, files = fs, job_conn_id = 0,
      data_stream = None, total_size = tot, finished_size = 0, transferred = 0,
      enable_overwrite_detection = detect, file_confirmed = False, file_skipped = False,
      file_is_waiting = False, default_overwrite_strategy = None,
      digest = \<lparr>dg_size = 0, dg_modified = 0\<rparr>\<rparr>"

definition new_write :: "int \<Rightarrow> JobType \<Rightarrow> string \<Rightarrow> DataSource \<Rightarrow> int \<Rightarrow> bool \<Rightarrow> bool \<Rightarrow> FileEntry list \<Rightarrow> bool \<Rightarrow> TransferJob" where
  "new_write i ty rem ds fnum hidden is_rem fs detect =
     new_job i ty rem ds fnum hidden is_rem fs (u64_sum (map size fs)) detect"

text \<open>The tree is what is found at the path of the data source.\<close>

definition new_read :: "int \<Rightarrow> JobType \<Rightarrow> string \<Rightarrow> DataSource \<Rightarrow> fnode \<Rightarrow> int \<Rightarrow> bool \<Rightarrow> bool \<Rightarrow> bool \<Rightarrow> TransferJob option" where
  "new_read i ty rem ds tree fnum hidden is_rem detect =
    (case ds of
       FilePath p \<Rightarrow>
        (if \<not> utf8_valid p then None
         else case read_dir_recursive tree [] hidden of
           None \<Rightarrow> None
         | Some fs \<Rightarrow> Some (new_job i ty rem ds fnum hidden is_rem fs (u64_sum (map size fs)) detect))
     | MemoryCursor c \<Rightarrow> Some (new_job i ty rem ds fnum hidden is_rem [] (length c) detect))"

definition get_buf_data :: "TransferJob \<Rightarrow> bytes option" where
  "get_buf_data job = (case data_stream job of Some (BufStream c _) \<Rightarrow> Some c | _ \<Rightarrow> None)"

definition set_digest :: "nat \<Rightarrow> nat \<Rightarrow> TransferJob \<Rightarrow> TransferJob" where
  "set_digest sz m job = job\<lparr>digest := \<lparr>dg_size = sz, dg_modified = m\<rparr>\<rparr>"

definition download_of :: "string \<Rightarrow> string" where "download_of p = p @ ''.download''"
definition digest_of :: "string \<Rightarrow> string" where "digest_of p = p @ ''.digest''"

definition modify_time :: "TransferJob \<Rightarrow> FS \<Rightarrow> FS" where
  "modify_time job fs =
    (if job_type job = Printer then fs
     else case data_source job of
       FilePath p \<Rightarrow>
        (let n = as_usize (file_num job) in
         if n < length (files job) then
           let entry = files job ! n; path = TransferJob_join p (name entry)
           in fs_set_mtime path (modified_time entry)
                (fs_rename (download_of path) path (fs_remove (digest_of path) fs))
         else fs)
     | MemoryCursor _ \<Rightarrow> fs)"

definition remove_download_file :: "TransferJob \<Rightarrow> FS \<Rightarrow> FS" where
  "remove_download_file job fs =
    (if job_type job = Printer then fs
     else case data_source job of
       FilePath p \<Rightarrow>
        (let n = as_usize (file_num job) in
         if n < length (files job) then
           let path = TransferJob_join p (name (files job ! n))
           in fs_remove (digest_of path) (fs_remove (download_of path) fs)
         else fs)
     | MemoryCursor _ \<Rightarrow> fs)"

definition set_finished_size_on_resume :: "TransferJob \<Rightarrow> TransferJob" where
  "set_finished_size_on_resume job =
    (if is_resume job \<and> 0 < file_num job
     then job\<lparr>finished_size := u64_sum (map size (take (as_usize (file_num job)) (files job)))\<rparr>
     else job)"

section \<open>Writing\<close>

record IoResult =
  sync_ok :: bool
  remove_ok :: bool
  write_ok :: bool

definition stream_write :: "bytes \<Rightarrow> DataStream \<Rightarrow> FS \<Rightarrow> FS \<times> DataStream" where
  "stream_write data st fs = (case st of
     FileStream i pos \<Rightarrow> (fs_write i pos data fs, FileStream i (pos + length data))
   | BufStream c pos \<Rightarrow> (fs, BufStream (overwrite_at pos data c) (pos + length data)))"

text \<open>The first half of \<open>write\<close>: moving to the file of the block.\<close>

definition switch_file :: "Lib \<Rightarrow> IoResult \<Rightarrow> string \<Rightarrow> int \<Rightarrow> FS \<times> TransferJob \<Rightarrow> (FS \<times> TransferJob) \<times> (string, unit) outcome" where
  "switch_file lib io p bnum st = (case st of (fs, job) \<Rightarrow>
    let fs1 = modify_time job fs in
    if (case data_stream job of Some (FileStream _ _) \<Rightarrow> \<not> sync_ok io | _ \<Rightarrow> False)
    then ((fs1, job), Err ''sync'')
    else
      let job1 = job\<lparr>file_num := bnum\<rparr>;
          entry = files job ! as_usize bnum;
          full = TransferJob_join p (name entry);
          (path, dp) = (if job_type job = Printer then (p, None) else (download_of full, Some (digest_of full)))
      in if (case dp of Some d \<Rightarrow> fs_exists fs1 d \<and> \<not> remove_ok io | None \<Rightarrow> False)
         then ((fs1, job1), Err ''remove'')
         else
           let fs2 = (case dp of Some d \<Rightarrow> (if fs_exists fs1 d then fs_remove d fs1 else fs1) | None \<Rightarrow> fs1)
           in case fs_create path fs2 of
                None \<Rightarrow> ((fs2, job1), Err ''create'')
              | Some (fs3, i) \<Rightarrow>
                  let fs4 = (case dp of Some d \<Rightarrow> fs_write_file d (digest_json lib (digest job1)) fs3 | None \<Rightarrow> fs3)
                  in ((fs4, job1\<lparr>data_stream := Some (FileStream i 0)\<rparr>), Ok ()))"

text \<open>The second half: writing the data.\<close>

definition write_data :: "Lib \<Rightarrow> IoResult \<Rightarrow> FileTransferBlock \<Rightarrow> FS \<times> TransferJob \<Rightarrow> (FS \<times> TransferJob) \<times> (string, unit) outcome" where
  "write_data lib io block st = (case st of (fs, job) \<Rightarrow>
    let data = (if blk_compressed block then decompress lib (blk_data block) else blk_data block) in
    case data_stream job of
      None \<Rightarrow> ((fs, job), Err ''data stream is None'')
    | Some ds \<Rightarrow>
       if \<not> write_ok io then ((fs, job), Err ''write'')
       else let (fs1, ds1) = stream_write data ds fs
            in ((fs1, job\<lparr>data_stream := Some ds1,
                  finished_size := u64_add (finished_size job) (length data),
                  transferred := u64_add (transferred job) (length (blk_data block))\<rparr>), Ok ()))"

definition job_write :: "Lib \<Rightarrow> IoResult \<Rightarrow> FileTransferBlock \<Rightarrow> FS \<times> TransferJob \<Rightarrow> (FS \<times> TransferJob) \<times> (string, unit) outcome" where
  "job_write lib io block st = (case st of (fs, job) \<Rightarrow>
    if blk_id block \<noteq> job_id job then ((fs, job), Err ''Wrong id'')
    else case data_source job of
      FilePath p \<Rightarrow>
       (let n = as_usize (blk_file_num block) in
        if length (files job) \<le> n then ((fs, job), Err ''Wrong file number'')
        else if n \<noteq> as_usize (file_num job) \<or> data_stream job = None then
          (case switch_file lib io p (blk_file_num block) (fs, job) of
             (st1, Ok _) \<Rightarrow> write_data lib io block st1
           | (st1, e) \<Rightarrow> (st1, e))
        else write_data lib io block (fs, job))
    | MemoryCursor c \<Rightarrow>
        write_data lib io block
          (fs, if data_stream job = None then job\<lparr>data_stream := Some (BufStream c 0)\<rparr> else job))"

section \<open>Reading\<close>

text \<open>What one call of \<open>read\<close> on the stream does: fail, or return at most so many bytes.\<close>

datatype rd = RdErr | RdUpTo nat

definition BUF_SIZE :: nat where "BUF_SIZE = 128 * 1024"

text \<open>The bytes a stream still has to give.\<close>

definition rest :: "FS \<Rightarrow> DataStream \<Rightarrow> bytes" where
  "rest fs ds = (case ds of
     FileStream i pos \<Rightarrow> (case hm_get (inodes fs) i of Some n \<Rightarrow> drop pos (content n) | None \<Rightarrow> [])
   | BufStream c pos \<Rightarrow> drop pos c)"

definition advance :: "nat \<Rightarrow> DataStream \<Rightarrow> DataStream" where
  "advance k ds = (case ds of FileStream i pos \<Rightarrow> FileStream i (pos + k) | BufStream c pos \<Rightarrow> BufStream c (pos + k))"

text \<open>The read loop on the remaining bytes: None for an error, otherwise the number of bytes read.  A
  read returns nothing only at the end; with the schedule used up it returns all that is asked.\<close>

function read_loop :: "nat \<Rightarrow> nat \<Rightarrow> rd list \<Rightarrow> nat option" where
  "read_loop left offset sched =
    (case sched of
       RdErr # _ \<Rightarrow> None
     | _ \<Rightarrow>
        let want = BUF_SIZE - offset;
            cap = (case sched of RdUpTo k # _ \<Rightarrow> max 1 k | _ \<Rightarrow> want);
            n = min left (min want cap)
        in if n = 0 \<or> offset + n = BUF_SIZE then Some (offset + n)
           else read_loop (left - n) (offset + n) (tl sched))"
  by pat_completeness auto
termination
  by (relation "measure (\<lambda>(left, _, _). left)") (auto split: list.splits)

declare read_loop.simps [simp del]

definition next_file :: "TransferJob \<Rightarrow> TransferJob" where
  "next_file job = job\<lparr>file_num := wrap32 (file_num job + 1), data_stream := None,
     file_confirmed := False, file_is_waiting := False\<rparr>"

definition file_name_of :: "string \<Rightarrow> string" where
  "file_name_of p =
    (let comps = filter (\<lambda>c. c \<noteq> [] \<and> c \<noteq> ''.'') (split_on (CHR ''/'') p)
     in if comps = [] \<or> last comps = ''..'' \<or> \<not> utf8_valid (last comps) then [] else last comps)"

definition read_name :: "TransferJob \<Rightarrow> string" where
  "read_name job = (case data_source job of
     FilePath p \<Rightarrow>
      (let n = as_usize (file_num job) in
       if length (files job) = 1 \<and> name (files job ! n) = [] then file_name_of p
       else name (files job ! n))
   | MemoryCursor _ \<Rightarrow> [])"

definition is_path :: "DataSource \<Rightarrow> bool" where
  "is_path ds = (case ds of FilePath _ \<Rightarrow> True | _ \<Rightarrow> False)"

definition job_read :: "Lib \<Rightarrow> rd list \<Rightarrow> FS \<Rightarrow> TransferJob \<Rightarrow> TransferJob \<times> (string, FileTransferBlock option) outcome" where
  "job_read lib sched fs job =
    (if job_type job = Generic \<and> enable_overwrite_detection job \<and> \<not> file_confirmed job
     then (job, Ok None)
     else if is_path (data_source job) \<and> length (files job) \<le> as_usize (file_num job)
     then (job\<lparr>data_stream := None\<rparr>, Ok None)
     else case data_stream job of
       None \<Rightarrow> (job, Err ''data stream is None'')
     | Some ds \<Rightarrow>
        (case read_loop (length (rest fs ds)) 0 sched of
           None \<Rightarrow> (next_file job, Err ''read'')
         | Some offset \<Rightarrow>
            let buf = take offset (rest fs ds);
                fnum = wrap32 (int (as_usize (file_num job)))
            in if offset = 0 then
                 if \<not> is_path (data_source job) then (job\<lparr>data_stream := None\<rparr>, Ok None)
                 else (next_file job, Ok (Some \<lparr>blk_id = job_id job, blk_file_num = fnum,
                         blk_data = [], blk_compressed = False\<rparr>))
               else
                 let tmp = compress lib buf;
                     use = (is_path (data_source job) \<and> \<not> is_compressed_file (read_name job)
                            \<and> length tmp < length buf);
                     out = (if use then tmp else buf)
                 in (job\<lparr>data_stream := Some (advance offset ds),
                         finished_size := u64_add (finished_size job) offset,
                         transferred := u64_add (transferred job) (length out)\<rparr>,
                     Ok (Some \<lparr>blk_id = job_id job, blk_file_num = fnum,
                               blk_data = out, blk_compressed = use\<rparr>))))"

section \<open>Opening and confirming\<close>

definition open_data_stream :: "FS \<Rightarrow> TransferJob \<Rightarrow> TransferJob \<times> (string, bool) outcome" where
  "open_data_stream fs job = (case data_source job of
     FilePath p \<Rightarrow>
      (let n = as_usize (file_num job) in
       if length (files job) \<le> n then (job\<lparr>data_stream := None\<rparr>, Ok True)
       else if data_stream job = None then
         (case fs_open fs (TransferJob_join p (name (files job ! n))) of
            Some i \<Rightarrow> (job\<lparr>data_stream := Some (FileStream i 0), file_confirmed := False,
                          file_is_waiting := False\<rparr>, Ok False)
          | None \<Rightarrow> (job\<lparr>file_num := wrap32 (file_num job + 1), file_confirmed := False,
                        file_is_waiting := False\<rparr>, Err ''open''))
       else (job, Ok False))
   | MemoryCursor c \<Rightarrow>
      (if data_stream job = None
       then (job\<lparr>data_source := MemoryCursor [], data_stream := Some (BufStream c 0)\<rparr>, Ok False)
       else (job, Ok False)))"

definition get_current_digest :: "FS \<Rightarrow> TransferJob \<Rightarrow> (string, nat \<times> nat) outcome" where
  "get_current_digest fs job = (case data_stream job of
     None \<Rightarrow> Err ''file is None''
   | Some (FileStream i _) \<Rightarrow> (case hm_get (inodes fs) i of
       Some n \<Rightarrow> Ok (mtime n, length (content n)) | None \<Rightarrow> Err ''metadata'')
   | Some (BufStream _ _) \<Rightarrow> Err ''No digest for buf stream'')"

definition wants_digest :: "TransferJob \<Rightarrow> bool" where
  "wants_digest job \<longleftrightarrow> job_type job = Generic \<and> enable_overwrite_detection job
     \<and> \<not> file_confirmed job \<and> \<not> file_is_waiting job"

definition init_data_stream_for_cm :: "FS \<Rightarrow> TransferJob \<Rightarrow> TransferJob \<times> (string, (nat \<times> nat) option) outcome" where
  "init_data_stream_for_cm fs job = (case open_data_stream fs job of
     (job1, Ok True) \<Rightarrow> (job1, Ok None)
   | (job1, Ok False) \<Rightarrow>
      (if wants_digest job1 then
        (case get_current_digest fs job1 of
           Ok d \<Rightarrow> (job1\<lparr>file_is_waiting := True\<rparr>, Ok (Some d))
         | Err e \<Rightarrow> (job1, Err e)
         | Panic \<Rightarrow> (job1, Panic))
       else (job1, Ok None))
   | (job1, Err e) \<Rightarrow> (job1, Err e)
   | (job1, Panic) \<Rightarrow> (job1, Panic))"

definition set_file_confirmed :: "bool \<Rightarrow> TransferJob \<Rightarrow> TransferJob" where
  "set_file_confirmed b job = job\<lparr>file_confirmed := b, file_skipped := False\<rparr>"

definition job_skipped :: "TransferJob \<Rightarrow> bool" where
  "job_skipped job \<longleftrightarrow> file_skipped job \<and> length (files job) = 1"

definition job_completed :: "TransferJob \<Rightarrow> bool" where
  "job_completed job \<longleftrightarrow> \<not> enable_overwrite_detection job \<or> \<not> file_confirmed job \<and> \<not> file_is_waiting job"

definition job_error :: "TransferJob \<Rightarrow> string option" where
  "job_error job = (if job_skipped job then Some ''skipped'' else None)"

definition set_file_skipped :: "TransferJob \<Rightarrow> TransferJob" where
  "set_file_skipped job = job\<lparr>data_stream := None, file_confirmed := False, file_is_waiting := False,
     file_num := wrap32 (file_num job + 1), file_skipped := True\<rparr>"

text \<open>Indexing \<open>self.files[file_num]\<close> panics out of range.\<close>

definition set_stream_offset :: "nat \<Rightarrow> nat \<Rightarrow> FS \<Rightarrow> TransferJob \<Rightarrow> (string, TransferJob) outcome" where
  "set_stream_offset n offset fs job = (case data_source job of
     MemoryCursor _ \<Rightarrow> Ok job
   | FilePath p \<Rightarrow>
      if length (files job) \<le> n then Panic
      else
        let path = TransferJob_join p (name (files job ! n));
            f = (if fs_exists fs (download_of path) \<and> fs_exists fs (digest_of path)
                 then fs_open fs (download_of path)
                 else if fs_exists fs path then fs_open fs path else None)
        in case f of
             None \<Rightarrow> Ok job
           | Some i \<Rightarrow> Ok (job\<lparr>data_stream := Some (FileStream i offset),
                transferred := u64_add (transferred job) offset,
                finished_size := u64_add (finished_size job) offset\<rparr>))"

datatype ConfirmUnion = Skip bool | OffsetBlk nat | NoUnion

record ConfirmRequest =
  cr_id :: int
  cr_file_num :: int
  cr_union :: ConfirmUnion

definition confirm :: "ConfirmRequest \<Rightarrow> FS \<Rightarrow> TransferJob \<Rightarrow> (string, TransferJob) outcome" where
  "confirm r fs job =
    (if file_num job \<noteq> cr_file_num r then Ok job
     else case cr_union r of
       Skip s \<Rightarrow> Ok (if s then set_file_skipped job else set_file_confirmed True job)
     | OffsetBlk offset \<Rightarrow>
        (let job1 = set_file_confirmed True job in
         if 0 < offset then set_stream_offset (as_usize (cr_file_num r)) offset fs job1 else Ok job1)
     | NoUnion \<Rightarrow> Ok job)"

definition gen_meta :: "TransferJob \<Rightarrow> TransferJobMeta" where
  "gen_meta job = \<lparr>meta_id = job_id job, meta_remote = remote job, meta_to = to_meta (data_source job),
     meta_show_hidden = show_hidden job, meta_file_num = file_num job, meta_is_remote = is_remote job\<rparr>"

section \<open>Messages\<close>

record DigestMsg =
  dm_id :: int
  dm_file_num :: int
  dm_last_modified :: nat
  dm_file_size :: nat
  dm_is_identical :: bool
  dm_transferred_size :: nat
  dm_is_resume :: bool

datatype FileMsg =
    RespError int string int
  | RespDir int string "FileEntry list"
  | RespBlock FileTransferBlock
  | RespDone int int
  | RespDigest DigestMsg
  | ActSendConfirm ConfirmRequest
  | ActReceive int string int "FileEntry list" nat
  | ActSend int JobType string int bool

definition new_error :: "int \<Rightarrow> string \<Rightarrow> int \<Rightarrow> FileMsg" where
  "new_error i err n = RespError i err n"

definition new_dir :: "int \<Rightarrow> string \<Rightarrow> FileEntry list \<Rightarrow> FileMsg" where
  "new_dir i path fs = RespDir i path fs"

definition new_block :: "FileTransferBlock \<Rightarrow> FileMsg" where
  "new_block b = RespBlock b"

definition new_send_confirm :: "ConfirmRequest \<Rightarrow> FileMsg" where
  "new_send_confirm r = ActSendConfirm r"

definition new_receive :: "int \<Rightarrow> string \<Rightarrow> int \<Rightarrow> FileEntry list \<Rightarrow> nat \<Rightarrow> FileMsg" where
  "new_receive i path n fs tot = ActReceive i path n fs tot"

definition new_send :: "int \<Rightarrow> JobType \<Rightarrow> string \<Rightarrow> int \<Rightarrow> bool \<Rightarrow> FileMsg" where
  "new_send i ty path n hidden = ActSend i ty path n hidden"

definition new_done :: "int \<Rightarrow> int \<Rightarrow> FileMsg" where
  "new_done i n = RespDone i n"

section \<open>Lists of jobs\<close>

fun remove_job :: "int \<Rightarrow> TransferJob list \<Rightarrow> TransferJob list \<times> TransferJob option" where
  "remove_job i [] = ([], None)"
| "remove_job i (j # js) = (if job_id j = i then (js, Some j)
     else let (js', r) = remove_job i js in (j # js', r))"

definition get_job :: "int \<Rightarrow> TransferJob list \<Rightarrow> TransferJob option" where
  "get_job i jobs = find (\<lambda>j. job_id j = i) jobs"

text \<open>\<open>if let Some(job) = get_job(id, jobs) { *job = f(job) }\<close>\<close>

fun update_job :: "int \<Rightarrow> (TransferJob \<Rightarrow> TransferJob) \<Rightarrow> TransferJob list \<Rightarrow> TransferJob list" where
  "update_job i f [] = []"
| "update_job i f (j # js) = (if job_id j = i then f j # js else j # update_job i f js)"

text \<open>Sending succeeds as long as the network is up.\<close>

definition init_data_stream :: "bool \<Rightarrow> FS \<Rightarrow> TransferJob \<Rightarrow> TransferJob \<times> FileMsg list \<times> (string, unit) outcome" where
  "init_data_stream net fs job = (case open_data_stream fs job of
     (job1, Ok True) \<Rightarrow> (job1, [], Ok ())
   | (job1, Ok False) \<Rightarrow>
      (if wants_digest job1 then
        (case get_current_digest fs job1 of
           Ok (lm, sz) \<Rightarrow>
             (if net then (job1\<lparr>file_is_waiting := True\<rparr>,
                [RespDigest \<lparr>dm_id = job_id job1, dm_file_num = file_num job1, dm_last_modified = lm,
                   dm_file_size = sz, dm_is_identical = False, dm_transferred_size = 0,
                   dm_is_resume = is_resume job1\<rparr>], Ok ())
              else (job1, [], Err ''send''))
         | Err e \<Rightarrow> (job1, [], Err e)
         | Panic \<Rightarrow> (job1, [], Panic))
       else (job1, [], Ok ()))
   | (job1, Err e) \<Rightarrow> (job1, [], Err e)
   | (job1, Panic) \<Rightarrow> (job1, [], Panic))"

fun init_jobs :: "bool \<Rightarrow> FS \<Rightarrow> TransferJob list \<Rightarrow> TransferJob list \<times> FileMsg list \<times> bool" where
  "init_jobs net fs [] = ([], [], True)"
| "init_jobs net fs (job # jobs) =
    (if is_last_job job then
       let (jobs', ms, ok) = init_jobs net fs jobs in (job # jobs', ms, ok)
     else case init_data_stream net fs job of
       (job1, ms1, Err e) \<Rightarrow>
         (if net then
            let (jobs', ms, ok) = init_jobs net fs jobs
            in (job1 # jobs', ms1 @ [new_error (job_id job1) e (file_num job1)] @ ms, ok)
          else (job1 # jobs, ms1, False))
     | (job1, ms1, _) \<Rightarrow>
         let (jobs', ms, ok) = init_jobs net fs jobs in (job1 # jobs', ms1 @ ms, ok))"

datatype JobLog = NoLog | LogOf int bool bool string

text \<open>Serving the first job that is not a remembered one: the jobs, the messages, the id of a finished
  job, the log, and whether sending succeeded.\<close>

fun read_first :: "Lib \<Rightarrow> rd list \<Rightarrow> bool \<Rightarrow> FS \<Rightarrow> TransferJob list
    \<Rightarrow> TransferJob list \<times> FileMsg list \<times> int list \<times> JobLog \<times> bool" where
  "read_first lib sched net fs [] = ([], [], [], NoLog, True)"
| "read_first lib sched net fs (job # jobs) =
    (if is_last_job job then
       let (jobs', ms, fin, lg, ok) = read_first lib sched net fs jobs in (job # jobs', ms, fin, lg, ok)
     else
       let (job1, res) = job_read lib sched fs job in
       case res of
         Err e \<Rightarrow> (job1 # jobs, if net then [new_error (job_id job1) e (file_num job1)] else [], [], NoLog, net)
       | Ok (Some block) \<Rightarrow> (job1 # jobs, if net then [new_block block] else [], [], NoLog, net)
       | Ok None \<Rightarrow>
          (if job_completed job1 then
             (case job_error job1 of
                Some err \<Rightarrow> (job1 # jobs, if net then [new_error (job_id job1) err (file_num job1)] else [],
                             [job_id job1], LogOf (job_id job1) False False err, net)
              | None \<Rightarrow> (job1 # jobs, if net then [new_done (job_id job1) (file_num job1)] else [],
                         [job_id job1], LogOf (job_id job1) True False [], net))
           else (job1 # jobs, [], [], NoLog, True))
       | Panic \<Rightarrow> (job1 # jobs, [], [], NoLog, False))"

definition handle_read_jobs :: "Lib \<Rightarrow> rd list \<Rightarrow> bool \<Rightarrow> FS \<Rightarrow> TransferJob list
    \<Rightarrow> TransferJob list \<times> FileMsg list \<times> (string, JobLog) outcome" where
  "handle_read_jobs lib sched net fs jobs =
    (let (jobs1, ms1, ok1) = init_jobs net fs jobs in
     if \<not> ok1 then (jobs1, ms1, Err ''send'')
     else
       let (jobs2, ms2, fin, lg, ok2) = read_first lib sched net fs jobs1 in
       if \<not> ok2 then (jobs2, ms1 @ ms2, Err ''send'')
       else (fold (\<lambda>i js. fst (remove_job i js)) fin jobs2, ms1 @ ms2, Ok lg))"

section \<open>Other file operations\<close>

definition parent_of :: "string \<Rightarrow> string option" where
  "parent_of p =
    (let cut = rev (dropWhile (\<lambda>c. c \<noteq> CHR ''/'') (rev p))
     in if p = [] \<or> p = ''/'' then None
        else if cut = [] then Some []
        else if cut = ''/'' then Some ''/'' else Some (butlast cut))"

definition rename_file :: "string \<Rightarrow> string \<Rightarrow> FS \<Rightarrow> FS \<times> (string, unit) outcome" where
  "rename_file path new_name fs =
    (if fs_exists fs path then
       (case parent_of path of
          None \<Rightarrow> (fs, Err ''no parent'')
        | Some dir \<Rightarrow>
           let new_path = path_join dir new_name in
           if path \<in> set (denied fs) \<or> new_path \<in> set (denied fs) then (fs, Err ''rename'')
           else (fs_rename path new_path fs, Ok ()))
     else (fs, Err ''not exists''))"

definition transform_windows_path :: "FileEntry list \<Rightarrow> FileEntry list" where
  "transform_windows_path es =
     map (\<lambda>e. e\<lparr>name := map (\<lambda>c. if c = CHR 0x5C then CHR ''/'' else c) (name e)\<rparr>) es"

datatype DigestCheckResult = IsSame | NeedConfirm DigestMsg | NoSuchFile

text \<open>Times of files have whole seconds here, as the writer sets them.\<close>

definition is_write_need_confirmation :: "Lib \<Rightarrow> bool \<Rightarrow> string \<Rightarrow> DigestMsg \<Rightarrow> FS \<Rightarrow> DigestCheckResult" where
  "is_write_need_confirmation lib resume path dg fs =
    (let resumed =
       (if resume then
          (case (fs_file fs (digest_of path), fs_file fs (download_of path)) of
             (Some d, Some dl) \<Rightarrow>
               (case digest_parse lib (content d) of
                  Some ld \<Rightarrow>
                    if dg_modified ld = dm_last_modified dg \<and> dg_size ld = dm_file_size dg
                       \<and> 0 < length (content dl)
                    then Some \<lparr>dm_id = dm_id dg, dm_file_num = dm_file_num dg,
                       dm_last_modified = dm_last_modified dg, dm_file_size = dm_file_size dg,
                       dm_is_identical = True, dm_transferred_size = length (content dl), dm_is_resume = False\<rparr>
                    else None
                | None \<Rightarrow> None)
           | _ \<Rightarrow> None)
        else None)
     in case resumed of
          Some d \<Rightarrow> NeedConfirm d
        | None \<Rightarrow>
           (case fs_file fs path of
              Some f \<Rightarrow> NeedConfirm \<lparr>dm_id = dm_id dg, dm_file_num = dm_file_num dg,
                 dm_last_modified = mtime f, dm_file_size = length (content f),
                 dm_is_identical = (dm_last_modified dg = mtime f \<and> dm_file_size dg = length (content f)),
                 dm_transferred_size = 0, dm_is_resume = False\<rparr>
            | None \<Rightarrow> NoSuchFile))"

end
