(* ===== verification/Transfer_Correct.thy ===== *)
theory Transfer_Correct
  imports File_Transfer
begin

text \<open>
  Correctness of the transfer jobs: the blocks a reading job produces carry exactly the bytes of the
  file whatever short reads occur, a writing job reassembles them under the temporary name and
  publishes the file at the end, nothing is read before the peer has confirmed, and the cases
  in which the code does not do what it means to.
\<close>

section \<open>The read loop\<close>

lemma read_loop_total:
  assumes "offset < BUF_SIZE" and "RdErr \<notin> set sched"
  shows "read_loop left offset sched = Some (min BUF_SIZE (offset + left))"
  using assms
proof (induction left arbitrary: offset sched rule: less_induct)
  case (less left)
  define cap where "cap = (case sched of RdUpTo k # _ \<Rightarrow> max 1 k | _ \<Rightarrow> BUF_SIZE - offset)"
  define n where "n = min left (min (BUF_SIZE - offset) cap)"
  have cap: "0 < cap" using less.prems by (auto simp: cap_def split: list.split rd.split)
  have ne: "\<And>s. sched \<noteq> RdErr # s" using less.prems(2) by auto
  have eq: "read_loop left offset sched = (if n = 0 \<or> offset + n = BUF_SIZE then Some (offset + n)
      else read_loop (left - n) (offset + n) (tl sched))"
  proof (cases sched)
    case Nil
    show ?thesis unfolding n_def cap_def Nil
      by (subst read_loop.simps) (simp only: Let_def list.case)
  next
    case (Cons a s)
    then obtain k where "a = RdUpTo k" using ne by (cases a) auto
    with Cons have sched: "sched = RdUpTo k # s" by simp
    show ?thesis unfolding n_def cap_def sched
      by (subst read_loop.simps) (simp only: Let_def list.case rd.case)
  qed
  show ?case
  proof (cases "n = 0 \<or> offset + n = BUF_SIZE")
    case True
    then show ?thesis using eq cap less.prems(1) by (auto simp: n_def)
  next
    case False
    have lt: "offset + n < BUF_SIZE" using False by (auto simp: n_def)
    have tl: "RdErr \<notin> set (tl sched)" using less.prems(2) by (cases sched) auto
    have "left - n < left" using False by (auto simp: n_def)
    then have "read_loop (left - n) (offset + n) (tl sched) = Some (min BUF_SIZE (offset + n + (left - n)))"
      using lt tl by (intro less.IH)
    moreover have "n \<le> left" by (simp add: n_def)
    ultimately show ?thesis using eq False by simp
  qed
qed

section \<open>Sending a file\<close>

definition payload :: "Lib \<Rightarrow> FileTransferBlock \<Rightarrow> bytes" where
  "payload lib b = (if blk_compressed b then decompress lib (blk_data b) else blk_data b)"

text \<open>The compression library works: what it compresses it decompresses.\<close>

definition zstd_works :: "Lib \<Rightarrow> bool" where
  "zstd_works lib \<longleftrightarrow> (\<forall>d. \<exists>r. zstd_compress lib d = Some r \<and> zstd_decode lib r = Some d)"

lemma decompress_compress: "zstd_works lib \<Longrightarrow> decompress lib (compress lib d) = d"
  unfolding zstd_works_def compress_def decompress_def
  by (metis option.simps(5))

text \<open>Repeated calls of \<open>read\<close>, one per schedule, and the blocks they return.\<close>

primrec read_blocks :: "Lib \<Rightarrow> FS \<Rightarrow> rd list list \<Rightarrow> TransferJob \<Rightarrow> TransferJob \<times> FileTransferBlock list" where
  "read_blocks lib fs [] job = (job, [])"
| "read_blocks lib fs (s # ss) job = (case job_read lib s fs job of
     (job1, Ok (Some b)) \<Rightarrow> (let (job2, bs) = read_blocks lib fs ss job1 in (job2, b # bs))
   | (job1, _) \<Rightarrow> (job1, []))"

definition ready :: "TransferJob \<Rightarrow> bool" where
  "ready job \<longleftrightarrow> \<not> (job_type job = Generic \<and> enable_overwrite_detection job \<and> \<not> file_confirmed job)"

definition sending :: "FS \<Rightarrow> TransferJob \<Rightarrow> nat \<Rightarrow> nat \<Rightarrow> bool" where
  "sending fs job i pos \<longleftrightarrow> ready job \<and> is_path (data_source job) \<and> is_i32 (file_num job) \<and> 0 \<le> file_num job
     \<and> as_usize (file_num job) < length (files job) \<and> data_stream job = Some (FileStream i pos)"

lemma file_num_roundtrip: "is_i32 n \<Longrightarrow> 0 \<le> n \<Longrightarrow> wrap32 (int (as_usize n)) = n"
  by (simp add: as_usize_nonneg)

lemma job_read_chunk:
  assumes s: "sending fs job i pos" and rest: "rest fs (FileStream i pos) \<noteq> []" and ok: "RdErr \<notin> set sched"
    and z: "zstd_works lib"
  shows "\<exists>job' b. job_read lib sched fs job = (job', Ok (Some b))
    \<and> payload lib b = take BUF_SIZE (rest fs (FileStream i pos))
    \<and> blk_file_num b = file_num job \<and> blk_id b = job_id job
    \<and> sending fs job' i (pos + length (payload lib b))
    \<and> file_num job' = file_num job \<and> job_id job' = job_id job"
proof -
  let ?r = "rest fs (FileStream i pos)"
  define off where "off = min BUF_SIZE (length ?r)"
  have loop: "read_loop (length ?r) 0 sched = Some off"
    using read_loop_total [OF _ ok, of 0 "length ?r"] by (simp add: off_def BUF_SIZE_def)
  have off: "0 < off" using rest by (simp add: off_def BUF_SIZE_def)
  have buf: "take off ?r = take BUF_SIZE ?r" "length (take off ?r) = off" by (simp_all add: off_def min_def)
  have fnum: "wrap32 (int (as_usize (file_num job))) = file_num job"
    using s by (simp add: sending_def file_num_roundtrip)
  define use where "use = (\<not> is_compressed_file (read_name job)
      \<and> length (compress lib (take off ?r)) < length (take off ?r))"
  define out where "out = (if use then compress lib (take off ?r) else take off ?r)"
  define b where "b = \<lparr>blk_id = job_id job, blk_file_num = file_num job, blk_data = out, blk_compressed = use\<rparr>"
  define job' where "job' = job\<lparr>data_stream := Some (FileStream i (pos + off)),
      finished_size := u64_add (finished_size job) off, transferred := u64_add (transferred job) (length out)\<rparr>"
  have pay: "payload lib b = take BUF_SIZE ?r"
    using decompress_compress [OF z] by (simp add: payload_def b_def out_def buf)
  have "job_read lib sched fs job = (job', Ok (Some b))"
    using s loop off fnum
    by (simp add: job_read_def sending_def ready_def Let_def advance_def job'_def b_def out_def use_def)
  moreover have "sending fs job' i (pos + length (payload lib b))"
    unfolding pay using s by (simp add: sending_def ready_def job'_def off_def min.commute)
  ultimately show ?thesis using pay by (auto simp: b_def job'_def)
qed

lemma job_read_end:
  assumes "sending fs job i pos" and "rest fs (FileStream i pos) = []" and "RdErr \<notin> set sched"
  shows "job_read lib sched fs job = (next_file job, Ok (Some \<lparr>blk_id = job_id job,
     blk_file_num = file_num job, blk_data = [], blk_compressed = False\<rparr>))"
proof -
  have "read_loop 0 0 sched = Some 0"
    using read_loop_total [OF _ assms(3), of 0 0] by (simp add: BUF_SIZE_def)
  then show ?thesis
    using assms(1,2) by (simp add: job_read_def sending_def ready_def file_num_roundtrip)
qed

text \<open>Enough calls for so many bytes: one per full or partial buffer and one that finds the end.\<close>

definition calls_for :: "nat \<Rightarrow> nat" where
  "calls_for n = (n + (BUF_SIZE - 1)) div BUF_SIZE + 1"

lemma rest_advance:
  "rest fs (FileStream i (pos + n)) = drop n (rest fs (FileStream i pos))"
  by (auto simp: rest_def add.commute split: option.split)

lemma calls_for_step: "0 < n \<Longrightarrow> calls_for n = Suc (calls_for (n - min BUF_SIZE n))"
proof -
  assume n: "0 < n"
  show ?thesis
  proof (cases "n \<le> BUF_SIZE")
    case True
    have "n + (BUF_SIZE - 1) = BUF_SIZE + (n - 1)" using n by (simp add: BUF_SIZE_def)
    moreover have "n - 1 < BUF_SIZE" using True n by linarith
    ultimately have "(n + (BUF_SIZE - 1)) div BUF_SIZE = 1" by (simp add: BUF_SIZE_def)
    then show ?thesis using True by (simp add: calls_for_def BUF_SIZE_def)
  next
    case False
    have "n + (BUF_SIZE - 1) = (n - BUF_SIZE + (BUF_SIZE - 1)) + BUF_SIZE" using False by simp
    then have "(n + (BUF_SIZE - 1)) div BUF_SIZE = (n - BUF_SIZE + (BUF_SIZE - 1)) div BUF_SIZE + 1"
      by (simp add: BUF_SIZE_def)
    then show ?thesis using False by (simp add: calls_for_def min_def)
  qed
qed

lemma read_blocks_file:
  assumes "sending fs job i pos" and "length ss = calls_for (length (rest fs (FileStream i pos)))"
    and "\<forall>s \<in> set ss. RdErr \<notin> set s" and "zstd_works lib"
  shows "\<exists>job' bs. read_blocks lib fs ss job = (job', bs)
    \<and> concat (map (payload lib) bs) = rest fs (FileStream i pos)
    \<and> (\<forall>b \<in> set bs. blk_file_num b = file_num job \<and> blk_id b = job_id job)
    \<and> bs \<noteq> [] \<and> file_num job' = wrap32 (file_num job + 1)"
  using assms
proof (induction ss arbitrary: job pos)
  case Nil
  then show ?case by (simp add: calls_for_def)
next
  case (Cons s ss)
  let ?r = "rest fs (FileStream i pos)"
  have s: "RdErr \<notin> set s" using Cons.prems(3) by simp
  show ?case
  proof (cases "?r = []")
    case True
    have "ss = []" using Cons.prems(2) True by (simp add: calls_for_def BUF_SIZE_def)
    then show ?thesis
      using job_read_end [OF Cons.prems(1) True s, of lib] True
      by (simp add: payload_def next_file_def)
  next
    case False
    obtain job1 b where r: "job_read lib s fs job = (job1, Ok (Some b))"
      and pay: "payload lib b = take BUF_SIZE ?r"
      and b: "blk_file_num b = file_num job" "blk_id b = job_id job"
      and s1: "sending fs job1 i (pos + length (payload lib b))"
      and same: "file_num job1 = file_num job" "job_id job1 = job_id job"
      using job_read_chunk [OF Cons.prems(1) False s Cons.prems(4)] by blast
    have rest1: "rest fs (FileStream i (pos + length (payload lib b))) = drop BUF_SIZE ?r"
      unfolding rest_advance pay by (simp add: min_def)
    have "length ss = calls_for (length (drop BUF_SIZE ?r))"
      using Cons.prems(2) calls_for_step [of "length ?r"] False by (simp add: min_def)
    then obtain job2 bs where rb: "read_blocks lib fs ss job1 = (job2, bs)"
      and rest: "concat (map (payload lib) bs) = drop BUF_SIZE ?r"
        "\<forall>b \<in> set bs. blk_file_num b = file_num job1 \<and> blk_id b = job_id job1"
        "file_num job2 = wrap32 (file_num job1 + 1)"
      using Cons.IH [OF s1] Cons.prems(3,4) rest1 by auto
    then show ?thesis using r pay b same by simp
  qed
qed

section \<open>Receiving a file\<close>

definition fs_wf :: "FS \<Rightarrow> bool" where
  "fs_wf fs \<longleftrightarrow> (\<forall>p i. hm_get (paths fs) p = Some i \<longrightarrow> i < next_ino fs)"

lemma fs_wf_remove: "fs_wf fs \<Longrightarrow> fs_wf (fs_remove p fs)"
  by (auto simp: fs_wf_def fs_remove_def hm_get_remove split: if_splits)

lemma fs_wf_rename: "fs_wf fs \<Longrightarrow> fs_wf (fs_rename a b fs)"
  by (auto simp: fs_wf_def fs_rename_def hm_get_remove hm_get_insert split: if_splits option.split)

lemma fs_wf_set_mtime: "fs_wf fs \<Longrightarrow> fs_wf (fs_set_mtime p m fs)"
  by (auto simp: fs_wf_def fs_set_mtime_def split: option.split)

lemma denied_ops [simp]:
  "denied (fs_remove p fs) = denied fs" "denied (fs_rename a b fs) = denied fs"
  "denied (fs_set_mtime p m fs) = denied fs" "denied (fs_write i pos d fs) = denied fs"
  by (simp_all add: fs_remove_def fs_rename_def fs_set_mtime_def fs_write_def split: option.split)

lemma modify_time_keeps: "fs_wf fs \<Longrightarrow> fs_wf (modify_time job fs)" "denied (modify_time job fs) = denied fs"
  by (simp_all add: modify_time_def Let_def fs_wf_remove fs_wf_rename fs_wf_set_mtime split: DataSource.split)

lemma fs_create_spec:
  assumes "fs_wf fs" and "p \<notin> set (denied fs)"
  shows "\<exists>fs' i. fs_create p fs = Some (fs', i) \<and> fs_wf fs' \<and> denied fs' = denied fs
    \<and> hm_get (paths fs') p = Some i \<and> hm_get (inodes fs') i = Some \<lparr>content = [], mtime = 0\<rparr>
    \<and> (\<forall>q. q \<noteq> p \<longrightarrow> hm_get (paths fs') q = hm_get (paths fs) q)
    \<and> (\<forall>j. j \<noteq> i \<longrightarrow> hm_get (inodes fs') j = hm_get (inodes fs) j)
    \<and> (\<not> fs_exists fs p \<longrightarrow> i = next_ino fs \<and> next_ino fs' = Suc i)"
  using assms
  by (cases "hm_get (paths fs) p") (auto simp: fs_create_def Let_def fs_wf_def hm_get_insert fs_exists_def less_Suc_eq)

lemma digest_neq [simp]:
  "digest_of p \<noteq> download_of p" "digest_of p \<noteq> p" "download_of p \<noteq> p"
  "download_of p \<noteq> digest_of p" "p \<noteq> digest_of p" "p \<noteq> download_of p"
  by (simp_all add: digest_of_def download_of_def)

lemma overwrite_at_end: "overwrite_at (length c) d c = c @ d"
  by (simp add: overwrite_at_def)

lemma hm_get_fs_write:
  "hm_get (inodes (fs_write i pos d fs)) j =
     (if j = i then map_option (\<lambda>n. n\<lparr>content := overwrite_at pos d (content n)\<rparr>) (hm_get (inodes fs) i)
      else hm_get (inodes fs) j)"
  "paths (fs_write i pos d fs) = paths fs" "next_ino (fs_write i pos d fs) = next_ino fs"
  by (simp_all add: fs_write_def hm_get_modify)

definition all_ok :: IoResult where
  "all_ok = \<lparr>sync_ok = True, remove_ok = True, write_ok = True\<rparr>"

text \<open>A writing job with so many bytes of the current file under its temporary name.\<close>

definition receiving :: "string \<Rightarrow> FS \<Rightarrow> TransferJob \<Rightarrow> bytes \<Rightarrow> bool" where
  "receiving path fs job acc \<longleftrightarrow> (\<exists>j m. data_stream job = Some (FileStream j (length acc))
     \<and> hm_get (paths fs) (download_of path) = Some j
     \<and> hm_get (inodes fs) j = Some \<lparr>content = acc, mtime = m\<rparr>)"

definition write_target :: "TransferJob \<Rightarrow> int \<Rightarrow> string \<Rightarrow> bool" where
  "write_target job num path \<longleftrightarrow> job_type job = Generic \<and> is_i32 num \<and> 0 \<le> num
     \<and> as_usize num < length (files job)
     \<and> (\<exists>p. data_source job = FilePath p \<and> path = TransferJob_join p (name (files job ! as_usize num)))"

lemma no_sync_failure:
  "(case ds of Some (FileStream a b) \<Rightarrow> \<not> sync_ok all_ok | _ \<Rightarrow> False) = False" "remove_ok all_ok"
  by (simp_all add: all_ok_def split: option.split DataStream.split)

lemma switch_file_ok:
  assumes "fs_wf fs" and "write_target job num path" and "data_source job = FilePath p"
    and "download_of path \<notin> set (denied fs)" and "digest_of path \<notin> set (denied fs)"
  shows "\<exists>fs' job'. switch_file lib all_ok p num (fs, job) = ((fs', job'), Ok ())
    \<and> receiving path fs' job' [] \<and> (\<exists>ds. job' = job\<lparr>file_num := num, data_stream := ds\<rparr>)"
proof -
  define fs1 where "fs1 = modify_time job fs"
  define fs2 where "fs2 = (if fs_exists fs1 (digest_of path) then fs_remove (digest_of path) fs1 else fs1)"
  have path: "path = TransferJob_join p (name (files job ! as_usize num))"
    using assms(2,3) by (auto simp: write_target_def)
  have wf2: "fs_wf fs2" "denied fs2 = denied fs"
    using modify_time_keeps(1) [OF assms(1)] modify_time_keeps(2) by (simp_all add: fs1_def fs2_def fs_wf_remove)
  have gone: "\<not> fs_exists fs2 (digest_of path)"
    by (simp add: fs2_def fs_exists_def fs_remove_def hm_get_remove)
  obtain fs3 j where c: "fs_create (download_of path) fs2 = Some (fs3, j)"
    and fs3: "fs_wf fs3" "denied fs3 = denied fs2" "hm_get (paths fs3) (download_of path) = Some j"
      "hm_get (inodes fs3) j = Some \<lparr>content = [], mtime = 0\<rparr>"
      "\<forall>q. q \<noteq> download_of path \<longrightarrow> hm_get (paths fs3) q = hm_get (paths fs2) q"
    using fs_create_spec [OF wf2(1), of "download_of path"] assms(4) wf2(2) by auto
  have "\<not> fs_exists fs3 (digest_of path)"
    using gone fs3(5) digest_neq by (simp add: fs_exists_def)
  then obtain fs4 k where d: "fs_create (digest_of path) fs3 = Some (fs4, k)"
    and fs4: "k = next_ino fs3" "\<forall>q. q \<noteq> digest_of path \<longrightarrow> hm_get (paths fs4) q = hm_get (paths fs3) q"
      "\<forall>i. i \<noteq> k \<longrightarrow> hm_get (inodes fs4) i = hm_get (inodes fs3) i"
    using fs_create_spec [OF fs3(1), of "digest_of path"] assms(5) wf2(2) fs3(2) by auto
  have "j \<noteq> k" using fs3(1,3) fs4(1) by (auto simp: fs_wf_def)
  then have rec: "receiving path (fs_write k 0 (digest_json lib (digest job)) fs4)
      (job\<lparr>file_num := num, data_stream := Some (FileStream j 0)\<rparr>) []"
    using fs3(3,4) fs4(2,3) digest_neq by (auto simp: receiving_def hm_get_fs_write)
  moreover have "switch_file lib all_ok p num (fs, job) =
      ((fs_write k 0 (digest_json lib (digest job)) fs4,
        job\<lparr>file_num := num, data_stream := Some (FileStream j 0)\<rparr>), Ok ())"
    using assms(2) c d
    by (cases "fs_exists fs1 (digest_of path)") (simp_all add: switch_file_def Let_def path [symmetric]
        fs1_def [symmetric] fs2_def fs_write_file_def no_sync_failure write_target_def)
  ultimately show ?thesis by blast
qed

lemma write_data_append:
  assumes "receiving path fs job acc"
  shows "\<exists>fs' job'. write_data lib all_ok b (fs, job) = ((fs', job'), Ok ())
    \<and> receiving path fs' job' (acc @ payload lib b)
    \<and> (\<exists>ds fz tr. job' = job\<lparr>data_stream := ds, finished_size := fz, transferred := tr\<rparr>)"
proof -
  obtain j m where j: "data_stream job = Some (FileStream j (length acc))"
    "hm_get (paths fs) (download_of path) = Some j" "hm_get (inodes fs) j = Some \<lparr>content = acc, mtime = m\<rparr>"
    using assms by (auto simp: receiving_def)
  let ?job = "job\<lparr>data_stream := Some (FileStream j (length acc + length (payload lib b))),
      finished_size := u64_add (finished_size job) (length (payload lib b)),
      transferred := u64_add (transferred job) (length (blk_data b))\<rparr>"
  have "write_data lib all_ok b (fs, job) = ((fs_write j (length acc) (payload lib b) fs, ?job), Ok ())"
    using j(1) by (simp add: write_data_def stream_write_def all_ok_def payload_def Let_def)
  moreover have "receiving path (fs_write j (length acc) (payload lib b) fs) ?job (acc @ payload lib b)"
    using j by (simp add: receiving_def hm_get_fs_write overwrite_at_end)
  ultimately show ?thesis by blast
qed

primrec write_blocks :: "Lib \<Rightarrow> IoResult \<Rightarrow> FileTransferBlock list \<Rightarrow> FS \<times> TransferJob \<Rightarrow> (FS \<times> TransferJob) \<times> bool" where
  "write_blocks lib io [] st = (st, True)"
| "write_blocks lib io (b # bs) st = (case job_write lib io b st of
     (st1, Ok _) \<Rightarrow> write_blocks lib io bs st1
   | (st1, _) \<Rightarrow> (st1, False))"

definition block_for :: "TransferJob \<Rightarrow> int \<Rightarrow> FileTransferBlock \<Rightarrow> bool" where
  "block_for job num b \<longleftrightarrow> blk_file_num b = num \<and> blk_id b = job_id job"

lemma write_target_update [simp]:
  "write_target (job\<lparr>file_num := n, data_stream := ds\<rparr>) num path = write_target job num path"
  "write_target (job\<lparr>data_stream := ds, finished_size := fz, transferred := tr\<rparr>) num path = write_target job num path"
  by (simp_all add: write_target_def)

lemma job_write_same:
  assumes "write_target job num path" and "file_num job = num" and "receiving path fs job acc"
    and "block_for job num b"
  shows "job_write lib all_ok b (fs, job) = write_data lib all_ok b (fs, job)"
  using assms by (auto simp: job_write_def write_target_def receiving_def block_for_def Let_def)

lemma write_blocks_append:
  assumes "write_target job num path" and "file_num job = num" and "receiving path fs job acc"
    and "\<forall>b \<in> set bs. block_for job num b"
  shows "\<exists>fs' job'. write_blocks lib all_ok bs (fs, job) = ((fs', job'), True)
    \<and> receiving path fs' job' (acc @ concat (map (payload lib) bs))
    \<and> write_target job' num path \<and> file_num job' = num \<and> files job' = files job"
  using assms
proof (induction bs arbitrary: fs job acc)
  case (Cons b bs)
  obtain fs1 job1 where w: "write_data lib all_ok b (fs, job) = ((fs1, job1), Ok ())"
    and r: "receiving path fs1 job1 (acc @ payload lib b)"
    and same: "\<exists>ds fz tr. job1 = job\<lparr>data_stream := ds, finished_size := fz, transferred := tr\<rparr>"
    using write_data_append [OF Cons.prems(3)] by blast
  have t1: "write_target job1 num path" "file_num job1 = num" "files job1 = files job"
    "\<forall>b \<in> set bs. block_for job1 num b"
    using Cons.prems same by (auto simp: block_for_def)
  have "job_write lib all_ok b (fs, job) = ((fs1, job1), Ok ())"
    using job_write_same [OF Cons.prems(1-3), of b lib] Cons.prems(4) w by simp
  then show ?case
    using Cons.IH [OF t1(1,2) r t1(4)] t1(3) by auto
qed simp

lemma write_blocks_file:
  assumes "fs_wf fs" and "write_target job num path" and "data_stream job = None"
    and "download_of path \<notin> set (denied fs)" and "digest_of path \<notin> set (denied fs)"
    and "bs \<noteq> []" and "\<forall>b \<in> set bs. block_for job num b"
  shows "\<exists>fs' job'. write_blocks lib all_ok bs (fs, job) = ((fs', job'), True)
    \<and> receiving path fs' job' (concat (map (payload lib) bs))
    \<and> write_target job' num path \<and> file_num job' = num \<and> files job' = files job"
proof -
  obtain b bs' where bs: "bs = b # bs'" using assms(6) by (cases bs) auto
  obtain p where p: "data_source job = FilePath p" using assms(2) by (auto simp: write_target_def)
  obtain fs1 job1 where s: "switch_file lib all_ok p num (fs, job) = ((fs1, job1), Ok ())"
    and r: "receiving path fs1 job1 []" and same: "\<exists>ds. job1 = job\<lparr>file_num := num, data_stream := ds\<rparr>"
    using switch_file_ok [OF assms(1,2) p assms(4,5)] by blast
  have t1: "write_target job1 num path" "file_num job1 = num" "files job1 = files job"
    "\<forall>b \<in> set bs. block_for job1 num b"
    using assms(2,7) same by (auto simp: block_for_def)
  have "job_write lib all_ok b (fs, job) = write_data lib all_ok b (fs1, job1)"
    using assms(2,3,7) p s bs
    by (simp add: job_write_def write_target_def block_for_def Let_def)
  also have "\<dots> = job_write lib all_ok b (fs1, job1)"
    using job_write_same [OF t1(1,2) r] t1(4) bs by simp
  finally have "write_blocks lib all_ok bs (fs, job) = write_blocks lib all_ok bs (fs1, job1)"
    by (simp add: bs)
  then show ?thesis using write_blocks_append [OF t1(1,2) r t1(4)] t1(3) by simp
qed

lemma publish:
  assumes "write_target job num path" and "file_num job = num" and "receiving path fs job c"
  shows "fs_file (modify_time job fs) path = Some \<lparr>content = c, mtime = modified_time (files job ! as_usize num)\<rparr>
    \<and> \<not> fs_exists (modify_time job fs) (download_of path) \<and> \<not> fs_exists (modify_time job fs) (digest_of path)"
proof -
  obtain j m where j: "hm_get (paths fs) (download_of path) = Some j"
    "hm_get (inodes fs) j = Some \<lparr>content = c, mtime = m\<rparr>"
    using assms(3) by (auto simp: receiving_def)
  let ?fs1 = "fs\<lparr>paths := hm_insert path j (hm_remove (download_of path) (hm_remove (digest_of path) (paths fs)))\<rparr>"
  have "fs_rename (download_of path) path (fs_remove (digest_of path) fs) = ?fs1"
    using j(1) digest_neq by (simp add: fs_rename_def fs_remove_def hm_get_remove)
  then have "modify_time job fs = fs_set_mtime path (modified_time (files job ! as_usize num)) ?fs1"
    using assms(1,2) by (auto simp: modify_time_def write_target_def Let_def)
  then show ?thesis
    using j digest_neq
    by (simp add: fs_set_mtime_def fs_file_def fs_exists_def hm_get_insert hm_get_remove hm_get_modify)
qed

text \<open>C35: Transferring a file reproduces it.  A reading job that has a file open returns, in as many
  calls as the size requires and whatever short reads occur, blocks that a fresh writing job accepts
  without error; once the writing job closes the file, the destination holds the same bytes with the
  announced modification time, and the temporary files are gone.\<close>

theorem file_transfer_roundtrip:
  assumes "zstd_works lib"
    and "sending sfs sjob i 0" and "hm_get (inodes sfs) i = Some \<lparr>content = c, mtime = m\<rparr>"
    and "length ss = calls_for (length c)" and "\<forall>s \<in> set ss. RdErr \<notin> set s"
    and "fs_wf rfs" and "write_target rjob (file_num sjob) path" and "job_id rjob = job_id sjob"
    and "data_stream rjob = None"
    and "download_of path \<notin> set (denied rfs)" and "digest_of path \<notin> set (denied rfs)"
  shows "\<exists>sjob' bs rfs' rjob'. read_blocks lib sfs ss sjob = (sjob', bs)
    \<and> write_blocks lib all_ok bs (rfs, rjob) = ((rfs', rjob'), True)
    \<and> fs_file (modify_time rjob' rfs') path =
        Some \<lparr>content = c, mtime = modified_time (files rjob ! as_usize (file_num sjob))\<rparr>
    \<and> \<not> fs_exists (modify_time rjob' rfs') (download_of path)
    \<and> \<not> fs_exists (modify_time rjob' rfs') (digest_of path)"
proof -
  have rest: "rest sfs (FileStream i 0) = c" using assms(3) by (simp add: rest_def)
  obtain sjob' bs where bs: "read_blocks lib sfs ss sjob = (sjob', bs)"
    "concat (map (payload lib) bs) = c" "bs \<noteq> []"
    "\<forall>b \<in> set bs. blk_file_num b = file_num sjob \<and> blk_id b = job_id sjob"
    using read_blocks_file [OF assms(2) _ assms(5,1)] assms(4) rest by auto
  have "\<forall>b \<in> set bs. block_for rjob (file_num sjob) b"
    using bs(4) assms(8) by (simp add: block_for_def)
  from write_blocks_file [OF assms(6,7,9,10,11) bs(3) this, of lib]
  obtain rfs' rjob' where w: "write_blocks lib all_ok bs (rfs, rjob) = ((rfs', rjob'), True)"
    "receiving path rfs' rjob' c" "write_target rjob' (file_num sjob) path"
    "file_num rjob' = file_num sjob" "files rjob' = files rjob"
    using bs(2) by auto
  from publish [OF w(3,4,2)] w(5) bs(1) w(1) show ?thesis by auto
qed

text \<open>A library and two jobs for which the hypotheses hold.\<close>

definition id_lib :: Lib where
  "id_lib = \<lparr>zstd_compress = (\<lambda>d. Some d), zstd_decode = (\<lambda>d. Some d), digest_json = (\<lambda>_. []),
     digest_parse = (\<lambda>_. None)\<rparr>"

definition one_entry :: FileEntry where
  "one_entry = \<lparr>entry_type = TFile, name = ''f'', is_hidden = False, size = 2, modified_time = 5\<rparr>"

definition demo_fs :: FS where
  "demo_fs = \<lparr>paths = [(''/s/f'', 0)], inodes = [(0, \<lparr>content = [1, 2], mtime = 5\<rparr>)], next_ino = 1, denied = []\<rparr>"

definition empty_fs :: FS where
  "empty_fs = \<lparr>paths = [], inodes = [], next_ino = 0, denied = []\<rparr>"

definition demo_writer :: TransferJob where
  "demo_writer = new_write 7 Generic [] (FilePath ''/d'') 0 False False [one_entry] False"

lemma demo_target: "write_target demo_writer 0 ''/d/f''"
  by (simp add: write_target_def demo_writer_def new_write_def new_job_def is_i32_def as_usize_def one_entry_def
      TransferJob_join_def path_join_def starts_with_def)

theorem file_transfer_roundtrip_witness:
  "\<exists>bs rfs' rjob'. write_blocks id_lib all_ok bs (empty_fs, demo_writer) = ((rfs', rjob'), True)
     \<and> fs_file (modify_time rjob' rfs') ''/d/f'' = Some \<lparr>content = [1, 2], mtime = 5\<rparr>"
proof -
  let ?sjob = "(new_write 7 Generic [] (FilePath ''/s'') 0 False False [one_entry] False)
      \<lparr>data_stream := Some (FileStream 0 0)\<rparr>"
  have z: "zstd_works id_lib" by (simp add: zstd_works_def id_lib_def)
  have s: "sending demo_fs ?sjob 0 0"
    by (simp add: sending_def ready_def new_write_def new_job_def is_path_def is_i32_def as_usize_def)
  have i: "hm_get (inodes demo_fs) 0 = Some \<lparr>content = [1, 2], mtime = 5\<rparr>" by (simp add: demo_fs_def)
  have ss: "length [[RdUpTo 1], []] = calls_for (length [1, 2 :: u8])"
    by (simp add: calls_for_def BUF_SIZE_def)
  have r: "fs_wf empty_fs" "data_stream demo_writer = None" "files demo_writer = [one_entry]"
    "job_id demo_writer = job_id ?sjob" "file_num ?sjob = 0"
    by (simp_all add: fs_wf_def empty_fs_def demo_writer_def new_write_def new_job_def)
  from file_transfer_roundtrip [OF z s i ss, of empty_fs demo_writer "''/d/f''"] r demo_target
  show ?thesis by (auto simp: empty_fs_def one_entry_def as_usize_def)
qed

section \<open>Confirmation\<close>

lemma wrap32_as_usize: "is_i32 n \<Longrightarrow> wrap32 (int (as_usize n)) = n"
proof -
  assume n: "is_i32 n"
  have "(n mod 2 ^ 64 + 2 ^ 31) mod 2 ^ 32 = (n + 2 ^ 31) mod (2 ^ 32 :: int)"
    by (metis mod_add_left_eq mod_mod_cancel le_imp_power_dvd numeral_le_iff semiring_norm(69)
        semiring_norm(72) semiring_norm(68) semiring_norm(71))
  then have "wrap32 (n mod 2 ^ 64) = wrap32 n" by (simp add: wrap32_def)
  with n show ?thesis by (simp add: as_usize_def)
qed

datatype JobEvent = JInit | JRead "rd list" | JConfirm ConfirmRequest

fun job_step :: "Lib \<Rightarrow> FS \<Rightarrow> JobEvent \<Rightarrow> TransferJob \<Rightarrow> TransferJob \<times> FileTransferBlock option" where
  "job_step lib fs JInit job = (fst (init_data_stream True fs job), None)"
| "job_step lib fs (JRead sched) job = (case job_read lib sched fs job of
     (job', Ok (Some b)) \<Rightarrow> (job', Some b) | (job', _) \<Rightarrow> (job', None))"
| "job_step lib fs (JConfirm r) job = (case confirm r fs job of Ok job' \<Rightarrow> (job', None) | _ \<Rightarrow> (job, None))"

text \<open>Every block a run returns, with the events before it.\<close>

primrec job_run :: "Lib \<Rightarrow> FS \<Rightarrow> JobEvent list \<Rightarrow> JobEvent list \<Rightarrow> TransferJob \<Rightarrow> (JobEvent list \<times> FileTransferBlock) list" where
  "job_run lib fs past [] job = []"
| "job_run lib fs past (e # es) job = (let (job', out) = job_step lib fs e job in
     (case out of Some b \<Rightarrow> [(past, b)] | None \<Rightarrow> []) @ job_run lib fs (e # past) es job')"

definition confirmed_in :: "JobEvent list \<Rightarrow> int \<Rightarrow> bool" where
  "confirmed_in past n \<longleftrightarrow> (\<exists>r. JConfirm r \<in> set past \<and> cr_file_num r = n
     \<and> (cr_union r = Skip False \<or> (\<exists>k. cr_union r = OffsetBlk k)))"

definition guarded :: "JobEvent list \<Rightarrow> TransferJob \<Rightarrow> bool" where
  "guarded past job \<longleftrightarrow> job_type job = Generic \<and> enable_overwrite_detection job \<and> is_i32 (file_num job)
     \<and> (file_confirmed job \<longrightarrow> confirmed_in past (file_num job))"

lemma guarded_mono: "guarded past job \<Longrightarrow> guarded (e # past) job"
  by (auto simp: guarded_def confirmed_in_def)

lemma guarded_next: "guarded past job \<Longrightarrow> guarded past (next_file job)"
  by (simp add: guarded_def next_file_def)

lemma guarded_stream [simp]: "guarded past (job\<lparr>data_stream := ds\<rparr>) = guarded past job"
  by (simp add: guarded_def)

lemma guarded_counts [simp]:
  "guarded past (job\<lparr>data_stream := ds, finished_size := a, transferred := b\<rparr>) = guarded past job"
  "guarded past (job\<lparr>data_stream := ds, transferred := b, finished_size := a\<rparr>) = guarded past job"
  by (simp_all add: guarded_def)

lemma guarded_read:
  assumes "guarded past job" and "job_read lib sched fs job = (job', res)"
  shows "guarded past job'" and "res = Ok (Some b) \<Longrightarrow> confirmed_in past (blk_file_num b)"
proof -
  show "guarded past job'"
    using assms guarded_next [OF assms(1)]
    by (auto simp: job_read_def Let_def split: if_splits option.splits)
  assume "res = Ok (Some b)"
  then have "file_confirmed job \<and> blk_file_num b = wrap32 (int (as_usize (file_num job)))"
    using assms by (auto simp: job_read_def guarded_def Let_def split: if_splits option.splits)
  then show "confirmed_in past (blk_file_num b)"
    using assms(1) by (simp add: guarded_def wrap32_as_usize)
qed

lemma guarded_init:
  assumes "guarded past job"
  shows "guarded past (fst (init_data_stream True fs job))"
proof -
  have "guarded past (fst (open_data_stream fs job))"
    using assms by (auto simp: open_data_stream_def guarded_def Let_def split: DataSource.split option.split)
  moreover have "guarded past (job1\<lparr>file_is_waiting := w\<rparr>) = guarded past job1" for job1 w
    by (simp add: guarded_def)
  ultimately show ?thesis
    by (auto simp: init_data_stream_def split: prod.split outcome.split bool.split)
qed

lemma guarded_confirm:
  assumes "guarded past job" and "confirm r fs job = Ok job'"
  shows "guarded (JConfirm r # past) job'"
proof (cases "file_num job = cr_file_num r")
  case False
  then show ?thesis using assms guarded_mono by (simp add: confirm_def)
next
  case True
  have g: "guarded (JConfirm r # past) (set_file_confirmed True job)"
    if "cr_union r = Skip False \<or> (\<exists>k. cr_union r = OffsetBlk k)"
    using assms(1) True that by (auto simp: guarded_def set_file_confirmed_def confirmed_in_def)
  have off: "guarded (JConfirm r # past) job2" if "cr_union r = OffsetBlk k"
    and "set_stream_offset n k fs (set_file_confirmed True job) = Ok job2" for k n job2
    using g that
    by (auto simp: set_stream_offset_def Let_def split: DataSource.splits if_splits option.splits)
  show ?thesis
  proof (cases "cr_union r")
    case (Skip s)
    then show ?thesis
      using assms True g guarded_mono [OF assms(1)]
      by (cases s) (auto simp: confirm_def set_file_skipped_def guarded_def)
  next
    case (OffsetBlk k)
    then show ?thesis using assms(2) True g off by (auto simp: confirm_def Let_def split: if_splits)
  next
    case NoUnion
    then show ?thesis using assms True guarded_mono by (simp add: confirm_def)
  qed
qed

lemma guarded_step:
  assumes "guarded past job" and "job_step lib fs e job = (job', out)"
  shows "guarded (e # past) job'" and "out = Some b \<Longrightarrow> confirmed_in past (blk_file_num b)"
proof -
  show "guarded (e # past) job'"
  proof (cases e)
    case JInit
    then show ?thesis using assms guarded_init [OF assms(1)] guarded_mono by auto
  next
    case (JRead sched)
    obtain j r where "job_read lib sched fs job = (j, r)" by fastforce
    then show ?thesis using assms JRead guarded_read(1) guarded_mono
      by (auto split: outcome.splits option.splits)
  next
    case (JConfirm r)
    then show ?thesis using assms guarded_confirm guarded_mono [OF assms(1)]
      by (auto split: outcome.splits)
  qed
  assume out: "out = Some b"
  then obtain sched where e: "e = JRead sched"
    using assms(2) by (cases e) (auto split: outcome.splits)
  obtain j r where "job_read lib sched fs job = (j, r)" by fastforce
  then show "confirmed_in past (blk_file_num b)"
    using assms out e guarded_read(2) [OF assms(1)] by (auto split: outcome.splits option.splits)
qed

lemma guarded_run:
  "guarded past job \<Longrightarrow> (h, b) \<in> set (job_run lib fs past es job) \<Longrightarrow> confirmed_in h (blk_file_num b)"
proof (induction es arbitrary: past job)
  case (Cons e es)
  obtain job' out where s: "job_step lib fs e job = (job', out)" by fastforce
  have "guarded (e # past) job'" by (rule guarded_step(1) [OF Cons.prems(1) s])
  then show ?case
    using Cons.IH Cons.prems(2) guarded_step(2) [OF Cons.prems(1) s]
    by (auto simp: s split: option.splits)
qed simp

text \<open>C36: With overwrite detection no data of a file leaves the reading side before the peer has
  confirmed that very file: every block a job returns, in any interleaving of initialisation, reads
  and confirmations, is preceded by a confirmation of its file that does not skip it.\<close>

theorem no_data_before_confirmation:
  assumes "job_type job = Generic" and "enable_overwrite_detection job" and "\<not> file_confirmed job"
    and "is_i32 (file_num job)" and "(past, b) \<in> set (job_run lib fs [] es job)"
  shows "\<exists>r. JConfirm r \<in> set past \<and> cr_file_num r = blk_file_num b
    \<and> (cr_union r = Skip False \<or> (\<exists>k. cr_union r = OffsetBlk k))"
proof -
  have "guarded [] job" using assms(1-4) by (simp add: guarded_def)
  from guarded_run [OF this assms(5)] show ?thesis by (simp add: confirmed_in_def)
qed

definition demo_reader :: TransferJob where
  "demo_reader = new_job 7 Generic [] (FilePath ''/s'') 0 False False [one_entry] 2 True"

definition accept0 :: ConfirmRequest where
  "accept0 = \<lparr>cr_id = 7, cr_file_num = 0, cr_union = Skip False\<rparr>"

theorem no_data_before_confirmation_witness:
  "\<exists>past b r. (past, b) \<in> set (job_run id_lib demo_fs [] [JInit, JRead [], JConfirm accept0, JRead []] demo_reader)
     \<and> JConfirm r \<in> set past \<and> cr_file_num r = blk_file_num b"
proof -
  let ?j1 = "demo_reader\<lparr>data_stream := Some (FileStream 0 0), file_is_waiting := True\<rparr>"
  let ?j2 = "?j1\<lparr>file_confirmed := True, file_skipped := False\<rparr>"
  have init: "fst (init_data_stream True demo_fs demo_reader) = ?j1"
    by (simp add: init_data_stream_def open_data_stream_def demo_reader_def new_job_def as_usize_def Let_def
        fs_open_def demo_fs_def TransferJob_join_def path_join_def starts_with_def one_entry_def
        wants_digest_def get_current_digest_def)
  have r1: "job_read id_lib [] demo_fs ?j1 = (?j1, Ok None)"
    by (simp add: job_read_def demo_reader_def new_job_def)
  have c: "confirm accept0 demo_fs ?j1 = Ok ?j2"
    by (simp add: confirm_def accept0_def demo_reader_def new_job_def set_file_confirmed_def)
  have z: "zstd_works id_lib" by (simp add: zstd_works_def id_lib_def)
  have s: "sending demo_fs ?j2 0 0" "rest demo_fs (FileStream 0 0) \<noteq> []"
    by (simp_all add: sending_def ready_def demo_reader_def new_job_def is_path_def is_i32_def as_usize_def
        rest_def demo_fs_def)
  obtain j3 b where r2: "job_read id_lib [] demo_fs ?j2 = (j3, Ok (Some b))"
    using job_read_chunk [OF s, of "[]" id_lib] z by auto
  have mem: "([JConfirm accept0, JRead [], JInit], b) \<in>
      set (job_run id_lib demo_fs [] [JInit, JRead [], JConfirm accept0, JRead []] demo_reader)"
    by (simp add: init r1 c r2)
  have "job_type demo_reader = Generic" "enable_overwrite_detection demo_reader" "\<not> file_confirmed demo_reader"
    "is_i32 (file_num demo_reader)"
    by (simp_all add: demo_reader_def new_job_def is_i32_def)
  from no_data_before_confirmation [OF this mem] mem show ?thesis by blast
qed

section \<open>Where the code falls short\<close>

text \<open>When a confirmation from the peer panics: exactly when it names the current file number, asks
  for a positive offset, and that number is not the number of a file of the job.  The number of a
  write job comes from the peer and is not checked against its files, so the peer can reach this.\<close>

theorem confirm_panics_iff:
  "confirm r fs job = Panic \<longleftrightarrow>
     file_num job = cr_file_num r \<and> (\<exists>k > 0. cr_union r = OffsetBlk k)
     \<and> is_path (data_source job) \<and> length (files job) \<le> as_usize (file_num job)"
  by (auto simp: confirm_def set_stream_offset_def is_path_def set_file_confirmed_def Let_def
      split: ConfirmUnion.splits if_splits DataSource.splits option.splits)

text \<open>The first block of a fresh write job publishes the partial download an earlier, interrupted
  transfer left behind: before any byte of the new transfer is complete, the destination path holds
  the stale partial contents, stamped with the announced modification time.\<close>

theorem stale_partial_published:
  assumes wf: "fs_wf fs" and t: "write_target job num path" and n: "file_num job = num"
    and none: "data_stream job = None" and blk: "block_for job num b"
    and den: "download_of path \<notin> set (denied fs)" "digest_of path \<notin> set (denied fs)"
    and stale: "hm_get (paths fs) (download_of path) = Some j" "hm_get (inodes fs) j = Some \<lparr>content = s, mtime = m\<rparr>"
  shows "\<exists>fs' job'. job_write lib all_ok b (fs, job) = ((fs', job'), Ok ())
    \<and> fs_file fs' path = Some \<lparr>content = s, mtime = modified_time (files job ! as_usize num)\<rparr>"
proof -
  define fs1 where "fs1 = modify_time job fs"
  obtain p where p: "data_source job = FilePath p" "path = TransferJob_join p (name (files job ! as_usize num))"
    using t by (auto simp: write_target_def)
  have "receiving path fs (job\<lparr>data_stream := Some (FileStream j (length s))\<rparr>) s"
    using stale by (simp add: receiving_def)
  moreover have "modify_time (job\<lparr>data_stream := Some (FileStream j (length s))\<rparr>) fs = fs1"
    by (simp add: modify_time_def fs1_def Let_def split: DataSource.split)
  ultimately have pub: "fs_file fs1 path = Some \<lparr>content = s, mtime = modified_time (files job ! as_usize num)\<rparr>"
    "\<not> fs_exists fs1 (download_of path)" "\<not> fs_exists fs1 (digest_of path)"
    using publish [of "job\<lparr>data_stream := Some (FileStream j (length s))\<rparr>" num path fs s] t n
    by (simp_all add: write_target_def)
  obtain i where i: "hm_get (paths fs1) path = Some i"
    "hm_get (inodes fs1) i = Some \<lparr>content = s, mtime = modified_time (files job ! as_usize num)\<rparr>"
    using pub(1) by (auto simp: fs_file_def split: option.splits)
  have wf1: "fs_wf fs1" "denied fs1 = denied fs"
    using modify_time_keeps(1) [OF wf] modify_time_keeps(2) by (simp_all add: fs1_def)
  obtain fs3 d where c: "fs_create (download_of path) fs1 = Some (fs3, d)"
    and fs3: "fs_wf fs3" "denied fs3 = denied fs1" "d = next_ino fs1" "next_ino fs3 = Suc d"
      "\<forall>q. q \<noteq> download_of path \<longrightarrow> hm_get (paths fs3) q = hm_get (paths fs1) q"
      "\<forall>x. x \<noteq> d \<longrightarrow> hm_get (inodes fs3) x = hm_get (inodes fs1) x"
    using fs_create_spec [OF wf1(1), of "download_of path"] den(1) wf1(2) pub(2) by auto
  obtain fs4 k where g: "fs_create (digest_of path) fs3 = Some (fs4, k)"
    and fs4: "k = next_ino fs3" "\<forall>q. q \<noteq> digest_of path \<longrightarrow> hm_get (paths fs4) q = hm_get (paths fs3) q"
      "\<forall>x. x \<noteq> k \<longrightarrow> hm_get (inodes fs4) x = hm_get (inodes fs3) x"
    using fs_create_spec [OF fs3(1), of "digest_of path"] den(2) wf1(2) fs3(2,5) pub(3)
    by (auto simp: fs_exists_def)
  have "i < d" using wf1(1) i(1) fs3(3) by (auto simp: fs_wf_def)
  then have neq: "i \<noteq> d" "i \<noteq> k" using fs3(4) fs4(1) by auto
  let ?fs5 = "fs_write k 0 (digest_json lib (digest job)) fs4"
  let ?job = "job\<lparr>file_num := num, data_stream := Some (FileStream d 0)\<rparr>"
  have "switch_file lib all_ok p num (fs, job) = ((?fs5, ?job), Ok ())"
    using t c g pub(3)
    by (simp add: switch_file_def Let_def p(2) [symmetric] fs1_def [symmetric] fs_write_file_def
        no_sync_failure write_target_def)
  then have "job_write lib all_ok b (fs, job) = write_data lib all_ok b (?fs5, ?job)"
    using t none blk p(1) by (simp add: job_write_def write_target_def block_for_def Let_def)
  also have "\<dots> = ((fs_write d 0 (payload lib b) ?fs5, ?job\<lparr>data_stream := Some (FileStream d (length (payload lib b))),
      finished_size := u64_add (finished_size job) (length (payload lib b)),
      transferred := u64_add (transferred job) (length (blk_data b))\<rparr>), Ok ())"
    by (simp add: write_data_def stream_write_def all_ok_def payload_def Let_def)
  finally have w: "job_write lib all_ok b (fs, job) = \<dots>" .
  moreover have "fs_file (fs_write d 0 (payload lib b) ?fs5) path =
      Some \<lparr>content = s, mtime = modified_time (files job ! as_usize num)\<rparr>"
    using i neq fs3(5,6) fs4(2,3) by (simp add: fs_file_def hm_get_fs_write)
  ultimately show ?thesis by blast
qed

theorem stale_partial_published_witness:
  "\<exists>fs' job'. job_write id_lib all_ok \<lparr>blk_id = 7, blk_file_num = 0, blk_data = [9], blk_compressed = False\<rparr>
      (\<lparr>paths = [(''/d/f.download'', 0)], inodes = [(0, \<lparr>content = [8], mtime = 1\<rparr>)], next_ino = 1, denied = []\<rparr>,
       demo_writer) = ((fs', job'), Ok ())
    \<and> fs_file fs' ''/d/f'' = Some \<lparr>content = [8], mtime = 5\<rparr>"
proof -
  let ?fs = "\<lparr>paths = [(''/d/f.download'', 0)], inodes = [(0, \<lparr>content = [8 :: u8], mtime = 1\<rparr>)],
      next_ino = 1, denied = []\<rparr>"
  let ?b = "\<lparr>blk_id = 7, blk_file_num = 0, blk_data = [9], blk_compressed = False\<rparr>"
  have d: "download_of ''/d/f'' = ''/d/f.download''" by (simp add: download_of_def)
  have h: "fs_wf ?fs" "file_num demo_writer = 0" "data_stream demo_writer = None"
    "block_for demo_writer 0 ?b" "files demo_writer = [one_entry]"
    by (simp_all add: fs_wf_def demo_writer_def new_write_def new_job_def block_for_def)
  from stale_partial_published [OF h(1) demo_target h(2-4)] h(5) show ?thesis
    by (simp add: d as_usize_def one_entry_def)
qed

text \<open>A chunk the compressor fails on is lost: the reading job sends an empty block marked as
  compressed, counts the bytes as sent, and goes on behind them.\<close>

theorem compress_failure_loses_data:
  assumes s: "sending fs job i pos" and rest: "rest fs (FileStream i pos) \<noteq> []" and ok: "RdErr \<notin> set sched"
    and name: "\<not> is_compressed_file (read_name job)"
    and fail: "zstd_compress lib (take BUF_SIZE (rest fs (FileStream i pos))) = None"
  shows "\<exists>job' b. job_read lib sched fs job = (job', Ok (Some b)) \<and> blk_data b = [] \<and> blk_compressed b
    \<and> data_stream job' = Some (FileStream i (pos + min BUF_SIZE (length (rest fs (FileStream i pos)))))"
proof -
  let ?r = "rest fs (FileStream i pos)"
  let ?off = "min BUF_SIZE (length ?r)"
  have "read_loop (length ?r) 0 sched = Some ?off"
    using read_loop_total [OF _ ok, of 0 "length ?r"] by (simp add: BUF_SIZE_def)
  moreover have "0 < ?off" using rest by (simp add: BUF_SIZE_def)
  moreover have "take ?off ?r = take BUF_SIZE ?r" by (simp add: min_def)
  ultimately show ?thesis
    using s name fail rest
    by (simp add: job_read_def sending_def ready_def Let_def advance_def compress_def)
qed

theorem compress_failure_loses_data_witness:
  "\<exists>job' b. job_read (id_lib\<lparr>zstd_compress := \<lambda>_. None\<rparr>) [] demo_fs
      (demo_writer\<lparr>data_stream := Some (FileStream 0 0)\<rparr>) = (job', Ok (Some b)) \<and> blk_data b = []"
proof -
  let ?job = "demo_writer\<lparr>data_stream := Some (FileStream 0 0)\<rparr>"
  have "sending demo_fs ?job 0 0" "rest demo_fs (FileStream 0 0) \<noteq> []"
    by (simp_all add: sending_def ready_def demo_writer_def new_write_def new_job_def is_path_def is_i32_def
        as_usize_def rest_def demo_fs_def)
  moreover have "\<not> is_compressed_file (read_name ?job)"
    by (simp add: is_compressed_file_def get_ext_def rfind_dot_def read_name_def demo_writer_def new_write_def
        new_job_def one_entry_def as_usize_def)
  ultimately show ?thesis
    using compress_failure_loses_data [of demo_fs ?job 0 0 "[]" "id_lib\<lparr>zstd_compress := \<lambda>_. None\<rparr>"]
    by auto
qed

end
