(* ===== verification/Cm_Files.thy ===== *)
theory Cm_Files
  imports File_Transfer
begin

text \<open>
  The file requests served by the connection manager, \<open>src/src/ui_cm_interface.rs\<close> with the request
  type of \<open>src/src/ipc.rs\<close>: validation of names, the write and read jobs, and the listings.  The
  state has the jobs, the file system of the transfers and, for the requests on directories, the
  trees found at paths; a handler returns None when it panics.  Messages are the values sent to the
  connection; serialising them does not fail.
\<close>

section \<open>Validation\<close>

definition is_sep :: "char \<Rightarrow> bool" where
  "is_sep c \<longleftrightarrow> c = CHR ''/'' \<or> c = CHR 0x5C"

definition validate_file_name_no_traversal :: "string \<Rightarrow> (string, unit) outcome" where
  "validate_file_name_no_traversal nm =
    (if CHR 0x00 \<in> set nm then Err ''file name contains null bytes''
     else if list_ex (\<lambda>c. c = ''..'') (filter (\<lambda>c. c \<noteq> []) (split_by is_sep nm))
     then Err ''path traversal detected in file name''
     else if starts_with ''/'' nm \<or> starts_with [CHR 0x5C] nm then Err ''absolute path detected in file name''
     else Ok ())"

definition is_single_file_with_empty_name :: "(string \<times> nat) list \<Rightarrow> bool" where
  "is_single_file_with_empty_name fs \<longleftrightarrow>
     length fs = 1 \<and> (case fs of [] \<Rightarrow> False | f # _ \<Rightarrow> fst f = [])"

fun validate_names :: "(string \<times> nat) list \<Rightarrow> (string, unit) outcome" where
  "validate_names [] = Ok ()"
| "validate_names ((nm, _) # fs) =
    (if nm = [] then Err ''empty file name in multi-file transfer''
     else case validate_file_name_no_traversal nm of
       Ok _ \<Rightarrow> validate_names fs
     | Err e \<Rightarrow> Err e
     | Panic \<Rightarrow> Panic)"

definition validate_transfer_file_names :: "(string \<times> nat) list \<Rightarrow> (string, unit) outcome" where
  "validate_transfer_file_names fs = (if is_single_file_with_empty_name fs then Ok () else validate_names fs)"

definition DEFAULT_MAX_VALIDATED_FILES :: nat where "DEFAULT_MAX_VALIDATED_FILES = 10000"

text \<open>\<open>str::parse::<usize>\<close>: an optional plus sign and digits, within 64 bits.\<close>

definition parse_usize :: "string \<Rightarrow> nat option" where
  "parse_usize s =
    (let ds = (case s of c # cs \<Rightarrow> if c = CHR ''+'' then cs else s | [] \<Rightarrow> [])
     in if ds \<noteq> [] \<and> list_all is_digit ds \<and> digits_value 0 ds < 2 ^ 64
        then Some (nat (digits_value 0 ds)) else None)"

text \<open>The option is read once; its value is the argument.\<close>

definition get_max_validated_files :: "string \<Rightarrow> nat" where
  "get_max_validated_files opt =
    (let c = unwrap_or (2 ^ 64 - 1) (parse_usize (trim opt))
     in if c = 0 then DEFAULT_MAX_VALIDATED_FILES else c)"

definition check_file_count_limit :: "string \<Rightarrow> nat \<Rightarrow> (string, unit) outcome" where
  "check_file_count_limit opt n = (if get_max_validated_files opt < n then Err ''too many files'' else Ok ())"

section \<open>Requests, messages and state\<close>

datatype FSReq =
    ReadEmptyDirs string bool
  | ReadDir string bool
  | RemoveDir string int bool
  | RemoveFile string int int
  | CreateDir string int
  | NewWrite string int int "(string \<times> nat) list" bool nat int
  | CancelWrite int
  | WriteBlock int int bytes bool
  | WriteDone int int
  | WriteError int int string
  | WriteOffset int int nat
  | CheckDigest int int nat nat bool bool
  | SendConfirm "ConfirmRequest option"
  | Rename int string string
  | ReadFile string int int bool int bool
  | CancelRead int int
  | SendConfirmForRead int int bool nat int
  | ReadAllFiles string int bool int

text \<open>What is sent to the connection and to the log; the confirmation in \<open>SendConfirm\<close> has been
  parsed (None: not parseable), and \<open>is_upload\<close> accompanies a digest.\<close>

datatype CmOut =
    Raw FileMsg
  | RawDigest DigestMsg bool
  | RawDir FileDirectory
  | RawEmptyDirs string "FileDirectory list"
  | ReadJobInitResult int int bool int "(string, string \<times> FileEntry list) outcome"
  | FileReadError int int string int
  | FileBlockFromCM FileTransferBlock int
  | FileReadDone int int int
  | FileDigestFromCM int int nat nat bool int
  | AllFilesResult int int string "(string, string \<times> FileEntry list) outcome"
  | JobLogged JobLog

record Cm =
  write_jobs :: "TransferJob list"
  read_jobs :: "TransferJob list"
  cm_fs :: FS
  trees :: "(string, fnode) hashmap"

record CmEnv =
  lib :: Lib
  max_files_option :: string
  home :: string

definition handle_result :: "(string, unit) outcome \<Rightarrow> int \<Rightarrow> int \<Rightarrow> CmOut list" where
  "handle_result res i n = (case res of
     Err e \<Rightarrow> [Raw (new_error i e n)]
   | Ok _ \<Rightarrow> [Raw (new_done i n)]
   | Panic \<Rightarrow> [Raw (new_error i ''task panicked'' n)])"

section \<open>Directories\<close>

definition cm_read_empty_dirs :: "string \<Rightarrow> bool \<Rightarrow> Cm \<Rightarrow> CmOut list" where
  "cm_read_empty_dirs dir include_hidden cm = (case hm_get (trees cm) dir of
     Some t \<Rightarrow> (case read_empty_dirs_recursive t dir include_hidden of
        Some fds \<Rightarrow> [RawEmptyDirs dir fds] | None \<Rightarrow> [])
   | None \<Rightarrow> [])"

definition cm_read_dir :: "CmEnv \<Rightarrow> string \<Rightarrow> bool \<Rightarrow> Cm \<Rightarrow> CmOut list" where
  "cm_read_dir env dir include_hidden cm =
    (let path = (if dir = [] then home env else dir) in
     case hm_get (trees cm) path of
       Some t \<Rightarrow> (case read_dir path t include_hidden of Some fd \<Rightarrow> [RawDir fd] | None \<Rightarrow> [])
     | None \<Rightarrow> [])"

definition cm_read_all_files :: "CmEnv \<Rightarrow> string \<Rightarrow> bool \<Rightarrow> int \<Rightarrow> int \<Rightarrow> Cm \<Rightarrow> CmOut list" where
  "cm_read_all_files env path include_hidden i conn cm =
    (let res = (case hm_get (trees cm) path of
          Some t \<Rightarrow> (case read_dir_recursive t [] include_hidden of
             Some fs \<Rightarrow> (case check_file_count_limit (max_files_option env) (length fs) of
                 Err msg \<Rightarrow> Err msg | _ \<Rightarrow> Ok (path, fs))
           | None \<Rightarrow> Err ''Not exists'')
        | None \<Rightarrow> Err ''Not exists'')
     in [AllFilesResult i conn path res])"

text \<open>\<open>remove_dir\<close>: recursively only empty directories and links, otherwise an empty directory.  The
  flag tells whether the parent directory may be changed.\<close>

definition cm_remove_dir :: "bool \<Rightarrow> string \<Rightarrow> int \<Rightarrow> bool \<Rightarrow> Cm \<Rightarrow> Cm \<times> CmOut list" where
  "cm_remove_dir parent_w path i recursive cm = (case hm_get (trees cm) path of
     None \<Rightarrow> (cm, handle_result (Err ''not found'') i 0)
   | Some t \<Rightarrow>
      if recursive then
        (case t of
           Directory True _ _ _ \<Rightarrow>
             (cm\<lparr>trees := (case remove_all_empty_dir parent_w t of
                 Some t' \<Rightarrow> hm_insert path t' (trees cm) | None \<Rightarrow> hm_remove path (trees cm))\<rparr>,
              handle_result (Ok ()) i 0)
         | _ \<Rightarrow> (cm, handle_result (Err ''read_dir'') i 0))
      else
        (case t of
           Directory _ _ _ [] \<Rightarrow>
             (if parent_w then (cm\<lparr>trees := hm_remove path (trees cm)\<rparr>, handle_result (Ok ()) i 0)
              else (cm, handle_result (Err ''permission'') i 0))
         | _ \<Rightarrow> (cm, handle_result (Err ''not empty'') i 0)))"

definition cm_remove_file :: "string \<Rightarrow> int \<Rightarrow> int \<Rightarrow> Cm \<Rightarrow> Cm \<times> CmOut list" where
  "cm_remove_file path i n cm =
    (if fs_exists (cm_fs cm) path \<and> path \<notin> set (denied (cm_fs cm))
     then (cm\<lparr>cm_fs := fs_remove path (cm_fs cm)\<rparr>, handle_result (Ok ()) i n)
     else (cm, handle_result (Err ''remove_file'') i n))"

definition cm_create_dir :: "string \<Rightarrow> int \<Rightarrow> Cm \<Rightarrow> Cm \<times> CmOut list" where
  "cm_create_dir path i cm =
    (if path \<in> set (denied (cm_fs cm)) then (cm, handle_result (Err ''create_dir'') i 0)
     else case hm_get (trees cm) path of
       Some (Directory _ _ _ _) \<Rightarrow> (cm, handle_result (Ok ()) i 0)
     | Some _ \<Rightarrow> (cm, handle_result (Err ''create_dir'') i 0)
     | None \<Rightarrow> (cm\<lparr>trees := hm_insert path (Directory True True 0 []) (trees cm)\<rparr>, handle_result (Ok ()) i 0))"

definition cm_rename_file :: "string \<Rightarrow> string \<Rightarrow> int \<Rightarrow> Cm \<Rightarrow> Cm \<times> CmOut list" where
  "cm_rename_file path new_name i cm =
    (if new_name = [] then (cm, handle_result (Err ''new file name cannot be empty'') i 0)
     else case validate_file_name_no_traversal new_name of
       Err e \<Rightarrow> (cm, handle_result (Err e) i 0)
     | Panic \<Rightarrow> (cm, handle_result Panic i 0)
     | Ok _ \<Rightarrow>
        let (fs', res) = rename_file path new_name (cm_fs cm)
        in (cm\<lparr>cm_fs := fs'\<rparr>, handle_result res i 0))"

section \<open>Jobs\<close>

definition entry_of :: "string \<times> nat \<Rightarrow> FileEntry" where
  "entry_of f = \<lparr>entry_type = TDir, name = fst f, is_hidden = False, size = 0, modified_time = snd f\<rparr>"

definition cm_new_write :: "string \<Rightarrow> int \<Rightarrow> int \<Rightarrow> (string \<times> nat) list \<Rightarrow> bool \<Rightarrow> nat \<Rightarrow> int \<Rightarrow> Cm \<Rightarrow> Cm \<times> CmOut list" where
  "cm_new_write path i n fs detect tot conn cm =
    (case validate_transfer_file_names fs of
       Ok _ \<Rightarrow>
         let job = new_write i Generic [] (FilePath path) n False False (map entry_of fs) detect
         in (cm\<lparr>write_jobs := write_jobs cm @ [job\<lparr>total_size := tot, job_conn_id := conn\<rparr>]\<rparr>, [])
     | Err e \<Rightarrow> (cm, [Raw (new_error i e n)])
     | Panic \<Rightarrow> (cm, []))"

definition cm_write_block :: "CmEnv \<Rightarrow> IoResult \<Rightarrow> int \<Rightarrow> int \<Rightarrow> bytes \<Rightarrow> bool \<Rightarrow> Cm \<Rightarrow> Cm \<times> CmOut list" where
  "cm_write_block env io i n data cmpr cm = (case get_job i (write_jobs cm) of
     None \<Rightarrow> (cm, [])
   | Some job \<Rightarrow>
      let ((fs', job'), res) = job_write (lib env) io
            \<lparr>blk_id = i, blk_file_num = n, blk_data = data, blk_compressed = cmpr\<rparr> (cm_fs cm, job)
      in (cm\<lparr>cm_fs := fs', write_jobs := update_job i (\<lambda>_. job') (write_jobs cm)\<rparr>,
          (case res of Err e \<Rightarrow> [Raw (new_error i e n)] | _ \<Rightarrow> [])))"

definition cm_check_digest :: "CmEnv \<Rightarrow> int \<Rightarrow> int \<Rightarrow> nat \<Rightarrow> nat \<Rightarrow> bool \<Rightarrow> bool \<Rightarrow> Cm \<Rightarrow> Cm \<times> CmOut list" where
  "cm_check_digest env i n fsize modified is_upload resume cm = (case get_job i (write_jobs cm) of
     None \<Rightarrow> (cm, [])
   | Some job \<Rightarrow>
      if length (files job) \<le> as_usize n then (cm, [])
      else case data_source job of
        MemoryCursor _ \<Rightarrow> (cm, [])
      | FilePath p \<Rightarrow>
         let path = TransferJob_join p (name (files job ! as_usize n));
             dg = \<lparr>dm_id = i, dm_file_num = n, dm_last_modified = modified, dm_file_size = fsize,
                   dm_is_identical = False, dm_transferred_size = 0, dm_is_resume = False\<rparr>;
             req = \<lparr>cr_id = i, cr_file_num = n, cr_union = OffsetBlk 0\<rparr>;
             cm' = cm\<lparr>write_jobs := update_job i (set_digest fsize modified) (write_jobs cm)\<rparr>
         in case is_write_need_confirmation (lib env) resume path dg (cm_fs cm) of
              IsSame \<Rightarrow> (cm', [Raw (new_send_confirm (req\<lparr>cr_union := Skip True\<rparr>))])
            | NeedConfirm d \<Rightarrow> (cm', [RawDigest d is_upload])
            | NoSuchFile \<Rightarrow> (cm', [Raw (new_send_confirm req)]))"

definition confirm_job :: "int \<Rightarrow> (TransferJob \<Rightarrow> ConfirmRequest) \<Rightarrow> FS \<Rightarrow> TransferJob list \<Rightarrow> TransferJob list option" where
  "confirm_job i req fs jobs = (case get_job i jobs of
     None \<Rightarrow> Some jobs
   | Some job \<Rightarrow> (case confirm (req job) fs job of
       Ok job' \<Rightarrow> Some (update_job i (\<lambda>_. job') jobs)
     | Err e \<Rightarrow> Some jobs
     | Panic \<Rightarrow> None))"

definition start_read_job :: "CmEnv \<Rightarrow> string \<Rightarrow> int \<Rightarrow> int \<Rightarrow> bool \<Rightarrow> int \<Rightarrow> bool \<Rightarrow> Cm \<Rightarrow> Cm \<times> CmOut list" where
  "start_read_job env path i n include_hidden conn detect cm =
    (case (case hm_get (trees cm) path of
             Some t \<Rightarrow> new_read i Generic [] (FilePath path) t n include_hidden True detect
           | None \<Rightarrow> None) of
       None \<Rightarrow> (cm, [ReadJobInitResult i n include_hidden conn (Err ''validation failed'')])
     | Some job \<Rightarrow>
        (case check_file_count_limit (max_files_option env) (length (files job)) of
           Err msg \<Rightarrow> (cm, [ReadJobInitResult i n include_hidden conn (Err msg)])
         | _ \<Rightarrow> (cm\<lparr>read_jobs := read_jobs cm @ [job\<lparr>job_conn_id := conn\<rparr>]\<rparr>,
                 [ReadJobInitResult i n include_hidden conn (Ok (path, files job))])))"

definition init_read_job_for_cm :: "int \<Rightarrow> FS \<Rightarrow> TransferJob \<Rightarrow> TransferJob \<times> CmOut list \<times> (string, unit) outcome" where
  "init_read_job_for_cm conn fs job = (case init_data_stream_for_cm fs job of
     (job1, Ok (Some (lm, sz))) \<Rightarrow>
       (job1, [FileDigestFromCM (job_id job1) (file_num job1) lm sz (is_resume job1) conn], Ok ())
   | (job1, Ok None) \<Rightarrow> (job1, [], Ok ())
   | (job1, Err e) \<Rightarrow> (job1, [], Err e)
   | (job1, Panic) \<Rightarrow> (job1, [], Panic))"

text \<open>The loop of the tick: jobs, messages, and the finished ids.\<close>

fun tick_jobs :: "Lib \<Rightarrow> rd list \<Rightarrow> int \<Rightarrow> FS \<Rightarrow> TransferJob list \<Rightarrow> TransferJob list \<times> CmOut list \<times> int list" where
  "tick_jobs l sched conn fs [] = ([], [], [])"
| "tick_jobs l sched conn fs (job # jobs) =
    (if is_last_job job then
       let (jobs', ms, fin) = tick_jobs l sched conn fs jobs in (job # jobs', ms, fin)
     else case init_read_job_for_cm conn fs job of
       (job1, ms1, Ok _) \<Rightarrow>
         (case job_read l sched fs job1 of
            (job2, Ok (Some b)) \<Rightarrow> (job2 # jobs, ms1 @ [FileBlockFromCM b conn], [])
          | (job2, Ok None) \<Rightarrow>
              if job_completed job2 then
                (case job_error job2 of
                   Some err \<Rightarrow> (job2 # jobs, ms1 @ [FileReadError (job_id job2) (file_num job2) err conn], [job_id job2])
                 | None \<Rightarrow> (job2 # jobs, ms1 @ [FileReadDone (job_id job2) (file_num job2) conn], [job_id job2]))
              else (job2 # jobs, ms1, [])
          | (job2, Err e) \<Rightarrow>
              (job2 # jobs, ms1 @ [FileReadError (job_id job2) (file_num job2) e conn], [job_id job2])
          | (job2, Panic) \<Rightarrow> (job2 # jobs, ms1, []))
     | (job1, ms1, Err e) \<Rightarrow>
         let (jobs', ms, fin) = tick_jobs l sched conn fs jobs
         in (job1 # jobs', ms1 @ [FileReadError (job_id job1) (file_num job1) e conn] @ ms, job_id job1 # fin)
     | (job1, ms1, Panic) \<Rightarrow> (job1 # jobs, ms1, []))"

definition handle_read_jobs_tick :: "CmEnv \<Rightarrow> rd list \<Rightarrow> int \<Rightarrow> Cm \<Rightarrow> Cm \<times> CmOut list" where
  "handle_read_jobs_tick env sched conn cm =
    (let (jobs, ms, fin) = tick_jobs (lib env) sched conn (cm_fs cm) (read_jobs cm)
     in (cm\<lparr>read_jobs := fold (\<lambda>i js. fst (remove_job i js)) fin jobs\<rparr>, ms))"

fun handle_fs :: "CmEnv \<Rightarrow> IoResult \<Rightarrow> bool \<Rightarrow> FSReq \<Rightarrow> Cm \<Rightarrow> (Cm \<times> CmOut list) option" where
  "handle_fs env io pw (ReadEmptyDirs dir h) cm = Some (cm, cm_read_empty_dirs dir h cm)"
| "handle_fs env io pw (ReadDir dir h) cm = Some (cm, cm_read_dir env dir h cm)"
| "handle_fs env io pw (RemoveDir path i r) cm = Some (cm_remove_dir pw path i r cm)"
| "handle_fs env io pw (RemoveFile path i n) cm = Some (cm_remove_file path i n cm)"
| "handle_fs env io pw (CreateDir path i) cm = Some (cm_create_dir path i cm)"
| "handle_fs env io pw (NewWrite path i n fs d tot conn) cm = Some (cm_new_write path i n fs d tot conn cm)"
| "handle_fs env io pw (CancelWrite i) cm = Some (case remove_job i (write_jobs cm) of
     (js, Some job) \<Rightarrow> (cm\<lparr>write_jobs := js, cm_fs := remove_download_file job (cm_fs cm)\<rparr>,
                        [JobLogged (LogOf i False True [])])
   | (js, None) \<Rightarrow> (cm, []))"
| "handle_fs env io pw (WriteDone i n) cm = Some (case remove_job i (write_jobs cm) of
     (js, Some job) \<Rightarrow> (cm\<lparr>write_jobs := js, cm_fs := modify_time job (cm_fs cm)\<rparr>,
                        [Raw (new_done i n), JobLogged (LogOf i True False [])])
   | (js, None) \<Rightarrow> (cm, []))"
| "handle_fs env io pw (WriteError i n err) cm = Some (case remove_job i (write_jobs cm) of
     (js, Some job) \<Rightarrow> (cm\<lparr>write_jobs := js\<rparr>,
                        [JobLogged (LogOf i False False err), Raw (new_error (job_id job) err n)])
   | (js, None) \<Rightarrow> (cm, []))"
| "handle_fs env io pw (WriteBlock i n data cmpr) cm = Some (cm_write_block env io i n data cmpr cm)"
| "handle_fs env io pw (CheckDigest i n sz md up res) cm = Some (cm_check_digest env i n sz md up res cm)"
| "handle_fs env io pw (SendConfirm None) cm = Some (cm, [])"
| "handle_fs env io pw (SendConfirm (Some r)) cm =
     map_option (\<lambda>js. (cm\<lparr>write_jobs := js\<rparr>, [])) (confirm_job (cr_id r) (\<lambda>_. r) (cm_fs cm) (write_jobs cm))"
| "handle_fs env io pw (Rename i path new_name) cm = Some (cm_rename_file path new_name i cm)"
| "handle_fs env io pw (ReadFile path i n h conn d) cm = Some (start_read_job env path i n h conn d cm)"
| "handle_fs env io pw (CancelRead i conn) cm = Some (case remove_job i (read_jobs cm) of
     (js, Some job) \<Rightarrow> (cm\<lparr>read_jobs := js\<rparr>, [JobLogged (LogOf i False True [])])
   | (js, None) \<Rightarrow> (cm, []))"
| "handle_fs env io pw (SendConfirmForRead i n skip off conn) cm =
     map_option (\<lambda>js. (cm\<lparr>read_jobs := js\<rparr>, [])) (confirm_job i (\<lambda>job. \<lparr>cr_id = i,
       cr_file_num = file_num job, cr_union = (if skip then Skip True else OffsetBlk off)\<rparr>)
       (cm_fs cm) (read_jobs cm))"
| "handle_fs env io pw (ReadAllFiles path i h conn) cm = Some (cm, cm_read_all_files env path h i conn cm)"
| "handle_fs env io pw (WriteOffset i n off) cm = Some (cm, [])"

section \<open>Paths\<close>

text \<open>The components of a path, as the operating system walks them.\<close>

definition comps :: "string \<Rightarrow> string list" where
  "comps p = filter (\<lambda>c. c \<noteq> [] \<and> c \<noteq> ''.'') (split_on (CHR ''/'') p)"

definition confined :: "string \<Rightarrow> string \<Rightarrow> bool" where
  "confined base path \<longleftrightarrow> (\<exists>cs. comps path = comps base @ cs \<and> ''..'' \<notin> set cs)"

lemma split_by_append: "P c \<Longrightarrow> split_by P (xs @ c # ys) = split_by P xs @ split_by P ys"
  by (induction xs) (auto split: list.split)

lemma split_by_refine:
  "split_by (\<lambda>c. P c \<or> Q c) s = concat (map (split_by Q) (split_by P s))"
proof (induction s)
  case (Cons c s)
  obtain w ws where w: "split_by P s = w # ws" by (cases "split_by P s") auto
  obtain v vs where v: "split_by Q w = v # vs" by (cases "split_by Q w") auto
  show ?case using Cons w v by auto
qed simp

lemma split_by_suffix:
  "\<forall>c \<in> set suf. \<not> P c \<Longrightarrow> split_by P (s @ suf) = butlast (split_by P s) @ [last (split_by P s) @ suf]"
proof (induction s)
  case Nil
  then show ?case by (induction suf) auto
next
  case (Cons c s)
  obtain w ws where w: "split_by P s = w # ws" by (cases "split_by P s") auto
  show ?case using Cons w by (cases ws) auto
qed

lemma comps_join:
  assumes "\<not> starts_with ''/'' n"
  shows "comps (path_join p n) = comps p @ comps n"
proof (cases "p = []")
  case False
  show ?thesis
  proof (cases "last p = CHR ''/''")
    case True
    then obtain q where q: "p = q @ [CHR ''/'']" using False by (metis append_butlast_last_id)
    have "comps (q @ CHR ''/'' # m) = comps q @ comps m" for m
      by (simp add: comps_def split_on_def split_by_append)
    from this [of n] this [of "[]"] show ?thesis
      using assms by (simp add: q path_join_def comps_def split_on_def)
  next
    case False
    then show ?thesis
      using assms \<open>p \<noteq> []\<close> split_by_append [of "\<lambda>x. x = CHR ''/''" "CHR ''/''" p n]
      by (simp add: path_join_def comps_def split_on_def)
  qed
qed (use assms in \<open>simp add: path_join_def comps_def split_on_def\<close>)

lemma validated_no_dotdot:
  assumes "validate_file_name_no_traversal n = Ok u"
  shows "''..'' \<notin> set (split_on (CHR ''/'') n)" and "\<not> starts_with ''/'' n"
proof -
  have "''..'' \<notin> set (split_by is_sep n)"
    using assms by (auto simp: validate_file_name_no_traversal_def list_ex_iff split: if_splits)
  moreover have "split_by is_sep n = concat (map (split_by (\<lambda>c. c = CHR 0x5C)) (split_on (CHR ''/'') n))"
    using split_by_refine [of "\<lambda>c. c = CHR ''/''" "\<lambda>c. c = CHR 0x5C" n]
    by (simp add: is_sep_def [abs_def] split_on_def)
  moreover have "split_by (\<lambda>c. c = CHR 0x5C) ''..'' = [''..'']" by simp
  ultimately show "''..'' \<notin> set (split_on (CHR ''/'') n)" by (force simp del: split_by.simps)
  show "\<not> starts_with ''/'' n"
    using assms by (auto simp: validate_file_name_no_traversal_def split: if_splits)
qed

lemma confined_join:
  assumes "validate_file_name_no_traversal n = Ok u"
  shows "confined p (path_join p n)"
  using validated_no_dotdot [OF assms] comps_join [of n p] by (auto simp: confined_def comps_def)

lemma confined_suffix:
  assumes v: "validate_file_name_no_traversal n = Ok u" and n: "n \<noteq> []"
    and suf: "CHR ''/'' \<notin> set suf" "2 < length suf"
  shows "confined p (path_join p n @ suf)"
proof -
  have j: "path_join p n @ suf = path_join p (n @ suf)"
    using n validated_no_dotdot(2) [OF v] by (cases n) (auto simp: path_join_def starts_with_def)
  have "split_on (CHR ''/'') (n @ suf) =
      butlast (split_on (CHR ''/'') n) @ [last (split_on (CHR ''/'') n) @ suf]"
    unfolding split_on_def by (rule split_by_suffix) (use suf in auto)
  moreover have "last (split_on (CHR ''/'') n) @ suf \<noteq> ''..''"
    using suf(2) by (metis length_append length_Cons list.size(3) le_add2 not_less_eq_eq numeral_2_eq_2 not_le)
  ultimately have "''..'' \<notin> set (split_on (CHR ''/'') (n @ suf))"
    using validated_no_dotdot(1) [OF v] by (auto dest: in_set_butlastD)
  moreover have "\<not> starts_with ''/'' (n @ suf)"
    using n validated_no_dotdot(2) [OF v] by (cases n) (auto simp: starts_with_def)
  ultimately show ?thesis
    unfolding j using comps_join [of "n @ suf" p] by (auto simp: confined_def comps_def)
qed

section \<open>Write jobs stay below their directory\<close>

definition entries_ok :: "FileEntry list \<Rightarrow> bool" where
  "entries_ok es \<longleftrightarrow> (\<exists>e. es = [e] \<and> name e = [])
     \<or> (\<forall>e \<in> set es. name e \<noteq> [] \<and> validate_file_name_no_traversal (name e) = Ok ())"

definition job_ok :: "TransferJob \<Rightarrow> bool" where
  "job_ok job \<longleftrightarrow> is_path (data_source job) \<and> entries_ok (files job)"

definition cm_ok :: "Cm \<Rightarrow> bool" where
  "cm_ok cm \<longleftrightarrow> list_all job_ok (write_jobs cm)"

lemma validate_names_ok:
  "validate_names fs = Ok u \<Longrightarrow>
     \<forall>e \<in> set (map entry_of fs). name e \<noteq> [] \<and> validate_file_name_no_traversal (name e) = Ok ()"
  by (induction fs rule: validate_names.induct) (auto simp: entry_of_def split: if_splits outcome.splits)

lemma validate_transfer_ok: "validate_transfer_file_names fs = Ok u \<Longrightarrow> entries_ok (map entry_of fs)"
proof (cases "is_single_file_with_empty_name fs")
  case True
  then show ?thesis
    by (cases fs) (auto simp: is_single_file_with_empty_name_def entries_ok_def entry_of_def)
qed (use validate_names_ok in \<open>auto simp: validate_transfer_file_names_def entries_ok_def\<close>)

lemma write_data_keeps:
  "write_data l io b (fs, job) = ((fs', job'), r) \<Longrightarrow> data_source job' = data_source job \<and> files job' = files job"
  by (auto simp: write_data_def Let_def split: option.splits if_splits prod.splits)

lemma switch_file_keeps:
  "switch_file l io p n (fs, job) = ((fs', job'), r) \<Longrightarrow> data_source job' = data_source job \<and> files job' = files job"
  by (auto simp: switch_file_def Let_def split: option.splits if_splits prod.splits DataStream.splits)

lemma job_write_keeps:
  assumes "job_write l io b (fs, job) = ((fs', job'), r)"
  shows "data_source job' = data_source job \<and> files job' = files job"
proof (cases "data_source job")
  case (FilePath p)
  then show ?thesis
    using assms write_data_keeps [of l io b] switch_file_keeps [of l io p]
    by (force simp: job_write_def Let_def split: if_splits prod.splits outcome.splits)
next
  case (MemoryCursor c)
  then show ?thesis
    using assms write_data_keeps [of l io b] by (auto simp: job_write_def split: if_splits)
qed

lemma confirm_keeps:
  "confirm r fs job = Ok job' \<Longrightarrow> data_source job' = data_source job \<and> files job' = files job"
  by (auto simp: confirm_def set_stream_offset_def set_file_skipped_def set_file_confirmed_def Let_def
      split: if_splits ConfirmUnion.splits DataSource.splits option.splits)

lemma get_job_mem: "get_job i jobs = Some job \<Longrightarrow> job \<in> set jobs"
  by (auto simp: get_job_def find_Some_iff)

lemma update_job_all: "list_all P jobs \<Longrightarrow> P (f (the (get_job i jobs))) \<or> get_job i jobs = None \<Longrightarrow> list_all P (update_job i f jobs)"
  by (induction jobs) (auto simp: get_job_def)

lemma remove_job_all: "remove_job i jobs = (js, r) \<Longrightarrow> list_all P jobs \<Longrightarrow> list_all P js"
  by (induction jobs arbitrary: js r) (auto split: if_splits prod.splits)

lemma job_ok_eq: "data_source job' = data_source job \<and> files job' = files job \<Longrightarrow> job_ok job' = job_ok job"
  by (simp add: job_ok_def)

lemma handle_fs_ok:
  assumes "cm_ok cm" and "handle_fs env io pw req cm = Some (cm', outs)"
  shows "cm_ok cm'"
proof (cases req)
  case (NewWrite path i n fs d tot conn)
  have "job_ok ((new_write i Generic [] (FilePath path) n False False (map entry_of fs) d)
      \<lparr>total_size := tot, job_conn_id := conn\<rparr>)" if "validate_transfer_file_names fs = Ok ()"
    using validate_transfer_ok [OF that] by (simp add: job_ok_def new_write_def new_job_def is_path_def)
  then show ?thesis
    using assms NewWrite by (auto simp: cm_new_write_def cm_ok_def Let_def split: outcome.splits)
next
  case (WriteBlock i n data cmpr)
  show ?thesis
  proof (cases "get_job i (write_jobs cm)")
    case (Some job)
    obtain fs' job' r where w: "job_write (lib env) io
        \<lparr>blk_id = i, blk_file_num = n, blk_data = data, blk_compressed = cmpr\<rparr> (cm_fs cm, job) = ((fs', job'), r)"
      by (metis surj_pair)
    have "job_ok job'"
      using job_ok_eq [OF job_write_keeps [OF w]] get_job_mem [OF Some] assms(1)
      by (auto simp: cm_ok_def list_all_iff)
    then show ?thesis
      using assms WriteBlock Some w update_job_all [of job_ok "write_jobs cm" "\<lambda>_. job'" i]
      by (auto simp: cm_write_block_def cm_ok_def)
  qed (use assms WriteBlock in \<open>auto simp: cm_write_block_def\<close>)
next
  case (CheckDigest i n sz md up res)
  have "list_all job_ok (update_job i (set_digest sz md) (write_jobs cm))"
  proof (rule update_job_all)
    show "list_all job_ok (write_jobs cm)" using assms(1) by (simp add: cm_ok_def)
    show "job_ok (set_digest sz md (the (get_job i (write_jobs cm)))) \<or> get_job i (write_jobs cm) = None"
      using assms(1) get_job_mem
      by (cases "get_job i (write_jobs cm)") (auto simp: cm_ok_def list_all_iff set_digest_def job_ok_def)
  qed
  then show ?thesis
    using assms CheckDigest
    by (auto simp: cm_check_digest_def cm_ok_def Let_def split: option.splits if_splits DataSource.splits
        DigestCheckResult.splits)
next
  case (SendConfirm r)
  show ?thesis
  proof (cases r)
    case (Some q)
    have "list_all job_ok js" if "confirm_job (cr_id q) (\<lambda>_. q) (cm_fs cm) (write_jobs cm) = Some js" for js
    proof (cases "get_job (cr_id q) (write_jobs cm)")
      case (Some job)
      have ok: "list_all job_ok (write_jobs cm)" "job_ok job"
        using assms(1) get_job_mem [OF Some] by (auto simp: cm_ok_def list_all_iff)
      then show ?thesis
        using that Some job_ok_eq [OF confirm_keeps] update_job_all [of job_ok "write_jobs cm" _ "cr_id q"]
        by (auto simp: confirm_job_def split: outcome.splits)
    qed (use that assms(1) in \<open>auto simp: confirm_job_def cm_ok_def\<close>)
    then show ?thesis using assms SendConfirm Some by (auto simp: cm_ok_def)
  qed (use assms SendConfirm in auto)
qed (use assms in \<open>auto simp: cm_ok_def cm_remove_dir_def cm_remove_file_def cm_create_dir_def cm_rename_file_def
    start_read_job_def Let_def dest: remove_job_all
    split: option.splits prod.splits outcome.splits fnode.splits bool.splits if_splits list.splits\<close>)

text \<open>A connection manager serves requests and ticks; the results of single calls vary.\<close>

datatype CmEvent = Request IoResult bool FSReq | Tick "rd list" int

definition cm_step :: "CmEnv \<Rightarrow> CmEvent \<Rightarrow> Cm \<Rightarrow> Cm option" where
  "cm_step env e cm = (case e of
     Request io pw req \<Rightarrow> map_option fst (handle_fs env io pw req cm)
   | Tick sched conn \<Rightarrow> Some (fst (handle_read_jobs_tick env sched conn cm)))"

lemma cm_step_ok: "cm_ok cm \<Longrightarrow> cm_step env e cm = Some cm' \<Longrightarrow> cm_ok cm'"
  by (cases e) (auto simp: cm_step_def handle_read_jobs_tick_def cm_ok_def [of "_\<lparr>read_jobs := _\<rparr>"] Let_def
      intro: handle_fs_ok simp flip: cm_ok_def split: prod.splits)

interpretation cmfiles: safety_system "cm_step env" cm_ok for env
  by unfold_locales (rule cm_step_ok)

text \<open>C37: Whatever requests a peer sends, every file a write job of the connection manager can touch lies
  below the directory of the job: its destination and its two temporary files are reached from that
  directory by components none of which is \<open>..\<close>.  The one exception is the single file without a name,
  whose destination is the path of the job itself.\<close>

theorem cm_writes_confined:
  assumes "write_jobs cm = []" and "run_steps (cm_step env) es cm = Some cm'"
    and "job \<in> set (write_jobs cm')" and "e \<in> set (files job)"
  shows "\<exists>p. data_source job = FilePath p \<and>
    (if name e = [] then files job = [e] \<and> TransferJob_join p (name e) = p
     else confined p (TransferJob_join p (name e))
       \<and> confined p (download_of (TransferJob_join p (name e)))
       \<and> confined p (digest_of (TransferJob_join p (name e))))"
proof -
  have "cm_ok cm" using assms(1) by (simp add: cm_ok_def)
  then have "cm_ok cm'" using cmfiles.run_keeps assms(2) by blast
  then have ok: "is_path (data_source job)" "entries_ok (files job)"
    using assms(3) by (auto simp: cm_ok_def list_all_iff job_ok_def)
  obtain p where p: "data_source job = FilePath p"
    using ok(1) by (cases "data_source job") (auto simp: is_path_def)
  show ?thesis
  proof (cases "name e = []")
    case True
    then show ?thesis using p ok(2) assms(4) by (auto simp: entries_ok_def TransferJob_join_def)
  next
    case False
    have v: "validate_file_name_no_traversal (name e) = Ok ()"
      using ok(2) assms(4) False by (auto simp: entries_ok_def)
    have "confined p (path_join p (name e) @ ''.download'')" "confined p (path_join p (name e) @ ''.digest'')"
      by (rule confined_suffix [OF v False]; simp)+
    then show ?thesis
      using p False confined_join [OF v, of p] by (simp add: TransferJob_join_def download_of_def digest_of_def)
  qed
qed

definition cm_empty :: Cm where
  "cm_empty = \<lparr>write_jobs = [], read_jobs = [], cm_fs = \<lparr>paths = [], inodes = [], next_ino = 0, denied = []\<rparr>,
     trees = []\<rparr>"

definition cm_env0 :: CmEnv where
  "cm_env0 = \<lparr>lib = \<lparr>zstd_compress = (\<lambda>d. Some d), zstd_decode = (\<lambda>d. Some d), digest_json = (\<lambda>_. []),
     digest_parse = (\<lambda>_. None)\<rparr>, max_files_option = [], home = ''/home''\<rparr>"

theorem cm_writes_confined_witness:
  "\<exists>cm' job e. run_steps (cm_step cm_env0)
       [Request \<lparr>sync_ok = True, remove_ok = True, write_ok = True\<rparr> True (NewWrite ''/d'' 1 0 [(''a/b'', 3)] False 0 2)]
       cm_empty = Some cm' \<and> job \<in> set (write_jobs cm') \<and> e \<in> set (files job)
     \<and> confined ''/d'' (TransferJob_join ''/d'' (name e))"
proof -
  let ?io = "\<lparr>sync_ok = True, remove_ok = True, write_ok = True\<rparr>"
  let ?job = "(new_write 1 Generic [] (FilePath ''/d'') 0 False False [entry_of (''a/b'', 3)] False)
      \<lparr>total_size := 0, job_conn_id := 2\<rparr>"
  let ?cm = "cm_empty\<lparr>write_jobs := [?job]\<rparr>"
  have v: "validate_transfer_file_names [(''a/b'', 3)] = Ok ()"
    by (simp add: validate_transfer_file_names_def is_single_file_with_empty_name_def
        validate_file_name_no_traversal_def is_sep_def starts_with_def)
  have run: "run_steps (cm_step cm_env0) [Request ?io True (NewWrite ''/d'' 1 0 [(''a/b'', 3)] False 0 2)] cm_empty
      = Some ?cm"
    by (simp add: cm_step_def cm_new_write_def v cm_empty_def)
  have "write_jobs cm_empty = []" by (simp add: cm_empty_def)
  moreover have "?job \<in> set (write_jobs ?cm)" "entry_of (''a/b'', 3) \<in> set (files ?job)"
    "name (entry_of (''a/b'', 3)) = ''a/b''" "data_source ?job = FilePath ''/d''"
    by (simp_all add: new_write_def new_job_def entry_of_def)
  ultimately show ?thesis
    using cm_writes_confined [OF _ run, of ?job "entry_of (''a/b'', 3)"] run by auto
qed

end
