(* ===== verification/Ip_Text.thy ===== *)
theory Ip_Text
  imports Addr_Mangle Rust_Strings
begin

text \<open>
  The text of IP addresses as \<open>std::net\<close> prints and parses it: \<open>IpAddr::to_string\<close> and
  \<open>Ipv6Addr::from_str\<close>.  The login code stores the text of the peer's address and derives the
  network prefixes of an IPv6 address from it again.  A parser takes the remaining text and
  returns the value read and the text left; None leaves the text untouched.
\<close>

section \<open>Parsing\<close>

definition to_digit :: "nat \<Rightarrow> char \<Rightarrow> nat option" where
  "to_digit radix c =
    (let d = (if is_digit c then Some (char_code c - 48)
              else if is_lower c then Some (char_code c - 87)
              else if is_upper c then Some (char_code c - 55) else None)
     in case d of Some v \<Rightarrow> if v < radix then Some v else None | None \<Rightarrow> None)"

fun read_digits :: "nat \<Rightarrow> string \<Rightarrow> nat list \<times> string" where
  "read_digits radix [] = ([], [])"
| "read_digits radix (c # cs) = (case to_digit radix c of
     None \<Rightarrow> ([], c # cs)
   | Some d \<Rightarrow> let (ds, r) = read_digits radix cs in (d # ds, r))"

text \<open>\<open>Parser::read_number\<close>: too many digits, none, or a zero in front where none is allowed fail,
  and so does a value out of range of the type.\<close>

definition read_number :: "nat \<Rightarrow> nat \<Rightarrow> bool \<Rightarrow> nat \<Rightarrow> string \<Rightarrow> (nat \<times> string) option" where
  "read_number radix max_digits allow_zero_prefix bound s =
    (let (ds, r) = read_digits radix s;
         v = foldl (\<lambda>a d. a * radix + d) 0 ds
     in if ds = [] \<or> max_digits < length ds then None
        else if \<not> allow_zero_prefix \<and> hd ds = 0 \<and> 1 < length ds then None
        else if v < bound then Some (v, r) else None)"

definition read_separator :: "char \<Rightarrow> nat \<Rightarrow> (string \<Rightarrow> ('a \<times> string) option) \<Rightarrow> string \<Rightarrow> ('a \<times> string) option" where
  "read_separator sep index inner s =
    (if 0 < index then (case s of c # cs \<Rightarrow> if c = sep then inner cs else None | [] \<Rightarrow> None)
     else inner s)"

fun read_octets :: "nat \<Rightarrow> nat \<Rightarrow> string \<Rightarrow> (nat list \<times> string) option" where
  "read_octets i 0 s = Some ([], s)"
| "read_octets i (Suc n) s = (case read_separator CHR ''.'' i (read_number 10 3 False 256) s of
     None \<Rightarrow> None
   | Some (o1, s1) \<Rightarrow> (case read_octets (Suc i) n s1 of
       None \<Rightarrow> None
     | Some (os, r) \<Rightarrow> Some (o1 # os, r)))"

definition read_ipv4_addr :: "string \<Rightarrow> (nat list \<times> string) option" where
  "read_ipv4_addr s = read_octets 0 4 s"

text \<open>\<open>read_groups\<close> with the number of groups still free; the flag tells that the last two groups
  were read as an embedded IPv4 address.\<close>

fun read_groups :: "nat \<Rightarrow> nat \<Rightarrow> string \<Rightarrow> nat list \<times> bool \<times> string" where
  "read_groups i 0 s = ([], False, s)"
| "read_groups i (Suc left) s =
    (case (if 0 < left then read_separator CHR '':'' i read_ipv4_addr s else None) of
       Some (octets, r) \<Rightarrow>
         ([octets ! 0 * 256 + octets ! 1, octets ! 2 * 256 + octets ! 3], True, r)
     | None \<Rightarrow>
        (case read_separator CHR '':'' i (read_number 16 4 True 65536) s of
           None \<Rightarrow> ([], False, s)
         | Some (g, s1) \<Rightarrow> let (gs, v4, r) = read_groups (Suc i) left s1 in (g # gs, v4, r)))"

definition ipv6_segments_from_str :: "string \<Rightarrow> nat list option" where
  "ipv6_segments_from_str s =
    (let (head, head_ipv4, s1) = read_groups 0 8 s
     in if length head = 8 then (if s1 = [] then Some head else None)
        else if head_ipv4 then None
        else case s1 of
          c1 # c2 # s2 \<Rightarrow>
            if c1 = CHR '':'' \<and> c2 = CHR '':'' then
              let (tail, _, s3) = read_groups 0 (8 - (length head + 1)) s2
              in if s3 = [] then Some (head @ replicate (8 - length head - length tail) 0 @ tail) else None
            else None
        | _ \<Rightarrow> None)"

text \<open>\<open>Ipv6Addr::from_str\<close> followed by \<open>u128::from_be_bytes\<close> of the octets.\<close>

definition u128_of_segments :: "nat list \<Rightarrow> u128" where
  "u128_of_segments gs = foldl (\<lambda>a g. push_bit 16 a OR word_of_nat g) 0 gs"

definition ipv6_from_str :: "string \<Rightarrow> u128 option" where
  "ipv6_from_str s = map_option u128_of_segments (ipv6_segments_from_str s)"

section \<open>Printing\<close>

definition segments :: "u128 \<Rightarrow> nat list" where
  "segments a = map (\<lambda>i. unat (take_bit 16 (drop_bit (112 - 16 * i) a))) [0..<8]"

definition hex_digit :: "nat \<Rightarrow> char" where
  "hex_digit d = (if d < 10 then char_of (48 + d) else char_of (87 + d))"

fun show_hex :: "nat \<Rightarrow> string" where
  "show_hex n = (if n < 16 then [hex_digit n] else show_hex (n div 16) @ [hex_digit (n mod 16)])"

declare show_hex.simps [simp del]

fun intersperse :: "char \<Rightarrow> string list \<Rightarrow> string" where
  "intersperse c [] = []"
| "intersperse c [w] = w"
| "intersperse c (w # w' # ws) = w @ c # intersperse c (w' # ws)"

text \<open>The longest run of zero segments, the first of several: (start, length).\<close>

fun longest_zeros :: "nat \<Rightarrow> nat \<times> nat \<Rightarrow> nat \<times> nat \<Rightarrow> nat list \<Rightarrow> nat \<times> nat" where
  "longest_zeros i current longest [] = longest"
| "longest_zeros i current longest (g # gs) =
    (if g = 0 then
       let cur = (if snd current = 0 then (i, 1) else (fst current, snd current + 1))
       in longest_zeros (Suc i) cur (if snd longest < snd cur then cur else longest) gs
     else longest_zeros (Suc i) (0, 0) longest gs)"

definition show_octets :: "nat list \<Rightarrow> string" where
  "show_octets os = intersperse CHR ''.'' (map show_nat os)"

definition fmt_subslice :: "nat list \<Rightarrow> string" where
  "fmt_subslice gs = intersperse CHR '':'' (map show_hex gs)"

definition ipv6_to_string :: "u128 \<Rightarrow> string" where
  "ipv6_to_string a =
    (let gs = segments a in
     if take 6 gs = [0, 0, 0, 0, 0, 65535]
     then ''::ffff:'' @ show_octets [gs ! 6 div 256, gs ! 6 mod 256, gs ! 7 div 256, gs ! 7 mod 256]
     else let (start, len) = longest_zeros 0 (0, 0) (0, 0) gs
          in if 1 < len then fmt_subslice (take start gs) @ ''::'' @ fmt_subslice (drop (start + len) gs)
             else fmt_subslice gs)"

definition from_be_bytes :: "bytes \<Rightarrow> u128" where
  "from_be_bytes bs = foldl (\<lambda>a b. push_bit 8 a OR ucast b) 0 bs"

text \<open>\<open>SocketAddr::ip().to_string()\<close>\<close>

fun ip_to_string :: "SocketAddr \<Rightarrow> string" where
  "ip_to_string (V4 ip port) = show_octets (map unat ip)"
| "ip_to_string (V6 ip port flow scope) = ipv6_to_string (from_be_bytes ip)"

section \<open>The texts contain no slash\<close>

lemma show_nat_code: "c \<in> set (show_nat n) \<Longrightarrow> 48 \<le> char_code c"
proof (induction n rule: show_nat.induct)
  case (1 n)
  from 1(2) have "c \<in> set (if n < 10 then [char_of (48 + n)] else show_nat (n div 10) @ [char_of (48 + n mod 10)])"
    by (subst (asm) show_nat.simps)
  with 1(1) show ?case by (auto simp: char_code_def split: if_splits)
qed

lemma show_hex_code: "c \<in> set (show_hex n) \<Longrightarrow> 48 \<le> char_code c"
proof (induction n rule: show_hex.induct)
  case (1 n)
  from 1(2) have "c \<in> set (if n < 16 then [hex_digit n] else show_hex (n div 16) @ [hex_digit (n mod 16)])"
    by (subst (asm) show_hex.simps)
  with 1(1) show ?case by (auto simp: char_code_def hex_digit_def split: if_splits)
qed

lemma set_intersperse: "set (intersperse c ws) \<subseteq> insert c (\<Union> (set ` set ws))"
  by (induction c ws rule: intersperse.induct) auto

lemma slash_code: "char_code CHR ''/'' = 47"
  by (simp add: char_code_def)

lemma no_slash_octets: "CHR ''/'' \<notin> set (show_octets os)"
  using set_intersperse [of "CHR ''.''" "map show_nat os"] show_nat_code [of "CHR ''/''"]
  by (auto simp: show_octets_def slash_code)

lemma no_slash_groups: "CHR ''/'' \<notin> set (fmt_subslice gs)"
  using set_intersperse [of "CHR '':''" "map show_hex gs"] show_hex_code [of "CHR ''/''"]
  by (auto simp: fmt_subslice_def slash_code)

lemma no_slash_ip: "CHR ''/'' \<notin> set (ip_to_string a)"
  by (cases a) (auto simp: no_slash_octets no_slash_groups ipv6_to_string_def Let_def split: prod.splits if_splits)

end
