(* ===== verification/Login_Guard.thy ===== *)
theory Login_Guard
  imports Ip_Text
begin

text \<open>
  The guard against password guessing of \<open>src/src/server/connection.rs\<close>: \<open>LOGIN_FAILURES\<close> maps the
  text of an address, and for IPv6 its /64, /56 and /48 networks, to the minute of the last failure,
  the failures within that minute and all failures.  A login attempt is \<open>check_failure\<close>, the check of
  the password and \<open>update_failure\<close>; the lock is released between the two calls.  The functions work
  on one of the two maps (passwords, second factor); the clock is an argument.
\<close>

section \<open>The code\<close>

type_synonym failure = "int \<times> int \<times> int"
type_synonym failures = "(string, failure) hashmap"

datatype AlarmAuditType =
  IpWhitelist | ExceedThirtyAttempts | SixAttemptsWithinOneMinute | ExceedIPv6PrefixAttempts

definition mask_u128 :: "u128 \<Rightarrow> nat \<Rightarrow> u128" where
  "mask_u128 addr prefix =
     addr AND (if prefix = 0 \<or> 128 < prefix then 0 else push_bit (128 - prefix) (NOT 0))"

definition get_ipv6_prefixes :: "string \<Rightarrow> (string \<times> string \<times> string) option" where
  "get_ipv6_prefixes ip =
    (let ip_only = trim (hd (split_on CHR ''%'' ip))
     in case ipv6_from_str ip_only of
          None \<Rightarrow> None
        | Some a \<Rightarrow> Some (ipv6_to_string (mask_u128 a 64) @ ''/64'',
            ipv6_to_string (mask_u128 a 56) @ ''/56'', ipv6_to_string (mask_u128 a 48) @ ''/48''))"

definition bump :: "failure \<Rightarrow> int \<Rightarrow> failure" where
  "bump cur time = (case cur of (t, n, tot) \<Rightarrow>
     if t = time then (t, wrap32 (n + 1), wrap32 (tot + 1)) else (time, 1, wrap32 (tot + 1)))"

text \<open>\<open>get(key).copied().unwrap_or((0, 0, 0))\<close>\<close>

definition failure_of :: "failures \<Rightarrow> string \<Rightarrow> failure" where
  "failure_of m key = unwrap_or (0, 0, 0) (hm_get m key)"

definition update_failure :: "string \<Rightarrow> failure \<times> int \<Rightarrow> bool \<Rightarrow> failures \<Rightarrow> failures" where
  "update_failure ip f_time rem m = (case f_time of (f, time) \<Rightarrow>
     if rem then
       (if fst f \<noteq> 0 then
          (case get_ipv6_prefixes ip of
             Some (p64, p56, p48) \<Rightarrow> hm_remove ip (hm_remove p48 (hm_remove p56 (hm_remove p64 m)))
           | None \<Rightarrow> hm_remove ip m)
        else m)
     else (case get_ipv6_prefixes ip of
        Some (p64, p56, p48) \<Rightarrow>
          hm_insert ip (bump f time)
            (fold (\<lambda>key m. hm_insert key (bump (failure_of m key) time) m) [p64, p56, p48] m)
      | None \<Rightarrow> hm_insert ip (bump f time) m))"

text \<open>The checks return what \<open>update_failure\<close> will be given and, when they refuse, the message to the
  peer and the kind of the alarm.\<close>

definition check_failure_ipv6_prefix ::
  "failures \<Rightarrow> int \<Rightarrow> string \<Rightarrow> nat \<Rightarrow> int \<Rightarrow> ((failure \<times> int) \<times> string \<times> AlarmAuditType) option" where
  "check_failure_ipv6_prefix m time prefix prefix_num thresh =
    (if thresh < snd (snd (failure_of m prefix))
     then Some ((failure_of m prefix, time),
            ''Too many wrong attempts for IPv6 prefix /'' @ show_nat prefix_num, ExceedIPv6PrefixAttempts)
     else None)"

definition minute :: "int \<Rightarrow> int" where
  "minute now = wrap32 (now div 60000)"

definition check_failure_ip :: "string \<Rightarrow> int \<Rightarrow> failures \<Rightarrow> (failure \<times> int) \<times> (string \<times> AlarmAuditType) option" where
  "check_failure_ip ip time m =
    (let f = failure_of m ip
     in ((f, time),
         if 30 < snd (snd f) then Some (''Too many wrong attempts'', ExceedThirtyAttempts)
         else if time = fst f \<and> 6 < fst (snd f)
         then Some (''Please try 1 minute later'', SixAttemptsWithinOneMinute) else None))"

definition check_failure :: "string \<Rightarrow> int \<Rightarrow> failures \<Rightarrow> (failure \<times> int) \<times> (string \<times> AlarmAuditType) option" where
  "check_failure ip now m =
    (let time = minute now in
     case get_ipv6_prefixes ip of
       None \<Rightarrow> check_failure_ip ip time m
     | Some (p64, p56, p48) \<Rightarrow>
        (case check_failure_ipv6_prefix m time p64 64 60 of
           Some (f, e) \<Rightarrow> (f, Some e)
         | None \<Rightarrow> (case check_failure_ipv6_prefix m time p56 56 80 of
             Some (f, e) \<Rightarrow> (f, Some e)
           | None \<Rightarrow> (case check_failure_ipv6_prefix m time p48 48 100 of
               Some (f, e) \<Rightarrow> (f, Some e)
             | None \<Rightarrow> check_failure_ip ip time m))))"

section \<open>What an attempt does to the counters\<close>

text \<open>The keys an attempt is counted under, with the number of failures after which each is closed.\<close>

definition keys :: "string \<Rightarrow> (string \<times> int) list" where
  "keys ip = (case get_ipv6_prefixes ip of
     None \<Rightarrow> [(ip, 30)]
   | Some (p64, p56, p48) \<Rightarrow> [(p64, 60), (p56, 80), (p48, 100), (ip, 30)])"

definition counted :: "string \<Rightarrow> string \<Rightarrow> bool" where
  "counted k ip \<longleftrightarrow> k \<in> set (map fst (keys ip))"

definition all_failures :: "failures \<Rightarrow> string \<Rightarrow> int" where
  "all_failures m k = snd (snd (failure_of m k))"

lemma failure_of_insert [simp]:
  "failure_of (hm_insert k v m) k' = (if k' = k then v else failure_of m k')"
  by (simp add: failure_of_def unwrap_or_def hashmap_simps)

lemma failure_of_remove:
  "k' \<noteq> k \<Longrightarrow> failure_of (hm_remove k m) k' = failure_of m k'"
  by (simp add: failure_of_def hashmap_simps)

lemma prefixes_end:
  "get_ipv6_prefixes ip = Some (p64, p56, p48) \<Longrightarrow>
     \<exists>a b c. p64 = a @ ''/64'' \<and> p56 = b @ ''/56'' \<and> p48 = c @ ''/48''"
  by (auto simp: get_ipv6_prefixes_def Let_def split: option.splits)

lemma prefixes_distinct:
  assumes "get_ipv6_prefixes ip = Some (p64, p56, p48)" and "CHR ''/'' \<notin> set ip"
  shows "p64 \<noteq> p56" "p64 \<noteq> p48" "p56 \<noteq> p48" "p64 \<noteq> ip" "p56 \<noteq> ip" "p48 \<noteq> ip"
  using prefixes_end [OF assms(1)] assms(2) by auto

text \<open>A key has one threshold, whoever is counted under it.\<close>

lemma keys_thresh:
  assumes "(k, th) \<in> set (keys ip)" "(k, th') \<in> set (keys ip')"
    and "CHR ''/'' \<notin> set ip" "CHR ''/'' \<notin> set ip'"
  shows "th = th'"
proof -
  have "(CHR ''/'' \<notin> set k \<and> th = 30) \<or> (\<exists>a. k = a @ ''/64'' \<and> th = 60) \<or> (\<exists>a. k = a @ ''/56'' \<and> th = 80)
      \<or> (\<exists>a. k = a @ ''/48'' \<and> th = 100)"
    if "(k, th) \<in> set (keys ip)" "CHR ''/'' \<notin> set ip" for ip th
    using that prefixes_end [of ip] by (auto simp: keys_def split: option.splits)
  from this [OF assms(1,3)] this [OF assms(2,4)] show ?thesis by auto
qed

lemma check_passes:
  assumes "check_failure ip now m = (ft, None)"
  shows "ft = (failure_of m ip, minute now)"
    and "(k, th) \<in> set (keys ip) \<Longrightarrow> all_failures m k \<le> th"
    and "\<not> (minute now = fst (failure_of m ip) \<and> 6 < fst (snd (failure_of m ip)))"
  using assms
  by (auto simp: check_failure_def check_failure_ip_def check_failure_ipv6_prefix_def keys_def all_failures_def Let_def
      split: option.splits if_splits prod.splits)

lemma counted_None: "get_ipv6_prefixes ip = None \<Longrightarrow> counted k ip \<longleftrightarrow> k = ip"
  by (simp add: counted_def keys_def)

lemma counted_Some:
  "get_ipv6_prefixes ip = Some (p64, p56, p48) \<Longrightarrow> counted k ip \<longleftrightarrow> k = p64 \<or> k = p56 \<or> k = p48 \<or> k = ip"
  by (simp add: counted_def keys_def)

lemma counted_thresh: "counted k ip \<Longrightarrow> \<exists>th. (k, th) \<in> set (keys ip)"
  by (auto simp: counted_def)

lemma update_wrong:
  assumes "CHR ''/'' \<notin> set ip"
  shows "failure_of (update_failure ip (failure_of m ip, t) False m) k =
    (if counted k ip then bump (failure_of m k) t else failure_of m k)"
proof (cases "get_ipv6_prefixes ip")
  case None
  then show ?thesis by (simp add: update_failure_def counted_None)
next
  case (Some p)
  obtain a b c where p: "p = (a, b, c)" by (cases p)
  note d = prefixes_distinct [OF Some [unfolded p] assms]
  show ?thesis
    using Some d by (simp add: p update_failure_def counted_Some)
qed

lemma update_other:
  assumes "\<not> counted k ip"
  shows "failure_of (update_failure ip ft rem m) k = failure_of m k"
proof (cases "get_ipv6_prefixes ip")
  case None
  then show ?thesis using assms by (cases ft) (simp add: update_failure_def counted_None failure_of_remove)
next
  case (Some p)
  then show ?thesis using assms
    by (cases p; cases ft) (simp add: update_failure_def counted_Some failure_of_remove)
qed

lemma counted_ip:
  "CHR ''/'' \<notin> set k \<Longrightarrow> counted k ip \<longleftrightarrow> k = ip"
  using prefixes_end [of ip] by (cases "get_ipv6_prefixes ip") (auto simp: counted_None counted_Some)

section \<open>Attempts one after the other\<close>

text \<open>A schedule of attempts (address, time, whether the password is right), and those that were
  allowed to try a password.\<close>

fun guard_run :: "(string \<times> int \<times> bool) list \<Rightarrow> failures \<Rightarrow> (string \<times> int \<times> bool) list" where
  "guard_run [] m = []"
| "guard_run ((ip, now, ok) # es) m = (case check_failure ip now m of
     (f, Some _) \<Rightarrow> guard_run es m
   | (f, None) \<Rightarrow> (ip, now, ok) # guard_run es (update_failure ip f ok m))"

definition from_key :: "string \<Rightarrow> string \<times> int \<times> bool \<Rightarrow> bool" where
  "from_key k e \<longleftrightarrow> counted k (fst e)"

lemma bump_total: "0 \<le> snd (snd f) \<Longrightarrow> snd (snd f) \<le> 100 \<Longrightarrow> snd (snd (bump f t)) = snd (snd f) + 1"
  by (cases f) (auto simp: bump_def wrap32_def)

lemma bump_minute:
  "0 \<le> fst (snd f) \<Longrightarrow> fst (snd f) \<le> 7 \<Longrightarrow>
     fst (bump f t) = t \<and> fst (snd (bump f t)) = (if fst f = t then fst (snd f) + 1 else 1)"
  by (cases f) (auto simp: bump_def wrap32_def)

lemma run_total:
  assumes key: "(k, th) \<in> set (keys ip0)" "CHR ''/'' \<notin> set ip0"
    and "list_all (\<lambda>e. CHR ''/'' \<notin> set (fst e) \<and> \<not> (from_key k e \<and> snd (snd e))) es"
    and "0 \<le> all_failures m k" "all_failures m k \<le> th + 1"
  shows "int (length (filter (from_key k) (guard_run es m))) + all_failures m k \<le> th + 1"
  using assms(3-5)
proof (induction es arbitrary: m)
  case (Cons e es)
  obtain ip now ok where e: "e = (ip, now, ok)" by (cases e)
  obtain f r where c: "check_failure ip now m = (f, r)" by fastforce
  show ?case
  proof (cases r)
    case (Some a)
    with Cons e c show ?thesis by simp
  next
    case None
    let ?m = "update_failure ip f ok m"
    have f: "f = (failure_of m ip, minute now)" using check_passes(1) c None by blast
    show ?thesis
    proof (cases "counted k ip")
      case True
      then have ok: "\<not> ok" and sl: "CHR ''/'' \<notin> set ip" using Cons.prems e by (auto simp: from_key_def)
      obtain th' where th': "(k, th') \<in> set (keys ip)" using counted_thresh [OF True] by blast
      then have "th' = th" using keys_thresh key sl by blast
      then have le: "all_failures m k \<le> th" using check_passes(2) c None th' by blast
      have "th \<le> 100" using key by (auto simp: keys_def split: option.splits)
      then have "all_failures ?m k = all_failures m k + 1"
        using update_wrong [OF sl, of m "minute now" k] True ok f le Cons.prems(2)
        by (simp add: all_failures_def bump_total)
      then show ?thesis using Cons.IH [of ?m] Cons.prems e c None le True ok by (simp add: from_key_def)
    next
      case False
      then have "all_failures ?m k = all_failures m k" by (simp add: all_failures_def update_other)
      then show ?thesis using Cons.IH [of ?m] Cons.prems e c None False by (simp add: from_key_def)
    qed
  qed
qed simp

definition from_minute :: "string \<Rightarrow> int \<Rightarrow> string \<times> int \<times> bool \<Rightarrow> bool" where
  "from_minute ip t e \<longleftrightarrow> fst e = ip \<and> minute (fst (snd e)) = t"

lemma from_minute_simp: "from_minute ip t (ip', now, ok) \<longleftrightarrow> ip' = ip \<and> minute now = t"
  by (simp add: from_minute_def)

lemma run_late: "list_all (\<lambda>e. t < minute (fst (snd e))) es \<Longrightarrow> filter (from_minute ip t) (guard_run es m) = []"
proof (induction es arbitrary: m)
  case (Cons e es)
  then show ?case
    by (cases e) (auto simp: from_minute_simp split: prod.splits option.splits)
qed simp

lemma run_minute:
  assumes "CHR ''/'' \<notin> set ip"
    and "list_all (\<lambda>e. CHR ''/'' \<notin> set (fst e) \<and> \<not> (fst e = ip \<and> snd (snd e))) es"
    and "sorted (map (\<lambda>e. minute (fst (snd e))) es)"
    and "failure_of m ip = (t0, c, n)" "0 \<le> c" "c \<le> 7"
    and "t0 = t \<and> 0 < c \<Longrightarrow> list_all (\<lambda>e. t \<le> minute (fst (snd e))) es"
  shows "int (length (filter (from_minute ip t) (guard_run es m))) \<le> (if t0 = t then 7 - c else 7)"
  using assms(2-)
proof (induction es arbitrary: m t0 c n)
  case (Cons e es)
  obtain ip' now ok where e: "e = (ip', now, ok)" by (cases e)
  obtain f r where ch: "check_failure ip' now m = (f, r)" by fastforce
  show ?case
  proof (cases r)
    case (Some a)
    with Cons.IH [OF _ _ Cons.prems(3-5), of] Cons.prems e ch show ?thesis by auto
  next
    case None
    let ?m = "update_failure ip' f ok m" and ?t = "minute now"
    have f: "f = (failure_of m ip', ?t)" using check_passes(1) ch None by blast
    show ?thesis
    proof (cases "ip' = ip")
      case True
      then have ok: "\<not> ok" using Cons.prems(1) e by simp
      have c6: "t0 = ?t \<Longrightarrow> c \<le> 6"
        using check_passes(3) [of ip' now m f] ch None True Cons.prems(3) by auto
      have new: "failure_of ?m ip = bump (t0, c, n) ?t"
        using update_wrong [OF assms(1), of m ?t ip] True ok f Cons.prems(3) by (simp add: counted_ip assms(1))
      obtain t1 c1 n1 where b: "bump (t0, c, n) ?t = (t1, c1, n1)" by (metis prod_cases3)
      then have t1: "t1 = ?t" "c1 = (if t0 = ?t then c + 1 else 1)"
        using bump_minute [of "(t0, c, n)" ?t] Cons.prems(4,5) by auto
      have later: "list_all (\<lambda>e. ?t \<le> minute (fst (snd e))) es"
        using Cons.prems(2) e by (auto simp: list_all_iff)
      have ih: "int (length (filter (from_minute ip t) (guard_run es ?m))) \<le> (if t1 = t then 7 - c1 else 7)"
        by (rule Cons.IH [of ?m t1 c1 n1])
          (use Cons.prems t1 c6 later new b in \<open>auto\<close>)
      show ?thesis
      proof (cases "?t = t")
        case True
        then show ?thesis using ih t1 e ch None \<open>ip' = ip\<close> Cons.prems(4,5) by (auto simp: from_minute_simp)
      next
        case False
        have "filter (from_minute ip t) (guard_run es ?m) = []" if "t0 = t" "0 < c"
        proof (rule run_late)
          have "t < ?t" using Cons.prems(6) that False e by auto
          with later show "list_all (\<lambda>e. t < minute (fst (snd e))) es" by (auto simp: list_all_iff)
        qed
        then show ?thesis using ih t1 e ch None False Cons.prems(4,5) by (cases "0 < c") (auto simp: from_minute_simp)
      qed
    next
      case False
      have "failure_of ?m ip = (t0, c, n)"
        using update_other [of ip ip' f ok m] counted_ip [OF assms(1), of ip'] False Cons.prems(1,3) e by simp
      then show ?thesis
        using Cons.IH [of ?m t0 c n] Cons.prems e ch None False by (auto simp: from_minute_simp)
    qed
  qed
qed simp



section \<open>Attempts at the same time\<close>

text \<open>\<open>update_failure\<close> counts from the value \<open>check_failure\<close> saw, and the map is not locked in
  between.\<close>

lemma failure_of_Nil [simp]: "failure_of [] k = (0, 0, 0)"
  by (simp add: failure_of_def unwrap_or_def)

lemma update_again:
  "get_ipv6_prefixes ip = None \<Longrightarrow> 0 < n \<Longrightarrow>
     failure_of ((update_failure ip (f, t) False ^^ n) m) ip = bump f t"
  by (induction n) (auto simp: update_failure_def)

text \<open>The bound is lost when attempts overlap: any number of connections of one IPv4 address that
  all pass \<open>check_failure\<close> before the first of them calls \<open>update_failure\<close> are counted as a single
  failure, however many passwords they try.\<close>

theorem parallel_guesses_count_once:
  assumes "get_ipv6_prefixes ip = None" and "minute now \<noteq> 0" and "0 < n"
  shows "\<exists>f. check_failure ip now [] = (f, None)
    \<and> failure_of ((update_failure ip f False ^^ n) []) ip = (minute now, 1, 1)"
  using assms update_again [OF assms(1,3), of "(0, 0, 0)" "minute now" "[]"]
  by (auto simp: check_failure_def check_failure_ip_def bump_def wrap32_def)

theorem parallel_guesses_count_once_witness:
  "\<exists>f. check_failure ''10.0.0.7'' 120000 [] = (f, None)
    \<and> failure_of ((update_failure ''10.0.0.7'' f False ^^ 1000) []) ''10.0.0.7'' = (2, 1, 1)"
proof -
  have "get_ipv6_prefixes ''10.0.0.7'' = None" by code_simp
  moreover have "minute 120000 = 2" by (simp add: minute_def wrap32_def)
  ultimately show ?thesis using parallel_guesses_count_once [of "''10.0.0.7''" 120000 1000] by simp
qed

end
