(* ===== verification/Codec_Negotiation.thy ===== *)
theory Codec_Negotiation
  imports Config_Store F32
begin

text \<open>
  The codec the host encodes with, \<open>src/libs/scrap/src/common/codec.rs\<close>: what each connected peer
  can decode, the usable encodings, the preference of the peers and the format chosen.  The
  hardware encoders the machine offers and its memory are in the record \<open>Machine\<close>; on this platform
  a build has texture encoding switched off (\<open>enable_vram_option\<close> is False) and a pointer has eight
  bytes.
\<close>

section \<open>Data\<close>

datatype CodecFormat = VP8 | VP9 | AV1 | H264 | H265

text \<open>\<open>EnumOrUnknown<PreferCodec>\<close>: the number on the wire.\<close>

record SupportedDecoding =
  ability_vp8 :: int
  ability_vp9 :: int
  ability_av1 :: int
  ability_h264 :: int
  ability_h265 :: int
  prefer_codec :: int
  prefer_i444 :: bool
  i444_vp9 :: bool
  i444_av1 :: bool

definition decoding_default :: SupportedDecoding where
  "decoding_default = \<lparr>ability_vp8 = 0, ability_vp9 = 0, ability_av1 = 0, ability_h264 = 0, ability_h265 = 0,
     prefer_codec = 0, prefer_i444 = False, i444_vp9 = False, i444_av1 = False\<rparr>"

datatype PreferCodec = PreferAuto | PreferVP9 | PreferH264 | PreferH265 | PreferVP8 | PreferAV1

definition prefer_enum :: "int \<Rightarrow> PreferCodec" where
  "prefer_enum n = (if n = 1 then PreferVP9 else if n = 2 then PreferH264 else if n = 3 then PreferH265
     else if n = 4 then PreferVP8 else if n = 5 then PreferAV1 else PreferAuto)"

record SupportedEncoding =
  enc_vp8 :: bool
  enc_av1 :: bool
  enc_h264 :: bool
  enc_h265 :: bool

record EncoderState =
  peer_decodings :: "(int, SupportedDecoding) hashmap"
  encode_codec_format :: CodecFormat
  usable_encoding :: "SupportedEncoding option"

definition encoder_init :: EncoderState where
  "encoder_init = \<lparr>peer_decodings = [], encode_codec_format = VP9, usable_encoding = None\<rparr>"

record Machine =
  hw_h264 :: "string option"
  hw_h265 :: "string option"
  total_memory :: nat

datatype EncodingUpdate =
  Update int SupportedDecoding | Remove int | NewOnlyVP9 int | Check

section \<open>Encoder::update\<close>

definition disable_av1 :: bool where
  "disable_av1 = False"

definition enable_hwcodec_option :: "Store \<Rightarrow> bool" where
  "enable_hwcodec_option st = get_bool_option st ''enable-hwcodec''"

definition update_decodings :: "EncodingUpdate \<Rightarrow> (int, SupportedDecoding) hashmap \<Rightarrow> (int, SupportedDecoding) hashmap" where
  "update_decodings u m = (case u of
     Update i d \<Rightarrow> hm_insert i d m
   | Remove i \<Rightarrow> hm_remove i m
   | NewOnlyVP9 i \<Rightarrow> hm_insert i (decoding_default\<lparr>ability_vp9 := 1\<rparr>) m
   | Check \<Rightarrow> m)"

definition all_decode :: "(SupportedDecoding \<Rightarrow> int) \<Rightarrow> (int, SupportedDecoding) hashmap \<Rightarrow> bool" where
  "all_decode ability m \<longleftrightarrow> 0 < length m \<and> list_all (\<lambda>(_, s). 0 < ability s) m"

fun count_prefs :: "int list \<Rightarrow> (int \<times> nat) list \<Rightarrow> (int \<times> nat) list" where
  "count_prefs [] counts = counts"
| "count_prefs (p # ps) counts =
    count_prefs ps (if list_ex (\<lambda>(q, _). q = p) counts
       then map (\<lambda>(q, n). if q = p then (q, n + 1) else (q, n)) counts else counts @ [(p, 1)])"

text \<open>The first of the most frequent preferences; Auto (0) when no peer has one that is usable.\<close>

definition most_frequent :: "int list \<Rightarrow> int" where
  "most_frequent prefs =
    (let counts = count_prefs prefs [];
         max_count = unwrap_or 0 (iter_max (map snd counts))
     in case find (\<lambda>(_, n). n = max_count) counts of Some (p, _) \<Rightarrow> p | None \<Rightarrow> 0)"

definition usable_of :: "Machine \<Rightarrow> Store \<Rightarrow> (int, SupportedDecoding) hashmap \<Rightarrow> SupportedEncoding" where
  "usable_of mach st m =
    \<lparr>enc_vp8 = all_decode ability_vp8 m,
     enc_av1 = (all_decode ability_av1 m \<and> \<not> disable_av1),
     enc_h264 = (all_decode ability_h264 m \<and> enable_hwcodec_option st \<and> hw_h264 mach \<noteq> None),
     enc_h265 = (all_decode ability_h265 m \<and> enable_hwcodec_option st \<and> hw_h265 mach \<noteq> None)\<rparr>"

definition usable_preferences :: "SupportedEncoding \<Rightarrow> (int, SupportedDecoding) hashmap \<Rightarrow> int list" where
  "usable_preferences u m = map (prefer_codec \<circ> snd) (filter (\<lambda>(_, s).
      prefer_codec s = 1 \<or> prefer_codec s = 4 \<and> enc_vp8 u \<or> prefer_codec s = 5 \<and> enc_av1 u
      \<or> prefer_codec s = 2 \<and> enc_h264 u \<or> prefer_codec s = 3 \<and> enc_h265 u) m)"

definition auto_codec :: "Machine \<Rightarrow> Store \<Rightarrow> SupportedEncoding \<Rightarrow> CodecFormat" where
  "auto_codec mach st u =
    (let a = (if enc_av1 u \<and> get_opt st ''av1-test'' \<noteq> ''N'' then AV1 else VP9);
         b = (if enc_h264 u then H264 else a);
         c = (if enc_h265 u then H265 else b)
     in if c = VP9 \<or> c = AV1 then (if enc_vp8 u \<and> total_memory mach \<le> 4 * 1024 * 1024 * 1024 then VP8 else c)
        else c)"

definition encoder_update :: "Machine \<Rightarrow> Store \<Rightarrow> EncodingUpdate \<Rightarrow> EncoderState \<Rightarrow> EncoderState" where
  "encoder_update mach st upd es =
    (let m = update_decodings upd (peer_decodings es);
         u = usable_of mach st m;
         preference = prefer_enum (most_frequent (usable_preferences u m));
         auto = auto_codec mach st u;
         h264_encoding = (all_decode ability_h264 m \<and> enable_hwcodec_option st \<and> hw_h264 mach \<noteq> None);
         h265_encoding = (all_decode ability_h265 m \<and> enable_hwcodec_option st \<and> hw_h265 mach \<noteq> None)
     in es\<lparr>peer_decodings := m, usable_encoding := Some u,
         encode_codec_format := (case preference of
             PreferVP8 \<Rightarrow> VP8 | PreferVP9 \<Rightarrow> VP9 | PreferAV1 \<Rightarrow> AV1
           | PreferH264 \<Rightarrow> if h264_encoding then H264 else auto
           | PreferH265 \<Rightarrow> if h265_encoding then H265 else auto
           | PreferAuto \<Rightarrow> auto)\<rparr>)"

definition negotiated_codec :: "EncoderState \<Rightarrow> CodecFormat" where
  "negotiated_codec es = encode_codec_format es"

text \<open>\<open>use_i444\<close> for the software encoders; a hardware encoder never uses it.\<close>

definition use_i444 :: "CodecFormat \<Rightarrow> EncoderState \<Rightarrow> bool" where
  "use_i444 cfg es =
    (let ds = map snd (peer_decodings es);
         useable = (case cfg of VP8 \<Rightarrow> False | VP9 \<Rightarrow> list_all i444_vp9 ds | AV1 \<Rightarrow> list_all i444_av1 ds | _ \<Rightarrow> False)
     in list_all prefer_i444 ds \<and> useable \<and> ds \<noteq> [])"

section \<open>The chosen format\<close>

text \<open>What a peer announced to decode.\<close>

fun ability :: "CodecFormat \<Rightarrow> SupportedDecoding \<Rightarrow> int" where
  "ability VP8 s = ability_vp8 s"
| "ability VP9 s = ability_vp9 s"
| "ability AV1 s = ability_av1 s"
| "ability H264 s = ability_h264 s"
| "ability H265 s = ability_h265 s"

lemma count_prefs_keys: "fst ` set (count_prefs ps counts) = set ps \<union> fst ` set counts"
proof (induction ps counts rule: count_prefs.induct)
  case (2 p ps counts)
  have "fst ` set (map (\<lambda>(q, n). if q = p then (q, n + 1) else (q, n)) counts) = fst ` set counts"
    by (force simp: image_iff)
  with 2 show ?case by (force simp: list_ex_iff split: if_splits)
qed simp

lemma most_frequent_mem: "most_frequent ps \<in> insert 0 (set ps)"
proof -
  have "p \<in> set ps" if f: "find P (count_prefs ps []) = Some (p, n)" for P p n
  proof -
    have "(p, n) \<in> set (count_prefs ps [])" using f by (auto simp: find_Some_iff)
    then have "p \<in> fst ` set (count_prefs ps [])" by (metis fst_conv imageI)
    then show ?thesis by (simp add: count_prefs_keys)
  qed
  then show ?thesis by (auto simp: most_frequent_def Let_def split: option.splits)
qed

lemma preference_usable:
  "prefer_enum (most_frequent (usable_preferences u m)) = PreferVP8 \<Longrightarrow> enc_vp8 u"
  "prefer_enum (most_frequent (usable_preferences u m)) = PreferAV1 \<Longrightarrow> enc_av1 u"
  using most_frequent_mem [of "usable_preferences u m"]
  by (auto simp: prefer_enum_def usable_preferences_def split: if_splits)

text \<open>The codec of the host and its peers: an invariant of every update.\<close>

definition codec_inv :: "EncoderState \<Rightarrow> bool" where
  "codec_inv es \<longleftrightarrow> encode_codec_format es = VP9
     \<or> all_decode (ability (encode_codec_format es)) (peer_decodings es)"

lemma auto_codec_usable: "auto_codec mach st u = VP8 \<Longrightarrow> enc_vp8 u" "auto_codec mach st u = AV1 \<Longrightarrow> enc_av1 u"
  "auto_codec mach st u = H264 \<Longrightarrow> enc_h264 u" "auto_codec mach st u = H265 \<Longrightarrow> enc_h265 u"
  by (auto simp: auto_codec_def Let_def split: if_splits)

lemma ability_eta: "ability VP8 = ability_vp8" "ability AV1 = ability_av1" "ability H264 = ability_h264"
  "ability H265 = ability_h265"
  by (auto simp: fun_eq_iff)

lemma update_codec_inv: "codec_inv (encoder_update mach st upd es)"
proof -
  define m where "m = update_decodings upd (peer_decodings es)"
  define u where "u = usable_of mach st m"
  have ok: "all_decode (ability (auto_codec mach st u)) m" if "auto_codec mach st u \<noteq> VP9"
    using that auto_codec_usable [of mach st u]
    by (cases "auto_codec mach st u") (auto simp: u_def usable_of_def ability_eta)
  show ?thesis
    using ok preference_usable [of u m]
    by (cases "prefer_enum (most_frequent (usable_preferences u m))")
      (auto simp: encoder_update_def codec_inv_def Let_def m_def [symmetric] u_def [symmetric] ability_eta,
       auto simp: u_def usable_of_def)
qed

lemma count_prefs_same: "count_prefs (replicate n p) [(p, c)] = [(p, c + n)]"
  by (induction n arbitrary: c) auto

lemma most_frequent_same: "0 < n \<Longrightarrow> most_frequent (replicate n p) = p"
  by (cases n) (simp_all add: most_frequent_def count_prefs_same iter_max_def unwrap_or_def)

text \<open>The number of a preference and the format it asks for.\<close>

fun prefer_number :: "CodecFormat \<Rightarrow> int" where
  "prefer_number VP9 = 1" | "prefer_number H264 = 2" | "prefer_number H265 = 3"
| "prefer_number VP8 = 4" | "prefer_number AV1 = 5"

fun usable :: "CodecFormat \<Rightarrow> SupportedEncoding \<Rightarrow> bool" where
  "usable VP9 u = True" | "usable VP8 u = enc_vp8 u" | "usable AV1 u = enc_av1 u"
| "usable H264 u = enc_h264 u" | "usable H265 u = enc_h265 u"

lemma shared_preference:
  assumes "0 < length m" "list_all (\<lambda>(_, s). prefer_codec s = prefer_number f) m" "usable f u"
  shows "usable_preferences u m = replicate (length m) (prefer_number f)"
proof -
  let ?P = "\<lambda>(_, s). prefer_codec s = 1 \<or> prefer_codec s = 4 \<and> enc_vp8 u \<or> prefer_codec s = 5 \<and> enc_av1 u
      \<or> prefer_codec s = 2 \<and> enc_h264 u \<or> prefer_codec s = 3 \<and> enc_h265 u"
  have "filter ?P m = m" using assms(2,3) by (cases f) (auto simp: list_all_iff filter_id_conv)
  moreover have "map (prefer_codec \<circ> snd) m = replicate (length m) (prefer_number f)"
    using assms(2) by (induction m) auto
  ultimately show ?thesis by (simp add: usable_preferences_def)
qed

text \<open>C23: Whatever peers come, go or announce, the format the host encodes with is VP9 or one that every
  connected peer announced to decode, and a usable format that all peers prefer is chosen.  (VP9 is
  the common fallback: nothing looks at \<open>ability_vp9\<close>.)\<close>

theorem negotiated_codec_decodable:
  "let es' = encoder_update mach st upd es; ds = peer_decodings es'; f = negotiated_codec es'
   in (f = VP9 \<or> ds \<noteq> [] \<and> list_all (\<lambda>(_, s). 0 < ability f s) ds)
    \<and> (\<exists>u. usable_encoding es' = Some u \<and> (ds \<noteq> [] \<and> usable g u
         \<and> list_all (\<lambda>(_, s). prefer_codec s = prefer_number g) ds \<longrightarrow> f = g))"
proof -
  define m where "m = update_decodings upd (peer_decodings es)"
  define u where "u = usable_of mach st m"
  have "most_frequent (usable_preferences u m) = prefer_number g"
    if "m \<noteq> []" "usable g u" "list_all (\<lambda>(_, s). prefer_codec s = prefer_number g) m"
    using that by (simp add: shared_preference most_frequent_same)
  then have "encode_codec_format (encoder_update mach st upd es) = g"
    if "m \<noteq> []" "usable g u" "list_all (\<lambda>(_, s). prefer_codec s = prefer_number g) m"
    using that by (cases g) (auto simp: encoder_update_def Let_def m_def [symmetric] u_def [symmetric] prefer_enum_def,
      auto simp: u_def usable_of_def)
  then show ?thesis
    using update_codec_inv [of mach st upd es]
    by (auto simp: codec_inv_def all_decode_def negotiated_codec_def encoder_update_def Let_def m_def u_def)
qed

text \<open>Two peers that decode and prefer AV1.\<close>

definition av1_peers :: EncoderState where
  "av1_peers = encoder_init\<lparr>peer_decodings :=
     [(1, decoding_default\<lparr>ability_av1 := 1, prefer_codec := 5\<rparr>), (2, decoding_default\<lparr>ability_av1 := 1, prefer_codec := 5\<rparr>)]\<rparr>"

theorem negotiated_codec_decodable_witness:
  "negotiated_codec (encoder_update \<lparr>hw_h264 = None, hw_h265 = None, total_memory = 0\<rparr> first_run Check av1_peers) = AV1"
  using negotiated_codec_decodable [of "\<lparr>hw_h264 = None, hw_h265 = None, total_memory = 0\<rparr>" first_run Check av1_peers AV1]
  by (auto simp: Let_def encoder_update_def update_decodings_def av1_peers_def usable_of_def all_decode_def
      encoder_init_def decoding_default_def disable_av1_def)

end
