(* ===== verification/Privacy_Mode.thy ===== *)
theory Privacy_Mode
  imports Prelude
begin

text \<open>
  Privacy mode, \<open>src/src/privacy_mode.rs\<close>: at most one connection covers the host's screen.  The
  trait \<open>PrivacyMode\<close> is the locale \<open>privacy_contract\<close>, what an implementation promises about its
  owner; it is interpreted on the macOS implementation (\<open>src/src/privacy_mode/macos.rs\<close>), on the
  top-most window of Windows (\<open>src/src/privacy_mode/win_topmost_window.rs\<close>) and on the boxed
  implementation the module holds.  What the operating system answers to a call is an argument.  The
  implementation over virtual displays is not modelled.
\<close>

section \<open>The trait\<close>

definition INVALID_PRIVACY_MODE_CONN_ID :: int where "INVALID_PRIVACY_MODE_CONN_ID = 0"
definition OCCUPIED :: string where "OCCUPIED = ''Privacy occupied by another one.''"
definition TURN_OFF_OTHER_ID :: string where
  "TURN_OFF_OTHER_ID = ''Failed to turn off privacy mode that belongs to someone else.''"

text \<open>The provided methods, given the owner.\<close>

definition check_on_conn_id :: "int \<Rightarrow> int \<Rightarrow> (string, bool) outcome" where
  "check_on_conn_id owner conn =
    (if owner = conn then Ok True
     else if owner \<noteq> INVALID_PRIVACY_MODE_CONN_ID then Err OCCUPIED else Ok False)"

definition check_off_conn_id :: "int \<Rightarrow> int \<Rightarrow> (string, unit) outcome" where
  "check_off_conn_id owner conn =
    (if owner \<noteq> INVALID_PRIVACY_MODE_CONN_ID \<and> conn \<noteq> INVALID_PRIVACY_MODE_CONN_ID \<and> owner \<noteq> conn
     then Err TURN_OFF_OTHER_ID else Ok ())"

text \<open>What the module relies on: a connection that is not the owner cannot take over, success of
  turning on makes it the owner, only the owner or the invalid id releases, and success releases.\<close>

locale privacy_contract =
  fixes turn_on :: "int \<Rightarrow> 'm \<Rightarrow> 'm \<times> (string, bool) outcome"
    and turn_off :: "int \<Rightarrow> 'm \<Rightarrow> 'm \<times> (string, unit) outcome"
    and owner :: "'m \<Rightarrow> int"
  assumes on_occupied: "owner m \<noteq> 0 \<Longrightarrow> owner m \<noteq> c \<Longrightarrow> turn_on c m = (m, Err OCCUPIED)"
    and on_success: "turn_on c m = (m', Ok True) \<Longrightarrow> owner m' = c"
    and on_failure: "turn_on c m = (m', r) \<Longrightarrow> r \<noteq> Ok True \<Longrightarrow> owner m' = owner m"
    and off_other: "owner m \<noteq> 0 \<Longrightarrow> c \<noteq> 0 \<Longrightarrow> owner m \<noteq> c \<Longrightarrow> turn_off c m = (m, Err TURN_OFF_OTHER_ID)"
    and off_success: "turn_off c m = (m', Ok ()) \<Longrightarrow> owner m' = 0"
    and off_failure: "turn_off c m = (m', Err e) \<Longrightarrow> owner m' = owner m"
begin

text \<open>Requests of connections: turning on, turning off.\<close>

definition request :: "int \<times> bool \<Rightarrow> 'm \<Rightarrow> 'm" where
  "request r m = (if snd r then fst (turn_on (fst r) m) else fst (turn_off (fst r) m))"

lemma request_other: "owner m = a \<Longrightarrow> a \<noteq> 0 \<Longrightarrow> fst r \<noteq> a \<Longrightarrow> fst r \<noteq> 0 \<Longrightarrow> owner (request r m) = a"
  using on_occupied [of m "fst r"] off_other [of m "fst r"] by (simp add: request_def)

lemma exclusive:
  "owner m = a \<Longrightarrow> a \<noteq> 0 \<Longrightarrow> list_all (\<lambda>r. fst r \<noteq> a \<and> fst r \<noteq> 0) rs \<Longrightarrow> owner (fold request rs m) = a"
  by (induction rs arbitrary: m) (simp_all add: request_other)

end

section \<open>The implementations\<close>

record MacImpl =
  mac_key :: string
  mac_conn_id :: int

definition mac_new :: "string \<Rightarrow> MacImpl" where
  "mac_new key = \<lparr>mac_key = key, mac_conn_id = 0\<rparr>"

text \<open>\<open>set_mode\<close> is the answer of \<open>MacSetPrivacyMode\<close>.\<close>

definition mac_clear :: "MacImpl \<Rightarrow> MacImpl" where
  "mac_clear m = m\<lparr>mac_conn_id := 0\<rparr>"

definition mac_turn_on :: "(bool \<Rightarrow> bool) \<Rightarrow> int \<Rightarrow> MacImpl \<Rightarrow> MacImpl \<times> (string, bool) outcome" where
  "mac_turn_on set_mode conn m = (case check_on_conn_id (mac_conn_id m) conn of
     Err e \<Rightarrow> (m, Err e)
   | Panic \<Rightarrow> (m, Panic)
   | Ok on \<Rightarrow>
      if on then (m, Ok True)
      else if \<not> set_mode True then (m, Err ''Failed to turn on privacy mode'')
      else (m\<lparr>mac_conn_id := conn\<rparr>, Ok True))"

definition mac_turn_off :: "(bool \<Rightarrow> bool) \<Rightarrow> int \<Rightarrow> MacImpl \<Rightarrow> MacImpl \<times> (string, unit) outcome" where
  "mac_turn_off set_mode conn m = (case check_off_conn_id (mac_conn_id m) conn of
     Err e \<Rightarrow> (m, Err e)
   | Panic \<Rightarrow> (m, Panic)
   | Ok _ \<Rightarrow>
      if \<not> set_mode False then (m, Err ''Failed to turn off privacy mode'')
      else (m\<lparr>mac_conn_id := 0\<rparr>, Ok ()))"

text \<open>The top-most window.  The answers of the system: the directory of the executable, whether the
  library to inject exists, the handles and the result of starting the helper process, the window found (0: none), hooking and
  unhooking the input.\<close>

record TopEnv =
  exe_dir :: "(string, string option) outcome"
  dll_exists :: bool
  start_res :: "(nat \<times> nat) \<times> (string, unit) outcome"
  hwnd_res :: "(string, nat) outcome"
  hook_res :: "(string, unit) outcome"
  unhook_res :: "(string, unit) outcome"

record TopImpl =
  top_key :: string
  top_conn_id :: int
  handlers :: "nat \<times> nat"
  hwnd :: nat

definition top_new :: "string \<Rightarrow> TopImpl" where
  "top_new key = \<lparr>top_key = key, top_conn_id = INVALID_PRIVACY_MODE_CONN_ID, handlers = (0, 0), hwnd = 0\<rparr>"

definition top_show :: "TopEnv \<Rightarrow> int \<Rightarrow> TopImpl \<Rightarrow> TopImpl \<times> (string, bool) outcome" where
  "top_show env conn m = (case hwnd_res env of
     Err e \<Rightarrow> (m, Err e)
   | Panic \<Rightarrow> (m, Panic)
   | Ok w \<Rightarrow>
      if w = 0 then (m, Err ''No privacy window created'')
      else (case hook_res env of
          Err e \<Rightarrow> (m, Err e)
        | Panic \<Rightarrow> (m, Panic)
        | Ok _ \<Rightarrow> (m\<lparr>top_conn_id := conn, hwnd := w\<rparr>, Ok True)))"

definition top_turn_on :: "TopEnv \<Rightarrow> int \<Rightarrow> TopImpl \<Rightarrow> TopImpl \<times> (string, bool) outcome" where
  "top_turn_on env conn m = (case check_on_conn_id (top_conn_id m) conn of
     Err e \<Rightarrow> (m, Err e)
   | Panic \<Rightarrow> (m, Panic)
   | Ok on \<Rightarrow>
      if on then (m, Ok True)
      else (case exe_dir env of
          Err e \<Rightarrow> (m, Err e)
        | Panic \<Rightarrow> (m, Panic)
        | Ok None \<Rightarrow> (m, Err ''Invalid exe parent'')
        | Ok (Some _) \<Rightarrow>
           if \<not> dll_exists env then (m, Ok False)
           else if handlers m = (0, 0)
           then (case start_res env of
               (h, Err e) \<Rightarrow> (m\<lparr>handlers := h\<rparr>, Err e)
             | (h, Panic) \<Rightarrow> (m\<lparr>handlers := h\<rparr>, Panic)
             | (h, Ok _) \<Rightarrow> top_show env conn (m\<lparr>handlers := h\<rparr>))
           else top_show env conn m))"

definition top_turn_off :: "TopEnv \<Rightarrow> int \<Rightarrow> TopImpl \<Rightarrow> TopImpl \<times> (string, unit) outcome" where
  "top_turn_off env conn m = (case check_off_conn_id (top_conn_id m) conn of
     Err e \<Rightarrow> (m, Err e)
   | Panic \<Rightarrow> (m, Panic)
   | Ok _ \<Rightarrow> (case unhook_res env of
       Err e \<Rightarrow> (m, Err e)
     | Panic \<Rightarrow> (m, Panic)
     | Ok _ \<Rightarrow> (case hwnd_res env of
         Err e \<Rightarrow> (m, Err e)
       | Panic \<Rightarrow> (m, Panic)
       | Ok _ \<Rightarrow> (m\<lparr>top_conn_id := INVALID_PRIVACY_MODE_CONN_ID\<rparr>, Ok ()))))"

definition top_clear :: "TopEnv \<Rightarrow> TopImpl \<Rightarrow> TopImpl" where
  "top_clear env m = fst (top_turn_off env (top_conn_id m) m)"

lemmas check_defs = check_on_conn_id_def check_off_conn_id_def INVALID_PRIVACY_MODE_CONN_ID_def

interpretation mac: privacy_contract "mac_turn_on set_mode" "mac_turn_off set_mode" mac_conn_id for set_mode
  by unfold_locales
    (auto simp: mac_turn_on_def mac_turn_off_def check_defs split: if_splits outcome.splits)

interpretation top: privacy_contract "top_turn_on env" "top_turn_off env" top_conn_id for env
  by unfold_locales
    (auto simp: top_turn_on_def top_turn_off_def top_show_def check_defs
      split: if_splits outcome.splits option.splits prod.splits)

section \<open>The module\<close>

text \<open>The boxed implementation and what the system offers: the implementations supported here in order,
  the default, the value of the option \<open>privacy-mode-impl-key\<close> and whether the magnifier can capture.\<close>

datatype PrivacyImpl = Mac MacImpl | TopMost TopImpl

record PrivEnv =
  set_mode :: "bool \<Rightarrow> bool"
  top_env :: TopEnv
  supported_impls :: "string list"
  default_impl :: string
  impl_option :: string
  creators :: "string list"
  check_err :: string

definition macos_key :: string where "macos_key = ''privacy_mode_impl_macos''"

definition privacy_creator :: "PrivEnv \<Rightarrow> string \<Rightarrow> PrivacyImpl option" where
  "privacy_creator env key =
    (if key \<notin> set (creators env) then None
     else if key = macos_key then Some (Mac (mac_new key)) else Some (TopMost (top_new key)))"

fun pre_conn_id :: "PrivacyImpl \<Rightarrow> int" where
  "pre_conn_id (Mac m) = mac_conn_id m"
| "pre_conn_id (TopMost m) = top_conn_id m"

fun get_impl_key :: "PrivacyImpl \<Rightarrow> string" where
  "get_impl_key (Mac m) = mac_key m"
| "get_impl_key (TopMost m) = top_key m"

fun impl_turn_on :: "PrivEnv \<Rightarrow> int \<Rightarrow> PrivacyImpl \<Rightarrow> PrivacyImpl \<times> (string, bool) outcome" where
  "impl_turn_on env c (Mac m) = (let (m', r) = mac_turn_on (set_mode env) c m in (Mac m', r))"
| "impl_turn_on env c (TopMost m) = (let (m', r) = top_turn_on (top_env env) c m in (TopMost m', r))"

fun impl_turn_off :: "PrivEnv \<Rightarrow> int \<Rightarrow> PrivacyImpl \<Rightarrow> PrivacyImpl \<times> (string, unit) outcome" where
  "impl_turn_off env c (Mac m) = (let (m', r) = mac_turn_off (set_mode env) c m in (Mac m', r))"
| "impl_turn_off env c (TopMost m) = (let (m', r) = top_turn_off (top_env env) c m in (TopMost m', r))"

definition is_privacy_mode_supported :: "PrivEnv \<Rightarrow> bool" where
  "is_privacy_mode_supported env \<longleftrightarrow> default_impl env \<noteq> []"

definition is_in_privacy_mode :: "PrivacyImpl option \<Rightarrow> bool" where
  "is_in_privacy_mode st \<longleftrightarrow> (case st of Some m \<Rightarrow> pre_conn_id m \<noteq> INVALID_PRIVACY_MODE_CONN_ID | None \<Rightarrow> False)"

definition get_privacy_mode_conn_id :: "PrivacyImpl option \<Rightarrow> int option" where
  "get_privacy_mode_conn_id st = map_option pre_conn_id st"

definition is_current_privacy_mode_impl :: "PrivacyImpl option \<Rightarrow> string \<Rightarrow> bool" where
  "is_current_privacy_mode_impl st key \<longleftrightarrow> (case st of Some m \<Rightarrow> get_impl_key m = key | None \<Rightarrow> False)"

definition get_supported_impl :: "PrivEnv \<Rightarrow> string \<Rightarrow> string" where
  "get_supported_impl env key =
    (if key \<in> set (supported_impls env) then key
     else if impl_option env \<in> set (supported_impls env) then impl_option env else default_impl env)"

definition privacy_switch :: "PrivEnv \<Rightarrow> string \<Rightarrow> PrivacyImpl option \<Rightarrow> PrivacyImpl option" where
  "privacy_switch env key st =
    (if is_current_privacy_mode_impl st key then st
     else case privacy_creator env key of Some m \<Rightarrow> Some m | None \<Rightarrow> st)"

text \<open>The result is None when there is no implementation at all.  When the implementation changes,
  the old one is cleared and dropped.\<close>

definition turn_on_new :: "PrivEnv \<Rightarrow> string \<Rightarrow> int \<Rightarrow> PrivacyImpl option \<Rightarrow> PrivacyImpl option \<times> (string, bool) outcome option" where
  "turn_on_new env key conn st =
    (if st = None \<and> key = [] then (None, None)
     else case (if is_current_privacy_mode_impl st key then st else privacy_creator env key) of
       None \<Rightarrow> (st, Some (Err (''Unsupported privacy mode: '' @ key)))
     | Some m \<Rightarrow> let (m', r) = impl_turn_on env conn m in (Some m', Some r))"

definition turn_on_privacy_sync :: "PrivEnv \<Rightarrow> string \<Rightarrow> int \<Rightarrow> PrivacyImpl option \<Rightarrow> PrivacyImpl option \<times> (string, bool) outcome option" where
  "turn_on_privacy_sync env impl_key conn st =
    (let key = get_supported_impl env impl_key in
     case st of
       None \<Rightarrow> turn_on_new env key conn st
     | Some m \<Rightarrow> (case check_on_conn_id (pre_conn_id m) conn of
         Ok on \<Rightarrow> if on \<and> get_impl_key m = key then (st, Some (Ok True)) else turn_on_new env key conn st
       | r \<Rightarrow> (st, Some r)))"

definition turn_off_privacy :: "PrivEnv \<Rightarrow> int \<Rightarrow> PrivacyImpl option \<Rightarrow> PrivacyImpl option \<times> (string, unit) outcome option" where
  "turn_off_privacy env conn st = (case st of
     None \<Rightarrow> (None, None)
   | Some m \<Rightarrow> let (m', r) = impl_turn_off env conn m in (Some m', Some r))"

interpretation boxed: privacy_contract "impl_turn_on env" "impl_turn_off env" pre_conn_id for env
proof unfold_locales
  fix m m' :: PrivacyImpl and c r e
  show "pre_conn_id m \<noteq> 0 \<Longrightarrow> pre_conn_id m \<noteq> c \<Longrightarrow> impl_turn_on env c m = (m, Err OCCUPIED)"
    by (cases m) (simp_all add: mac.on_occupied top.on_occupied)
  show "impl_turn_on env c m = (m', Ok True) \<Longrightarrow> pre_conn_id m' = c"
    by (cases m) (auto dest: mac.on_success top.on_success split: prod.splits)
  show "impl_turn_on env c m = (m', r) \<Longrightarrow> r \<noteq> Ok True \<Longrightarrow> pre_conn_id m' = pre_conn_id m"
    by (cases m) (auto dest: mac.on_failure top.on_failure split: prod.splits)
  show "pre_conn_id m \<noteq> 0 \<Longrightarrow> c \<noteq> 0 \<Longrightarrow> pre_conn_id m \<noteq> c \<Longrightarrow> impl_turn_off env c m = (m, Err TURN_OFF_OTHER_ID)"
    by (cases m) (simp_all add: mac.off_other top.off_other)
  show "impl_turn_off env c m = (m', Ok ()) \<Longrightarrow> pre_conn_id m' = 0"
    by (cases m) (auto dest: mac.off_success top.off_success split: prod.splits)
  show "impl_turn_off env c m = (m', Err e) \<Longrightarrow> pre_conn_id m' = pre_conn_id m"
    by (cases m) (auto dest: mac.off_failure top.off_failure split: prod.splits)
qed

section \<open>What a connection does with it\<close>

text \<open>\<open>Connection::turn_on_privacy\<close> and \<open>turn_off_privacy\<close> of \<open>src/src/server/connection.rs\<close>: the
  state and the notifications sent to the peer, with their details and implementation key.\<close>

datatype PrivacyModeState = OffSucceeded | OffByPeer | OffUnknown

datatype PrivacyReply =
  PrvNotSupported string | PrvOnSucceeded string | PrvOnFailed string string | PrvOnFailedPlugin string
| PrvOffSucceeded string | PrvOffFailed string string | PrvOffByPeer string | PrvOffUnknown string

definition turn_off_privacy_to_msg :: "PrivEnv \<Rightarrow> int \<Rightarrow> PrivacyImpl option \<Rightarrow> PrivacyImpl option \<times> PrivacyReply" where
  "turn_off_privacy_to_msg env conn st = (case turn_off_privacy env conn st of
     (st', Some (Ok _)) \<Rightarrow> (st', PrvOffSucceeded [])
   | (st', Some (Err e)) \<Rightarrow> (st', PrvOffFailed e [])
   | (st', _) \<Rightarrow> (st', PrvOffFailed ''Not supported'' []))"

definition conn_turn_on_privacy :: "PrivEnv \<Rightarrow> string \<Rightarrow> int \<Rightarrow> PrivacyImpl option \<Rightarrow> PrivacyImpl option \<times> PrivacyReply list" where
  "conn_turn_on_privacy env key conn st =
    (if \<not> is_privacy_mode_supported env then (st, [PrvNotSupported key])
     else
       let off_msg = (case st of
             Some m \<Rightarrow> if is_in_privacy_mode st \<and> \<not> is_current_privacy_mode_impl st (get_impl_key m)
                        then [PrvOffSucceeded (get_impl_key m)] else []
           | None \<Rightarrow> [])
       in case turn_on_privacy_sync env key conn st of
         (st1, Some (Ok res)) \<Rightarrow>
           if res then
             if check_err env = [] then (st1, off_msg @ [PrvOnSucceeded key])
             else (fst (turn_off_privacy_to_msg env conn st1), off_msg @ [PrvOnFailed (check_err env) key])
           else (st1, off_msg @ [PrvOnFailedPlugin key])
       | (st1, Some (Err e)) \<Rightarrow>
           (if is_in_privacy_mode st1
            then fst (turn_off_privacy_to_msg env INVALID_PRIVACY_MODE_CONN_ID st1) else st1,
            off_msg @ [PrvOnFailed e key])
       | (st1, _) \<Rightarrow> (st1, off_msg @ [PrvOffFailed ''Not supported'' key]))"

definition conn_turn_off_privacy :: "PrivEnv \<Rightarrow> string \<Rightarrow> int \<Rightarrow> PrivacyImpl option \<Rightarrow> PrivacyImpl option \<times> PrivacyReply list" where
  "conn_turn_off_privacy env key conn st =
    (if \<not> is_privacy_mode_supported env then (st, [PrvNotSupported key])
     else let (st', r) = turn_off_privacy_to_msg env conn st in (st', [r]))"

section \<open>Who can end it\<close>

text \<open>Calls of the module by connections: turning on with an implementation key, turning off.\<close>

datatype PrivacyCall = CallOn string int | CallOff int

fun privacy_call :: "PrivEnv \<Rightarrow> PrivacyCall \<Rightarrow> PrivacyImpl option \<Rightarrow> PrivacyImpl option" where
  "privacy_call env (CallOn key c) st = fst (turn_on_privacy_sync env key c st)"
| "privacy_call env (CallOff c) st = fst (turn_off_privacy env c st)"

fun caller :: "PrivacyCall \<Rightarrow> int" where
  "caller (CallOn key c) = c"
| "caller (CallOff c) = c"

definition owned_by :: "int \<Rightarrow> PrivacyImpl option \<Rightarrow> bool" where
  "owned_by a st \<longleftrightarrow> a \<noteq> INVALID_PRIVACY_MODE_CONN_ID \<and> get_privacy_mode_conn_id st = Some a"

lemma occupied_unchanged:
  "owned_by a st \<Longrightarrow> c \<noteq> a \<Longrightarrow> turn_on_privacy_sync env key c st = (st, Some (Err OCCUPIED))"
  by (auto simp: owned_by_def get_privacy_mode_conn_id_def turn_on_privacy_sync_def check_defs split: option.splits)

lemma off_other_unchanged:
  "owned_by a st \<Longrightarrow> c \<noteq> a \<Longrightarrow> c \<noteq> 0 \<Longrightarrow> turn_off_privacy env c st = (st, Some (Err TURN_OFF_OTHER_ID))"
  by (auto simp: owned_by_def get_privacy_mode_conn_id_def turn_off_privacy_def INVALID_PRIVACY_MODE_CONN_ID_def
      boxed.off_other split: option.splits)


definition mac_env :: PrivEnv where
  "mac_env = \<lparr>set_mode = (\<lambda>_. True), top_env = \<lparr>exe_dir = Ok None, dll_exists = False,
       start_res = ((0, 0), Ok ()), hwnd_res = Ok 0, hook_res = Ok (), unhook_res = Ok ()\<rparr>,
     supported_impls = [macos_key], default_impl = macos_key, impl_option = [], creators = [macos_key], check_err = []\<rparr>"


text \<open>The handler of the peer's request does not respect this.  When a connection asks for privacy
  mode that another one has, the request fails as occupied and the handler then turns privacy mode off
  with the invalid id, which every implementation accepts: the screen of the first one is uncovered.\<close>

theorem occupied_request_ends_privacy:
  assumes "owned_by a st" and "b \<noteq> a" and "is_privacy_mode_supported env"
    and "snd (turn_off_privacy env INVALID_PRIVACY_MODE_CONN_ID st) = Some (Ok ())"
  shows "\<exists>st'. conn_turn_on_privacy env key b st = (st', [PrvOnFailed OCCUPIED key]) \<and> \<not> is_in_privacy_mode st'"
proof -
  obtain m where m: "st = Some m" "pre_conn_id m = a" "a \<noteq> INVALID_PRIVACY_MODE_CONN_ID"
    using assms(1) by (auto simp: owned_by_def get_privacy_mode_conn_id_def)
  obtain m' where off: "impl_turn_off env INVALID_PRIVACY_MODE_CONN_ID m = (m', Ok ())"
    using assms(4) m(1) by (auto simp: turn_off_privacy_def split: prod.splits)
  have "pre_conn_id m' = 0" using boxed.off_success [OF off] .
  then show ?thesis
    using occupied_unchanged [OF assms(1,2), of env key] assms(3) m off
    by (simp add: conn_turn_on_privacy_def turn_off_privacy_to_msg_def turn_off_privacy_def is_in_privacy_mode_def
        is_current_privacy_mode_impl_def INVALID_PRIVACY_MODE_CONN_ID_def)
qed

theorem occupied_request_ends_privacy_witness:
  "\<exists>st'. conn_turn_on_privacy mac_env macos_key 8 (Some (Mac \<lparr>mac_key = macos_key, mac_conn_id = 7\<rparr>))
      = (st', [PrvOnFailed OCCUPIED macos_key]) \<and> \<not> is_in_privacy_mode st'"
proof (rule occupied_request_ends_privacy)
  show "owned_by 7 (Some (Mac \<lparr>mac_key = macos_key, mac_conn_id = 7\<rparr>))" by code_simp
  show "(8::int) \<noteq> 7" by simp
  show "is_privacy_mode_supported mac_env" by code_simp
  show "snd (turn_off_privacy mac_env INVALID_PRIVACY_MODE_CONN_ID (Some (Mac \<lparr>mac_key = macos_key, mac_conn_id = 7\<rparr>)))
      = Some (Ok ())" by code_simp
qed

end
