(* ===== verification/Secure_Channel.thy ===== *)
theory Secure_Channel
  imports Bytes_Codec
begin

text \<open>
  Encryption of the peer-to-peer stream: \<open>Encrypt\<close> and \<open>FramedStream\<close> of
  \<open>src/libs/hbb_common/src/tcp.rs\<close>, and the key exchange between \<open>create_tcp_connection\<close>
  (\<open>src/src/server.rs\<close>) and \<open>secure_connection\<close> (\<open>src/src/client.rs\<close>) with its helpers in
  \<open>src/src/common.rs\<close>.  The crypto library and protobuf are the record \<open>Nacl\<close>; keys and nonces drawn
  at random are arguments.  Sequence numbers are 64-bit words that wrap.
\<close>

section \<open>The library\<close>

record Nacl =
  secretbox_seal :: "bytes \<Rightarrow> bytes \<Rightarrow> bytes \<Rightarrow> bytes"
  secretbox_open :: "bytes \<Rightarrow> bytes \<Rightarrow> bytes \<Rightarrow> bytes option"
  box_pk :: "bytes \<Rightarrow> bytes"
  box_seal :: "bytes \<Rightarrow> bytes \<Rightarrow> bytes \<Rightarrow> bytes \<Rightarrow> bytes"
  box_open :: "bytes \<Rightarrow> bytes \<Rightarrow> bytes \<Rightarrow> bytes \<Rightarrow> bytes option"
  sign_pk :: "bytes \<Rightarrow> bytes"
  sign_sign :: "bytes \<Rightarrow> bytes \<Rightarrow> bytes"
  sign_verify :: "bytes \<Rightarrow> bytes \<Rightarrow> bytes option"
  idpk_write :: "string \<Rightarrow> bytes \<Rightarrow> bytes"
  idpk_parse :: "bytes \<Rightarrow> (string \<times> bytes) option"

text \<open>What the documentation promises: opening inverts sealing under the same nonce and key, a seal has
  16 more bytes; a box opens for the other pair of keys; a signature verifies; a message is parsed as
  it was written.\<close>

definition nacl_ok :: "Nacl \<Rightarrow> bool" where
  "nacl_ok n \<longleftrightarrow> (\<forall>m nonce k. secretbox_open n (secretbox_seal n m nonce k) nonce k = Some m)
     \<and> (\<forall>m nonce k. length (secretbox_seal n m nonce k) = length m + 16)
     \<and> (\<forall>m nonce a b. box_open n (box_seal n m nonce (box_pk n b) a) nonce (box_pk n a) b = Some m)
     \<and> (\<forall>m sk. sign_verify n (sign_sign n m sk) (sign_pk n sk) = Some m)
     \<and> (\<forall>i pk. length pk = 32 \<longrightarrow> idpk_parse n (idpk_write n i pk) = Some (i, pk))"

lemma nacl_D:
  assumes "nacl_ok n"
  shows "secretbox_open n (secretbox_seal n m nonce k) nonce k = Some m"
    "length (secretbox_seal n m nonce k) = length m + 16"
    "box_open n (box_seal n m nonce (box_pk n b) a) nonce (box_pk n a) b = Some m"
    "sign_verify n (sign_sign n m sk) (sign_pk n sk) = Some m"
    "length pk = 32 \<Longrightarrow> idpk_parse n (idpk_write n i pk) = Some (i, pk)"
  using assms by (simp_all add: nacl_ok_def)

section \<open>Encrypt\<close>

record Encrypt =
  ekey :: bytes
  seq_out :: u64
  seq_in :: u64

definition encrypt_new :: "bytes \<Rightarrow> Encrypt" where
  "encrypt_new k = \<lparr>ekey = k, seq_out = 0, seq_in = 0\<rparr>"

definition to_le_bytes :: "u64 \<Rightarrow> bytes" where
  "to_le_bytes w = map (\<lambda>i. ucast (drop_bit (8 * i) w)) [0..<8]"

definition get_nonce :: "u64 \<Rightarrow> bytes" where
  "get_nonce seqnum = to_le_bytes seqnum @ replicate 16 0"

definition enc :: "Nacl \<Rightarrow> bytes \<Rightarrow> Encrypt \<Rightarrow> Encrypt \<times> bytes" where
  "enc n data e =
    (let e1 = e\<lparr>seq_out := seq_out e + 1\<rparr>
     in (e1, secretbox_seal n data (get_nonce (seq_out e1)) (ekey e1)))"

text \<open>None is the decryption error.\<close>

definition dec :: "Nacl \<Rightarrow> bytes \<Rightarrow> Encrypt \<Rightarrow> Encrypt \<times> bytes option" where
  "dec n frame e =
    (if length frame \<le> 1 then (e, Some frame)
     else
       let e1 = e\<lparr>seq_in := seq_in e + 1\<rparr>
       in (e1, secretbox_open n frame (get_nonce (seq_in e1)) (ekey e1)))"

section \<open>FramedStream\<close>

text \<open>The stream with the bytes its reader has not used yet.  \<open>Framed\<close> of tokio decodes every frame of
  what it has read and stops at an error.\<close>

record FramedStream =
  fs_codec :: BytesCodec
  fs_buf :: bytes
  fs_enc :: "Encrypt option"

definition stream_new :: FramedStream where
  "stream_new = \<lparr>fs_codec = codec_new, fs_buf = [], fs_enc = None\<rparr>"

definition stream_set_raw :: "FramedStream \<Rightarrow> FramedStream" where
  "stream_set_raw s = s\<lparr>fs_codec := set_raw (fs_codec s), fs_enc := None\<rparr>"

definition is_secured :: "FramedStream \<Rightarrow> bool" where
  "is_secured s \<longleftrightarrow> fs_enc s \<noteq> None"

definition set_key :: "bytes \<Rightarrow> FramedStream \<Rightarrow> FramedStream" where
  "set_key k s = s\<lparr>fs_enc := Some (encrypt_new k)\<rparr>"

definition send_raw :: "Nacl \<Rightarrow> bytes \<Rightarrow> FramedStream \<Rightarrow> FramedStream \<times> (codec_error + bytes)" where
  "send_raw n msg s = (case fs_enc s of
     None \<Rightarrow> (s, encode (fs_codec s) msg [])
   | Some e \<Rightarrow> (case enc n msg e of (e1, sealed) \<Rightarrow> (s\<lparr>fs_enc := Some e1\<rparr>, encode (fs_codec s) sealed [])))"

fun send_all :: "Nacl \<Rightarrow> bytes list \<Rightarrow> FramedStream \<Rightarrow> FramedStream \<times> (codec_error + bytes)" where
  "send_all n [] s = (s, Inr [])"
| "send_all n (m # ms) s = (case send_raw n m s of
     (s1, Inl e) \<Rightarrow> (s1, Inl e)
   | (s1, Inr b) \<Rightarrow> (case send_all n ms s1 of
       (s2, Inl e) \<Rightarrow> (s2, Inl e) | (s2, Inr bs) \<Rightarrow> (s2, Inr (b @ bs))))"

definition open_frame :: "Nacl \<Rightarrow> bytes \<Rightarrow> Encrypt option \<Rightarrow> Encrypt option \<times> bytes option" where
  "open_frame n f eo = (case eo of
     None \<Rightarrow> (None, Some f) | Some e \<Rightarrow> (case dec n f e of (e1, r) \<Rightarrow> (Some e1, r)))"

fun open_frames :: "Nacl \<Rightarrow> bytes list \<Rightarrow> Encrypt option \<Rightarrow> Encrypt option \<times> bytes list \<times> bool" where
  "open_frames n [] eo = (eo, [], True)"
| "open_frames n (f # fs) eo = (case open_frame n f eo of
     (e1, None) \<Rightarrow> (e1, [], False)
   | (e1, Some m) \<Rightarrow> (case open_frames n fs e1 of (e2, ms, ok) \<Rightarrow> (e2, m # ms, ok)))"

definition stream_read :: "Nacl \<Rightarrow> bytes \<Rightarrow> FramedStream \<Rightarrow> FramedStream \<times> bytes list \<times> bool" where
  "stream_read n chunk s = (case drain (fs_codec s) (fs_buf s @ chunk) of
     (frs, err, c, buf) \<Rightarrow> (case open_frames n frs (fs_enc s) of
        (e, ms, ok) \<Rightarrow> (s\<lparr>fs_codec := c, fs_buf := buf, fs_enc := e\<rparr>, ms, ok \<and> err = None)))"

fun stream_run :: "Nacl \<Rightarrow> bytes list \<Rightarrow> FramedStream \<Rightarrow> FramedStream \<times> bytes list \<times> bool" where
  "stream_run n [] s = (s, [], True)"
| "stream_run n (ch # chs) s = (case stream_read n ch s of
     (s1, ms, False) \<Rightarrow> (s1, ms, False)
   | (s1, ms, True) \<Rightarrow> (case stream_run n chs s1 of (s2, ms2, ok) \<Rightarrow> (s2, ms @ ms2, ok)))"

section \<open>Key exchange\<close>

datatype HsMsg = SignedId bytes | PublicKeyMsg bytes bytes | HsOther | HsEmpty

text \<open>What the other side answers within the time limit.\<close>

datatype HsIn = HsTimeout | HsReset | HsIoErr string | HsUnparsed | HsGot HsMsg

definition get_pk :: "bytes \<Rightarrow> bytes option" where
  "get_pk pk = (if length pk = 32 then Some pk else None)"

definition decode_id_pk :: "Nacl \<Rightarrow> bytes \<Rightarrow> bytes \<Rightarrow> (string \<times> bytes) option" where
  "decode_id_pk n si key = (case sign_verify n si key of
     None \<Rightarrow> None
   | Some b \<Rightarrow> (case idpk_parse n b of
        None \<Rightarrow> None | Some (i, pk) \<Rightarrow> map_option (\<lambda>p. (i, p)) (get_pk pk)))"

definition create_symmetric_key_msg :: "Nacl \<Rightarrow> bytes \<Rightarrow> bytes \<Rightarrow> bytes \<Rightarrow> bytes \<times> bytes \<times> bytes" where
  "create_symmetric_key_msg n their_pk_b our_sk_b key =
     (box_pk n our_sk_b, box_seal n key (replicate 24 0) their_pk_b our_sk_b, key)"

definition encrypt_decode :: "Nacl \<Rightarrow> bytes \<Rightarrow> bytes \<Rightarrow> bytes \<Rightarrow> (string, bytes) outcome" where
  "encrypt_decode n symmetric_data their_pk_b our_sk_b =
    (if length their_pk_b \<noteq> 32 then Err ''Handshake failed: pk length''
     else case box_open n symmetric_data (replicate 24 0) their_pk_b our_sk_b of
        None \<Rightarrow> Err ''Handshake failed: box decryption failure''
      | Some k \<Rightarrow> if length k \<noteq> 32 then Err ''Handshake failed: invalid secret key length from peer'' else Ok k)"

text \<open>The handshake of \<open>create_tcp_connection\<close>: what is sent, and the error or the key and whether the
  rendezvous registration of the key is to be renewed.\<close>

definition server_handshake ::
  "Nacl \<Rightarrow> string \<Rightarrow> bytes \<Rightarrow> bytes \<Rightarrow> bytes \<Rightarrow> bool \<Rightarrow> HsIn \<Rightarrow> HsMsg list \<times> (string, bytes option \<times> bool) outcome" where
  "server_handshake n my_id sk pk our_sk_b secure reply =
    (if secure \<and> length pk = 32 \<and> length sk = 64 then
       ([SignedId (sign_sign n (idpk_write n my_id (box_pk n our_sk_b)) sk)],
        case reply of
          HsTimeout \<Rightarrow> Err ''deadline has elapsed''
        | HsReset \<Rightarrow> Err ''Failed to receive public key''
        | HsIoErr e \<Rightarrow> Err e
        | HsUnparsed \<Rightarrow> Err ''Handshake failed: invalid message format''
        | HsGot (PublicKeyMsg asymv symv) \<Rightarrow>
            if length asymv = 32 then
              (case encrypt_decode n symv asymv our_sk_b of
                 Ok k \<Rightarrow> Ok (Some k, False) | Err e \<Rightarrow> Err e | Panic \<Rightarrow> Panic)
            else if asymv = [] then Ok (None, True)
            else Err ''Handshake failed: invalid public sign key length from peer''
        | HsGot _ \<Rightarrow> Ok (None, False))
     else ([], Ok (None, False)))"

text \<open>\<open>secure_connection\<close>: what is sent, and the error or the key of the stream and the public key of the
  peer.  \<open>rs_pk\<close> is the key of the rendezvous server, None when it cannot be decoded.\<close>

definition peer_sign_pk :: "Nacl \<Rightarrow> string \<Rightarrow> bytes \<Rightarrow> bytes option \<Rightarrow> bytes option" where
  "peer_sign_pk n peer_id signed_id_pk rs_pk =
    (if signed_id_pk = [] then None
     else case rs_pk of
        None \<Rightarrow> None
      | Some k \<Rightarrow> (case decode_id_pk n signed_id_pk k of
          Some (i, pk) \<Rightarrow> if i = peer_id then Some pk else None | None \<Rightarrow> None))"

definition secure_connection ::
  "Nacl \<Rightarrow> string \<Rightarrow> bytes \<Rightarrow> bytes option \<Rightarrow> bytes \<Rightarrow> bytes \<Rightarrow> HsIn \<Rightarrow> HsMsg list \<times> (string, bytes option \<times> bytes option) outcome" where
  "secure_connection n peer_id signed_id_pk rs_pk our_sk_b key reply =
    (case peer_sign_pk n peer_id signed_id_pk rs_pk of
       None \<Rightarrow> ([HsEmpty], Ok (None, None))
     | Some spk \<Rightarrow> (case reply of
          HsTimeout \<Rightarrow> ([], Err ''deadline has elapsed'')
        | HsReset \<Rightarrow> ([], Err ''Reset by the peer'')
        | HsIoErr e \<Rightarrow> ([], Err e)
        | HsUnparsed \<Rightarrow> ([HsEmpty], Ok (None, Some spk))
        | HsGot (SignedId si) \<Rightarrow> (case decode_id_pk n si spk of
             Some (i, their_pk_b) \<Rightarrow>
               if i = peer_id then
                 (case create_symmetric_key_msg n their_pk_b our_sk_b key of
                    (asymv, symv, k) \<Rightarrow> ([PublicKeyMsg asymv symv], Ok (Some k, Some spk)))
               else ([HsEmpty], Ok (None, Some spk))
           | None \<Rightarrow> ([PublicKeyMsg [] []], Ok (None, Some spk)))
        | HsGot _ \<Rightarrow> ([HsEmpty], Ok (None, Some spk))))"

text \<open>\<open>secure_tcp\<close>, the same exchange with the rendezvous server; \<open>use_ws\<close> tells whether the stream is a
  web socket.\<close>

datatype KexIn = KexTimeout | KexNothing | KexUnparsed | KexGot "bytes list" | KexOther

definition secure_tcp ::
  "Nacl \<Rightarrow> bool \<Rightarrow> bytes option \<Rightarrow> bytes \<Rightarrow> bytes \<Rightarrow> KexIn \<Rightarrow> bytes list list \<times> (string, bytes option) outcome" where
  "secure_tcp n use_ws rs_pk our_sk_b key reply =
    (if use_ws then ([], Ok None)
     else case rs_pk of
        None \<Rightarrow> ([], Err ''Handshake failed: invalid public key from rendezvous server'')
      | Some pk \<Rightarrow> (case reply of
           KexTimeout \<Rightarrow> ([], Err ''deadline has elapsed'')
         | KexGot keys \<Rightarrow>
             (case keys of
                [si] \<Rightarrow> (case sign_verify n si pk of
                   None \<Rightarrow> ([], Err ''Signature mismatch in key exchange'')
                 | Some b \<Rightarrow> (case get_pk b of
                      None \<Rightarrow> ([], Err ''Wrong their public length in key exchange'')
                    | Some their_pk_b \<Rightarrow> (case create_symmetric_key_msg n their_pk_b our_sk_b key of
                         (asymv, symv, k) \<Rightarrow> ([[asymv, symv]], Ok (Some k)))))
              | _ \<Rightarrow> ([], Err ''Handshake failed: invalid key exchange message''))
         | _ \<Rightarrow> ([], Ok None)))"

section \<open>Nonces\<close>

lemma to_le_bytes_inj: "to_le_bytes a = to_le_bytes b \<Longrightarrow> a = b"
proof (rule bit_word_eqI)
  fix k :: nat
  assume eq: "to_le_bytes a = to_le_bytes b" and k: "k < LENGTH(64)"
  have "(ucast (drop_bit (8 * (k div 8)) a) :: u8) = ucast (drop_bit (8 * (k div 8)) b)"
    using eq k by (auto simp: to_le_bytes_def)
  then have "bit (ucast (drop_bit (8 * (k div 8)) a) :: u8) (k mod 8) = bit (ucast (drop_bit (8 * (k div 8)) b) :: u8) (k mod 8)"
    by simp
  then show "bit a k = bit b k"
    by (simp add: bit_ucast_iff bit_drop_bit_eq)
qed

lemma get_nonce_inj [simp]: "get_nonce a = get_nonce b \<longleftrightarrow> a = b"
  by (auto simp: get_nonce_def to_le_bytes_inj)

section \<open>An encrypted stream delivers what was sent\<close>

text \<open>The frames of a list of messages.\<close>

fun seal_all :: "Nacl \<Rightarrow> bytes list \<Rightarrow> Encrypt option \<Rightarrow> Encrypt option \<times> bytes list" where
  "seal_all n [] eo = (eo, [])"
| "seal_all n (m # ms) eo = (case eo of
     None \<Rightarrow> (None, m # ms)
   | Some e \<Rightarrow> (case enc n m e of (e1, c) \<Rightarrow> (case seal_all n ms (Some e1) of (e2, cs) \<Rightarrow> (e2, c # cs))))"

lemma seal_all_None [simp]: "seal_all n ms None = (None, ms)"
  by (cases ms) simp_all

lemma encode_raw_cong: "raw c = raw c' \<Longrightarrow> encode c = encode c'"
  by (simp add: encode_def fun_eq_iff)

lemma encode_all_raw_cong: "raw c = raw c' \<Longrightarrow> encode_all c ds = encode_all c' ds"
  by (induction ds) (auto simp: encode_raw_cong [of c c'] split: sum.split)

lemma send_all_frames:
  "send_all n ms s = (s', Inr wire) \<Longrightarrow> s' = s\<lparr>fs_enc := fst (seal_all n ms (fs_enc s))\<rparr>
     \<and> encode_all (fs_codec s) (snd (seal_all n ms (fs_enc s))) = Inr wire"
proof (induction ms arbitrary: s wire)
  case (Cons m ms)
  obtain s1 b where b: "send_raw n m s = (s1, Inr b)"
    using Cons.prems by (auto split: prod.splits sum.splits)
  then obtain bs where bs: "send_all n ms s1 = (s', Inr bs)" "wire = b @ bs"
    using Cons.prems by (auto split: prod.splits sum.splits)
  note IH = Cons.IH [OF bs(1)]
  show ?case
  proof (cases "fs_enc s")
    case None
    then show ?thesis
      using b bs(2) IH by (auto simp: send_raw_def)
  next
    case (Some e)
    obtain e1 c where e: "enc n m e = (e1, c)" by (cases "enc n m e")
    then have s1: "s1 = s\<lparr>fs_enc := Some e1\<rparr>" "encode (fs_codec s) c [] = Inr b"
      using b Some by (auto simp: send_raw_def)
    show ?thesis
      using IH Some e s1 bs(2) by (auto split: prod.splits)
  qed
qed simp

text \<open>The two ends of one direction.\<close>

definition paired :: "FramedStream \<Rightarrow> FramedStream \<Rightarrow> bool" where
  "paired a b \<longleftrightarrow> \<not> raw (fs_codec a) \<and> \<not> raw (fs_codec b) \<and> state (fs_codec b) = Head \<and> fs_buf b = []
     \<and> (case (fs_enc a, fs_enc b) of
          (None, None) \<Rightarrow> True
        | (Some ea, Some eb) \<Rightarrow> ekey ea = ekey eb \<and> seq_out ea = seq_in eb
        | _ \<Rightarrow> False)"

lemma open_seal_all:
  assumes ok: "nacl_ok n" and "seal_all n ms (Some ea) = (ea', cs)" "ekey ea = ekey eb" "seq_out ea = seq_in eb"
  shows "\<exists>ea1 eb'. ea' = Some ea1 \<and> open_frames n cs (Some eb) = (Some eb', ms, True) \<and> ekey ea1 = ekey eb' \<and> seq_out ea1 = seq_in eb'"
  using assms(2-)
proof (induction ms arbitrary: ea eb ea' cs)
  case (Cons m ms)
  obtain c e1 where c: "enc n m ea = (e1, c)" by (cases "enc n m ea")
  then obtain cs' where cs': "seal_all n ms (Some e1) = (ea', cs')" "cs = c # cs'"
    using Cons.prems(1) by (auto split: prod.splits)
  have e1: "e1 = ea\<lparr>seq_out := seq_out ea + 1\<rparr>" "c = secretbox_seal n m (get_nonce (seq_in eb + 1)) (ekey eb)"
    using c Cons.prems by (auto simp: enc_def Let_def)
  have "dec n c eb = (eb\<lparr>seq_in := seq_in eb + 1\<rparr>, Some m)"
    using nacl_D(1,2) [OF ok, of m "get_nonce (seq_in eb + 1)" "ekey eb"] by (simp add: dec_def e1 Let_def)
  with Cons.IH [OF cs'(1), of "eb\<lparr>seq_in := seq_in eb + 1\<rparr>"] Cons.prems cs'(2) e1(1)
  show ?case by (auto simp: open_frame_def)
qed auto

lemma open_frames_None [simp]: "open_frames n fs None = (None, fs, True)"
  by (induction fs) (simp_all add: open_frame_def)

lemma open_frames_append:
  "open_frames n (xs @ ys) eo = (case open_frames n xs eo of
     (e, ms, False) \<Rightarrow> (e, ms, False)
   | (e, ms, True) \<Rightarrow> (case open_frames n ys e of (e2, ms2, ok) \<Rightarrow> (e2, ms @ ms2, ok)))"
  by (induction xs arbitrary: eo) (auto split: prod.splits option.splits bool.splits)

text \<open>How the bytes are cut does not matter.\<close>

lemma drain_raw: "drain c s = (fs, e, c', s') \<Longrightarrow> raw c' = raw c"
proof (induction c s arbitrary: fs rule: drain.induct)
  case (1 c s)
  obtain r c1 s1 where d: "decode c s = (r, c1, s1)" by (metis prod_cases3)
  show ?case
    using 1 d raw_decode [OF d] by (auto simp: drain.simps [of c s] split: sum.splits option.splits prod.splits)
qed

lemma stream_run_concat:
  assumes "\<not> raw (fs_codec s)"
    and "drain (fs_codec s) (fs_buf s @ concat chunks) = (frs, None, c', buf')"
    and "open_frames n frs (fs_enc s) = (e', ms, True)"
    and "chunks = [] \<longrightarrow> frs = [] \<and> c' = fs_codec s \<and> buf' = fs_buf s"
  shows "stream_run n chunks s = (s\<lparr>fs_codec := c', fs_buf := buf', fs_enc := e'\<rparr>, ms, True)"
  using assms
proof (induction chunks arbitrary: s frs ms)
  case (Cons ch chs)
  obtain f1 er c1 b1 where d: "drain (fs_codec s) (fs_buf s @ ch) = (f1, er, c1, b1)" by (metis prod_cases4)
  have da: "drain (fs_codec s) (fs_buf s @ ch @ concat chs) = (case er of
       Some _ \<Rightarrow> (f1, er, c1, b1 @ concat chs)
     | None \<Rightarrow> (let (gs, r) = drain c1 (b1 @ concat chs) in (f1 @ gs, r)))"
    using drain_append [OF Cons.prems(1) d, of "concat chs"] by simp
  have er: "er = None" using da Cons.prems(2) by (cases er) auto
  obtain f2 where f2: "drain c1 (b1 @ concat chs) = (f2, None, c', buf')" "frs = f1 @ f2"
    using da Cons.prems(2) er by (auto split: prod.splits)
  obtain e1 m1 m2 where o: "open_frames n f1 (fs_enc s) = (e1, m1, True)" "open_frames n f2 e1 = (e', m2, True)" "ms = m1 @ m2"
    using Cons.prems(3) f2(2) by (auto simp: open_frames_append split: prod.splits bool.splits)
  let ?s1 = "s\<lparr>fs_codec := c1, fs_buf := b1, fs_enc := e1\<rparr>"
  have rd: "stream_read n ch s = (?s1, m1, True)"
    using d er o(1) by (simp add: stream_read_def)
  have raw1: "\<not> raw c1"
    using Cons.prems(1) drain_raw [OF d] by simp
  have "drain c1 b1 = ([], None, c1, b1)"
    using drain_append [OF Cons.prems(1) d, of "[]"] d er by (auto split: prod.splits)
  then have "chs = [] \<longrightarrow> f2 = [] \<and> c' = c1 \<and> buf' = b1"
    using f2(1) by auto
  then show ?case
    using Cons.IH [of ?s1 f2 m2] raw1 f2(1) o rd by simp
qed auto

lemma seal_all_lengths:
  assumes "nacl_ok n"
  shows "list_all (\<lambda>m. length m + 16 \<le> k) ms \<Longrightarrow> list_all (\<lambda>c. length c \<le> k) (snd (seal_all n ms eo))"
proof (induction ms arbitrary: eo)
  case (Cons m ms)
  show ?case
  proof (cases eo)
    case None
    with Cons.prems show ?thesis by (auto simp: list_all_iff)
  next
    case (Some e)
    obtain e1 c where e: "enc n m e = (e1, c)" by (cases "enc n m e")
    then have "length c = length m + 16"
      using nacl_D(2) [OF assms] by (auto simp: enc_def Let_def)
    then show ?thesis
      using Some e Cons by (simp split: prod.splits) (metis snd_conv)
  qed
qed simp

section \<open>Properties\<close>

text \<open>C10: An encrypted stream is a reliable channel.  What one end sends in order, the other end receives,
  the same messages in the same order, however the network cuts the bytes, and afterwards the two ends
  are in step again; the same holds before a key is set.\<close>

theorem secure_channel_roundtrip:
  assumes "nacl_ok n" and "paired a b" and "send_all n msgs a = (a', Inr (concat chunks))" and "chunks \<noteq> []"
    and "list_all (\<lambda>m. length m + 16 \<le> unat (max_packet_length (fs_codec b))) msgs"
  shows "\<exists>b'. stream_run n chunks b = (b', msgs, True) \<and> paired a' b'"
proof -
  obtain ea cs where cs: "seal_all n msgs (fs_enc a) = (ea, cs)" by (cases "seal_all n msgs (fs_enc a)")
  have a': "a' = a\<lparr>fs_enc := ea\<rparr>" and "encode_all (fs_codec a) cs = Inr (concat chunks)"
    using send_all_frames [OF assms(3)] cs by simp_all
  then have "encode_all (fs_codec b) cs = Inr (concat chunks)"
    using encode_all_raw_cong [of "fs_codec a" "fs_codec b"] assms(2) by (simp add: paired_def)
  moreover have "list_all (\<lambda>c. length c \<le> unat (max_packet_length (fs_codec b))) cs"
    using seal_all_lengths [OF assms(1,5), of "fs_enc a"] cs by simp
  ultimately have d: "drain (fs_codec b) (fs_buf b @ concat chunks) = (cs, None, fs_codec b, [])"
    using drain_encode_all [of "fs_codec b" cs] assms(2) by (simp add: paired_def)
  obtain eb where o: "open_frames n cs (fs_enc b) = (eb, msgs, True)"
    and e: "case (ea, eb) of (None, None) \<Rightarrow> True | (Some x, Some y) \<Rightarrow> ekey x = ekey y \<and> seq_out x = seq_in y | _ \<Rightarrow> False"
    using cs assms(2) open_seal_all [OF assms(1)]
    by (cases "fs_enc a"; cases "fs_enc b") (fastforce simp: paired_def)+
  show ?thesis
    using stream_run_concat [OF _ d o] assms(2,4) e by (auto simp: paired_def a' split: option.splits)
qed

text \<open>A library that prefixes a message with the first bytes of the nonce.\<close>

definition tag16 :: "bytes \<Rightarrow> bytes" where
  "tag16 b = take 16 (b @ replicate 16 0)"

lemma length_tag16 [simp]: "length (tag16 b) = 16"
  by (simp add: tag16_def)

definition toy_nacl :: Nacl where
  "toy_nacl = \<lparr>secretbox_seal = (\<lambda>m nonce k. tag16 nonce @ m),
     secretbox_open = (\<lambda>c nonce k. if take 16 c = tag16 nonce then Some (drop 16 c) else None),
     box_pk = (\<lambda>sk. sk), box_seal = (\<lambda>m nonce pk sk. m), box_open = (\<lambda>c nonce pk sk. Some c),
     sign_pk = take 32, sign_sign = (\<lambda>m sk. 1 # m), sign_verify = (\<lambda>c pk. if c \<noteq> [] \<and> hd c = 1 then Some (tl c) else None),
     idpk_write = (\<lambda>i pk. pk @ map (\<lambda>c. of_nat (of_char c)) i),
     idpk_parse = (\<lambda>b. Some (map (\<lambda>w. char_of (unat w)) (drop 32 b), take 32 b))\<rparr>"

lemma toy_nacl_ok: "nacl_ok toy_nacl"
  by (auto simp: nacl_ok_def toy_nacl_def comp_def unat_of_nat)

theorem secure_channel_roundtrip_witness:
  "\<exists>a' w b'. send_all toy_nacl [[5, 6], [7]] (set_key [] stream_new) = (a', Inr w)
     \<and> stream_run toy_nacl [take 20 w, drop 20 w] (set_key [] stream_new) = (b', [[5, 6], [7]], True) \<and> paired a' b'"
proof -
  let ?s = "set_key [] stream_new"
  have p: "paired ?s ?s"
    by (simp add: paired_def set_key_def stream_new_def codec_new_def encrypt_new_def)
  obtain a' w where w: "send_all toy_nacl [[5, 6], [7]] ?s = (a', Inr w)"
    by (simp add: send_raw_def set_key_def stream_new_def codec_new_def encode_def encode_head_def enc_def toy_nacl_def
        get_nonce_def to_le_bytes_def encrypt_new_def)
  have "send_all toy_nacl [[5, 6], [7]] ?s = (a', Inr (concat [take 20 w, drop 20 w]))"
    using w by simp
  from secure_channel_roundtrip [OF toy_nacl_ok p this] w show ?thesis
    by (simp add: set_key_def stream_new_def codec_new_def unsigned_minus_1_eq_mask mask_numeral)
qed

text \<open>C11: The key exchange agrees.  When the rendezvous server has signed the host's public key for its
  id, the controlling side accepts the host's signed hello, its answer makes the host take the same
  key, and streams with that key are in step in both directions.\<close>

theorem handshake_agrees:
  assumes "nacl_ok n" and "length sk = 64" and "length (sign_pk n sk) = 32" and "length (box_pk n ssk) = 32"
    and "length (box_pk n csk) = 32" and "length key = 32"
    and "certificate = sign_sign n (idpk_write n host_id (sign_pk n sk)) rs_sk" and "certificate \<noteq> []"
  shows "\<exists>hello answer. fst (server_handshake n host_id sk (sign_pk n sk) ssk True HsReset) = [hello]
    \<and> secure_connection n host_id certificate (Some (sign_pk n rs_sk)) csk key (HsGot hello)
        = ([answer], Ok (Some key, Some (sign_pk n sk)))
    \<and> server_handshake n host_id sk (sign_pk n sk) ssk True (HsGot answer) = ([hello], Ok (Some key, False))
    \<and> paired (set_key key stream_new) (set_key key stream_new)"
proof -
  let ?hello = "SignedId (sign_sign n (idpk_write n host_id (box_pk n ssk)) sk)"
  let ?answer = "PublicKeyMsg (box_pk n csk) (box_seal n key (replicate 24 0) (box_pk n ssk) csk)"
  note D = nacl_D [OF assms(1)]
  have pk: "peer_sign_pk n host_id certificate (Some (sign_pk n rs_sk)) = Some (sign_pk n sk)"
    using assms(3,8) by (simp add: peer_sign_pk_def decode_id_pk_def D get_pk_def assms(7))
  have h: "fst (server_handshake n host_id sk (sign_pk n sk) ssk True r) = [?hello]" for r
    using assms(2,3) by (simp add: server_handshake_def)
  have c: "secure_connection n host_id certificate (Some (sign_pk n rs_sk)) csk key (HsGot ?hello)
      = ([?answer], Ok (Some key, Some (sign_pk n sk)))"
    using assms(4) pk by (simp add: secure_connection_def decode_id_pk_def D get_pk_def create_symmetric_key_msg_def)
  have s: "server_handshake n host_id sk (sign_pk n sk) ssk True (HsGot ?answer) = ([?hello], Ok (Some key, False))"
    using assms(2,3,5,6) by (simp add: server_handshake_def encrypt_decode_def D)
  show ?thesis
    using h c s by (auto simp: paired_def set_key_def stream_new_def codec_new_def encrypt_new_def)
qed

theorem handshake_agrees_witness:
  "\<exists>hello answer. fst (server_handshake toy_nacl ''123'' (replicate 64 2) (replicate 32 2) (replicate 32 3) True HsReset) = [hello]
    \<and> secure_connection toy_nacl ''123'' (sign_sign toy_nacl (idpk_write toy_nacl ''123'' (replicate 32 2)) (replicate 64 4))
        (Some (replicate 32 4)) (replicate 32 5) (replicate 32 6) (HsGot hello) = ([answer], Ok (Some (replicate 32 6), Some (replicate 32 2)))
    \<and> server_handshake toy_nacl ''123'' (replicate 64 2) (replicate 32 2) (replicate 32 3) True (HsGot answer)
        = ([hello], Ok (Some (replicate 32 6), False))
    \<and> paired (set_key (replicate 32 6) stream_new) (set_key (replicate 32 6) stream_new)"
proof -
  have pk: "sign_pk toy_nacl (replicate 64 x) = replicate 32 x" "box_pk toy_nacl = (\<lambda>sk. sk)" for x
    by (simp_all add: toy_nacl_def)
  have "sign_sign toy_nacl m k \<noteq> []" for m k
    by (simp add: toy_nacl_def)
  with handshake_agrees [OF toy_nacl_ok, of "replicate 64 2" "replicate 32 3" "replicate 32 5" "replicate 32 6" _ "''123''" "replicate 64 4", OF _ _ _ _ _ refl]
  show ?thesis by (simp add: pk)
qed

section \<open>What an attacker on the network can do\<close>

text \<open>The handshake does not fail closed.  Whoever can replace the host's hello by something that is
  not its signed hello, and the answer by an empty message, makes both sides go on: neither reports an
  error, and neither sets a key.\<close>

theorem handshake_downgrade:
  assumes "peer_sign_pk n host_id certificate rs_pk = Some spk" and "\<And>si. m = SignedId si \<Longrightarrow> decode_id_pk n si spk = None"
  shows "\<exists>out. secure_connection n host_id certificate rs_pk csk key (HsGot m) = (out, Ok (None, Some spk))
    \<and> snd (server_handshake n host_id sk pk ssk True (HsGot HsEmpty)) = Ok (None, False)"
  using assms by (cases m) (auto simp: secure_connection_def server_handshake_def)

theorem handshake_downgrade_witness:
  "\<exists>out. secure_connection toy_nacl ''123'' (sign_sign toy_nacl (idpk_write toy_nacl ''123'' (replicate 32 2)) []) (Some []) [] (replicate 32 6) (HsGot HsOther)
      = (out, Ok (None, Some (replicate 32 2)))
    \<and> snd (server_handshake toy_nacl ''123'' (replicate 64 2) (replicate 32 2) (replicate 32 3) True (HsGot HsEmpty)) = Ok (None, False)"
proof (rule handshake_downgrade)
  have "sign_verify toy_nacl (sign_sign toy_nacl m []) [] = Some m" for m
    by (simp add: toy_nacl_def)
  moreover have "sign_sign toy_nacl m [] \<noteq> []" for m
    by (simp add: toy_nacl_def)
  ultimately show "peer_sign_pk toy_nacl ''123'' (sign_sign toy_nacl (idpk_write toy_nacl ''123'' (replicate 32 2)) []) (Some []) = Some (replicate 32 2)"
    by (simp add: peer_sign_pk_def decode_id_pk_def get_pk_def nacl_D(5) [OF toy_nacl_ok])
qed simp

lemma seal_all_nth:
  assumes "i < length ms" and "ekey e = k"
  shows "snd (seal_all n ms (Some e)) ! i = secretbox_seal n (ms ! i) (get_nonce (seq_out e + word_of_nat (Suc i))) k"
  using assms
proof (induction ms arbitrary: e i)
  case (Cons m ms)
  obtain e1 c where e: "enc n m e = (e1, c)" by (cases "enc n m e")
  then have e1: "e1 = e\<lparr>seq_out := seq_out e + 1\<rparr>" "c = secretbox_seal n m (get_nonce (seq_out e + 1)) k"
    using Cons.prems(2) by (auto simp: enc_def Let_def)
  show ?case
  proof (cases i)
    case 0
    then show ?thesis using e e1 by (simp split: prod.splits)
  next
    case (Suc j)
    have "snd (seal_all n ms (Some e1)) ! j = secretbox_seal n (ms ! j) (get_nonce (seq_out e1 + word_of_nat (Suc j))) k"
      using Cons.IH [of j e1] Cons.prems Suc e1(1) by simp
    then show ?thesis
      using Suc e e1(1) by (auto simp: algebra_simps split: prod.split)
  qed
qed simp

lemma seal_all_encrypt: "fst (seal_all n ms (Some e)) = Some (e\<lparr>seq_out := seq_out e + word_of_nat (length ms)\<rparr>)"
proof (induction ms arbitrary: e)
  case (Cons m ms)
  show ?case
    using Cons.IH [of "e\<lparr>seq_out := seq_out e + 1\<rparr>"] by (auto simp: enc_def algebra_simps split: prod.split)
qed simp

text \<open>C14: Both directions use the same key and the same nonces: the i-th message of one side and the i-th
  of the other are sealed under one nonce, which the cipher must never see twice; and what a side has
  sent, reflected to it, passes as messages of the peer.\<close>

theorem directions_share_nonces:
  assumes "nacl_ok n" and "seal_all n ms (Some (encrypt_new k)) = (e, cs)" and "seal_all n ms' (Some (encrypt_new k)) = (e', cs')"
    and "i < length ms" and "i < length ms'"
  shows "(\<exists>nonce. cs ! i = secretbox_seal n (ms ! i) nonce k \<and> cs' ! i = secretbox_seal n (ms' ! i) nonce k)
    \<and> (\<exists>e1. open_frames n cs e = (e1, ms, True))"
proof
  show "\<exists>nonce. cs ! i = secretbox_seal n (ms ! i) nonce k \<and> cs' ! i = secretbox_seal n (ms' ! i) nonce k"
    using seal_all_nth [of i ms "encrypt_new k" k n] seal_all_nth [of i ms' "encrypt_new k" k n] assms(2-)
    by (auto simp: encrypt_new_def)
  have e: "e = Some ((encrypt_new k)\<lparr>seq_out := word_of_nat (length ms)\<rparr>)"
    using seal_all_encrypt [of n ms "encrypt_new k"] assms(2) by (simp add: encrypt_new_def)
  show "\<exists>e1. open_frames n cs e = (e1, ms, True)"
    using open_seal_all [OF assms(1,2), of "(encrypt_new k)\<lparr>seq_out := word_of_nat (length ms)\<rparr>"]
    by (auto simp: e encrypt_new_def)
qed

theorem directions_share_nonces_witness:
  "(\<exists>nonce. snd (seal_all toy_nacl [[1], [2]] (Some (encrypt_new []))) ! 1 = secretbox_seal toy_nacl [2] nonce []
      \<and> snd (seal_all toy_nacl [[3], [4]] (Some (encrypt_new []))) ! 1 = secretbox_seal toy_nacl [4] nonce [])
    \<and> (\<exists>e1. open_frames toy_nacl (snd (seal_all toy_nacl [[1], [2]] (Some (encrypt_new []))))
          (fst (seal_all toy_nacl [[1], [2]] (Some (encrypt_new [])))) = (e1, [[1], [2]], True))"
  using directions_share_nonces [OF toy_nacl_ok, of "[[1], [2]]" "[]" "fst (seal_all toy_nacl [[1], [2]] (Some (encrypt_new [])))"
      "snd (seal_all toy_nacl [[1], [2]] (Some (encrypt_new [])))" "[[3], [4]]" _ _ 1, OF _ surjective_pairing]
  by simp

text \<open>The sealed messages of a side, by nonce.\<close>

definition sealed :: "bytes list \<Rightarrow> (bytes \<times> bytes) set" where
  "sealed ms = (\<lambda>i. (get_nonce (word_of_nat (Suc i)), ms ! i)) ` {..<length ms}"

lemma sealed_nth:
  assumes "(get_nonce (word_of_nat (Suc i)), m) \<in> sealed ms" and "Suc i < 2 ^ 64" "length ms < 2 ^ 64"
  shows "i < length ms \<and> m = ms ! i"
proof -
  obtain j where j: "j < length ms" "(word_of_nat (Suc i) :: u64) = word_of_nat (Suc j)" "m = ms ! j"
    using assms(1) by (auto simp: sealed_def)
  have "unat (word_of_nat x :: u64) = x" if "x < 2 ^ 64" for x
    using that by (simp add: unat_of_nat)
  then have "Suc i = Suc j"
    using assms(2,3) j(1,2) by (metis Suc_leI le_less_trans)
  with j show ?thesis by simp
qed

lemma open_frames_sealed:
  assumes "open_frames n fs (Some e) = (e', ms, ok)" and "ekey e = k" and "seq_in e = word_of_nat j"
    and "\<forall>f \<in> set fs. \<forall>w m. secretbox_open n f (get_nonce w) k = Some m \<longrightarrow> (get_nonce w, m) \<in> S"
    and "i < length (map snd (filter (\<lambda>(f, _). 1 < length f) (zip fs ms)))"
  shows "(get_nonce (word_of_nat (Suc (j + i))), map snd (filter (\<lambda>(f, _). 1 < length f) (zip fs ms)) ! i) \<in> S"
  using assms
proof (induction fs arbitrary: e ms i j)
  case (Cons f fs)
  obtain e1 m where d: "dec n f e = (e1, Some m)"
    using Cons.prems(1,5) by (auto simp: open_frame_def split: prod.splits option.splits)
  obtain ms' where ms': "open_frames n fs (Some e1) = (e', ms', ok)" "ms = m # ms'"
    using Cons.prems(1) d by (auto simp: open_frame_def split: prod.splits)
  show ?case
  proof (cases "length f \<le> 1")
    case True
    then have "e1 = e" using d by (simp add: dec_def)
    with True Cons.IH [OF ms'(1), of j i] Cons.prems ms'(2) show ?thesis by simp
  next
    case False
    then have e1: "e1 = e\<lparr>seq_in := word_of_nat (Suc j)\<rparr>" and m: "secretbox_open n f (get_nonce (word_of_nat (Suc j))) k = Some m"
      using d Cons.prems(2,3) by (auto simp: dec_def Let_def algebra_simps)
    show ?thesis
    proof (cases i)
      case 0
      then show ?thesis using False m Cons.prems(4) ms'(2) by simp
    next
      case (Suc i')
      then show ?thesis
        using Cons.IH [OF ms'(1), of "Suc j" i'] Cons.prems False e1 ms'(2) by simp
    qed
  qed
qed simp

text \<open>C9: What is received was sent.  Whatever frames the network delivers, if the frames that open under
  the key were sealed by one of the two sides, then the i-th message a side accepts from a frame of
  more than one byte is the i-th message of the peer or its own i-th message reflected: nothing is
  dropped, repeated, reordered or made up.  Frames of at most one byte are taken as they are.\<close>

theorem received_was_sent:
  assumes "open_frames n fs (Some (encrypt_new k)) = (e', ms, ok)"
    and "\<forall>f \<in> set fs. \<forall>w m. secretbox_open n f (get_nonce w) k = Some m \<longrightarrow> (get_nonce w, m) \<in> sealed peer \<union> sealed own"
    and "length peer < 2 ^ 64" and "length own < 2 ^ 64" and "length fs < 2 ^ 64 - 1"
    and "i < length (map snd (filter (\<lambda>(f, _). 1 < length f) (zip fs ms)))"
  shows "i < length peer \<and> map snd (filter (\<lambda>(f, _). 1 < length f) (zip fs ms)) ! i = peer ! i
    \<or> i < length own \<and> map snd (filter (\<lambda>(f, _). 1 < length f) (zip fs ms)) ! i = own ! i"
proof -
  have "i < length fs"
    using assms(6) by (auto intro: order.strict_trans2 [OF _ order.trans [OF length_filter_le]])
  then have i: "Suc i < 2 ^ 64" using assms(5) by simp
  have "(get_nonce (word_of_nat (Suc (0 + i))), map snd (filter (\<lambda>(f, _). 1 < length f) (zip fs ms)) ! i) \<in> sealed peer \<union> sealed own"
    by (rule open_frames_sealed [OF assms(1) _ _ assms(2,6)]) (simp_all add: encrypt_new_def)
  then show ?thesis
    using sealed_nth [OF _ i assms(3)] sealed_nth [OF _ i assms(4)] by auto
qed

text \<open>A host that has sent one message gets the peer's first one and a byte anybody may have added.\<close>

theorem received_was_sent_witness:
  "0 < length [[5 :: u8]] \<and> map snd (filter (\<lambda>(f, _). 1 < length f)
      (zip [secretbox_seal toy_nacl [5] (get_nonce 1) [], [7]] [[5 :: u8], [7]])) ! 0 = [[5]] ! 0
    \<or> 0 < length [[9 :: u8]] \<and> map snd (filter (\<lambda>(f, _). 1 < length f)
      (zip [secretbox_seal toy_nacl [5] (get_nonce 1) [], [7]] [[5 :: u8], [7]])) ! 0 = [[9]] ! 0"
proof -
  let ?f = "secretbox_seal toy_nacl [5] (get_nonce 1) []"
  have long: "1 < length ?f" "\<not> 1 < length [7 :: u8]"
    by (simp_all add: nacl_D(2) [OF toy_nacl_ok])
  obtain e where run: "open_frames toy_nacl [?f, [7]] (Some (encrypt_new [])) = (e, [[5], [7]], True)"
    using long by (simp add: open_frame_def dec_def Let_def encrypt_new_def nacl_D(1) [OF toy_nacl_ok])
  have inj: "tag16 (get_nonce a) = tag16 (get_nonce b) \<Longrightarrow> a = b" for a b
    by (rule to_le_bytes_inj) (simp add: tag16_def get_nonce_def to_le_bytes_def)
  have auth: "\<forall>f \<in> set [?f, [7]]. \<forall>w m. secretbox_open toy_nacl f (get_nonce w) [] = Some m \<longrightarrow> (get_nonce w, m) \<in> sealed [[5]] \<union> sealed [[9]]"
  proof -
    have "w = 1 \<and> m = [5]" if "secretbox_open toy_nacl ?f (get_nonce w) [] = Some m" for w m
      using that inj [of 1 w] by (auto simp: toy_nacl_def split: if_splits)
    moreover have "secretbox_open toy_nacl [7] (get_nonce w) [] = None" for w
      using length_tag16 [of "get_nonce w"] by (auto simp: toy_nacl_def simp del: length_tag16 dest: sym)
    ultimately show ?thesis
      by (auto simp: sealed_def)
  qed
  show ?thesis
    by (rule received_was_sent [OF run auth]) (use long in simp_all)
qed

end
