(* ===== verification/Connection_State.thy ===== *)
theory Connection_State
  imports Host_Server Codec_Negotiation Cm_Files Login_Guard Privacy_Mode Video_QoS
begin

text \<open>
  The state of one incoming connection, \<open>src/src/server/connection.rs\<close>, and the globals all
  connections share: login failures, sessions, lists of connections, the configuration, the server
  object and privacy mode.  What a connection does to the outside (messages to the peer, to the
  connection manager, injected input, ...) is a list of \<open>Out\<close> values.  Answers of the operating
  system and of third-party crates are fields of the record \<open>Host\<close>.  The build is the Linux desktop
  one with file clipboard, without hardware codecs and plugins; log and audit records are left out.
\<close>

section \<open>Messages\<close>

text \<open>An enum of the protocol is None when the number on the wire is unknown.\<close>

datatype BoolOption = NotSet | No | Yes

record OptionMessage =
  om_image_quality :: "int option"
  om_custom_image_quality :: int
  om_custom_fps :: int
  om_supported_decoding :: "SupportedDecoding option"
  om_lock_after_session_end :: "BoolOption option"
  om_show_remote_cursor :: "BoolOption option"
  om_follow_remote_cursor :: "BoolOption option"
  om_follow_remote_window :: "BoolOption option"
  om_disable_audio :: "BoolOption option"
  om_enable_file_transfer :: "BoolOption option"
  om_disable_clipboard :: "BoolOption option"
  om_disable_keyboard :: "BoolOption option"
  om_privacy_mode :: "BoolOption option"
  om_block_input :: "BoolOption option"
  om_terminal_persistent :: "BoolOption option"
  om_show_my_cursor :: "BoolOption option"

datatype LoginUnion =
  LoginFileTransfer string bool | LoginViewCamera | LoginTerminal string | LoginPortForward string int | LoginDefault

record LoginRequest =
  lr_username :: string
  lr_password :: string
  my_id :: string
  my_name :: string
  lr_option :: "OptionMessage option"
  lr_union :: LoginUnion
  lr_video_ack_required :: bool
  session_id :: u64
  lr_version :: string
  os_login :: "(string \<times> string) option"
  my_platform :: string
  lr_hwid :: string

definition login_default :: LoginRequest where
  "login_default = \<lparr>lr_username = [], lr_password = [], my_id = [], my_name = [], lr_option = None,
     lr_union = LoginDefault, lr_video_ack_required = False, session_id = 0, lr_version = [], os_login = None,
     my_platform = [], lr_hwid = []\<rparr>"

record MouseEvent =
  mouse_mask :: int
  mouse_x :: int
  mouse_y :: int

datatype KeyUnion = KeyControl int | KeyChr nat | KeyUnicode nat | KeySeq string | KeyWin2Win nat | KeyNone

datatype KeyboardMode = KLegacy | KMap | KTranslate | KAuto

record KeyEvent =
  key_down :: bool
  key_press :: bool
  key_union :: KeyUnion
  key_mode :: "KeyboardMode option"

datatype FileAction =
    FaReadEmptyDirs string bool
  | FaReadDir string bool
  | FaAllFiles int string bool
  | FaSend int string int bool JobType
  | FaReceive int string int "FileEntry list" nat
  | FaRemoveDir int string bool
  | FaRemoveFile int string int
  | FaCreate int string
  | FaCancel int
  | FaSendConfirm ConfirmRequest
  | FaRename int string string
  | FaNone

datatype FileResponse =
    FrBlock int int bytes bool
  | FrDone int int
  | FrDigest int int nat nat bool
  | FrError int int string
  | FrNone

datatype MiscMsg =
    MCloseReason string
  | MSwitchDisplay int int int
  | MCaptureDisplays "int list" "int list" "int list"
  | MTogglePrivacyMode bool string
  | MChatMessage string
  | MOption OptionMessage
  | MRefreshVideo bool
  | MRefreshVideoDisplay int
  | MVideoReceived
  | MRestartRemoteDevice
  | MAudioFormat nat
  | MSwitchSidesRequest string
  | MChangeResolution int int
  | MChangeDisplayResolution int int int
  | MAutoAdjustFps nat
  | MClientRecordStatus bool
  | MMessageQuery int
  | MMiscOther

text \<open>The payloads of clipboard, audio and terminal messages are opaque numbers.\<close>

datatype Msg =
    LoginMsg LoginRequest
  | Auth2fa string string
  | TestDelay bool nat
  | SwitchSidesResponse "LoginRequest option" string
  | MouseMsg MouseEvent
  | PointerMsg nat
  | KeyMsg KeyEvent
  | ClipboardMsg nat
  | MultiClipboardsMsg "nat list"
  | CliprdrFiles "(string \<times> nat) list"
  | CliprdrMsg nat
  | FileActionMsg FileAction
  | FileResponseMsg FileResponse
  | MiscMsg MiscMsg
  | AudioFrameMsg nat
  | VoiceCallRequest bool int
  | VoiceCallResponse
  | ScreenshotRequest int string
  | TerminalAction nat
  | OtherMsg

section \<open>What a connection does\<close>

datatype Perm = PermKeyboard | PermClipboard | PermAudio | PermFile | PermRestart | PermRecording | PermBlockInput

text \<open>Messages of the host's services, on their way to the peer.  A clipboard is text or not, with its
  content.\<close>

datatype ServiceMsg =
    SmAudio nat
  | SmStopService
  | SmPeerInfo nat
  | SmCursorPos int int nat
  | SmMultiClipboards "(bool \<times> nat) list"
  | SmOther nat

datatype PeerMsg =
    LoginError string bool
  | LoginOk
  | HashMsg string string
  | PermissionInfo Perm bool
  | TestDelayMsg bool nat
  | SwitchDisplayMsg VideoSource nat
  | FileReply FileMsg
  | FileDirReply FileDirectory
  | FileDigestReply DigestMsg bool
  | PrivacyNotify PrivacyReply
  | BlockInputFailed bool string
  | MessageBoxMsg string string
  | VoiceCallReply int bool
  | VoiceCallStop
  | ChatReply string
  | CloseReasonMsg string
  | SwitchBackMsg
  | RawReply bytes
  | FollowDisplayMsg nat
  | CliprdrReply nat
  | TerminalReply nat
  | FileEmptyDirsReply string "FileDirectory list"
  | ServiceReply ServiceMsg
  | ClipboardReply nat
  | VideoReply nat

datatype MessageInput = InMouse MouseEvent bool bool | InPointer nat | InKey KeyEvent bool | BlockOn | BlockOff

text \<open>The records of \<open>FileTransferLog\<close>: \<open>FileActionLog\<close> (id, connection, path, directory) under the
  name of the action, \<open>FileRenameLog\<close> (connection, path, new name), transfer jobs.\<close>

datatype FileLog = ActionLog string int int string bool | RenameLog int string string | JobLogs "JobLog list"

datatype CmData =
    CmLogin string string bool
  | CmFS FSReq
  | CmChat string
  | CmClose
  | CmDisconnected
  | CmVoiceCallIncoming
  | CmStartVoiceCall
  | CmCloseVoiceCall
  | CmFileLog FileLog

datatype Out =
    Send PeerMsg
  | ToCm CmData
  | InputOut MessageInput
  | SetClipboard "nat list"
  | ServeFileClip nat
  | EmptyFileClip
  | Reboot
  | LockScreen
  | QosOut QosEvent
  | EncoderOut EncodingUpdate
  | TcpConnect string
  | ResolutionOut nat int int
  | AudioOut nat
  | VoiceDevice bool
  | TerminalOut string nat
  | TerminalStart string bool
  | TerminalPersist string bool
  | ScreenshotOut int string
  | RefreshOut
  | FrameFetched
  | RunMe string string
  | StartCmIpc
  | RemoveWallpaper
  | RestoreScreen
  | WhiteboardOut bool
  | WakeLock nat nat
  | AlarmOut AlarmAuditType
  | NotifyDesktopReady
  | ReleaseModifier nat

section \<open>State\<close>

datatype AuthConnType = AuthRemote | AuthFileTransfer | AuthPortForward | AuthViewCamera | AuthTerminal

record SessionKey =
  sk_peer_id :: string
  sk_name :: string
  sk_session_id :: u64

text \<open>\<open>last_recv_time\<close> is an \<open>Arc<Mutex<Instant>>\<close> that a session and the connections of it share: an
  index into the list of instants.\<close>

record Session =
  last_recv_time :: nat
  random_password :: string
  tfa :: bool

record AuthedConn =
  ac_conn_id :: int
  ac_type :: AuthConnType
  ac_session_key :: SessionKey
  ac_printer :: bool

record RemovedFile =
  rm_id :: int
  rm_path :: string

record FileRemoveLogControl =
  frl_conn_id :: int
  frl_instant :: int
  removed_files :: "RemovedFile list"
  removed_dirs :: "RemovedFile list"

record Connection =
  inner :: ConnInner
  display_idx :: nat
  hash_salt :: string
  hash_challenge :: string
  conn_read_jobs :: "TransferJob list"
  file_transfer :: "(string \<times> bool) option"
  view_camera :: bool
  terminal :: bool
  port_forward_socket :: bool
  port_forward_address :: string
  authorized :: bool
  require_2fa :: "string option"
  keyboard :: bool
  clipboard :: bool
  audio :: bool
  file_perm :: bool
  restart :: bool
  recording :: bool
  block_input :: bool
  control_permissions :: "u64 option"
  last_test_delay :: "int option"
  network_delay :: nat
  lock_after_session_end :: bool
  show_remote_cursor :: bool
  ip :: string
  disable_keyboard :: bool
  show_my_cursor :: bool
  disable_clipboard :: bool
  disable_audio :: bool
  enable_file_transfer :: bool
  audio_sender :: bool
  video_ack_required :: bool
  lr :: LoginRequest
  peer_argb :: u32
  session_last_recv_time :: "nat option"
  chat_unanswered :: bool
  file_transferred :: bool
  from_switch :: bool
  voice_call_request_timestamp :: "int option"
  voice_calling :: bool
  options_in_login :: "OptionMessage option"
  pressed_modifiers :: "nat list"
  closed :: bool
  start_cm_ipc_para :: bool
  auto_disconnect_timer :: "(int \<times> nat) option"
  authed_conn_id :: "AuthConnType option"
  file_remove_log_control :: FileRemoveLogControl
  services_subed :: bool
  delayed_read_dir :: "(string \<times> bool) option"
  follow_remote_cursor :: bool
  follow_remote_window :: bool
  multi_ui_session :: bool
  printer_data :: "(string \<times> bytes) list"
  cm_read_job_ids :: "int list"
  terminal_service_id :: string
  terminal_persistent :: bool
  terminal_user_token :: bool
  terminal_generic_service :: bool

record World =
  login_failures :: "failures \<times> failures"
  sessions :: "(SessionKey, Session) hashmap"
  instants :: "int list"
  alive_conns :: "int list"
  authed_conns :: "AuthedConn list"
  control_permissions_array :: "(int \<times> u64) list"
  switch_sides_uuid :: "(string, int \<times> string) hashmap"
  store :: Store
  server :: "Server option"
  privacy_mode :: "PrivacyImpl option"
  click_time :: int
  mouse_move_time :: int

record Host =
  sha256 :: "string \<Rightarrow> string"
  totp_check :: "string \<Rightarrow> string \<Rightarrow> bool option"
  get_2fa :: "string \<Rightarrow> string option"
  cidr_contains :: "string \<Rightarrow> SocketAddr \<Rightarrow> bool"
  tcp_connect :: "string \<Rightarrow> bool"
  uuid_from_slice :: "string \<Rightarrow> string option"
  headless_allowed :: bool
  headless :: bool
  try_start_desktop :: "string \<Rightarrow> string \<Rightarrow> string"
  is_prelogin :: bool
  is_locked :: bool
  is_server :: bool
  main_window_open :: bool
  display_server_error :: string
  login_displays :: "string option"
  display_count :: nat
  primary_display :: nat
  camera_exists :: bool
  has_display :: "VideoSource \<Rightarrow> nat \<Rightarrow> bool"
  is_dir :: "string \<Rightarrow> bool"
  file_tree :: "string \<Rightarrow> fnode option"
  file_system :: FS
  max_files_option :: string
  keycode_to_rdev_key :: "nat \<Rightarrow> nat"
  rdev_is_modifier :: "nat \<Rightarrow> bool"
  whiteboard_supported :: bool
  need_fs_cm_send_files :: bool
  serve_clip_messages :: "nat \<Rightarrow> nat list"
  terminal_answer :: "string \<Rightarrow> nat \<Rightarrow> nat option"
  service_specified_user :: "string \<Rightarrow> bool option"
  new_service_id :: string
  priv_env :: PrivEnv
  env :: Env
  clock :: int

text \<open>A step of a connection transforms its state, the globals and the outputs so far.\<close>

record CS =
  conn :: Connection
  world :: World
  outs :: "Out list"

definition emit :: "Out \<Rightarrow> CS \<Rightarrow> CS" where
  "emit x s = s\<lparr>outs := outs s @ [x]\<rparr>"

definition emits :: "Out list \<Rightarrow> CS \<Rightarrow> CS" where
  "emits xs s = s\<lparr>outs := outs s @ xs\<rparr>"

definition upd_conn :: "(Connection \<Rightarrow> Connection) \<Rightarrow> CS \<Rightarrow> CS" where
  "upd_conn f s = s\<lparr>conn := f (conn s)\<rparr>"

definition upd_world :: "(World \<Rightarrow> World) \<Rightarrow> CS \<Rightarrow> CS" where
  "upd_world f s = s\<lparr>world := f (world s)\<rparr>"

text \<open>\<open>if let Some(s) = self.server.upgrade()\<close>: the server may be gone.\<close>

definition with_server :: "(Server \<Rightarrow> Server) \<Rightarrow> CS \<Rightarrow> CS" where
  "with_server f = upd_world (\<lambda>w. w\<lparr>server := map_option f (server w)\<rparr>)"

definition cid :: "CS \<Rightarrow> int" where
  "cid s = conn_id (inner (conn s))"

end
