(* ===== verification/Connection_Options.thy ===== *)
theory Connection_Options
  imports Connection_State
begin

text \<open>
  The permissions of a connection, the services it subscribes to and the options a peer sets:
  \<open>permission\<close>, \<open>try_sub_monitor_services\<close>, \<open>update_options\<close> and their helpers in
  \<open>src/src/server/connection.rs\<close>, \<open>get_control_permission\<close> of \<open>src/src/common.rs\<close>.
\<close>

section \<open>Permissions\<close>

datatype Permission =
  P_keyboard | P_remote_printer | P_clipboard | P_file | P_audio | P_camera | P_terminal | P_tunnel
| P_restart | P_recording | P_block_input | P_remote_modify

fun permission_value :: "Permission \<Rightarrow> nat" where
  "permission_value P_keyboard = 0" | "permission_value P_remote_printer = 1"
| "permission_value P_clipboard = 2" | "permission_value P_file = 3"
| "permission_value P_audio = 4" | "permission_value P_camera = 5"
| "permission_value P_terminal = 6" | "permission_value P_tunnel = 7"
| "permission_value P_restart = 8" | "permission_value P_recording = 9"
| "permission_value P_block_input = 10" | "permission_value P_remote_modify = 11"

definition get_control_permission :: "u64 \<Rightarrow> Permission \<Rightarrow> bool option" where
  "get_control_permission permissions p =
    (let v = drop_bit (permission_value p * 2) permissions AND 3
     in if v = 1 then Some False else if v = 2 then Some True else None)"

definition is_permission_enabled_locally :: "Store \<Rightarrow> string \<Rightarrow> bool" where
  "is_permission_enabled_locally st opt =
    (let access_mode = get_opt st ''access-mode'' in
     if access_mode = ''full'' then True
     else if access_mode = ''view'' then False
     else option2bool opt (get_opt st opt))"

definition permission_of_option :: "string \<Rightarrow> Permission option" where
  "permission_of_option opt =
    (if opt = ''enable-keyboard'' then Some P_keyboard
     else if opt = ''enable-remote-printer'' then Some P_remote_printer
     else if opt = ''enable-clipboard'' then Some P_clipboard
     else if opt = ''enable-file-transfer'' then Some P_file
     else if opt = ''enable-audio'' then Some P_audio
     else if opt = ''enable-camera'' then Some P_camera
     else if opt = ''enable-terminal'' then Some P_terminal
     else if opt = ''enable-tunnel'' then Some P_tunnel
     else if opt = ''enable-remote-restart'' then Some P_restart
     else if opt = ''enable-record-session'' then Some P_recording
     else if opt = ''enable-block-input'' then Some P_block_input
     else None)"

definition permission :: "Store \<Rightarrow> string \<Rightarrow> u64 option \<Rightarrow> bool" where
  "permission st opt control =
    (case (case control of None \<Rightarrow> None
           | Some perms \<Rightarrow> (case permission_of_option opt of None \<Rightarrow> None
               | Some p \<Rightarrow> get_control_permission perms p)) of
       Some enabled \<Rightarrow> enabled
     | None \<Rightarrow> is_permission_enabled_locally st opt)"

text \<open>\<open>get_control_permission_state\<close> over the permissions of all connections.\<close>

definition get_control_permission_state :: "World \<Rightarrow> Permission \<Rightarrow> bool \<Rightarrow> bool option" where
  "get_control_permission_state w p disable_if_has_disabled =
    (let states = map (\<lambda>(_, cp). get_control_permission cp p) (control_permissions_array w);
         has_enable = list_ex (\<lambda>x. x = Some True) states;
         has_disable = list_ex (\<lambda>x. x = Some False) states
     in if disable_if_has_disabled
        then (if has_disable then Some False else if has_enable then Some True else None)
        else (if has_enable then Some True else if has_disable then Some False else None))"

definition get_builtin_option :: "Store \<Rightarrow> string \<Rightarrow> string" where
  "get_builtin_option st key = unwrap_or [] (hm_get (builtin_settings st) key)"

definition peer_keyboard_enabled :: "Connection \<Rightarrow> bool" where
  "peer_keyboard_enabled c \<longleftrightarrow> keyboard c \<and> \<not> disable_keyboard c"

definition clipboard_enabled :: "Connection \<Rightarrow> bool" where
  "clipboard_enabled c \<longleftrightarrow> clipboard c \<and> \<not> disable_clipboard c"

definition can_sub_clipboard_service :: "CS \<Rightarrow> bool" where
  "can_sub_clipboard_service s \<longleftrightarrow> clipboard_enabled (conn s) \<and> peer_keyboard_enabled (conn s)
     \<and> get_builtin_option (store (world s)) ''one-way-clipboard-redirection'' \<noteq> ''Y''"

definition audio_enabled :: "Connection \<Rightarrow> bool" where
  "audio_enabled c \<longleftrightarrow> audio c \<and> \<not> disable_audio c"

definition file_transfer_enabled :: "Connection \<Rightarrow> bool" where
  "file_transfer_enabled c \<longleftrightarrow> file_perm c \<and> enable_file_transfer c"

definition can_sub_file_clipboard_service :: "CS \<Rightarrow> bool" where
  "can_sub_file_clipboard_service s \<longleftrightarrow> clipboard_enabled (conn s) \<and> file_transfer_enabled (conn s)
     \<and> get_builtin_option (store (world s)) ''one-way-file-transfer'' \<noteq> ''Y''"

definition is_remote_conn :: "Connection \<Rightarrow> bool" where
  "is_remote_conn c \<longleftrightarrow> file_transfer c = None \<and> \<not> port_forward_socket c \<and> \<not> view_camera c \<and> \<not> terminal c"

definition is_authed_view_camera_conn :: "Connection \<Rightarrow> bool" where
  "is_authed_view_camera_conn c \<longleftrightarrow> authed_conn_id c = Some AuthViewCamera"

definition is_authed_remote_conn :: "Connection \<Rightarrow> bool" where
  "is_authed_remote_conn c \<longleftrightarrow> authed_conn_id c = Some AuthRemote"

definition video_source :: "Connection \<Rightarrow> VideoSource" where
  "video_source c = (if view_camera c then Camera else Monitor)"

section \<open>Services\<close>

definition NAME_CURSOR :: string where "NAME_CURSOR = ''mouse_cursor''"
definition NAME_POS :: string where "NAME_POS = ''mouse_pos''"
definition NAME_WINDOW_FOCUS :: string where "NAME_WINDOW_FOCUS = ''window_focus''"
definition CLIPBOARD_NAME :: string where "CLIPBOARD_NAME = ''clipboard''"
definition CLIPBOARD_FILE_NAME :: string where "CLIPBOARD_FILE_NAME = ''file-clipboard''"
definition AUDIO_NAME :: string where "AUDIO_NAME = ''audio''"

definition sub_service :: "string \<Rightarrow> bool \<Rightarrow> CS \<Rightarrow> CS" where
  "sub_service n b s = with_server (subscribe n (inner (conn s)) b) s"

definition get_auto_disconenct_timer :: "Host \<Rightarrow> Store \<Rightarrow> (int \<times> nat) option" where
  "get_auto_disconenct_timer h st =
    (if get_opt st ''allow-auto-disconnect'' = ''Y'' then
       let m = unwrap_or 10 (parse_usize (get_opt st ''auto-disconnect-timeout''))
       in Some (clock h, if m = 0 then 10 else m)
     else None)"

definition update_auto_disconnect_timer :: "Host \<Rightarrow> CS \<Rightarrow> CS" where
  "update_auto_disconnect_timer h =
     upd_conn (\<lambda>c. c\<lparr>auto_disconnect_timer := map_option (\<lambda>t. (clock h, snd t)) (auto_disconnect_timer c)\<rparr>)"

definition try_sub_camera_displays :: "Host \<Rightarrow> CS \<Rightarrow> CS" where
  "try_sub_camera_displays h s = with_server (\<lambda>sv.
     add_camera_connection (camera_exists h) (inner (conn s)) (try_add_primary_camera_service (camera_exists h) sv)) s"

definition noperms :: "CS \<Rightarrow> string list" where
  "noperms s =
    (let c = conn s in
     (if \<not> peer_keyboard_enabled c \<and> \<not> show_remote_cursor c then [NAME_CURSOR] else [])
     @ (if \<not> show_remote_cursor c then [NAME_POS] else [])
     @ (if \<not> follow_remote_window c then [NAME_WINDOW_FOCUS] else [])
     @ (if \<not> can_sub_clipboard_service s then [CLIPBOARD_NAME] else [])
     @ (if \<not> can_sub_file_clipboard_service s then [CLIPBOARD_FILE_NAME] else [])
     @ (if \<not> audio_enabled c then [AUDIO_NAME] else []))"

definition try_sub_monitor_services :: "Host \<Rightarrow> CS \<Rightarrow> CS" where
  "try_sub_monitor_services h s =
    (if is_remote_conn (conn s) \<and> \<not> services_subed (conn s) then
       let s1 = upd_conn (\<lambda>c. c\<lparr>services_subed := True\<rparr>) s in
       (case server (world s1) of
          None \<Rightarrow> s1
        | Some _ \<Rightarrow>
           with_server (\<lambda>sv. add_connection (primary_display h) (inner (conn s1)) (noperms s1)
               (try_add_primay_video_service (primary_display h) sv))
             (upd_conn (\<lambda>c. c\<lparr>auto_disconnect_timer := get_auto_disconenct_timer h (store (world s1))\<rparr>) s1))
     else s)"

section \<open>Privacy mode\<close>

definition turn_on_privacy :: "Host \<Rightarrow> string \<Rightarrow> CS \<Rightarrow> CS" where
  "turn_on_privacy h key s =
    (let (p, rs) = conn_turn_on_privacy (priv_env h) key (cid s) (privacy_mode (world s))
     in emits (map (Send \<circ> PrivacyNotify) rs) (upd_world (\<lambda>w. w\<lparr>privacy_mode := p\<rparr>) s))"

definition turn_off_privacy_conn :: "Host \<Rightarrow> string \<Rightarrow> CS \<Rightarrow> CS" where
  "turn_off_privacy_conn h key s =
    (let (p, rs) = conn_turn_off_privacy (priv_env h) key (cid s) (privacy_mode (world s))
     in emits (map (Send \<circ> PrivacyNotify) rs) (upd_world (\<lambda>w. w\<lparr>privacy_mode := p\<rparr>) s))"

definition toggle_privacy_mode :: "Host \<Rightarrow> bool \<Rightarrow> string \<Rightarrow> CS \<Rightarrow> CS" where
  "toggle_privacy_mode h on key s = (if on then turn_on_privacy h key s else turn_off_privacy_conn h key s)"

section \<open>Options of the peer\<close>

text \<open>\<open>if let Ok(q) = o.x.enum_value() { if q != NotSet { f(q == Yes) } }\<close>\<close>

definition when_set :: "BoolOption option \<Rightarrow> (bool \<Rightarrow> CS \<Rightarrow> CS) \<Rightarrow> CS \<Rightarrow> CS" where
  "when_set q f s = (case q of Some Yes \<Rightarrow> f True s | Some No \<Rightarrow> f False s | _ \<Rightarrow> s)"

definition opt_quality :: "Host \<Rightarrow> OptionMessage \<Rightarrow> CS \<Rightarrow> CS" where
  "opt_quality h om s = (case om_image_quality om of
     None \<Rightarrow> s
   | Some q \<Rightarrow>
      let image_quality = (if q = 0 then (if 0 < om_custom_image_quality om then om_custom_image_quality om else -1) else q)
      in if 0 < image_quality then emit (QosOut (EvImageQuality (cid s) image_quality (clock h))) s else s)"

definition opt_fps :: "OptionMessage \<Rightarrow> CS \<Rightarrow> CS" where
  "opt_fps om s = (if 0 < om_custom_fps om then emit (QosOut (EvCustomFps (cid s) (nat (om_custom_fps om)))) s else s)"

definition opt_decoding :: "OptionMessage \<Rightarrow> CS \<Rightarrow> CS" where
  "opt_decoding om s = (case om_supported_decoding om of
     Some q \<Rightarrow> emit (EncoderOut (Update (cid s) q)) s | None \<Rightarrow> s)"

definition opt_cursor :: "OptionMessage \<Rightarrow> CS \<Rightarrow> CS" where
  "opt_cursor om = when_set (om_show_remote_cursor om) (\<lambda>b s.
     let s1 = upd_conn (\<lambda>c. c\<lparr>show_remote_cursor := b\<rparr>) s
     in sub_service NAME_POS (show_remote_cursor (conn s1))
          (sub_service NAME_CURSOR (peer_keyboard_enabled (conn s1) \<or> show_remote_cursor (conn s1)) s1))"

definition opt_follow :: "OptionMessage \<Rightarrow> CS \<Rightarrow> CS" where
  "opt_follow om s =
     when_set (om_follow_remote_window om) (\<lambda>b s.
         sub_service NAME_WINDOW_FOCUS b (upd_conn (\<lambda>c. c\<lparr>follow_remote_window := b\<rparr>) s))
       (when_set (om_follow_remote_cursor om) (\<lambda>b. upd_conn (\<lambda>c. c\<lparr>follow_remote_cursor := b\<rparr>)) s)"

definition sub_audio :: "CS \<Rightarrow> CS" where
  "sub_audio s =
    (if is_authed_view_camera_conn (conn s)
     then (if voice_calling (conn s) \<or> \<not> audio_enabled (conn s)
           then sub_service AUDIO_NAME (audio_enabled (conn s)) s else s)
     else sub_service AUDIO_NAME (audio_enabled (conn s)) s)"

definition opt_audio :: "OptionMessage \<Rightarrow> CS \<Rightarrow> CS" where
  "opt_audio om = when_set (om_disable_audio om) (\<lambda>b s. sub_audio (upd_conn (\<lambda>c. c\<lparr>disable_audio := b\<rparr>) s))"

definition sub_file_clipboard :: "CS \<Rightarrow> CS" where
  "sub_file_clipboard s = sub_service CLIPBOARD_FILE_NAME (can_sub_file_clipboard_service s) s"

definition sub_clipboard :: "CS \<Rightarrow> CS" where
  "sub_clipboard s = sub_service CLIPBOARD_NAME (can_sub_clipboard_service s) s"

definition opt_file_transfer :: "OptionMessage \<Rightarrow> CS \<Rightarrow> CS" where
  "opt_file_transfer om = when_set (om_enable_file_transfer om) (\<lambda>b s.
     let s1 = upd_conn (\<lambda>c. c\<lparr>enable_file_transfer := b\<rparr>) s;
         s2 = (if \<not> b then emit EmptyFileClip s1 else s1)
     in sub_file_clipboard s2)"

definition opt_clipboard :: "OptionMessage \<Rightarrow> CS \<Rightarrow> CS" where
  "opt_clipboard om = when_set (om_disable_clipboard om) (\<lambda>b s.
     sub_clipboard (upd_conn (\<lambda>c. c\<lparr>disable_clipboard := b\<rparr>) s))"

definition opt_keyboard :: "OptionMessage \<Rightarrow> CS \<Rightarrow> CS" where
  "opt_keyboard om = when_set (om_disable_keyboard om) (\<lambda>b s.
     let s1 = sub_file_clipboard (sub_clipboard (upd_conn (\<lambda>c. c\<lparr>disable_keyboard := b\<rparr>) s))
     in sub_service NAME_CURSOR (peer_keyboard_enabled (conn s1) \<or> show_remote_cursor (conn s1)) s1)"

definition opt_privacy :: "Host \<Rightarrow> OptionMessage \<Rightarrow> CS \<Rightarrow> CS" where
  "opt_privacy h om s =
    (if get_version_number (lr_version (lr (conn s))) < get_version_number ''1.2.4'' \<and> keyboard (conn s)
     then (case om_privacy_mode om of
        Some Yes \<Rightarrow> turn_on_privacy h [] s | Some No \<Rightarrow> turn_off_privacy_conn h [] s | _ \<Rightarrow> s)
     else s)"

definition opt_block_input :: "OptionMessage \<Rightarrow> CS \<Rightarrow> CS" where
  "opt_block_input om s =
    (if keyboard (conn s) \<and> block_input (conn s)
     then when_set (om_block_input om) (\<lambda>b. emit (InputOut (if b then BlockOn else BlockOff))) s
     else when_set (om_block_input om) (\<lambda>b s.
        if tx (inner (conn s)) then emit (Send (BlockInputFailed b ''No permission'')) s else s) s)"

definition opt_terminal :: "OptionMessage \<Rightarrow> CS \<Rightarrow> CS" where
  "opt_terminal om = when_set (om_terminal_persistent om) (\<lambda>b s.
     emit (TerminalPersist (terminal_service_id (conn s)) b) (upd_conn (\<lambda>c. c\<lparr>terminal_persistent := b\<rparr>) s))"

definition opt_my_cursor :: "Host \<Rightarrow> OptionMessage \<Rightarrow> CS \<Rightarrow> CS" where
  "opt_my_cursor h om = when_set (om_show_my_cursor om) (\<lambda>b s.
     let s1 = upd_conn (\<lambda>c. c\<lparr>show_my_cursor := b\<rparr>) s
     in if whiteboard_supported h then emit (WhiteboardOut b) s1
        else if b then emit (Send (MessageBoxMsg ''Show my cursor''
          ''This feature is not supported on native Wayland, please install XWayland or switch to X11.'')) s1
        else s1)"

definition update_options :: "Host \<Rightarrow> OptionMessage \<Rightarrow> CS \<Rightarrow> CS" where
  "update_options h om s =
     opt_my_cursor h om (opt_terminal om (opt_block_input om (opt_privacy h om (opt_keyboard om
       (opt_clipboard om (opt_file_transfer om (opt_audio om (opt_follow om (opt_cursor om
         (when_set (om_lock_after_session_end om) (\<lambda>b. upd_conn (\<lambda>c. c\<lparr>lock_after_session_end := b\<rparr>))
           (opt_decoding om (opt_fps om (opt_quality h om s)))))))))))))"

end
