(* ===== verification/Connection_Auth.thy ===== *)
theory Connection_Auth
  imports Connection_Options
begin

text \<open>
  Admission to the host, \<open>src/src/server/connection.rs\<close>: the white list, the sessions that allow a
  peer to come back without asking again, passwords, the second factor, \<open>send_logon_response\<close> and the
  messages a peer may send before it is authorized (\<open>LoginRequest\<close>, \<open>Auth2FA\<close>, \<open>SwitchSidesResponse\<close>).
\<close>

section \<open>Sessions and lists of connections\<close>

definition SESSION_TIMEOUT :: int where "SESSION_TIMEOUT = 30000"

definition session_key :: "Connection \<Rightarrow> SessionKey" where
  "session_key c = \<lparr>sk_peer_id = my_id (lr c), sk_name = my_name (lr c), sk_session_id = session_id (lr c)\<rparr>"

definition instant_at :: "World \<Rightarrow> nat \<Rightarrow> int" where
  "instant_at w a = (if a < length (instants w) then instants w ! a else 0)"

text \<open>A session that is not there is inserted with a fresh instant.\<close>

definition update_or_insert_session :: "int \<Rightarrow> SessionKey \<Rightarrow> string option \<Rightarrow> bool option \<Rightarrow> World \<Rightarrow> World" where
  "update_or_insert_session tm key pw t w = (case hm_get (sessions w) key of
     Some ses \<Rightarrow> w\<lparr>sessions := hm_insert key (ses\<lparr>random_password := unwrap_or (random_password ses) pw,
                        tfa := unwrap_or (tfa ses) t\<rparr>) (sessions w)\<rparr>
   | None \<Rightarrow> w\<lparr>sessions := hm_insert key \<lparr>last_recv_time = length (instants w),
               random_password = unwrap_or [] pw, tfa = unwrap_or False t\<rparr> (sessions w),
             instants := instants w @ [tm]\<rparr>)"

definition set_session_2fa :: "int \<Rightarrow> SessionKey \<Rightarrow> World \<Rightarrow> World" where
  "set_session_2fa tm key w = (case hm_get (sessions w) key of
     Some ses \<Rightarrow> w\<lparr>sessions := hm_insert key (ses\<lparr>tfa := True\<rparr>) (sessions w)\<rparr>
   | None \<Rightarrow> w\<lparr>sessions := hm_insert key \<lparr>last_recv_time = length (instants w), random_password = [], tfa = True\<rparr> (sessions w),
             instants := instants w @ [tm]\<rparr>)"

definition check_remove_session :: "int \<Rightarrow> SessionKey \<Rightarrow> World \<Rightarrow> World" where
  "check_remove_session i key w =
    (if hm_get (sessions w) key \<noteq> None then
       let is_rem = list_ex (\<lambda>c. ac_conn_id c = i \<and> ac_type c = AuthRemote) (authed_conns w);
           another = list_ex (\<lambda>c. ac_conn_id c \<noteq> i \<and> ac_session_key c = key \<and> ac_type c = AuthRemote) (authed_conns w)
       in if is_rem \<or> \<not> another then w\<lparr>sessions := hm_remove key (sessions w)\<rparr> else w
     else w)"

definition expire_sessions :: "int \<Rightarrow> World \<Rightarrow> World" where
  "expire_sessions tm w =
     w\<lparr>sessions := hm_retain (\<lambda>_ ses. tm - instant_at w (last_recv_time ses) < SESSION_TIMEOUT) (sessions w)\<rparr>"

definition connection_id_new :: "int \<Rightarrow> World \<Rightarrow> World" where
  "connection_id_new i w = w\<lparr>alive_conns := alive_conns w @ [i]\<rparr>"

definition connection_id_drop :: "int \<Rightarrow> World \<Rightarrow> World" where
  "connection_id_drop i w = w\<lparr>alive_conns := filter (\<lambda>c. c \<noteq> i) (alive_conns w)\<rparr>"

definition control_permissions_id_new :: "int \<Rightarrow> u64 option \<Rightarrow> World \<Rightarrow> World" where
  "control_permissions_id_new i cp w = (case cp of
     Some p \<Rightarrow> w\<lparr>control_permissions_array := control_permissions_array w @ [(i, p)]\<rparr> | None \<Rightarrow> w)"

definition control_permissions_id_drop :: "int \<Rightarrow> u64 option \<Rightarrow> World \<Rightarrow> World" where
  "control_permissions_id_drop i cp w =
    (if cp \<noteq> None then w\<lparr>control_permissions_array := filter (\<lambda>(j, _). j \<noteq> i) (control_permissions_array w)\<rparr> else w)"

definition remote_count :: "World \<Rightarrow> nat" where
  "remote_count w = length (filter (\<lambda>c. ac_type c = AuthRemote) (authed_conns w))"

definition check_wake_lock :: "CS \<Rightarrow> CS" where
  "check_wake_lock s = emit (WakeLock (length (authed_conns (world s))) (remote_count (world s))) s"

definition eq_ignore_ascii_case :: "string \<Rightarrow> string \<Rightarrow> bool" where
  "eq_ignore_ascii_case a b \<longleftrightarrow>
     map (\<lambda>c. if is_upper c then char_of (char_code c + 32) else c) a
     = map (\<lambda>c. if is_upper c then char_of (char_code c + 32) else c) b"

definition authed_conn_id_new :: "Host \<Rightarrow> AuthConnType \<Rightarrow> CS \<Rightarrow> CS" where
  "authed_conn_id_new h ty s =
    (let req = lr (conn s);
         printer = (ty = AuthRemote \<and> get_version_number ''1.3.9'' \<le> get_version_number (lr_version req)
                    \<and> eq_ignore_ascii_case (my_platform req) ''Windows'');
         s1 = check_wake_lock (upd_world (\<lambda>w. w\<lparr>authed_conns := authed_conns w @
                [\<lparr>ac_conn_id = cid s, ac_type = ty, ac_session_key = session_key (conn s), ac_printer = printer\<rparr>]\<rparr>) s);
         s2 = (if ty = AuthRemote \<or> ty = AuthViewCamera
               then emit (QosOut (EvOpen (cid s) (get_opt (store (world s)) ''enable-abr'') (nat (clock h)))) s1 else s1)
     in upd_conn (\<lambda>c. c\<lparr>authed_conn_id := Some ty\<rparr>) s2)"

definition authed_conn_id_drop :: "Host \<Rightarrow> CS \<Rightarrow> CS" where
  "authed_conn_id_drop h s = (case authed_conn_id (conn s) of
     None \<Rightarrow> s
   | Some ty \<Rightarrow>
      let s1 = (if ty = AuthRemote \<or> ty = AuthViewCamera
                then emits [EncoderOut (Remove (cid s)), QosOut (EvClose (cid s) (nat (clock h)))] s else s);
          s2 = upd_world (\<lambda>w. w\<lparr>authed_conns := filter (\<lambda>c. ac_conn_id c \<noteq> cid s) (authed_conns w)\<rparr>) s1;
          s3 = (if remote_count (world s2) = 0 then emit RestoreScreen s2 else s2)
      in emit (WhiteboardOut False) (check_wake_lock s3))"

section \<open>Passwords\<close>

definition validate_one_password :: "Host \<Rightarrow> Connection \<Rightarrow> string \<Rightarrow> bool" where
  "validate_one_password h c pw \<longleftrightarrow>
     pw \<noteq> [] \<and> sha256 h (sha256 h (pw @ hash_salt c) @ hash_challenge c) = lr_password (lr c)"

definition validate_password :: "Host \<Rightarrow> CS \<Rightarrow> CS \<times> bool" where
  "validate_password h s =
    (let st = store (world s); c = conn s in
     if temporary_enabled st \<and> validate_one_password h c (temporary st)
     then (upd_world (update_or_insert_session (clock h) (session_key c) (Some (temporary st)) (Some False)) s, True)
     else (s, permanent_enabled st \<and> validate_one_password h c (get_permanent_password st)))"

definition is_recent_session :: "Host \<Rightarrow> bool \<Rightarrow> CS \<Rightarrow> CS \<times> bool" where
  "is_recent_session h for_tfa s =
    (let s1 = upd_world (expire_sessions (clock h)) s
     in (s1, (case hm_get (sessions (world s1)) (session_key (conn s1)) of
           None \<Rightarrow> False
         | Some ses \<Rightarrow> lr_password (lr (conn s1)) \<noteq> []
             \<and> (for_tfa \<and> tfa ses \<or> \<not> for_tfa \<and> validate_one_password h (conn s1) (random_password ses)))))"

section \<open>Answers to the peer\<close>

definition REQUIRE_2FA :: string where "REQUIRE_2FA = ''2FA Required''"

definition enable_trusted_devices :: "Store \<Rightarrow> bool" where
  "enable_trusted_devices st = option2bool ''enable-trusted-devices'' (get_opt st ''enable-trusted-devices'')"

definition send_login_error :: "string \<Rightarrow> CS \<Rightarrow> CS" where
  "send_login_error e s = emit (Send (LoginError e (e = REQUIRE_2FA \<and> enable_trusted_devices (store (world s))))) s"

definition try_start_cm :: "string \<Rightarrow> string \<Rightarrow> bool \<Rightarrow> CS \<Rightarrow> CS" where
  "try_start_cm peer_id nm authed s = emit (ToCm (CmLogin peer_id nm authed)) s"

definition try_start_cm_ipc :: "CS \<Rightarrow> CS" where
  "try_start_cm_ipc s =
    (if start_cm_ipc_para (conn s)
     then emit StartCmIpc (upd_conn (\<lambda>c. c\<lparr>start_cm_ipc_para := False\<rparr>) s) else s)"

definition update_codec_on_login :: "CS \<Rightarrow> CS" where
  "update_codec_on_login s = (case lr_option (lr (conn s)) of
     Some om \<Rightarrow> (case om_supported_decoding om of
        Some q \<Rightarrow> emit (EncoderOut (Update (cid s) q)) s | None \<Rightarrow> emit (EncoderOut (NewOnlyVP9 (cid s))) s)
   | None \<Rightarrow> emit (EncoderOut (NewOnlyVP9 (cid s))) s)"

definition on_remote_authorized :: "CS \<Rightarrow> CS" where
  "on_remote_authorized s =
    (let s1 = update_codec_on_login s
     in if get_bool_option (store (world s1)) ''allow-remove-wallpaper'' then emit RemoveWallpaper s1 else s1)"

definition init_terminal_service :: "Host \<Rightarrow> CS \<Rightarrow> CS" where
  "init_terminal_service h s =
    (if \<not> terminal_user_token (conn s) then s
     else
       let s1 = upd_conn (\<lambda>c. c\<lparr>terminal_service_id :=
               (if terminal_service_id c = [] then new_service_id h else terminal_service_id c),
               terminal_generic_service := True\<rparr>) s
       in emit (TerminalStart (terminal_service_id (conn s1)) (terminal_persistent (conn s1))) s1)"

definition read_dir_req :: "string \<Rightarrow> bool \<Rightarrow> CS \<Rightarrow> CS" where
  "read_dir_req dir hidden = emit (ToCm (CmFS (ReadDir dir hidden)))"

definition auth_conn_type :: "Connection \<Rightarrow> AuthConnType" where
  "auth_conn_type c =
    (if file_transfer c \<noteq> None then AuthFileTransfer
     else if port_forward_socket c then AuthPortForward
     else if view_camera c then AuthViewCamera
     else if terminal c then AuthTerminal else AuthRemote)"

text \<open>The part of \<open>send_logon_response\<close> that prepares the response by the kind of the connection; the
  flag tells whether the monitor services are to be subscribed.\<close>

definition logon_prepare :: "Host \<Rightarrow> CS \<Rightarrow> CS \<times> bool" where
  "logon_prepare h s =
    (let c = conn s in
     if file_transfer c \<noteq> None \<or> terminal c then (emit (Send LoginOk) s, False)
     else if view_camera c then (emit (Send LoginOk) (update_codec_on_login s), False)
     else case login_displays h of
        None \<Rightarrow> (emit (Send LoginOk) (on_remote_authorized s), True)
      | Some e \<Rightarrow> (emit (Send (LoginError e False)) (on_remote_authorized s), False))"

definition take_login_options :: "Host \<Rightarrow> CS \<Rightarrow> CS" where
  "take_login_options h s = (case options_in_login (conn s) of
     None \<Rightarrow> s
   | Some om \<Rightarrow> update_options h om (upd_conn (\<lambda>c. c\<lparr>options_in_login := None\<rparr>) s))"

definition logon_start :: "Host \<Rightarrow> bool \<Rightarrow> CS \<Rightarrow> CS" where
  "logon_start h sub_service_flag s = (case file_transfer (conn s) of
     Some (dir, hidden) \<Rightarrow> read_dir_req (if dir \<noteq> [] \<and> is_dir h dir then dir else []) hidden s
   | None \<Rightarrow>
      if terminal (conn s) then init_terminal_service h (upd_conn (\<lambda>c. c\<lparr>keyboard := False\<rparr>) s)
      else if view_camera (conn s) then
        emit (Send (PermissionInfo PermKeyboard False))
          (upd_conn (\<lambda>c. c\<lparr>keyboard := False\<rparr>) (try_sub_camera_displays h s))
      else if sub_service_flag then try_sub_monitor_services h s else s)"

text \<open>Becoming authorized: the flag, the entry among the authorized connections and the shared instant
  of the session.\<close>

definition become_authorized :: "Host \<Rightarrow> CS \<Rightarrow> CS" where
  "become_authorized h s =
    (let s1 = authed_conn_id_new h (auth_conn_type (conn s)) (upd_conn (\<lambda>c. c\<lparr>authorized := True\<rparr>) s)
     in upd_conn (\<lambda>c. c\<lparr>session_last_recv_time :=
          map_option last_recv_time (hm_get (sessions (world s1)) (session_key c))\<rparr>) s1)"

definition send_logon_response :: "Host \<Rightarrow> CS \<Rightarrow> CS" where
  "send_logon_response h s =
    (if authorized (conn s) then s
     else
       let (s1, recent) = (if require_2fa (conn s) \<noteq> None then is_recent_session h True s else (s, False))
       in if require_2fa (conn s) \<noteq> None \<and> \<not> recent \<and> \<not> from_switch (conn s1)
          then send_login_error REQUIRE_2FA s1
          else
            let s2 = become_authorized h s1 in
            if port_forward_socket (conn s2) then emit (Send LoginOk) s2
            else if is_remote_conn (conn s2) \<and> display_server_error h \<noteq> []
            then emit (Send (LoginError (display_server_error h) False)) s2
            else
              let (s3, sub) = logon_prepare h s2
              in logon_start h sub (take_login_options h s3))"

section \<open>Opening a connection\<close>

definition whitelist :: "Store \<Rightarrow> string list" where
  "whitelist st = filter (\<lambda>x. x \<noteq> []) (split_on CHR '','' (get_opt st ''whitelist''))"

definition check_whitelist :: "Host \<Rightarrow> SocketAddr \<Rightarrow> CS \<Rightarrow> CS \<times> bool" where
  "check_whitelist h addr s =
    (let wl = whitelist (store (world s)) in
     if wl \<noteq> [] \<and> ''0.0.0.0'' \<notin> set wl \<and> \<not> list_ex (\<lambda>x. cidr_contains h x addr) wl
     then (emit (AlarmOut IpWhitelist) (send_login_error ''Your ip is blocked by the peer'' s), False)
     else (s, True))"

definition on_open :: "Host \<Rightarrow> SocketAddr \<Rightarrow> CS \<Rightarrow> CS \<times> bool" where
  "on_open h addr s = (case check_whitelist h addr s of
     (s1, False) \<Rightarrow> (s1, False)
   | (s1, True) \<Rightarrow>
      if is_server h \<and> get_opt (store (world s1)) ''allow-only-conn-window-open'' = ''Y'' \<and> \<not> main_window_open h
      then (send_login_error ''The main window is not open'' s1, False)
      else (emit (Send (HashMsg (hash_salt (conn s1)) (hash_challenge (conn s1))))
              (upd_conn (\<lambda>c. c\<lparr>ip := ip_to_string addr\<rparr>) s1), True))"

definition perm_notice :: "Perm \<Rightarrow> bool \<Rightarrow> CS \<Rightarrow> CS" where
  "perm_notice p enabled s = (if enabled then s else emit (Send (PermissionInfo p False)) s)"

text \<open>The value \<open>Connection::start\<close> builds, with the salt and challenge drawn.\<close>

definition connection_new :: "Host \<Rightarrow> ConnInner \<Rightarrow> u64 option \<Rightarrow> string \<Rightarrow> string \<Rightarrow> Store \<Rightarrow> Connection" where
  "connection_new h inn cp salt1 challenge st =
    \<lparr>inner = inn, display_idx = primary_display h, hash_salt = salt1, hash_challenge = challenge,
     conn_read_jobs = [], file_transfer = None, view_camera = False, terminal = False,
     port_forward_socket = False, port_forward_address = [], authorized = False,
     require_2fa = get_2fa h (get_opt st ''2fa''),
     keyboard = permission st ''enable-keyboard'' cp, clipboard = permission st ''enable-clipboard'' cp,
     audio = permission st ''enable-audio'' cp, file_perm = permission st ''enable-file-transfer'' cp,
     restart = permission st ''enable-remote-restart'' cp, recording = permission st ''enable-record-session'' cp,
     block_input = permission st ''enable-block-input'' cp, control_permissions = cp,
     last_test_delay = None, network_delay = 0, lock_after_session_end = False, show_remote_cursor = False,
     ip = [], disable_keyboard = False, show_my_cursor = False, disable_clipboard = False,
     disable_audio = False, enable_file_transfer = False, audio_sender = False, video_ack_required = False,
     lr = login_default, peer_argb = 0, session_last_recv_time = None, chat_unanswered = False,
     file_transferred = False, from_switch = False, voice_call_request_timestamp = None, voice_calling = False,
     options_in_login = None, pressed_modifiers = [], closed = False, start_cm_ipc_para = True,
     auto_disconnect_timer = None, authed_conn_id = None,
     file_remove_log_control = \<lparr>frl_conn_id = conn_id inn, frl_instant = clock h, removed_files = [], removed_dirs = []\<rparr>,
     services_subed = False, delayed_read_dir = None, follow_remote_cursor = False,
     follow_remote_window = False, multi_ui_session = False, printer_data = [], cm_read_job_ids = [],
     terminal_service_id = [], terminal_persistent = False, terminal_user_token = False,
     terminal_generic_service = False\<rparr>"

text \<open>\<open>Connection::start\<close> up to its loop; the flag tells whether the loop is entered.\<close>

definition conn_start :: "Host \<Rightarrow> SocketAddr \<Rightarrow> ConnInner \<Rightarrow> u64 option \<Rightarrow> nat list \<Rightarrow> nat list \<Rightarrow> World \<Rightarrow> CS \<times> bool" where
  "conn_start h addr inn cp rnd1 rnd2 w =
    (let w1 = control_permissions_id_new (conn_id inn) cp (connection_id_new (conn_id inn) w);
         (st, salt1) = get_salt (env h) rnd1 (store w1);
         w2 = w1\<lparr>store := st\<rparr>;
         c = connection_new h inn cp salt1 (get_auto_password_with_chars rnd2 6 CHARS) st
     in case on_open h (try_into_v4 addr) \<lparr>conn = c, world = w2, outs = []\<rparr> of
          (s, False) \<Rightarrow> (upd_conn (\<lambda>c. c\<lparr>closed := True\<rparr>) s, False)
        | (s, True) \<Rightarrow>
           (perm_notice PermBlockInput (block_input c) (perm_notice PermRecording (recording c)
             (perm_notice PermRestart (restart c) (perm_notice PermFile (file_perm c)
               (perm_notice PermAudio (audio c) (perm_notice PermClipboard (clipboard c)
                 (perm_notice PermKeyboard (keyboard c) s)))))), True))"

section \<open>Login requests\<close>

definition str2color :: "string \<Rightarrow> u32 \<Rightarrow> u32" where
  "str2color txt alpha =
    (let hash = fold (\<lambda>b h. word_of_nat (char_code b) + (push_bit 5 h - h)) txt (0 :: u32)
     in push_bit 24 alpha OR ((hash mod 16777216) AND 0xFF7FFF))"

definition trusted_now :: "Host \<Rightarrow> LoginRequest \<Rightarrow> TrustedDevice list \<Rightarrow> bool" where
  "trusted_now h req devices = (case find (\<lambda>d. hwid d = lr_hwid req) devices of
     None \<Rightarrow> False
   | Some d \<Rightarrow> \<not> outdate (env h) d \<and> td_id d = my_id req \<and> td_name d = my_name req \<and> td_platform d = my_platform req)"

definition handle_login_request_without_validation :: "Host \<Rightarrow> LoginRequest \<Rightarrow> CS \<Rightarrow> CS" where
  "handle_login_request_without_validation h req s =
    (let s1 = upd_conn (\<lambda>c. c\<lparr>lr := req, peer_argb := str2color (my_id req @ my_platform req) 0xff,
             options_in_login := (case lr_option req of Some om \<Rightarrow> Some om | None \<Rightarrow> options_in_login c)\<rparr>) s;
         s2 = (if require_2fa (conn s1) \<noteq> None \<and> lr_hwid req \<noteq> [] \<and> enable_trusted_devices (store (world s1))
               then let (st, devices) = get_trusted_devices (env h) (store (world s1));
                        s3 = upd_world (\<lambda>w. w\<lparr>store := st\<rparr>) s1
                    in if trusted_now h req devices then upd_conn (\<lambda>c. c\<lparr>require_2fa := None\<rparr>) s3 else s3
               else s1)
     in upd_conn (\<lambda>c. c\<lparr>video_ack_required := lr_video_ack_required req\<rparr>) s2)"

text \<open>The kinds of connection a login asks for.  None goes on, Some is the value returned.\<close>

definition refuse :: "string \<Rightarrow> CS \<Rightarrow> CS \<times> bool option" where
  "refuse e s = (send_login_error e s, Some False)"

definition login_terminal :: "Host \<Rightarrow> string \<Rightarrow> CS \<Rightarrow> CS" where
  "login_terminal h sid s =
     upd_conn (\<lambda>c. c\<lparr>terminal := True,
       terminal_persistent := (case options_in_login c of
          Some om \<Rightarrow> om_terminal_persistent om = Some Yes | None \<Rightarrow> terminal_persistent c),
       terminal_user_token := True,
       terminal_service_id := (case service_specified_user h sid of
          Some is_user \<Rightarrow> if is_user then new_service_id h else sid | None \<Rightarrow> sid)\<rparr>) s"

definition login_port_forward :: "Host \<Rightarrow> string \<Rightarrow> int \<Rightarrow> CS \<Rightarrow> CS \<times> bool option" where
  "login_port_forward h host port s =
    (let is_rdp = (host = ''RDP'' \<and> port = 0);
         host1 = (if is_rdp \<or> host = [] then ''localhost'' else host);
         addr = host1 @ '':'' @ show_int (if is_rdp then 3389 else port);
         s1 = emit (TcpConnect addr) (upd_conn (\<lambda>c. c\<lparr>port_forward_address := addr\<rparr>) s)
     in if tcp_connect h addr then (upd_conn (\<lambda>c. c\<lparr>port_forward_socket := True\<rparr>) s1, None)
        else refuse (''Failed to access remote '' @ (if is_rdp then ''RDP'' else addr)
               @ '', please make sure if it is open'') s1)"

definition login_kind :: "Host \<Rightarrow> LoginRequest \<Rightarrow> CS \<Rightarrow> CS \<times> bool option" where
  "login_kind h req s =
    (let perm = (\<lambda>opt. permission (store (world s)) opt (control_permissions (conn s)))
     in case lr_union req of
          LoginFileTransfer dir hidden \<Rightarrow>
            if \<not> perm ''enable-file-transfer'' then refuse ''No permission of file transfer'' s
            else (upd_conn (\<lambda>c. c\<lparr>file_transfer := Some (dir, hidden)\<rparr>) s, None)
        | LoginViewCamera \<Rightarrow>
            if \<not> perm ''enable-camera'' then refuse ''No permission of viewing camera'' s
            else (upd_conn (\<lambda>c. c\<lparr>view_camera := True\<rparr>) s, None)
        | LoginTerminal sid \<Rightarrow>
            if \<not> perm ''enable-terminal'' then refuse ''No permission of terminal'' s
            else (login_terminal h sid s, None)
        | LoginPortForward host port \<Rightarrow>
            if \<not> perm ''enable-tunnel'' then refuse ''No permission of IP tunneling'' s
            else login_port_forward h host port s
        | LoginDefault \<Rightarrow>
            if is_in_privacy_mode (privacy_mode (world s))
            then refuse ''Someone turns on privacy mode, exit'' s else (s, None))"

definition LOGIN_MSG_DESKTOP_SESSION_NOT_READY :: string where
  "LOGIN_MSG_DESKTOP_SESSION_NOT_READY = ''Desktop session not ready''"

definition desktop_error :: "Host \<Rightarrow> LoginRequest \<Rightarrow> string" where
  "desktop_error h req =
    (if headless_allowed h
     then (case os_login req of Some (u, p) \<Rightarrow> try_start_desktop h u p | None \<Rightarrow> try_start_desktop h [] [])
     else [])"

definition wait_desktop_cm_ready :: "Host \<Rightarrow> CS \<Rightarrow> CS" where
  "wait_desktop_cm_ready h s = (if headless h then emit NotifyDesktopReady s else s)"

text \<open>The two maps of \<open>LOGIN_FAILURES\<close>: 0 for passwords, 1 for the second factor.\<close>

definition check_failure_conn :: "Host \<Rightarrow> bool \<Rightarrow> CS \<Rightarrow> CS \<times> (failure \<times> int) \<times> bool" where
  "check_failure_conn h second s =
    (let m = (if second then snd else fst) (login_failures (world s)) in
     case check_failure (ip (conn s)) (clock h) m of
       (f, None) \<Rightarrow> (s, f, True)
     | (f, Some (msg, alarm)) \<Rightarrow> (emit (AlarmOut alarm) (send_login_error msg s), f, False))"

definition update_failure_conn :: "failure \<times> int \<Rightarrow> bool \<Rightarrow> bool \<Rightarrow> CS \<Rightarrow> CS" where
  "update_failure_conn f rem second s =
     upd_world (\<lambda>w. w\<lparr>login_failures :=
       (if second then (fst (login_failures w), update_failure (ip (conn s)) f rem (snd (login_failures w)))
        else (update_failure (ip (conn s)) f rem (fst (login_failures w)), snd (login_failures w)))\<rparr>) s"

definition login_ok :: "Host \<Rightarrow> LoginRequest \<Rightarrow> string \<Rightarrow> CS \<Rightarrow> CS" where
  "login_ok h req err s =
    (if err = [] then
       let s1 = send_logon_response h (wait_desktop_cm_ready h s)
       in try_start_cm (my_id req) (my_name req) (authorized (conn s1)) s1
     else send_login_error err s)"

definition login_password :: "Host \<Rightarrow> LoginRequest \<Rightarrow> string \<Rightarrow> CS \<Rightarrow> CS" where
  "login_password h req err s = (case check_failure_conn h False s of
     (s1, f, False) \<Rightarrow> s1
   | (s1, f, True) \<Rightarrow> (case validate_password h s1 of
       (s2, False) \<Rightarrow>
         (let s3 = update_failure_conn f False False s2 in
          if err = [] then try_start_cm (my_id req) (my_name req) False (send_login_error ''Wrong Password'' s3)
          else send_login_error ''Desktop session not ready, password wrong'' s3)
     | (s2, True) \<Rightarrow> login_ok h req err (update_failure_conn f True False s2)))"

definition login_check :: "Host \<Rightarrow> LoginRequest \<Rightarrow> string \<Rightarrow> CS \<Rightarrow> CS \<times> bool" where
  "login_check h req err s =
    (let st = store (world s); is_logon = is_prelogin h \<or> is_locked h in
     if \<not> is_ip_str (lr_username req) \<and> \<not> is_domain_port_str (lr_username req)
        \<and> lr_username req \<noteq> cfg_id (config st)
     then (send_login_error ''Offline'' s, False)
     else if approve_mode st = ApproveClick
             \<and> \<not> (get_builtin_option st ''allow-logon-screen-password'' = ''Y'' \<and> is_logon)
          \<or> approve_mode st = ApproveBoth \<and> \<not> has_valid_password st
     then (let s1 = try_start_cm (my_id req) (my_name req) False s
           in (if get_version_number ''1.2.0'' \<le> get_version_number (lr_version req)
               then send_login_error ''No Password Access'' s1 else s1), True)
     else (case is_recent_session h False s of
         (s1, True) \<Rightarrow> (login_ok h req err s1, True)
       | (s1, False) \<Rightarrow>
          if lr_password req = [] then
            (if err = [] then try_start_cm (my_id req) (my_name req) False s1
             else send_login_error ''Desktop session not ready, password empty'' s1, True)
          else (login_password h req err s1, True)))"

definition on_login :: "Host \<Rightarrow> LoginRequest \<Rightarrow> CS \<Rightarrow> CS \<times> bool" where
  "on_login h req s =
    (let s1 = handle_login_request_without_validation h req s in
     if authorized (conn s1) then (s1, True)
     else case login_kind h req s1 of
       (s2, Some keep) \<Rightarrow> (s2, keep)
     | (s2, None) \<Rightarrow>
        let s3 = try_start_cm_ipc s2; err = desktop_error h req
        in if err \<noteq> [] \<and> err \<noteq> LOGIN_MSG_DESKTOP_SESSION_NOT_READY then (send_login_error err s3, True)
           else login_check h req err s3)"

definition on_auth_2fa :: "Host \<Rightarrow> string \<Rightarrow> string \<Rightarrow> CS \<Rightarrow> CS" where
  "on_auth_2fa h code hw s = (case check_failure_conn h True s of
     (s1, f, False) \<Rightarrow> s1
   | (s1, f, True) \<Rightarrow> (case require_2fa (conn s1) of
       None \<Rightarrow> s1
     | Some totp \<Rightarrow> (case totp_check h totp code of
         None \<Rightarrow> s1
       | Some False \<Rightarrow> send_login_error ''Wrong 2FA Code'' (update_failure_conn f False True s1)
       | Some True \<Rightarrow>
          let s2 = upd_conn (\<lambda>c. c\<lparr>require_2fa := None\<rparr>) (update_failure_conn f True True s1);
              s3 = send_logon_response h (upd_world (set_session_2fa (clock h) (session_key (conn s2))) s2);
              req = lr (conn s3);
              s4 = try_start_cm (my_id req) (my_name req) (authorized (conn s3)) s3
          in if hw \<noteq> [] \<and> enable_trusted_devices (store (world s4))
             then upd_world (\<lambda>w. w\<lparr>store := add_trusted_device (env h)
                    \<lparr>hwid = hw, td_time = now (env h), td_id = my_id req, td_name = my_name req,
                     td_platform = my_platform req\<rparr> (store w)\<rparr>) s4
             else s4)))"

definition insert_switch_sides_uuid :: "Host \<Rightarrow> string \<Rightarrow> string \<Rightarrow> World \<Rightarrow> World" where
  "insert_switch_sides_uuid h peer uuid w = w\<lparr>switch_sides_uuid := hm_insert peer (clock h, uuid) (switch_sides_uuid w)\<rparr>"

definition on_switch_sides :: "Host \<Rightarrow> LoginRequest option \<Rightarrow> string \<Rightarrow> CS \<Rightarrow> CS" where
  "on_switch_sides h req_opt uuid_bytes s = (case req_opt of
     None \<Rightarrow> s
   | Some req \<Rightarrow>
      let s1 = handle_login_request_without_validation h req s;
          live = hm_retain (\<lambda>_ v. clock h - fst v < 10000) (switch_sides_uuid (world s1));
          s2 = upd_world (\<lambda>w. w\<lparr>switch_sides_uuid := hm_remove (my_id req) live\<rparr>) s1
      in case (uuid_from_slice h uuid_bytes, hm_get live (my_id req)) of
           (Some uuid, Some (_, uuid_old)) \<Rightarrow>
             if uuid = uuid_old then
               let s3 = send_logon_response h (upd_conn (\<lambda>c. c\<lparr>from_switch := True\<rparr>) s2)
               in try_start_cm_ipc (try_start_cm (my_id req) (my_name req) (authorized (conn s3)) s3)
             else s2
         | _ \<Rightarrow> s2)"

end
