(* ===== verification/Connection_Message.thy ===== *)
theory Connection_Message
  imports Connection_Auth
begin

text \<open>
  What an authorized peer may ask for: the dispatch of \<open>Connection::on_message\<close> in
  \<open>src/src/server/connection.rs\<close> with the handlers it calls.  A result None is a panic of the
  connection's task; the flag tells whether the loop of the connection goes on.
\<close>

section \<open>Closing\<close>

definition on_close :: "bool \<Rightarrow> CS \<Rightarrow> CS" where
  "on_close lock s =
    (if closed (conn s) then s
     else
       let s1 = emit (VoiceDevice False) (upd_conn (\<lambda>c. c\<lparr>closed := True\<rparr>) s);
           s2 = (if lock \<and> lock_after_session_end (conn s1) \<and> keyboard (conn s1) then emit LockScreen s1 else s1);
           s3 = emit (ToCm (if chat_unanswered (conn s2) \<or> file_transferred (conn s2) then CmDisconnected else CmClose)) s2
       in upd_conn (\<lambda>c. c\<lparr>port_forward_socket := False\<rparr>) s3)"

definition remove_session :: "CS \<Rightarrow> CS" where
  "remove_session s = upd_world (check_remove_session (cid s) (session_key (conn s))) s"

definition send_close_reason_no_retry :: "string \<Rightarrow> CS \<Rightarrow> CS" where
  "send_close_reason_no_retry reason s =
     remove_session (emit (Send (CloseReasonMsg (if reason = [] then ''Closed manually by the peer'' else reason))) s)"

section \<open>Input\<close>

definition MOUSE_TYPE_MASK :: int where "MOUSE_TYPE_MASK = 7"
definition MOUSE_TYPE_UP :: int where "MOUSE_TYPE_UP = 2"
definition MOUSE_BUTTON_LEFT :: int where "MOUSE_BUTTON_LEFT = 1"

definition is_left_up :: "MouseEvent \<Rightarrow> bool" where
  "is_left_up evt \<longleftrightarrow> drop_bit 3 (mouse_mask evt) = MOUSE_BUTTON_LEFT
     \<and> mouse_mask evt AND MOUSE_TYPE_MASK = MOUSE_TYPE_UP"

text \<open>The numbers of the control keys in \<open>message.proto\<close>.\<close>

definition is_enter :: "KeyEvent \<Rightarrow> bool" where
  "is_enter evt = (case key_union evt of KeyControl ck \<Rightarrow> ck = 27 \<or> ck = 72 | _ \<Rightarrow> False)"

definition is_modifier :: "KeyEvent \<Rightarrow> bool" where
  "is_modifier evt = (case key_union evt of
     KeyControl v \<Rightarrow> v = 1 \<or> v = 29 \<or> v = 4 \<or> v = 23 \<or> v = 75 \<or> v = 73 \<or> v = 74 \<or> v = 64
   | _ \<Rightarrow> False)"

definition on_mouse :: "Host \<Rightarrow> MouseEvent \<Rightarrow> CS \<Rightarrow> CS" where
  "on_mouse h me s =
    (if is_authed_view_camera_conn (conn s) then s
     else
       let s1 = (if peer_keyboard_enabled (conn s) then
                   emit (InputOut (InMouse me True (show_my_cursor (conn s))))
                     (upd_world (\<lambda>w. if is_left_up me then w\<lparr>click_time := now (env h)\<rparr>
                                      else w\<lparr>mouse_move_time := now (env h)\<rparr>) s)
                 else if show_my_cursor (conn s) then emit (InputOut (InMouse me False True)) s else s)
       in update_auto_disconnect_timer h s1)"

definition on_pointer :: "Host \<Rightarrow> nat \<Rightarrow> CS \<Rightarrow> CS" where
  "on_pointer h p s =
    (if is_authed_view_camera_conn (conn s) then s
     else update_auto_disconnect_timer h
       (if peer_keyboard_enabled (conn s)
        then emit (InputOut (InPointer p)) (upd_world (\<lambda>w. w\<lparr>mouse_move_time := now (env h)\<rparr>) s) else s))"

definition chr_of :: "KeyEvent \<Rightarrow> nat" where
  "chr_of me = (case key_union me of KeyChr c \<Rightarrow> c | _ \<Rightarrow> 0)"

definition modifier_key :: "Host \<Rightarrow> KeyEvent \<Rightarrow> nat option" where
  "modifier_key h me =
    (case (case key_mode me of
             Some KMap \<Rightarrow> Some (keycode_to_rdev_key h (chr_of me))
           | Some KTranslate \<Rightarrow> (case key_union me of KeyChr c \<Rightarrow> Some (keycode_to_rdev_key h (c mod 65536)) | _ \<Rightarrow> None)
           | _ \<Rightarrow> None) of
       Some k \<Rightarrow> if rdev_is_modifier h k then Some k else None
     | None \<Rightarrow> None)"

text \<open>On Linux every down is a press; \<open>pressed_modifiers\<close> is a set, kept as a list.\<close>

definition track_modifier :: "nat option \<Rightarrow> bool \<Rightarrow> Connection \<Rightarrow> Connection" where
  "track_modifier key is_press c = (case key of
     None \<Rightarrow> c
   | Some k \<Rightarrow> c\<lparr>pressed_modifiers := (if is_press then List.insert k (pressed_modifiers c)
                                       else filter (\<lambda>x. x \<noteq> k) (pressed_modifiers c))\<rparr>)"

definition on_key :: "Host \<Rightarrow> KeyEvent \<Rightarrow> CS \<Rightarrow> CS" where
  "on_key h me s =
    (if is_authed_view_camera_conn (conn s) then s
     else update_auto_disconnect_timer h
       (if peer_keyboard_enabled (conn s) then
          let key = modifier_key h me;
              is_press = ((key_press me \<or> key_down me) \<and> \<not> (is_modifier me \<or> key \<noteq> None));
              s1 = upd_world (\<lambda>w. (if is_enter me then w\<lparr>click_time := now (env h)\<rparr> else w)
                                    \<lparr>mouse_move_time := now (env h)\<rparr>) s;
              s2 = upd_conn (track_modifier key is_press) s1;
              typed = (case key_union me of KeyUnicode _ \<Rightarrow> True | KeySeq _ \<Rightarrow> True | _ \<Rightarrow> False)
          in emit (InputOut (InKey me (is_press \<and> \<not> typed))) s2
        else s))"

section \<open>Clipboard\<close>

definition is_support_file_copy_paste :: "string \<Rightarrow> bool" where
  "is_support_file_copy_paste ver \<longleftrightarrow> get_version_number ''1.3.8'' \<le> get_version_number ver"

definition on_clipboard :: "nat list \<Rightarrow> CS \<Rightarrow> CS" where
  "on_clipboard cbs s = (if clipboard (conn s) then emit (SetClipboard cbs) s else s)"

definition on_cliprdr :: "Host \<Rightarrow> nat \<Rightarrow> CS \<Rightarrow> CS" where
  "on_cliprdr h clip s =
    (if is_support_file_copy_paste (lr_version (lr (conn s)))
     then emits (ServeFileClip clip # map (Send \<circ> CliprdrReply) (serve_clip_messages h clip)) s else s)"

section \<open>Files\<close>

text \<open>\<open>FileRemoveLogControl\<close>.  Paths are compared by their components.\<close>

definition path_parts :: "string \<Rightarrow> string list" where
  "path_parts p = (if starts_with ''/'' p then [''/''] else if p = ''.'' \<or> starts_with ''./'' p then [''.''] else []) @ comps p"

definition direct_child :: "string \<Rightarrow> string \<Rightarrow> bool" where
  "direct_child par child \<longleftrightarrow> path_parts child \<noteq> [] \<and> path_parts child \<noteq> [''/'']
     \<and> butlast (path_parts child) = path_parts par"

definition on_remove_file :: "Host \<Rightarrow> RemovedFile \<Rightarrow> FileRemoveLogControl \<Rightarrow> FileRemoveLogControl" where
  "on_remove_file h f l = l\<lparr>frl_instant := clock h, removed_files := removed_files l @ [f]\<rparr>"

definition on_remove_dir :: "Host \<Rightarrow> RemovedFile \<Rightarrow> FileRemoveLogControl \<Rightarrow> FileRemoveLogControl" where
  "on_remove_dir h d l =
    (let kept = filter (\<lambda>x. \<not> direct_child (rm_path d) (rm_path x)) (removed_dirs l)
     in l\<lparr>frl_instant := clock h,
          removed_files := filter (\<lambda>f. \<not> direct_child (rm_path f) (rm_path d)) (removed_files l),
          removed_dirs := (if list_ex (\<lambda>x. direct_child (rm_path x) (rm_path d)) kept then kept else kept @ [d])\<rparr>)"

definition frl_on_timer :: "Host \<Rightarrow> FileRemoveLogControl \<Rightarrow> FileRemoveLogControl \<times> CmData list" where
  "frl_on_timer h l =
    (if (clock h - frl_instant l) div 1000 < 1 then (l, [])
     else (l\<lparr>removed_files := [], removed_dirs := []\<rparr>,
       map (\<lambda>f. CmFileLog (ActionLog ''remove'' (rm_id f) (frl_conn_id l) (rm_path f) False)) (removed_files l)
       @ map (\<lambda>d. CmFileLog (ActionLog ''remove'' (rm_id d) (frl_conn_id l) (rm_path d) True)) (removed_dirs l)))"

definition send_fs :: "FSReq \<Rightarrow> CS \<Rightarrow> CS" where
  "send_fs r = emit (ToCm (CmFS r))"

definition can_enable_overwrite_detection :: "int \<Rightarrow> bool" where
  "can_enable_overwrite_detection version \<longleftrightarrow> get_version_number ''1.1.10'' \<le> version"

definition process_new_read_job :: "TransferJob \<Rightarrow> string \<Rightarrow> CS \<Rightarrow> CS" where
  "process_new_read_job job path s =
     upd_conn (\<lambda>c. c\<lparr>conn_read_jobs := conn_read_jobs c @ [job\<lparr>is_remote := True, job_conn_id := cid s\<rparr>]\<rparr>)
       (emit (Send (FileReply (new_dir (job_id job) path (files job)))) s)"

definition conn_new_read :: "Host \<Rightarrow> int \<Rightarrow> JobType \<Rightarrow> DataSource \<Rightarrow> int \<Rightarrow> bool \<Rightarrow> bool \<Rightarrow> TransferJob option" where
  "conn_new_read h i ty ds n hidden od = (case ds of
     FilePath p \<Rightarrow> (case file_tree h p of None \<Rightarrow> None | Some t \<Rightarrow> new_read i ty [] ds t n hidden False od)
   | MemoryCursor _ \<Rightarrow> new_read i ty [] ds Gone n hidden False od)"

definition create_and_start_read_job :: "Host \<Rightarrow> int \<Rightarrow> JobType \<Rightarrow> DataSource \<Rightarrow> int \<Rightarrow> bool \<Rightarrow> bool \<Rightarrow> string \<Rightarrow> bool \<Rightarrow> CS \<Rightarrow> CS" where
  "create_and_start_read_job h i ty ds n hidden od path check_file_limit s =
    (case conn_new_read h i ty ds n hidden od of
       None \<Rightarrow> emit (Send (FileReply (new_error i ''failed to read'' 0))) s
     | Some job \<Rightarrow>
        (case (if check_file_limit then check_file_count_limit (max_files_option h) (length (files job)) else Ok ()) of
           Err msg \<Rightarrow> emit (Send (FileReply (new_error i msg (-1)))) s
         | _ \<Rightarrow> process_new_read_job job path s))"

definition send_action :: "Host \<Rightarrow> int \<Rightarrow> string \<Rightarrow> int \<Rightarrow> bool \<Rightarrow> JobType \<Rightarrow> CS \<Rightarrow> CS" where
  "send_action h i path n hidden ty s =
    (let od = can_enable_overwrite_detection (get_version_number (lr_version (lr (conn s))));
         transferred = upd_conn (\<lambda>c. c\<lparr>file_transferred := True\<rparr>)
     in case ty of
          Generic \<Rightarrow>
            if need_fs_cm_send_files h
            then transferred (send_fs (ReadFile path i n hidden (cid s) od)
                   (upd_conn (\<lambda>c. c\<lparr>cm_read_job_ids := List.insert i (cm_read_job_ids c)\<rparr>) s))
            else transferred (create_and_start_read_job h i ty (FilePath path) n hidden od path True s)
        | Printer \<Rightarrow>
            (case find (\<lambda>(p, _). p = path) (printer_data (conn s)) of
               None \<Rightarrow> s
             | Some (p, payload) \<Rightarrow>
                transferred (create_and_start_read_job h i ty (MemoryCursor payload) n hidden True path False
                  (upd_conn (\<lambda>c. c\<lparr>printer_data := remove1 (p, payload) (printer_data c)\<rparr>) s))))"

definition all_files_action :: "Host \<Rightarrow> int \<Rightarrow> string \<Rightarrow> bool \<Rightarrow> CS \<Rightarrow> CS" where
  "all_files_action h i path hidden s =
    (if need_fs_cm_send_files h then send_fs (ReadAllFiles path i hidden (cid s)) s
     else case (case file_tree h path of None \<Rightarrow> None | Some t \<Rightarrow> read_dir_recursive t [] hidden) of
       None \<Rightarrow> emit (Send (FileReply (new_error i ''failed to read'' (-1)))) s
     | Some fs \<Rightarrow> (case check_file_count_limit (max_files_option h) (length fs) of
          Err msg \<Rightarrow> emit (Send (FileReply (new_error i msg (-1)))) s
        | _ \<Rightarrow> emit (Send (FileReply (new_dir i path fs))) s))"

definition cancel_action :: "int \<Rightarrow> CS \<Rightarrow> CS" where
  "cancel_action i s =
    (let s1 = send_fs (CancelRead i (cid s))
                (upd_conn (\<lambda>c. c\<lparr>cm_read_job_ids := filter (\<lambda>x. x \<noteq> i) (cm_read_job_ids c)\<rparr>) (send_fs (CancelWrite i) s))
     in case remove_job i (conn_read_jobs (conn s1)) of
          (js, Some job) \<Rightarrow> emit (ToCm (CmFileLog (JobLogs [LogOf i False True []])))
                             (upd_conn (\<lambda>c. c\<lparr>conn_read_jobs := js\<rparr>) s1)
        | (_, None) \<Rightarrow> s1)"

definition confirm_action :: "Host \<Rightarrow> ConfirmRequest \<Rightarrow> CS \<Rightarrow> CS option" where
  "confirm_action h r s =
    (if get_job (cr_id r) (conn_read_jobs (conn s)) \<noteq> None
     then map_option (\<lambda>js. upd_conn (\<lambda>c. c\<lparr>conn_read_jobs := js\<rparr>) s)
            (confirm_job (cr_id r) (\<lambda>_. r) (file_system h) (conn_read_jobs (conn s)))
     else Some (if cr_id r \<in> set (cm_read_job_ids (conn s))
       then send_fs (SendConfirmForRead (cr_id r) (cr_file_num r)
              (case cr_union r of Skip b \<Rightarrow> b | _ \<Rightarrow> False) (case cr_union r of OffsetBlk off \<Rightarrow> off | _ \<Rightarrow> 0) (cid s)) s
       else send_fs (SendConfirm (Some r)) s))"

text \<open>With one-way file transfer, the actions that are answered with an error.\<close>

definition one_way_job :: "FileAction \<Rightarrow> int option" where
  "one_way_job fa = (case fa of
     FaSend i _ _ _ _ \<Rightarrow> Some i | FaRemoveFile i _ _ \<Rightarrow> Some i | FaRename i _ _ \<Rightarrow> Some i
   | FaCreate i _ \<Rightarrow> Some i | FaRemoveDir i _ _ \<Rightarrow> Some i | _ \<Rightarrow> None)"

definition do_file_action :: "Host \<Rightarrow> FileAction \<Rightarrow> CS \<Rightarrow> CS option" where
  "do_file_action h fa s = (case fa of
     FaReadEmptyDirs dir hidden \<Rightarrow> Some (send_fs (ReadEmptyDirs dir hidden) s)
   | FaReadDir dir hidden \<Rightarrow> Some (read_dir_req dir hidden s)
   | FaAllFiles i path hidden \<Rightarrow> Some (all_files_action h i path hidden s)
   | FaSend i path n hidden ty \<Rightarrow> Some (send_action h i path n hidden ty s)
   | FaReceive i path n fs sz \<Rightarrow>
      Some (upd_conn (\<lambda>c. c\<lparr>file_transferred := True\<rparr>)
        (send_fs (NewWrite path i n (map (\<lambda>f. (name f, modified_time f)) fs)
           (can_enable_overwrite_detection (get_version_number (lr_version (lr (conn s))))) sz (cid s)) s))
   | FaRemoveDir i path recursive \<Rightarrow>
      Some (upd_conn (\<lambda>c. c\<lparr>file_remove_log_control :=
              on_remove_dir h \<lparr>rm_id = i, rm_path = path\<rparr> (file_remove_log_control c)\<rparr>)
        (send_fs (RemoveDir path i recursive) s))
   | FaRemoveFile i path n \<Rightarrow>
      Some (upd_conn (\<lambda>c. c\<lparr>file_remove_log_control :=
              on_remove_file h \<lparr>rm_id = i, rm_path = path\<rparr> (file_remove_log_control c)\<rparr>)
        (send_fs (RemoveFile path i n) s))
   | FaCreate i path \<Rightarrow>
      Some (emit (ToCm (CmFileLog (ActionLog ''create_dir'' i (cid s) path True))) (send_fs (CreateDir path i) s))
   | FaCancel i \<Rightarrow> Some (cancel_action i s)
   | FaSendConfirm r \<Rightarrow> confirm_action h r s
   | FaRename i path new_name \<Rightarrow>
      Some (emit (ToCm (CmFileLog (RenameLog (cid s) path new_name))) (send_fs (Rename i path new_name) s))
   | FaNone \<Rightarrow> Some s)"

definition on_file_action :: "Host \<Rightarrow> FileAction \<Rightarrow> CS \<Rightarrow> CS option" where
  "on_file_action h fa s =
    (if file_transfer (conn s) = None \<and> \<not> (case fa of FaSend _ _ _ _ ty \<Rightarrow> ty = Printer | _ \<Rightarrow> False) then Some s
     else if delayed_read_dir (conn s) \<noteq> None then
       Some (case fa of FaReadDir dir hidden \<Rightarrow> upd_conn (\<lambda>c. c\<lparr>delayed_read_dir := Some (dir, hidden)\<rparr>) s | _ \<Rightarrow> s)
     else if get_builtin_option (store (world s)) ''one-way-file-transfer'' = ''Y'' \<and> one_way_job fa \<noteq> None then
       Some (emit (Send (FileReply (new_error (the (one_way_job fa)) ''one-way-file-transfer-tip'' 0))) s)
     else do_file_action h fa s)"

definition on_file_response :: "FileResponse \<Rightarrow> CS \<Rightarrow> CS" where
  "on_file_response fr s = (case fr of
     FrBlock i n payload compressed \<Rightarrow> send_fs (WriteBlock i n payload compressed) s
   | FrDone i n \<Rightarrow> send_fs (WriteDone i n) s
   | FrDigest i n lm sz resume \<Rightarrow> send_fs (CheckDigest i n sz lm True resume) s
   | FrError i n e \<Rightarrow> send_fs (WriteError i n e) s
   | FrNone \<Rightarrow> s)"

section \<open>Displays\<close>

definition OPTION_REFRESH :: string where "OPTION_REFRESH = ''refresh''"
definition SERVICE_OPTION_VALUE_TRUE :: string where "SERVICE_OPTION_VALUE_TRUE = ''1''"

definition refresh_video_display :: "nat option \<Rightarrow> CS \<Rightarrow> CS" where
  "refresh_video_display d s =
     with_server (set_video_service_opt (map_option (Pair (video_source (conn s))) d) OPTION_REFRESH SERVICE_OPTION_VALUE_TRUE)
       (emit RefreshOut s)"

definition is_support_multi_ui_session :: "string \<Rightarrow> bool" where
  "is_support_multi_ui_session ver \<longleftrightarrow> get_version_number ''1.2.4'' \<le> get_version_number ver"

definition ensure_video_service :: "VideoSource \<Rightarrow> nat \<Rightarrow> Server \<Rightarrow> Server" where
  "ensure_video_service src d sv =
    (if server_contains (get_service_name src d) sv then sv else add_service (video_service_new src d) sv)"

definition switch_display_to :: "Host \<Rightarrow> nat \<Rightarrow> CS \<Rightarrow> CS" where
  "switch_display_to h d s =
    (let c = conn s; src = video_source c;
         s1 = (if d \<noteq> primary_display h then with_server (ensure_video_service src d) s else s);
         s2 = (if is_support_multi_ui_session (lr_version (lr c)) then s1
               else sub_service (get_service_name src (display_idx c)) False s1)
     in upd_conn (\<lambda>c. c\<lparr>display_idx := d\<rparr>) (sub_service (get_service_name src d) True s2))"

definition change_resolution :: "Host \<Rightarrow> nat option \<Rightarrow> int \<Rightarrow> int \<Rightarrow> CS \<Rightarrow> CS" where
  "change_resolution h d width height s =
    (let i = unwrap_or (display_idx (conn s)) d in
     if keyboard (conn s) \<and> i < display_count h then emit (ResolutionOut i width height) s else s)"

definition display_changed_msg :: "Host \<Rightarrow> nat \<Rightarrow> CS \<Rightarrow> CS" where
  "display_changed_msg h d s =
    (if has_display h (video_source (conn s)) d then emit (Send (SwitchDisplayMsg (video_source (conn s)) d)) s else s)"

definition handle_switch_display :: "Host \<Rightarrow> int \<Rightarrow> int \<Rightarrow> int \<Rightarrow> CS \<Rightarrow> CS" where
  "handle_switch_display h d width height s =
    (if display_idx (conn s) = as_usize d then s
     else
       let s1 = (case server (world s) of
             None \<Rightarrow> s
           | Some _ \<Rightarrow>
              let s2 = switch_display_to h (as_usize d) s
              in if width \<noteq> 0 \<and> height \<noteq> 0 then change_resolution h None width height s2 else s2)
       in display_changed_msg h (display_idx (conn s1)) s1)"

definition conn_capture_displays :: "nat list \<Rightarrow> nat list \<Rightarrow> nat list \<Rightarrow> CS \<Rightarrow> CS" where
  "conn_capture_displays add sub st s = (case server (world s) of
     None \<Rightarrow> s
   | Some sv \<Rightarrow>
      let c = conn s; src = video_source c;
          sv1 = fold (ensure_video_service src) (add @ st) sv;
          sv2 = (if add \<noteq> [] then capture_displays (inner c) src add True False sv1
                 else if sub \<noteq> [] then capture_displays (inner c) src sub False True sv1
                 else capture_displays (inner c) src st True True sv1);
          multi = (1 < get_subbed_displays_count (cid s) sv2);
          sv3 = (if follow_remote_window c then subscribe NAME_WINDOW_FOCUS (inner c) (\<not> multi) sv2 else sv2)
      in upd_conn (\<lambda>c. c\<lparr>multi_ui_session := multi\<rparr>) (upd_world (\<lambda>w. w\<lparr>server := Some sv3\<rparr>) s))"

section \<open>Voice calls and terminals\<close>

definition handle_voice_call :: "bool \<Rightarrow> CS \<Rightarrow> CS" where
  "handle_voice_call accepted s = (case voice_call_request_timestamp (conn s) of
     None \<Rightarrow> s
   | Some ts \<Rightarrow>
      let s1 = upd_conn (\<lambda>c. c\<lparr>voice_call_request_timestamp := None\<rparr>) s;
          s2 = (if accepted then emits [VoiceDevice True, ToCm CmStartVoiceCall] s1 else emit (ToCm CmCloseVoiceCall) s1);
          s3 = upd_conn (\<lambda>c. c\<lparr>voice_calling := accepted\<rparr>) (emit (Send (VoiceCallReply ts accepted)) s2)
      in if is_authed_view_camera_conn (conn s3)
         then sub_service AUDIO_NAME (audio_enabled (conn s3) \<and> accepted) s3 else s3)"

definition close_voice_call :: "CS \<Rightarrow> CS" where
  "close_voice_call s =
    (let s1 = upd_conn (\<lambda>c. c\<lparr>voice_calling := False\<rparr>) (emits [VoiceDevice False, ToCm CmCloseVoiceCall] s)
     in if is_authed_view_camera_conn (conn s1) then sub_service AUDIO_NAME False s1 else s1)"

definition on_voice_call_request :: "Host \<Rightarrow> bool \<Rightarrow> int \<Rightarrow> CS \<Rightarrow> CS" where
  "on_voice_call_request h is_connect ts s =
    (if is_connect
     then emit (ToCm CmVoiceCallIncoming)
            (upd_conn (\<lambda>c. c\<lparr>voice_call_request_timestamp := Some (if ts = 0 then now (env h) else ts)\<rparr>) s)
     else close_voice_call s)"

definition handle_terminal_action :: "Host \<Rightarrow> nat \<Rightarrow> CS \<Rightarrow> CS" where
  "handle_terminal_action h action s =
    (if \<not> terminal_user_token (conn s) then s
     else let sid = terminal_service_id (conn s) in
       emits (TerminalOut sid action # (case terminal_answer h sid action of
          Some r \<Rightarrow> [Send (TerminalReply r)] | None \<Rightarrow> [])) s)"

section \<open>Dispatch\<close>

definition on_misc :: "Host \<Rightarrow> MiscMsg \<Rightarrow> CS \<Rightarrow> CS \<times> bool" where
  "on_misc h m s = (case m of
     MSwitchDisplay d width height \<Rightarrow> (handle_switch_display h d width height s, True)
   | MCaptureDisplays add sub st \<Rightarrow> (conn_capture_displays (map as_usize add) (map as_usize sub) (map as_usize st) s, True)
   | MTogglePrivacyMode on key \<Rightarrow> (toggle_privacy_mode h on key s, True)
   | MChatMessage text \<Rightarrow>
      (update_auto_disconnect_timer h (upd_conn (\<lambda>c. c\<lparr>chat_unanswered := True\<rparr>) (emit (ToCm (CmChat text)) s)), True)
   | MOption om \<Rightarrow> (update_options h om s, True)
   | MRefreshVideo r \<Rightarrow> (update_auto_disconnect_timer h (if r then refresh_video_display None s else s), True)
   | MRefreshVideoDisplay d \<Rightarrow> (update_auto_disconnect_timer h (refresh_video_display (Some (as_usize d)) s), True)
   | MVideoReceived \<Rightarrow> (emit FrameFetched s, True)
   | MRestartRemoteDevice \<Rightarrow> (if restart (conn s) then emit Reboot s else s, True)
   | MAudioFormat f \<Rightarrow>
      (if disable_audio (conn s) then s else emit (AudioOut f) (upd_conn (\<lambda>c. c\<lparr>audio_sender := True\<rparr>) s), True)
   | MSwitchSidesRequest bs \<Rightarrow> (case uuid_from_slice h bs of
        Some uuid \<Rightarrow> (on_close False (emit (RunMe (my_id (lr (conn s))) uuid) s), False)
      | None \<Rightarrow> (s, True))
   | MChangeResolution width height \<Rightarrow> (change_resolution h None width height s, True)
   | MChangeDisplayResolution d width height \<Rightarrow> (change_resolution h (Some (as_usize d)) width height s, True)
   | MAutoAdjustFps f \<Rightarrow> (emit (QosOut (EvAutoAdjustFps (cid s) f)) s, True)
   | MClientRecordStatus st \<Rightarrow> (emit (QosOut (EvRecord (cid s) st)) s, True)
   | MMessageQuery d \<Rightarrow> (display_changed_msg h (as_usize d) s, True)
   | MCloseReason _ \<Rightarrow> (s, True)
   | MMiscOther \<Rightarrow> (s, True))"

definition on_test_delay :: "Host \<Rightarrow> bool \<Rightarrow> nat \<Rightarrow> CS \<Rightarrow> CS" where
  "on_test_delay h from_client t s =
    (if from_client then (if tx (inner (conn s)) then emit (Send (TestDelayMsg True t)) s else s)
     else case last_test_delay (conn s) of
       None \<Rightarrow> s
     | Some tm \<Rightarrow>
        let new_delay = nat ((clock h - tm) mod 2 ^ 32)
        in upd_conn (\<lambda>c. c\<lparr>network_delay := new_delay\<rparr>)
             (emit (QosOut (EvNetworkDelay True (cid s) new_delay (nat (clock h))))
               (upd_conn (\<lambda>c. c\<lparr>last_test_delay := None\<rparr>) s)))"

definition on_authorized :: "Host \<Rightarrow> Msg \<Rightarrow> CS \<Rightarrow> (CS \<times> bool) option" where
  "on_authorized h m s = (case m of
     MouseMsg me \<Rightarrow> Some (on_mouse h me s, True)
   | PointerMsg p \<Rightarrow> Some (on_pointer h p s, True)
   | KeyMsg me \<Rightarrow> Some (on_key h me s, True)
   | ClipboardMsg cb \<Rightarrow> Some (on_clipboard [cb] s, True)
   | MultiClipboardsMsg cbs \<Rightarrow> Some (on_clipboard cbs s, True)
   | CliprdrFiles _ \<Rightarrow> Some (s, True)
   | CliprdrMsg clip \<Rightarrow> Some (on_cliprdr h clip s, True)
   | FileActionMsg fa \<Rightarrow> map_option (\<lambda>s. (s, True)) (on_file_action h fa s)
   | FileResponseMsg fr \<Rightarrow> Some (on_file_response fr s, True)
   | MiscMsg misc \<Rightarrow> Some (on_misc h misc s)
   | AudioFrameMsg f \<Rightarrow>
      Some (if \<not> disable_audio (conn s) \<and> audio_sender (conn s) then emit (AudioOut f) s else s, True)
   | VoiceCallRequest is_connect ts \<Rightarrow> Some (on_voice_call_request h is_connect ts s, True)
   | ScreenshotRequest d sid \<Rightarrow>
      Some (if tx (inner (conn s))
            then refresh_video_display (Some (as_usize d)) (emit (ScreenshotOut d sid) s) else s, True)
   | TerminalAction a \<Rightarrow> Some (handle_terminal_action h a s, True)
   | _ \<Rightarrow> Some (s, True))"

definition on_message :: "Host \<Rightarrow> Msg \<Rightarrow> CS \<Rightarrow> (CS \<times> bool) option" where
  "on_message h m s = (case m of
     MiscMsg (MCloseReason _) \<Rightarrow> Some (remove_session (on_close True s), False)
   | LoginMsg req \<Rightarrow> Some (on_login h req s)
   | Auth2fa code hw \<Rightarrow> Some (on_auth_2fa h code hw s, True)
   | TestDelay from_client t \<Rightarrow> Some (on_test_delay h from_client t s, True)
   | SwitchSidesResponse req uuid \<Rightarrow> Some (on_switch_sides h req uuid s, True)
   | _ \<Rightarrow> if authorized (conn s) \<and> \<not> port_forward_socket (conn s) then on_authorized h m s else Some (s, True))"

end
