(* ===== verification/Connection_Loop.thy ===== *)
theory Connection_Loop
  imports Connection_Message
begin

text \<open>
  The loop of \<open>Connection::start\<close> in \<open>src/src/server/connection.rs\<close>: what the connection manager, the
  timers, the services and the peer make the connection do, and what happens when the loop ends; the
  thread that injects input; the loop of a port forward.  One event of the loop's \<open>select!\<close> is one
  \<open>ConnEvent\<close>.
\<close>

section \<open>From the connection manager\<close>

datatype CmIn =
    Authorize
  | CloseConn
  | CmErr string
  | ChatFromCm string
  | SwitchPermission string bool
  | FromFiles CmOut
  | PrivacyState PrivacyModeState string
  | SwitchSidesBack
  | VoiceCallAnswer bool
  | CloseVoiceCall
  | CmOther

definition send_permission :: "Perm \<Rightarrow> bool \<Rightarrow> CS \<Rightarrow> CS" where
  "send_permission p enabled = emit (Send (PermissionInfo p enabled))"

definition switch_keyboard :: "bool \<Rightarrow> CS \<Rightarrow> CS" where
  "switch_keyboard enabled s =
    (let s1 = send_permission PermKeyboard enabled (upd_conn (\<lambda>c. c\<lparr>keyboard := enabled\<rparr>) s);
         s2 = sub_file_clipboard (sub_clipboard s1)
     in sub_service NAME_CURSOR (enabled \<or> show_remote_cursor (conn s2)) s2)"

definition switch_audio :: "bool \<Rightarrow> CS \<Rightarrow> CS" where
  "switch_audio enabled s =
    (let s1 = send_permission PermAudio enabled (upd_conn (\<lambda>c. c\<lparr>audio := enabled\<rparr>) s)
     in if authorized (conn s1) then sub_audio s1 else s1)"

definition switch_file_perm :: "bool \<Rightarrow> CS \<Rightarrow> CS" where
  "switch_file_perm enabled s =
    (let s1 = send_permission PermFile enabled (upd_conn (\<lambda>c. c\<lparr>file_perm := enabled\<rparr>) s)
     in sub_file_clipboard (if enabled then s1 else emit EmptyFileClip s1))"

definition switch_permission :: "string \<Rightarrow> bool \<Rightarrow> CS \<Rightarrow> CS" where
  "switch_permission nm enabled s =
    (if nm = ''keyboard'' then switch_keyboard enabled s
     else if nm = ''clipboard'' then
       sub_clipboard (send_permission PermClipboard enabled (upd_conn (\<lambda>c. c\<lparr>clipboard := enabled\<rparr>) s))
     else if nm = ''audio'' then switch_audio enabled s
     else if nm = ''file'' then switch_file_perm enabled s
     else if nm = ''restart'' then send_permission PermRestart enabled (upd_conn (\<lambda>c. c\<lparr>restart := enabled\<rparr>) s)
     else if nm = ''recording'' then send_permission PermRecording enabled (upd_conn (\<lambda>c. c\<lparr>recording := enabled\<rparr>) s)
     else if nm = ''block_input'' then send_permission PermBlockInput enabled (upd_conn (\<lambda>c. c\<lparr>block_input := enabled\<rparr>) s)
     else s)"

text \<open>The results of file jobs of the connection manager.  A protocol message it has built goes to the
  peer as it is; answers of read jobs count only while the job is expected.\<close>

definition forget_job :: "int \<Rightarrow> CS \<Rightarrow> CS" where
  "forget_job i = upd_conn (\<lambda>c. c\<lparr>cm_read_job_ids := filter (\<lambda>x. x \<noteq> i) (cm_read_job_ids c)\<rparr>)"

definition expected :: "int \<Rightarrow> CS \<Rightarrow> bool" where
  "expected i s \<longleftrightarrow> i \<in> set (cm_read_job_ids (conn s))"

definition handle_read_job_init_result :: "int \<Rightarrow> (string, string \<times> FileEntry list) outcome \<Rightarrow> CS \<Rightarrow> CS" where
  "handle_read_job_init_result i res s =
    (if \<not> expected i s then s
     else case res of
       Ok (path, fs) \<Rightarrow> upd_conn (\<lambda>c. c\<lparr>file_transferred := True\<rparr>) (emit (Send (FileReply (new_dir i path fs))) s)
     | Err e \<Rightarrow> emit (Send (FileReply (new_error i e 0))) (forget_job i s)
     | Panic \<Rightarrow> s)"

definition handle_file_block_from_cm :: "FileTransferBlock \<Rightarrow> CS \<Rightarrow> CS" where
  "handle_file_block_from_cm b s =
    (if expected (blk_id b) s then emit (Send (FileReply (new_block b))) s else s)"

definition handle_file_read_done :: "int \<Rightarrow> int \<Rightarrow> CS \<Rightarrow> CS" where
  "handle_file_read_done i n s =
    (if expected i s then emit (Send (FileReply (new_done i n))) (forget_job i s) else s)"

definition handle_file_read_error :: "int \<Rightarrow> int \<Rightarrow> string \<Rightarrow> CS \<Rightarrow> CS" where
  "handle_file_read_error i n e s =
    (if expected i s then emit (Send (FileReply (new_error i e n))) (forget_job i s) else s)"

definition handle_file_digest_from_cm :: "int \<Rightarrow> int \<Rightarrow> nat \<Rightarrow> nat \<Rightarrow> bool \<Rightarrow> CS \<Rightarrow> CS" where
  "handle_file_digest_from_cm i n lm sz resume s =
    (if expected i s
     then emit (Send (FileDigestReply \<lparr>dm_id = i, dm_file_num = n, dm_last_modified = lm, dm_file_size = sz,
            dm_is_identical = False, dm_transferred_size = 0, dm_is_resume = resume\<rparr> False)) s
     else s)"

definition handle_all_files_result :: "int \<Rightarrow> (string, string \<times> FileEntry list) outcome \<Rightarrow> CS \<Rightarrow> CS" where
  "handle_all_files_result i res s = (case res of
     Ok (path, fs) \<Rightarrow> emit (Send (FileReply (new_dir i path fs))) s
   | Err e \<Rightarrow> emit (Send (FileReply (new_error i e (-1)))) s
   | Panic \<Rightarrow> s)"

definition from_files :: "CmOut \<Rightarrow> CS \<Rightarrow> CS" where
  "from_files m s = (case m of
     Raw fm \<Rightarrow> emit (Send (FileReply fm)) s
   | RawDigest d up \<Rightarrow> emit (Send (FileDigestReply d up)) s
   | RawDir d \<Rightarrow> emit (Send (FileDirReply d)) s
   | RawEmptyDirs path ds \<Rightarrow> emit (Send (FileEmptyDirsReply path ds)) s
   | ReadJobInitResult i n hidden cn res \<Rightarrow> if cn = cid s then handle_read_job_init_result i res s else s
   | FileReadError i n e cn \<Rightarrow> if cn = cid s then handle_file_read_error i n e s else s
   | FileBlockFromCM b cn \<Rightarrow> if cn = cid s then handle_file_block_from_cm b s else s
   | FileReadDone i n cn \<Rightarrow> if cn = cid s then handle_file_read_done i n s else s
   | FileDigestFromCM i n lm sz resume cn \<Rightarrow> if cn = cid s then handle_file_digest_from_cm i n lm sz resume s else s
   | AllFilesResult i cn path res \<Rightarrow> if cn = cid s then handle_all_files_result i res s else s
   | JobLogged _ \<Rightarrow> s)"

definition privacy_state_msg :: "PrivacyModeState \<Rightarrow> string \<Rightarrow> PrivacyReply" where
  "privacy_state_msg st key = (case st of
     OffSucceeded \<Rightarrow> PrvOffSucceeded key | OffByPeer \<Rightarrow> PrvOffByPeer key | OffUnknown \<Rightarrow> PrvOffUnknown key)"

text \<open>The flag tells whether the loop goes on.\<close>

definition on_cm :: "Host \<Rightarrow> CmIn \<Rightarrow> CS \<Rightarrow> CS \<times> bool" where
  "on_cm h m s = (case m of
     Authorize \<Rightarrow>
       (let s1 = send_logon_response h (upd_conn (\<lambda>c. c\<lparr>require_2fa := None\<rparr>) s) in (s1, \<not> port_forward_socket (conn s1)))
   | CloseConn \<Rightarrow>
       (on_close True (send_close_reason_no_retry []
         (upd_conn (\<lambda>c. c\<lparr>chat_unanswered := False, file_transferred := False\<rparr>) s)), False)
   | CmErr e \<Rightarrow> if e \<noteq> ''expected'' then (on_close False s, False) else (s, True)
   | ChatFromCm text \<Rightarrow> (upd_conn (\<lambda>c. c\<lparr>chat_unanswered := False\<rparr>) (emit (Send (ChatReply text)) s), True)
   | SwitchPermission nm enabled \<Rightarrow> (switch_permission nm enabled s, True)
   | FromFiles f \<Rightarrow> (from_files f s, True)
   | PrivacyState st key \<Rightarrow> (emit (Send (PrivacyNotify (privacy_state_msg st key))) s, True)
   | SwitchSidesBack \<Rightarrow> (emit (Send SwitchBackMsg) s, True)
   | VoiceCallAnswer accepted \<Rightarrow> (handle_voice_call accepted s, True)
   | CloseVoiceCall \<Rightarrow> (emit (Send VoiceCallStop) (close_voice_call s), True)
   | CmOther \<Rightarrow> (s, True))"

section \<open>Timers and services\<close>

text \<open>\<open>file_timer\<close>: None is a panic of the read jobs; the network may fail.\<close>

definition on_file_timer :: "Host \<Rightarrow> Lib \<Rightarrow> rd list \<Rightarrow> bool \<Rightarrow> CS \<Rightarrow> (CS \<times> bool) option" where
  "on_file_timer h l sched net s =
    (if conn_read_jobs (conn s) = [] then Some (s, True)
     else
       let s1 = emit (ToCm (CmFileLog (JobLogs (map (\<lambda>j. LogOf (job_id j) False False []) (conn_read_jobs (conn s)))))) s;
           (js, ms, res) = handle_read_jobs l sched net (file_system h) (conn_read_jobs (conn s));
           s2 = emits (map (Send \<circ> FileReply) ms) (upd_conn (\<lambda>c. c\<lparr>conn_read_jobs := js\<rparr>) s1)
       in case res of
            Ok NoLog \<Rightarrow> Some (s2, True)
          | Ok lg \<Rightarrow> Some (emit (ToCm (CmFileLog (JobLogs [lg]))) s2, True)
          | Err _ \<Rightarrow> Some (on_close False s2, False)
          | Panic \<Rightarrow> None)"

definition on_second_timer :: "Host \<Rightarrow> CS \<Rightarrow> CS \<times> bool" where
  "on_second_timer h s =
    (if (case auto_disconnect_timer (conn s) of Some (t, m) \<Rightarrow> int m * 60 < (clock h - t) div 1000 | None \<Rightarrow> False)
     then (on_close True (send_close_reason_no_retry ''Connection failed due to inactivity'' s), False)
     else
       let (l, ds) = frl_on_timer h (file_remove_log_control (conn s))
       in (emits (map ToCm ds) (upd_conn (\<lambda>c. c\<lparr>file_remove_log_control := l\<rparr>) s), True))"

definition SEC30 :: int where "SEC30 = 30000"

definition on_delay_timer :: "Host \<Rightarrow> int \<Rightarrow> CS \<Rightarrow> CS \<times> bool" where
  "on_delay_timer h last_recv s =
    (if SEC30 \<le> clock h - last_recv then (on_close True s, False)
     else
       let c = conn s;
           s1 = (if last_test_delay c = None \<and> \<not> (port_forward_socket c \<and> authorized c)
                 then emit (Send (TestDelayMsg False (network_delay c)))
                        (upd_conn (\<lambda>c. c\<lparr>last_test_delay := Some (clock h)\<rparr>) s)
                 else s)
       in (if is_authed_remote_conn (conn s1) \<or> view_camera (conn s1)
           then (case last_test_delay (conn s1) of
                   Some t \<Rightarrow> emit (QosOut (EvResponseElapsed (cid s1) (nat (clock h - t)) (nat (clock h)))) s1
                 | None \<Rightarrow> s1)
           else s1, True))"

text \<open>Messages of the services, with their age in milliseconds.  A screens rectangle for
  \<open>follow_remote_cursor\<close> is x, y, width, height and the scale as a fraction.\<close>

record DisplayRect =
  dr_x :: int
  dr_y :: int
  dr_width :: int
  dr_height :: int
  dr_scale :: rat

fun position_of :: "(DisplayRect \<Rightarrow> bool) \<Rightarrow> DisplayRect list \<Rightarrow> nat option" where
  "position_of P [] = None"
| "position_of P (d # ds) = (if P d then Some 0 else map_option Suc (position_of P ds))"

definition handle_cursor_switch_display :: "DisplayRect list \<Rightarrow> int \<Rightarrow> int \<Rightarrow> CS \<Rightarrow> CS" where
  "handle_cursor_switch_display screens x y s =
    (if multi_ui_session (conn s) then s
     else case position_of (\<lambda>d. dr_x d \<le> x \<and> dr_y d \<le> y \<and> of_int (x - dr_x d) * dr_scale d < of_int (dr_width d)
            \<and> of_int (y - dr_y d) * dr_scale d < of_int (dr_height d)) screens of
       Some i \<Rightarrow> if display_idx (conn s) \<noteq> i then emit (Send (FollowDisplayMsg i)) s else s
     | None \<Rightarrow> s)"

text \<open>The kinds of messages of the file clipboard that are told apart; a message is its kind and the
  opaque protocol message it is sent as.\<close>

datatype ClipKind = MonitorReady | FormatList | FormatDataRequest | ClipOther

datatype ConnEvent =
    EvCm CmIn
  | EvPeer Msg
  | EvPeerError string
  | EvPeerReset
  | EvFileTimer Lib "rd list" bool
  | EvWebConsole "int list"
  | EvUnparsed
  | EvVideo bool nat bool
  | EvClip ClipKind nat
  | EvService ServiceMsg int "DisplayRect list" bool
  | EvSecond
  | EvDelay

text \<open>\<open>clipboard.rs\<close>: old peers and phones get the first text of the clipboards.\<close>

definition is_support_multi_clipboard :: "string \<Rightarrow> string \<Rightarrow> bool" where
  "is_support_multi_clipboard peer_version peer_platform \<longleftrightarrow>
     get_version_number ''1.3.0'' \<le> get_version_number peer_version
     \<and> peer_platform \<noteq> [] \<and> peer_platform \<noteq> ''iOS''
     \<and> \<not> (peer_platform = ''Android'' \<and> get_version_number peer_version < get_version_number ''1.3.3'')"

definition get_msg_if_not_support_multi_clip :: "string \<Rightarrow> string \<Rightarrow> (bool \<times> nat) list \<Rightarrow> PeerMsg option" where
  "get_msg_if_not_support_multi_clip version platform cbs =
    (if is_support_multi_clipboard version platform then None
     else map_option (ClipboardReply \<circ> snd) (find fst cbs))"

definition service_reply :: "ServiceMsg \<Rightarrow> Connection \<Rightarrow> PeerMsg" where
  "service_reply m c = (case m of
     SmMultiClipboards cbs \<Rightarrow>
       unwrap_or (ServiceReply m) (get_msg_if_not_support_multi_clip (lr_version (lr c)) (my_platform (lr c)) cbs)
   | _ \<Rightarrow> ServiceReply m)"

text \<open>The flag tells whether the stream takes the message.\<close>

definition deliver :: "PeerMsg \<Rightarrow> bool \<Rightarrow> CS \<Rightarrow> CS \<times> bool" where
  "deliver m net s = (if net then (emit (Send m) s, True) else (on_close False s, False))"

definition on_service :: "ServiceMsg \<Rightarrow> int \<Rightarrow> DisplayRect list \<Rightarrow> bool \<Rightarrow> CS \<Rightarrow> CS \<times> bool" where
  "on_service m latency screens net s =
    (if 1000 < latency \<and> (case m of SmAudio _ \<Rightarrow> True | _ \<Rightarrow> False) then (s, True)
     else case m of
       SmStopService \<Rightarrow> (on_close False (send_close_reason_no_retry [] s), False)
     | _ \<Rightarrow>
        let s1 = (case m of
              SmPeerInfo _ \<Rightarrow> refresh_video_display None s
            | SmCursorPos x y _ \<Rightarrow> if follow_remote_cursor (conn s) then handle_cursor_switch_display screens x y s else s
            | _ \<Rightarrow> s)
        in deliver (service_reply m (conn s)) net s1)"

definition on_video :: "bool \<Rightarrow> nat \<Rightarrow> bool \<Rightarrow> CS \<Rightarrow> CS \<times> bool" where
  "on_video is_frame v net s =
     deliver (VideoReply v) net (if \<not> video_ack_required (conn s) \<and> is_frame then emit FrameFetched s else s)"

definition is_stopping_allowed :: "ClipKind \<Rightarrow> bool" where
  "is_stopping_allowed k \<longleftrightarrow> k = MonitorReady \<or> k = FormatList \<or> k = FormatDataRequest"

definition is_beginning_message :: "ClipKind \<Rightarrow> bool" where
  "is_beginning_message k \<longleftrightarrow> k = MonitorReady \<or> k = FormatList"

definition handle_file_clip :: "ClipKind \<Rightarrow> nat \<Rightarrow> CS \<Rightarrow> CS" where
  "handle_file_clip k m s =
    (if is_stopping_allowed k \<and> \<not> file_transfer_enabled (conn s) then s
     else if is_beginning_message k \<and> get_builtin_option (store (world s)) ''one-way-file-transfer'' = ''Y'' then s
     else emit (Send (CliprdrReply m)) s)"

definition on_clip :: "ClipKind \<Rightarrow> nat \<Rightarrow> CS \<Rightarrow> CS" where
  "on_clip k m s = (if is_support_file_copy_paste (lr_version (lr (conn s))) then handle_file_clip k m s else s)"

section \<open>The loop\<close>

text \<open>A received message renews the time of the session it belongs to.\<close>

definition touch_session :: "Host \<Rightarrow> CS \<Rightarrow> CS" where
  "touch_session h s = (case session_last_recv_time (conn s) of
     Some a \<Rightarrow> upd_world (\<lambda>w. w\<lparr>instants := (instants w)[a := clock h]\<rparr>) s
   | None \<Rightarrow> s)"

definition on_peer :: "Host \<Rightarrow> Msg \<Rightarrow> CS \<Rightarrow> (CS \<times> bool) option" where
  "on_peer h m s = (case on_message h m (touch_session h s) of
     None \<Rightarrow> None
   | Some (s1, False) \<Rightarrow> Some (s1, False)
   | Some (s1, True) \<Rightarrow>
      Some (s1, \<not> (port_forward_socket (conn s1) \<and> authorized (conn s1) \<and> last_test_delay (conn s1) = None)))"

text \<open>The time of the last message, a local of the loop, goes along.\<close>

definition conn_step :: "Host \<Rightarrow> ConnEvent \<Rightarrow> CS \<times> int \<Rightarrow> ((CS \<times> int) \<times> bool) option" where
  "conn_step h e st = (case st of (s, last_recv) \<Rightarrow>
    (case e of
       EvPeer m \<Rightarrow> map_option (\<lambda>(s1, go). ((s1, clock h), go)) (on_peer h m s)
     | EvPeerError _ \<Rightarrow> Some ((on_close True s, last_recv), False)
     | EvPeerReset \<Rightarrow> Some ((on_close True s, last_recv), False)
     | EvFileTimer l sched net \<Rightarrow> map_option (\<lambda>(s1, go). ((s1, last_recv), go)) (on_file_timer h l sched net s)
     | EvCm m \<Rightarrow> (case on_cm h m s of (s1, go) \<Rightarrow> Some ((s1, last_recv), go))
     | EvWebConsole conns \<Rightarrow>
        Some (if cid s \<in> set conns
              then ((on_close True (send_close_reason_no_retry ''Closed manually by web console'' s), last_recv), False)
              else ((s, last_recv), True))
     | EvUnparsed \<Rightarrow> Some ((touch_session h s, clock h), True)
     | EvVideo is_frame v net \<Rightarrow> (case on_video is_frame v net s of (s1, go) \<Rightarrow> Some ((s1, last_recv), go))
     | EvClip k m \<Rightarrow> Some ((on_clip k m s, last_recv), True)
     | EvService m latency screens net \<Rightarrow> (case on_service m latency screens net s of (s1, go) \<Rightarrow> Some ((s1, last_recv), go))
     | EvSecond \<Rightarrow> (case on_second_timer h s of (s1, go) \<Rightarrow> Some ((s1, last_recv), go))
     | EvDelay \<Rightarrow> (case on_delay_timer h last_recv s of (s1, go) \<Rightarrow> Some ((s1, last_recv), go))))"

text \<open>The host's answers vary from event to event, and between two events of this connection the
  others may have changed the globals in any way: each event comes with the world it finds.\<close>

fun conn_loop :: "(Host \<times> World \<times> ConnEvent) list \<Rightarrow> CS \<times> int \<Rightarrow> ((CS \<times> int) \<times> bool) option" where
  "conn_loop [] st = Some (st, True)"
| "conn_loop ((h, w, e) # es) st = (case conn_step h e ((fst st)\<lparr>world := w\<rparr>, snd st) of
     None \<Rightarrow> None
   | Some (st1, True) \<Rightarrow> conn_loop es st1
   | Some (st1, False) \<Rightarrow> Some (st1, False))"

section \<open>After the loop\<close>

text \<open>The loop of a port forward, given the results of its \<open>select!\<close>.\<close>

datatype PfEvent =
    PfCm CmIn
  | PfForward "bytes option"
  | PfForwardErr
  | PfStream "bytes option"
  | PfStreamErr
  | PfTimer
  | PfWebConsole "int list"
  | PfSendErr

datatype PfOut = ToStream bytes | ToForward bytes

definition H1 :: int where "H1 = 3600000"

text \<open>The relayed data and the error the loop ends with (None: still running); times in ms.\<close>

fun port_forward_loop :: "int \<Rightarrow> int \<Rightarrow> (int \<times> PfEvent) list \<Rightarrow> PfOut list \<times> string option" where
  "port_forward_loop i t0 [] = ([], None)"
| "port_forward_loop i t0 ((t, e) # es) = (case e of
     PfCm CloseConn \<Rightarrow> ([], Some ''Close requested from connection manager'')
   | PfCm (CmErr m) \<Rightarrow> ([], Some m)
   | PfCm _ \<Rightarrow> port_forward_loop i t0 es
   | PfForward (Some d) \<Rightarrow> (case port_forward_loop i t es of (os, r) \<Rightarrow> (ToStream d # os, r))
   | PfForward None \<Rightarrow> ([], Some ''Forward reset by the peer'')
   | PfForwardErr \<Rightarrow> ([], Some ''forward'')
   | PfStream (Some d) \<Rightarrow> (case port_forward_loop i t es of (os, r) \<Rightarrow> (ToForward d # os, r))
   | PfStream None \<Rightarrow> ([], Some ''Stream reset by the peer'')
   | PfStreamErr \<Rightarrow> ([], Some ''stream'')
   | PfTimer \<Rightarrow> if H1 \<le> t - t0 then ([], Some ''Timeout'') else port_forward_loop i t0 es
   | PfWebConsole cs \<Rightarrow> if i \<in> set cs then ([], Some ''Closed manually by the web console'') else port_forward_loop i t0 es
   | PfSendErr \<Rightarrow> ([], Some ''send''))"

text \<open>\<open>failed\<close> tells whether a port forward ran and ended with an error.\<close>

definition end_loop :: "Host \<Rightarrow> nat list \<Rightarrow> bool \<Rightarrow> CS \<Rightarrow> CS" where
  "end_loop h rnd failed s =
    (let s1 = emit EmptyFileClip s;
         s2 = (if get_privacy_mode_conn_id (privacy_mode (world s1)) = Some (cid s1)
               then upd_world (\<lambda>w. w\<lparr>privacy_mode := fst (turn_off_privacy_to_msg (priv_env h) (cid s1) (privacy_mode w))\<rparr>) s1
               else s1);
         s3 = emit FrameFetched s2;
         s4 = (if authorized (conn s3)
               then upd_world (\<lambda>w. w\<lparr>store := update_temporary_password rnd (store w)\<rparr>) s3 else s3);
         s5 = (if port_forward_socket (conn s4)
               then let s6 = upd_conn (\<lambda>c. c\<lparr>port_forward_socket := False\<rparr>) s4
                    in if failed then remove_session (on_close False s6) else s6
               else s4)
     in on_close True (with_server (remove_connection (inner (conn s5))) s5))"

text \<open>Dropping the connection: the modifiers are released, and the guards of the lists go.\<close>

definition release_pressed_modifiers :: "CS \<Rightarrow> CS" where
  "release_pressed_modifiers s =
     upd_conn (\<lambda>c. c\<lparr>pressed_modifiers := []\<rparr>) (emits (map ReleaseModifier (pressed_modifiers (conn s))) s)"

definition conn_drop :: "Host \<Rightarrow> CS \<Rightarrow> CS" where
  "conn_drop h s =
     upd_world (connection_id_drop (cid s) \<circ> control_permissions_id_drop (cid s) (control_permissions (conn s)))
       (authed_conn_id_drop h (release_pressed_modifiers s))"

section \<open>The input thread\<close>

text \<open>\<open>handle_input\<close>: the messages of \<open>tx_input\<close> in order, None for the timeout of 500 ms.  Injected
  events, and the calls and answers of \<open>platform::block_input\<close>.\<close>

datatype Injected =
    InjMouse MouseEvent bool bool | InjKey KeyEvent | InjPointer nat | CallBlock bool | BlockError bool string

definition inject :: "(bool \<Rightarrow> bool \<times> string) \<Rightarrow> MessageInput option \<Rightarrow> bool \<Rightarrow> bool \<times> Injected list" where
  "inject blk m mode = (case m of
     Some (InMouse me simulate cursor) \<Rightarrow> (mode, [InjMouse me simulate cursor])
   | Some (InKey me press) \<Rightarrow>
      (let down = me\<lparr>key_press := False, key_down := (press \<or> key_down me)\<rparr>
       in (mode, if press then [InjKey down, InjKey (down\<lparr>key_down := False\<rparr>)] else [InjKey down]))
   | Some (InPointer p) \<Rightarrow> (mode, [InjPointer p])
   | Some BlockOn \<Rightarrow> (case blk True of (ok, msg) \<Rightarrow>
       if ok then (True, [CallBlock True]) else (mode, [CallBlock True, BlockError True msg]))
   | Some BlockOff \<Rightarrow> (case blk False of (ok, msg) \<Rightarrow>
       if ok then (False, [CallBlock False]) else (mode, [CallBlock False, BlockError False msg]))
   | None \<Rightarrow> (mode, if mode then [CallBlock True] else []))"

fun handle_input :: "(bool \<Rightarrow> bool \<times> string) \<Rightarrow> bool \<Rightarrow> MessageInput option list \<Rightarrow> Injected list" where
  "handle_input blk mode [] = (if mode then [CallBlock True] else [])"
| "handle_input blk mode (m # ms) = (case inject blk m mode of (mode', os) \<Rightarrow> os @ handle_input blk mode' ms)"

end
