(* ===== verification/Connection_Frame.thy ===== *)
theory Connection_Frame
  imports Connection_Loop
begin

text \<open>
  What the handlers of a connection leave alone.  \<open>core\<close> collects the fields that decide about
  admission and permissions; \<open>policy\<close> the settings that do.  \<open>emitted P s t\<close> says that \<open>t\<close> has the
  outputs of \<open>s\<close> and more, all in \<open>P\<close>: its rules follow the way the handlers are composed, so that a
  property of outputs is proved by running through a handler once.
\<close>

named_theorems frame \<open>fields of the connection and the world after an operation\<close>
named_theorems emitting \<open>rules for the outputs of an operation\<close>

section \<open>Fields\<close>

definition rights :: "Connection \<Rightarrow> bool list" where
  "rights c = [keyboard c, clipboard c, audio c, file_perm c, restart c, recording c, block_input c]"

definition core :: "Connection \<Rightarrow> _" where
  "core c = (authorized c, require_2fa c, rights c, inner c, lr c, (hash_salt c, hash_challenge c, ip c),
     (file_transfer c, view_camera c, terminal c, terminal_user_token c, port_forward_socket c),
     (authed_conn_id c, from_switch c, session_last_recv_time c, pressed_modifiers c, control_permissions c, closed c))"

definition policy :: "Store \<Rightarrow> _" where
  "policy st = (overwrite_settings st, opts (config2 st), default_settings st, hard_settings st,
     builtin_settings st, config st, temporary st)"

lemma conn_simps [simp]:
  "conn (emit x s) = conn s" "conn (emits xs s) = conn s" "conn (upd_conn f s) = f (conn s)"
  "conn (upd_world g s) = conn s" "conn (with_server k s) = conn s" "conn (sub_service n b s) = conn s"
  by (simp_all add: emit_def emits_def upd_conn_def upd_world_def with_server_def sub_service_def)

lemma world_simps [simp]:
  "world (emit x s) = world s" "world (emits xs s) = world s" "world (upd_conn f s) = world s"
  "world (upd_world g s) = g (world s)"
  by (simp_all add: emit_def emits_def upd_conn_def upd_world_def)

lemma outs_simps [simp]:
  "outs (emit x s) = outs s @ [x]" "outs (emits xs s) = outs s @ xs" "outs (upd_conn f s) = outs s"
  "outs (upd_world g s) = outs s" "outs (with_server k s) = outs s" "outs (sub_service n b s) = outs s"
  by (simp_all add: emit_def emits_def upd_conn_def upd_world_def with_server_def sub_service_def)

lemma cid_inner: "cid s = conn_id (inner (conn s))"
  by (simp add: cid_def)

lemma core_D:
  assumes "core c = core c'"
  shows "authorized c = authorized c'" "require_2fa c = require_2fa c'" "rights c = rights c'" "inner c = inner c'"
    "lr c = lr c'" "hash_salt c = hash_salt c'" "hash_challenge c = hash_challenge c'" "ip c = ip c'"
    "file_transfer c = file_transfer c'" "view_camera c = view_camera c'" "terminal c = terminal c'"
    "terminal_user_token c = terminal_user_token c'" "port_forward_socket c = port_forward_socket c'"
    "authed_conn_id c = authed_conn_id c'" "from_switch c = from_switch c'"
    "session_last_recv_time c = session_last_recv_time c'" "pressed_modifiers c = pressed_modifiers c'"
    "control_permissions c = control_permissions c'" "closed c = closed c'"
  using assms by (simp_all add: core_def)

lemma rights_D:
  assumes "rights c = rights c'"
  shows "keyboard c = keyboard c'" "clipboard c = clipboard c'" "audio c = audio c'" "file_perm c = file_perm c'"
    "restart c = restart c'" "recording c = recording c'" "block_input c = block_input c'"
  using assms by (simp_all add: rights_def)

text \<open>Operations that keep the core.\<close>

definition keeps :: "(CS \<Rightarrow> CS) \<Rightarrow> bool" where
  "keeps f \<longleftrightarrow> (\<forall>s. core (conn (f s)) = core (conn s))"

lemma keeps_core [simp]: "keeps f \<Longrightarrow> core (conn (f s)) = core (conn s)"
  by (simp add: keeps_def)

lemma core_options [simp]:
  "core (c\<lparr>lock_after_session_end := b\<rparr>) = core c" "core (c\<lparr>show_remote_cursor := b\<rparr>) = core c"
  "core (c\<lparr>follow_remote_window := b\<rparr>) = core c" "core (c\<lparr>follow_remote_cursor := b\<rparr>) = core c"
  "core (c\<lparr>disable_audio := b\<rparr>) = core c" "core (c\<lparr>enable_file_transfer := b\<rparr>) = core c"
  "core (c\<lparr>disable_clipboard := b\<rparr>) = core c" "core (c\<lparr>disable_keyboard := b\<rparr>) = core c"
  "core (c\<lparr>terminal_persistent := b\<rparr>) = core c" "core (c\<lparr>show_my_cursor := b\<rparr>) = core c"
  "core (c\<lparr>services_subed := b\<rparr>) = core c" "core (c\<lparr>auto_disconnect_timer := t\<rparr>) = core c"
  "core (c\<lparr>options_in_login := om\<rparr>) = core c" "core (c\<lparr>start_cm_ipc_para := b\<rparr>) = core c"
  "core (c\<lparr>file_transferred := b\<rparr>) = core c" "core (c\<lparr>chat_unanswered := b\<rparr>) = core c"
  "core (c\<lparr>conn_read_jobs := js\<rparr>) = core c" "core (c\<lparr>cm_read_job_ids := is\<rparr>) = core c"
  "core (c\<lparr>printer_data := ps\<rparr>) = core c" "core (c\<lparr>file_remove_log_control := fl\<rparr>) = core c"
  "core (c\<lparr>delayed_read_dir := d\<rparr>) = core c" "core (c\<lparr>display_idx := i\<rparr>) = core c"
  "core (c\<lparr>multi_ui_session := b\<rparr>) = core c" "core (c\<lparr>voice_call_request_timestamp := ts\<rparr>) = core c"
  "core (c\<lparr>voice_calling := b\<rparr>) = core c" "core (c\<lparr>audio_sender := b\<rparr>) = core c"
  "core (c\<lparr>last_test_delay := ts\<rparr>) = core c" "core (c\<lparr>network_delay := nd\<rparr>) = core c"
  "core (c\<lparr>video_ack_required := b\<rparr>) = core c" "core (c\<lparr>peer_argb := a\<rparr>) = core c"
  "core (c\<lparr>terminal_service_id := sid, terminal_generic_service := b\<rparr>) = core c"
  "core (c\<lparr>chat_unanswered := b, file_transferred := b'\<rparr>) = core c"
  by (simp_all add: core_def rights_def)

lemma core_when_set: "(\<And>b s. core (conn (f b s)) = core (conn s)) \<Longrightarrow> core (conn (when_set q f s)) = core (conn s)"
  by (simp add: when_set_def split: option.split BoolOption.split)

lemma core_turn_on [simp]: "conn (turn_on_privacy h key s) = conn s"
  by (simp add: turn_on_privacy_def split: prod.split)

lemma core_turn_off [simp]: "conn (turn_off_privacy_conn h key s) = conn s"
  by (simp add: turn_off_privacy_conn_def split: prod.split)

lemma core_opts:
  "core (conn (opt_quality h om s)) = core (conn s)" "core (conn (opt_fps om s)) = core (conn s)"
  "core (conn (opt_decoding om s)) = core (conn s)" "core (conn (opt_cursor om s)) = core (conn s)"
  "core (conn (opt_follow om s)) = core (conn s)" "core (conn (opt_audio om s)) = core (conn s)"
  "core (conn (opt_file_transfer om s)) = core (conn s)" "core (conn (opt_clipboard om s)) = core (conn s)"
  "core (conn (opt_keyboard om s)) = core (conn s)" "core (conn (opt_privacy h om s)) = core (conn s)"
  "core (conn (opt_block_input om s)) = core (conn s)" "core (conn (opt_terminal om s)) = core (conn s)"
  "core (conn (opt_my_cursor h om s)) = core (conn s)"
  by (simp_all add: opt_quality_def opt_fps_def opt_decoding_def opt_cursor_def opt_follow_def opt_audio_def
      opt_file_transfer_def opt_clipboard_def opt_keyboard_def opt_privacy_def opt_block_input_def opt_terminal_def
      opt_my_cursor_def sub_audio_def sub_file_clipboard_def sub_clipboard_def Let_def core_when_set
      split: option.split BoolOption.split)

lemma core_update_options [simp]: "core (conn (update_options h om s)) = core (conn s)"
  by (simp add: update_options_def core_opts core_when_set)

section \<open>Admission\<close>

text \<open>The helpers of the login path.\<close>

lemma core_auth_helpers [simp]:
  "core (conn (update_codec_on_login s)) = core (conn s)" "core (conn (on_remote_authorized s)) = core (conn s)"
  "core (conn (try_sub_camera_displays h s)) = core (conn s)" "core (conn (try_sub_monitor_services h s)) = core (conn s)"
  "core (conn (init_terminal_service h s)) = core (conn s)" "core (conn (read_dir_req dir hidden s)) = core (conn s)"
  "core (conn (fst (logon_prepare h s))) = core (conn s)" "core (conn (take_login_options h s)) = core (conn s)"
  "core (conn (try_start_cm_ipc s)) = core (conn s)" "core (conn (update_auto_disconnect_timer h s)) = core (conn s)"
  by (simp_all add: update_codec_on_login_def on_remote_authorized_def try_sub_camera_displays_def
      try_sub_monitor_services_def init_terminal_service_def read_dir_req_def logon_prepare_def take_login_options_def
      try_start_cm_ipc_def update_auto_disconnect_timer_def Let_def split: option.split)

lemma conn_auth_helpers [simp]:
  "conn (send_login_error e s) = conn s" "conn (try_start_cm i nm b s) = conn s"
  "conn (wait_desktop_cm_ready h s) = conn s" "conn (check_wake_lock s) = conn s"
  "conn (fst (check_failure_conn h second s)) = conn s" "conn (update_failure_conn f rem second s) = conn s"
  "conn (fst (validate_password h s)) = conn s" "conn (fst (is_recent_session h t s)) = conn s"
  by (simp_all add: send_login_error_def try_start_cm_def wait_desktop_cm_ready_def check_wake_lock_def
      check_failure_conn_def update_failure_conn_def validate_password_def is_recent_session_def Let_def
      split: prod.split option.split)

lemma world_auth_helpers [simp]:
  "world (send_login_error e s) = world s" "world (try_start_cm i nm b s) = world s"
  "world (try_start_cm_ipc s) = world s" "world (wait_desktop_cm_ready h s) = world s"
  "world (check_wake_lock s) = world s" "world (fst (check_failure_conn h second s)) = world s"
  by (simp_all add: send_login_error_def try_start_cm_def try_start_cm_ipc_def wait_desktop_cm_ready_def
      check_wake_lock_def check_failure_conn_def Let_def split: prod.split option.split)

text \<open>The fields that admission is about.\<close>

definition gate :: "Connection \<Rightarrow> bool \<times> bool \<times> nat option" where
  "gate c = (authorized c, from_switch c, session_last_recv_time c)"

lemma core_gate: "core c = core c' \<Longrightarrow> gate c = gate c'"
  by (simp add: core_def gate_def)

lemma core_keyboard: "core c = core c' \<Longrightarrow> core (c\<lparr>keyboard := k\<rparr>) = core (c'\<lparr>keyboard := k\<rparr>)"
  by (simp add: core_def rights_def)

lemma conn_try_sub_camera [simp]: "conn (try_sub_camera_displays h s) = conn s"
  by (simp add: try_sub_camera_displays_def)

lemma logon_start_core:
  "core (conn (logon_start h sub s)) \<in> {core (conn s), core ((conn s)\<lparr>keyboard := False\<rparr>)}"
  by (simp add: logon_start_def split: option.split prod.split)

lemma become_authorized_conn:
  "\<exists>ty t. conn (become_authorized h s)
     = (conn s)\<lparr>authorized := True, authed_conn_id := Some ty, session_last_recv_time := t\<rparr>"
  by (auto simp: become_authorized_def authed_conn_id_new_def Let_def)

text \<open>Either nothing happens to the connection, or it is authorized, perhaps without the keyboard.\<close>

lemma send_logon_cases [consumes 0, case_names same granted]:
  obtains
    "conn (send_logon_response h s) = conn s"
    "authorized (conn s) \<or> require_2fa (conn s) \<noteq> None \<and> \<not> snd (is_recent_session h True s) \<and> \<not> from_switch (conn s)"
  | ty t k where
    "core (conn (send_logon_response h s))
      = core ((conn s)\<lparr>authorized := True, authed_conn_id := Some ty, session_last_recv_time := t, keyboard := k\<rparr>)"
    "k \<longrightarrow> keyboard (conn s)" "\<not> authorized (conn s)"
    "require_2fa (conn s) = None \<or> from_switch (conn s) \<or> snd (is_recent_session h True s)"
proof -
  obtain s1 recent where r: "(if require_2fa (conn s) \<noteq> None then is_recent_session h True s else (s, False)) = (s1, recent)"
    by (metis surj_pair)
  then have c1: "conn s1 = conn s"
    by (metis conn_auth_helpers(8) fst_conv)
  show thesis
  proof (cases "authorized (conn s) \<or> require_2fa (conn s) \<noteq> None \<and> \<not> recent \<and> \<not> from_switch (conn s)")
    case True
    then show ?thesis
      using r c1 by (intro that(1)) (auto simp: send_logon_response_def split: if_splits)
  next
    case False
    define s2 where "s2 = become_authorized h s1"
    obtain ty t where b: "conn s2 = (conn s)\<lparr>authorized := True, authed_conn_id := Some ty, session_last_recv_time := t\<rparr>"
      using become_authorized_conn [of h s1] c1 unfolding s2_def by auto
    have "core (conn (send_logon_response h s)) \<in> {core (conn s2), core ((conn s2)\<lparr>keyboard := False\<rparr>)}"
    proof (cases "port_forward_socket (conn s2) \<or> is_remote_conn (conn s2) \<and> display_server_error h \<noteq> []")
      case True
      then show ?thesis
        using False r c1 by (auto simp: send_logon_response_def Let_def s2_def)
    next
      case go: False
      define s3 where "s3 = take_login_options h (fst (logon_prepare h s2))"
      have c3: "core (conn s3) = core (conn s2)"
        by (simp add: s3_def)
      then have k3: "core ((conn s3)\<lparr>keyboard := False\<rparr>) = core ((conn s2)\<lparr>keyboard := False\<rparr>)"
        by (rule core_keyboard)
      have "send_logon_response h s = logon_start h (snd (logon_prepare h s2)) s3"
        using False go r c1 by (auto simp: send_logon_response_def Let_def s2_def s3_def split: prod.split)
      then show ?thesis
        using logon_start_core [of h "snd (logon_prepare h s2)" s3] c3 k3 by auto
    qed
    moreover have "core (conn s2) = core ((conn s)\<lparr>authorized := True, authed_conn_id := Some ty, session_last_recv_time := t,
        keyboard := keyboard (conn s)\<rparr>)"
      by (simp add: b core_def rights_def)
    moreover have "core ((conn s2)\<lparr>keyboard := False\<rparr>) = core ((conn s)\<lparr>authorized := True, authed_conn_id := Some ty,
        session_last_recv_time := t, keyboard := False\<rparr>)"
      by (simp add: b)
    ultimately show ?thesis
      using that(2) [where k = "keyboard (conn s)" and ty = ty and t = t] that(2) [where k = False and ty = ty and t = t] False r by (auto split: if_splits)
  qed
qed

lemma send_logon_authorized:
  "authorized (conn (send_logon_response h s)) \<longleftrightarrow> authorized (conn s) \<or> require_2fa (conn s) = None
     \<or> from_switch (conn s) \<or> snd (is_recent_session h True s)"
proof (cases rule: send_logon_cases [of h s])
  case (granted ty t k)
  then show ?thesis
    using core_D(1) [OF granted(1)] by auto
qed auto

section \<open>The handlers of an authorized peer\<close>

text \<open>Closing a connection and typing change a little more than the core.\<close>

definition standing :: "Connection \<Rightarrow> _" where
  "standing c = (authorized c, require_2fa c, rights c, inner c, lr c, (hash_salt c, hash_challenge c, ip c),
     (file_transfer c, view_camera c, terminal c, terminal_user_token c),
     (authed_conn_id c, from_switch c, session_last_recv_time c, control_permissions c))"

lemma core_standing: "core c = core c' \<Longrightarrow> standing c = standing c'"
  by (simp add: core_def standing_def)

lemma standing_D:
  assumes "standing c = standing c'"
  shows "authorized c = authorized c'" "rights c = rights c'" "inner c = inner c'" "gate c = gate c'"
    "control_permissions c = control_permissions c'"
  using assms by (simp_all add: standing_def gate_def)

lemma core_handlers [simp]:
  "core (conn (on_mouse h me s)) = core (conn s)" "core (conn (on_pointer h p s)) = core (conn s)"
  "core (conn (on_clipboard cbs s)) = core (conn s)" "core (conn (on_cliprdr h clip s)) = core (conn s)"
  "core (conn (send_fs r s)) = core (conn s)" "core (conn (on_file_response fr s)) = core (conn s)"
  "core (conn (refresh_video_display d s)) = core (conn s)" "core (conn (change_resolution h d' x y s)) = core (conn s)"
  "core (conn (display_changed_msg h i s)) = core (conn s)" "core (conn (conn_capture_displays add sub st s)) = core (conn s)"
  "core (conn (handle_voice_call b s)) = core (conn s)" "core (conn (close_voice_call s)) = core (conn s)"
  "core (conn (on_voice_call_request h b ts s)) = core (conn s)" "core (conn (handle_terminal_action h a s)) = core (conn s)"
  "core (conn (toggle_privacy_mode h b key s)) = core (conn s)" "core (conn (on_test_delay h b t s)) = core (conn s)"
  by (simp_all add: on_mouse_def on_pointer_def on_clipboard_def on_cliprdr_def send_fs_def on_file_response_def
      refresh_video_display_def change_resolution_def display_changed_msg_def conn_capture_displays_def
      handle_voice_call_def close_voice_call_def on_voice_call_request_def handle_terminal_action_def
      toggle_privacy_mode_def on_test_delay_def Let_def split: FileResponse.split option.split)

lemma core_switch_display [simp]: "core (conn (handle_switch_display h d x y s)) = core (conn s)"
  by (simp add: handle_switch_display_def switch_display_to_def Let_def split: option.split)

lemma core_files [simp]:
  "core (conn (process_new_read_job job path s)) = core (conn s)"
  "core (conn (create_and_start_read_job h i ty ds n hidden od path lm s)) = core (conn s)"
  "core (conn (all_files_action h i path hidden s)) = core (conn s)" "core (conn (cancel_action i s)) = core (conn s)"
  by (simp_all add: process_new_read_job_def create_and_start_read_job_def all_files_action_def cancel_action_def Let_def
      split: option.split outcome.split prod.split)

lemma core_send_action [simp]: "core (conn (send_action h i path n hidden ty s)) = core (conn s)"
  by (simp add: send_action_def Let_def split: option.split JobType.split prod.split)

lemma core_confirm_action: "confirm_action h r s = Some s' \<Longrightarrow> core (conn s') = core (conn s)"
  by (auto simp: confirm_action_def split: if_splits)

lemma core_do_file_action: "do_file_action h fa s = Some s' \<Longrightarrow> core (conn s') = core (conn s)"
  by (cases fa) (auto simp: do_file_action_def read_dir_req_def dest: core_confirm_action)

lemma core_on_file_action: "on_file_action h fa s = Some s' \<Longrightarrow> core (conn s') = core (conn s)"
  by (auto simp: on_file_action_def dest: core_do_file_action split: if_splits FileAction.splits)

lemma standing_on_close [simp]: "standing (conn (on_close lock s)) = standing (conn s)"
  by (simp add: on_close_def standing_def rights_def Let_def)

lemma conn_remove_session [simp]: "conn (remove_session s) = conn s" "conn (send_close_reason_no_retry r s) = conn s"
  by (simp_all add: remove_session_def send_close_reason_no_retry_def)

text \<open>A modifier key is never a press on Linux, so no modifier is remembered.\<close>

lemma on_key_standing [simp]: "standing (conn (on_key h me s)) = standing (conn s)"
  by (simp add: on_key_def update_auto_disconnect_timer_def track_modifier_def standing_def rights_def Let_def split: option.split)

lemma on_key_core: "pressed_modifiers (conn s) = [] \<Longrightarrow> core (conn (on_key h me s)) = core (conn s)"
  by (simp add: on_key_def track_modifier_def Let_def core_def rights_def update_auto_disconnect_timer_def split: option.split)

lemmas standing_simps = core_handlers [THEN core_standing] core_switch_display [THEN core_standing] core_files [THEN core_standing]
  core_update_options [THEN core_standing] core_auth_helpers [THEN core_standing] core_options [THEN core_standing]

lemma on_misc_standing: "standing (conn (fst (on_misc h m s))) = standing (conn s)"
  by (cases m) (simp_all add: on_misc_def standing_simps split: option.split)

lemma core_pressed: "core c = core c' \<Longrightarrow> pressed_modifiers c = pressed_modifiers c'"
  by (rule core_D)

lemmas pressed_simps = core_handlers [THEN core_pressed] core_switch_display [THEN core_pressed] core_files [THEN core_pressed]
  core_update_options [THEN core_pressed] core_auth_helpers [THEN core_pressed] core_options [THEN core_pressed]

lemma on_close_pressed [simp]: "pressed_modifiers (conn (on_close lock s)) = pressed_modifiers (conn s)"
  by (simp add: on_close_def Let_def)

lemma on_misc_pressed: "pressed_modifiers (conn (fst (on_misc h m s))) = pressed_modifiers (conn s)"
  by (cases m) (simp_all add: on_misc_def pressed_simps split: option.split)

lemma on_misc_D:
  assumes "on_misc h m s = (s', go)"
  shows "standing (conn s') = standing (conn s)" "pressed_modifiers (conn s') = pressed_modifiers (conn s)"
  using on_misc_standing [of h m s] on_misc_pressed [of h m s] assms by simp_all

lemma on_authorized_standing: "on_authorized h m s = Some (s', go) \<Longrightarrow> standing (conn s') = standing (conn s)"
  by (cases m) (auto simp: on_authorized_def standing_simps dest: core_on_file_action [THEN core_standing] on_misc_D split: if_splits)

lemma on_authorized_pressed:
  "on_authorized h m s = Some (s', go) \<Longrightarrow> pressed_modifiers (conn s) = [] \<Longrightarrow> pressed_modifiers (conn s') = []"
  using on_key_core [THEN core_pressed, of s h]
  by (cases m) (auto simp: on_authorized_def pressed_simps dest: core_on_file_action [THEN core_pressed] on_misc_D split: if_splits)

end
