(* ===== verification/Connection_Admission.thy ===== *)
theory Connection_Admission
  imports Connection_Frame
begin

text \<open>
  Who is admitted to the host.  The only events that authorize a connection are a login with a known
  password and the second factor, a right one-time code, the switch of sides announced by this host,
  and the consent of the user; and a login with the right password is admitted.
\<close>

section \<open>Credentials\<close>

definition req_key :: "LoginRequest \<Rightarrow> SessionKey" where
  "req_key req = \<lparr>sk_peer_id = my_id req, sk_name = my_name req, sk_session_id = session_id req\<rparr>"

definition live_session :: "Host \<Rightarrow> World \<Rightarrow> SessionKey \<Rightarrow> Session \<Rightarrow> bool" where
  "live_session h w key ses \<longleftrightarrow> (key, ses) \<in> set (sessions w)
     \<and> clock h - instant_at w (last_recv_time ses) < SESSION_TIMEOUT"

definition password_fits :: "Host \<Rightarrow> Connection \<Rightarrow> LoginRequest \<Rightarrow> string \<Rightarrow> bool" where
  "password_fits h c req pw \<longleftrightarrow>
     pw \<noteq> [] \<and> sha256 h (sha256 h (pw @ hash_salt c) @ hash_challenge c) = lr_password req"

text \<open>The one-time password, the permanent one, or the one-time password of a session that was heard
  of in the last 30 seconds.\<close>

definition knows_password :: "Host \<Rightarrow> LoginRequest \<Rightarrow> CS \<Rightarrow> bool" where
  "knows_password h req s \<longleftrightarrow>
    (let w = world s; st = store w; fits = password_fits h (conn s) req in
     temporary_enabled st \<and> fits (temporary st) \<or> permanent_enabled st \<and> fits (get_permanent_password st)
     \<or> (\<exists>ses. live_session h w (req_key req) ses \<and> fits (random_password ses)))"

definition passes_second_factor :: "Host \<Rightarrow> LoginRequest \<Rightarrow> CS \<Rightarrow> bool" where
  "passes_second_factor h req s \<longleftrightarrow> require_2fa (conn s) = None
     \<or> enable_trusted_devices (store (world s)) \<and> lr_hwid req \<noteq> []
         \<and> trusted_now h req (snd (get_trusted_devices (env h) (store (world s))))
     \<or> (\<exists>ses. live_session h (world s) (req_key req) ses \<and> tfa ses)"

definition right_code :: "Host \<Rightarrow> string \<Rightarrow> CS \<Rightarrow> bool" where
  "right_code h code s \<longleftrightarrow> (case require_2fa (conn s) of Some totp \<Rightarrow> totp_check h totp code = Some True | None \<Rightarrow> False)"

definition switch_announced :: "Host \<Rightarrow> LoginRequest \<Rightarrow> string \<Rightarrow> CS \<Rightarrow> bool" where
  "switch_announced h req bs s \<longleftrightarrow> (\<exists>t uuid. uuid_from_slice h bs = Some uuid
     \<and> (my_id req, (t, uuid)) \<in> set (switch_sides_uuid (world s)) \<and> clock h - t < 10000)"

definition admitted :: "Host \<Rightarrow> ConnEvent \<Rightarrow> CS \<Rightarrow> bool" where
  "admitted h e s = (case e of
     EvCm Authorize \<Rightarrow> True
   | EvPeer (LoginMsg req) \<Rightarrow> knows_password h req s \<and> passes_second_factor h req s
   | EvPeer (Auth2fa code _) \<Rightarrow> right_code h code s
   | EvPeer (SwitchSidesResponse (Some req) bs) \<Rightarrow> switch_announced h req bs s
   | _ \<Rightarrow> False)"

section \<open>The login path\<close>

lemma policy_cong:
  assumes "policy st = policy st'"
  shows "get_opt st = get_opt st'" "temporary st = temporary st'" "get_permanent_password st = get_permanent_password st'"
    "get_builtin_option st = get_builtin_option st'" "config st = config st'"
    "temporary_enabled st = temporary_enabled st'" "permanent_enabled st = permanent_enabled st'"
    "approve_mode st = approve_mode st'" "has_valid_password st = has_valid_password st'"
    "enable_trusted_devices st = enable_trusted_devices st'" "permission st = permission st'"
proof -
  have g: "get_opt st = get_opt st'" and t: "temporary st = temporary st'" and c: "config st = config st'"
    and b: "get_builtin_option st = get_builtin_option st'" and hs: "hard_settings st = hard_settings st'"
    using assms by (auto simp: policy_def get_opt_def get_builtin_option_def fun_eq_iff)
  then have p: "get_permanent_password st = get_permanent_password st'"
    and v: "verification_method st = verification_method st'"
    unfolding get_permanent_password_def verification_method_def by (simp_all split: option.split)
  have m: "is_permission_enabled_locally st = is_permission_enabled_locally st'"
    unfolding is_permission_enabled_locally_def g ..
  show "get_opt st = get_opt st'" "temporary st = temporary st'" "get_permanent_password st = get_permanent_password st'"
    "get_builtin_option st = get_builtin_option st'" "config st = config st'"
    by (fact g t p b c)+
  show te: "temporary_enabled st = temporary_enabled st'" and pe: "permanent_enabled st = permanent_enabled st'"
    by (simp_all add: temporary_enabled_def permanent_enabled_def v)
  show "approve_mode st = approve_mode st'" "enable_trusted_devices st = enable_trusted_devices st'"
    by (simp_all add: approve_mode_def enable_trusted_devices_def g)
  show "has_valid_password st = has_valid_password st'"
    by (simp add: has_valid_password_def te pe t p)
  show "permission st = permission st'"
    unfolding permission_def m ..
qed

lemma policy_trusted [simp]:
  "policy (set_trusted_devices e ds st) = policy st" "policy (fst (get_trusted_devices e st)) = policy st"
  by (simp_all add: policy_def set_trusted_devices_def get_trusted_devices_def config2_store_def Let_def split: prod.split)

lemma policy_got: "get_trusted_devices e st = (st', ds) \<Longrightarrow> policy st' = policy st"
  using policy_trusted(2) [of e st] by simp

definition globals :: "World \<Rightarrow> _" where
  "globals w = (sessions w, instants w, policy (store w), switch_sides_uuid w, login_failures w, server w, privacy_mode w)"

lemma handle_login_conn:
  fixes s req h
  defines "s1 \<equiv> handle_login_request_without_validation h req s"
  shows "gate (conn s1) = gate (conn s)" "lr (conn s1) = req" "hash_salt (conn s1) = hash_salt (conn s)"
    "hash_challenge (conn s1) = hash_challenge (conn s)" "ip (conn s1) = ip (conn s)" "rights (conn s1) = rights (conn s)"
    "pressed_modifiers (conn s1) = pressed_modifiers (conn s)" "closed (conn s1) = closed (conn s)"
    "inner (conn s1) = inner (conn s)" "control_permissions (conn s1) = control_permissions (conn s)"
    "authed_conn_id (conn s1) = authed_conn_id (conn s)"
    "require_2fa (conn s1) = None \<longleftrightarrow> require_2fa (conn s) = None
       \<or> enable_trusted_devices (store (world s)) \<and> lr_hwid req \<noteq> []
         \<and> trusted_now h req (snd (get_trusted_devices (env h) (store (world s))))"
    "globals (world s1) = globals (world s)" "outs s1 = outs s"
  unfolding s1_def handle_login_request_without_validation_def
  by (auto simp: Let_def gate_def rights_def globals_def policy_got
      split: prod.split option.split)

lemma login_kind_conn:
  fixes s req h
  defines "s2 \<equiv> fst (login_kind h req s)"
  shows "gate (conn s2) = gate (conn s)" "lr (conn s2) = lr (conn s)" "hash_salt (conn s2) = hash_salt (conn s)"
    "hash_challenge (conn s2) = hash_challenge (conn s)" "ip (conn s2) = ip (conn s)" "rights (conn s2) = rights (conn s)"
    "pressed_modifiers (conn s2) = pressed_modifiers (conn s)" "closed (conn s2) = closed (conn s)"
    "inner (conn s2) = inner (conn s)" "require_2fa (conn s2) = require_2fa (conn s)" "world s2 = world s"
    "authed_conn_id (conn s2) = authed_conn_id (conn s)" "control_permissions (conn s2) = control_permissions (conn s)"
  unfolding s2_def by (cases "lr_union req"; simp add: login_kind_def login_terminal_def login_port_forward_def refuse_def
      Let_def gate_def rights_def)+

text \<open>Sessions.\<close>

lemma recent_session_live:
  "snd (is_recent_session h t s) \<Longrightarrow> \<exists>ses. live_session h (world s) (session_key (conn s)) ses
     \<and> (t \<and> tfa ses \<or> \<not> t \<and> validate_one_password h (conn s) (random_password ses))"
  by (auto simp: is_recent_session_def Let_def expire_sessions_def hm_get_def hm_retain_def live_session_def
      split: option.splits dest!: map_of_SomeD)

lemma recent_session_world:
  "live_session h (world (fst (is_recent_session h t s))) key ses \<Longrightarrow> live_session h (world s) key ses"
  "policy (store (world (fst (is_recent_session h t s)))) = policy (store (world s))"
  by (auto simp: is_recent_session_def Let_def expire_sessions_def live_session_def hm_retain_def instant_at_def)

lemma mem_hm_insert: "x \<in> set (hm_insert k v m) \<Longrightarrow> x = (k, v) \<or> x \<in> set m"
  unfolding hm_insert_def by (induction m) (auto split: if_splits)

lemma update_session_live:
  assumes "live_session h (update_or_insert_session tm key (Some pw) (Some False) w) key ses" and "tfa ses"
  shows "live_session h w key ses"
proof (cases "hm_get (sessions w) key")
  case None
  then have "(key, ses) \<notin> set (sessions w)" for ses
    by (auto simp: hm_get_def map_of_eq_None_iff image_iff)
  with None assms show ?thesis
    by (auto simp: update_or_insert_session_def live_session_def unwrap_or_def dest!: mem_hm_insert)
next
  case (Some old)
  with assms show ?thesis
    by (auto simp: update_or_insert_session_def live_session_def instant_at_def unwrap_or_def dest!: mem_hm_insert)
qed

text \<open>The decisions, from the last to the first.\<close>

lemma login_ok_authorized:
  "authorized (conn (login_ok h req err s)) \<Longrightarrow> authorized (conn s) \<or> require_2fa (conn s) = None \<or> from_switch (conn s)
     \<or> snd (is_recent_session h True (wait_desktop_cm_ready h s))"
  by (auto simp: login_ok_def Let_def send_logon_authorized split: if_splits)

lemma live_session_update_failure [simp]:
  "live_session h (world (update_failure_conn f rem second s)) = live_session h (world s)"
  by (simp add: update_failure_conn_def live_session_def instant_at_def fun_eq_iff)

lemma validate_password_D:
  assumes "validate_password h s = (s', ok)"
  shows "ok \<Longrightarrow> temporary_enabled (store (world s)) \<and> validate_one_password h (conn s) (temporary (store (world s)))
     \<or> permanent_enabled (store (world s)) \<and> validate_one_password h (conn s) (get_permanent_password (store (world s)))"
    and "live_session h (world s') (session_key (conn s)) ses \<Longrightarrow> tfa ses
      \<Longrightarrow> live_session h (world s) (session_key (conn s)) ses"
  using assms by (auto simp: validate_password_def Let_def split: if_splits dest: update_session_live)

lemma login_password_authorized:
  assumes "authorized (conn (login_password h req err s))" "\<not> authorized (conn s)" "\<not> from_switch (conn s)"
  shows "temporary_enabled (store (world s)) \<and> validate_one_password h (conn s) (temporary (store (world s)))
     \<or> permanent_enabled (store (world s)) \<and> validate_one_password h (conn s) (get_permanent_password (store (world s)))"
    "require_2fa (conn s) = None \<or> (\<exists>ses. live_session h (world s) (session_key (conn s)) ses \<and> tfa ses)"
proof -
  obtain s1 f ok where cf: "check_failure_conn h False s = (s1, f, ok)" by (metis prod_cases3)
  then have s1: "conn s1 = conn s" "world s1 = world s"
    using conn_auth_helpers(5) [of h False s] world_auth_helpers(6) [of h False s] by auto
  obtain s2 ok2 where vp: "validate_password h s1 = (s2, ok2)" by (metis surj_pair)
  then have s2: "conn s2 = conn s"
    using conn_auth_helpers(7) [of h s1] s1 by auto
  have ok: "ok" "ok2" "authorized (conn (login_ok h req err (update_failure_conn f True False s2)))"
    using assms cf vp s1 s2 by (auto simp: login_password_def Let_def split: bool.splits if_splits)
  show "temporary_enabled (store (world s)) \<and> validate_one_password h (conn s) (temporary (store (world s)))
     \<or> permanent_enabled (store (world s)) \<and> validate_one_password h (conn s) (get_permanent_password (store (world s)))"
    using validate_password_D(1) [OF vp] ok s1 by simp
  let ?t = "wait_desktop_cm_ready h (update_failure_conn f True False s2)"
  have "require_2fa (conn s) = None \<or> snd (is_recent_session h True ?t)"
    using login_ok_authorized [OF ok(3)] assms s2 by auto
  then show "require_2fa (conn s) = None \<or> (\<exists>ses. live_session h (world s) (session_key (conn s)) ses \<and> tfa ses)"
    using recent_session_live [of h True ?t] validate_password_D(2) [OF vp] s1 s2 by auto
qed

lemma login_check_cases [consumes 1, case_names ok password refused]:
  assumes rs: "is_recent_session h False t = (s1, r)"
  obtains "fst (login_check h req err t) = login_ok h req err s1" | "fst (login_check h req err t) = login_password h req err s1"
  | e u a b where "fst (login_check h req err t) \<in> {send_login_error e u, try_start_cm a b False u, send_login_error e (try_start_cm a b False t)}"
      "u \<in> {t, s1}"
proof -
  define cm c1 c2 c3 where "cm = try_start_cm (my_id req) (my_name req) False"
    and "c1 \<longleftrightarrow> \<not> is_ip_str (lr_username req) \<and> \<not> is_domain_port_str (lr_username req) \<and> lr_username req \<noteq> cfg_id (config (store (world t)))"
    and "c2 \<longleftrightarrow> approve_mode (store (world t)) = ApproveClick
         \<and> \<not> (get_builtin_option (store (world t)) ''allow-logon-screen-password'' = ''Y'' \<and> (is_prelogin h \<or> is_locked h))
       \<or> approve_mode (store (world t)) = ApproveBoth \<and> \<not> has_valid_password (store (world t))"
    and "c3 \<longleftrightarrow> get_version_number ''1.2.0'' \<le> get_version_number (lr_version req)"
  have eq: "login_check h req err t = (if c1 then (send_login_error ''Offline'' t, False)
      else if c2 then (if c3 then send_login_error ''No Password Access'' (cm t) else cm t, True)
      else if r then (login_ok h req err s1, True)
      else if lr_password req = [] then (if err = [] then cm s1 else send_login_error ''Desktop session not ready, password empty'' s1, True)
      else (login_password h req err s1, True))"
    unfolding login_check_def Let_def rs c1_def c2_def c3_def cm_def by (cases r) (simp_all only: prod.case bool.case if_True if_False)
  have "fst (login_check h req err t) = login_ok h req err s1 \<or> fst (login_check h req err t) = login_password h req err s1
      \<or> (\<exists>e u. fst (login_check h req err t) \<in> {send_login_error e u, cm u, send_login_error e (cm t)} \<and> u \<in> {t, s1})"
    unfolding eq by (cases c1; cases c2; cases r; cases "lr_password req = []"; cases c3; cases "err = []") (simp_all, blast+)
  then show thesis
    unfolding cm_def using that by blast
qed

lemma login_check_authorized:
  assumes "authorized (conn (fst (login_check h req err s)))" "\<not> authorized (conn s)" "\<not> from_switch (conn s)" "lr (conn s) = req"
  shows "knows_password h req s" "require_2fa (conn s) = None \<or> (\<exists>ses. live_session h (world s) (req_key req) ses \<and> tfa ses)"
proof -
  have key: "session_key (conn s) = req_key req" and fits: "validate_one_password h (conn s) = password_fits h (conn s) req"
    using assms(4) by (auto simp: session_key_def req_key_def validate_one_password_def password_fits_def fun_eq_iff)
  obtain s1 r where rs: "is_recent_session h False s = (s1, r)" by (metis surj_pair)
  then have s1: "conn s1 = conn s" "policy (store (world s1)) = policy (store (world s))"
    "\<And>ses key. live_session h (world s1) key ses \<Longrightarrow> live_session h (world s) key ses"
    using conn_auth_helpers(8) [of h False s] recent_session_world [of h False s] by auto
  have "r \<and> authorized (conn (login_ok h req err s1)) \<or> \<not> r \<and> authorized (conn (login_password h req err s1))"
    using assms rs s1 by (auto simp: login_check_def Let_def split: if_splits bool.splits)
  then show "knows_password h req s" "require_2fa (conn s) = None \<or> (\<exists>ses. live_session h (world s) (req_key req) ses \<and> tfa ses)"
  proof (atomize (full), elim disjE conjE, goal_cases)
    case 1
    let ?t = "wait_desktop_cm_ready h s1"
    have "require_2fa (conn s) = None \<or> (\<exists>ses. live_session h (world s) (req_key req) ses \<and> tfa ses)"
      using login_ok_authorized [OF 1(2)] recent_session_live [of h True ?t] assms s1 key by auto
    moreover have "\<exists>ses. live_session h (world s) (req_key req) ses \<and> password_fits h (conn s) req (random_password ses)"
      using 1 recent_session_live [of h False s] rs key fits by auto
    ultimately show ?case
      by (auto simp: knows_password_def Let_def)
  next
    case 2
    then show ?case
      using login_password_authorized [OF 2(2)] assms s1 key fits policy_cong [OF s1(2)]
      by (auto simp: knows_password_def Let_def)
  qed
qed

lemma gate_D: "gate c = gate c' \<Longrightarrow> authorized c = authorized c'" "gate c = gate c' \<Longrightarrow> from_switch c = from_switch c'"
  "gate c = gate c' \<Longrightarrow> session_last_recv_time c = session_last_recv_time c'"
  by (simp_all add: gate_def)

lemma live_session_globals: "globals w = globals w' \<Longrightarrow> live_session h w = live_session h w'"
  by (auto simp: globals_def live_session_def instant_at_def fun_eq_iff)

lemma globals_policy: "globals w = globals w' \<Longrightarrow> policy (store w) = policy (store w')"
  by (simp add: globals_def)

lemma on_login_authorized:
  assumes "authorized (conn (fst (on_login h req s)))" "\<not> authorized (conn s)" "\<not> from_switch (conn s)"
  shows "knows_password h req s \<and> passes_second_factor h req s"
proof -
  define s1 where "s1 = handle_login_request_without_validation h req s"
  note hl = handle_login_conn [of h req s, folded s1_def]
  obtain s2 k where lk: "login_kind h req s1 = (s2, k)" by (metis surj_pair)
  note kc = login_kind_conn [of h req s1, unfolded lk fst_conv]
  define s3 where "s3 = try_start_cm_ipc s2"
  have core3: "core (conn s3) = core (conn s2)" and w3: "world s3 = world s1"
    by (simp_all add: s3_def kc(11))
  have auth: "\<not> authorized (conn s1)" "\<not> authorized (conn s2)" "\<not> authorized (conn s3)" "\<not> from_switch (conn s3)"
    using assms(2,3) gate_D [OF hl(1)] gate_D [OF kc(1)] core_D [OF core3] by auto
  have go: "authorized (conn (fst (login_check h req (desktop_error h req) s3)))"
    using assms(1) auth lk unfolding on_login_def Let_def s1_def [symmetric]
    by (auto simp: s3_def split: option.splits if_splits)
  have lr3: "lr (conn s3) = req"
    using core_D [OF core3] kc(2) hl(2) by simp
  have fits: "password_fits h (conn s3) = password_fits h (conn s)"
    using core_D [OF core3] kc(3,4) hl(3,4) by (simp add: password_fits_def fun_eq_iff)
  have live: "live_session h (world s3) = live_session h (world s)"
    using live_session_globals [OF hl(13)] w3 by simp
  have kp: "knows_password h req s3 = knows_password h req s"
    unfolding knows_password_def Let_def fits w3 live_session_globals [OF hl(13)] policy_cong [OF globals_policy [OF hl(13)]] ..
  have "require_2fa (conn s3) = None \<longleftrightarrow> require_2fa (conn s1) = None"
    using core_D [OF core3] kc(10) by simp
  then show ?thesis
    using login_check_authorized [OF go auth(3,4) lr3] kp live hl(12) by (auto simp: passes_second_factor_def)
qed

lemma on_auth_2fa_authorized:
  assumes "authorized (conn (on_auth_2fa h code hw s))" "\<not> authorized (conn s)"
  shows "right_code h code s"
proof -
  obtain s1 f ok where cf: "check_failure_conn h True s = (s1, f, ok)" by (metis prod_cases3)
  then have s1: "conn s1 = conn s"
    using conn_auth_helpers(5) [of h True s] by auto
  with cf assms show ?thesis
    by (auto simp: on_auth_2fa_def right_code_def split: bool.splits option.splits)
qed

lemma on_switch_sides_authorized:
  assumes "authorized (conn (on_switch_sides h ro bs s))" "\<not> authorized (conn s)"
  obtains req where "ro = Some req" "switch_announced h req bs s"
proof (cases ro)
  case (Some req)
  define s1 where "s1 = handle_login_request_without_validation h req s"
  note hl = handle_login_conn [of h req s, folded s1_def]
  have sw: "switch_sides_uuid (world s1) = switch_sides_uuid (world s)"
    using hl(13) by (simp add: globals_def)
  have na: "\<not> authorized (conn s1)"
    using gate_D(1) [OF hl(1)] assms(2) by simp
  obtain uuid t where u: "uuid_from_slice h bs = Some uuid"
    and "hm_get (hm_retain (\<lambda>_ v. clock h - fst v < 10000) (switch_sides_uuid (world s1))) (my_id req) = Some (t, uuid)"
    using assms na Some unfolding on_switch_sides_def Let_def s1_def
    by (auto split: option.splits if_splits)
  then have "switch_announced h req bs s"
    by (auto simp: switch_announced_def hm_get_def hm_retain_def sw dest!: map_of_SomeD)
  with Some that show thesis by blast
qed (use assms in \<open>simp add: on_switch_sides_def\<close>)

section \<open>The invariant\<close>

text \<open>Only authorized connections come from a switch of sides or share the instant of a session, and no
  modifier key is remembered.\<close>

definition adm_inv :: "Connection \<Rightarrow> bool" where
  "adm_inv c \<longleftrightarrow> (from_switch c \<or> session_last_recv_time c \<noteq> None \<longrightarrow> authorized c) \<and> pressed_modifiers c = []"

lemma adm_inv_cong: "gate c = gate c' \<Longrightarrow> pressed_modifiers c = pressed_modifiers c' \<Longrightarrow> adm_inv c = adm_inv c'"
  by (simp add: gate_def adm_inv_def)

lemma adm_inv_core: "core c = core c' \<Longrightarrow> adm_inv c = adm_inv c'"
  using core_gate core_pressed adm_inv_cong by blast

text \<open>What a step may do to the connection: it keeps the invariant and revokes no authorization.\<close>

definition sound :: "Connection \<Rightarrow> Connection \<Rightarrow> bool" where
  "sound c c' \<longleftrightarrow> (adm_inv c \<longrightarrow> adm_inv c') \<and> (authorized c \<longrightarrow> authorized c')"

lemma sound_refl [simp]: "sound c c"
  by (simp add: sound_def)

lemma sound_trans: "sound c c' \<Longrightarrow> sound c' c'' \<Longrightarrow> sound c c''"
  by (simp add: sound_def)

lemma sound_core: "core c' = core c \<Longrightarrow> sound c c'"
  using adm_inv_core [of c' c] core_D(1) [of c' c] by (simp add: sound_def)

lemma sound_frame: "gate c' = gate c \<Longrightarrow> pressed_modifiers c' = pressed_modifiers c \<Longrightarrow> sound c c'"
  using adm_inv_cong [of c' c] gate_D(1) [of c' c] by (simp add: sound_def)

lemma sound_logon: "sound (conn s) (conn (send_logon_response h s))"
proof (cases rule: send_logon_cases [of h s])
  case (granted ty t k)
  then show ?thesis
    using core_D [OF granted(1)] by (auto simp: sound_def adm_inv_def)
qed simp

text \<open>Permissions are only ever given by the user: a login may take the keyboard away.\<close>

definition lesser :: "Connection \<Rightarrow> Connection \<Rightarrow> bool" where
  "lesser c c' \<longleftrightarrow> list_all2 (\<longrightarrow>) (rights c') (rights c)"

lemma lesser_rights: "rights c' = rights c \<Longrightarrow> lesser c c'"
  by (simp add: lesser_def rights_def)

lemma lesser_trans: "lesser c c' \<Longrightarrow> lesser c' c'' \<Longrightarrow> lesser c c''"
  by (auto simp: lesser_def rights_def)

lemma lesser_logon: "lesser (conn s) (conn (send_logon_response h s))"
proof (cases rule: send_logon_cases [of h s])
  case (granted ty t k)
  then show ?thesis
    using core_D(3) [OF granted(1)] by (simp add: lesser_def rights_def)
qed (simp add: lesser_rights)

text \<open>A relation between connections that the answer to a login respects is respected by every way of
  logging in.\<close>

locale login_path =
  fixes R :: "Connection \<Rightarrow> Connection \<Rightarrow> bool"
  assumes trans: "R c c' \<Longrightarrow> R c' c'' \<Longrightarrow> R c c''"
    and same: "gate c' = gate c \<Longrightarrow> pressed_modifiers c' = pressed_modifiers c \<Longrightarrow> rights c' = rights c \<Longrightarrow> R c c'"
    and logon: "R (conn s) (conn (send_logon_response h s))"
    and switch: "R (conn s) (conn (send_logon_response h (upd_conn (\<lambda>c. c\<lparr>from_switch := True\<rparr>) s)))"
begin

lemma refl [simp]: "R c c"
  by (rule same) simp_all

lemma core: "core c' = core c \<Longrightarrow> R c c'"
  using core_gate core_pressed core_D(3) by (intro same)

lemma logon_upd:
  "gate c = gate (conn s) \<Longrightarrow> pressed_modifiers c = pressed_modifiers (conn s) \<Longrightarrow> rights c = rights (conn s)
    \<Longrightarrow> R c (conn (send_logon_response h s))"
  by (rule trans [OF same logon]) simp_all

lemma login_ok: "R (conn s) (conn (login_ok h req err s))"
  using logon [of "wait_desktop_cm_ready h s" h] by (simp add: login_ok_def Let_def)

lemma login_password: "R (conn s) (conn (login_password h req err s))"
proof -
  obtain s1 f ok where cf: "check_failure_conn h False s = (s1, f, ok)" by (metis prod_cases3)
  then have s1: "conn s1 = conn s"
    using conn_auth_helpers(5) [of h False s] by auto
  obtain s2 ok2 where vp: "validate_password h s1 = (s2, ok2)" by (metis surj_pair)
  then have s2: "conn s2 = conn s"
    using conn_auth_helpers(7) [of h s1] s1 by auto
  show ?thesis
    using cf vp s1 s2 login_ok [of "update_failure_conn f True False s2" h req]
    by (simp add: login_password_def Let_def split: bool.split)
qed

lemma login_check: "R (conn s) (conn (fst (login_check h req err s)))"
proof -
  obtain s1 r where rs: "is_recent_session h False s = (s1, r)" by (metis surj_pair)
  then have s1: "conn s1 = conn s"
    using conn_auth_helpers(8) [of h False s] by auto
  show ?thesis
    using rs s1 login_ok [of s1 h req] login_password [of s1 h req]
    by (simp add: login_check_def Let_def split: bool.split)
qed

lemma on_login: "R (conn s) (conn (fst (on_login h req s)))"
proof -
  define s1 where "s1 = handle_login_request_without_validation h req s"
  note hl = handle_login_conn [of h req s, folded s1_def]
  obtain s2 k where lk: "login_kind h req s1 = (s2, k)" by (metis surj_pair)
  note kc = login_kind_conn [of h req s1, unfolded lk fst_conv]
  have s1: "R (conn s) (conn s1)" and s2: "R (conn s1) (conn s2)"
    using hl(1,6,7) kc(1,6,7) by (simp_all add: same)
  have s3: "R (conn s2) (conn (try_start_cm_ipc s2))"
    by (simp add: core)
  show ?thesis
    using s1 s2 s3 lk login_check [of "try_start_cm_ipc s2" h req]
    unfolding on_login_def Let_def s1_def [symmetric]
    by (auto split: option.split intro: trans)
qed

lemma auth_2fa: "R (conn s) (conn (on_auth_2fa h code hw s))"
proof -
  obtain s1 f ok where cf: "check_failure_conn h True s = (s1, f, ok)" by (metis prod_cases3)
  then have s1: "conn s1 = conn s"
    using conn_auth_helpers(5) [of h True s] by auto
  have "R (conn s) (conn (send_logon_response h (upd_world g (upd_conn (\<lambda>c. c\<lparr>require_2fa := None\<rparr>) (update_failure_conn f True True s1)))))" for g
    by (rule logon_upd) (simp_all add: s1 gate_def rights_def)
  then show ?thesis
    by (simp add: on_auth_2fa_def cf s1 Let_def split: bool.split option.split)
qed

lemma switch_sides: "R (conn s) (conn (on_switch_sides h ro bs s))"
proof (cases ro)
  case (Some req)
  define s1 where "s1 = handle_login_request_without_validation h req s"
  note hl = handle_login_conn [of h req s, folded s1_def]
  have s1: "R (conn s) (conn s1)"
    using hl(1,6,7) by (simp add: same)
  have "R (conn s1) (conn (send_logon_response h (upd_conn (\<lambda>c. c\<lparr>from_switch := True\<rparr>) (upd_world g s1))))" for g
    using switch [of "upd_world g s1" h] by simp
  from trans [OF this core]
  have "R (conn s1) (conn (try_start_cm_ipc (try_start_cm a b c (send_logon_response h (upd_conn (\<lambda>c. c\<lparr>from_switch := True\<rparr>) (upd_world g s1))))))" for g a b c
    by simp
  then show ?thesis
    using s1 Some unfolding on_switch_sides_def
    by (auto simp: Let_def s1_def [symmetric] split: option.split intro: trans)
qed (simp add: on_switch_sides_def)

end

interpretation snd: login_path sound
proof
  show "sound (conn s) (conn (send_logon_response h (upd_conn (\<lambda>c. c\<lparr>from_switch := True\<rparr>) s)))"
    (is "sound _ (conn (send_logon_response h ?t))") for s h
  proof (cases rule: send_logon_cases [of h ?t])
    case (granted ty t k)
    have "authorized (conn (send_logon_response h ?t))" "pressed_modifiers (conn (send_logon_response h ?t)) = pressed_modifiers (conn s)"
      using core_D(1,17) [OF granted(1)] by simp_all
    then show ?thesis
      by (simp add: sound_def adm_inv_def)
  next
    case same
    then show ?thesis
      by (auto simp: sound_def adm_inv_def)
  qed
qed (use sound_trans sound_frame sound_logon in blast)+

interpretation lss: login_path lesser
proof
  show "lesser (conn s) (conn (send_logon_response h (upd_conn (\<lambda>c. c\<lparr>from_switch := True\<rparr>) s)))" for s h
    using lesser_logon [of "upd_conn (\<lambda>c. c\<lparr>from_switch := True\<rparr>) s" h] by (simp add: lesser_def rights_def)
qed (use lesser_trans lesser_rights lesser_logon in blast)+

section \<open>Steps\<close>

text \<open>Everything but the three ways of a peer and the consent of the user leaves the gate alone.\<close>

definition guarded :: "Connection \<Rightarrow> _" where
  "guarded c = (gate c, pressed_modifiers c)"

lemma guarded_core: "core c = core c' \<Longrightarrow> guarded c = guarded c'"
  by (simp add: guarded_def core_def gate_def)

lemma sound_guarded: "guarded c' = guarded c \<Longrightarrow> sound c c'"
  by (simp add: guarded_def sound_frame)

lemma conn_subs [simp]:
  "conn (sub_clipboard s) = conn s" "conn (sub_file_clipboard s) = conn s" "conn (sub_audio s) = conn s"
  "conn (send_permission p b s) = conn s"
  by (simp_all add: sub_clipboard_def sub_file_clipboard_def sub_audio_def send_permission_def)

lemma guarded_rights [simp]:
  "guarded (c\<lparr>keyboard := b\<rparr>) = guarded c" "guarded (c\<lparr>clipboard := b\<rparr>) = guarded c" "guarded (c\<lparr>audio := b\<rparr>) = guarded c"
  "guarded (c\<lparr>file_perm := b\<rparr>) = guarded c" "guarded (c\<lparr>restart := b\<rparr>) = guarded c" "guarded (c\<lparr>recording := b\<rparr>) = guarded c"
  "guarded (c\<lparr>block_input := b\<rparr>) = guarded c"
  by (simp_all add: guarded_def gate_def)

lemma guarded_on_close [simp]: "guarded (conn (on_close lock s)) = guarded (conn s)"
  using standing_D(4) [OF standing_on_close] by (simp add: guarded_def)

lemmas guarded_simps = core_handlers [THEN guarded_core] core_options [THEN guarded_core] core_auth_helpers [THEN guarded_core]

lemma guarded_switch_permission [simp]: "guarded (conn (switch_permission nm b s)) = guarded (conn s)"
  by (simp add: switch_permission_def switch_keyboard_def switch_audio_def switch_file_perm_def Let_def)

lemma guarded_from_files [simp]: "guarded (conn (from_files m s)) = guarded (conn s)"
  by (cases m) (simp_all add: from_files_def handle_read_job_init_result_def handle_file_read_error_def
      handle_file_block_from_cm_def handle_file_read_done_def handle_file_digest_from_cm_def handle_all_files_result_def
      forget_job_def guarded_simps split: outcome.split)

lemma guarded_on_cm: "m \<noteq> Authorize \<Longrightarrow> guarded (conn (fst (on_cm h m s))) = guarded (conn s)"
  by (cases m) (simp_all add: on_cm_def guarded_simps)

lemma guarded_timers:
  "guarded (conn (fst (on_second_timer h s))) = guarded (conn s)" "guarded (conn (fst (on_delay_timer h t s))) = guarded (conn s)"
  "guarded (conn (fst (on_service m l scr net s))) = guarded (conn s)" "guarded (conn (fst (on_video fr v net s))) = guarded (conn s)"
  by (simp_all add: on_second_timer_def on_delay_timer_def on_service_def on_video_def deliver_def handle_cursor_switch_display_def guarded_simps Let_def
      split: prod.split option.split ServiceMsg.split)

lemma guarded_file_timer: "on_file_timer h l sched net s = Some (s', go) \<Longrightarrow> guarded (conn s') = guarded (conn s)"
  by (auto simp: on_file_timer_def guarded_simps Let_def split: if_splits prod.splits outcome.splits JobLog.splits)

lemma guarded_D:
  "on_cm h m s = (s', go) \<Longrightarrow> m \<noteq> Authorize \<Longrightarrow> guarded (conn s') = guarded (conn s)"
  "on_second_timer h s = (s', go) \<Longrightarrow> guarded (conn s') = guarded (conn s)"
  "on_delay_timer h t s = (s', go) \<Longrightarrow> guarded (conn s') = guarded (conn s)"
  "on_service m' l scr net s = (s', go) \<Longrightarrow> guarded (conn s') = guarded (conn s)"
  "on_video fr v net s = (s', go) \<Longrightarrow> guarded (conn s') = guarded (conn s)"
  using guarded_on_cm [of m h s] guarded_timers(1) [of h s] guarded_timers(2) [of h t s] guarded_timers(3) [of m' l scr net s]
    guarded_timers(4) [of fr v net s]
  by auto

lemma conn_touch [simp]: "conn (touch_session h s) = conn s"
  by (simp add: touch_session_def split: option.split)

lemma conn_clip [simp]: "conn (on_clip k m s) = conn s"
  by (simp add: on_clip_def handle_file_clip_def)

lemma touch_unauthorized: "adm_inv (conn s) \<Longrightarrow> \<not> authorized (conn s) \<Longrightarrow> touch_session h s = s"
  by (simp add: touch_session_def adm_inv_def split: option.split)

lemma on_message_sound:
  assumes "on_message h m s = Some (s', go)" and inv: "adm_inv (conn s)"
  shows "sound (conn s) (conn s')"
    "authorized (conn s') \<Longrightarrow> \<not> authorized (conn s) \<Longrightarrow> admitted h (EvPeer m) s"
proof (atomize (full), goal_cases)
  case 1
  consider req where "m = LoginMsg req" | code hw where "m = Auth2fa code hw" | ro bs where "m = SwitchSidesResponse ro bs"
    | "guarded (conn s') = guarded (conn s)" | "authorized (conn s)" "on_authorized h m s = Some (s', go)"
    using assms(1) by (cases m) (auto simp: on_message_def guarded_simps split: MiscMsg.splits if_splits)
  then show ?case
  proof cases
    case (1 req)
    then have s': "s' = fst (on_login h req s)"
      using assms(1) by (simp add: on_message_def)
    then show ?thesis
      using snd.on_login [of s h req] on_login_authorized [of h req s] inv 1 by (auto simp: admitted_def adm_inv_def)
  next
    case (2 code hw)
    then have "s' = on_auth_2fa h code hw s"
      using assms(1) by (simp add: on_message_def)
    then show ?thesis
      using snd.auth_2fa [of s h code hw] on_auth_2fa_authorized [of h code hw s] 2 by (auto simp: admitted_def)
  next
    case (3 ro bs)
    then have "s' = on_switch_sides h ro bs s"
      using assms(1) by (simp add: on_message_def)
    then show ?thesis
      using snd.switch_sides [of s h ro bs] 3 by (auto simp: admitted_def elim!: on_switch_sides_authorized)
  next
    case 4
    then show ?thesis
      using sound_guarded [OF 4] by (auto simp: guarded_def gate_def)
  next
    case 5
    then have "guarded (conn s') = guarded (conn s)"
      using on_authorized_pressed [OF 5(2)] standing_D(4) [OF on_authorized_standing [OF 5(2)]] inv
      by (simp add: guarded_def adm_inv_def)
    then show ?thesis
      using sound_guarded 5(1) by blast
  qed
qed

lemma step_sound:
  assumes "conn_step h e (s, t) = Some ((s', t'), go)" and inv: "adm_inv (conn s)"
  shows "sound (conn s) (conn s')" "authorized (conn s') \<Longrightarrow> \<not> authorized (conn s) \<Longrightarrow> admitted h e s"
proof (atomize (full), goal_cases)
  case 1
  consider m where "e = EvPeer m" | "e = EvCm Authorize" | "guarded (conn s') = guarded (conn s)"
    using assms(1)
    by (cases e) (auto simp: conn_step_def dest: guarded_D guarded_file_timer split: prod.splits if_splits)
  then show ?case
  proof cases
    case (1 m)
    then obtain go' where m: "on_message h m (touch_session h s) = Some (s', go')"
      using assms(1) by (auto simp: conn_step_def on_peer_def split: option.splits bool.splits)
    show ?thesis
      using on_message_sound [OF m] touch_unauthorized [OF inv] inv 1 by auto
  next
    case 2
    have "sound (conn s) (conn (send_logon_response h (upd_conn (\<lambda>c. c\<lparr>require_2fa := None\<rparr>) s)))"
      by (rule snd.logon_upd) (simp_all add: gate_def rights_def)
    then show ?thesis
      using assms(1) 2 by (auto simp: conn_step_def on_cm_def admitted_def Let_def)
  next
    case 3
    then show ?thesis
      using sound_guarded [OF 3] by (auto simp: guarded_def gate_def)
  qed
qed

text \<open>The permissions.\<close>

lemmas rights_simps = core_handlers [THEN core_D(3)] core_options [THEN core_D(3)] core_auth_helpers [THEN core_D(3)]
  standing_on_close [THEN standing_D(2)]

lemma rights_from_files: "rights (conn (from_files m s)) = rights (conn s)"
  by (cases m) (simp_all add: from_files_def handle_read_job_init_result_def handle_file_read_error_def
      handle_file_block_from_cm_def handle_file_read_done_def handle_file_digest_from_cm_def handle_all_files_result_def
      forget_job_def rights_simps split: outcome.split)

lemma rights_D_steps:
  "on_cm h m s = (s', go) \<Longrightarrow> m \<noteq> Authorize \<Longrightarrow> \<forall>nm b. m \<noteq> SwitchPermission nm b \<Longrightarrow> rights (conn s') = rights (conn s)"
  "on_second_timer h s = (s', go) \<Longrightarrow> rights (conn s') = rights (conn s)"
  "on_delay_timer h t s = (s', go) \<Longrightarrow> rights (conn s') = rights (conn s)"
  "on_service m' l scr net s = (s', go) \<Longrightarrow> rights (conn s') = rights (conn s)"
  "on_video fr v net s = (s', go) \<Longrightarrow> rights (conn s') = rights (conn s)"
  "on_file_timer h lb sched net s = Some (s', go) \<Longrightarrow> rights (conn s') = rights (conn s)"
proof -
  show "on_cm h m s = (s', go) \<Longrightarrow> m \<noteq> Authorize \<Longrightarrow> \<forall>nm b. m \<noteq> SwitchPermission nm b \<Longrightarrow> rights (conn s') = rights (conn s)"
    by (cases m) (auto simp: on_cm_def rights_simps rights_from_files split: if_splits)
  have "rights (conn (fst (on_second_timer h s))) = rights (conn s)" "rights (conn (fst (on_delay_timer h t s))) = rights (conn s)"
    "rights (conn (fst (on_service m' l scr net s))) = rights (conn s)" "rights (conn (fst (on_video fr v net s))) = rights (conn s)"
    by (simp_all add: on_second_timer_def on_delay_timer_def on_service_def on_video_def deliver_def handle_cursor_switch_display_def rights_simps Let_def
        split: prod.split option.split ServiceMsg.split)
  then show "on_second_timer h s = (s', go) \<Longrightarrow> rights (conn s') = rights (conn s)"
    "on_delay_timer h t s = (s', go) \<Longrightarrow> rights (conn s') = rights (conn s)"
    "on_service m' l scr net s = (s', go) \<Longrightarrow> rights (conn s') = rights (conn s)"
    "on_video fr v net s = (s', go) \<Longrightarrow> rights (conn s') = rights (conn s)" by auto
  show "on_file_timer h lb sched net s = Some (s', go) \<Longrightarrow> rights (conn s') = rights (conn s)"
    by (auto simp: on_file_timer_def rights_simps Let_def split: if_splits prod.splits outcome.splits JobLog.splits)
qed

lemma message_lesser:
  assumes m: "on_message h m s = Some (s', go)"
  shows "lesser (conn s) (conn s')"
proof -
  consider req where "s' = fst (on_login h req s)" | code hw where "s' = on_auth_2fa h code hw s" | ro bs where "s' = on_switch_sides h ro bs s"
    | "rights (conn s') = rights (conn s)" | "on_authorized h m s = Some (s', go)"
    using m by (cases m) (auto simp: on_message_def rights_simps split: MiscMsg.splits if_splits, metis fst_conv)
  then show ?thesis
    by cases (auto intro: lss.on_login lss.auth_2fa lss.switch_sides lesser_rights standing_D(2) on_authorized_standing)
qed

lemma step_lesser:
  assumes st: "conn_step h e (s, t) = Some ((s', t'), go)" and perm: "\<forall>nm b. e \<noteq> EvCm (SwitchPermission nm b)"
  shows "lesser (conn s) (conn s')"
proof -
  consider m where "e = EvPeer m" | "e = EvCm Authorize" | "rights (conn s') = rights (conn s)"
    using st perm by (cases e) (auto simp: conn_step_def rights_simps dest: rights_D_steps split: prod.splits if_splits)
  then show ?thesis
  proof cases
    case (1 m)
    then obtain go' where m: "on_message h m (touch_session h s) = Some (s', go')"
      using st by (auto simp: conn_step_def on_peer_def split: option.splits bool.splits)
    show ?thesis
      using message_lesser [OF m] by simp
  next
    case 2
    have "lesser (conn s) (conn (send_logon_response h (upd_conn (\<lambda>c. c\<lparr>require_2fa := None\<rparr>) s)))"
      by (rule lss.logon_upd) (simp_all add: gate_def rights_def)
    then show ?thesis
      using st 2 by (auto simp: conn_step_def on_cm_def Let_def)
  qed (rule lesser_rights)
qed

section \<open>Runs\<close>

lemma run_inv: "conn_loop es (s0, t0) = Some ((s, t), go) \<Longrightarrow> adm_inv (conn s0) \<Longrightarrow> adm_inv (conn s)"
proof (induction es arbitrary: s0 t0)
  case (Cons x es)
  obtain h w e where x: "x = (h, w, e)" by (metis prod_cases3)
  obtain s1 t1 go1 where st: "conn_step h e (s0\<lparr>world := w\<rparr>, t0) = Some ((s1, t1), go1)"
    using Cons.prems(1) by (cases "conn_step h e (s0\<lparr>world := w\<rparr>, t0)") (auto simp: x)
  have "adm_inv (conn s1)"
    using step_sound(1) [OF st] Cons.prems(2) by (simp add: sound_def)
  then show ?case
    using Cons st by (auto simp: x split: bool.splits)
qed simp

lemma run_lesser:
  "conn_loop es (s0, t0) = Some ((s, t), go) \<Longrightarrow> list_all (\<lambda>(_, _, e). \<forall>nm b. e \<noteq> EvCm (SwitchPermission nm b)) es
    \<Longrightarrow> lesser (conn s0) (conn s)"
proof (induction es arbitrary: s0 t0)
  case (Cons x es)
  obtain h w e where x: "x = (h, w, e)" by (metis prod_cases3)
  obtain s1 t1 go1 where st: "conn_step h e (s0\<lparr>world := w\<rparr>, t0) = Some ((s1, t1), go1)"
    using Cons.prems(1) by (cases "conn_step h e (s0\<lparr>world := w\<rparr>, t0)") (auto simp: x)
  have l: "lesser (conn s0) (conn s1)"
    using step_lesser [OF st] Cons.prems(2) by (simp add: x)
  show ?case
  proof (cases go1)
    case True
    then have "lesser (conn s1) (conn s)"
      using Cons st by (auto simp: x)
    with l show ?thesis
      by (rule lesser_trans)
  qed (use Cons.prems st l in \<open>auto simp: x\<close>)
qed (simp add: lesser_rights)

lemma run_admission:
  assumes "conn_loop es (s0, t0) = Some ((s', t'), go)" "adm_inv (conn s0)" "\<not> authorized (conn s0)" "authorized (conn s')"
  shows "\<exists>es1 h w e es2 s t. es = es1 @ (h, w, e) # es2 \<and> conn_loop es1 (s0, t0) = Some ((s, t), True)
     \<and> \<not> authorized (conn s) \<and> admitted h e (s\<lparr>world := w\<rparr>)"
  using assms
proof (induction es arbitrary: s0 t0)
  case (Cons x es)
  obtain h w e where x: "x = (h, w, e)" by (metis prod_cases3)
  obtain s1 t1 go1 where st: "conn_step h e (s0\<lparr>world := w\<rparr>, t0) = Some ((s1, t1), go1)"
    using Cons.prems(1) by (cases "conn_step h e (s0\<lparr>world := w\<rparr>, t0)") (auto simp: x)
  note so = step_sound [OF st, simplified, OF Cons.prems(2)]
  show ?case
  proof (cases "authorized (conn s1)")
    case True
    then have "admitted h e (s0\<lparr>world := w\<rparr>)"
      using so(2) Cons.prems(3) by simp
    then show ?thesis
      using Cons.prems(3) x by (intro exI [of _ "[]"]) auto
  next
    case False
    then have run: "conn_loop es (s1, t1) = Some ((s', t'), go)" and go1
      using Cons.prems(1,4) st by (auto simp: x split: bool.splits)
    have "adm_inv (conn s1)"
      using so(1) Cons.prems(2) by (simp add: sound_def)
    from Cons.IH [OF run this False Cons.prems(4)]
    obtain es1 h' w' e' es2 s t where "es = es1 @ (h', w', e') # es2" "conn_loop es1 (s1, t1) = Some ((s, t), True)"
      "\<not> authorized (conn s)" "admitted h' e' (s\<lparr>world := w'\<rparr>)" by blast
    then show ?thesis
      using st x \<open>go1\<close> by (intro exI [of _ "x # es1"]) auto
  qed
qed auto

text \<open>The connection the loop starts with.\<close>

definition origin :: "Connection \<Rightarrow> _" where
  "origin c = (guarded c, rights c, inner c, control_permissions c, authed_conn_id c, file_transfer c, terminal_user_token c,
     port_forward_socket c)"

lemma origin_on_open: "on_open h addr s = (s', ok) \<Longrightarrow> origin (conn s') = origin (conn s)"
  by (auto simp: on_open_def check_whitelist_def Let_def origin_def guarded_def gate_def rights_def split: if_splits)

lemma store_ids [simp]: "store (control_permissions_id_new i cp (connection_id_new i w)) = store w"
  by (simp add: control_permissions_id_new_def connection_id_new_def split: option.split)

lemma conn_start_new:
  "\<exists>a1 a2. origin (conn (fst (conn_start h addr inn cp r1 r2 w)))
     = origin (connection_new h inn cp a1 a2 (fst (get_salt (env h) r1 (store w))))"
proof -
  have n: "conn (perm_notice p b s) = conn s" for p b s
    by (simp add: perm_notice_def)
  have cl: "origin (c\<lparr>closed := True\<rparr>) = origin c" for c
    by (simp add: origin_def guarded_def gate_def rights_def)
  obtain st salt1 where g: "get_salt (env h) r1 (store w) = (st, salt1)" by (metis surj_pair)
  define c where "c = connection_new h inn cp salt1 (get_auto_password_with_chars r2 6 CHARS) st"
  define s0 where "s0 = \<lparr>conn = c,
      world = (control_permissions_id_new (conn_id inn) cp (connection_id_new (conn_id inn) w))\<lparr>store := st\<rparr>, outs = []\<rparr>"
  obtain s1 ok where o: "on_open h (try_into_v4 addr) s0 = (s1, ok)" by (metis surj_pair)
  have "origin (conn s1) = origin c"
    using origin_on_open [OF o] by (simp add: s0_def)
  then have "origin (conn (fst (conn_start h addr inn cp r1 r2 w))) = origin c"
    using o by (simp add: conn_start_def Let_def g n cl s0_def c_def split: bool.split)
  then show ?thesis
    unfolding g c_def by auto
qed

lemma origin_new: "origin (connection_new h inn cp a1 a2 st) = (((False, False, None), []), rights (connection_new h inn cp a1 a2 st),
    inn, cp, None, None, False, False)"
  by (simp add: origin_def connection_new_def guarded_def gate_def)

lemma origin_conn_start:
  "\<exists>r. origin (conn (fst (conn_start h addr inn cp r1 r2 w))) = (((False, False, None), []), r, inn, cp, None, None, False, False)"
  using conn_start_new [of h addr inn cp r1 r2 w] origin_new by metis

lemma guarded_conn_start: "guarded (conn (fst (conn_start h addr inn cp r1 r2 w))) = ((False, False, None), [])"
  using origin_conn_start [of h addr inn cp r1 r2 w] by (auto simp: origin_def)

lemma get_opt_salt: "get_opt (fst (get_salt e r st)) = get_opt st"
  by (simp add: get_salt_def set_salt_def config_store_def get_opt_def fun_eq_iff Let_def)

lemma rights_conn_start:
  "rights (conn (fst (conn_start h addr inn cp r1 r2 w))) = map (\<lambda>opt. permission (store w) opt cp)
    [''enable-keyboard'', ''enable-clipboard'', ''enable-audio'', ''enable-file-transfer'', ''enable-remote-restart'',
     ''enable-record-session'', ''enable-block-input'']"
proof -
  define st where "st = fst (get_salt (env h) r1 (store w))"
  obtain a1 a2 where c: "origin (conn (fst (conn_start h addr inn cp r1 r2 w))) = origin (connection_new h inn cp a1 a2 st)"
    using conn_start_new [of h addr inn cp r1 r2 w] unfolding st_def by blast
  have "get_opt st = get_opt (store w)"
    by (simp add: st_def get_opt_salt)
  then have "is_permission_enabled_locally st = is_permission_enabled_locally (store w)"
    unfolding is_permission_enabled_locally_def by simp
  then have "permission st opt cp = permission (store w) opt cp" for opt
    unfolding permission_def by (simp split: option.split)
  then show ?thesis
    using c by (simp add: origin_def connection_new_def rights_def)
qed

lemma conn_start_inv:
  "adm_inv (conn (fst (conn_start h addr inn cp r1 r2 w)))" "\<not> authorized (conn (fst (conn_start h addr inn cp r1 r2 w)))"
  using guarded_conn_start [of h addr inn cp r1 r2 w] by (auto simp: guarded_def gate_def adm_inv_def)

end
