(* ===== verification/Connection_Effects.thy ===== *)
theory Connection_Effects
  imports Connection_Admission
begin

text \<open>
  What a connection may do to the host.  \<open>allowed\<close> says which permission each kind of output needs;
  every event of the loop only has outputs that are allowed.  The locale \<open>outputs\<close> runs through the
  handlers for an arbitrary property of outputs that holds for the harmless ones.
\<close>

section \<open>Permissions of outputs\<close>

text \<open>The state before the event decides, but whether the connection is authorized and what kind it is
  may have changed with the event.  A peer that may write receives blocks, digests and errors for jobs
  of the connection manager.\<close>

fun write_response :: "FSReq \<Rightarrow> bool" where
  "write_response (WriteBlock _ _ _ _) = True"
| "write_response (WriteDone _ _) = True"
| "write_response (WriteError _ _ _) = True"
| "write_response (CheckDigest _ _ _ _ _ _) = True"
| "write_response _ = False"

fun allowed :: "Connection \<Rightarrow> Connection \<Rightarrow> Out \<Rightarrow> bool" where
  "allowed c c' (InputOut (InMouse _ simulate _)) \<longleftrightarrow> authorized c \<and> authed_conn_id c \<noteq> Some AuthViewCamera
     \<and> (if simulate then keyboard c \<and> \<not> disable_keyboard c else show_my_cursor c)"
| "allowed c c' (InputOut (InPointer _)) \<longleftrightarrow> authorized c \<and> authed_conn_id c \<noteq> Some AuthViewCamera \<and> keyboard c \<and> \<not> disable_keyboard c"
| "allowed c c' (InputOut (InKey _ _)) \<longleftrightarrow> authorized c \<and> authed_conn_id c \<noteq> Some AuthViewCamera \<and> keyboard c \<and> \<not> disable_keyboard c"
| "allowed c c' (InputOut BlockOn) \<longleftrightarrow> authorized c' \<and> keyboard c \<and> block_input c"
| "allowed c c' (InputOut BlockOff) \<longleftrightarrow> authorized c' \<and> keyboard c \<and> block_input c"
| "allowed c c' (SetClipboard _) \<longleftrightarrow> authorized c \<and> clipboard c"
| "allowed c c' Reboot \<longleftrightarrow> authorized c \<and> restart c"
| "allowed c c' (ResolutionOut _ _ _) \<longleftrightarrow> authorized c \<and> keyboard c"
| "allowed c c' LockScreen \<longleftrightarrow> lock_after_session_end c \<and> keyboard c"
| "allowed c c' (TerminalOut _ _) \<longleftrightarrow> authorized c \<and> terminal_user_token c"
| "allowed c c' (TerminalStart _ _) \<longleftrightarrow> authorized c' \<and> terminal_user_token c'"
| "allowed c c' (ToCm (CmFS r)) \<longleftrightarrow> authorized c' \<and> (file_transfer c' \<noteq> None \<or> write_response r)"
| "allowed c c' (ToCm (CmChat _)) \<longleftrightarrow> authorized c"
| "allowed c c' (ToCm CmVoiceCallIncoming) \<longleftrightarrow> authorized c"
| "allowed c c' (ServeFileClip _) \<longleftrightarrow> authorized c"
| "allowed c c' (AudioOut _) \<longleftrightarrow> authorized c"
| "allowed c c' (ScreenshotOut _ _) \<longleftrightarrow> authorized c"
| "allowed c c' (RunMe _ _) \<longleftrightarrow> authorized c"
| "allowed c c' (EncoderOut _) \<longleftrightarrow> authorized c'"
| "allowed c c' RemoveWallpaper \<longleftrightarrow> authorized c'"
| "allowed c c' (TerminalPersist _ _) \<longleftrightarrow> authorized c'"
| "allowed c c' (WhiteboardOut _) \<longleftrightarrow> authorized c'"
| "allowed c c' _ \<longleftrightarrow> True"

text \<open>Outputs that need nothing.\<close>

fun benign :: "Out \<Rightarrow> bool" where
  "benign (Send _) = True"
| "benign (ToCm (CmLogin _ _ _)) = True"
| "benign (ToCm CmStartVoiceCall) = True"
| "benign (ToCm CmCloseVoiceCall) = True"
| "benign (ToCm (CmFileLog _)) = True"
| "benign EmptyFileClip = True"
| "benign (QosOut _) = True"
| "benign (TcpConnect _) = True"
| "benign (VoiceDevice _) = True"
| "benign RefreshOut = True"
| "benign FrameFetched = True"
| "benign StartCmIpc = True"
| "benign (WakeLock _ _) = True"
| "benign (AlarmOut _) = True"
| "benign NotifyDesktopReady = True"
| "benign _ = False"

lemma allowed_benign: "benign x \<Longrightarrow> allowed c c' x"
  by (cases x rule: benign.cases) auto

section \<open>Running through the handlers\<close>

definition emitted :: "(Out \<Rightarrow> bool) \<Rightarrow> CS \<Rightarrow> CS \<Rightarrow> bool" where
  "emitted P s t \<longleftrightarrow> (\<exists>xs. outs t = outs s @ xs \<and> list_all P xs)"

lemma emitted_refl [simp]: "emitted P s s"
  by (simp add: emitted_def)

lemma emitted_trans: "emitted P s t \<Longrightarrow> emitted P t u \<Longrightarrow> emitted P s u"
  by (auto simp: emitted_def)

lemma emitted_upd [simp]:
  "emitted P s (upd_conn f t) = emitted P s t" "emitted P s (upd_world g t) = emitted P s t"
  "emitted P s (with_server k t) = emitted P s t" "emitted P s (sub_service n b t) = emitted P s t"
  by (simp_all add: emitted_def)

lemma emitted_emit: "emitted P s t \<Longrightarrow> P x \<Longrightarrow> emitted P s (emit x t)"
  by (auto simp: emitted_def)

lemma emitted_emits: "emitted P s t \<Longrightarrow> list_all P xs \<Longrightarrow> emitted P s (emits xs t)"
  by (auto simp: emitted_def)

lemma emitted_outs: "outs t' = outs t \<Longrightarrow> emitted P s t' = emitted P s t"
  by (simp add: emitted_def)

lemma emitted_when_set:
  "emitted P s t \<Longrightarrow> (\<And>b t. emitted P s t \<Longrightarrow> emitted P s (f b t)) \<Longrightarrow> emitted P s (when_set q f t)"
  by (simp add: when_set_def split: option.split BoolOption.split)

text \<open>The kind of a connection is not changed by the answer to a login.\<close>

definition kinds :: "Connection \<Rightarrow> bool \<times> (string \<times> bool) option" where
  "kinds c = (terminal_user_token c, file_transfer c)"

lemma kinds_core: "core c = core c' \<Longrightarrow> kinds c = kinds c'"
  by (simp add: kinds_def core_def)

lemma kinds_logon [simp]: "kinds (conn (send_logon_response h s)) = kinds (conn s)"
proof (cases rule: send_logon_cases [of h s])
  case (granted ty t k)
  show ?thesis
    using kinds_core [OF granted(1)] by (simp add: kinds_def)
qed simp

lemma kinds_login_ok [simp]: "kinds (conn (login_ok h req err s)) = kinds (conn s)"
  by (simp add: login_ok_def Let_def)

lemma kinds_login_password [simp]: "kinds (conn (login_password h req err s)) = kinds (conn s)"
proof -
  obtain s1 f ok where cf: "check_failure_conn h False s = (s1, f, ok)" by (metis prod_cases3)
  then have s1: "conn s1 = conn s"
    using conn_auth_helpers(5) [of h False s] by auto
  obtain s2 ok2 where vp: "validate_password h s1 = (s2, ok2)" by (metis surj_pair)
  then have s2: "conn s2 = conn s"
    using conn_auth_helpers(7) [of h s1] s1 by auto
  show ?thesis
    by (simp add: login_password_def cf vp s1 s2 Let_def split: bool.split)
qed

lemma kinds_login_check [simp]: "kinds (conn (fst (login_check h req err s))) = kinds (conn s)"
proof -
  obtain s1 r where rs: "is_recent_session h False s = (s1, r)" by (metis surj_pair)
  then have s1: "conn s1 = conn s"
    using conn_auth_helpers(8) [of h False s] by auto
  show ?thesis
    by (simp add: login_check_def rs s1 Let_def split: bool.split)
qed

lemma kinds_auth_2fa [simp]: "kinds (conn (on_auth_2fa h code hw s)) = kinds (conn s)"
proof -
  obtain s1 f ok where cf: "check_failure_conn h True s = (s1, f, ok)" by (metis prod_cases3)
  then have s1: "conn s1 = conn s"
    using conn_auth_helpers(5) [of h True s] by auto
  have k: "kinds ((conn s)\<lparr>require_2fa := None\<rparr>) = kinds (conn s)"
    by (simp add: kinds_def)
  show ?thesis
    by (simp add: on_auth_2fa_def cf s1 k Let_def split: bool.split option.split)
qed

locale outputs =
  fixes P :: "Out \<Rightarrow> bool"
  assumes harmless: "benign x \<Longrightarrow> P x"
begin

lemma harmless_simps [simp]:
  "P (Send m)" "P (ToCm (CmLogin a b c))" "P (ToCm CmStartVoiceCall)" "P (ToCm CmCloseVoiceCall)" "P (ToCm (CmFileLog fl))"
  "P EmptyFileClip" "P (QosOut q)" "P (TcpConnect addr)" "P (VoiceDevice v)" "P RefreshOut" "P FrameFetched" "P StartCmIpc"
  "P (WakeLock k n)" "P (AlarmOut al)" "P NotifyDesktopReady"
  by (simp_all add: harmless)

lemma sends [simp]: "list_all P (map (Send \<circ> f) xs)" "list_all P (map (\<lambda>x. Send (f x)) xs)"
  by (simp_all add: list_all_iff)

lemma subs_emitted [simp]:
  "emitted P s (sub_clipboard t) = emitted P s t" "emitted P s (sub_file_clipboard t) = emitted P s t"
  "emitted P s (sub_audio t) = emitted P s t" "emitted P s (update_auto_disconnect_timer h t) = emitted P s t"
  by (simp_all add: sub_clipboard_def sub_file_clipboard_def sub_audio_def update_auto_disconnect_timer_def)

text \<open>Options of the peer: what they may put out beside the harmless.\<close>

definition options_ok :: "CS \<Rightarrow> bool" where
  "options_ok t \<longleftrightarrow> (\<forall>u. P (EncoderOut u)) \<and> (\<forall>a b. P (TerminalPersist a b)) \<and> (\<forall>b. P (WhiteboardOut b))
     \<and> (keyboard (conn t) \<and> block_input (conn t) \<longrightarrow> P (InputOut BlockOn) \<and> P (InputOut BlockOff))"

lemma privacy_emitted:
  "emitted P s t \<Longrightarrow> emitted P s (turn_on_privacy h key t)" "emitted P s t \<Longrightarrow> emitted P s (turn_off_privacy_conn h key t)"
  by (auto simp: turn_on_privacy_def turn_off_privacy_conn_def split: prod.split intro: emitted_emits)

lemma opts_emitted:
  "emitted P s t \<Longrightarrow> emitted P s (opt_quality h om t)" "emitted P s t \<Longrightarrow> emitted P s (opt_fps om t)"
  "emitted P s t \<Longrightarrow> emitted P s (opt_cursor om t)" "emitted P s t \<Longrightarrow> emitted P s (opt_follow om t)"
  "emitted P s t \<Longrightarrow> emitted P s (opt_audio om t)" "emitted P s t \<Longrightarrow> emitted P s (opt_file_transfer om t)"
  "emitted P s t \<Longrightarrow> emitted P s (opt_clipboard om t)" "emitted P s t \<Longrightarrow> emitted P s (opt_keyboard om t)"
  "emitted P s t \<Longrightarrow> emitted P s (opt_privacy h om t)"
  "emitted P s t \<Longrightarrow> \<forall>u. P (EncoderOut u) \<Longrightarrow> emitted P s (opt_decoding om t)"
  "emitted P s t \<Longrightarrow> \<forall>a b. P (TerminalPersist a b) \<Longrightarrow> emitted P s (opt_terminal om t)"
  "emitted P s t \<Longrightarrow> \<forall>b. P (WhiteboardOut b) \<Longrightarrow> emitted P s (opt_my_cursor h om t)"
  "emitted P s t \<Longrightarrow> keyboard (conn t) \<and> block_input (conn t) \<longrightarrow> P (InputOut BlockOn) \<and> P (InputOut BlockOff)
     \<Longrightarrow> emitted P s (opt_block_input om t)"
  by (auto simp: opt_quality_def opt_fps_def opt_cursor_def opt_follow_def opt_audio_def opt_file_transfer_def
      opt_clipboard_def opt_keyboard_def opt_privacy_def opt_decoding_def opt_terminal_def opt_my_cursor_def
      opt_block_input_def Let_def emitted_emit privacy_emitted
      split: option.split BoolOption.split intro!: emitted_when_set)

lemma update_options_emitted:
  assumes "emitted P s t" and "options_ok t"
  shows "emitted P s (update_options h om t)"
proof -
  define u where "u = opt_privacy h om (opt_keyboard om (opt_clipboard om (opt_file_transfer om (opt_audio om (opt_follow om
      (opt_cursor om (when_set (om_lock_after_session_end om) (\<lambda>b. upd_conn (\<lambda>c. c\<lparr>lock_after_session_end := b\<rparr>))
        (opt_decoding om (opt_fps om (opt_quality h om t))))))))))"
  have r: "rights (conn u) = rights (conn t)"
    unfolding u_def by (rule core_D(3)) (simp add: core_opts core_when_set)
  have p: "\<forall>u. P (EncoderOut u)" "\<forall>a b. P (TerminalPersist a b)" "\<forall>b. P (WhiteboardOut b)"
    "keyboard (conn u) \<and> block_input (conn u) \<longrightarrow> P (InputOut BlockOn) \<and> P (InputOut BlockOff)"
    using assms(2) by (simp_all add: options_ok_def rights_D [OF r])
  have "emitted P s u"
    unfolding u_def using p(1) assms(1) by (intro opts_emitted emitted_when_set) simp_all
  then have "emitted P s (opt_my_cursor h om (opt_terminal om (opt_block_input om u)))"
    by (intro opts_emitted p)
  then show ?thesis
    by (simp add: update_options_def u_def)
qed

text \<open>The login path.\<close>

definition logon_ok :: "CS \<Rightarrow> bool" where
  "logon_ok t \<longleftrightarrow> options_ok t \<and> P RemoveWallpaper \<and> (terminal_user_token (conn t) \<longrightarrow> (\<forall>a b. P (TerminalStart a b)))
     \<and> (file_transfer (conn t) \<noteq> None \<longrightarrow> (\<forall>d b. P (ToCm (CmFS (ReadDir d b)))))"

lemma logon_ok_cong:
  "rights (conn t') = rights (conn t) \<Longrightarrow> terminal_user_token (conn t') = terminal_user_token (conn t)
    \<Longrightarrow> file_transfer (conn t') = file_transfer (conn t) \<Longrightarrow> logon_ok t' = logon_ok t"
  by (simp add: logon_ok_def options_ok_def rights_def)

lemma logon_ok_core: "core (conn t') = core (conn t) \<Longrightarrow> logon_ok t' = logon_ok t"
  by (rule logon_ok_cong) (simp_all add: core_def)

lemma login_helpers_emitted:
  "emitted P s t \<Longrightarrow> emitted P s (become_authorized h t)" "emitted P s t \<Longrightarrow> emitted P s (send_login_error e t)"
  "emitted P s t \<Longrightarrow> emitted P s (try_start_cm i nm b t)" "emitted P s t \<Longrightarrow> emitted P s (try_start_cm_ipc t)"
  "emitted P s t \<Longrightarrow> emitted P s (wait_desktop_cm_ready h t)" "emitted P s t \<Longrightarrow> emitted P s (update_failure_conn f rem snd2 t)"
  by (simp_all add: become_authorized_def authed_conn_id_new_def check_wake_lock_def send_login_error_def try_start_cm_def
      try_start_cm_ipc_def wait_desktop_cm_ready_def update_failure_conn_def Let_def emitted_emit)

lemma login_checks_emitted:
  "emitted P s t \<Longrightarrow> is_recent_session h r t = (t', ok) \<Longrightarrow> emitted P s t'"
  "emitted P s t \<Longrightarrow> validate_password h t = (t', ok) \<Longrightarrow> emitted P s t'"
  "emitted P s t \<Longrightarrow> check_failure_conn h snd2 t = (t', f, ok) \<Longrightarrow> emitted P s t'"
  by (auto simp: is_recent_session_def validate_password_def check_failure_conn_def Let_def send_login_error_def emitted_emit
      split: if_splits prod.splits option.splits)

lemma logon_parts_emitted:
  "emitted P s t \<Longrightarrow> logon_ok t \<Longrightarrow> emitted P s (fst (logon_prepare h t))"
  "emitted P s t \<Longrightarrow> logon_ok t \<Longrightarrow> emitted P s (take_login_options h t)"
  "emitted P s t \<Longrightarrow> logon_ok t \<Longrightarrow> emitted P s (logon_start h sub t)"
proof -
  assume t: "emitted P s t" and ok: "logon_ok t"
  have p: "P (EncoderOut u)" "P RemoveWallpaper" for u
    using ok by (simp_all add: logon_ok_def options_ok_def)
  have c: "emitted P s (update_codec_on_login t)"
    using t p by (simp add: update_codec_on_login_def emitted_emit split: option.split)
  then have "emitted P s (on_remote_authorized t)"
    using p by (simp add: on_remote_authorized_def emitted_emit Let_def)
  with c t show "emitted P s (fst (logon_prepare h t))"
    by (simp add: logon_prepare_def emitted_emit Let_def split: option.split)
  have "logon_ok (upd_conn (\<lambda>c. c\<lparr>options_in_login := None\<rparr>) t)"
    using ok logon_ok_core [of "upd_conn (\<lambda>c. c\<lparr>options_in_login := None\<rparr>) t" t] by simp
  then show "emitted P s (take_login_options h t)"
    using t by (auto simp: take_login_options_def logon_ok_def split: option.split intro!: update_options_emitted)
  show "emitted P s (logon_start h sub t)"
    using t ok by (auto simp: logon_start_def read_dir_req_def init_terminal_service_def try_sub_camera_displays_def
        try_sub_monitor_services_def logon_ok_def Let_def split: option.split intro!: emitted_emit)
qed

lemma send_logon_emitted:
  assumes t: "emitted P s t" and ok: "authorized (conn (send_logon_response h t)) \<Longrightarrow> \<not> authorized (conn t) \<Longrightarrow> logon_ok t"
  shows "emitted P s (send_logon_response h t)"
proof (cases rule: send_logon_cases [of h t])
  case same
  obtain t1 r where r: "is_recent_session h True t = (t1, r)" by (metis surj_pair)
  have "emitted P s (send_login_error REQUIRE_2FA t1)"
    by (intro login_helpers_emitted login_checks_emitted(1) [OF t r])
  with same r t show ?thesis
    using conn_auth_helpers(8) [of h True t] by (auto simp: send_logon_response_def)
next
  case (granted ty tm k)
  obtain t1 r where r: "(if require_2fa (conn t) \<noteq> None then is_recent_session h True t else (t, False)) = (t1, r)"
    by (metis surj_pair)
  then have t1: "emitted P s t1"
    using t login_checks_emitted(1) [of s t h True t1 r] by (auto split: if_splits)
  have c1: "conn t1 = conn t"
    using r by (metis conn_auth_helpers(8) fst_conv)
  have lok: "logon_ok t"
    using ok granted core_D(1) [OF granted(1)] by simp
  define t2 where "t2 = become_authorized h t1"
  obtain ty' tm' where c2: "conn t2 = (conn t)\<lparr>authorized := True, authed_conn_id := Some ty', session_last_recv_time := tm'\<rparr>"
    using become_authorized_conn [of h t1] c1 unfolding t2_def by auto
  have ok2: "logon_ok t2"
    using lok logon_ok_cong [of t2 t] by (simp add: c2 rights_def)
  have e2: "emitted P s t2"
    unfolding t2_def by (intro login_helpers_emitted t1)
  define t3 where "t3 = fst (logon_prepare h t2)"
  define t4 where "t4 = take_login_options h t3"
  have ok3: "logon_ok t3" and ok4: "logon_ok t4"
    using ok2 logon_ok_core [of t3 t2] logon_ok_core [of t4 t2] by (simp_all add: t3_def t4_def)
  have e4: "emitted P s (logon_start h sub t4)" for sub
    unfolding t4_def t3_def by (intro logon_parts_emitted e2 ok2 ok3 [unfolded t3_def] ok4 [unfolded t4_def t3_def])
  have "send_logon_response h t \<in> {emit (Send LoginOk) t2, emit (Send (LoginError (display_server_error h) False)) t2}
      \<union> range (\<lambda>sub. logon_start h sub t4)"
    using granted r c1 unfolding send_logon_response_def t4_def t3_def
    by (auto simp: t2_def [symmetric] Let_def split: prod.split if_splits)
  then show ?thesis
    using e2 e4 emitted_emit by auto
qed

lemma logon_ok_conn: "conn t' = conn t \<Longrightarrow> logon_ok t' = logon_ok t"
  by (simp add: logon_ok_def options_ok_def)

lemma login_ok_emitted:
  assumes "emitted P s t" and "authorized (conn (login_ok h req err t)) \<Longrightarrow> \<not> authorized (conn t) \<Longrightarrow> logon_ok t"
  shows "emitted P s (login_ok h req err t)"
proof -
  have "emitted P s (send_logon_response h (wait_desktop_cm_ready h t))" if "err = []"
    using assms that logon_ok_conn [of "wait_desktop_cm_ready h t" t]
    by (intro send_logon_emitted login_helpers_emitted) (simp_all add: login_ok_def Let_def)
  then show ?thesis
    using assms(1) by (auto simp: login_ok_def Let_def intro: login_helpers_emitted)
qed

lemma login_password_emitted:
  assumes t: "emitted P s t" and ok: "authorized (conn (login_password h req err t)) \<Longrightarrow> \<not> authorized (conn t) \<Longrightarrow> logon_ok t"
  shows "emitted P s (login_password h req err t)"
proof -
  obtain s1 f b where cf: "check_failure_conn h False t = (s1, f, b)" by (metis prod_cases3)
  then have s1: "conn s1 = conn t" "emitted P s s1"
    using conn_auth_helpers(5) [of h False t] login_checks_emitted(3) [OF t] by auto
  obtain s2 b2 where vp: "validate_password h s1 = (s2, b2)" by (metis surj_pair)
  then have s2: "conn s2 = conn t" "emitted P s s2"
    using conn_auth_helpers(7) [of h s1] s1 login_checks_emitted(2) [OF s1(2)] by auto
  let ?u = "update_failure_conn f True False s2"
  have u: "logon_ok ?u = logon_ok t"
    by (rule logon_ok_conn) (simp add: s2)
  show ?thesis
  proof (cases "b \<and> b2")
    case True
    then have e: "login_password h req err t = login_ok h req err ?u"
      by (simp add: login_password_def cf vp)
    show ?thesis
      unfolding e by (intro login_ok_emitted login_helpers_emitted s2) (use ok e u s2 in simp_all)
  next
    case False
    then show ?thesis
      using s1 s2 by (auto simp: login_password_def cf vp Let_def split: bool.split intro: login_helpers_emitted)
  qed
qed

lemma login_check_emitted:
  assumes t: "emitted P s t" and ok: "authorized (conn (fst (login_check h req err t))) \<Longrightarrow> \<not> authorized (conn t) \<Longrightarrow> logon_ok t"
  shows "emitted P s (fst (login_check h req err t))"
proof -
  obtain s1 r where rs: "is_recent_session h False t = (s1, r)" by (metis surj_pair)
  then have s1: "conn s1 = conn t" "emitted P s s1"
    using conn_auth_helpers(8) [of h False t] login_checks_emitted(1) [OF t rs] by auto
  have u: "logon_ok s1 = logon_ok t"
    by (rule logon_ok_conn) (simp add: s1)
  have em: "emitted P s (send_login_error e t)" "emitted P s (send_login_error e s1)" "emitted P s (try_start_cm a c d t)"
    "emitted P s (send_login_error e (try_start_cm a c d t))" "emitted P s (try_start_cm a c d s1)" for e a c d
    by (intro login_helpers_emitted t s1)+
  show ?thesis
    using rs
  proof (cases rule: login_check_cases [of h t s1 r req err])
    case 1: ok
    show ?thesis
      unfolding 1 by (intro login_ok_emitted s1) (use ok 1 u s1 in simp_all)
  next
    case 2: password
    show ?thesis
      unfolding 2 by (intro login_password_emitted s1) (use ok 2 u s1 in simp_all)
  next
    case (refused e v a b)
    then show ?thesis
      using em by auto
  qed
qed

lemma login_kind_emitted: "emitted P s t \<Longrightarrow> login_kind h req t = (t', k) \<Longrightarrow> emitted P s t'"
  by (cases "lr_union req") (auto simp: login_kind_def login_terminal_def login_port_forward_def refuse_def send_login_error_def
      Let_def emitted_emit split: if_splits)

lemma on_login_emitted:
  assumes t: "emitted P s t" and ok: "\<And>u. authorized (conn (fst (on_login h req t))) \<Longrightarrow> \<not> authorized (conn t)
    \<Longrightarrow> rights (conn u) = rights (conn t) \<Longrightarrow> kinds (conn u) = kinds (conn (fst (on_login h req t))) \<Longrightarrow> logon_ok u"
  shows "emitted P s (fst (on_login h req t))"
proof -
  define s1 where "s1 = handle_login_request_without_validation h req t"
  note hl = handle_login_conn [of h req t, folded s1_def]
  obtain s2 k where lk: "login_kind h req s1 = (s2, k)" by (metis surj_pair)
  note kc = login_kind_conn [of h req s1, unfolded lk fst_conv]
  define s3 where "s3 = try_start_cm_ipc s2"
  have e1: "emitted P s s1"
    using t by (simp add: emitted_def hl(14))
  then have e2: "emitted P s s2"
    using lk by (rule login_kind_emitted)
  then have e3: "emitted P s s3"
    unfolding s3_def by (rule login_helpers_emitted)
  have c3: "core (conn s3) = core (conn s2)"
    by (simp add: s3_def)
  have a3: "authorized (conn s3) = authorized (conn t)" "rights (conn s3) = rights (conn t)"
    using core_D(1,3) [OF c3] gate_D(1) [OF kc(1)] gate_D(1) [OF hl(1)] kc(6) hl(6) by simp_all
  define err where "err = desktop_error h req"
  have eq: "on_login h req t = (if authorized (conn s1) then (s1, True) else case k of Some keep \<Rightarrow> (s2, keep)
      | None \<Rightarrow> if err \<noteq> [] \<and> err \<noteq> LOGIN_MSG_DESKTOP_SESSION_NOT_READY then (send_login_error err s3, True)
               else login_check h req err s3)"
    unfolding on_login_def Let_def s1_def [symmetric] lk prod.case s3_def [symmetric] err_def [symmetric] by (cases k) simp_all
  consider "fst (on_login h req t) = fst (login_check h req err s3)" | "emitted P s (fst (on_login h req t))"
    unfolding eq using e1 e2 login_helpers_emitted(2) [OF e3] 
    by (cases k; cases "authorized (conn s1)"; cases "err \<noteq> [] \<and> err \<noteq> LOGIN_MSG_DESKTOP_SESSION_NOT_READY") simp_all
  then show ?thesis
  proof cases
    case 1
    show ?thesis
      unfolding 1 by (rule login_check_emitted [OF e3]) (rule ok, use 1 a3 in simp_all)
  qed
qed

lemma on_auth_2fa_emitted:
  assumes t: "emitted P s t" and ok: "authorized (conn (on_auth_2fa h code hw t)) \<Longrightarrow> \<not> authorized (conn t) \<Longrightarrow> logon_ok t"
  shows "emitted P s (on_auth_2fa h code hw t)"
proof -
  obtain s1 f b where cf: "check_failure_conn h True t = (s1, f, b)" by (metis prod_cases3)
  then have s1: "conn s1 = conn t" "emitted P s s1"
    using conn_auth_helpers(5) [of h True t] login_checks_emitted(3) [OF t] by auto
  define u where "u = (let v = upd_conn (\<lambda>c. c\<lparr>require_2fa := None\<rparr>) (update_failure_conn f True True s1)
      in upd_world (set_session_2fa (clock h) (session_key (conn v))) v)"
  define r where "r = send_logon_response h u"
  have u: "conn u = (conn t)\<lparr>require_2fa := None\<rparr>" "emitted P s u"
    using s1 by (simp_all add: u_def Let_def login_helpers_emitted)
  have lu: "logon_ok u = logon_ok t"
    by (rule logon_ok_cong) (simp_all add: u rights_def)
  define w4 where "w4 = try_start_cm (my_id (lr (conn r))) (my_name (lr (conn r))) (authorized (conn r)) r"
  define g where "g = (\<lambda>w :: World. w\<lparr>store := add_trusted_device (env h) \<lparr>hwid = hw, td_time = now (env h), td_id = my_id (lr (conn r)),
      td_name = my_name (lr (conn r)), td_platform = my_platform (lr (conn r))\<rparr> (store w)\<rparr>)"
  have eq: "on_auth_2fa h code hw t = (case b of False \<Rightarrow> s1 | True \<Rightarrow> (case require_2fa (conn s1) of None \<Rightarrow> s1 | Some totp \<Rightarrow>
      (case totp_check h totp code of None \<Rightarrow> s1
       | Some False \<Rightarrow> send_login_error ''Wrong 2FA Code'' (update_failure_conn f False True s1)
       | Some True \<Rightarrow> if hw \<noteq> [] \<and> enable_trusted_devices (store (world w4)) then upd_world g w4 else w4)))"
    unfolding on_auth_2fa_def cf w4_def g_def r_def u_def Let_def prod.case ..
  have err: "emitted P s (send_login_error e (update_failure_conn f False True s1))" for e
    by (intro login_helpers_emitted s1)
  show ?thesis
  proof (cases "on_auth_2fa h code hw t \<in> {upd_world g w4, w4}")
    case True
    then have cr: "conn (on_auth_2fa h code hw t) = conn r"
      by (auto simp: w4_def)
    have "emitted P s r"
      unfolding r_def by (rule send_logon_emitted [OF u(2)]) (use ok cr lu u r_def in simp_all)
    then show ?thesis
      using True by (auto simp: w4_def login_helpers_emitted)
  next
    case False
    then show ?thesis
      unfolding eq using s1(2) err by (cases b) (auto split: option.splits bool.splits if_splits)
  qed
qed

lemma on_switch_sides_emitted:
  assumes t: "emitted P s t" and ok: "\<And>u. authorized (conn (on_switch_sides h ro bs t)) \<Longrightarrow> \<not> authorized (conn t)
    \<Longrightarrow> rights (conn u) = rights (conn t) \<Longrightarrow> kinds (conn u) = kinds (conn (on_switch_sides h ro bs t)) \<Longrightarrow> logon_ok u"
  shows "emitted P s (on_switch_sides h ro bs t)"
proof (cases ro)
  case (Some req)
  define s1 where "s1 = handle_login_request_without_validation h req t"
  note hl = handle_login_conn [of h req t, folded s1_def]
  define live where "live = hm_retain (\<lambda>_ v. clock h - fst v < 10000) (switch_sides_uuid (world s1))"
  define s2 where "s2 = upd_world (\<lambda>w. w\<lparr>switch_sides_uuid := hm_remove (my_id req) live\<rparr>) s1"
  define u where "u = upd_conn (\<lambda>c. c\<lparr>from_switch := True\<rparr>) s2"
  define fin where "fin = (let s3 = send_logon_response h u in try_start_cm_ipc (try_start_cm (my_id req) (my_name req) (authorized (conn s3)) s3))"
  have eq: "on_switch_sides h ro bs t = (case (uuid_from_slice h bs, hm_get live (my_id req)) of
      (Some uuid, Some (_, uuid_old)) \<Rightarrow> if uuid = uuid_old then fin else s2 | _ \<Rightarrow> s2)"
    unfolding on_switch_sides_def Some Let_def fin_def u_def s2_def live_def s1_def by simp
  have e2: "emitted P s s2" "emitted P s u"
    using t by (simp_all add: s2_def u_def emitted_def hl(14))
  have u: "rights (conn u) = rights (conn t)" "authorized (conn u) = authorized (conn t)"
    using hl(6) gate_D(1) [OF hl(1)] by (simp_all add: u_def s2_def rights_def)
  have cf: "core (conn fin) = core (conn (send_logon_response h u))"
    by (simp add: fin_def Let_def)
  have "on_switch_sides h ro bs t \<in> {fin, s2}"
    unfolding eq by (auto split: option.split)
  then show ?thesis
  proof (elim insertE, goal_cases)
    case 1
    have "emitted P s (send_logon_response h u)"
    proof (rule send_logon_emitted [OF e2(2)], rule ok)
      show "kinds (conn u) = kinds (conn (on_switch_sides h ro bs t))"
        unfolding 1 kinds_core [OF cf] by simp
    qed (use u core_D(1) [OF cf] 1 in simp_all)
    then show ?case
      unfolding 1 fin_def Let_def by (intro login_helpers_emitted)
  qed (use e2 in simp_all)
qed (use t in \<open>simp add: on_switch_sides_def\<close>)

text \<open>The requests of an authorized peer put out what the connection is allowed to.\<close>

definition powers :: "CS \<Rightarrow> bool" where
  "powers t \<longleftrightarrow> authorized (conn t) \<and> (\<forall>x. allowed (conn t) (conn t) x \<longrightarrow> P x)"

lemma powers_D: "powers t \<Longrightarrow> allowed (conn t) (conn t) x \<Longrightarrow> P x"
  by (simp add: powers_def)

lemma input_emitted:
  assumes "emitted P s t" and "powers t"
  shows "emitted P s (on_mouse h me t)" "emitted P s (on_pointer h p t)" "emitted P s (on_key h ke t)"
  using assms by (auto simp: on_mouse_def on_pointer_def on_key_def peer_keyboard_enabled_def is_authed_view_camera_conn_def
      powers_def Let_def intro!: emitted_emit)

lemma clipboard_emitted:
  assumes "emitted P s t" and "powers t"
  shows "emitted P s (on_clipboard cbs t)" "emitted P s (on_cliprdr h clip t)"
  using assms by (auto simp: on_clipboard_def on_cliprdr_def powers_def intro!: emitted_emit emitted_emits)

lemma displays_emitted:
  assumes "emitted P s t" and "powers t"
  shows "emitted P s (refresh_video_display d t)" "emitted P s (change_resolution h d x y t)"
    "emitted P s (display_changed_msg h i t)" "emitted P s (conn_capture_displays add sub st t)"
    "emitted P s (handle_terminal_action h a t)" "emitted P s (close_voice_call t)" "emitted P s (on_voice_call_request h b ts t)"
  using assms by (auto simp: refresh_video_display_def change_resolution_def display_changed_msg_def conn_capture_displays_def
      handle_terminal_action_def close_voice_call_def on_voice_call_request_def powers_def Let_def
      split: option.split intro!: emitted_emit emitted_emits)

lemma powers_cong:
  "standing (conn t') = standing (conn t) \<Longrightarrow> disable_keyboard (conn t') = disable_keyboard (conn t)
    \<Longrightarrow> show_my_cursor (conn t') = show_my_cursor (conn t) \<Longrightarrow> lock_after_session_end (conn t') = lock_after_session_end (conn t)
    \<Longrightarrow> powers t' = powers t"
proof -
  assume "standing (conn t') = standing (conn t)" "disable_keyboard (conn t') = disable_keyboard (conn t)"
    "show_my_cursor (conn t') = show_my_cursor (conn t)" "lock_after_session_end (conn t') = lock_after_session_end (conn t)"
  then have "allowed (conn t') (conn t') x = allowed (conn t) (conn t) x" for x
    by (cases "(conn t, conn t, x)" rule: allowed.cases) (simp_all add: standing_def rights_def)
  then show ?thesis
    using standing_D(1) [OF \<open>standing (conn t') = standing (conn t)\<close>] by (simp add: powers_def)
qed

lemma switch_display_emitted:
  assumes t: "emitted P s t" and pw: "powers t"
  shows "emitted P s (handle_switch_display h d x y t)"
proof -
  define u where "u = switch_display_to h (as_usize d) t"
  have u: "emitted P s u" "keyboard (conn u) = keyboard (conn t)"
    using t by (simp_all add: u_def switch_display_to_def Let_def)
  have r: "P (ResolutionOut i x y)" if "keyboard (conn t)" for i
    using pw that by (simp add: powers_def)
  have "emitted P s (change_resolution h None x y u)"
    using u r by (simp add: change_resolution_def Let_def emitted_emit)
  with u t show ?thesis
    by (auto simp: handle_switch_display_def u_def [symmetric] Let_def display_changed_msg_def split: option.split intro!: emitted_emit)
qed

lemma read_job_emitted:
  assumes "emitted P s t"
  shows "emitted P s (create_and_start_read_job h i ty ds n hidden od path lm t)"
  using assms by (auto simp: create_and_start_read_job_def process_new_read_job_def split: option.split outcome.split intro!: emitted_emit)

lemma send_action_emitted:
  assumes "emitted P s t" and "ty \<noteq> Printer \<Longrightarrow> P (ToCm (CmFS (ReadFile path i n hidden (cid t)
      (can_enable_overwrite_detection (get_version_number (lr_version (lr (conn t))))))))"
  shows "emitted P s (send_action h i path n hidden ty t)"
  using assms by (cases ty) (auto simp: send_action_def send_fs_def Let_def split: option.split
      intro!: read_job_emitted emitted_emit)

lemma file_action_emitted:
  assumes t: "emitted P s t" and pw: "powers t" and r: "on_file_action h fa t = Some t'"
  shows "emitted P s t'"
proof (cases "file_transfer (conn t) = None")
  case True
  then show ?thesis
    using t r send_action_emitted [OF t, of Printer]
    by (auto simp: on_file_action_def do_file_action_def split: FileAction.splits if_splits intro!: emitted_emit)
next
  case False
  then have p: "P (ToCm (CmFS q))" for q
    using pw by (auto simp: powers_def)
  have fs: "emitted P s (send_fs q t)" for q
    unfolding send_fs_def by (rule emitted_emit [OF t p])
  have "emitted P s t'" if "do_file_action h fa t = Some t'"
  proof (cases fa)
    case (FaAllFiles i path hidden)
    then show ?thesis
      using that fs t by (auto simp: do_file_action_def all_files_action_def split: option.splits outcome.splits if_splits
          intro!: emitted_emit)
  next
    case (FaSend i path n hidden ty)
    then show ?thesis
      using that send_action_emitted [OF t p] by (auto simp: do_file_action_def)
  next
    case (FaCancel i)
    then show ?thesis
      using that t p by (auto simp: do_file_action_def cancel_action_def send_fs_def Let_def split: prod.splits option.splits
          intro!: emitted_emit)
  next
    case (FaSendConfirm r)
    then show ?thesis
      using that t fs by (auto simp: do_file_action_def confirm_action_def split: if_splits)
  qed (use that fs t p in \<open>auto simp: do_file_action_def read_dir_req_def send_fs_def intro!: emitted_emit\<close>)
  with False t r show ?thesis
    by (auto simp: on_file_action_def split: FileAction.splits if_splits intro!: emitted_emit)
qed

text \<open>Closing may lock the screen.\<close>

definition closing_ok :: "CS \<Rightarrow> bool" where
  "closing_ok t \<longleftrightarrow> P (ToCm CmClose) \<and> P (ToCm CmDisconnected) \<and> (lock_after_session_end (conn t) \<and> keyboard (conn t) \<longrightarrow> P LockScreen)"

lemma on_close_emitted: "emitted P s t \<Longrightarrow> closing_ok t \<Longrightarrow> emitted P s (on_close lock t)"
  by (auto simp: on_close_def closing_ok_def Let_def intro!: emitted_emit)

lemma remove_session_emitted [simp]: "emitted P s (remove_session t) = emitted P s t"
  by (simp add: remove_session_def)

lemma close_reason_emitted: "emitted P s t \<Longrightarrow> emitted P s (send_close_reason_no_retry r t)"
  by (simp add: send_close_reason_no_retry_def emitted_emit)

lemma powers_closing: "powers t \<Longrightarrow> closing_ok t"
  by (simp add: powers_def closing_ok_def)

lemma powers_options: "powers t \<Longrightarrow> options_ok t"
  by (simp add: powers_def options_ok_def)

lemma closing_ok_conn: "conn t' = conn t \<Longrightarrow> closing_ok t' = closing_ok t"
  by (simp add: closing_ok_def)

lemma misc_emitted:
  assumes t: "emitted P s t" and pw: "powers t"
  shows "emitted P s (fst (on_misc h m t))"
proof -
  note t_facts = switch_display_emitted [OF t pw] displays_emitted [OF t pw] privacy_emitted [OF t]
    update_options_emitted [OF t powers_options [OF pw]]
  have run: "emitted P s (on_close False (emit (RunMe a b) t))" for a b
    by (rule on_close_emitted) (use pw t closing_ok_conn [of "emit (RunMe a b) t" t] in
        \<open>auto simp: powers_closing powers_def [of t] intro!: emitted_emit\<close>)
  show ?thesis
    using t_facts run t pw
    by (cases m) (auto simp: on_misc_def toggle_privacy_mode_def powers_def split: option.split intro!: emitted_emit)
qed

lemma on_authorized_emitted:
  assumes t: "emitted P s t" and pw: "powers t" and r: "on_authorized h m t = Some (t', go)"
  shows "emitted P s t'"
proof (cases m)
  case (MiscMsg misc)
  then show ?thesis
    using r misc_emitted [OF t pw, of h misc] by (auto simp: on_authorized_def)
next
  case (ScreenshotRequest d sid)
  have "emitted P s (refresh_video_display x (emit (ScreenshotOut d sid) t))" for x
    using t pw by (auto simp: refresh_video_display_def powers_def intro!: emitted_emit)
  then show ?thesis
    using r t ScreenshotRequest by (auto simp: on_authorized_def split: if_splits)
next
  case (FileResponseMsg fr)
  then show ?thesis
    using r t pw by (auto simp: on_authorized_def on_file_response_def send_fs_def powers_def split: FileResponse.split
        intro!: emitted_emit)
qed (use r t pw input_emitted [OF t pw] clipboard_emitted [OF t pw] displays_emitted [OF t pw] file_action_emitted [OF t pw]
    in \<open>auto simp: on_authorized_def powers_def split: if_splits intro!: emitted_emit\<close>)

text \<open>The connection manager, the timers and the services.\<close>

lemma permission_emitted: "emitted P s t \<Longrightarrow> emitted P s (switch_permission nm b t)"
  by (simp add: switch_permission_def switch_keyboard_def switch_audio_def switch_file_perm_def send_permission_def Let_def
      emitted_emit)

lemma from_files_emitted: "emitted P s t \<Longrightarrow> emitted P s (from_files m t)"
  by (cases m) (auto simp: from_files_def handle_read_job_init_result_def handle_file_read_error_def
      handle_file_block_from_cm_def handle_file_read_done_def handle_file_digest_from_cm_def handle_all_files_result_def
      forget_job_def split: outcome.split intro!: emitted_emit)

lemma voice_emitted: "emitted P s t \<Longrightarrow> emitted P s (handle_voice_call b t)" "emitted P s t \<Longrightarrow> emitted P s (close_voice_call t)"
  by (auto simp: handle_voice_call_def close_voice_call_def Let_def split: option.split intro!: emitted_emit emitted_emits)

lemma closing_reason: "emitted P s t \<Longrightarrow> closing_ok t \<Longrightarrow> emitted P s (on_close lock (send_close_reason_no_retry r t))"
  using closing_ok_conn [of "send_close_reason_no_retry r t" t] by (intro on_close_emitted close_reason_emitted) simp_all

lemma on_cm_emitted:
  assumes t: "emitted P s t" and cl: "closing_ok t" and "m \<noteq> Authorize"
  shows "emitted P s (fst (on_cm h m t))"
proof (cases m)
  case CloseConn
  have "closing_ok (upd_conn (\<lambda>c. c\<lparr>chat_unanswered := False, file_transferred := False\<rparr>) t)"
    using cl by (simp add: closing_ok_def)
  then show ?thesis
    using t CloseConn by (simp add: on_cm_def closing_reason)
qed (use assms permission_emitted [OF t] from_files_emitted [OF t] voice_emitted [OF t] on_close_emitted [OF t cl]
    in \<open>auto simp: on_cm_def intro!: emitted_emit\<close>)

lemma timers_emitted:
  assumes t: "emitted P s t" and cl: "closing_ok t"
  shows "emitted P s (fst (on_second_timer h t))" "emitted P s (fst (on_delay_timer h tm t))"
    "emitted P s (fst (on_service m l scr net t))" "emitted P s (fst (on_video fr v net t))" "emitted P s (on_clip ck cm t)"
proof -
  have logs: "list_all P (map ToCm ds)" if "frl_on_timer h fl = (fl', ds)" for fl fl' ds
    using that by (auto simp: frl_on_timer_def list_all_iff split: if_splits)
  show "emitted P s (fst (on_second_timer h t))"
    using t cl logs by (auto simp: on_second_timer_def closing_reason split: prod.splits option.splits intro!: emitted_emits)
  show "emitted P s (fst (on_delay_timer h tm t))"
    using t cl by (auto simp: on_delay_timer_def on_close_emitted Let_def split: option.split intro!: emitted_emit)
  have svc: "emitted P s (refresh_video_display None t)" "closing_ok (refresh_video_display None t)"
    "emitted P s (handle_cursor_switch_display scr x y t)" "closing_ok (handle_cursor_switch_display scr x y t)" for x y
    using t cl by (auto simp: refresh_video_display_def handle_cursor_switch_display_def closing_ok_def split: option.split
        intro!: emitted_emit)
  show "emitted P s (fst (on_service m l scr net t))"
    using t cl svc by (cases m) (auto simp: on_service_def deliver_def closing_reason on_close_emitted Let_def intro!: emitted_emit)
  have "emitted P s (emit FrameFetched t)" "closing_ok (emit FrameFetched t)"
    using t cl by (simp_all add: emitted_emit closing_ok_def)
  then show "emitted P s (fst (on_video fr v net t))"
    using t cl by (simp add: on_video_def deliver_def on_close_emitted emitted_emit)
  show "emitted P s (on_clip ck cm t)"
    using t by (simp add: on_clip_def handle_file_clip_def emitted_emit)
qed

lemma file_timer_emitted:
  assumes t: "emitted P s t" and cl: "closing_ok t" and r: "on_file_timer h l sched net t = Some (t', go)"
  shows "emitted P s t'"
proof -
  define log where "log = ToCm (CmFileLog (JobLogs (map (\<lambda>j. LogOf (job_id j) False False []) (conn_read_jobs (conn t)))))"
  obtain js ms res where hr: "handle_read_jobs l sched net (file_system h) (conn_read_jobs (conn t)) = (js, ms, res)"
    by (metis prod_cases3)
  define u where "u = emits (map (Send \<circ> FileReply) ms) (upd_conn (\<lambda>c. c\<lparr>conn_read_jobs := js\<rparr>) (emit log t))"
  have u: "emitted P s u" "closing_ok u"
    using t cl by (auto simp: u_def log_def closing_ok_def intro!: emitted_emits emitted_emit)
  then show ?thesis
    using r t on_close_emitted [OF u]
    by (auto simp: on_file_timer_def hr u_def [symmetric] log_def [symmetric] Let_def
        split: if_splits outcome.splits JobLog.splits intro!: emitted_emit)
qed

lemma test_delay_emitted: "emitted P s t \<Longrightarrow> emitted P s (on_test_delay h b d t)"
  by (auto simp: on_test_delay_def Let_def split: option.split intro!: emitted_emit)

lemma touch_emitted [simp]: "emitted P s (touch_session h t) = emitted P s t"
  by (simp add: touch_session_def split: option.split)

end

section \<open>Every step\<close>

interpretation al: outputs "allowed c c'" for c c'
  by unfold_locales (rule allowed_benign)

lemma al_logon_ok:
  assumes "authorized c'" "rights (conn u) = rights c" "kinds (conn u) = kinds c'"
  shows "al.logon_ok c c' u"
  using assms by (auto simp: al.logon_ok_def al.options_ok_def kinds_def dest: rights_D)

lemma al_closing_ok: "al.closing_ok (conn s) c' s"
  by (simp add: al.closing_ok_def)

lemma al_powers:
  assumes "authorized (conn s)" "authorized c'" "kinds c' = kinds (conn s)"
  shows "al.powers (conn s) c' s"
proof -
  have "allowed (conn s) c' x" if "allowed (conn s) (conn s) x" for x
    using that assms by (cases "(conn s, c', x)" rule: allowed.cases) (simp_all add: kinds_def)
  with assms(1) show ?thesis
    by (simp add: al.powers_def)
qed

lemma message_allowed:
  assumes m: "on_message h m s = Some (s', go)" and inv: "adm_inv (conn s)"
  shows "emitted (allowed (conn s) (conn s')) s s'"
proof -
  let ?P = "allowed (conn s) (conn s')"
  consider req where "m = LoginMsg req" | code hw where "m = Auth2fa code hw" | ro bs where "m = SwitchSidesResponse ro bs"
    | "emitted ?P s s'" | "authorized (conn s)" "on_authorized h m s = Some (s', go)"
    using m al.on_close_emitted [OF emitted_refl al_closing_ok, of s "conn s'"] al.test_delay_emitted [OF emitted_refl]
    by (cases m) (auto simp: on_message_def split: MiscMsg.splits if_splits)
  then show ?thesis
  proof cases
    case (1 req)
    then have s': "s' = fst (on_login h req s)"
      using m by (simp add: on_message_def)
    show ?thesis
      unfolding s' by (rule al.on_login_emitted [OF emitted_refl]) (rule al_logon_ok)
  next
    case (2 code hw)
    then have s': "s' = on_auth_2fa h code hw s"
      using m by (simp add: on_message_def)
    have "kinds (conn s') = kinds (conn s)"
      by (simp add: s')
    then show ?thesis
      unfolding s' by (intro al.on_auth_2fa_emitted [OF emitted_refl] al_logon_ok) simp_all
  next
    case (3 ro bs)
    then have s': "s' = on_switch_sides h ro bs s"
      using m by (simp add: on_message_def)
    show ?thesis
      unfolding s' by (rule al.on_switch_sides_emitted [OF emitted_refl]) (rule al_logon_ok)
  next
    case 5
    have st: "standing (conn s') = standing (conn s)"
      by (rule on_authorized_standing [OF 5(2)])
    then have "authorized (conn s')" "kinds (conn s') = kinds (conn s)"
      using 5(1) by (simp_all add: standing_def kinds_def)
    then show ?thesis
      by (intro al.on_authorized_emitted [OF emitted_refl _ 5(2)] al_powers 5(1))
  qed
qed

lemma outs_touch: "outs (touch_session h s) = outs s"
  by (simp add: touch_session_def split: option.split)

lemma step_allowed:
  assumes st: "conn_step h e (s, t) = Some ((s', t'), go)" and inv: "adm_inv (conn s)"
  shows "emitted (allowed (conn s) (conn s')) s s'"
proof -
  let ?P = "allowed (conn s) (conn s')"
  note cl = al_closing_ok [of s "conn s'"]
  note cm = al.on_cm_emitted [OF emitted_refl cl] and tm = al.timers_emitted [OF emitted_refl cl]
    and ft = al.file_timer_emitted [OF emitted_refl cl]
  have cons: "emitted ?P s s'" if "e = EvCm Authorize"
  proof -
    have s': "s' = send_logon_response h (upd_conn (\<lambda>c. c\<lparr>require_2fa := None\<rparr>) s)" (is "_ = send_logon_response h ?u")
      using st that by (simp add: conn_step_def on_cm_def Let_def)
    have k: "rights (conn ?u) = rights (conn s)" "kinds (conn ?u) = kinds (conn s')"
      unfolding s' kinds_logon by (simp_all add: rights_def kinds_def)
    have "emitted ?P s ?u"
      by simp
    then show ?thesis
      unfolding s' by (rule al.send_logon_emitted) (rule al_logon_ok, use k s' in simp_all)
  qed
  note step = st [unfolded conn_step_def]
  show ?thesis
  proof (cases e)
    case (EvPeer m)
    then obtain go' where m: "on_message h m (touch_session h s) = Some (s', go')"
      using step by (auto simp: on_peer_def split: option.splits bool.splits)
    show ?thesis
      using message_allowed [OF m] inv by (simp add: emitted_def outs_touch)
  next
    case (EvCm m)
    then show ?thesis
      using step cm [of m h] cons by (cases "m = Authorize") (simp_all split: prod.splits)
  next
    case (EvFileTimer l sched net)
    then show ?thesis
      using step ft [of h l sched net] by auto
  next
    case (EvWebConsole conns)
    then show ?thesis
      using step al.closing_reason [OF emitted_refl cl] by (auto split: if_splits)
  next
    case (EvService m l scr net)
    then show ?thesis
      using step tm(3) [of m l scr net] by (simp split: prod.splits)
  next
    case (EvVideo fr v net)
    then show ?thesis
      using step tm(4) [of fr v net] by (simp split: prod.splits)
  next
    case EvSecond
    then show ?thesis
      using step tm(1) [of h] by (simp split: prod.splits)
  next
    case EvDelay
    then show ?thesis
      using step tm(2) [of h t] by (simp split: prod.splits)
  next
    case (EvClip k m)
    then show ?thesis
      using step tm(5) [of k m] by auto
  next
    case EvUnparsed
    then show ?thesis
      using step al.touch_emitted [of "conn s" "conn s'" s h s] by auto
  qed (use step al.on_close_emitted [OF emitted_refl cl, of True] in auto)
qed

end
