(* ===== verification/Connection_Safety.thy ===== *)
theory Connection_Safety
  imports Connection_Effects
begin

text \<open>
  The properties of a connection: who is let in, what a peer can make the host do, which permissions
  it can have, and what is left when it ends.  Runs start with \<open>Connection::start\<close>; between two events
  the other connections may change the globals in any way.
\<close>

section \<open>A concrete host\<close>

definition demo_host :: Host where
  "demo_host = \<lparr>sha256 = (\<lambda>x. x), totp_check = (\<lambda>totp code. Some (code = totp)), get_2fa = (\<lambda>_. None),
     cidr_contains = (\<lambda>_ _. False), tcp_connect = (\<lambda>_. True), uuid_from_slice = Some, headless_allowed = False,
     headless = False, try_start_desktop = (\<lambda>_ _. []), is_prelogin = False, is_locked = False, is_server = False,
     main_window_open = False, display_server_error = [], login_displays = None, display_count = 1, primary_display = 0,
     camera_exists = False, has_display = (\<lambda>_ _. True), is_dir = (\<lambda>_. True), file_tree = (\<lambda>_. None),
     file_system = \<lparr>paths = [], inodes = [], next_ino = 0, denied = []\<rparr>, max_files_option = [],
     keycode_to_rdev_key = (\<lambda>k. k), rdev_is_modifier = (\<lambda>_. False), whiteboard_supported = False,
     need_fs_cm_send_files = False, serve_clip_messages = (\<lambda>_. []), terminal_answer = (\<lambda>_ _. None),
     service_specified_user = (\<lambda>_. None), new_service_id = ''ts'', priv_env = mac_env, env = plain_env, clock = 0\<rparr>"

definition demo_world :: World where
  "demo_world = \<lparr>login_failures = ([], []), sessions = [], instants = [], alive_conns = [], authed_conns = [],
     control_permissions_array = [], switch_sides_uuid = [], store = first_run\<lparr>temporary := ''abc''\<rparr>, server = None,
     privacy_mode = None, click_time = 0, mouse_move_time = 0\<rparr>"

definition demo_inner :: ConnInner where
  "demo_inner = \<lparr>conn_id = 1, tx = True, tx_video = True\<rparr>"

definition demo_login :: LoginRequest where
  "demo_login = login_default\<lparr>lr_username := ''123'', my_id := ''peer'', my_name := ''me'', lr_password := ''abcsaltdare''\<rparr>"

section \<open>Admission\<close>

lemma consent_runs:
  "conn_loop [(h, w, EvCm Authorize)] (s, t) = Some ((send_logon_response h (upd_conn (\<lambda>c. c\<lparr>require_2fa := None\<rparr>) (s\<lparr>world := w\<rparr>)), t),
     \<not> port_forward_socket (conn (send_logon_response h (upd_conn (\<lambda>c. c\<lparr>require_2fa := None\<rparr>) (s\<lparr>world := w\<rparr>)))))"
  by (simp add: conn_step_def on_cm_def Let_def split: bool.split)

text \<open>C1: Nobody is admitted without a credential.  However a connection is driven, if it has become
  authorized then some event of the run authorized it, and that was the consent of the user, a login
  that knows the one-time or permanent password (or the one-time password of a session heard of in the
  last 30 seconds) and passes the second factor when there is one, a right one-time code, or the switch
  of sides this host announced in the last 10 seconds.\<close>

theorem authorized_needs_credential:
  assumes "conn_loop es (fst (conn_start h0 addr inn cp r1 r2 w0), t0) = Some ((s', t'), go)" and "authorized (conn s')"
  shows "\<exists>es1 h w e es2 s t. es = es1 @ (h, w, e) # es2
     \<and> conn_loop es1 (fst (conn_start h0 addr inn cp r1 r2 w0), t0) = Some ((s, t), True)
     \<and> \<not> authorized (conn s) \<and> admitted h e (s\<lparr>world := w\<rparr>)"
  by (rule run_admission [OF assms(1) conn_start_inv assms(2)])

theorem authorized_needs_credential_witness:
  "\<exists>s'. fst (the (conn_loop [(demo_host, demo_world, EvCm Authorize)]
       (fst (conn_start demo_host (V4 [1, 2, 3, 4] 5) demo_inner None [0,0,0,0,0,0] [0,0,0,0,0,0] demo_world), 0))) = (s', 0) \<and> authorized (conn s')
     \<and> (\<exists>es1 h w e es2 s t. [(demo_host, demo_world, EvCm Authorize)] = es1 @ (h, w, e) # es2
         \<and> conn_loop es1 (fst (conn_start demo_host (V4 [1, 2, 3, 4] 5) demo_inner None [0,0,0,0,0,0] [0,0,0,0,0,0] demo_world), 0) = Some ((s, t), True)
         \<and> \<not> authorized (conn s) \<and> admitted h e (s\<lparr>world := w\<rparr>))"
proof -
  let ?init = "fst (conn_start demo_host (V4 [1, 2, 3, 4] 5) demo_inner None [0,0,0,0,0,0] [0,0,0,0,0,0] demo_world)"
  let ?s' = "send_logon_response demo_host (upd_conn (\<lambda>c. c\<lparr>require_2fa := None\<rparr>) (?init\<lparr>world := demo_world\<rparr>))"
  have a: "authorized (conn ?s')"
    by (simp add: send_logon_authorized)
  show ?thesis
    using authorized_needs_credential [OF consent_runs a] a
    by (intro exI [of _ ?s']) (simp add: consent_runs del: conn_loop.simps)
qed

section \<open>Permissions\<close>

text \<open>The connection of the concrete host after the consent of its user.\<close>

definition demo_open :: CS where
  "demo_open = fst (conn_start demo_host (V4 [1, 2, 3, 4] 5) demo_inner None [0,0,0,0,0,0] [0,0,0,0,0,0] demo_world)"

definition demo_in :: CS where
  "demo_in = send_logon_response demo_host (upd_conn (\<lambda>c. c\<lparr>require_2fa := None\<rparr>) (demo_open\<lparr>world := demo_world\<rparr>))"

lemma demo_rights: "rights (conn demo_open) = [True, True, True, True, True, True, True]"
  unfolding demo_open_def rights_conn_start
  by (simp add: permission_def is_permission_enabled_locally_def demo_world_def get_opt_def get_or_def first_run_def
      unwrap_or_def option2bool_def hm_get_def starts_with_def)

lemma demo_in_conn: "authorized (conn demo_in)" "clipboard (conn demo_in)" "\<not> port_forward_socket (conn demo_in)"
proof -
  let ?u = "upd_conn (\<lambda>c. c\<lparr>require_2fa := None\<rparr>) (demo_open\<lparr>world := demo_world\<rparr>)"
  show a: "authorized (conn demo_in)"
    by (simp add: demo_in_def send_logon_authorized)
  have na: "\<not> authorized (conn ?u)"
    using conn_start_inv(2) by (simp add: demo_open_def)
  have pf: "\<not> port_forward_socket (conn demo_open)"
    using origin_conn_start [of demo_host "V4 [1, 2, 3, 4] 5" demo_inner None "[0,0,0,0,0,0]" "[0,0,0,0,0,0]" demo_world]
    by (auto simp: origin_def demo_open_def)
  show "clipboard (conn demo_in)" "\<not> port_forward_socket (conn demo_in)"
  proof (atomize (full), cases rule: send_logon_cases [of demo_host ?u])
    case same
    with a na show "clipboard (conn demo_in) \<and> \<not> port_forward_socket (conn demo_in)" by (simp add: demo_in_def)
  next
    case (granted ty t k)
    then show "clipboard (conn demo_in) \<and> \<not> port_forward_socket (conn demo_in)"
      using core_D(3,13) [OF granted(1)] demo_rights pf by (simp add: demo_in_def rights_def)
  qed
qed

lemma demo_in_run:
  "conn_loop [(demo_host, demo_world, EvCm Authorize)] (fst (conn_start demo_host (V4 [1, 2, 3, 4] 5) demo_inner None
     [0,0,0,0,0,0] [0,0,0,0,0,0] demo_world), 0) = Some ((demo_in, 0), True)"
  using demo_in_conn(3) by (simp add: consent_runs demo_in_def demo_open_def del: conn_loop.simps)



text \<open>C3: Permissions are not acquired.  Unless the user of the host grants one in the connection
  manager, a connection never has a permission (keyboard, clipboard, audio, file, restart, recording,
  blocking input) that the configuration and the control permissions did not give it when it started,
  whatever the peer sends.\<close>

theorem permissions_never_grow:
  assumes "conn_loop es (fst (conn_start h addr inn cp r1 r2 w), t0) = Some ((s, t), go)"
    and "list_all (\<lambda>(_, _, e). case e of EvCm (SwitchPermission _ _) \<Rightarrow> False | _ \<Rightarrow> True) es"
  shows "list_all2 (\<longrightarrow>) (rights (conn s)) (map (\<lambda>opt. permission (store w) opt cp)
    [''enable-keyboard'', ''enable-clipboard'', ''enable-audio'', ''enable-file-transfer'', ''enable-remote-restart'',
     ''enable-record-session'', ''enable-block-input''])"
proof -
  have "list_all (\<lambda>(_, _, e). \<forall>nm b. e \<noteq> EvCm (SwitchPermission nm b)) es"
    using assms(2) by (auto simp: list_all_iff)
  from run_lesser [OF assms(1) this] show ?thesis
    unfolding lesser_def rights_conn_start .
qed

text \<open>A peer that asks for the keyboard of a host that grants only viewing.\<close>

definition view_only :: World where
  "view_only = demo_world\<lparr>store := (store demo_world)\<lparr>overwrite_settings := [(''access-mode'', ''view'')]\<rparr>\<rparr>"

theorem permissions_never_grow_witness:
  "\<exists>s t. conn_loop [(demo_host, view_only, EvCm Authorize)]
       (fst (conn_start demo_host (V4 [1, 2, 3, 4] 5) demo_inner None [0,0,0,0,0,0] [0,0,0,0,0,0] view_only), 0) = Some ((s, t), True)
     \<and> rights (conn s) = replicate 7 False"
proof -
  let ?init = "fst (conn_start demo_host (V4 [1, 2, 3, 4] 5) demo_inner None [0,0,0,0,0,0] [0,0,0,0,0,0] view_only)"
  let ?u = "upd_conn (\<lambda>c. c\<lparr>require_2fa := None\<rparr>) (?init\<lparr>world := view_only\<rparr>)"
  let ?s = "send_logon_response demo_host ?u"
  have pf: "\<not> port_forward_socket (conn ?s)"
  proof (cases rule: send_logon_cases [of demo_host ?u])
    case (granted ty t k)
    then show ?thesis
      using core_D(13) [OF granted(1)] origin_conn_start [of demo_host "V4 [1, 2, 3, 4] 5" demo_inner None "[0,0,0,0,0,0]" "[0,0,0,0,0,0]" view_only]
      by (auto simp: origin_def)
  next
    case same
    then show ?thesis
      using origin_conn_start [of demo_host "V4 [1, 2, 3, 4] 5" demo_inner None "[0,0,0,0,0,0]" "[0,0,0,0,0,0]" view_only]
      by (auto simp: origin_def)
  qed
  then have run: "conn_loop [(demo_host, view_only, EvCm Authorize)] (?init, 0) = Some ((?s, 0), True)"
    by (simp add: consent_runs del: conn_loop.simps)
  have "permission (store view_only) opt None = False" for opt
    by (simp add: permission_def is_permission_enabled_locally_def view_only_def demo_world_def get_opt_def get_or_def unwrap_or_def hm_get_def)
  then have "rights (conn ?s) = replicate 7 False"
    using permissions_never_grow [OF run] by (simp add: rights_def numeral_eq_Suc)
  with run show ?thesis by blast
qed

section \<open>The right password\<close>

interpretation any: outputs "\<lambda>_. True"
  by unfold_locales simp

lemma any_logon_ok [simp]: "any.logon_ok t"
  by (simp add: any.logon_ok_def any.options_ok_def)

lemma any_emitted: "emitted (\<lambda>_. True) s t \<Longrightarrow> x \<in> set (outs s) \<Longrightarrow> x \<in> set (outs t)"
  by (auto simp: emitted_def)

lemma logon_answers:
  assumes "\<not> authorized (conn t)" "require_2fa (conn t) = None" "display_server_error h = []" "login_displays h = None"
  shows "Send LoginOk \<in> set (outs (send_logon_response h t))"
proof -
  define t2 where "t2 = become_authorized h t"
  define t3 where "t3 = fst (logon_prepare h t2)"
  have "Send LoginOk \<in> set (outs t3)"
    using assms(4) by (simp add: t3_def logon_prepare_def Let_def)
  then have "Send LoginOk \<in> set (outs (logon_start h sub (take_login_options h t3)))" for sub
    by (rule any_emitted [rotated]) (intro any.logon_parts_emitted emitted_refl any_logon_ok)
  then show ?thesis
    using assms(1-3) by (auto simp: send_logon_response_def t2_def [symmetric] t3_def Let_def split: prod.split)
qed

lemma login_ok_answers:
  assumes "\<not> authorized (conn t)" "require_2fa (conn t) = None" "display_server_error h = []" "login_displays h = None"
  shows "authorized (conn (login_ok h req [] t))" "Send LoginOk \<in> set (outs (login_ok h req [] t))"
  using assms logon_answers [of "wait_desktop_cm_ready h t" h]
  by (simp_all add: login_ok_def Let_def send_logon_authorized try_start_cm_def)

lemma fresh_address_open: "snd (check_failure addr tm []) = None"
  by (simp add: check_failure_def check_failure_ip_def check_failure_ipv6_prefix_def Let_def split: option.split)

lemma right_password_checks:
  assumes fits: "temporary_enabled (store (world s)) \<and> password_fits h (conn s) req (temporary (store (world s)))
      \<or> permanent_enabled (store (world s)) \<and> password_fits h (conn s) req (get_permanent_password (store (world s)))"
    and lr: "lr (conn s) = req" and pw: "lr_password req \<noteq> []"
    and user: "lr_username req = cfg_id (config (store (world s)))" and mode: "approve_mode (store (world s)) \<noteq> ApproveClick"
    and free: "snd (check_failure (ip (conn s)) (clock h) (fst (login_failures (world s)))) = None"
    and na: "\<not> authorized (conn s)" "require_2fa (conn s) = None"
    and disp: "display_server_error h = []" "login_displays h = None"
  shows "snd (login_check h req [] s)" "authorized (conn (fst (login_check h req [] s)))"
    "Send LoginOk \<in> set (outs (fst (login_check h req [] s)))"
proof -
  have valid: "has_valid_password (store (world s))"
    using fits by (auto simp: has_valid_password_def password_fits_def)
  obtain s1 r where rs: "is_recent_session h False s = (s1, r)" by (metis surj_pair)
  then have s1: "conn s1 = conn s" "policy (store (world s1)) = policy (store (world s))" "login_failures (world s1) = login_failures (world s)"
    using conn_auth_helpers(8) [of h False s] recent_session_world(2) [of h False s]
    by (auto simp: is_recent_session_def Let_def expire_sessions_def)
  have cf: "check_failure_conn h False s1 = (s1, fst (check_failure (ip (conn s)) (clock h) (fst (login_failures (world s)))), True)"
    using free s1 by (auto simp: check_failure_conn_def Let_def split: prod.split option.splits)
  have vp: "snd (validate_password h s1)"
    using fits policy_cong [OF s1(2)] s1 lr by (auto simp: validate_password_def validate_one_password_def password_fits_def Let_def)
  then obtain s2 where s2: "validate_password h s1 = (s2, True)" by (metis (full_types) prod.collapse)
  then have c2: "conn s2 = conn s"
    using conn_auth_helpers(7) [of h s1] s1 by simp
  let ?u = "update_failure_conn (fst (check_failure (ip (conn s)) (clock h) (fst (login_failures (world s))))) True False s2"
  have lp: "login_password h req [] s1 = login_ok h req [] ?u"
    by (simp add: login_password_def cf s2)
  have "login_check h req [] s = (if r then (login_ok h req [] s1, True) else (login_ok h req [] ?u, True))"
    using user mode valid pw by (simp add: login_check_def rs lp Let_def split: bool.split)
  then show "snd (login_check h req [] s)" "authorized (conn (fst (login_check h req [] s)))"
    "Send LoginOk \<in> set (outs (fst (login_check h req [] s)))"
    using login_ok_answers [of s1 h req] login_ok_answers [of ?u h req] na disp s1 c2 by auto
qed

lemma password_login_admits:
  assumes "\<not> authorized (conn s)" "require_2fa (conn s) = None" "lr_union req = LoginDefault"
    and "\<not> is_in_privacy_mode (privacy_mode (world s))" "desktop_error h req = []"
    and "lr_username req = cfg_id (config (store (world s)))" "approve_mode (store (world s)) \<noteq> ApproveClick"
    and "temporary_enabled (store (world s)) \<and> password_fits h (conn s) req (temporary (store (world s)))
      \<or> permanent_enabled (store (world s)) \<and> password_fits h (conn s) req (get_permanent_password (store (world s)))"
    and "lr_password req \<noteq> []" "snd (check_failure (ip (conn s)) (clock h) (fst (login_failures (world s)))) = None"
    and "display_server_error h = []" "login_displays h = None"
  shows "\<exists>s'. on_message h (LoginMsg req) s = Some (s', True) \<and> authorized (conn s') \<and> Send LoginOk \<in> set (outs s')"
proof -
  define s1 where "s1 = handle_login_request_without_validation h req s"
  note hl = handle_login_conn [of h req s, folded s1_def]
  define s3 where "s3 = try_start_cm_ipc s1"
  have c3: "core (conn s3) = core (conn s1)" "world s3 = world s1"
    by (simp_all add: s3_def)
  have g: "policy (store (world s3)) = policy (store (world s))" "login_failures (world s3) = login_failures (world s)"
    "privacy_mode (world s1) = privacy_mode (world s)"
    using hl(13) c3 by (simp_all add: globals_def)
  have a: "\<not> authorized (conn s1)" "\<not> authorized (conn s3)" "require_2fa (conn s3) = None"
    using assms(1,2) gate_D(1) [OF hl(1)] hl(12) core_D(1,2) [OF c3(1)] by simp_all
  have fits: "password_fits h (conn s3) = password_fits h (conn s)" "ip (conn s3) = ip (conn s)" "lr (conn s3) = req"
    using core_D [OF c3(1)] hl(2-5) by (simp_all add: password_fits_def fun_eq_iff)
  have "on_login h req s = login_check h req [] s3"
    using a assms(3-5) g(3) unfolding on_login_def Let_def s1_def [symmetric] by (simp add: login_kind_def s3_def Let_def)
  moreover have "snd (login_check h req [] s3)" "authorized (conn (fst (login_check h req [] s3)))"
    "Send LoginOk \<in> set (outs (fst (login_check h req [] s3)))"
    by (rule right_password_checks; use assms a fits g policy_cong [OF g(1)] in simp)+
  ultimately show ?thesis
    by (cases "login_check h req [] s3") (simp add: on_message_def)
qed

text \<open>C4: The right password admits.  A login for remote control that addresses this host and carries
  the hash of the one-time or permanent password in use is authorized and answered with the success
  response, when passwords are accepted, no second factor is required, the address is not closed by
  failures, no privacy mode is on and the displays can be listed; the connection goes on.\<close>

theorem correct_password_admits:
  assumes "\<not> authorized (conn s)" "require_2fa (conn s) = None" "lr_union req = LoginDefault"
    and "\<not> is_in_privacy_mode (privacy_mode (world s))" "desktop_error h req = []"
    and "lr_username req = cfg_id (config (store (world s)))" "approve_mode (store (world s)) \<noteq> ApproveClick"
    and "temporary_enabled (store (world s)) \<and> password_fits h (conn s) req (temporary (store (world s)))
      \<or> permanent_enabled (store (world s)) \<and> password_fits h (conn s) req (get_permanent_password (store (world s)))"
    and "lr_password req \<noteq> []" "snd (check_failure (ip (conn s)) (clock h) (fst (login_failures (world s)))) = None"
    and "display_server_error h = []" "login_displays h = None"
  shows "\<exists>s'. on_message h (LoginMsg req) s = Some (s', True) \<and> authorized (conn s') \<and> Send LoginOk \<in> set (outs s')"
  using assms by (rule password_login_admits)

theorem correct_password_admits_witness:
  "\<exists>s'. on_message demo_host (LoginMsg demo_login)
       \<lparr>conn = connection_new demo_host demo_inner None ''salt'' ''dare'' (store demo_world), world = demo_world, outs = []\<rparr> = Some (s', True)
     \<and> authorized (conn s') \<and> Send LoginOk \<in> set (outs s')"
proof (rule correct_password_admits)
  let ?s = "\<lparr>conn = connection_new demo_host demo_inner None ''salt'' ''dare'' (store demo_world), world = demo_world, outs = []\<rparr>"
  show "\<not> authorized (conn ?s)" "require_2fa (conn ?s) = None"
    by (simp_all add: connection_new_def demo_host_def)
  show "snd (check_failure (ip (conn ?s)) (clock demo_host) (fst (login_failures (world ?s)))) = None"
    by (simp add: demo_world_def fresh_address_open)
  show "temporary_enabled (store (world ?s)) \<and> password_fits demo_host (conn ?s) demo_login (temporary (store (world ?s)))
      \<or> permanent_enabled (store (world ?s)) \<and> password_fits demo_host (conn ?s) demo_login (get_permanent_password (store (world ?s)))"
    by (simp add: connection_new_def demo_host_def demo_world_def demo_login_def password_fits_def temporary_enabled_def
        verification_method_def get_opt_def get_or_def first_run_def unwrap_or_def hm_get_def login_default_def)
qed (simp_all add: demo_login_def login_default_def demo_world_def demo_host_def is_in_privacy_mode_def desktop_error_def
    approve_mode_def get_opt_def get_or_def first_run_def unwrap_or_def hm_get_def)

section \<open>Before the login\<close>

text \<open>What other connections and the user see of the host.\<close>

definition hostside :: "World \<Rightarrow> _" where
  "hostside w = (server w, privacy_mode w, authed_conns w)"

lemma hostside_checks [simp]:
  "hostside (world (fst (is_recent_session h b s))) = hostside (world s)" "hostside (world (fst (validate_password h s))) = hostside (world s)"
  "hostside (world (update_failure_conn f rem snd2 s)) = hostside (world s)"
  "hostside (world (handle_login_request_without_validation h req s)) = hostside (world s)"
  by (simp_all add: is_recent_session_def expire_sessions_def validate_password_def update_or_insert_session_def
      update_failure_conn_def handle_login_request_without_validation_def hostside_def Let_def split: option.split prod.split)

lemma hostside_logon:
  assumes "\<not> authorized (conn (send_logon_response h s))"
  shows "hostside (world (send_logon_response h s)) = hostside (world s)"
proof -
  obtain s1 r where r: "is_recent_session h True s = (s1, r)" by (metis surj_pair)
  have "hostside (world s1) = hostside (world s)"
    using hostside_checks(1) [of h True s] r by simp
  moreover have "require_2fa (conn s) \<noteq> None" "\<not> r" "\<not> from_switch (conn s)" "\<not> authorized (conn s)"
    using assms r by (auto simp: send_logon_authorized)
  moreover have "conn s1 = conn s"
    using conn_auth_helpers(8) [of h True s] r by simp
  ultimately show ?thesis
    using r by (simp add: send_logon_response_def)
qed

lemma hostside_login_ok:
  "\<not> authorized (conn (login_ok h req err s)) \<Longrightarrow> hostside (world (login_ok h req err s)) = hostside (world s)"
  using hostside_logon [of h "wait_desktop_cm_ready h s"] by (auto simp: login_ok_def Let_def)

lemma hostside_login_password:
  assumes "\<not> authorized (conn (login_password h req err s))"
  shows "hostside (world (login_password h req err s)) = hostside (world s)"
proof -
  obtain s1 f ok where cf: "check_failure_conn h False s = (s1, f, ok)" by (metis prod_cases3)
  then have s1: "world s1 = world s"
    using world_auth_helpers(6) [of h False s] by auto
  obtain s2 ok2 where vp: "validate_password h s1 = (s2, ok2)" by (metis surj_pair)
  then have s2: "hostside (world s2) = hostside (world s)"
    using hostside_checks(2) [of h s1] s1 by auto
  show ?thesis
    using assms cf vp s1 s2 hostside_login_ok [of h req _ "update_failure_conn f True False s2"]
    by (auto simp: login_password_def Let_def split: bool.splits if_splits)
qed

lemma hostside_login_check:
  assumes "\<not> authorized (conn (fst (login_check h req err s)))"
  shows "hostside (world (fst (login_check h req err s))) = hostside (world s)"
proof -
  obtain s1 r where rs: "is_recent_session h False s = (s1, r)" by (metis surj_pair)
  then have s1: "hostside (world s1) = hostside (world s)"
    using hostside_checks(1) [of h False s] by auto
  show ?thesis
    using rs
  proof (cases rule: login_check_cases [of h s s1 r req err])
    case ok
    then show ?thesis
      using assms s1 hostside_login_ok [of h req err s1] by simp
  next
    case password
    then show ?thesis
      using assms s1 hostside_login_password [of h req err s1] by simp
  next
    case (refused e u a b)
    then show ?thesis
      using s1 by auto
  qed
qed

lemma hostside_on_login:
  assumes "\<not> authorized (conn (fst (on_login h req s)))"
  shows "hostside (world (fst (on_login h req s))) = hostside (world s)"
proof -
  define s1 where "s1 = handle_login_request_without_validation h req s"
  have s1: "hostside (world s1) = hostside (world s)"
    by (simp add: s1_def)
  obtain s2 k where lk: "login_kind h req s1 = (s2, k)" by (metis surj_pair)
  have s2: "world s2 = world s1"
    using login_kind_conn(11) [of h req s1] lk by simp
  show ?thesis
    using assms lk s1 s2 hostside_login_check [of h req _ "try_start_cm_ipc s2"]
    unfolding on_login_def Let_def s1_def [symmetric] by (auto split: option.splits if_splits)
qed

lemma hostside_auth_2fa:
  assumes "\<not> authorized (conn (on_auth_2fa h code hw s))"
  shows "hostside (world (on_auth_2fa h code hw s)) = hostside (world s)"
proof -
  obtain s1 f ok where cf: "check_failure_conn h True s = (s1, f, ok)" by (metis prod_cases3)
  then have s1: "world s1 = world s"
    using world_auth_helpers(6) [of h True s] by auto
  have "authorized (conn (send_logon_response h (upd_world g (upd_conn (\<lambda>c. c\<lparr>require_2fa := None\<rparr>) t))))" for g t
    by (simp add: send_logon_authorized)
  with assms s1 show ?thesis
    by (simp add: on_auth_2fa_def cf Let_def split: bool.splits option.splits if_splits)
qed

lemma hostside_switch_sides:
  assumes "\<not> authorized (conn (on_switch_sides h ro bs s))"
  shows "hostside (world (on_switch_sides h ro bs s)) = hostside (world s)"
proof (cases ro)
  case (Some req)
  have "authorized (conn (send_logon_response h (upd_conn (\<lambda>c. c\<lparr>from_switch := True\<rparr>) t)))" for t
    by (simp add: send_logon_authorized)
  moreover have "authorized (conn (try_start_cm_ipc t)) = authorized (conn t)" for t
    by (rule core_D(1)) simp
  moreover have "hostside (w\<lparr>switch_sides_uuid := m\<rparr>) = hostside w" for w m
    by (simp add: hostside_def)
  ultimately show ?thesis
    using assms Some by (auto simp: on_switch_sides_def Let_def split: option.splits if_splits)
qed (simp add: on_switch_sides_def)

lemma hostside_test_delay: "hostside (world (on_test_delay h b d s)) = hostside (world s)"
  by (simp add: on_test_delay_def Let_def split: option.split)

lemma hostside_on_close: "world (on_close lock s) = world s"
  by (simp add: on_close_def Let_def)

lemma hostside_remove_session: "hostside (world (remove_session s)) = hostside (world s)"
  by (simp add: remove_session_def check_remove_session_def hostside_def Let_def)

text \<open>C5: A peer that is not let in sees and changes nothing.  While a message leaves the connection
  unauthorized, the services and their subscribers, privacy mode and the list of authorized connections
  stay as they are.\<close>

theorem unauthorized_peer_confined:
  assumes "conn_loop es (fst (conn_start h0 addr inn cp r1 r2 w0), t0) = Some ((s, t), True)"
    and "conn_step h (EvPeer m) (s\<lparr>world := w\<rparr>, t) = Some ((s', t'), go)" and "\<not> authorized (conn s')"
  shows "server (world s') = server w \<and> privacy_mode (world s') = privacy_mode w \<and> authed_conns (world s') = authed_conns w"
proof -
  let ?s = "s\<lparr>world := w\<rparr>"
  have inv: "adm_inv (conn ?s)"
    using run_inv [OF assms(1) conn_start_inv(1)] by simp
  have na: "\<not> authorized (conn ?s)"
    using step_sound(1) [OF assms(2) inv] assms(3) by (auto simp: sound_def)
  obtain go' where m: "on_message h m ?s = Some (s', go')"
    using assms(2) touch_unauthorized [OF inv na] by (auto simp: conn_step_def on_peer_def split: option.splits bool.splits)
  consider req where "s' = fst (on_login h req ?s)" | code hw where "s' = on_auth_2fa h code hw ?s"
    | ro bs where "s' = on_switch_sides h ro bs ?s" | "hostside (world s') = hostside (world ?s)"
    using m na by (cases m) (auto simp: on_message_def hostside_test_delay hostside_on_close hostside_remove_session
        split: MiscMsg.splits if_splits, metis fst_conv)
  then have "hostside (world s') = hostside (world ?s)"
    by cases (use assms(3) hostside_on_login hostside_auth_2fa hostside_switch_sides in blast)+
  then show ?thesis
    by (simp add: hostside_def)
qed

text \<open>A mouse event of a peer that has not logged in.\<close>

theorem unauthorized_peer_confined_witness:
  "\<exists>s'. conn_step demo_host (EvPeer (MouseMsg \<lparr>mouse_mask = 9, mouse_x = 1, mouse_y = 1\<rparr>)) (demo_open\<lparr>world := demo_world\<rparr>, 0) = Some ((s', 0), True)
     \<and> \<not> authorized (conn s') \<and> server (world s') = server demo_world \<and> privacy_mode (world s') = privacy_mode demo_world
     \<and> authed_conns (world s') = authed_conns demo_world"
proof -
  let ?s = "demo_open\<lparr>world := demo_world\<rparr>"
  have na: "\<not> authorized (conn ?s)" and inv: "adm_inv (conn ?s)"
    using conn_start_inv by (simp_all add: demo_open_def)
  have run: "conn_loop [] (fst (conn_start demo_host (V4 [1, 2, 3, 4] 5) demo_inner None [0,0,0,0,0,0] [0,0,0,0,0,0] demo_world), 0)
      = Some ((demo_open, 0), True)"
    by (simp add: demo_open_def)
  have step: "conn_step demo_host (EvPeer (MouseMsg \<lparr>mouse_mask = 9, mouse_x = 1, mouse_y = 1\<rparr>)) (?s, 0) = Some ((?s, 0), True)"
    using na touch_unauthorized [OF inv na] by (simp add: conn_step_def on_peer_def on_message_def demo_host_def)
  show ?thesis
    using unauthorized_peer_confined [OF run step na] step na by blast
qed

section \<open>Divergences\<close>

text \<open>C24: The second factor alone admits.  \<open>Auth2FA\<close> is answered without looking whether a password was
  accepted before: a right code authorizes a connection in any state, also one that has sent no login
  or only wrong passwords.\<close>

theorem totp_alone_authorizes:
  assumes "require_2fa (conn s) = Some totp" and "totp_check h totp code = Some True"
    and "snd (check_failure (ip (conn s)) (clock h) (snd (login_failures (world s)))) = None"
  shows "\<exists>s'. on_message h (Auth2fa code hw) s = Some (s', True) \<and> authorized (conn s')"
proof -
  have cf: "check_failure_conn h True s = (s, fst (check_failure (ip (conn s)) (clock h) (snd (login_failures (world s)))), True)"
    using assms(3) by (auto simp: check_failure_conn_def Let_def split: prod.split option.splits)
  have "authorized (conn (send_logon_response h (upd_world g (upd_conn (\<lambda>c. c\<lparr>require_2fa := None\<rparr>) t))))" for g t
    by (simp add: send_logon_authorized)
  then have "authorized (conn (on_auth_2fa h code hw s))"
    using assms(1,2) by (simp add: on_auth_2fa_def cf Let_def)
  then show ?thesis
    by (simp add: on_message_def)
qed

theorem totp_alone_authorizes_witness:
  "\<exists>s'. on_message demo_host (Auth2fa ''123456'' [])
       \<lparr>conn = (connection_new demo_host demo_inner None ''salt'' ''dare'' (store demo_world))\<lparr>require_2fa := Some ''123456''\<rparr>,
        world = demo_world, outs = []\<rparr> = Some (s', True) \<and> authorized (conn s')"
  by (rule totp_alone_authorizes [where totp = "''123456''"]) (simp_all add: demo_host_def demo_world_def fresh_address_open)

text \<open>Stuck modifiers.  The host remembers pressed modifier keys so that they can be released when
  the connection ends, but on Linux a modifier key never counts as a press: in every run the set is
  empty and dropping the connection releases nothing.\<close>

theorem modifiers_never_released:
  assumes "conn_loop es (fst (conn_start h addr inn cp r1 r2 w), t0) = Some ((s, t), go)"
  shows "pressed_modifiers (conn s) = [] \<and> outs (release_pressed_modifiers s) = outs s"
  using run_inv [OF assms conn_start_inv(1)] by (simp add: adm_inv_def release_pressed_modifiers_def)

text \<open>A control key that goes down in the Map mode of the keyboard and never up.\<close>

theorem modifiers_never_released_witness:
  "\<exists>s t. conn_loop [(demo_host, demo_world, EvCm Authorize),
       (demo_host\<lparr>rdev_is_modifier := (\<lambda>_. True)\<rparr>, demo_world,
        EvPeer (KeyMsg \<lparr>key_down = True, key_press = False, key_union = KeyChr 37, key_mode = Some KMap\<rparr>))]
       (fst (conn_start demo_host (V4 [1, 2, 3, 4] 5) demo_inner None [0,0,0,0,0,0] [0,0,0,0,0,0] demo_world), 0) = Some ((s, t), True)
     \<and> pressed_modifiers (conn s) = [] \<and> outs (release_pressed_modifiers s) = outs s"
proof -
  let ?h = "demo_host\<lparr>rdev_is_modifier := (\<lambda>_. True)\<rparr>"
  let ?k = "KeyMsg \<lparr>key_down = True, key_press = False, key_union = KeyChr 37, key_mode = Some KMap\<rparr>"
  let ?init = "fst (conn_start demo_host (V4 [1, 2, 3, 4] 5) demo_inner None [0,0,0,0,0,0] [0,0,0,0,0,0] demo_world)"
  let ?t = "touch_session ?h (demo_in\<lparr>world := demo_world\<rparr>)"
  have "port_forward_socket (conn (on_key ?h k ?t)) = port_forward_socket (conn ?t)" for k
    by (simp add: on_key_def update_auto_disconnect_timer_def track_modifier_def Let_def split: option.split)
  then obtain s where "conn_step ?h (EvPeer ?k) (demo_in\<lparr>world := demo_world\<rparr>, 0) = Some ((s, clock ?h), True)"
    using demo_in_conn(1,3) by (simp add: conn_step_def on_peer_def on_message_def on_authorized_def)
  then have run: "conn_loop [(demo_host, demo_world, EvCm Authorize), (?h, demo_world, EvPeer ?k)] (?init, 0) = Some ((s, clock ?h), True)"
    using demo_in_run by (auto split: option.splits prod.splits bool.splits if_splits)
  from run modifiers_never_released [OF run] show ?thesis by blast
qed

end
