(* ===== verification/Connection_End.thy ===== *)
theory Connection_End
  imports Connection_Safety
begin

text \<open>
  The end of a connection, \<open>src/src/server/connection.rs\<close>: what the code after the loop of
  \<open>Connection::start\<close> and the destructors leave in the globals, and the relay of a port forward.
\<close>

section \<open>What the end of the loop leaves alone\<close>

lemma cid_simps [simp]:
  "cid (on_close lock s) = cid s" "cid (remove_session s) = cid s" "cid (release_pressed_modifiers s) = cid s"
  "cid (authed_conn_id_drop h s) = cid s"
  by (simp_all add: cid_def on_close_def remove_session_def release_pressed_modifiers_def authed_conn_id_drop_def
      check_wake_lock_def Let_def split: option.split)

lemma remove_session_world [simp]:
  "server (world (remove_session s)) = server (world s)" "alive_conns (world (remove_session s)) = alive_conns (world s)"
  "authed_conns (world (remove_session s)) = authed_conns (world s)" "privacy_mode (world (remove_session s)) = privacy_mode (world s)"
  "control_permissions_array (world (remove_session s)) = control_permissions_array (world s)"
  by (simp_all add: remove_session_def check_remove_session_def Let_def)

lemma on_close_conn [simp]:
  "closed (conn (on_close lock s))" "authed_conn_id (conn (on_close lock s)) = authed_conn_id (conn s)"
  "inner (conn (on_close lock s)) = inner (conn s)" "control_permissions (conn (on_close lock s)) = control_permissions (conn s)"
  by (simp_all add: on_close_def Let_def)

lemma remove_session_conn [simp]: "conn (remove_session s) = conn s"
  by (simp add: remove_session_def)

lemma world_release [simp]: "world (release_pressed_modifiers s) = world s" "authed_conn_id (conn (release_pressed_modifiers s)) = authed_conn_id (conn s)"
  "control_permissions (conn (release_pressed_modifiers s)) = control_permissions (conn s)" "closed (conn (release_pressed_modifiers s)) = closed (conn s)"
  by (simp_all add: release_pressed_modifiers_def)

lemma end_loop_conn:
  "closed (conn (end_loop h rnd failed s))" "authed_conn_id (conn (end_loop h rnd failed s)) = authed_conn_id (conn s)"
  "inner (conn (end_loop h rnd failed s)) = inner (conn s)" "control_permissions (conn (end_loop h rnd failed s)) = control_permissions (conn s)"
  by (simp_all add: end_loop_def Let_def)

lemma end_loop_world:
  "server (world (end_loop h rnd failed s)) = map_option (remove_connection (inner (conn s))) (server (world s))"
  "alive_conns (world (end_loop h rnd failed s)) = alive_conns (world s)"
  "authed_conns (world (end_loop h rnd failed s)) = authed_conns (world s)"
  "control_permissions_array (world (end_loop h rnd failed s)) = control_permissions_array (world s)"
  "privacy_mode (world (end_loop h rnd failed s)) =
     (if get_privacy_mode_conn_id (privacy_mode (world s)) = Some (cid s)
      then fst (turn_off_privacy_to_msg (priv_env h) (cid s) (privacy_mode (world s))) else privacy_mode (world s))"
  by (simp_all add: end_loop_def hostside_on_close with_server_def cid_def Let_def)

lemma authed_drop_world:
  "server (world (authed_conn_id_drop h s)) = server (world s)" "alive_conns (world (authed_conn_id_drop h s)) = alive_conns (world s)"
  "privacy_mode (world (authed_conn_id_drop h s)) = privacy_mode (world s)"
  "control_permissions_array (world (authed_conn_id_drop h s)) = control_permissions_array (world s)"
  "authed_conns (world (authed_conn_id_drop h s)) =
     (if authed_conn_id (conn s) = None then authed_conns (world s) else filter (\<lambda>c. ac_conn_id c \<noteq> cid s) (authed_conns (world s)))"
  "conn (authed_conn_id_drop h s) = conn s"
  by (auto simp: authed_conn_id_drop_def check_wake_lock_def Let_def split: option.split)

lemma privacy_off_owner:
  assumes "c \<noteq> 0" "snd (turn_off_privacy pe c st) = Some (Ok ())"
  shows "get_privacy_mode_conn_id (fst (turn_off_privacy_to_msg pe c st)) \<noteq> Some c"
proof -
  obtain m where m: "st = Some m" using assms(2) by (cases st) (simp_all add: turn_off_privacy_def)
  obtain m' where off: "impl_turn_off pe c m = (m', Ok ())"
    using assms(2) m by (auto simp: turn_off_privacy_def split: prod.splits)
  show ?thesis
    using off boxed.off_success [OF off] assms(1) m
    by (simp add: turn_off_privacy_to_msg_def turn_off_privacy_def get_privacy_mode_conn_id_def)
qed

section \<open>Properties\<close>

text \<open>C8: A connection that has ended leaves nothing behind.  After the loop and the destructors it is
  closed, subscribed to no service, and in none of the lists of connections; it does not have privacy
  mode unless turning it off fails; what belongs to the other connections is untouched.\<close>

theorem ended_connection_leaves_nothing:
  assumes "server (world s) = Some sv" and "server_inv sv" and "authed_conn_id (conn s) \<noteq> None" and "cid s \<noteq> 0"
    and "s' = conn_drop h (end_loop h rnd failed s)"
  shows "closed (conn s')
    \<and> (\<exists>sv'. server (world s') = Some sv' \<and> server_inv sv' \<and> subs sv' = subs sv - UNIV \<times> {cid s} \<and> hm_get (connections sv') (cid s) = None)
    \<and> alive_conns (world s') = filter (\<lambda>i. i \<noteq> cid s) (alive_conns (world s))
    \<and> authed_conns (world s') = filter (\<lambda>c. ac_conn_id c \<noteq> cid s) (authed_conns (world s))
    \<and> (control_permissions (conn s) \<noteq> None \<longrightarrow>
         control_permissions_array (world s') = filter (\<lambda>(i, _). i \<noteq> cid s) (control_permissions_array (world s)))
    \<and> (snd (turn_off_privacy (priv_env h) (cid s) (privacy_mode (world s))) = Some (Ok ()) \<longrightarrow>
         get_privacy_mode_conn_id (privacy_mode (world s')) \<noteq> Some (cid s))"
proof -
  let ?e = "end_loop h rnd failed s"
  have c: "cid ?e = cid s"
    using end_loop_conn(3) [of h rnd failed s] by (simp add: cid_def)
  have w: "server (world s') = Some (remove_connection (inner (conn s)) sv)"
    "alive_conns (world s') = filter (\<lambda>i. i \<noteq> cid s) (alive_conns (world s))"
    "authed_conns (world s') = filter (\<lambda>c. ac_conn_id c \<noteq> cid s) (authed_conns (world s))"
    "privacy_mode (world s') = privacy_mode (world ?e)"
    "control_permissions (conn s) \<noteq> None \<Longrightarrow>
       control_permissions_array (world s') = filter (\<lambda>(i, _). i \<noteq> cid s) (control_permissions_array (world s))"
    "closed (conn s')"
    using assms(1,3) end_loop_conn [of h rnd failed s] end_loop_world [of h rnd failed s] c
    by (auto simp: assms(5) conn_drop_def connection_id_drop_def control_permissions_id_drop_def authed_drop_world)
  have "hm_get (connections (remove_connection (inner (conn s)) sv)) (cid s) = None"
    by (simp add: remove_connection_def hm_get_remove cid_def)
  moreover have "get_privacy_mode_conn_id (privacy_mode (world s')) \<noteq> Some (cid s)"
    if "snd (turn_off_privacy (priv_env h) (cid s) (privacy_mode (world s))) = Some (Ok ())"
    using privacy_off_owner [OF assms(4) that] w(4) end_loop_world(5) [of h rnd failed s] by simp
  ultimately show ?thesis
    using w subs_remove_connection [OF assms(2), of "inner (conn s)"] server_inv_remove_connection [OF assms(2)]
    by (simp add: cid_def)
qed

text \<open>A connection subscribed to the clipboard service goes.\<close>

theorem ended_connection_leaves_nothing_witness:
  "\<exists>s sv'. cid s = 1 \<and> server (world (conn_drop demo_host (end_loop demo_host [] False s))) = Some sv'
     \<and> subs sv' = subs (add_connection 0 demo_inner [] (server_new 7 False True)) - UNIV \<times> {1}"
proof -
  let ?sv = "add_connection 0 demo_inner [] (server_new 7 False True)"
  let ?s = "\<lparr>conn = (connection_new demo_host demo_inner None [] [] (store demo_world))\<lparr>authed_conn_id := Some AuthRemote\<rparr>,
       world = demo_world\<lparr>server := Some ?sv\<rparr>, outs = []\<rparr>"
  have c: "cid ?s = 1"
    by (simp add: cid_def connection_new_def demo_inner_def)
  have "server (world ?s) = Some ?sv" "authed_conn_id (conn ?s) \<noteq> None" "server_inv ?sv"
    by (simp_all add: server_inv_add_connection server_inv_new)
  from ended_connection_leaves_nothing [OF this(1,3,2), of "conn_drop demo_host (end_loop demo_host [] False ?s)" demo_host "[]" False] c
  show ?thesis by (intro exI [of _ ?s]) auto
qed

end
