(* ===== verification/Connection_Isolation.thy ===== *)
theory Connection_Isolation
  imports Connection_Safety
begin

text \<open>
  Connections and the server object.  The events of one connection keep the server well formed and
  change no subscription of another connection.  \<open>local_to\<close> is that relation between servers,
  \<open>own\<close> its lift to the state of a connection; the lemmas go through the handlers.
\<close>

section \<open>Operations of the server\<close>

definition local_to :: "ConnInner \<Rightarrow> Server \<Rightarrow> Server \<Rightarrow> bool" where
  "local_to c sv sv' \<longleftrightarrow> (server_inv sv \<longrightarrow> server_inv sv' \<and> (\<forall>n i. i \<noteq> conn_id c \<longrightarrow> ((n, i) \<in> subs sv' \<longleftrightarrow> (n, i) \<in> subs sv)))"

lemma local_to_refl [simp]: "local_to c sv sv"
  by (simp add: local_to_def)

lemma local_to_trans: "local_to c sv sv1 \<Longrightarrow> local_to c sv1 sv2 \<Longrightarrow> local_to c sv sv2"
  by (simp add: local_to_def)

lemma local_to_subscribe: "local_to c sv (subscribe n c b sv)"
  by (auto simp: local_to_def server_inv_subscribe subs_subscribe)

lemma local_to_add_service:
  assumes "\<not> server_contains (ServiceInner.name s) sv" "service_inv s" "\<And>i. \<not> is_subed s i"
  shows "local_to c sv (add_service s sv)"
proof -
  have "(n, i) \<in> subs (add_service s sv) \<longleftrightarrow> (n, i) \<in> subs sv" for n i
    using assms(1,3) by (auto simp: subs_def svc.rel_def add_service_def server_contains_def hm_get_insert split: if_splits)
  then show ?thesis
    using assms(2) by (simp add: local_to_def server_inv_add_service)
qed

lemma video_service_fresh [simp]:
  "service_inv (video_service_new src d)" "\<not> is_subed (video_service_new src d) i" "ServiceInner.name (video_service_new src d) = get_service_name src d"
  by (simp_all add: video_service_new_def service_inv_def service_new_def is_subed_def)

lemma local_to_video_services:
  "local_to c sv (ensure_video_service src d sv)" "local_to c sv (try_add_primay_video_service d sv)"
  "local_to c sv (try_add_primary_camera_service b sv)"
  by (simp_all add: ensure_video_service_def try_add_primay_video_service_def try_add_primary_camera_service_def local_to_add_service)

lemma local_to_add_connection: "local_to c sv (add_connection p c np sv)"
proof (unfold local_to_def, intro impI conjI)
  assume inv: "server_inv sv"
  then show "server_inv (add_connection p c np sv)"
    by (rule server_inv_add_connection)
  have svs: "svc.invs (services sv)"
    using inv by (simp add: server_inv_def)
  show "\<forall>n i. i \<noteq> conn_id c \<longrightarrow> ((n, i) \<in> subs (add_connection p c np sv) \<longleftrightarrow> (n, i) \<in> subs sv)"
    unfolding subs_def add_connection_services [OF inv] svc.rel_sub_where [OF svs] by auto
qed

lemma local_to_add_camera: "local_to c sv (add_camera_connection b c sv)"
proof (unfold local_to_def, intro impI conjI)
  assume inv: "server_inv sv"
  let ?n = "get_service_name Camera PRIMARY_CAMERA_IDX"
  let ?sv = "sv\<lparr>services := hm_modify ?n (on_subscribe c) (services sv)\<rparr>"
  have inv': "server_inv ?sv"
    using inv by (intro server_inv_modify) (simp_all add: service_inv_subscribe)
  show "server_inv (add_camera_connection b c sv)"
    using inv inv' by (auto simp: add_camera_connection_def server_inv_def keyed_insert Let_def)
  have svs: "svc.invs (services sv)"
    using inv by (simp add: server_inv_def)
  have "(n, i) \<in> svc.rel (hm_modify ?n (on_subscribe c) (services sv)) \<longleftrightarrow> (n, i) \<in> svc.rel (services sv)" if "i \<noteq> conn_id c" for n i
  proof (cases "hm_get (services sv) ?n")
    case None
    then show ?thesis by (auto simp: svc.rel_def hm_get_modify)
  next
    case (Some s)
    then show ?thesis using svc.rel_sub [OF svs Some, of c] that by auto
  qed
  then show "\<forall>n i. i \<noteq> conn_id c \<longrightarrow> ((n, i) \<in> subs (add_camera_connection b c sv) \<longleftrightarrow> (n, i) \<in> subs sv)"
    by (simp add: add_camera_connection_def subs_def)
qed

lemma local_to_set_opt: "local_to c sv (set_video_service_opt d opt v sv)"
proof -
  define f where "f k s = (if (case d of Some (source, d) \<Rightarrow> k \<noteq> get_service_name source d | None \<Rightarrow> False) then s
      else if is_video_service_name k then fst (set_option opt v s) else s)" for k s
  have f: "service_inv s \<Longrightarrow> service_inv (f k s)" "is_subed (f k s) i = is_subed s i" "ServiceInner.name (f k s) = ServiceInner.name s" for k s i
    by (simp_all add: f_def set_option_def service_inv_def is_subed_def)
  have sv: "set_video_service_opt d opt v sv = sv\<lparr>services := map (\<lambda>(k, s). (k, f k s)) (services sv)\<rparr>"
    by (simp add: set_video_service_opt_def f_def)
  have "subs (set_video_service_opt d opt v sv) = subs sv"
    by (auto simp: sv subs_def svc.rel_def svc.hm_get_map f(2))
  moreover have "server_inv sv \<Longrightarrow> server_inv (set_video_service_opt d opt v sv)"
    by (auto simp: sv server_inv_def svc.invs_def svc.wf_map_map svc.hm_get_map f)
  ultimately show ?thesis by (simp add: local_to_def)
qed

lemma local_to_capture: "local_to c sv (capture_displays c src ds incl excl sv)"
  using capture_loop_spec [of sv "map fst (services sv)" "map (get_service_name src) ds" c incl excl]
  by (auto simp: local_to_def capture_displays_def)

lemma local_to_fold: "(\<And>x sv. local_to c sv (f x sv)) \<Longrightarrow> local_to c sv (fold f xs sv)"
  by (induction xs arbitrary: sv) (auto intro: local_to_trans)

section \<open>States of a connection\<close>

definition own :: "CS \<Rightarrow> CS \<Rightarrow> bool" where
  "own s t \<longleftrightarrow> inner (conn t) = inner (conn s)
     \<and> (case server (world s) of None \<Rightarrow> server (world t) = None
        | Some sv \<Rightarrow> (\<exists>sv'. server (world t) = Some sv' \<and> local_to (inner (conn s)) sv sv'))"

lemma own_refl [simp]: "own s s"
  by (simp add: own_def split: option.split)

lemma own_trans: "own s t \<Longrightarrow> own t u \<Longrightarrow> own s u"
  by (auto simp: own_def split: option.splits intro: local_to_trans)

lemma own_frame: "inner (conn t') = inner (conn t) \<Longrightarrow> server (world t') = server (world t) \<Longrightarrow> own s t' = own s t"
  by (simp add: own_def split: option.split)

lemma own_emit [simp]: "own s (emit x t) = own s t" "own s (emits xs t) = own s t"
  by (rule own_frame; simp)+

lemma own_upd: "inner (f (conn t)) = inner (conn t) \<Longrightarrow> own s (upd_conn f t) = own s t"
  "server (g (world t)) = server (world t) \<Longrightarrow> own s (upd_world g t) = own s t"
  by (rule own_frame; simp)+

lemma own_with_server:
  assumes "own s t" and "\<And>sv. local_to (inner (conn t)) sv (f sv)"
  shows "own s (with_server f t)"
  using assms by (auto simp: own_def with_server_def split: option.splits intro: local_to_trans)

lemma own_sub [simp]: "own s t \<Longrightarrow> own s (sub_service n b t)"
  by (simp add: sub_service_def own_with_server local_to_subscribe)

lemma own_when_set: "own s t \<Longrightarrow> (\<And>b t. own s t \<Longrightarrow> own s (f b t)) \<Longrightarrow> own s (when_set q f t)"
  by (simp add: when_set_def split: option.split BoolOption.split)

lemma own_subs [simp]:
  assumes "own s t"
  shows "own s (sub_clipboard t)" "own s (sub_file_clipboard t)" "own s (sub_audio t)" "own s (try_sub_camera_displays h t)"
    "own s (try_sub_monitor_services h t)" "own s (update_auto_disconnect_timer h t)"
proof -
  show "own s (sub_clipboard t)" "own s (sub_file_clipboard t)" "own s (sub_audio t)" "own s (update_auto_disconnect_timer h t)"
    using assms by (simp_all add: sub_clipboard_def sub_file_clipboard_def sub_audio_def update_auto_disconnect_timer_def own_upd)
  show "own s (try_sub_camera_displays h t)"
    using assms unfolding try_sub_camera_displays_def
    by (rule own_with_server) (rule local_to_trans [OF local_to_video_services(3) local_to_add_camera])
  have "local_to c sv (add_connection p c np (try_add_primay_video_service p sv))" for c p np sv
    by (rule local_to_trans [OF local_to_video_services(2) local_to_add_connection])
  then show "own s (try_sub_monitor_services h t)"
    using assms by (auto simp: try_sub_monitor_services_def own_upd Let_def intro!: own_with_server split: option.split)
qed

lemma own_privacy [simp]:
  assumes "own s t"
  shows "own s (turn_on_privacy h key t)" "own s (turn_off_privacy_conn h key t)"
  using assms by (simp_all add: turn_on_privacy_def turn_off_privacy_conn_def own_upd Let_def split: prod.split)

section \<open>Handlers\<close>

lemma own_update_options [simp]:
  assumes "own s t"
  shows "own s (update_options h om t)"
proof -
  have "own s (opt_quality h om t)" "own s (opt_fps om t)" "own s (opt_decoding om t)" "own s (opt_cursor om t)"
    "own s (opt_follow om t)" "own s (opt_audio om t)" "own s (opt_file_transfer om t)" "own s (opt_clipboard om t)"
    "own s (opt_keyboard om t)" "own s (opt_privacy h om t)" "own s (opt_block_input om t)" "own s (opt_terminal om t)"
    "own s (opt_my_cursor h om t)" if "own s t" for t
    using that
    by (simp_all add: opt_quality_def opt_fps_def opt_decoding_def opt_cursor_def opt_follow_def opt_audio_def
        opt_file_transfer_def opt_clipboard_def opt_keyboard_def opt_privacy_def opt_block_input_def opt_terminal_def
        opt_my_cursor_def own_when_set own_upd Let_def split: option.split BoolOption.split)
  then show ?thesis
    using assms by (simp add: update_options_def own_when_set own_upd)
qed

lemma server_sessions [simp]:
  "server (update_or_insert_session tm k p t w) = server w" "server (set_session_2fa tm k w) = server w"
  "server (check_remove_session i k w) = server w" "server (expire_sessions tm w) = server w"
  by (simp_all add: update_or_insert_session_def set_session_2fa_def check_remove_session_def expire_sessions_def Let_def
      split: option.split)

lemma own_logon_helpers [simp]:
  assumes "own s t"
  shows "own s (send_login_error e t)" "own s (try_start_cm i nm b t)" "own s (try_start_cm_ipc t)" "own s (wait_desktop_cm_ready h t)"
    "own s (fst (is_recent_session h b t))" "own s (become_authorized h t)" "own s (fst (logon_prepare h t))"
    "own s (take_login_options h t)" "own s (logon_start h b t)" "own s (fst (check_failure_conn h b t))"
    "own s (update_failure_conn f r b t)" "own s (fst (validate_password h t))"
  using assms
  by (simp_all add: send_login_error_def try_start_cm_def try_start_cm_ipc_def wait_desktop_cm_ready_def is_recent_session_def
      become_authorized_def authed_conn_id_new_def check_wake_lock_def logon_prepare_def update_codec_on_login_def
      on_remote_authorized_def take_login_options_def logon_start_def read_dir_req_def init_terminal_service_def
      check_failure_conn_def update_failure_conn_def validate_password_def own_upd Let_def split: option.split prod.split)

lemma own_logon [simp]:
  assumes "own s t"
  shows "own s (send_logon_response h t)"
proof -
  define r where "r = (if require_2fa (conn t) \<noteq> None then is_recent_session h True t else (t, False))"
  have "own s (fst r)"
    using assms by (simp add: r_def)
  then show ?thesis
    using assms unfolding send_logon_response_def r_def [symmetric] Let_def case_prod_unfold by simp
qed

lemma own_login_ok [simp]: "own s t \<Longrightarrow> own s (login_ok h req err t)"
  by (simp add: login_ok_def Let_def)

lemma own_login_password [simp]:
  assumes "own s t"
  shows "own s (login_password h req err t)"
proof -
  obtain s1 f ok where cf: "check_failure_conn h False t = (s1, f, ok)" by (metis prod_cases3)
  then have s1: "own s s1"
    using own_logon_helpers(10) [OF assms, of h False] by simp
  obtain s2 ok2 where vp: "validate_password h s1 = (s2, ok2)" by (metis surj_pair)
  then have "own s s2"
    using own_logon_helpers(12) [OF s1, of h] by simp
  then show ?thesis
    using s1 by (simp add: login_password_def cf vp Let_def split: bool.split)
qed

lemma own_login_check [simp]:
  assumes "own s t"
  shows "own s (fst (login_check h req err t))"
proof -
  obtain s1 r where rs: "is_recent_session h False t = (s1, r)" by (metis surj_pair)
  then have "own s s1"
    using own_logon_helpers(5) [OF assms, of h False] by simp
  then show ?thesis
    using assms by (simp add: login_check_def rs Let_def split: bool.split)
qed

lemma own_login_request [simp]:
  "own s t \<Longrightarrow> own s (handle_login_request_without_validation h req t)" "own s t \<Longrightarrow> own s (fst (login_kind h req t))"
  by (simp_all add: handle_login_request_without_validation_def login_kind_def refuse_def login_terminal_def
      login_port_forward_def own_upd case_prod_unfold Let_def split: LoginUnion.split)

lemma own_on_login [simp]:
  assumes "own s t"
  shows "own s (fst (on_login h req t))"
proof -
  define s1 where "s1 = handle_login_request_without_validation h req t"
  have s1: "own s s1"
    using assms by (simp add: s1_def)
  obtain s2 k where lk: "login_kind h req s1 = (s2, k)" by (metis surj_pair)
  then have "own s s2"
    using own_login_request(2) [OF s1, of h req] by simp
  then show ?thesis
    using s1 by (simp add: on_login_def s1_def [symmetric] lk Let_def split: option.split)
qed

lemma own_auth_2fa [simp]:
  assumes "own s t"
  shows "own s (on_auth_2fa h code hw t)"
proof -
  obtain s1 f ok where cf: "check_failure_conn h True t = (s1, f, ok)" by (metis prod_cases3)
  then have "own s s1"
    using own_logon_helpers(10) [OF assms, of h True] by simp
  then show ?thesis
    by (simp add: on_auth_2fa_def cf own_upd Let_def split: bool.split option.split)
qed

lemma own_switch_sides [simp]: "own s t \<Longrightarrow> own s (on_switch_sides h ro bs t)"
  by (simp add: on_switch_sides_def own_upd Let_def split: option.split)

lemma own_close [simp]:
  assumes "own s t"
  shows "own s (on_close b t)" "own s (remove_session t)" "own s (send_close_reason_no_retry r t)" "own s (touch_session h t)"
    "own s (on_test_delay h b n t)"
  using assms
  by (simp_all add: on_close_def remove_session_def send_close_reason_no_retry_def touch_session_def on_test_delay_def own_upd
      Let_def split: option.split)

lemma own_input [simp]:
  assumes "own s t"
  shows "own s (on_mouse h me t)" "own s (on_pointer h p t)" "own s (on_key h ke t)" "own s (on_clipboard cbs t)"
    "own s (on_cliprdr h clip t)" "own s (handle_terminal_action h a t)"
  using assms
  by (simp_all add: on_mouse_def on_pointer_def on_key_def on_clipboard_def on_cliprdr_def handle_terminal_action_def
      track_modifier_def own_upd Let_def split: option.split)

lemma own_displays [simp]:
  assumes "own s t"
  shows "own s (refresh_video_display d t)" "own s (handle_switch_display h i wd hg t)" "own s (display_changed_msg h n t)"
    "own s (change_resolution h d wd hg t)" "own s (conn_capture_displays add sub st t)"
proof -
  show "own s (refresh_video_display d t)"
    using assms by (simp add: refresh_video_display_def own_with_server local_to_set_opt)
  have changed: "own s (display_changed_msg h n t)" if "own s t" for n t
    using that by (simp add: display_changed_msg_def)
  have res: "own s (change_resolution h d wd hg t)" if "own s t" for d t
    using that by (simp add: change_resolution_def Let_def)
  show "own s (display_changed_msg h n t)" "own s (change_resolution h d wd hg t)"
    using assms by (simp_all add: changed res)
  have "own s (switch_display_to h n t)" for n
    using assms by (simp add: switch_display_to_def own_upd own_with_server local_to_video_services(1) Let_def)
  then show "own s (handle_switch_display h i wd hg t)"
    using assms by (simp add: handle_switch_display_def changed res Let_def split: option.split)
  show "own s (conn_capture_displays add sub st t)"
  proof (cases "server (world t)")
    case (Some sv)
    let ?c = "inner (conn t)" and ?src = "video_source (conn t)"
    define sv1 where "sv1 = fold (ensure_video_service ?src) (add @ st) sv"
    define sv2 where "sv2 = (if add \<noteq> [] then capture_displays ?c ?src add True False sv1
        else if sub \<noteq> [] then capture_displays ?c ?src sub False True sv1 else capture_displays ?c ?src st True True sv1)"
    define multi where "multi = (1 < get_subbed_displays_count (cid t) sv2)"
    define sv3 where "sv3 = (if follow_remote_window (conn t) then subscribe NAME_WINDOW_FOCUS ?c (\<not> multi) sv2 else sv2)"
    have 1: "local_to ?c sv sv1"
      unfolding sv1_def by (rule local_to_fold) (rule local_to_video_services(1))
    have 2: "local_to ?c sv1 sv2"
      by (simp add: sv2_def local_to_capture)
    have 3: "local_to ?c sv2 sv3"
      by (simp add: sv3_def local_to_subscribe)
    have run: "conn_capture_displays add sub st t =
        upd_conn (\<lambda>c. c\<lparr>multi_ui_session := multi\<rparr>) (upd_world (\<lambda>w. w\<lparr>server := Some sv3\<rparr>) t)"
      by (simp add: conn_capture_displays_def Some sv1_def sv2_def sv3_def multi_def Let_def)
    have "own t (conn_capture_displays add sub st t)"
      using local_to_trans [OF local_to_trans [OF 1 2] 3] by (simp add: run own_def Some)
    then show ?thesis
      by (rule own_trans [OF assms])
  qed (simp add: conn_capture_displays_def assms)
qed

lemma own_calls [simp]:
  assumes "own s t"
  shows "own s (handle_voice_call b t)" "own s (close_voice_call t)" "own s (on_voice_call_request h b ts t)"
  using assms
  by (simp_all add: handle_voice_call_def close_voice_call_def on_voice_call_request_def own_upd Let_def split: option.split)

lemma own_misc [simp]:
  assumes "own s t"
  shows "own s (fst (on_misc h m t))"
  using assms by (cases m) (simp_all add: on_misc_def toggle_privacy_mode_def own_upd split: option.split)

lemma own_file_jobs [simp]:
  assumes "own s t"
  shows "own s (send_fs r t)" "own s (read_dir_req dir hid t)" "own s (all_files_action h i path hid t)"
    "own s (create_and_start_read_job h i ty ds n hid od path cl t)" "own s (cancel_action i t)"
    "own s (on_file_response fr t)"
  using assms
  by (simp_all add: send_fs_def read_dir_req_def all_files_action_def create_and_start_read_job_def process_new_read_job_def
      cancel_action_def on_file_response_def own_upd Let_def split: option.split prod.split outcome.split FileResponse.split)

lemma own_send_action [simp]: "own s t \<Longrightarrow> own s (send_action h i path n hid ty t)"
  by (simp add: send_action_def own_upd case_prod_unfold Let_def split: JobType.split option.split)

lemma own_file_action:
  assumes "own s t" "on_file_action h fa t = Some u"
  shows "own s u"
proof -
  have cf: "own s v" if "confirm_action h r t = Some v" for r v
    using that assms(1) by (auto simp: confirm_action_def own_upd split: if_splits)
  have "own s v" if "do_file_action h fa t = Some v" for v
    using that assms(1) by (cases fa) (auto simp: do_file_action_def own_upd intro: cf)
  then show ?thesis
    using assms by (auto simp: on_file_action_def own_upd split: if_splits FileAction.splits)
qed

lemma own_authorized:
  assumes "own s t" "on_authorized h m t = Some (u, go)"
  shows "own s u"
proof (cases m)
  case (FileActionMsg fa)
  then show ?thesis
    using assms own_file_action [of s t h fa] by (auto simp: on_authorized_def)
next
  case (MiscMsg misc)
  then show ?thesis
    using assms own_misc [of s t h misc] by (simp add: on_authorized_def)
qed (use assms in \<open>auto simp: on_authorized_def split: if_splits\<close>)

lemma own_message:
  assumes "own s t" "on_message h m t = Some (u, go)"
  shows "own s u"
proof -
  consider (login) req where "m = LoginMsg req" | (misc) r where "m = MiscMsg (MCloseReason r)"
    | (factor) code hw where "m = Auth2fa code hw" | (delay) b n where "m = TestDelay b n"
    | (switch) ro bs where "m = SwitchSidesResponse ro bs"
    | (other) "on_message h m t = (if authorized (conn t) \<and> \<not> port_forward_socket (conn t) then on_authorized h m t else Some (t, True))"
  proof (cases m)
    case (MiscMsg misc)
    then show ?thesis
      using misc other by (cases misc) (simp_all add: on_message_def)
  qed (use login factor delay switch other in \<open>simp_all add: on_message_def\<close>)
  then show ?thesis
  proof cases
    case login
    then show ?thesis
      using assms own_on_login [OF assms(1), of h req] by (simp add: on_message_def)
  next
    case other
    then show ?thesis
      using assms own_authorized [of s t h m u go] by (auto split: if_splits)
  qed (use assms in \<open>auto simp: on_message_def\<close>)
qed

lemma own_cm [simp]:
  assumes "own s t"
  shows "own s (fst (on_cm h m t))"
proof -
  have "own s (switch_permission nm b t)" for nm b
    using assms by (simp add: switch_permission_def switch_keyboard_def switch_audio_def switch_file_perm_def
        send_permission_def own_upd Let_def)
  moreover have "own s (from_files f t)" for f
    using assms by (simp add: from_files_def handle_read_job_init_result_def handle_file_read_error_def handle_file_block_from_cm_def
        handle_file_read_done_def handle_file_digest_from_cm_def handle_all_files_result_def forget_job_def own_upd
        split: CmOut.split outcome.split)
  ultimately show ?thesis
    using assms by (cases m) (simp_all add: on_cm_def own_upd Let_def)
qed

lemma own_timers [simp]:
  assumes "own s t"
  shows "own s (fst (on_second_timer h t))" "own s (fst (on_delay_timer h lst t))" "own s (fst (on_video b v net t))"
    "own s (on_clip k n t)" "own s (fst (on_service sm lat scr net t))"
  using assms
  by (simp_all add: on_second_timer_def on_delay_timer_def on_video_def deliver_def on_clip_def handle_file_clip_def on_service_def
      handle_cursor_switch_display_def own_upd case_prod_unfold Let_def split: option.split ServiceMsg.split)

lemma own_file_timer:
  assumes "own s t" "on_file_timer h l sched net t = Some (u, go)"
  shows "own s u"
  using assms
  by (auto simp: on_file_timer_def own_upd Let_def split: if_splits prod.splits outcome.splits JobLog.splits)

lemma own_step:
  assumes "conn_step h e (t, t0) = Some ((u, t1), go)"
  shows "own t u"
proof (cases e)
  case (EvPeer m)
  then obtain go' where "on_message h m (touch_session h t) = Some (u, go')"
    using assms by (auto simp: conn_step_def on_peer_def split: option.splits bool.splits)
  then show ?thesis
    using own_message [of t "touch_session h t"] by simp
next
  case (EvFileTimer l sched net)
  then show ?thesis
    using assms own_file_timer [of t t] by (auto simp: conn_step_def)
qed (use assms in \<open>auto simp: conn_step_def case_prod_unfold split: if_splits\<close>)

section \<open>Isolation\<close>

text \<open>C7: Connections are isolated from each other on the server.  An event of a connection, whatever its
  peer sends, keeps the server well formed, lets the connection keep its identity, and changes no
  subscription of another connection to any service.\<close>

theorem connections_isolated:
  assumes "conn_step h e (s, t0) = Some ((s', t1), go)" "server (world s) = Some sv" "server_inv sv"
  shows "cid s' = cid s \<and> (\<exists>sv'. server (world s') = Some sv' \<and> server_inv sv'
    \<and> (\<forall>n i. i \<noteq> cid s \<longrightarrow> ((n, i) \<in> subs sv' \<longleftrightarrow> (n, i) \<in> subs sv)))"
  using own_step [OF assms(1)] assms(2,3) by (auto simp: own_def local_to_def cid_def)

text \<open>A second connection that disables its audio does not touch the first one's subscriptions.\<close>

theorem connections_isolated_witness:
  "\<exists>s s' sv'. cid s = 1 \<and> server (world s) = Some (add_connection 0 (demo_inner\<lparr>conn_id := 2\<rparr>) [] (server_new 7 False True))
     \<and> conn_step demo_host (EvCm (SwitchPermission ''audio'' False)) (s, 0) = Some ((s', 0), True)
     \<and> server (world s') = Some sv' \<and> server_inv sv' \<and> (AUDIO_NAME, 2) \<in> subs sv'"
proof -
  let ?sv = "add_connection 0 (demo_inner\<lparr>conn_id := 2\<rparr>) [] (server_new 7 False True)"
  let ?s = "\<lparr>conn = (connection_new demo_host demo_inner None [] [] (store demo_world))\<lparr>authorized := True\<rparr>,
       world = demo_world\<lparr>server := Some ?sv\<rparr>, outs = []\<rparr>"
  let ?u = "fst (on_cm demo_host (SwitchPermission ''audio'' False) ?s)"
  have inv: "server_inv ?sv"
    by (simp add: server_inv_add_connection server_inv_new)
  have c: "cid ?s = 1"
    by (simp add: cid_def connection_new_def demo_inner_def)
  have run: "conn_step demo_host (EvCm (SwitchPermission ''audio'' False)) (?s, 0) = Some ((?u, 0), True)"
    by (simp add: conn_step_def on_cm_def)
  have sv: "server (world ?s) = Some ?sv"
    by simp
  have base: "server_inv (server_new 7 False True)" "svc.invs (services (server_new 7 False True))"
    "hm_get (services (server_new 7 False True)) AUDIO_NAME \<noteq> None" "\<not> is_video_service_name AUDIO_NAME"
    using server_inv_new [of 7 False True]
    by (simp_all only: server_inv_def) (simp_all add: server_inv_def server_new_def Let_def add_service_def hm_get_insert AUDIO_NAME_def is_video_service_name_def starts_with_def)
  have "(AUDIO_NAME, 2) \<in> subs ?sv"
    unfolding subs_def add_connection_services [OF base(1)] svc.rel_sub_where [OF base(2)] using base(3,4) by auto
  with connections_isolated [OF run sv inv] c show ?thesis
    by (intro exI [of _ ?s] exI [of _ ?u]) (auto simp: run sv)
qed

end
