(* ===== verification/Peer_Config.thy ===== *)
theory Peer_Config
  imports Config_Store
begin

text \<open>
  What the controlling side remembers of a peer: \<open>PeerConfig\<close> of \<open>src/libs/hbb_common/src/config.rs\<close>,
  one file per peer with the password and the secrets among the options encrypted, and the local options
  of the user interface (\<open>LocalConfig\<close>).  Reading a file applies the field deserialisers.  The display
  defaults of the user (\<open>PeerConfig::default\<close>) and the base64 library are in the record \<open>PeerEnv\<close>.
\<close>

section \<open>Data\<close>

record PeerInfoSerde =
  pi_username :: string
  pi_hostname :: string
  pi_platform :: string

record TransferSerde =
  write_jobs :: "string list"
  read_jobs :: "string list"

type_synonym Size = "int \<times> int \<times> int \<times> int"

record PeerConfig =
  pc_password :: string
  pc_size :: Size
  size_ft :: Size
  size_pf :: Size
  view_style :: string
  scroll_style :: string
  edge_scroll_edge_thickness :: int
  image_quality :: string
  custom_image_quality :: "int list"
  pc_show_remote_cursor :: bool
  pc_lock_after_session_end :: bool
  pc_terminal_persistent :: bool
  pc_privacy_mode :: bool
  allow_swap_key :: bool
  port_forwards :: "(int \<times> string \<times> int) list"
  direct_failures :: int
  pc_disable_audio :: bool
  pc_disable_clipboard :: bool
  enable_file_copy_paste :: bool
  show_quality_monitor :: bool
  pc_follow_remote_cursor :: bool
  pc_follow_remote_window :: bool
  keyboard_mode :: string
  view_only :: bool
  pc_show_my_cursor :: bool
  sync_init_clipboard :: bool
  reverse_mouse_wheel :: string
  displays_as_individual_windows :: string
  use_all_my_displays_for_the_remote_session :: string
  trackpad_speed :: int
  custom_resolutions :: "(string, int \<times> int) hashmap"
  pc_options :: "(string, string) hashmap"
  ui_flutter :: "(string, string) hashmap"
  pc_info :: PeerInfoSerde
  pc_transfer :: TransferSerde

record PeerEnv =
  pe_crypto :: Crypto
  pe_default :: PeerConfig
  pe_b64 :: "string \<Rightarrow> string"

type_synonym PeerDisk = "(string, PeerConfig) hashmap"

section \<open>Reading and writing\<close>

definition nonempty_or :: "string \<Rightarrow> string \<Rightarrow> string" where
  "nonempty_or d s = (if s = [] then d else s)"

definition deserialize_custom_image_quality :: "PeerEnv \<Rightarrow> int list \<Rightarrow> int list" where
  "deserialize_custom_image_quality e v =
    (case v of [q] \<Rightarrow> if 10 \<le> q \<and> q \<le> 0xFFF then v else custom_image_quality (pe_default e)
     | _ \<Rightarrow> custom_image_quality (pe_default e))"

definition deserialize_trackpad_speed :: "PeerEnv \<Rightarrow> int \<Rightarrow> int" where
  "deserialize_trackpad_speed e v = (if 10 \<le> v \<and> v \<le> 1000 then v else trackpad_speed (pe_default e))"

definition deserialize_edge_scroll_edge_thickness :: "PeerEnv \<Rightarrow> int \<Rightarrow> int" where
  "deserialize_edge_scroll_edge_thickness e v =
    (if 20 \<le> v \<and> v \<le> 150 then v else edge_scroll_edge_thickness (pe_default e))"

definition deserialized :: "PeerEnv \<Rightarrow> PeerConfig \<Rightarrow> PeerConfig" where
  "deserialized e c = c\<lparr>
     view_style := nonempty_or (view_style (pe_default e)) (view_style c),
     scroll_style := nonempty_or (scroll_style (pe_default e)) (scroll_style c),
     edge_scroll_edge_thickness := deserialize_edge_scroll_edge_thickness e (edge_scroll_edge_thickness c),
     image_quality := nonempty_or (image_quality (pe_default e)) (image_quality c),
     custom_image_quality := deserialize_custom_image_quality e (custom_image_quality c),
     reverse_mouse_wheel := nonempty_or (reverse_mouse_wheel (pe_default e)) (reverse_mouse_wheel c),
     displays_as_individual_windows :=
       nonempty_or (displays_as_individual_windows (pe_default e)) (displays_as_individual_windows c),
     use_all_my_displays_for_the_remote_session :=
       nonempty_or (use_all_my_displays_for_the_remote_session (pe_default e)) (use_all_my_displays_for_the_remote_session c),
     trackpad_speed := deserialize_trackpad_speed e (trackpad_speed c)\<rparr>"

text \<open>Ids with characters a file name cannot have are encoded.\<close>

definition peer_path :: "PeerEnv \<Rightarrow> string \<Rightarrow> string" where
  "peer_path e i =
    (if list_ex (\<lambda>c. c \<in> set ''<>:/|?*'' \<or> char_code c = 92) i then ''base64_'' @ pe_b64 e i else i)"

definition SECRET_OPTIONS :: "string list" where
  "SECRET_OPTIONS = [''rdp_password'', ''os-username'', ''os-password'']"

definition peer_encrypted :: "Crypto \<Rightarrow> PeerConfig \<Rightarrow> PeerConfig" where
  "peer_encrypted cr c = c\<lparr>
     pc_password := encrypt_vec_or_original cr (pc_password c) PASSWORD_ENC_VERSION ENCRYPT_MAX_LEN,
     pc_options := fold (\<lambda>k. hm_modify k (\<lambda>v. encrypt_str_or_original cr v PASSWORD_ENC_VERSION ENCRYPT_MAX_LEN))
        SECRET_OPTIONS (pc_options c)\<rparr>"

definition decrypt_option :: "Crypto \<Rightarrow> string \<Rightarrow> (string, string) hashmap \<times> bool \<Rightarrow> (string, string) hashmap \<times> bool" where
  "decrypt_option cr k st = (case hm_get (fst st) k of
     Some v \<Rightarrow> (case decrypt_str_or_original cr v PASSWORD_ENC_VERSION of
        (x, _, store2) \<Rightarrow> (hm_modify k (\<lambda>_. x) (fst st), snd st \<or> store2))
   | None \<Rightarrow> st)"

text \<open>The value read and whether it is stored again.\<close>

definition peer_decrypted :: "Crypto \<Rightarrow> PeerConfig \<Rightarrow> PeerConfig \<times> bool" where
  "peer_decrypted cr c =
    (let (p, _, store1) = decrypt_vec_or_original cr (pc_password c) PASSWORD_ENC_VERSION;
         (os, store2) = fold (decrypt_option cr) SECRET_OPTIONS (pc_options c, store1)
     in (c\<lparr>pc_password := p, pc_options := os\<rparr>, store2))"

definition peer_store :: "PeerEnv \<Rightarrow> string \<Rightarrow> PeerConfig \<Rightarrow> PeerDisk \<Rightarrow> PeerDisk" where
  "peer_store e i c disk = hm_insert (peer_path e i) (peer_encrypted (pe_crypto e) c) disk"

definition peer_load :: "PeerEnv \<Rightarrow> string \<Rightarrow> PeerDisk \<Rightarrow> PeerDisk \<times> PeerConfig" where
  "peer_load e i disk = (case hm_get disk (peer_path e i) of
     None \<Rightarrow> (disk, pe_default e)
   | Some f \<Rightarrow> (case peer_decrypted (pe_crypto e) (deserialized e f) of
        (c, again) \<Rightarrow> (if again then peer_store e i c disk else disk, c)))"

definition peer_remove :: "PeerEnv \<Rightarrow> string \<Rightarrow> PeerDisk \<Rightarrow> PeerDisk" where
  "peer_remove e i disk = hm_remove (peer_path e i) disk"

definition peer_exists :: "PeerEnv \<Rightarrow> string \<Rightarrow> PeerDisk \<Rightarrow> bool" where
  "peer_exists e i disk \<longleftrightarrow> hm_get disk (peer_path e i) \<noteq> None"

section \<open>Lists of peers\<close>

text \<open>\<open>batch_peers\<close>: the peers from \<open>start\<close> on, where the next batch starts, and the files that are left:
  a file without a platform is removed.  Loading one peer may rewrite its file.\<close>

definition BATCH_LOADING_COUNT :: nat where "BATCH_LOADING_COUNT = 100"

fun load_peers :: "PeerEnv \<Rightarrow> string list \<Rightarrow> PeerDisk \<Rightarrow> PeerDisk \<times> (string \<times> PeerConfig) list" where
  "load_peers e [] disk = (disk, [])"
| "load_peers e (i # is) disk = (case peer_load e i disk of
     (disk1, c) \<Rightarrow>
       (let gone = (pi_platform (pc_info c) = []);
            disk2 = (if gone then peer_remove e i disk1 else disk1)
        in case load_peers e is disk2 of (disk3, ps) \<Rightarrow> (disk3, if gone then ps else (i, c) # ps)))"

definition batch_peers :: "PeerEnv \<Rightarrow> string list \<Rightarrow> nat \<Rightarrow> nat option \<Rightarrow> PeerDisk \<Rightarrow> PeerDisk \<times> (string \<times> PeerConfig) list \<times> nat" where
  "batch_peers e all start stop disk =
    (if length all \<le> start then (disk, [], 0)
     else
       let u = (case stop of Some t \<Rightarrow> min t (length all) | None \<Rightarrow> min (start + BATCH_LOADING_COUNT) (length all))
       in if u \<le> start then (disk, [], start)
          else (case load_peers e (take (u - start) (drop start all)) disk of (disk1, ps) \<Rightarrow> (disk1, ps, u)))"

section \<open>Local options\<close>

record LocalConfig =
  remote_id :: string
  kb_layout_type :: string
  lc_size :: Size
  fav :: "string list"
  local_options :: "(string, string) hashmap"
  local_ui_flutter :: "(string, string) hashmap"

text \<open>The value in memory, the file, and the two maps of built-in local settings.\<close>

record LocalStore =
  local_config :: LocalConfig
  local_file :: LocalConfig
  overwrite_local :: "(string, string) hashmap"
  default_local :: "(string, string) hashmap"

definition local_save :: "LocalConfig \<Rightarrow> LocalStore \<Rightarrow> LocalStore" where
  "local_save c st = st\<lparr>local_config := c, local_file := c\<rparr>"

definition set_size :: "int \<Rightarrow> int \<Rightarrow> int \<Rightarrow> int \<Rightarrow> LocalStore \<Rightarrow> LocalStore" where
  "set_size x y w h st =
    (let c = local_config st in
     if (x, y, w, h) = lc_size c \<or> w < 300 \<or> h < 300 then st else local_save (c\<lparr>lc_size := (x, y, w, h)\<rparr>) st)"

definition set_remote_id :: "string \<Rightarrow> LocalStore \<Rightarrow> LocalStore" where
  "set_remote_id i st = (if i = remote_id (local_config st) then st else local_save ((local_config st)\<lparr>remote_id := i\<rparr>) st)"

definition set_fav :: "string list \<Rightarrow> LocalStore \<Rightarrow> LocalStore" where
  "set_fav f st = (if fav (local_config st) = f then st else local_save ((local_config st)\<lparr>fav := f\<rparr>) st)"

definition set_kb_layout_type :: "string \<Rightarrow> LocalStore \<Rightarrow> LocalStore" where
  "set_kb_layout_type k st = local_save ((local_config st)\<lparr>kb_layout_type := k\<rparr>) st"

definition local_get_option :: "LocalStore \<Rightarrow> string \<Rightarrow> string" where
  "local_get_option st k =
     unwrap_or [] (get_or (overwrite_local st) (local_options (local_config st)) (default_local st) k)"

definition local_get_option_from_file :: "LocalStore \<Rightarrow> string \<Rightarrow> string" where
  "local_get_option_from_file st k =
     unwrap_or [] (get_or (overwrite_local st) (local_options (local_file st)) (default_local st) k)"

definition local_set_option :: "string \<Rightarrow> string \<Rightarrow> LocalStore \<Rightarrow> LocalStore" where
  "local_set_option k v st =
    (let c = local_config st; os = local_options c; save = (\<lambda>m. local_save (c\<lparr>local_options := m\<rparr>) st) in
     if \<not> is_option_can_save (overwrite_local st) k (default_local st) v then
       (if hm_get os k \<noteq> None then save (hm_remove k os) else st)
     else if k = ''lang'' \<and> v = ''default'' then save (hm_insert k [] os)
     else
       let v2 = (if v = [] then None else Some v)
       in if v2 \<noteq> hm_get os k then save (if v2 = None then hm_remove k os else hm_insert k v os) else st)"

definition get_flutter_option :: "LocalStore \<Rightarrow> string \<Rightarrow> string" where
  "get_flutter_option st k =
     unwrap_or [] (get_or (overwrite_local st) (local_ui_flutter (local_config st)) (default_local st) k)"

definition set_flutter_option :: "string \<Rightarrow> string \<Rightarrow> LocalStore \<Rightarrow> LocalStore" where
  "set_flutter_option k v st =
    (let c = local_config st; os = local_ui_flutter c; v2 = (if v = [] then None else Some v)
     in if v2 \<noteq> hm_get os k
        then local_save (c\<lparr>local_ui_flutter := (if v2 = None then hm_remove k os else hm_insert k v os)\<rparr>) st else st)"

section \<open>What is stored is read back\<close>

text \<open>A configuration whose secrets can be stored and whose fields the deserialisers accept.\<close>

definition peer_storable :: "PeerEnv \<Rightarrow> PeerConfig \<Rightarrow> bool" where
  "peer_storable e c \<longleftrightarrow> length (pc_password c) \<le> ENCRYPT_MAX_LEN \<and> \<not> is_encrypted (pe_crypto e) (pc_password c)
     \<and> wf_map (pc_options c) \<and> list_all (\<lambda>(k, v). k \<in> set SECRET_OPTIONS \<longrightarrow> storable (pe_crypto e) ENCRYPT_MAX_LEN v) (pc_options c)
     \<and> deserialized e c = c"

lemma stored_vec_readback:
  assumes "crypto_ok cr" and "length s \<le> max_len" and "\<not> is_encrypted cr s"
  shows "decrypt_vec_or_original cr (encrypt_vec_or_original cr s ''00'' max_len) ''00'' = (s, s \<noteq> [], False)"
proof (cases "s = []")
  case True
  then show ?thesis
    by (simp add: encrypt_vec_or_original_def encrypt_def decrypt_vec_or_original_def Let_def)
next
  case False
  then show ?thesis
    using encrypt_vec_new [OF assms(3,2) False] decrypt_vec_encrypted [OF assms(1)] by auto
qed

lemma fold_hm_modify:
  "distinct ks \<Longrightarrow> fold (\<lambda>k. hm_modify k f) ks m = map (\<lambda>(k, v). (k, if k \<in> set ks then f v else v)) m"
proof (induction ks arbitrary: m)
  case (Cons k ks)
  then show ?case
    by (auto simp: hm_modify_def)
qed simp

lemma decrypt_options:
  assumes "wf_map m" and "\<And>k v. (k, v) \<in> set m \<Longrightarrow> k \<in> set ks \<Longrightarrow> decrypt_str_or_original cr v PASSWORD_ENC_VERSION = (g v, ok v, False)"
    and "distinct ks"
  shows "fold (decrypt_option cr) ks (m, st) = (map (\<lambda>(k, v). (k, if k \<in> set ks then g v else v)) m, st)"
  using assms
proof (induction ks arbitrary: m)
  case (Cons k ks)
  have step: "decrypt_option cr k (m, st) = (hm_modify k g m, st)"
  proof (cases "hm_get m k")
    case None
    then have "hm_modify k g m = m"
      by (force simp: hm_modify_def hm_get_None_iff intro!: map_idI split: prod.splits)
    then show ?thesis using None by (simp add: decrypt_option_def)
  next
    case (Some v)
    then have kv: "(k, v) \<in> set m" by (rule hm_get_mem)
    have uniq: "v' = v" if "(k, v') \<in> set m" for v'
      using that Some hm_get_iff [OF Cons.prems(1), of k v'] by simp
    have "hm_modify k (\<lambda>_. g v) m = hm_modify k g m"
      unfolding hm_modify_def by (rule map_cong) (auto dest: uniq)
    then show ?thesis
      using Some Cons.prems(2) [OF kv] by (simp add: decrypt_option_def)
  qed
  have "decrypt_str_or_original cr v PASSWORD_ENC_VERSION = (g v, ok v, False)" if "(k', v) \<in> set (hm_modify k g m)" "k' \<in> set ks" for k' v
    using that Cons.prems(2,3) by (auto simp: set_hm_modify split: if_splits)
  then have "fold (decrypt_option cr) ks (hm_modify k g m, st)
      = (map (\<lambda>(k, v). (k, if k \<in> set ks then g v else v)) (hm_modify k g m), st)"
    using Cons.prems(1,3) by (intro Cons.IH) (simp_all add: wf_map_modify)
  then show ?case
    using Cons.prems(3) by (auto simp: step hm_modify_def)
qed simp

text \<open>The map of options after encryption is as well formed as before, so decrypting undoes it.\<close>

lemma peer_decrypt_encrypted:
  assumes "crypto_ok (pe_crypto e)" and "peer_storable e c"
  shows "peer_decrypted (pe_crypto e) (peer_encrypted (pe_crypto e) c) = (c, False)"
proof -
  let ?cr = "pe_crypto e"
  let ?E = "\<lambda>v. encrypt_str_or_original ?cr v PASSWORD_ENC_VERSION ENCRYPT_MAX_LEN"
  let ?D = "\<lambda>v. fst (decrypt_str_or_original ?cr v PASSWORD_ENC_VERSION)"
  let ?m = "map (\<lambda>(k, v). (k, if k \<in> set SECRET_OPTIONS then ?E v else v)) (pc_options c)"
  have d: "distinct SECRET_OPTIONS"
    by (simp add: SECRET_OPTIONS_def)
  have ED: "decrypt_str_or_original ?cr (?E v) PASSWORD_ENC_VERSION = (v, v \<noteq> [], False)" if "(k, v) \<in> set (pc_options c)" "k \<in> set SECRET_OPTIONS" for k v
    using that assms by (auto simp: peer_storable_def list_all_iff PASSWORD_ENC_VERSION_def intro: stored_str_readback)
  have wf: "wf_map ?m"
    using assms(2) by (simp add: peer_storable_def wf_map_def case_prod_beta' comp_def)
  have "fold (decrypt_option ?cr) SECRET_OPTIONS (?m, b)
      = (map (\<lambda>(k, v). (k, if k \<in> set SECRET_OPTIONS then ?D v else v)) ?m, b)" for b
  proof (rule decrypt_options [OF wf _ d, where ok = "\<lambda>v. fst (snd (decrypt_str_or_original ?cr v PASSWORD_ENC_VERSION))"])
    fix k v
    assume "(k, v) \<in> set ?m" "k \<in> set SECRET_OPTIONS"
    then show "decrypt_str_or_original ?cr v PASSWORD_ENC_VERSION = (?D v, fst (snd (decrypt_str_or_original ?cr v PASSWORD_ENC_VERSION)), False)"
      using ED by auto
  qed
  moreover have "map (\<lambda>(k, v). (k, if k \<in> set SECRET_OPTIONS then ?D v else v)) ?m = pc_options c"
    using ED by (auto intro!: map_idI)
  moreover have "decrypt_vec_or_original ?cr (encrypt_vec_or_original ?cr (pc_password c) PASSWORD_ENC_VERSION ENCRYPT_MAX_LEN) PASSWORD_ENC_VERSION
      = (pc_password c, pc_password c \<noteq> [], False)"
    using assms by (simp add: peer_storable_def PASSWORD_ENC_VERSION_def stored_vec_readback)
  ultimately show ?thesis
    by (simp add: peer_decrypted_def peer_encrypted_def fold_hm_modify [OF d])
qed

lemma deserialized_encrypted: "deserialized e c = c \<Longrightarrow> deserialized e (peer_encrypted cr c) = peer_encrypted cr c"
  by (cases c) (simp add: deserialized_def peer_encrypted_def)

lemma peer_load_store:
  assumes "crypto_ok (pe_crypto e)" and "peer_storable e c"
  shows "peer_load e i (peer_store e i c disk) = (peer_store e i c disk, c)"
  using assms peer_decrypt_encrypted [OF assms] deserialized_encrypted [of e c]
  by (simp add: peer_load_def peer_store_def hm_get_insert peer_storable_def)

end
