(* ===== verification/Client_Config.thy ===== *)
theory Client_Config
  imports Peer_Config Connection_State
begin

text \<open>
  The controlling side's \<open>LoginConfigHandler\<close> of \<open>src/src/client.rs\<close>: the options of a peer, kept in its
  \<open>PeerConfig\<close> in memory and on disk, and the messages that tell the peer of them.  The state of a client
  is the handler, the peer files and what it has sent or shown so far.  Libraries and the operating
  system are in the record \<open>ClientEnv\<close>.
\<close>

section \<open>Data\<close>

datatype ConnType = DEFAULT_CONN | FILE_TRANSFER | PORT_FORWARD | RDP | VIEW_CAMERA | TERMINAL

datatype PasswordSource = PersonalAb string | SharedAb string | Undefined

record ConnToken =
  ct_password :: string
  ct_source :: PasswordSource
  ct_session_id :: u64

text \<open>Of \<open>PeerInfo\<close>, \<open>encoding\<close> is opaque and \<open>features\<close> is the flag for privacy mode.\<close>

record PeerInfo =
  peer_username :: string
  peer_hostname :: string
  peer_platform :: string
  peer_version :: string
  peer_features :: "bool option"
  peer_encoding :: nat

record LoginConfigHandler =
  lh_id :: string
  conn_type :: ConnType
  is_terminal_admin :: bool
  lh_hash :: "string \<times> string"
  lh_password :: string
  remember :: bool
  lh_config :: PeerConfig
  lh_port_forward :: "string \<times> int"
  lh_version :: int
  features :: "bool option"
  lh_session_id :: u64
  supported_encoding :: nat
  restarting_remote_device :: bool
  force_relay :: bool
  direct :: "bool option"
  received :: bool
  switch_uuid :: "string option"
  save_ab_password_to_recent :: bool
  other_server :: "(string \<times> string \<times> string) option"
  custom_fps :: "nat option"
  last_auto_fps :: "nat option"
  adapter_luid :: "int option"
  mark_unsupported :: "CodecFormat list"
  selected_windows_session_id :: "nat option"
  lh_peer_info :: "PeerInfo option"
  password_source :: PasswordSource
  shared_password :: "string option"
  lh_trusted_devices :: bool
  record_state :: bool
  record_permission :: bool

text \<open>The address book: its token, and its entries with their name and the id and hash of their peers.\<close>

record Ab =
  ab_access_token :: string
  ab_entries :: "(string \<times> (string \<times> string) list) list"

record ClientEnv =
  ce_peer :: PeerEnv
  ce_sha256 :: "string \<Rightarrow> string"
  ce_random :: u64
  ce_uuid :: "string \<Rightarrow> string option"
  token_from_json :: "string \<Rightarrow> ConnToken option"
  token_to_json :: "ConnToken \<Rightarrow> string option"
  dirs_from_json :: "string \<Rightarrow> (string, string) hashmap"
  dirs_to_json :: "(string, string) hashmap \<Rightarrow> string"
  user_info_name :: "string \<Rightarrow> string"
  split_whitespace :: "string \<Rightarrow> string list"
  upper_first :: "string \<Rightarrow> string"
  ce_ab :: Ab
  ce_b64_decode :: "string \<Rightarrow> string option"
  decodings :: "string \<Rightarrow> int option \<Rightarrow> CodecFormat list \<Rightarrow> SupportedDecoding"
  use_ws :: bool
  is_proxy :: bool
  using_public_server :: bool
  terminal_admin_env :: bool
  ce_username :: string
  ce_platform :: string
  ce_hwid :: string
  ce_version :: string
  ce_rendezvous :: string
  ce_store :: Store
  ce_local :: LocalStore

datatype ClientOut =
    ToPeer Msg
  | MsgBox string string string string
  | SyncAbPassword string string
  | EmptyClientClip

record Client =
  lch :: LoginConfigHandler
  disk :: PeerDisk
  couts :: "ClientOut list"

definition upd_lch :: "(LoginConfigHandler \<Rightarrow> LoginConfigHandler) \<Rightarrow> Client \<Rightarrow> Client" where
  "upd_lch f s = s\<lparr>lch := f (lch s)\<rparr>"

definition put_out :: "ClientOut \<Rightarrow> Client \<Rightarrow> Client" where
  "put_out x s = s\<lparr>couts := couts s @ [x]\<rparr>"

section \<open>Configuration of the peer\<close>

definition load_config :: "ClientEnv \<Rightarrow> Client \<Rightarrow> Client \<times> PeerConfig" where
  "load_config e s = (case peer_load (ce_peer e) (lh_id (lch s)) (disk s) of (d, c) \<Rightarrow> (s\<lparr>disk := d\<rparr>, c))"

definition save_config :: "ClientEnv \<Rightarrow> PeerConfig \<Rightarrow> Client \<Rightarrow> Client" where
  "save_config e c s =
     s\<lparr>disk := peer_store (ce_peer e) (lh_id (lch s)) c (disk s), lch := (lch s)\<lparr>lh_config := c\<rparr>\<rparr>"

text \<open>The common shape of the setters: load, change, save.\<close>

definition change_config :: "ClientEnv \<Rightarrow> (PeerConfig \<Rightarrow> PeerConfig) \<Rightarrow> Client \<Rightarrow> Client" where
  "change_config e f s = (case load_config e s of (s1, c) \<Rightarrow> save_config e (f c) s1)"

definition handler_option :: "LoginConfigHandler \<Rightarrow> string \<Rightarrow> string" where
  "handler_option l k = (case hm_get (pc_options (lh_config l)) k of Some v \<Rightarrow> v | None \<Rightarrow> [])"

definition handler_set_option :: "ClientEnv \<Rightarrow> string \<Rightarrow> string \<Rightarrow> Client \<Rightarrow> Client" where
  "handler_set_option e k v s = (case load_config e s of
     (s1, c) \<Rightarrow> if v = handler_option (lch s1) k then s1
                else save_config e (c\<lparr>pc_options := hm_insert k v (pc_options c)\<rparr>) s1)"

definition save_view_style :: "ClientEnv \<Rightarrow> string \<Rightarrow> Client \<Rightarrow> Client" where
  "save_view_style e v = change_config e (\<lambda>c. c\<lparr>view_style := v\<rparr>)"

definition save_keyboard_mode :: "ClientEnv \<Rightarrow> string \<Rightarrow> Client \<Rightarrow> Client" where
  "save_keyboard_mode e v = change_config e (\<lambda>c. c\<lparr>keyboard_mode := v\<rparr>)"

definition save_reverse_mouse_wheel :: "ClientEnv \<Rightarrow> string \<Rightarrow> Client \<Rightarrow> Client" where
  "save_reverse_mouse_wheel e v = change_config e (\<lambda>c. c\<lparr>reverse_mouse_wheel := v\<rparr>)"

definition save_displays_as_individual_windows :: "ClientEnv \<Rightarrow> string \<Rightarrow> Client \<Rightarrow> Client" where
  "save_displays_as_individual_windows e v = change_config e (\<lambda>c. c\<lparr>displays_as_individual_windows := v\<rparr>)"

definition save_use_all_my_displays :: "ClientEnv \<Rightarrow> string \<Rightarrow> Client \<Rightarrow> Client" where
  "save_use_all_my_displays e v = change_config e (\<lambda>c. c\<lparr>use_all_my_displays_for_the_remote_session := v\<rparr>)"

definition save_scroll_style :: "ClientEnv \<Rightarrow> string \<Rightarrow> Client \<Rightarrow> Client" where
  "save_scroll_style e v = change_config e (\<lambda>c. c\<lparr>scroll_style := v\<rparr>)"

definition save_edge_scroll_edge_thickness :: "ClientEnv \<Rightarrow> int \<Rightarrow> Client \<Rightarrow> Client" where
  "save_edge_scroll_edge_thickness e v = change_config e (\<lambda>c. c\<lparr>edge_scroll_edge_thickness := v\<rparr>)"

definition save_ui_flutter :: "ClientEnv \<Rightarrow> string \<Rightarrow> string \<Rightarrow> Client \<Rightarrow> Client" where
  "save_ui_flutter e k v = change_config e (\<lambda>c. c\<lparr>ui_flutter :=
     (if v = [] then hm_remove k (ui_flutter c) else hm_insert k v (ui_flutter c))\<rparr>)"

definition set_direct_failure :: "ClientEnv \<Rightarrow> int \<Rightarrow> Client \<Rightarrow> Client" where
  "set_direct_failure e v = change_config e (\<lambda>c. c\<lparr>direct_failures := v\<rparr>)"

definition get_ui_flutter :: "LoginConfigHandler \<Rightarrow> string \<Rightarrow> string" where
  "get_ui_flutter l k = (case hm_get (ui_flutter (lh_config l)) k of Some v \<Rightarrow> v | None \<Rightarrow> [])"

definition save_trackpad_speed :: "ClientEnv \<Rightarrow> int \<Rightarrow> Client \<Rightarrow> Client" where
  "save_trackpad_speed e v = change_config e (\<lambda>c. c\<lparr>trackpad_speed := v\<rparr>)"

definition show_i32 :: "int \<Rightarrow> string" where
  "show_i32 n = (if n < 0 then CHR ''-'' # show_nat (nat (- n)) else show_nat (nat n))"

definition get_custom_resolution :: "LoginConfigHandler \<Rightarrow> int \<Rightarrow> (int \<times> int) option" where
  "get_custom_resolution l d = hm_get (custom_resolutions (lh_config l)) (show_i32 d)"

definition set_custom_resolution :: "ClientEnv \<Rightarrow> int \<Rightarrow> (int \<times> int) option \<Rightarrow> Client \<Rightarrow> Client" where
  "set_custom_resolution e d wh = change_config e (\<lambda>c. c\<lparr>custom_resolutions :=
     (case wh of Some r \<Rightarrow> hm_insert (show_i32 d) r (custom_resolutions c)
      | None \<Rightarrow> hm_remove (show_i32 d) (custom_resolutions c))\<rparr>)"

definition should_auto_login :: "LoginConfigHandler \<Rightarrow> string" where
  "should_auto_login l =
    (let p = handler_option l ''os-password''
     in if p \<noteq> [] \<and> pc_lock_after_session_end (lh_config l) \<and> handler_option l ''auto-login'' \<noteq> [] then p else [])"

section \<open>Options told to the peer\<close>

definition option_message_new :: OptionMessage where
  "option_message_new = \<lparr>om_image_quality = Some 0, om_custom_image_quality = 0, om_custom_fps = 0,
     om_supported_decoding = None, om_lock_after_session_end = Some NotSet, om_show_remote_cursor = Some NotSet,
     om_follow_remote_cursor = Some NotSet, om_follow_remote_window = Some NotSet, om_disable_audio = Some NotSet,
     om_enable_file_transfer = Some NotSet, om_disable_clipboard = Some NotSet, om_disable_keyboard = Some NotSet,
     om_privacy_mode = Some NotSet, om_block_input = Some NotSet, om_terminal_persistent = Some NotSet,
     om_show_my_cursor = Some NotSet\<rparr>"

definition bool_option :: "bool \<Rightarrow> BoolOption option" where
  "bool_option b = Some (if b then Yes else No)"

definition get_toggle_option :: "LoginConfigHandler \<Rightarrow> string \<Rightarrow> bool" where
  "get_toggle_option l nm =
    (let c = lh_config l in
     if nm = ''show-remote-cursor'' then pc_show_remote_cursor c
     else if nm = ''lock-after-session-end'' then pc_lock_after_session_end c
     else if nm = ''terminal-persistent'' then pc_terminal_persistent c
     else if nm = ''privacy-mode'' then pc_privacy_mode c
     else if nm = ''enable-file-copy-paste'' then enable_file_copy_paste c
     else if nm = ''disable-audio'' then pc_disable_audio c
     else if nm = ''disable-clipboard'' then pc_disable_clipboard c
     else if nm = ''show-quality-monitor'' then show_quality_monitor c
     else if nm = ''allow_swap_key'' then allow_swap_key c
     else if nm = ''view-only'' then view_only c
     else if nm = ''show-my-cursor'' then pc_show_my_cursor c
     else if nm = ''follow-remote-cursor'' then pc_follow_remote_cursor c
     else if nm = ''follow-remote-window'' then pc_follow_remote_window c
     else handler_option l nm \<noteq> [])"

text \<open>The changed configuration and the message of \<open>toggle_option\<close>; None when the name is not one of
  the options with a field.  \<open>l\<close> is the handler before the change.\<close>

definition toggle_view_only :: "LoginConfigHandler \<Rightarrow> PeerConfig \<Rightarrow> PeerConfig \<times> OptionMessage" where
  "toggle_view_only l c0 =
    (let c = c0\<lparr>view_only := \<not> view_only c0\<rparr>; m = option_message_new in
     if view_only c then
       (c, m\<lparr>om_disable_keyboard := bool_option True, om_disable_clipboard := bool_option True,
             om_show_remote_cursor := bool_option True, om_enable_file_transfer := bool_option False,
             om_lock_after_session_end := bool_option False\<rparr>)
     else
       let m1 = m\<lparr>om_disable_keyboard := bool_option False,
                  om_disable_clipboard := bool_option (get_toggle_option l ''disable-clipboard''),
                  om_show_remote_cursor := bool_option (get_toggle_option l ''show-remote-cursor''),
                  om_enable_file_transfer := bool_option (enable_file_copy_paste (lh_config l)),
                  om_lock_after_session_end := bool_option (pc_lock_after_session_end (lh_config l))\<rparr>
       in if pc_show_my_cursor c
          then (c\<lparr>pc_show_my_cursor := False\<rparr>, m1\<lparr>om_show_my_cursor := Some No\<rparr>) else (c, m1))"

definition toggled :: "LoginConfigHandler \<Rightarrow> string \<Rightarrow> PeerConfig \<Rightarrow> (PeerConfig \<times> OptionMessage) option" where
  "toggled l nm c =
    (let m = option_message_new in
     if nm = ''show-remote-cursor'' then
       (let b = \<not> pc_show_remote_cursor c in Some (c\<lparr>pc_show_remote_cursor := b\<rparr>, m\<lparr>om_show_remote_cursor := bool_option b\<rparr>))
     else if nm = ''follow-remote-cursor'' then
       (let b = \<not> pc_follow_remote_cursor c in Some (c\<lparr>pc_follow_remote_cursor := b\<rparr>, m\<lparr>om_follow_remote_cursor := bool_option b\<rparr>))
     else if nm = ''follow-remote-window'' then
       (let b = \<not> pc_follow_remote_window c in Some (c\<lparr>pc_follow_remote_window := b\<rparr>, m\<lparr>om_follow_remote_window := bool_option b\<rparr>))
     else if nm = ''disable-audio'' then
       (let b = \<not> pc_disable_audio c in Some (c\<lparr>pc_disable_audio := b\<rparr>, m\<lparr>om_disable_audio := bool_option b\<rparr>))
     else if nm = ''disable-clipboard'' then
       (let b = \<not> pc_disable_clipboard c in Some (c\<lparr>pc_disable_clipboard := b\<rparr>, m\<lparr>om_disable_clipboard := bool_option b\<rparr>))
     else if nm = ''lock-after-session-end'' then
       (let b = \<not> pc_lock_after_session_end c in Some (c\<lparr>pc_lock_after_session_end := b\<rparr>, m\<lparr>om_lock_after_session_end := bool_option b\<rparr>))
     else if nm = ''terminal-persistent'' then
       (let b = \<not> pc_terminal_persistent c in Some (c\<lparr>pc_terminal_persistent := b\<rparr>, m\<lparr>om_terminal_persistent := bool_option b\<rparr>))
     else if nm = ''privacy-mode'' then Some (c, m\<lparr>om_privacy_mode := bool_option (\<not> pc_privacy_mode c)\<rparr>)
     else if nm = ''enable-file-copy-paste'' then
       (let b = \<not> enable_file_copy_paste c in Some (c\<lparr>enable_file_copy_paste := b\<rparr>, m\<lparr>om_enable_file_transfer := bool_option b\<rparr>))
     else if nm = ''block-input'' then Some (c, m\<lparr>om_block_input := Some Yes\<rparr>)
     else if nm = ''unblock-input'' then Some (c, m\<lparr>om_block_input := Some No\<rparr>)
     else if nm = ''show-quality-monitor'' then Some (c\<lparr>show_quality_monitor := \<not> show_quality_monitor c\<rparr>, m)
     else if nm = ''allow_swap_key'' then Some (c\<lparr>allow_swap_key := \<not> allow_swap_key c\<rparr>, m)
     else if nm = ''view-only'' then Some (toggle_view_only l c)
     else if nm = ''show-my-cursor'' then
       (let b = \<not> pc_show_my_cursor c in Some (c\<lparr>pc_show_my_cursor := b\<rparr>, m\<lparr>om_show_my_cursor := bool_option b\<rparr>))
     else None)"

definition toggle_option :: "ClientEnv \<Rightarrow> string \<Rightarrow> Client \<Rightarrow> Client \<times> Msg option" where
  "toggle_option e nm s = (case load_config e s of
     (s1, c) \<Rightarrow> (case toggled (lch s1) nm c of
        None \<Rightarrow>
          (let os = pc_options (lh_config (lch s1));
               is_set = (case hm_get os nm of Some v \<Rightarrow> v \<noteq> [] | None \<Rightarrow> False);
               c1 = (lh_config (lch s1))\<lparr>pc_options := (if is_set then hm_remove nm os else hm_insert nm ''Y'' os)\<rparr>
           in (save_config e c1 s1, None))
      | Some (c1, m) \<Rightarrow>
          (let s2 = (if om_enable_file_transfer m = Some No then put_out EmptyClientClip s1 else s1);
               s3 = (if nm = ''block-input'' \<or> nm = ''unblock-input'' then s2 else save_config e c1 s2)
           in (s3, Some (MiscMsg (MOption m))))))"

definition ImageQuality_Low :: int where "ImageQuality_Low = 2"
definition ImageQuality_Balanced :: int where "ImageQuality_Balanced = 3"
definition ImageQuality_Best :: int where "ImageQuality_Best = 4"

definition get_image_quality_enum :: "string \<Rightarrow> bool \<Rightarrow> int option" where
  "get_image_quality_enum q ignore_default =
    (if q = ''low'' then Some ImageQuality_Low
     else if q = ''best'' then Some ImageQuality_Best
     else if q = ''balanced'' then (if ignore_default then None else Some ImageQuality_Balanced)
     else None)"

definition get_supported_decoding :: "ClientEnv \<Rightarrow> LoginConfigHandler \<Rightarrow> SupportedDecoding" where
  "get_supported_decoding e l = decodings e (lh_id l) (adapter_luid l) (mark_unsupported l)"

definition yes_if :: "bool \<Rightarrow> BoolOption option" where
  "yes_if b = Some (if b then Yes else NotSet)"

text \<open>The quality part of \<open>get_option_message\<close>, with the cell \<open>custom_fps\<close> it writes.\<close>

definition quality_options :: "ClientEnv \<Rightarrow> bool \<Rightarrow> Client \<Rightarrow> Client \<times> OptionMessage" where
  "quality_options e ignore_default s =
    (let m = option_message_new; q = image_quality (lh_config (lch s)) in
     case get_image_quality_enum q ignore_default of
       Some v \<Rightarrow> (s, m\<lparr>om_image_quality := Some v\<rparr>)
     | None \<Rightarrow>
        if q \<noteq> ''custom'' then (s, m)
        else (case load_config e s of (s1, c) \<Rightarrow>
          let allow_more = (\<not> using_public_server e \<or> direct (lch s1) = Some True);
              quality = (case custom_image_quality c of [] \<Rightarrow> 50
                 | x # _ \<Rightarrow> if \<not> allow_more \<and> 100 < x then 50 else x);
              m1 = m\<lparr>om_custom_image_quality := wrap32 (quality * 256)\<rparr>
          in case hm_get (pc_options (lh_config (lch s1))) ''custom-fps'' of
               None \<Rightarrow> (s1, m1)
             | Some f \<Rightarrow>
                let n = unwrap_or 30 (parse_i32 f);
                    m_fps = (if \<not> allow_more \<and> 30 < n then 30 else n)
                in (upd_lch (\<lambda>l. l\<lparr>custom_fps := Some (as_usize m_fps)\<rparr>) s1, m1\<lparr>om_custom_fps := m_fps\<rparr>)))"

definition toggle_options :: "ClientEnv \<Rightarrow> LoginConfigHandler \<Rightarrow> OptionMessage \<Rightarrow> OptionMessage" where
  "toggle_options e l m =
    (let on = get_toggle_option l; vo = on ''view-only'' in
     m\<lparr>om_disable_keyboard := yes_if vo,
       om_show_remote_cursor := yes_if (vo \<or> on ''show-remote-cursor''),
       om_show_my_cursor := yes_if (vo \<and> on ''show-my-cursor''),
       om_follow_remote_cursor := yes_if (on ''follow-remote-cursor''),
       om_follow_remote_window := yes_if (on ''follow-remote-window''),
       om_lock_after_session_end := yes_if (\<not> vo \<and> on ''lock-after-session-end''),
       om_disable_audio := yes_if (on ''disable-audio''),
       om_enable_file_transfer := yes_if (\<not> vo \<and> on ''enable-file-copy-paste''),
       om_disable_clipboard := yes_if (vo \<or> on ''disable-clipboard''),
       om_supported_decoding := Some (get_supported_decoding e l)\<rparr>)"

definition get_option_message :: "ClientEnv \<Rightarrow> bool \<Rightarrow> Client \<Rightarrow> Client \<times> OptionMessage option" where
  "get_option_message e ignore_default s =
    (let t = conn_type (lch s) in
     if t = PORT_FORWARD \<or> t = RDP \<or> t = FILE_TRANSFER then (s, None)
     else if t = TERMINAL then
       (s, if get_toggle_option (lch s) ''terminal-persistent''
           then Some (option_message_new\<lparr>om_terminal_persistent := Some Yes\<rparr>) else None)
     else (case quality_options e ignore_default s of (s1, m) \<Rightarrow> (s1, Some (toggle_options e (lch s1) m))))"

definition save_custom_image_quality :: "ClientEnv \<Rightarrow> int \<Rightarrow> Client \<Rightarrow> Client \<times> Msg" where
  "save_custom_image_quality e q s =
    (change_config e (\<lambda>c. c\<lparr>image_quality := ''custom'', custom_image_quality := [q]\<rparr>) s,
     MiscMsg (MOption (option_message_new\<lparr>om_custom_image_quality := wrap32 (q * 256)\<rparr>)))"

definition save_image_quality :: "ClientEnv \<Rightarrow> string \<Rightarrow> Client \<Rightarrow> Client \<times> Msg option" where
  "save_image_quality e v s =
    (change_config e (\<lambda>c. c\<lparr>image_quality := v\<rparr>) s,
     map_option (\<lambda>q. MiscMsg (MOption (option_message_new\<lparr>om_image_quality := Some q\<rparr>))) (get_image_quality_enum v False))"

definition set_custom_fps :: "ClientEnv \<Rightarrow> int \<Rightarrow> bool \<Rightarrow> Client \<Rightarrow> Client \<times> Msg" where
  "set_custom_fps e n save s =
    (let s1 = (if save then change_config e (\<lambda>c. c\<lparr>pc_options := hm_insert ''custom-fps'' (show_i32 n) (pc_options c)\<rparr>) s else s)
     in (upd_lch (\<lambda>l. l\<lparr>custom_fps := Some (as_usize n)\<rparr>) s1,
         MiscMsg (MOption (option_message_new\<lparr>om_custom_fps := n\<rparr>))))"

definition update_supported_decodings :: "ClientEnv \<Rightarrow> LoginConfigHandler \<Rightarrow> Msg" where
  "update_supported_decodings e l =
     MiscMsg (MOption (option_message_new\<lparr>om_supported_decoding := Some (get_supported_decoding e l)\<rparr>))"

definition refresh :: Msg where "refresh = MiscMsg (MRefreshVideo True)"

definition refresh_display :: "nat \<Rightarrow> Msg" where
  "refresh_display d = MiscMsg (MRefreshVideoDisplay (wrap32 (int d)))"

definition restart_remote_device :: Msg where "restart_remote_device = MiscMsg MRestartRemoteDevice"

definition peer_privacy_mode_supported :: "LoginConfigHandler \<Rightarrow> bool" where
  "peer_privacy_mode_supported l = (case features l of Some b \<Rightarrow> b | None \<Rightarrow> False)"

end
