(* ===== verification/Client_Login.thy ===== *)
theory Client_Login
  imports Client_Config Connection_Safety
begin

text \<open>
  Logging in from the controlling side, \<open>src/src/client.rs\<close>: \<open>LoginConfigHandler::initialize\<close>, the answer
  to the host's challenge (\<open>handle_hash\<close>), the login dialog (\<open>handle_login_from_ui\<close>), errors
  (\<open>handle_login_error\<close>) and what is remembered of an accepted login (\<open>handle_peer_info\<close>).
\<close>

section \<open>Starting\<close>

definition PUBLIC_SERVER :: string where "PUBLIC_SERVER = ''public''"
definition RS_PUB_KEY :: string where "RS_PUB_KEY = ''KafXrl4RSnR62ccbm15Jk8kd7sBSYaW9JxSXbGw8224=''"

definition handle_relay_id :: "string \<Rightarrow> string" where
  "handle_relay_id i =
    (let tail = drop (length i - 2) i
     in if length i \<ge> 2 \<and> (tail = [char_of (92::nat), CHR ''r''] \<or> tail = ''/r'') then take (length i - 2) i else i)"

definition nth_or :: "nat \<Rightarrow> string list \<Rightarrow> string" where
  "nth_or n xs = (if n < length xs then xs ! n else [])"

text \<open>The value of the last argument named \<open>key\<close>.\<close>

definition key_arg :: "string \<Rightarrow> string" where
  "key_arg args =
    (let kvs = map (\<lambda>a. (takeWhile (\<lambda>c. c \<noteq> CHR ''='') a, drop 1 (dropWhile (\<lambda>c. c \<noteq> CHR ''='') a)))
                 (filter (\<lambda>a. CHR ''='' \<in> set a) (split_on CHR ''&'' args));
         ks = filter (\<lambda>(k, _). eq_ignore_ascii_case k ''key'') kvs
     in if ks = [] then [] else snd (last ks))"

text \<open>The id to connect to, whether it asks for the relay, and the other server.\<close>

definition parse_peer_id :: "string \<Rightarrow> string \<times> bool \<times> (string \<times> string \<times> string) option" where
  "parse_peer_id i =
    (if CHR ''@'' \<in> set i then
       let v = split_on CHR ''@'' i;
           raw = nth_or 0 v;
           sk = split_on CHR ''?'' (nth_or 1 v);
           srv = nth_or 0 sk;
           key = (if srv = PUBLIC_SERVER then RS_PUB_KEY else key_arg (nth_or 1 sk));
           real = handle_relay_id raw
       in (real @ ''@'' @ srv, real \<noteq> raw, Some (real, srv, key))
     else let real = handle_relay_id i in (real, real \<noteq> i, None))"

definition initialize ::
  "ClientEnv \<Rightarrow> string \<Rightarrow> ConnType \<Rightarrow> string option \<Rightarrow> bool \<Rightarrow> int option \<Rightarrow> string option \<Rightarrow> string option \<Rightarrow> Client \<Rightarrow> Client" where
  "initialize e i ty uuid relay luid shared token s =
    (case parse_peer_id i of (pid, relay1, other) \<Rightarrow>
     let s1 = upd_lch (\<lambda>l. l\<lparr>lh_id := pid, conn_type := ty,
                other_server := (if other = None then other_server l else other)\<rparr>) s;
         (s2, c) = load_config e s1;
         tok = (case token of None \<Rightarrow> None | Some t \<Rightarrow> token_from_json e t);
         sid = (case tok of Some t \<Rightarrow> ct_session_id t | None \<Rightarrow> 0)
     in upd_lch (\<lambda>l.
          let l1 = l\<lparr>remember := pc_password c \<noteq> [], lh_config := c\<rparr>;
              l2 = (case tok of Some t \<Rightarrow> l1\<lparr>lh_password := ct_password t, password_source := ct_source t\<rparr> | None \<Rightarrow> l1);
              os = (case other_server l2 of
                 Some (rid, srv, key) \<Rightarrow> if key = [] then Some (rid, srv, handler_option l2 ''other-server-key'') else Some (rid, srv, key)
               | None \<Rightarrow> None)
          in l2\<lparr>lh_session_id := (if sid \<noteq> 0 then sid else if ce_random e \<noteq> 0 then ce_random e else 1),
               supported_encoding := 0, restarting_remote_device := False,
               force_relay := (option2bool ''force-always-relay'' (handler_option l2 ''force-always-relay'')
                  \<or> relay \<or> relay1 \<or> use_ws e \<or> is_proxy e),
               other_server := os, direct := None, received := False, switch_uuid := uuid, adapter_luid := luid,
               selected_windows_session_id := None, shared_password := shared, record_state := False,
               record_permission := True, is_terminal_admin := (ty = TERMINAL \<and> terminal_admin_env e)\<rparr>) s2)"

section \<open>Login requests\<close>

definition get_key_terminal_service_id :: "LoginConfigHandler \<Rightarrow> string" where
  "get_key_terminal_service_id l = (if is_terminal_admin l then ''terminal-admin-service-id'' else ''terminal-service-id'')"

definition get_remote_dir :: "ClientEnv \<Rightarrow> LoginConfigHandler \<Rightarrow> string" where
  "get_remote_dir e l =
     unwrap_or [] (hm_get (dirs_from_json e (handler_option l ''remote_dir'')) (pi_username (pc_info (lh_config l))))"

definition get_all_remote_dir :: "ClientEnv \<Rightarrow> string \<Rightarrow> LoginConfigHandler \<Rightarrow> string" where
  "get_all_remote_dir e path l =
    (let x = dirs_from_json e (handler_option l ''remote_dir''); user = pi_username (pc_info (lh_config l))
     in dirs_to_json e (if path = [] then hm_remove user x else hm_insert user path x))"

fun join_words :: "string list \<Rightarrow> string" where
  "join_words [] = []"
| "join_words [w] = w"
| "join_words (w # ws) = w @ '' '' @ join_words ws"

definition display_name :: "ClientEnv \<Rightarrow> string" where
  "display_name e =
    (let n0 = unwrap_or [] (hm_get (builtin_settings (ce_store e)) ''display-name'');
         n1 = (if n0 = [] then user_info_name e (local_get_option (ce_local e) ''user_info'') else n0);
         n2 = (if n1 = [] then ce_username e else n1)
     in join_words (map (upper_first e) (split_whitespace e n2)))"

definition login_union :: "ClientEnv \<Rightarrow> LoginConfigHandler \<Rightarrow> LoginUnion" where
  "login_union e l = (case conn_type l of
     FILE_TRANSFER \<Rightarrow> LoginFileTransfer (get_remote_dir e l) (handler_option l ''remote_show_hidden'' \<noteq> [])
   | VIEW_CAMERA \<Rightarrow> LoginViewCamera
   | PORT_FORWARD \<Rightarrow> LoginPortForward (fst (lh_port_forward l)) (snd (lh_port_forward l))
   | RDP \<Rightarrow> LoginPortForward (fst (lh_port_forward l)) (snd (lh_port_forward l))
   | TERMINAL \<Rightarrow> LoginTerminal (handler_option l (get_key_terminal_service_id l))
   | DEFAULT_CONN \<Rightarrow> LoginDefault)"

definition create_login_msg :: "ClientEnv \<Rightarrow> string \<Rightarrow> string \<Rightarrow> string \<Rightarrow> Client \<Rightarrow> Client \<times> LoginRequest" where
  "create_login_msg e os_user os_pass pw s =
    (let own = cfg_id (config (ce_store e));
         (me, peer) = (case other_server (lch s) of
            Some (i, _, _) \<Rightarrow> (own @ ''@'' @ ce_rendezvous e, i) | None \<Rightarrow> (own, lh_id (lch s)));
         (s1, om) = get_option_message e True s;
         l = lch s1
     in (s1, \<lparr>lr_username = peer, lr_password = pw, my_id = me, my_name = display_name e, lr_option = om,
          lr_union = login_union e l, lr_video_ack_required = False, session_id = lh_session_id l,
          lr_version = ce_version e, os_login = Some (os_user, os_pass), my_platform = ce_platform e,
          lr_hwid = (if handler_option (lch s) ''trust-this-device'' = ''Y'' then ce_hwid e else [])\<rparr>))"

definition send_login :: "ClientEnv \<Rightarrow> string \<Rightarrow> string \<Rightarrow> string \<Rightarrow> Client \<Rightarrow> Client" where
  "send_login e os_user os_pass pw s =
    (case create_login_msg e os_user os_pass pw s of (s1, req) \<Rightarrow> put_out (ToPeer (LoginMsg req)) s1)"

definition send_switch_login_request :: "ClientEnv \<Rightarrow> string \<Rightarrow> Client \<Rightarrow> Client" where
  "send_switch_login_request e uuid s =
    (case create_login_msg e [] [] [] s of (s1, req) \<Rightarrow> put_out (ToPeer (SwitchSidesResponse (Some req) uuid)) s1)"

section \<open>Passwords\<close>

definition is_personal_ab :: "PasswordSource \<Rightarrow> string \<Rightarrow> bool" where
  "is_personal_ab src pw \<longleftrightarrow> pw \<noteq> [] \<and> src = PersonalAb pw"

definition is_shared_ab :: "ClientEnv \<Rightarrow> PasswordSource \<Rightarrow> string \<Rightarrow> string \<Rightarrow> bool" where
  "is_shared_ab e src pw salt1 \<longleftrightarrow> pw \<noteq> [] \<and> (case src of SharedAb p \<Rightarrow> ce_sha256 e (p @ salt1) = pw | _ \<Rightarrow> False)"

definition personal :: "string \<Rightarrow> bool" where
  "personal nm \<longleftrightarrow> nm = ''My address book'' \<or> nm = ''Legacy address book''"

definition try_get_password_from_personal_ab :: "ClientEnv \<Rightarrow> LoginConfigHandler \<Rightarrow> string option" where
  "try_get_password_from_personal_ab e l =
    (let token = local_get_option (ce_local e) ''access_token'' in
     if token \<noteq> [] \<and> token = ab_access_token (ce_ab e) then
       (case find (\<lambda>(nm, _). personal nm) (ab_entries (ce_ab e)) of
          None \<Rightarrow> None
        | Some (_, peers) \<Rightarrow> (case find (\<lambda>(i, _). i = lh_id l) peers of
             None \<Rightarrow> None
           | Some (_, hash) \<Rightarrow> (case ce_b64_decode e hash of
                Some p \<Rightarrow> if p \<noteq> [] then Some p else None | None \<Rightarrow> None)))
     else None)"

text \<open>The candidates in the order of \<open>handle_hash\<close>: each step is given the password so far and its
  source, and takes over only where the source says so.\<close>

definition from_preset :: "ClientEnv \<Rightarrow> string \<Rightarrow> string \<Rightarrow> string \<times> PasswordSource \<Rightarrow> string \<times> PasswordSource" where
  "from_preset e preset salt1 p =
    (if fst p = [] \<and> preset \<noteq> [] then (ce_sha256 e (preset @ salt1), Undefined) else p)"

definition from_shared :: "ClientEnv \<Rightarrow> string option \<Rightarrow> string \<Rightarrow> string \<times> PasswordSource \<Rightarrow> string \<times> PasswordSource" where
  "from_shared e shared salt1 p = (case shared of
     Some sp \<Rightarrow> if sp \<noteq> [] then (ce_sha256 e (sp @ salt1), SharedAb sp) else p
   | None \<Rightarrow> p)"

definition from_config :: "PeerConfig \<Rightarrow> string \<times> PasswordSource \<Rightarrow> string \<times> PasswordSource" where
  "from_config c p = (if fst p = [] then (if pc_password c \<noteq> [] then (pc_password c, Undefined) else p) else p)"

definition from_personal_ab :: "ClientEnv \<Rightarrow> LoginConfigHandler \<Rightarrow> string \<times> PasswordSource \<Rightarrow> string \<times> PasswordSource" where
  "from_personal_ab e l p =
    (if fst p = [] then (case try_get_password_from_personal_ab e l of Some x \<Rightarrow> (x, PersonalAb x) | None \<Rightarrow> p) else p)"

definition from_default :: "ClientEnv \<Rightarrow> string \<Rightarrow> string \<times> PasswordSource \<Rightarrow> string \<times> PasswordSource" where
  "from_default e salt1 p =
    (let d = unwrap_or [] (hm_get (builtin_settings (ce_store e)) ''default-connect-password'')
     in if fst p = [] \<and> d \<noteq> [] then (ce_sha256 e (d @ salt1), SharedAb d) else p)"

definition choose_password :: "ClientEnv \<Rightarrow> string \<Rightarrow> string \<Rightarrow> LoginConfigHandler \<Rightarrow> string \<times> PasswordSource" where
  "choose_password e preset salt1 l =
     from_default e salt1 (from_personal_ab e l (from_config (lh_config l)
       (from_shared e (shared_password l) salt1 (from_preset e preset salt1 (lh_password l, password_source l)))))"

definition handle_hash :: "ClientEnv \<Rightarrow> string \<Rightarrow> string \<Rightarrow> string \<Rightarrow> Client \<Rightarrow> Client" where
  "handle_hash e preset salt1 challenge s =
    (let s1 = upd_lch (\<lambda>l. l\<lparr>lh_hash := (salt1, challenge), switch_uuid := None\<rparr>) s in
     case (case switch_uuid (lch s) of None \<Rightarrow> None | Some u \<Rightarrow> ce_uuid e u) of
       Some uuid \<Rightarrow> upd_lch (\<lambda>l. l\<lparr>password_source := Undefined\<rparr>) (send_switch_login_request e uuid s1)
     | None \<Rightarrow>
        (case choose_password e preset salt1 (lch s1) of (pw, src) \<Rightarrow>
         let s2 = upd_lch (\<lambda>l. l\<lparr>lh_password := pw, password_source := src, shared_password := None\<rparr>) s1;
             s3 = (if pw = [] then put_out (MsgBox ''input-password'' ''Password Required'' [] []) s2 else s2);
             sent = (if pw = [] then [] else ce_sha256 e (pw @ challenge));
             opt = (\<lambda>k. if conn_type (lch s3) = TERMINAL then [] else handler_option (lch s3) k)
         in send_login e (opt ''os-username'') (opt ''os-password'') sent s3))"

definition handle_login_from_ui :: "ClientEnv \<Rightarrow> string \<Rightarrow> string \<Rightarrow> string \<Rightarrow> bool \<Rightarrow> Client \<Rightarrow> Client" where
  "handle_login_from_ui e os_user os_pass pw rem s =
    (let l = lch s;
         (hp, l1) = (if pw = [] then
             (if lh_password l \<noteq> [] then (lh_password l, l)
              else (pc_password (lh_config l), if pc_password (lh_config l) \<noteq> [] then l\<lparr>password_source := Undefined\<rparr> else l))
           else (ce_sha256 e (pw @ fst (lh_hash l)), l\<lparr>password_source := Undefined, remember := rem\<rparr>));
         s1 = s\<lparr>lch := l1\<lparr>lh_password := hp\<rparr>\<rparr>
     in send_login e os_user os_pass (ce_sha256 e (hp @ snd (lh_hash l))) s1)"

section \<open>Answers of the host\<close>

text \<open>\<open>LOGIN_ERROR_MAP\<close>: type, title, text and link of the message box, and whether to try again.\<close>

definition LINK_HEADLESS_LINUX_SUPPORT :: string where
  "LINK_HEADLESS_LINUX_SUPPORT = ''https://github.com/rustdesk/rustdesk/wiki/Headless-Linux-Support''"

definition LOGIN_ERROR_MAP :: "(string, (string \<times> string \<times> string \<times> string) \<times> bool) hashmap" where
  "LOGIN_ERROR_MAP =
   [(''Wayland login screen is not supported'', ((''error'', ''Login Error'', ''Login screen using Wayland is not supported'',
       ''https://seedesktop.com/docs/en/manual/linux/#login-screen''), True)),
    (''Desktop session not ready'', ((''session-login'', [], [], []), True)),
    (''Desktop xsession failed'', ((''session-re-login'', [], [], []), True)),
    (''Desktop session another user login'',
      ((''info-nocancel'', ''another_user_login_title_tip'', ''another_user_login_text_tip'', []), False)),
    (''Desktop xorg not found'',
      ((''info-nocancel'', ''xorg_not_found_title_tip'', ''xorg_not_found_text_tip'', LINK_HEADLESS_LINUX_SUPPORT), True)),
    (''Desktop none'', ((''info-nocancel'', ''no_desktop_title_tip'', ''no_desktop_text_tip'', LINK_HEADLESS_LINUX_SUPPORT), True)),
    (''Desktop session not ready, password empty'', ((''session-login-password'', [], [], []), True)),
    (''Desktop session not ready, password wrong'', ((''session-login-re-password'', [], [], []), True)),
    (''No Password Access'', ((''wait-remote-accept-nook'', ''Prompt'',
       ''Please wait for the remote side to accept your session request...'', []), True))]"

fun is_infix :: "string \<Rightarrow> string \<Rightarrow> bool" where
  "is_infix p [] \<longleftrightarrow> p = []"
| "is_infix p (x # xs) \<longleftrightarrow> starts_with p (x # xs) \<or> is_infix p xs"

definition handle_login_error :: "ClientEnv \<Rightarrow> string \<Rightarrow> Client \<Rightarrow> Client \<times> bool" where
  "handle_login_error e err s =
    (if err = ''Empty Password'' then
       (put_out (MsgBox ''input-password'' ''Password Required'' [] []) (upd_lch (\<lambda>l. l\<lparr>lh_password := []\<rparr>) s), True)
     else if err = ''Wrong Password'' then
       (put_out (MsgBox ''re-input-password'' err ''Do you want to enter again?'' []) (upd_lch (\<lambda>l. l\<lparr>lh_password := []\<rparr>) s), True)
     else if err = ''Wrong 2FA Code'' \<or> err = REQUIRE_2FA then
       (let s1 = (if handler_option (lch s) ''trust-this-device'' = ''Y''
                  then handler_set_option e ''trust-this-device'' [] s else s)
        in (put_out (MsgBox ''input-2fa'' err [] []) s1, True))
     else case hm_get LOGIN_ERROR_MAP err of
       Some ((ty, title, txt, link), again) \<Rightarrow> (put_out (MsgBox ty title txt link) s, again)
     | None \<Rightarrow>
        (put_out (MsgBox ''error'' ''Login Error'' err
           (if is_infix ''x11 expected'' err then ''https://seedesktop.com/docs/en/manual/linux/#x11-required'' else [])) s, False))"

definition keyboard_mode_name :: "KeyboardMode \<Rightarrow> string" where
  "keyboard_mode_name m = (case m of KLegacy \<Rightarrow> ''legacy'' | KMap \<Rightarrow> ''map'' | KTranslate \<Rightarrow> ''translate'' | KAuto \<Rightarrow> ''auto'')"

definition keyboard_mode_of :: "string \<Rightarrow> KeyboardMode" where
  "keyboard_mode_of s =
    (if s = ''map'' then KMap else if s = ''translate'' then KTranslate else if s = ''auto'' then KAuto else KLegacy)"

definition is_keyboard_mode_supported :: "KeyboardMode \<Rightarrow> int \<Rightarrow> string \<Rightarrow> bool" where
  "is_keyboard_mode_supported m ver platform = (case m of
     KLegacy \<Rightarrow> True
   | KMap \<Rightarrow> \<not> eq_ignore_ascii_case platform ''Android'' \<and> get_version_number ''1.2.0'' \<le> ver
   | _ \<Rightarrow> get_version_number ''1.2.0'' \<le> ver)"

definition get_supported_keyboard_modes :: "int \<Rightarrow> string \<Rightarrow> KeyboardMode list" where
  "get_supported_keyboard_modes ver platform =
     filter (\<lambda>m. is_keyboard_mode_supported m ver platform) [KLegacy, KMap, KTranslate, KAuto]"

definition negotiated_keyboard_mode :: "PeerInfo \<Rightarrow> string \<Rightarrow> string" where
  "negotiated_keyboard_mode info m =
    (let ver = get_version_number (peer_version info) in
     if m = [] then keyboard_mode_name (if is_keyboard_mode_supported KMap ver (peer_platform info) then KMap else KLegacy)
     else if keyboard_mode_of m \<in> set (get_supported_keyboard_modes ver (peer_platform info)) then m
     else keyboard_mode_name KLegacy)"

text \<open>The password that is kept with the peer.\<close>

definition remembered_password :: "ClientEnv \<Rightarrow> LoginConfigHandler \<Rightarrow> string \<Rightarrow> string" where
  "remembered_password e l old =
    (let pw = lh_password l in
     if remember l then
       (if pw \<noteq> [] \<and> pw \<noteq> old \<and> \<not> is_shared_ab e (password_source l) pw (fst (lh_hash l)) then pw else old)
     else if is_personal_ab (password_source l) pw then pw
     else [])"

definition handler_peer_info :: "ClientEnv \<Rightarrow> PeerInfo \<Rightarrow> Client \<Rightarrow> Client" where
  "handler_peer_info e info s =
    (let s1 = upd_lch (\<lambda>l. l\<lparr>lh_version := (if peer_version info \<noteq> [] then get_version_number (peer_version info) else lh_version l),
               features := peer_features info\<rparr>) s;
         (s2, c) = load_config e s1;
         l = lch s2;
         os1 = (case other_server l of
            Some (_, b, k) \<Rightarrow> if b \<noteq> PUBLIC_SERVER then hm_insert ''other-server-key'' k (pc_options c) else pc_options c
          | None \<Rightarrow> pc_options c);
         c1 = c\<lparr>pc_info := \<lparr>pi_username = peer_username info, pi_hostname = peer_hostname info, pi_platform = peer_platform info\<rparr>,
                pc_password := remembered_password e l (pc_password c),
                pc_options := (if force_relay l then hm_insert ''force-always-relay'' ''Y'' os1 else os1)\<rparr>;
         s3 = (if pc_password c1 \<noteq> [] \<and> \<not> is_shared_ab e (password_source l) (lh_password l) (fst (lh_hash l))
                  \<and> \<not> is_personal_ab (password_source l) (lh_password l)
               then put_out (SyncAbPassword (lh_id l) (pe_b64 (ce_peer e) (pc_password c1))) s2 else s2)
     in upd_lch (\<lambda>l. l\<lparr>supported_encoding := peer_encoding info\<rparr>)
          (save_config e (c1\<lparr>keyboard_mode := negotiated_keyboard_mode info (keyboard_mode c1)\<rparr>) s3))"

definition get_conn_token :: "ClientEnv \<Rightarrow> LoginConfigHandler \<Rightarrow> string option" where
  "get_conn_token e l =
    (if lh_password l = [] then None
     else token_to_json e \<lparr>ct_password = lh_password l, ct_source = password_source l, ct_session_id = lh_session_id l\<rparr>)"

definition lower :: "string \<Rightarrow> string" where
  "lower s = map (\<lambda>c. if is_upper c then char_of (char_code c + 32) else c) s"

definition check_if_retry :: "bool \<Rightarrow> string \<Rightarrow> string \<Rightarrow> string \<Rightarrow> bool \<Rightarrow> bool" where
  "check_if_retry ws msgtype title txt retry_for_relay \<longleftrightarrow>
     msgtype = ''error'' \<and> title = ''Connection Error''
     \<and> ((is_infix ''10054'' txt \<or> is_infix ''104'' txt) \<and> retry_for_relay
        \<or> \<not> is_infix ''offline'' (lower txt) \<and> \<not> is_infix ''not exist'' (lower txt)
          \<and> (\<not> is_infix ''handshake'' (lower txt) \<or> is_infix ''connection reset without closing handshake'' (lower txt) \<and> ws)
          \<and> \<not> is_infix ''failed'' (lower txt) \<and> \<not> is_infix ''resolve'' (lower txt) \<and> \<not> is_infix ''mismatch'' (lower txt)
          \<and> \<not> is_infix ''manually'' (lower txt) \<and> \<not> is_infix ''not allowed'' (lower txt))"

end
