(* ===== verification/Client_Correct.thy ===== *)
theory Client_Correct
  imports Client_Login
begin

text \<open>
  Client and host together.  The request a client sends in answer to the host's challenge is admitted
  when it has the password; a remembered password works in the next session, a shared one is not kept;
  the options in the client's configuration and those of the host's connection agree.
\<close>

section \<open>The client's state\<close>

lemma client_simps [simp]:
  "lch (upd_lch f s) = f (lch s)" "disk (upd_lch f s) = disk s" "couts (upd_lch f s) = couts s"
  "lch (put_out x s) = lch s" "disk (put_out x s) = disk s" "couts (put_out x s) = couts s @ [x]"
  by (simp_all add: upd_lch_def put_out_def)

lemma load_config_simps [simp]:
  "lch (fst (load_config e s)) = lch s" "couts (fst (load_config e s)) = couts s"
  by (simp_all add: load_config_def split: prod.split)

lemma save_config_simps [simp]:
  "lch (save_config e c s) = (lch s)\<lparr>lh_config := c\<rparr>" "couts (save_config e c s) = couts s"
  by (simp_all add: save_config_def)

section \<open>Requests\<close>

text \<open>Building a request writes the cell of the frame rate and nothing else of the handler.\<close>

definition but_fps :: "LoginConfigHandler \<Rightarrow> LoginConfigHandler" where
  "but_fps l = l\<lparr>LoginConfigHandler.custom_fps := None\<rparr>"

definition login_target :: "LoginConfigHandler \<Rightarrow> string" where
  "login_target l = (case other_server l of Some (i, _, _) \<Rightarrow> i | None \<Rightarrow> lh_id l)"

lemma but_fps_set [simp]: "but_fps (l\<lparr>LoginConfigHandler.custom_fps := n\<rparr>) = but_fps l"
  by (simp add: but_fps_def)

lemma but_fps_D:
  assumes "but_fps l = but_fps l'"
  shows "lh_id l = lh_id l'" "lh_config l = lh_config l'" "lh_password l = lh_password l'" "lh_hash l = lh_hash l'"
    "remember l = remember l'" "password_source l = password_source l'" "other_server l = other_server l'"
    "conn_type l = conn_type l'" "shared_password l = shared_password l'" "lh_port_forward l = lh_port_forward l'"
    "is_terminal_admin l = is_terminal_admin l'" "force_relay l = force_relay l'"
  using assms by (cases l; cases l'; simp add: but_fps_def)+

lemma quality_options_keeps:
  "couts (fst (quality_options e b s)) = couts s" "but_fps (lch (fst (quality_options e b s))) = but_fps (lch s)"
  by (simp_all add: quality_options_def case_prod_unfold Let_def split: option.split)

lemma option_message_keeps:
  "couts (fst (get_option_message e b s)) = couts s" "but_fps (lch (fst (get_option_message e b s))) = but_fps (lch s)"
  using quality_options_keeps [of e b s] by (simp_all add: get_option_message_def case_prod_unfold Let_def)

lemma login_union_cong:
  assumes "but_fps l = but_fps l'"
  shows "login_union e l = login_union e l'"
  using but_fps_D [OF assms]
  by (simp add: login_union_def get_remote_dir_def handler_option_def get_key_terminal_service_id_def split: ConnType.split)

lemma send_login_request:
  "\<exists>req. couts (send_login e u p pw s) = couts s @ [ToPeer (LoginMsg req)] \<and> lr_password req = pw
     \<and> lr_username req = login_target (lch s)
     \<and> lr_union req = login_union e (lch s) \<and> lr_option req = snd (get_option_message e True s)"
  "but_fps (lch (send_login e u p pw s)) = but_fps (lch s)"
  using option_message_keeps [of e True s] login_union_cong [OF option_message_keeps(2), of e e True s]
  by (simp_all add: send_login_def create_login_msg_def login_target_def case_prod_unfold Let_def split: option.split)

lemma handle_hash_request:
  assumes "switch_uuid (lch s) = None" and "choose_password e preset salt1 ((lch s)\<lparr>lh_hash := (salt1, chal), switch_uuid := None\<rparr>) = (pw, src)"
    and "pw \<noteq> []"
  shows "\<exists>req. couts (handle_hash e preset salt1 chal s) = couts s @ [ToPeer (LoginMsg req)]
     \<and> lr_password req = ce_sha256 e (pw @ chal)
     \<and> lr_username req = login_target (lch s)
     \<and> lr_union req = login_union e (lch s)"
    and "but_fps (lch (handle_hash e preset salt1 chal s)) = but_fps ((lch s)\<lparr>lh_hash := (salt1, chal), switch_uuid := None,
          lh_password := pw, password_source := src, shared_password := None\<rparr>)"
proof -
  let ?s2 = "upd_lch (\<lambda>l. l\<lparr>lh_password := pw, password_source := src, shared_password := None\<rparr>)
      (upd_lch (\<lambda>l. l\<lparr>lh_hash := (salt1, chal), switch_uuid := None\<rparr>) s)"
  have union: "login_union e (lch ?s2) = login_union e (lch s)" "login_target (lch ?s2) = login_target (lch s)" "couts ?s2 = couts s"
    by (simp_all add: login_target_def login_union_def get_remote_dir_def handler_option_def get_key_terminal_service_id_def split: ConnType.split option.split)
  obtain u p where run: "handle_hash e preset salt1 chal s = send_login e u p (ce_sha256 e (pw @ chal)) ?s2"
    using assms by (simp add: handle_hash_def Let_def)
  show "\<exists>req. couts (handle_hash e preset salt1 chal s) = couts s @ [ToPeer (LoginMsg req)]
     \<and> lr_password req = ce_sha256 e (pw @ chal)
     \<and> lr_username req = login_target (lch s)
     \<and> lr_union req = login_union e (lch s)"
    using send_login_request(1) [of e u p "ce_sha256 e (pw @ chal)" ?s2] unfolding run union by auto
  show "but_fps (lch (handle_hash e preset salt1 chal s)) = but_fps ((lch s)\<lparr>lh_hash := (salt1, chal), switch_uuid := None,
          lh_password := pw, password_source := src, shared_password := None\<rparr>)"
    unfolding run send_login_request(2) by simp
qed

section \<open>A concrete client\<close>

definition demo_peer_config :: PeerConfig where
  "demo_peer_config = \<lparr>pc_password = [], pc_size = (0, 0, 0, 0), size_ft = (0, 0, 0, 0), size_pf = (0, 0, 0, 0),
     view_style = ''original'', scroll_style = ''scrollauto'', edge_scroll_edge_thickness = 100, image_quality = ''balanced'',
     custom_image_quality = [50], pc_show_remote_cursor = False, pc_lock_after_session_end = True, pc_terminal_persistent = False,
     pc_privacy_mode = False, allow_swap_key = False, port_forwards = [], direct_failures = 0, pc_disable_audio = True,
     pc_disable_clipboard = False, enable_file_copy_paste = True, show_quality_monitor = False, pc_follow_remote_cursor = False,
     pc_follow_remote_window = False, keyboard_mode = [], PeerConfig.view_only = False, pc_show_my_cursor = False, sync_init_clipboard = False,
     reverse_mouse_wheel = ''N'', displays_as_individual_windows = ''N'', use_all_my_displays_for_the_remote_session = ''N'',
     trackpad_speed = 100, custom_resolutions = [], pc_options = [], ui_flutter = [],
     pc_info = \<lparr>pi_username = [], pi_hostname = [], pi_platform = []\<rparr>, pc_transfer = \<lparr>TransferSerde.write_jobs = [], TransferSerde.read_jobs = []\<rparr>\<rparr>"

definition demo_peer_env :: PeerEnv where
  "demo_peer_env = \<lparr>pe_crypto = plain_crypto, pe_default = demo_peer_config, pe_b64 = (\<lambda>x. x)\<rparr>"

definition demo_client_env :: ClientEnv where
  "demo_client_env = \<lparr>ce_peer = demo_peer_env, ce_sha256 = Cons CHR ''d'', ce_random = 7, ce_uuid = (\<lambda>_. None),
     token_from_json = (\<lambda>_. None), token_to_json = (\<lambda>_. None), dirs_from_json = (\<lambda>_. []), dirs_to_json = (\<lambda>_. []),
     user_info_name = (\<lambda>_. []), split_whitespace = (\<lambda>x. [x]), upper_first = (\<lambda>x. x),
     ce_ab = \<lparr>ab_access_token = [], ab_entries = []\<rparr>, ce_b64_decode = Some, decodings = (\<lambda>_ _ _. decoding_default),
     use_ws = False, is_proxy = False, using_public_server = False, terminal_admin_env = False, ce_username = ''me'',
     ce_platform = ''Linux'', ce_hwid = ''hw'', ce_version = ''1.4.0'', ce_rendezvous = ''rs'', ce_store = first_run,
     ce_local = \<lparr>local_config = \<lparr>remote_id = [], kb_layout_type = [], lc_size = (0, 0, 0, 0), fav = [], local_options = [],
       local_ui_flutter = []\<rparr>, local_file = \<lparr>remote_id = [], kb_layout_type = [], lc_size = (0, 0, 0, 0), fav = [],
       local_options = [], local_ui_flutter = []\<rparr>, overwrite_local = [], default_local = []\<rparr>\<rparr>"

definition demo_handler :: LoginConfigHandler where
  "demo_handler = \<lparr>lh_id = ''123'', conn_type = DEFAULT_CONN, is_terminal_admin = False, lh_hash = (''salt'', ''dare''),
     lh_password = [], remember = False, lh_config = demo_peer_config, lh_port_forward = ([], 0), lh_version = 0,
     features = None, lh_session_id = 7, supported_encoding = 0, restarting_remote_device = False, force_relay = False,
     direct = None, received = False, switch_uuid = None, save_ab_password_to_recent = False, other_server = None,
     LoginConfigHandler.custom_fps = None, last_auto_fps = None, adapter_luid = None, mark_unsupported = [],
     selected_windows_session_id = None, lh_peer_info = None, password_source = Undefined, shared_password = None,
     lh_trusted_devices = False, record_state = False, record_permission = True\<rparr>"

definition demo_client :: Client where
  "demo_client = \<lparr>lch = demo_handler, disk = [], couts = []\<rparr>"

definition demo_info :: PeerInfo where
  "demo_info = \<lparr>peer_username = ''u'', peer_hostname = ''h'', peer_platform = ''Linux'', peer_version = ''1.4.0'',
     peer_features = None, peer_encoding = 0\<rparr>"

definition demo_sha_host :: Host where
  "demo_sha_host = demo_host\<lparr>sha256 := Cons CHR ''d''\<rparr>"

lemma demo_storable: "peer_storable demo_peer_env demo_peer_config"
  by (simp add: peer_storable_def demo_peer_env_def demo_peer_config_def deserialized_def nonempty_or_def ENCRYPT_MAX_LEN_def
      deserialize_custom_image_quality_def deserialize_trackpad_speed_def deserialize_edge_scroll_edge_thickness_def)

lemma demo_env: "ce_peer demo_client_env = demo_peer_env" "ce_sha256 demo_client_env = Cons CHR ''d''" "pe_crypto demo_peer_env = plain_crypto"
  by (simp_all add: demo_client_env_def demo_peer_env_def)

lemma demo_load: "load_config demo_client_env demo_client = (demo_client, demo_peer_config)"
  by (simp add: load_config_def peer_load_def demo_client_env_def demo_peer_env_def demo_client_def demo_handler_def hm_get_def)

section \<open>Admission\<close>

text \<open>The digests of SHA-256 are not empty.\<close>

definition digests :: "(string \<Rightarrow> string) \<Rightarrow> bool" where
  "digests f \<longleftrightarrow> (\<forall>x. f x \<noteq> [])"

text \<open>C15: A client that knows the password gets in.  Given the host's challenge, a client with the one-time
  or permanent password of the host preset, and nothing remembered, sends one login request, and the
  host authorizes it and answers with the success response, when passwords are accepted, no second
  factor is required, the address is not closed by failures, no privacy mode is on and the displays
  can be listed.\<close>

theorem client_with_password_admitted:
  assumes "ce_sha256 e = sha256 h" and "digests (sha256 h)"
    and "switch_uuid (lch c) = None" and "conn_type (lch c) = DEFAULT_CONN" and "other_server (lch c) = None"
    and "lh_password (lch c) = []" and "shared_password (lch c) = None"
    and "lh_id (lch c) = cfg_id (config (store (world s)))"
    and "pw \<noteq> []" and "temporary_enabled (store (world s)) \<and> pw = temporary (store (world s))
      \<or> permanent_enabled (store (world s)) \<and> pw = get_permanent_password (store (world s))"
    and "\<not> authorized (conn s)" and "require_2fa (conn s) = None" and "approve_mode (store (world s)) \<noteq> ApproveClick"
    and "\<not> is_in_privacy_mode (privacy_mode (world s))" and "\<not> headless_allowed h"
    and "snd (check_failure (ip (conn s)) (clock h) (fst (login_failures (world s)))) = None"
    and "display_server_error h = []" and "login_displays h = None"
  shows "\<exists>req s'. couts (handle_hash e pw (hash_salt (conn s)) (hash_challenge (conn s)) c) = couts c @ [ToPeer (LoginMsg req)]
    \<and> on_message h (LoginMsg req) s = Some (s', True) \<and> authorized (conn s') \<and> Send LoginOk \<in> set (outs s')"
proof -
  let ?l = "(lch c)\<lparr>lh_hash := (hash_salt (conn s), hash_challenge (conn s)), switch_uuid := None\<rparr>"
  let ?p = "ce_sha256 e (pw @ hash_salt (conn s))"
  have p: "?p \<noteq> []" "ce_sha256 e (?p @ hash_challenge (conn s)) \<noteq> []"
    using assms(1,2) by (simp_all add: digests_def)
  have "choose_password e pw (hash_salt (conn s)) ?l = (?p, Undefined)"
    using assms(6,7,9) p(1)
    by (simp add: choose_password_def from_preset_def from_shared_def from_config_def from_personal_ab_def from_default_def Let_def)
  from handle_hash_request(1) [OF assms(3) this p(1)] obtain req
    where req: "couts (handle_hash e pw (hash_salt (conn s)) (hash_challenge (conn s)) c) = couts c @ [ToPeer (LoginMsg req)]"
      "lr_password req = ce_sha256 e (?p @ hash_challenge (conn s))" "lr_username req = cfg_id (config (store (world s)))" "lr_union req = LoginDefault"
    using assms(4,5,8) by (auto simp: login_union_def login_target_def)
  have fits: "password_fits h (conn s) req pw"
    using req(2) assms(1,9) by (simp add: password_fits_def)
  have "\<exists>s'. on_message h (LoginMsg req) s = Some (s', True) \<and> authorized (conn s') \<and> Send LoginOk \<in> set (outs s')"
    by (rule password_login_admits) (use assms req p(2) fits in \<open>auto simp: desktop_error_def\<close>)
  with req(1) show ?thesis by blast
qed

text \<open>The client of the host in \<open>demo_world\<close>, with its one-time password.\<close>

theorem client_with_password_admitted_witness:
  "\<exists>req s'. couts (handle_hash demo_client_env ''abc'' ''salt'' ''dare'' demo_client) = [ToPeer (LoginMsg req)]
    \<and> on_message demo_sha_host (LoginMsg req) \<lparr>conn = connection_new demo_sha_host demo_inner None ''salt'' ''dare'' (store demo_world),
        world = demo_world, outs = []\<rparr> = Some (s', True) \<and> authorized (conn s')"
proof -
  let ?s = "\<lparr>conn = connection_new demo_sha_host demo_inner None ''salt'' ''dare'' (store demo_world), world = demo_world, outs = []\<rparr>"
  have salt: "hash_salt (conn ?s) = ''salt''" "hash_challenge (conn ?s) = ''dare''" "\<not> authorized (conn ?s)" "require_2fa (conn ?s) = None"
    by (simp_all add: connection_new_def demo_sha_host_def demo_host_def)
  have "\<exists>req s'. couts (handle_hash demo_client_env ''abc'' (hash_salt (conn ?s)) (hash_challenge (conn ?s)) demo_client) = couts demo_client @ [ToPeer (LoginMsg req)]
    \<and> on_message demo_sha_host (LoginMsg req) ?s = Some (s', True) \<and> authorized (conn s') \<and> Send LoginOk \<in> set (outs s')"
  proof (rule client_with_password_admitted)
    show "snd (check_failure (ip (conn ?s)) (clock demo_sha_host) (fst (login_failures (world ?s)))) = None"
      by (simp add: demo_world_def fresh_address_open)
    show "temporary_enabled (store (world ?s)) \<and> ''abc'' = temporary (store (world ?s))
      \<or> permanent_enabled (store (world ?s)) \<and> ''abc'' = get_permanent_password (store (world ?s))"
      by (simp add: demo_world_def temporary_enabled_def verification_method_def get_opt_def get_or_def first_run_def unwrap_or_def hm_get_def)
    show "ce_sha256 demo_client_env = sha256 demo_sha_host" "digests (sha256 demo_sha_host)"
      by (simp_all add: demo_client_env_def demo_sha_host_def digests_def)
  qed (use salt in \<open>simp_all add: demo_client_def demo_handler_def demo_world_def demo_sha_host_def demo_host_def
      is_in_privacy_mode_def approve_mode_def get_opt_def get_or_def first_run_def unwrap_or_def hm_get_def\<close>)
  then show ?thesis
    unfolding salt(1,2) by (auto simp: demo_client_def)
qed

section \<open>What is remembered\<close>

lemma load_config_cong:
  "lh_id (lch s) = lh_id (lch t) \<Longrightarrow> disk s = disk t \<Longrightarrow> snd (load_config e s) = snd (load_config e t)"
  "lh_id (lch s) = lh_id (lch t) \<Longrightarrow> disk s = disk t \<Longrightarrow> disk (fst (load_config e s)) = disk (fst (load_config e t))"
  by (simp_all add: load_config_def split: prod.split)

lemma remembered_cong:
  "remembered_password e (l\<lparr>lh_version := v, features := f\<rparr>) = remembered_password e l"
  by (simp add: remembered_password_def fun_eq_iff Let_def)

lemma peer_storable_info:
  assumes "peer_storable e c" and "length pw \<le> ENCRYPT_MAX_LEN" and "\<not> is_encrypted (pe_crypto e) pw"
    and "wf_map os" and "list_all (\<lambda>(k, v). k \<in> set SECRET_OPTIONS \<longrightarrow> storable (pe_crypto e) ENCRYPT_MAX_LEN v) os"
  shows "peer_storable e (c\<lparr>pc_info := i, pc_password := pw, pc_options := os, keyboard_mode := m\<rparr>)"
  using assms by (cases c) (simp add: peer_storable_def deserialized_def)

lemma public_options: "''force-always-relay'' \<notin> set SECRET_OPTIONS" "''other-server-key'' \<notin> set SECRET_OPTIONS"
  by (simp_all add: SECRET_OPTIONS_def)

lemma list_all_insert:
  assumes "list_all P m" and "P (k, v)"
  shows "list_all P (hm_insert k v m)"
proof -
  have "set (hm_insert k v m) \<subseteq> insert (k, v) (set m)"
    unfolding hm_insert_def by (induction m) (auto split: if_splits)
  then show ?thesis
    using assms by (auto simp: list_all_iff)
qed

text \<open>The configuration after a login, and its file.\<close>

lemma peer_info_saves:
  fixes e s info
  defines "t \<equiv> handler_peer_info e info s"
  shows "pc_password (lh_config (lch t)) = remembered_password e (lch s) (pc_password (snd (load_config e s)))"
    and "disk t = peer_store (ce_peer e) (lh_id (lch s)) (lh_config (lch t)) (disk (fst (load_config e s)))"
    and "lh_id (lch t) = lh_id (lch s)"
    and "peer_storable (ce_peer e) (snd (load_config e s)) \<Longrightarrow> length (pc_password (lh_config (lch t))) \<le> ENCRYPT_MAX_LEN
      \<Longrightarrow> \<not> is_encrypted (pe_crypto (ce_peer e)) (pc_password (lh_config (lch t))) \<Longrightarrow> peer_storable (ce_peer e) (lh_config (lch t))"
proof -
  let ?s1 = "upd_lch (\<lambda>l. l\<lparr>lh_version := (if peer_version info \<noteq> [] then get_version_number (peer_version info) else lh_version l),
      features := peer_features info\<rparr>) s"
  define c where "c = snd (load_config e s)"
  have c: "snd (load_config e ?s1) = c" "disk (fst (load_config e ?s1)) = disk (fst (load_config e s))"
    using load_config_cong [of ?s1 s e] by (simp_all add: c_def)
  define os1 where "os1 = (case other_server (lch s) of
      Some (_, b, k) \<Rightarrow> if b \<noteq> PUBLIC_SERVER then hm_insert ''other-server-key'' k (pc_options c) else pc_options c | None \<Rightarrow> pc_options c)"
  define os where "os = (if force_relay (lch s) then hm_insert ''force-always-relay'' ''Y'' os1 else os1)"
  have t: "lh_config (lch t) = c\<lparr>pc_info := \<lparr>pi_username = peer_username info, pi_hostname = peer_hostname info,
        pi_platform = peer_platform info\<rparr>, pc_password := remembered_password e (lch s) (pc_password c), pc_options := os,
        keyboard_mode := negotiated_keyboard_mode info (keyboard_mode c)\<rparr>"
      "disk t = peer_store (ce_peer e) (lh_id (lch s)) (lh_config (lch t)) (disk (fst (load_config e s)))" "lh_id (lch t) = lh_id (lch s)"
    unfolding t_def handler_peer_info_def Let_def case_prod_unfold c
    by (simp_all add: os_def os1_def remembered_cong c save_config_def case_prod_unfold split: option.split)
  show "pc_password (lh_config (lch t)) = remembered_password e (lch s) (pc_password (snd (load_config e s)))"
    "disk t = peer_store (ce_peer e) (lh_id (lch s)) (lh_config (lch t)) (disk (fst (load_config e s)))"
    "lh_id (lch t) = lh_id (lch s)"
    using t by (simp_all add: c_def)
  show "peer_storable (ce_peer e) (lh_config (lch t))"
    if st: "peer_storable (ce_peer e) (snd (load_config e s))" and "length (pc_password (lh_config (lch t))) \<le> ENCRYPT_MAX_LEN"
      "\<not> is_encrypted (pe_crypto (ce_peer e)) (pc_password (lh_config (lch t)))"
  proof -
    have "wf_map os" "list_all (\<lambda>(k, v). k \<in> set SECRET_OPTIONS \<longrightarrow> storable (pe_crypto (ce_peer e)) ENCRYPT_MAX_LEN v) os"
      using st unfolding peer_storable_def c_def [symmetric] os_def os1_def
      by (auto intro!: list_all_insert wf_map_insert simp: public_options split: option.split)
    then show ?thesis
      using that(2,3) peer_storable_info [OF st [folded c_def]] unfolding t(1) by simp
  qed
qed

text \<open>A login from the dialog keeps the hash of the typed password in the handler.\<close>

lemma login_from_ui_handler:
  assumes "pw \<noteq> []"
  shows "but_fps (lch (handle_login_from_ui e u p pw rem s)) = but_fps ((lch s)\<lparr>password_source := Undefined, remember := rem,
      lh_password := ce_sha256 e (pw @ fst (lh_hash (lch s)))\<rparr>)"
  using assms by (simp add: handle_login_from_ui_def Let_def send_login_request(2))

text \<open>Loading a configuration may write its file anew, in a form that reads the same.\<close>

lemma load_again:
  assumes "crypto_ok (pe_crypto (ce_peer e))" and "peer_storable (ce_peer e) (snd (load_config e s))"
    and "lh_id (lch t) = lh_id (lch s)" and "disk t = disk s \<or> disk t = disk (fst (load_config e s))"
  shows "snd (load_config e t) = snd (load_config e s)"
proof (cases "hm_get (disk s) (peer_path (ce_peer e) (lh_id (lch s)))")
  case (Some f)
  obtain c again where d: "peer_decrypted (pe_crypto (ce_peer e)) (deserialized (ce_peer e) f) = (c, again)" by (metis surj_pair)
  have one: "snd (load_config e s) = c" "disk (fst (load_config e s)) \<in> {disk s, peer_store (ce_peer e) (lh_id (lch s)) c (disk s)}"
    by (simp_all add: load_config_def peer_load_def Some d)
  then have st: "peer_storable (ce_peer e) c"
    using assms(2) by simp
  consider "disk t = disk s" | "disk t = peer_store (ce_peer e) (lh_id (lch s)) c (disk s)"
    using assms(4) one(2) by auto
  then show ?thesis
  proof cases
    case 1
    then show ?thesis using assms(3) by (intro load_config_cong) simp_all
  next
    case 2
    then show ?thesis
      using assms(3) peer_load_store [OF assms(1) st, of "lh_id (lch s)" "disk s"] unfolding one(1) by (simp add: load_config_def)
  qed
qed (use assms(3,4) in \<open>auto simp: load_config_def peer_load_def\<close>)

lemma send_login_disk:
  "disk (send_login e u p pw s) = disk s \<or> disk (send_login e u p pw s) = disk (fst (load_config e s))"
proof -
  have "disk (fst (quality_options e True s)) \<in> {disk s, disk (fst (load_config e s))}"
    by (simp add: quality_options_def case_prod_unfold Let_def split: option.split)
  then show ?thesis
    by (auto simp: send_login_def create_login_msg_def get_option_message_def case_prod_unfold Let_def)
qed

lemma login_from_ui_disk:
  "disk (handle_login_from_ui e u p pw rem s) = disk s \<or> disk (handle_login_from_ui e u p pw rem s) = disk (fst (load_config e s))"
proof -
  have "disk (send_login e u p q (s\<lparr>lch := l\<rparr>)) \<in> {disk s, disk (fst (load_config e s))}" if "lh_id l = lh_id (lch s)" for l q
    using that send_login_disk [of e u p q "s\<lparr>lch := l\<rparr>"] load_config_cong(2) [of "s\<lparr>lch := l\<rparr>" s e] by simp
  then show ?thesis
    using send_login_disk [of e u p _ s] by (simp add: handle_login_from_ui_def Let_def)
qed

text \<open>C17: A remembered password works in the next session.  After a login from the dialog with
  \<^emph>\<open>remember\<close> that the host has accepted, a new session with the same peer answers the next challenge
  without asking, and its request carries what the host expects for that password, as long as the
  host's salt is the same.\<close>

theorem remembered_password_reconnects:
  assumes "crypto_ok (pe_crypto (ce_peer e))" and "peer_storable (ce_peer e) (snd (load_config e c))"
    and "lh_hash (lch c) = (salt1, chal0)" and "pw \<noteq> []"
    and "ce_sha256 e (pw @ salt1) \<noteq> []" and "length (ce_sha256 e (pw @ salt1)) \<le> ENCRYPT_MAX_LEN"
    and "\<not> is_encrypted (pe_crypto (ce_peer e)) (ce_sha256 e (pw @ salt1))"
    and "parse_peer_id (lh_id (lch c)) = (lh_id (lch c), relay, None)" and "lh_password l = []"
    and "c2 = handler_peer_info e info (handle_login_from_ui e u p pw True c)"
    and "c3 = initialize e (lh_id (lch c)) ty None False luid None None \<lparr>lch = l, disk = disk c2, couts = []\<rparr>"
    and "sha256 h = ce_sha256 e" and "hash_salt cn = salt1" and "hash_challenge cn = chal"
  shows "\<exists>req. couts (handle_hash e [] salt1 chal c3) = [ToPeer (LoginMsg req)] \<and> password_fits h cn req pw"
proof -
  let ?p = "ce_sha256 e (pw @ salt1)"
  let ?c1 = "handle_login_from_ui e u p pw True c"
  have c1: "lh_id (lch ?c1) = lh_id (lch c)" "remember (lch ?c1)" "password_source (lch ?c1) = Undefined" "lh_password (lch ?c1) = ?p"
    using but_fps_D [OF login_from_ui_handler [OF assms(4), of e u p True c]] assms(3) by simp_all
  have old: "snd (load_config e ?c1) = snd (load_config e c)"
    by (rule load_again [OF assms(1,2) c1(1) login_from_ui_disk])
  have rem: "remembered_password e (lch ?c1) x = ?p" for x
    using c1 assms(5) by (simp add: remembered_password_def is_shared_ab_def Let_def)
  note saved = peer_info_saves [where e = e and info = info and s = ?c1, folded assms(10)]
  have pc: "pc_password (lh_config (lch c2)) = ?p"
    using saved(1) rem by simp
  have "peer_storable (ce_peer e) (lh_config (lch c2))"
    using saved(4) assms(2,6,7) pc old by simp
  then have load: "peer_load (ce_peer e) (lh_id (lch c)) (disk c2) = (disk c2, lh_config (lch c2))"
    using peer_load_store [OF assms(1)] saved(2) c1(1) by simp
  have c3: "lh_config (lch c3) = lh_config (lch c2)" "lh_password (lch c3) = []" "switch_uuid (lch c3) = None"
    "shared_password (lch c3) = None" "couts c3 = []"
    using assms(8,9) load by (simp_all add: assms(11) initialize_def load_config_def Let_def)
  have "choose_password e [] salt1 ((lch c3)\<lparr>lh_hash := (salt1, chal), switch_uuid := None\<rparr>) = (?p, Undefined)"
    using c3 pc assms(5)
    by (simp add: choose_password_def from_preset_def from_shared_def from_config_def from_personal_ab_def from_default_def Let_def)
  from handle_hash_request(1) [OF c3(3) this assms(5)] c3(5) assms(4,12-14) show ?thesis
    by (auto simp: password_fits_def)
qed

theorem remembered_password_reconnects_witness:
  "\<exists>c2 c3 req. c2 = handler_peer_info demo_client_env demo_info (handle_login_from_ui demo_client_env [] [] ''abc'' True demo_client)
    \<and> c3 = initialize demo_client_env ''123'' DEFAULT_CONN None False None None None \<lparr>lch = demo_handler, disk = disk c2, couts = []\<rparr>
    \<and> couts (handle_hash demo_client_env [] ''salt'' ''next'' c3) = [ToPeer (LoginMsg req)]
    \<and> password_fits demo_sha_host (connection_new demo_sha_host demo_inner None ''salt'' ''next'' first_run) req ''abc''"
proof -
  let ?cn = "connection_new demo_sha_host demo_inner None ''salt'' ''next'' first_run"
  let ?c2 = "handler_peer_info demo_client_env demo_info (handle_login_from_ui demo_client_env [] [] ''abc'' True demo_client)"
  let ?c3 = "initialize demo_client_env (lh_id (lch demo_client)) DEFAULT_CONN None False None None None \<lparr>lch = demo_handler, disk = disk ?c2, couts = []\<rparr>"
  have i: "lh_id (lch demo_client) = ''123''"
    by (simp add: demo_client_def demo_handler_def)
  have "\<exists>req. couts (handle_hash demo_client_env [] ''salt'' ''next'' ?c3) = [ToPeer (LoginMsg req)] \<and> password_fits demo_sha_host ?cn req ''abc''"
  proof (rule remembered_password_reconnects)
    show "peer_storable (ce_peer demo_client_env) (snd (load_config demo_client_env demo_client))"
      by (simp add: demo_load demo_env demo_storable)
    show "parse_peer_id (lh_id (lch demo_client)) = (lh_id (lch demo_client), False, None)"
      by (simp add: i parse_peer_id_def handle_relay_id_def Let_def)
    show "\<not> is_encrypted (pe_crypto (ce_peer demo_client_env)) (ce_sha256 demo_client_env (''abc'' @ ''salt''))"
      by (simp add: is_encrypted_def starts_with_def demo_client_env_def VERSION_LEN_def)
    show "lh_hash (lch demo_client) = (''salt'', ''dare'')" "lh_password demo_handler = []"
      by (simp_all add: demo_client_def demo_handler_def)
    show "hash_salt ?cn = ''salt''" "hash_challenge ?cn = ''next''"
      by (simp_all add: connection_new_def)
    show "sha256 demo_sha_host = ce_sha256 demo_client_env"
      by (simp add: demo_client_env_def demo_sha_host_def)
  qed (simp_all add: demo_client_env_def demo_peer_env_def ENCRYPT_MAX_LEN_def)
  then show ?thesis
    unfolding i by blast
qed

text \<open>C18: A shared password is not kept.  After a login with the password of a shared address book, the
  password stored with the peer is the one that was stored before when the user asked to remember,
  otherwise none; nor is the shared password handed on to the user's own address book.\<close>

theorem shared_password_not_kept:
  assumes "switch_uuid (lch c) = None" and "shared_password (lch c) = Some sp" and "sp \<noteq> []" and "digests (ce_sha256 e)"
    and "c1 = handle_hash e preset salt1 chal c" and "c2 = handler_peer_info e info c1"
  shows "pc_password (lh_config (lch c2)) = (if remember (lch c) then pc_password (snd (load_config e c1)) else [])
    \<and> couts c2 = couts c1"
proof -
  let ?p = "ce_sha256 e (sp @ salt1)"
  have p: "?p \<noteq> []" using assms(4) by (simp add: digests_def)
  have "choose_password e preset salt1 ((lch c)\<lparr>lh_hash := (salt1, chal), switch_uuid := None\<rparr>) = (?p, SharedAb sp)"
    using assms(2,3) p
    by (simp add: choose_password_def from_shared_def from_config_def from_personal_ab_def from_default_def Let_def)
  from but_fps_D [OF handle_hash_request(2) [OF assms(1) this p]]
  have c1: "lh_password (lch c1) = ?p" "password_source (lch c1) = SharedAb sp" "lh_hash (lch c1) = (salt1, chal)"
    "remember (lch c1) = remember (lch c)"
    by (simp_all add: assms(5))
  have sh: "is_shared_ab e (password_source (lch c1)) (lh_password (lch c1)) (fst (lh_hash (lch c1)))"
    using c1 p by (simp add: is_shared_ab_def)
  have "remembered_password e (lch c1) old = (if remember (lch c) then old else [])" for old
    using sh c1 by (simp add: remembered_password_def is_personal_ab_def Let_def)
  moreover have "couts c2 = couts c1"
    using sh by (simp add: assms(6) handler_peer_info_def case_prod_unfold Let_def)
  ultimately show ?thesis
    using peer_info_saves(1) [of e info c1, folded assms(6)] by simp
qed

theorem shared_password_not_kept_witness:
  "\<exists>c c1 c2. shared_password (lch c) = Some ''team'' \<and> c1 = handle_hash demo_client_env [] ''salt'' ''dare'' c
    \<and> c2 = handler_peer_info demo_client_env demo_info c1 \<and> pc_password (lh_config (lch c2)) = [] \<and> couts c2 = couts c1"
proof -
  let ?c = "upd_lch (\<lambda>l. l\<lparr>shared_password := Some ''team''\<rparr>) demo_client"
  have "switch_uuid (lch ?c) = None" "shared_password (lch ?c) = Some ''team''" "\<not> remember (lch ?c)" "digests (ce_sha256 demo_client_env)"
    by (simp_all add: demo_client_def demo_handler_def digests_def demo_client_env_def)
  with shared_password_not_kept [of ?c "''team''" demo_client_env _ "[]" "''salt''" "''dare''" _ demo_info, OF _ _ _ _ refl refl]
  show ?thesis
    by (intro exI [of _ ?c] exI [of _ "handle_hash demo_client_env [] ''salt'' ''dare'' ?c"]
        exI [of _ "handler_peer_info demo_client_env demo_info (handle_hash demo_client_env [] ''salt'' ''dare'' ?c)"]) simp
qed

end
