(* ===== verification/Client_Options.thy ===== *)
theory Client_Options
  imports Client_Correct
begin

text \<open>
  The options of a session, on both sides.  The client keeps them in the configuration of the peer and
  tells the host of every change; the host keeps them in the connection.  \<open>client_view\<close> is what the
  client's configuration asks for, \<open>host_view\<close> what the host's connection has.
\<close>

record Options_View =
  v_keyboard_off :: bool
  v_remote_cursor :: bool
  v_my_cursor :: bool
  v_follow_cursor :: bool
  v_follow_window :: bool
  v_lock :: bool
  v_audio_off :: bool
  v_files :: bool
  v_clipboard_off :: bool

definition client_view :: "PeerConfig \<Rightarrow> Options_View" where
  "client_view c = \<lparr>v_keyboard_off = PeerConfig.view_only c, v_remote_cursor = PeerConfig.view_only c \<or> pc_show_remote_cursor c,
     v_my_cursor = pc_show_my_cursor c, v_follow_cursor = pc_follow_remote_cursor c,
     v_follow_window = pc_follow_remote_window c, v_lock = \<not> PeerConfig.view_only c \<and> pc_lock_after_session_end c,
     v_audio_off = pc_disable_audio c, v_files = \<not> PeerConfig.view_only c \<and> enable_file_copy_paste c,
     v_clipboard_off = PeerConfig.view_only c \<or> pc_disable_clipboard c\<rparr>"

definition host_view :: "Connection \<Rightarrow> Options_View" where
  "host_view c = \<lparr>v_keyboard_off = disable_keyboard c, v_remote_cursor = show_remote_cursor c,
     v_my_cursor = show_my_cursor c, v_follow_cursor = follow_remote_cursor c, v_follow_window = follow_remote_window c,
     v_lock = lock_after_session_end c, v_audio_off = disable_audio c, v_files = enable_file_transfer c,
     v_clipboard_off = disable_clipboard c\<rparr>"

section \<open>What a message does to the host's view\<close>

definition set_bool :: "BoolOption option \<Rightarrow> bool \<Rightarrow> bool" where
  "set_bool q b = (case q of Some Yes \<Rightarrow> True | Some No \<Rightarrow> False | _ \<Rightarrow> b)"

lemma set_bool_simps [simp]:
  "set_bool (Some NotSet) b = b" "set_bool (bool_option x) b = x" "set_bool (yes_if x) b = (x \<or> b)" "set_bool (Some No) b = False"
  "set_bool (Some Yes) b = True"
  by (simp_all add: set_bool_def bool_option_def yes_if_def)

definition apply_view :: "OptionMessage \<Rightarrow> Options_View \<Rightarrow> Options_View" where
  "apply_view om v = \<lparr>v_keyboard_off = set_bool (om_disable_keyboard om) (v_keyboard_off v),
     v_remote_cursor = set_bool (om_show_remote_cursor om) (v_remote_cursor v),
     v_my_cursor = set_bool (om_show_my_cursor om) (v_my_cursor v),
     v_follow_cursor = set_bool (om_follow_remote_cursor om) (v_follow_cursor v),
     v_follow_window = set_bool (om_follow_remote_window om) (v_follow_window v),
     v_lock = set_bool (om_lock_after_session_end om) (v_lock v),
     v_audio_off = set_bool (om_disable_audio om) (v_audio_off v),
     v_files = set_bool (om_enable_file_transfer om) (v_files v),
     v_clipboard_off = set_bool (om_disable_clipboard om) (v_clipboard_off v)\<rparr>"

lemma host_view_when_set:
  "host_view (conn (when_set q f s)) = (case q of Some Yes \<Rightarrow> host_view (conn (f True s)) | Some No \<Rightarrow> host_view (conn (f False s)) | _ \<Rightarrow> host_view (conn s))"
  by (simp add: when_set_def split: option.split BoolOption.split)

text \<open>The subscriptions that follow a change leave the connection alone.\<close>

lemma conn_subscriptions [simp]:
  "conn (sub_audio s) = conn s" "conn (sub_file_clipboard s) = conn s" "conn (sub_clipboard s) = conn s"
  by (simp_all add: sub_audio_def sub_file_clipboard_def sub_clipboard_def)

lemma host_view_update_options: "host_view (conn (update_options h om s)) = apply_view om (host_view (conn s))"
proof -
  have parts:
    "host_view (conn (opt_quality h om t)) = host_view (conn t)" "host_view (conn (opt_fps om t)) = host_view (conn t)"
    "host_view (conn (opt_decoding om t)) = host_view (conn t)" "host_view (conn (opt_privacy h om t)) = host_view (conn t)"
    "host_view (conn (opt_block_input om t)) = host_view (conn t)" "host_view (conn (opt_terminal om t)) = host_view (conn t)"
    "host_view (conn (when_set (om_lock_after_session_end om) (\<lambda>b. upd_conn (\<lambda>c. c\<lparr>lock_after_session_end := b\<rparr>)) t))
       = (host_view (conn t))\<lparr>v_lock := set_bool (om_lock_after_session_end om) (v_lock (host_view (conn t)))\<rparr>"
    "host_view (conn (opt_cursor om t)) = (host_view (conn t))\<lparr>v_remote_cursor := set_bool (om_show_remote_cursor om) (v_remote_cursor (host_view (conn t)))\<rparr>"
    "host_view (conn (opt_follow om t)) = (host_view (conn t))\<lparr>v_follow_cursor := set_bool (om_follow_remote_cursor om) (v_follow_cursor (host_view (conn t))),
       v_follow_window := set_bool (om_follow_remote_window om) (v_follow_window (host_view (conn t)))\<rparr>"
    "host_view (conn (opt_audio om t)) = (host_view (conn t))\<lparr>v_audio_off := set_bool (om_disable_audio om) (v_audio_off (host_view (conn t)))\<rparr>"
    "host_view (conn (opt_file_transfer om t)) = (host_view (conn t))\<lparr>v_files := set_bool (om_enable_file_transfer om) (v_files (host_view (conn t)))\<rparr>"
    "host_view (conn (opt_clipboard om t)) = (host_view (conn t))\<lparr>v_clipboard_off := set_bool (om_disable_clipboard om) (v_clipboard_off (host_view (conn t)))\<rparr>"
    "host_view (conn (opt_keyboard om t)) = (host_view (conn t))\<lparr>v_keyboard_off := set_bool (om_disable_keyboard om) (v_keyboard_off (host_view (conn t)))\<rparr>"
    "host_view (conn (opt_my_cursor h om t)) = (host_view (conn t))\<lparr>v_my_cursor := set_bool (om_show_my_cursor om) (v_my_cursor (host_view (conn t)))\<rparr>" for t
    by (simp_all add: opt_quality_def opt_fps_def opt_decoding_def opt_privacy_def opt_block_input_def opt_terminal_def opt_cursor_def
        opt_follow_def opt_audio_def opt_file_transfer_def opt_clipboard_def opt_keyboard_def opt_my_cursor_def
        when_set_def host_view_def set_bool_def Let_def split: option.split BoolOption.split)
  show ?thesis
    unfolding update_options_def parts apply_view_def by (cases "host_view (conn s)") simp
qed

section \<open>Agreement after the login\<close>

lemma login_agrees:
  assumes "host_view (conn s) = host_view (connection_new h' inn cp s1 s2 st)"
    and "pc_show_my_cursor (lh_config l) \<Longrightarrow> PeerConfig.view_only (lh_config l)"
  shows "host_view (conn (update_options h (toggle_options e l m) s)) = client_view (lh_config l)"
  using assms unfolding host_view_update_options
  by (auto simp: apply_view_def toggle_options_def get_toggle_option_def client_view_def host_view_def connection_new_def Let_def)

section \<open>Toggling\<close>

text \<open>What the user interface offers: in view-only mode the options that the mode decides are disabled,
  and showing one's own cursor is offered in that mode only.\<close>

definition offered :: "string \<Rightarrow> PeerConfig \<Rightarrow> bool" where
  "offered nm c \<longleftrightarrow>
    (if PeerConfig.view_only c then nm \<notin> {''show-remote-cursor'', ''disable-clipboard'', ''lock-after-session-end'', ''enable-file-copy-paste''}
     else nm \<noteq> ''show-my-cursor'')"

definition cursor_ok :: "PeerConfig \<Rightarrow> bool" where
  "cursor_ok c \<longleftrightarrow> (pc_show_my_cursor c \<longrightarrow> PeerConfig.view_only c)"

lemma toggled_names:
  "toggled l ''show-remote-cursor'' c = Some (c\<lparr>pc_show_remote_cursor := \<not> pc_show_remote_cursor c\<rparr>, option_message_new\<lparr>om_show_remote_cursor := bool_option (\<not> pc_show_remote_cursor c)\<rparr>)"
  "toggled l ''follow-remote-cursor'' c = Some (c\<lparr>pc_follow_remote_cursor := \<not> pc_follow_remote_cursor c\<rparr>, option_message_new\<lparr>om_follow_remote_cursor := bool_option (\<not> pc_follow_remote_cursor c)\<rparr>)"
  "toggled l ''follow-remote-window'' c = Some (c\<lparr>pc_follow_remote_window := \<not> pc_follow_remote_window c\<rparr>, option_message_new\<lparr>om_follow_remote_window := bool_option (\<not> pc_follow_remote_window c)\<rparr>)"
  "toggled l ''disable-audio'' c = Some (c\<lparr>pc_disable_audio := \<not> pc_disable_audio c\<rparr>, option_message_new\<lparr>om_disable_audio := bool_option (\<not> pc_disable_audio c)\<rparr>)"
  "toggled l ''disable-clipboard'' c = Some (c\<lparr>pc_disable_clipboard := \<not> pc_disable_clipboard c\<rparr>, option_message_new\<lparr>om_disable_clipboard := bool_option (\<not> pc_disable_clipboard c)\<rparr>)"
  "toggled l ''lock-after-session-end'' c = Some (c\<lparr>pc_lock_after_session_end := \<not> pc_lock_after_session_end c\<rparr>, option_message_new\<lparr>om_lock_after_session_end := bool_option (\<not> pc_lock_after_session_end c)\<rparr>)"
  "toggled l ''terminal-persistent'' c = Some (c\<lparr>pc_terminal_persistent := \<not> pc_terminal_persistent c\<rparr>, option_message_new\<lparr>om_terminal_persistent := bool_option (\<not> pc_terminal_persistent c)\<rparr>)"
  "toggled l ''enable-file-copy-paste'' c = Some (c\<lparr>enable_file_copy_paste := \<not> enable_file_copy_paste c\<rparr>, option_message_new\<lparr>om_enable_file_transfer := bool_option (\<not> enable_file_copy_paste c)\<rparr>)"
  "toggled l ''show-my-cursor'' c = Some (c\<lparr>pc_show_my_cursor := \<not> pc_show_my_cursor c\<rparr>, option_message_new\<lparr>om_show_my_cursor := bool_option (\<not> pc_show_my_cursor c)\<rparr>)"
  "toggled l ''privacy-mode'' c = Some (c, option_message_new\<lparr>om_privacy_mode := bool_option (\<not> pc_privacy_mode c)\<rparr>)"
  "toggled l ''block-input'' c = Some (c, option_message_new\<lparr>om_block_input := Some Yes\<rparr>)"
  "toggled l ''unblock-input'' c = Some (c, option_message_new\<lparr>om_block_input := Some No\<rparr>)"
  "toggled l ''show-quality-monitor'' c = Some (c\<lparr>show_quality_monitor := \<not> show_quality_monitor c\<rparr>, option_message_new)"
  "toggled l ''allow_swap_key'' c = Some (c\<lparr>allow_swap_key := \<not> allow_swap_key c\<rparr>, option_message_new)"
  "toggled l ''view-only'' c = Some (toggle_view_only l c)"
  by (simp_all add: toggled_def Let_def)

definition toggle_names :: "string list" where
  "toggle_names = [''show-remote-cursor'', ''follow-remote-cursor'', ''follow-remote-window'', ''disable-audio'', ''disable-clipboard'', ''lock-after-session-end'', ''terminal-persistent'', ''enable-file-copy-paste'', ''show-my-cursor'', ''privacy-mode'', ''block-input'', ''unblock-input'', ''show-quality-monitor'', ''allow_swap_key'', ''view-only'']"

lemma toggled_named: "toggled l nm c = Some r \<Longrightarrow> nm \<in> set toggle_names"
  by (rule ccontr) (simp add: toggled_def toggle_names_def Let_def)

lemma toggled_name_cases:
  assumes "toggled l nm c = Some r"
  shows "nm = ''show-remote-cursor'' \<or> nm = ''follow-remote-cursor'' \<or> nm = ''follow-remote-window'' \<or> nm = ''disable-audio'' \<or> nm = ''disable-clipboard'' \<or> nm = ''lock-after-session-end'' \<or> nm = ''terminal-persistent'' \<or> nm = ''enable-file-copy-paste'' \<or> nm = ''show-my-cursor'' \<or> nm = ''privacy-mode'' \<or> nm = ''block-input'' \<or> nm = ''unblock-input'' \<or> nm = ''show-quality-monitor'' \<or> nm = ''allow_swap_key'' \<or> nm = ''view-only''"
  using toggled_named [OF assms] by (simp add: toggle_names_def)

lemma apply_neutral [simp]:
  "apply_view option_message_new v = v" "apply_view (option_message_new\<lparr>om_privacy_mode := q\<rparr>) v = v"
  "apply_view (option_message_new\<lparr>om_block_input := q\<rparr>) v = v"
  by (simp_all add: apply_view_def option_message_new_def)

lemma client_view_neutral [simp]:
  "client_view (c\<lparr>show_quality_monitor := b\<rparr>) = client_view c" "client_view (c\<lparr>allow_swap_key := b\<rparr>) = client_view c"
  by (simp_all add: client_view_def)

lemma apply_toggle:
  "\<not> PeerConfig.view_only c \<Longrightarrow> apply_view (option_message_new\<lparr>om_show_remote_cursor := bool_option (\<not> pc_show_remote_cursor c)\<rparr>) (client_view c) = client_view (c\<lparr>pc_show_remote_cursor := \<not> pc_show_remote_cursor c\<rparr>)"
  "apply_view (option_message_new\<lparr>om_follow_remote_cursor := bool_option (\<not> pc_follow_remote_cursor c)\<rparr>) (client_view c) = client_view (c\<lparr>pc_follow_remote_cursor := \<not> pc_follow_remote_cursor c\<rparr>)"
  "apply_view (option_message_new\<lparr>om_follow_remote_window := bool_option (\<not> pc_follow_remote_window c)\<rparr>) (client_view c) = client_view (c\<lparr>pc_follow_remote_window := \<not> pc_follow_remote_window c\<rparr>)"
  "apply_view (option_message_new\<lparr>om_disable_audio := bool_option (\<not> pc_disable_audio c)\<rparr>) (client_view c) = client_view (c\<lparr>pc_disable_audio := \<not> pc_disable_audio c\<rparr>)"
  "\<not> PeerConfig.view_only c \<Longrightarrow> apply_view (option_message_new\<lparr>om_disable_clipboard := bool_option (\<not> pc_disable_clipboard c)\<rparr>) (client_view c) = client_view (c\<lparr>pc_disable_clipboard := \<not> pc_disable_clipboard c\<rparr>)"
  "\<not> PeerConfig.view_only c \<Longrightarrow> apply_view (option_message_new\<lparr>om_lock_after_session_end := bool_option (\<not> pc_lock_after_session_end c)\<rparr>) (client_view c) = client_view (c\<lparr>pc_lock_after_session_end := \<not> pc_lock_after_session_end c\<rparr>)"
  "apply_view (option_message_new\<lparr>om_terminal_persistent := bool_option (\<not> pc_terminal_persistent c)\<rparr>) (client_view c) = client_view (c\<lparr>pc_terminal_persistent := \<not> pc_terminal_persistent c\<rparr>)"
  "\<not> PeerConfig.view_only c \<Longrightarrow> apply_view (option_message_new\<lparr>om_enable_file_transfer := bool_option (\<not> enable_file_copy_paste c)\<rparr>) (client_view c) = client_view (c\<lparr>enable_file_copy_paste := \<not> enable_file_copy_paste c\<rparr>)"
  "apply_view (option_message_new\<lparr>om_show_my_cursor := bool_option (\<not> pc_show_my_cursor c)\<rparr>) (client_view c) = client_view (c\<lparr>pc_show_my_cursor := \<not> pc_show_my_cursor c\<rparr>)"
  by (simp_all add: client_view_def apply_view_def option_message_new_def)

lemma apply_view_only:
  assumes "lh_config l = c" and "cursor_ok c"
  shows "apply_view (snd (toggle_view_only l c)) (client_view c) = client_view (fst (toggle_view_only l c))"
    and "cursor_ok (fst (toggle_view_only l c))"
  using assms
  by (simp_all add: toggle_view_only_def get_toggle_option_def cursor_ok_def client_view_def apply_view_def option_message_new_def Let_def)

lemma toggled_agrees:
  assumes "toggled l nm c = Some (c1, m)" and "lh_config l = c" and "offered nm c" and "cursor_ok c"
  shows "apply_view m (client_view c) = client_view c1 \<and> cursor_ok c1"
proof -
  note n = toggled_name_cases [OF assms(1)]
  have vo: "(c1, m) = toggle_view_only l c \<Longrightarrow> ?thesis"
    using apply_view_only [OF assms(2,4)] by (metis fst_conv snd_conv)
  from n show ?thesis
    by (elim disjE; use assms(1,3,4) vo in \<open>simp only: toggled_names option.inject prod.inject; auto simp: offered_def cursor_ok_def apply_toggle split: if_splits\<close>)
qed

lemma toggled_storable:
  assumes "toggled l nm c = Some (c1, m)" and "peer_storable e c"
  shows "peer_storable e c1"
proof -
  have st: "peer_storable e (c\<lparr>pc_show_remote_cursor := b\<rparr>)" "peer_storable e (c\<lparr>pc_follow_remote_cursor := b\<rparr>)"
    "peer_storable e (c\<lparr>pc_follow_remote_window := b\<rparr>)" "peer_storable e (c\<lparr>pc_disable_audio := b\<rparr>)"
    "peer_storable e (c\<lparr>pc_disable_clipboard := b\<rparr>)" "peer_storable e (c\<lparr>pc_lock_after_session_end := b\<rparr>)"
    "peer_storable e (c\<lparr>pc_terminal_persistent := b\<rparr>)" "peer_storable e (c\<lparr>enable_file_copy_paste := b\<rparr>)"
    "peer_storable e (c\<lparr>pc_show_my_cursor := b\<rparr>)" "peer_storable e (c\<lparr>show_quality_monitor := b\<rparr>)"
    "peer_storable e (c\<lparr>allow_swap_key := b\<rparr>)" for b
    using assms(2) by (cases c; simp add: peer_storable_def deserialized_def)+
  have "peer_storable e (fst (toggle_view_only l c))"
    using assms(2) by (cases c) (simp add: peer_storable_def deserialized_def toggle_view_only_def Let_def)
  then have vo: "(c1, m) = toggle_view_only l c \<Longrightarrow> ?thesis"
    by (metis fst_conv)
  from toggled_name_cases [OF assms(1)] show ?thesis
    by (elim disjE; use assms vo in \<open>simp only: toggled_names option.inject prod.inject; auto simp: st\<close>)
qed

text \<open>The file and the configuration in memory are the same, and can be written again.\<close>

definition coherent :: "ClientEnv \<Rightarrow> Client \<Rightarrow> bool" where
  "coherent e c \<longleftrightarrow> crypto_ok (pe_crypto (ce_peer e)) \<and> peer_storable (ce_peer e) (lh_config (lch c))
     \<and> peer_load (ce_peer e) (lh_id (lch c)) (disk c) = (disk c, lh_config (lch c))"

lemma coherent_load: "coherent e c \<Longrightarrow> load_config e c = (c, lh_config (lch c))"
  by (simp add: coherent_def load_config_def)

lemma coherent_save:
  assumes "crypto_ok (pe_crypto (ce_peer e))" and "peer_storable (ce_peer e) d"
  shows "coherent e (save_config e d c)"
  using assms peer_load_store [OF assms] by (simp add: coherent_def save_config_def)

lemma storable_Y: "storable cr ENCRYPT_MAX_LEN ''Y''"
  by (simp add: storable_def ENCRYPT_MAX_LEN_def is_encrypted_def VERSION_LEN_def utf8_head_def utf8_follow_def char_code_def)

lemma storable_options:
  assumes "peer_storable e c"
  shows "peer_storable e (c\<lparr>pc_options := hm_insert nm ''Y'' (pc_options c)\<rparr>)" "peer_storable e (c\<lparr>pc_options := hm_remove nm (pc_options c)\<rparr>)"
proof -
  have os: "wf_map (pc_options c)" "list_all (\<lambda>(k, v). k \<in> set SECRET_OPTIONS \<longrightarrow> storable (pe_crypto e) ENCRYPT_MAX_LEN v) (pc_options c)"
    using assms by (simp_all add: peer_storable_def)
  have "list_all (\<lambda>(k, v). k \<in> set SECRET_OPTIONS \<longrightarrow> storable (pe_crypto e) ENCRYPT_MAX_LEN v) (hm_insert nm ''Y'' (pc_options c))"
    using os(2) by (rule list_all_insert) (simp add: storable_Y)
  moreover have "list_all (\<lambda>(k, v). k \<in> set SECRET_OPTIONS \<longrightarrow> storable (pe_crypto e) ENCRYPT_MAX_LEN v) (hm_remove nm (pc_options c))"
    using os(2) by (auto simp: list_all_iff set_hm_remove)
  ultimately show "peer_storable e (c\<lparr>pc_options := hm_insert nm ''Y'' (pc_options c)\<rparr>)" "peer_storable e (c\<lparr>pc_options := hm_remove nm (pc_options c)\<rparr>)"
    using assms os(1) by (cases c; simp add: peer_storable_def deserialized_def wf_map_insert wf_map_remove)+
qed

lemma toggle_cases:
  assumes "coherent e c" and "cursor_ok (lh_config (lch c))" and "toggle_option e nm c = (c1, msg)"
  obtains (other) d where "c1 = save_config e d c" "msg = None" "peer_storable (ce_peer e) d"
      "client_view d = client_view (lh_config (lch c))" "cursor_ok d"
    | (input) m where "toggled (lch c) nm (lh_config (lch c)) = Some (lh_config (lch c), m)" "lch c1 = lch c" "disk c1 = disk c"
        "msg = Some (MiscMsg (MOption m))"
    | (saved) d m where "toggled (lch c) nm (lh_config (lch c)) = Some (d, m)" "lch c1 = lch (save_config e d c)"
        "disk c1 = disk (save_config e d c)" "msg = Some (MiscMsg (MOption m))"
proof -
  let ?d = "lh_config (lch c)"
  have st: "peer_storable (ce_peer e) ?d"
    using assms(1) by (simp add: coherent_def)
  show ?thesis
  proof (cases "toggled (lch c) nm ?d")
    case None
    define b where "b = (case hm_get (pc_options ?d) nm of Some v \<Rightarrow> v \<noteq> [] | None \<Rightarrow> False)"
    define d where "d = ?d\<lparr>pc_options := (if b then hm_remove nm (pc_options ?d) else hm_insert nm ''Y'' (pc_options ?d))\<rparr>"
    have "peer_storable (ce_peer e) d" "client_view d = client_view ?d" "cursor_ok d"
      using storable_options [OF st] assms(2) by (simp_all add: d_def client_view_def cursor_ok_def)
    moreover have "c1 = save_config e d c" "msg = None"
      using assms(3) None by (simp_all add: toggle_option_def coherent_load [OF assms(1)] d_def b_def Let_def)
    ultimately show ?thesis using other by blast
  next
    case (Some r)
    obtain d m where r: "r = (d, m)" by (cases r)
    show ?thesis
    proof (cases "nm = ''block-input'' \<or> nm = ''unblock-input''")
      case True
      then have "d = ?d"
        using Some r by (auto simp: toggled_names)
      then show ?thesis
        using input [of m] Some r assms(3) True by (auto simp: toggle_option_def coherent_load [OF assms(1)] Let_def)
    next
      case False
      have "lch (save_config e d (put_out y c)) = lch (save_config e d c)" "disk (save_config e d (put_out y c)) = disk (save_config e d c)" for y
        by (simp_all add: save_config_def)
      then show ?thesis
        using saved [of d m] Some r assms(3) False by (auto simp: toggle_option_def coherent_load [OF assms(1)] Let_def)
    qed
  qed
qed

text \<open>One toggle: it stays coherent, and the message takes the client's old view to its new one.\<close>

lemma toggle_agrees:
  assumes "coherent e c" and "cursor_ok (lh_config (lch c))" and "toggle_option e nm c = (c1, msg)"
  shows "coherent e c1"
    and "msg = None \<Longrightarrow> client_view (lh_config (lch c1)) = client_view (lh_config (lch c)) \<and> cursor_ok (lh_config (lch c1))"
    and "msg = Some x \<Longrightarrow> offered nm (lh_config (lch c)) \<Longrightarrow> \<exists>m. x = MiscMsg (MOption m)
      \<and> apply_view m (client_view (lh_config (lch c))) = client_view (lh_config (lch c1)) \<and> cursor_ok (lh_config (lch c1))"
proof -
  let ?d = "lh_config (lch c)"
  have cr: "crypto_ok (pe_crypto (ce_peer e))" "peer_storable (ce_peer e) ?d"
    using assms(1) by (simp_all add: coherent_def)
  have coh: "coherent e t \<Longrightarrow> lch u = lch t \<Longrightarrow> disk u = disk t \<Longrightarrow> coherent e u" for t u
    by (simp add: coherent_def)
  show "coherent e c1"
    using assms
  proof (cases rule: toggle_cases)
    case saved
    then show ?thesis
      using coh [OF coherent_save [OF cr(1) toggled_storable [OF saved(1) cr(2)]]] by blast
  qed (use coherent_save cr assms(1) coh in blast)+
  show "msg = None \<Longrightarrow> client_view (lh_config (lch c1)) = client_view ?d \<and> cursor_ok (lh_config (lch c1))"
    using assms by (cases rule: toggle_cases) simp_all
  show "\<exists>m. x = MiscMsg (MOption m) \<and> apply_view m (client_view ?d) = client_view (lh_config (lch c1)) \<and> cursor_ok (lh_config (lch c1))"
    if "msg = Some x" "offered nm ?d"
    using assms
  proof (cases rule: toggle_cases)
    case (input m)
    then show ?thesis
      using that toggled_agrees [OF input(1) refl that(2) assms(2)] by auto
  next
    case (saved d m)
    then show ?thesis
      using that toggled_agrees [OF saved(1) refl that(2) assms(2)] by auto
  qed (use that in simp)
qed

section \<open>Sessions\<close>

text \<open>A session from a client and a connection: toggles that the interface offers, whose messages the
  host handles; other toggles that are local; and anything on the host that leaves its view alone.\<close>

inductive session :: "ClientEnv \<Rightarrow> Client \<Rightarrow> CS \<Rightarrow> Client \<Rightarrow> CS \<Rightarrow> bool" for e c s where
  start: "session e c s c s"
| told: "session e c s c1 s1 \<Longrightarrow> offered nm (lh_config (lch c1)) \<Longrightarrow> toggle_option e nm c1 = (c2, Some (MiscMsg misc))
    \<Longrightarrow> session e c s c2 (fst (on_misc h misc s1))"
| kept: "session e c s c1 s1 \<Longrightarrow> toggle_option e nm c1 = (c2, None) \<Longrightarrow> session e c s c2 s1"
| other: "session e c s c1 s1 \<Longrightarrow> host_view (conn s2) = host_view (conn s1) \<Longrightarrow> session e c s c1 s2"

lemma session_agrees:
  assumes "session e c s c' s'" and "coherent e c" and "cursor_ok (lh_config (lch c))"
    and "host_view (conn s) = client_view (lh_config (lch c))"
  shows "coherent e c' \<and> cursor_ok (lh_config (lch c')) \<and> host_view (conn s') = client_view (lh_config (lch c'))"
  using assms
proof induction
  case (told c1 s1 nm c2 misc h)
  then have IH: "coherent e c1" "cursor_ok (lh_config (lch c1))" "host_view (conn s1) = client_view (lh_config (lch c1))"
    by simp_all
  from toggle_agrees(3) [OF IH(1,2) told.hyps(3) refl told.hyps(2)] obtain m
    where m: "misc = MOption m" "apply_view m (client_view (lh_config (lch c1))) = client_view (lh_config (lch c2))"
      "cursor_ok (lh_config (lch c2))"
    by auto
  then show ?case
    using toggle_agrees(1) [OF IH(1,2) told.hyps(3)] IH(3) by (simp add: on_misc_def host_view_update_options)
next
  case (kept c1 s1 nm c2)
  then show ?case
    using toggle_agrees(1,2) [of e c1 nm c2 None] by simp
qed simp_all

text \<open>The options sent with the login.\<close>

lemma login_message:
  assumes "coherent e c" and "conn_type (lch c) = DEFAULT_CONN \<or> conn_type (lch c) = VIEW_CAMERA"
    and "get_option_message e b c = (c0, Some om)"
  shows "coherent e c0 \<and> lh_config (lch c0) = lh_config (lch c) \<and> (\<exists>m. om = toggle_options e (lch c0) m)"
proof -
  obtain c1 m where q: "quality_options e b c = (c1, m)" by (metis surj_pair)
  have c0: "c0 = c1" "om = toggle_options e (lch c1) m"
    using assms(2,3) q by (auto simp: get_option_message_def)
  have same: "lh_config (lch c1) = lh_config (lch c)" "lh_id (lch c1) = lh_id (lch c)"
    using but_fps_D(1,2) [OF quality_options_keeps(2) [of e b c]] q by simp_all
  moreover have "disk c1 = disk c"
    using q coherent_load [OF assms(1)]
    by (auto simp: quality_options_def Let_def split: option.splits if_splits)
  ultimately show ?thesis
    using assms(1) by (auto simp: c0 coherent_def)
qed



end
