(* ===== verification/Rendezvous.thy ===== *)
theory Rendezvous
  imports Config_Store Host_Server Ip_Text "HOL-Library.Signed_Division" "HOL-Library.Sublist"
begin

text \<open>
  \<open>rendezvous_mediator.rs\<close>: the host keeps itself registered at the rendezvous server, over UDP or over
  a stream, and opens connections to the peers the server announces.  With it the parts of
  \<open>config.rs\<close> for the identity of the machine (\<open>get_id\<close>, \<open>update_id\<close>, \<open>get_key_pair\<close>, \<open>update_latency\<close>)
  and the host and port texts of \<open>socket_client.rs\<close>.  Times are microseconds of a monotonic clock, and
  \<open>elapsed\<close> is a difference of natural numbers, as \<open>Instant::elapsed\<close> saturates at zero.  The globals of
  the file and of the configuration are the record \<open>RzGlobals\<close>; what sockets, the system and random
  generators answer at one step is the record \<open>RzHost\<close>.
\<close>

section \<open>Hosts and ports\<close>

definition RENDEZVOUS_PORT :: int where "RENDEZVOUS_PORT = 21116"
definition RELAY_PORT :: int where "RELAY_PORT = 21117"
definition CONNECT_TIMEOUT :: nat where "CONNECT_TIMEOUT = 18000"
definition REG_INTERVAL :: int where "REG_INTERVAL = 15000"
definition DEFAULT_KEEP_ALIVE :: int where "DEFAULT_KEEP_ALIVE = 60000"
definition FORCED_RENDEZVOUS_SERVER :: string where "FORCED_RENDEZVOUS_SERVER = ''api.seedesktop.com''"
definition FORCED_RELAY_SERVER :: string where "FORCED_RELAY_SERVER = ''api.seedesktop.com''"
definition SERIAL :: int where "SERIAL = 3"

definition check_port :: "string \<Rightarrow> int \<Rightarrow> string" where
  "check_port host port =
    (if is_ipv6_str host then
       (if starts_with ''['' host then host else ''['' @ host @ '']:'' @ show_int port)
     else if CHR '':'' \<notin> set host then host @ '':'' @ show_int port
     else host)"

text \<open>\<open>split("]:")\<close>.\<close>

fun split_bracket :: "string \<Rightarrow> string list" where
  "split_bracket [] = [[]]"
| "split_bracket (c # cs) =
    (if c = CHR '']'' \<and> cs \<noteq> [] \<and> hd cs = CHR '':'' then [] # split_bracket (tl cs)
     else case split_bracket cs of [] \<Rightarrow> [[c]] | p # ps \<Rightarrow> (c # p) # ps)"

definition increased :: "string list \<Rightarrow> string \<Rightarrow> int \<Rightarrow> string \<Rightarrow> string" where
  "increased tmp sep offset host = (case tmp of
     [a, b] \<Rightarrow> (let port = unwrap_or 0 (parse_i32 b) in
                 if port > 0 then a @ sep @ show_int (wrap32 (port + offset)) else host)
   | _ \<Rightarrow> host)"

definition increase_port :: "string \<Rightarrow> int \<Rightarrow> string" where
  "increase_port host offset =
    (if is_ipv6_str host then
       (if starts_with ''['' host then increased (split_bracket host) '']:'' offset host else host)
     else if CHR '':'' \<in> set host then increased (split_on CHR '':'' host) '':'' offset host
     else host)"

definition get_host_prefix :: "string \<Rightarrow> string" where
  "get_host_prefix host = (case split_on CHR ''.'' host of
     x # _ \<Rightarrow> if parse_i32 x \<noteq> None then host else x | [] \<Rightarrow> host)"

section \<open>Messages and state\<close>

datatype TargetAddr = TargetIp SocketAddr | TargetDomain string u16

fun is_ipv4 :: "TargetAddr \<Rightarrow> bool" where
  "is_ipv4 (TargetIp (V4 _ _)) = True"
| "is_ipv4 (TargetIp (V6 _ _ _ _)) = False"
| "is_ipv4 (TargetDomain _ _) = True"

fun sa_port :: "SocketAddr \<Rightarrow> u16" where
  "sa_port (V4 _ p) = p"
| "sa_port (V6 _ p _ _) = p"

fun set_port :: "u16 \<Rightarrow> SocketAddr \<Rightarrow> SocketAddr" where
  "set_port p (V4 i _) = V4 i p"
| "set_port p (V6 i _ f s) = V6 i p f s"

record PunchHole =
  ph_socket_addr :: bytes
  ph_relay_server :: string
  ph_nat_type :: int
  ph_udp_port :: int
  ph_force_relay :: bool
  ph_socket_addr_v6 :: bytes
  ph_control_permissions :: "u64 option"

record RequestRelay =
  rr_socket_addr :: bytes
  rr_relay_server :: string
  rr_uuid :: string
  rr_secure :: bool
  rr_control_permissions :: "u64 option"

record FetchLocalAddr =
  fla_socket_addr :: bytes
  fla_relay_server :: string
  fla_socket_addr_v6 :: bytes
  fla_control_permissions :: "u64 option"

text \<open>What the server sends; \<open>RegisterPkResponse\<close> has the number of its result (0 OK, 2 UUID_MISMATCH) and
  the keep-alive time.\<close>

datatype RzUnion =
    RegisterPeerResponse bool
  | RegisterPkResponse int int
  | PunchHoleMsg PunchHole
  | RequestRelayMsg RequestRelay
  | FetchLocalAddrMsg FetchLocalAddr
  | ConfigureUpdate int
  | RzOther

record PunchHoleSent =
  phs_socket_addr :: bytes
  phs_id :: string
  phs_relay_server :: string
  phs_nat_type :: int
  phs_socket_addr_v6 :: bytes

text \<open>What the host sends, without the version and the fields left at their defaults.\<close>

datatype RzMsg =
    RegisterPk string string string bool
  | RegisterPeer string int
  | RelayResponse bytes string string "string option" bytes
  | LocalAddrMsg string bytes bytes string bytes
  | PunchHoleSentMsg PunchHoleSent
  | RelayRequest string string

record RendezvousMediator =
  rz_addr :: TargetAddr
  rz_host :: string
  host_prefix :: string
  keep_alive :: int

datatype RzTask =
    PunchHoleTask PunchHole
  | RelayTask RequestRelay
  | IntranetTask FetchLocalAddr

text \<open>\<open>AcceptOn\<close> stands for a listener on the address of a stream that was just closed, which waits for the
  peer; \<open>UdpListen\<close> for a hole punched by datagrams; \<open>Stream\<close> for a stream to the relay.\<close>

datatype RzOut =
    ToServer RzMsg
  | Heartbeat
  | ToRendezvous string RzMsg
  | UdpToRendezvous string RzMsg
  | ToRelay string bool RzMsg
  | PunchTcp SocketAddr
  | AcceptOn SocketAddr SocketAddr bool "u64 option"
  | UdpListen SocketAddr SocketAddr "u64 option"
  | RelayStream SocketAddr bool "u64 option"
  | Spawn RendezvousMediator RzTask
  | SaveKeyPair "string \<times> string"

record RzGlobals =
  rz_store :: Store
  key_cache :: "(string \<times> string) option"
  online :: "(string, int) hashmap"
  solving_pk_mismatch :: string
  last_msg :: "SocketAddr \<times> nat"
  last_relay_msg :: "SocketAddr \<times> nat"
  should_exit :: bool
  manual_restarted :: bool
  sent_register_pk :: bool
  rz_outs :: "RzOut list"

record RzHost =
  rh_env :: Env
  rh_time :: nat
  rh_hostname :: "string option"
  rh_mac :: "bytes option"
  rh_new_id :: nat
  rh_keypair :: "string \<times> string"
  rh_machine_uuid :: string
  rh_send :: "string option"
  rh_connect :: "string + SocketAddr"
  rh_local_parse :: "SocketAddr \<Rightarrow> string + SocketAddr"
  rh_relay_connect :: "string + unit"
  rh_relay_send :: "string option"
  rh_direct_udp :: "string option"
  rh_ipv6 :: "bytes option"
  rh_uuid :: string
  rh_mangle_tm :: u32
  rh_key :: string
  rh_rebind :: "string + (TargetAddr option)"

definition put :: "RzOut \<Rightarrow> RzGlobals \<Rightarrow> RzGlobals" where
  "put x g = g\<lparr>rz_outs := rz_outs g @ [x]\<rparr>"

section \<open>The identity of the machine\<close>

text \<open>\<open>get_auto_id\<close>: the last four bytes of the hardware address, 29 bits of them.\<close>

definition get_auto_id :: "bytes option \<Rightarrow> string option" where
  "get_auto_id mac = map_option (\<lambda>ma.
     show_nat (unat (fold (\<lambda>x i. push_bit 8 i OR ucast x) (drop 2 ma) (0 :: u32) AND 0x1FFFFFFF))) mac"

definition gen_id :: "RzHost \<Rightarrow> Store \<Rightarrow> string option" where
  "gen_id h st =
    (if (case hm_get (builtin_settings st) ''allow-hostname-as-id'' of
           Some v \<Rightarrow> option2bool ''allow-hostname-as-id'' v | None \<Rightarrow> False)
     then (case rh_hostname h of
             Some n \<Rightarrow> Some (map (\<lambda>c. if c = CHR '' '' then CHR ''-'' else c) n)
           | None \<Rightarrow> get_auto_id (rh_mac h))
     else get_auto_id (rh_mac h))"

definition get_id :: "RzHost \<Rightarrow> RzGlobals \<Rightarrow> RzGlobals \<times> string" where
  "get_id h g =
    (let i = cfg_id (config (rz_store g)) in
     if i = [] then
       (case gen_id h (rz_store g) of
          Some tmp \<Rightarrow> (g\<lparr>rz_store := set_id (rh_env h) tmp (rz_store g)\<rparr>, tmp)
        | None \<Rightarrow> (g, i))
     else (g, i))"

definition update_id :: "RzHost \<Rightarrow> RzGlobals \<Rightarrow> RzGlobals" where
  "update_id h g =
    (let g1 = fst (get_id h g); new_id = show_nat (1000000000 + rh_new_id h mod 1000000000)
     in g1\<lparr>rz_store := set_id (rh_env h) new_id (rz_store g1)\<rparr>)"

text \<open>\<open>get_key_pair\<close>: the cached pair, or the one of the file, or a new one that another thread saves.\<close>

definition get_key_pair :: "RzHost \<Rightarrow> RzGlobals \<Rightarrow> RzGlobals \<times> (string \<times> string)" where
  "get_key_pair h g = (case key_cache g of
     Some p \<Rightarrow> (g, p)
   | None \<Rightarrow>
       (let kp = key_pair (conf_file (rz_store g)) in
        if fst kp = [] then (put (SaveKeyPair (rh_keypair h)) (g\<lparr>key_cache := Some (rh_keypair h)\<rparr>), rh_keypair h)
        else (g\<lparr>key_cache := Some kp\<rparr>, kp)))"

definition save_key_pair :: "Env \<Rightarrow> string \<times> string \<Rightarrow> RzGlobals \<Rightarrow> RzGlobals" where
  "save_key_pair e kp g =
    g\<lparr>rz_store := config_store (crypto e) ((rz_store g)\<lparr>config := (config (rz_store g))\<lparr>key_pair := kp\<rparr>\<rparr>)\<rparr>"

definition best_host :: "(string, int) hashmap \<Rightarrow> string" where
  "best_host on = fst (fold (\<lambda>(th, td) (hst, delay). if 0 < td \<and> td < delay then (th, td) else (hst, delay)) on
     ([], 2 ^ 63 - 1))"

definition update_latency :: "Env \<Rightarrow> string \<Rightarrow> int \<Rightarrow> RzGlobals \<Rightarrow> RzGlobals" where
  "update_latency e host latency g =
    (let on = hm_insert host latency (online g); best = best_host on; st = rz_store g; g1 = g\<lparr>online := on\<rparr>
     in if best \<noteq> [] \<and> best \<noteq> rendezvous_server (config2 st)
        then g1\<lparr>rz_store := config2_store (crypto e) (st\<lparr>config2 := (config2 st)\<lparr>rendezvous_server := best\<rparr>\<rparr>)\<rparr>
        else g1)"

definition set_serial :: "Env \<Rightarrow> int \<Rightarrow> Store \<Rightarrow> Store" where
  "set_serial e n st =
    (if n = serial (config2 st) then st
     else config2_store (crypto e) (st\<lparr>config2 := (config2 st)\<lparr>serial := n\<rparr>\<rparr>))"

definition get_serial :: "Store \<Rightarrow> int" where
  "get_serial st = max (serial (config2 st)) SERIAL"

definition is_proxy :: "Store \<Rightarrow> bool" where
  "is_proxy st \<longleftrightarrow> get_network_type st \<noteq> Direct"

definition use_ws :: "Store \<Rightarrow> bool" where
  "use_ws st \<longleftrightarrow> option2bool ''allow-websocket'' (get_opt st ''allow-websocket'')"

definition is_disable_tcp_listen :: "Store \<Rightarrow> bool" where
  "is_disable_tcp_listen st \<longleftrightarrow> is_some_hard_opton st ''disable-tcp-listen''"

definition is_udp_disabled :: "Store \<Rightarrow> bool" where
  "is_udp_disabled st \<longleftrightarrow> get_opt st ''disable-udp'' = ''Y''"

definition using_public_server :: bool where
  "using_public_server = False"

section \<open>Registration\<close>

text \<open>A send through the sink; the error, if any, ends the caller.\<close>

definition sink_send :: "RzHost \<Rightarrow> RzMsg \<Rightarrow> RzGlobals \<Rightarrow> RzGlobals \<times> string option" where
  "sink_send h m g = (case rh_send h of None \<Rightarrow> (put (ToServer m) g, None) | Some e \<Rightarrow> (g, Some e))"

definition register_pk :: "RzHost \<Rightarrow> RzGlobals \<Rightarrow> RzGlobals \<times> string option" where
  "register_pk h g =
    (let (g1, kp) = get_key_pair h g; (g2, i) = get_id h g1
     in case sink_send h (RegisterPk i (rh_machine_uuid h) (snd kp) (no_register_device (rz_store g2))) g2 of
          (g3, None) \<Rightarrow> (g3\<lparr>sent_register_pk := True\<rparr>, None)
        | (g3, Some e) \<Rightarrow> (g3, Some e))"

definition handle_uuid_mismatch :: "RzHost \<Rightarrow> RendezvousMediator \<Rightarrow> RzGlobals \<Rightarrow> RzGlobals \<times> string option" where
  "handle_uuid_mismatch h rz g =
    (if solving_pk_mismatch g = [] \<or> solving_pk_mismatch g = rz_host rz then
       (let g1 = g\<lparr>rz_store := set_key_confirmed (rh_env h) False (rz_store g)\<rparr>;
            g2 = update_id h g1
        in register_pk h (g2\<lparr>solving_pk_mismatch := rz_host rz\<rparr>))
     else (g, None))"

definition register_peer :: "RzHost \<Rightarrow> RendezvousMediator \<Rightarrow> RzGlobals \<Rightarrow> RzGlobals \<times> string option" where
  "register_peer h rz g =
    (if \<not> (solving_pk_mismatch g = [] \<or> solving_pk_mismatch g = rz_host rz) then (g, None)
     else if \<not> key_confirmed (config (rz_store g)) \<or> \<not> get_host_key_confirmed (rz_store g) (host_prefix rz)
     then register_pk h g
     else let (g1, i) = get_id h g
          in sink_send h (RegisterPeer i (get_serial (rz_store g1))) g1)"

definition get_relay_server :: "RendezvousMediator \<Rightarrow> string \<Rightarrow> string" where
  "get_relay_server rz provided =
    (let r = FORCED_RELAY_SERVER; r1 = (if r = [] then provided else r)
     in if r1 = [] then increase_port (rz_host rz) 1 else r1)"

section \<open>Responses of the server\<close>

text \<open>\<open>upd\<close> is the closure \<open>update_latency\<close> of the loop, over the variables \<open>'l\<close> it captures.\<close>

definition pk_response ::
  "RzHost \<Rightarrow> int \<Rightarrow> RendezvousMediator \<Rightarrow> RzGlobals \<Rightarrow> RzGlobals \<times> string option" where
  "pk_response h result rz g =
    (if result = 0 then
       (let st1 = set_key_confirmed (rh_env h) True (rz_store g);
            st2 = set_host_key_confirmed (rh_env h) (host_prefix rz) True st1
        in (g\<lparr>rz_store := st2, solving_pk_mismatch := []\<rparr>, None))
     else if result = 2 then handle_uuid_mismatch h rz g
     else (g, None))"

definition handle_resp ::
  "RzHost \<Rightarrow> ('l \<times> RzGlobals \<Rightarrow> 'l \<times> RzGlobals) \<Rightarrow> RzUnion option \<Rightarrow> RendezvousMediator \<Rightarrow> 'l \<Rightarrow> RzGlobals
    \<Rightarrow> RendezvousMediator \<times> 'l \<times> RzGlobals \<times> string option" where
  "handle_resp h upd msg rz l g = (case msg of
     Some (RegisterPeerResponse request_pk) \<Rightarrow>
       (let (l1, g1) = upd (l, g) in
        if request_pk then (rz, l1, register_pk h g1) else (rz, l1, g1, None))
   | Some (RegisterPkResponse result ka) \<Rightarrow>
       (let (l1, g1) = upd (l, g) in
        case pk_response h result rz g1 of
          (g2, Some e) \<Rightarrow> (rz, l1, g2, Some e)
        | (g2, None) \<Rightarrow> (if ka > 0 then rz\<lparr>keep_alive := wrap32 (ka * 1000)\<rparr> else rz, l1, g2, None))
   | Some (PunchHoleMsg ph) \<Rightarrow> (rz, l, put (Spawn rz (PunchHoleTask ph)) g, None)
   | Some (RequestRelayMsg rr) \<Rightarrow> (rz, l, put (Spawn rz (RelayTask rr)) g, None)
   | Some (FetchLocalAddrMsg fla) \<Rightarrow> (rz, l, put (Spawn rz (IntranetTask fla)) g, None)
   | Some (ConfigureUpdate n) \<Rightarrow> (rz, l, g\<lparr>rz_store := set_serial (rh_env h) n (rz_store g)\<rparr>, None)
   | _ \<Rightarrow> (rz, l, g, None))"

section \<open>The loop over UDP\<close>

definition MIN_REG_TIMEOUT :: int where "MIN_REG_TIMEOUT = 3000"
definition MAX_REG_TIMEOUT :: int where "MAX_REG_TIMEOUT = 30000"
definition MAX_FAILS1 :: int where "MAX_FAILS1 = 2"
definition MAX_FAILS2 :: int where "MAX_FAILS2 = 4"
definition DNS_INTERVAL :: int where "DNS_INTERVAL = 60000"

definition elapsed :: "RzHost \<Rightarrow> nat \<Rightarrow> nat" where
  "elapsed h t = rh_time h - t"

definition elapsed_ms :: "RzHost \<Rightarrow> nat \<Rightarrow> int" where
  "elapsed_ms h t = int (elapsed h t div 1000)"

record UdpVars =
  reg_timeout :: int
  fails :: int
  last_register_resp :: "nat option"
  last_register_sent :: "nat option"
  last_dns_check :: nat
  old_latency :: int
  ema_latency :: int

definition smoothed :: "int \<Rightarrow> int \<Rightarrow> int" where
  "smoothed ema latency = (if ema = 0 then latency else latency sdiv 30 + (ema * 29 sdiv 30))"

definition udp_update_latency :: "RzHost \<Rightarrow> string \<Rightarrow> UdpVars \<times> RzGlobals \<Rightarrow> UdpVars \<times> RzGlobals" where
  "udp_update_latency h host = (\<lambda>(l, g).
    let latency0 = (case last_register_sent l of Some x \<Rightarrow> int (elapsed h x) | None \<Rightarrow> 0);
        l1 = l\<lparr>last_register_resp := Some (rh_time h), fails := 0, reg_timeout := MIN_REG_TIMEOUT,
               last_register_sent := None\<rparr>
    in if latency0 < 0 \<or> latency0 > 1000000 then (l1, g)
       else
         let latency = smoothed (ema_latency l) latency0;
             l2 = l1\<lparr>ema_latency := latency\<rparr>;
             n = max 3000 (latency sdiv 5)
         in if \<bar>latency - old_latency l\<bar> > n \<or> old_latency l \<le> 0
            then (l2\<lparr>old_latency := latency\<rparr>, update_latency (rh_env h) host latency g)
            else (l2, g))"

text \<open>What the loop reacts to: a datagram (None when it does not parse), the end of the socket, the
  timer.\<close>

datatype UdpEvent = UdpRecv "RzUnion option option" | UdpFail string | UdpEnd | UdpTick

datatype 's flow = Continue 's | Break | Bail string

type_synonym UdpState = "RendezvousMediator \<times> UdpVars \<times> RzGlobals"

definition start_udp :: "RzHost \<Rightarrow> string \<Rightarrow> TargetAddr \<Rightarrow> RzGlobals \<Rightarrow> UdpState" where
  "start_udp h host0 addr g =
    (let host = check_port host0 RENDEZVOUS_PORT in
     (\<lparr>rz_addr = addr, rz_host = host, host_prefix = get_host_prefix host, keep_alive = DEFAULT_KEEP_ALIVE\<rparr>,
      \<lparr>reg_timeout = MIN_REG_TIMEOUT, fails = 0, last_register_resp = None, last_register_sent = None,
       last_dns_check = rh_time h, old_latency = 0, ema_latency = 0\<rparr>, g))"

definition count_failure :: "RzHost \<Rightarrow> UdpState \<Rightarrow> UdpState \<times> string option" where
  "count_failure h = (\<lambda>(rz, l, g).
    let l1 = l\<lparr>fails := fails l + 1\<rparr> in
    if fails l1 \<ge> MAX_FAILS2 then
      let g1 = update_latency (rh_env h) (rz_host rz) (- 1) g; l2 = l1\<lparr>old_latency := 0\<rparr> in
      if elapsed_ms h (last_dns_check l) > DNS_INTERVAL then
        (case rh_rebind h of
           Inr (Some addr) \<Rightarrow> ((rz\<lparr>rz_addr := addr\<rparr>, l2\<lparr>last_dns_check := rh_time h\<rparr>, g1), None)
         | Inr None \<Rightarrow> ((rz, l2\<lparr>last_dns_check := rh_time h\<rparr>, g1), None)
         | Inl e \<Rightarrow> ((rz, l2, g1), Some e))
      else ((rz, l2, g1), None)
    else if fails l1 \<ge> MAX_FAILS1 then
      ((rz, l1\<lparr>old_latency := 0\<rparr>, update_latency (rh_env h) (rz_host rz) 0 g), None)
    else ((rz, l1, g), None))"

definition udp_tick :: "RzHost \<Rightarrow> UdpState \<Rightarrow> UdpState flow" where
  "udp_tick h = (\<lambda>(rz, l, g).
    if should_exit g then Break
    else
      let expired = (case last_register_resp l of Some x \<Rightarrow> elapsed_ms h x \<ge> REG_INTERVAL | None \<Rightarrow> True);
          timeout = (case last_register_sent l of Some x \<Rightarrow> elapsed_ms h x \<ge> reg_timeout l | None \<Rightarrow> False);
          l1 = (if using_public_server \<and> timeout \<and> reg_timeout l < MAX_REG_TIMEOUT
                then l\<lparr>reg_timeout := reg_timeout l + MIN_REG_TIMEOUT\<rparr> else l)
      in if timeout \<or> (last_register_sent l1 = None \<and> expired) then
           (case (if timeout then count_failure h (rz, l1, g) else ((rz, l1, g), None)) of
              (_, Some e) \<Rightarrow> Bail e
            | ((rz2, l2, g2), None) \<Rightarrow>
                (case register_peer h rz2 g2 of
                   (_, Some e) \<Rightarrow> Bail e
                 | (g3, None) \<Rightarrow> Continue (rz2, l2\<lparr>last_register_sent := Some (rh_time h)\<rparr>, g3)))
         else Continue (rz, l1, g))"

definition udp_step :: "RzHost \<Rightarrow> UdpEvent \<Rightarrow> UdpState \<Rightarrow> UdpState flow" where
  "udp_step h ev = (\<lambda>(rz, l, g). case ev of
     UdpRecv (Some msg) \<Rightarrow>
       (case handle_resp h (udp_update_latency h (rz_host rz)) msg rz l g of
          (_, _, _, Some e) \<Rightarrow> Bail e
        | (rz1, l1, g1, None) \<Rightarrow> Continue (rz1, l1, g1))
   | UdpRecv None \<Rightarrow> Continue (rz, l, g)
   | UdpFail e \<Rightarrow> Bail (''Failed to receive next: '' @ e)
   | UdpEnd \<Rightarrow> Bail ''Socket receive none. Maybe socks5 server is down.''
   | UdpTick \<Rightarrow> udp_tick h (rz, l, g))"

section \<open>The loop over a stream\<close>

record TcpVars =
  tcp_last_register_sent :: "nat option"
  last_recv_msg :: nat

datatype TcpEvent = TcpRecv "RzUnion option" | TcpEmpty | TcpUnparsed string | TcpFail string | TcpReset | TcpTick

type_synonym TcpState = "RendezvousMediator \<times> TcpVars \<times> RzGlobals"

definition start_tcp :: "RzHost \<Rightarrow> string \<Rightarrow> TargetAddr \<Rightarrow> RzGlobals \<Rightarrow> TcpState" where
  "start_tcp h host0 local_addr g =
    (let host = check_port host0 RENDEZVOUS_PORT; prefix = get_host_prefix host in
     (\<lparr>rz_addr = local_addr, rz_host = host, host_prefix = prefix, keep_alive = DEFAULT_KEEP_ALIVE\<rparr>,
      \<lparr>tcp_last_register_sent = None, last_recv_msg = rh_time h\<rparr>,
      g\<lparr>rz_store := set_host_key_confirmed (rh_env h) prefix False (rz_store g)\<rparr>))"

definition tcp_update_latency :: "RzHost \<Rightarrow> string \<Rightarrow> TcpVars \<times> RzGlobals \<Rightarrow> TcpVars \<times> RzGlobals" where
  "tcp_update_latency h host = (\<lambda>(l, g).
    (l, update_latency (rh_env h) host
          (case tcp_last_register_sent l of Some x \<Rightarrow> int (elapsed h x) | None \<Rightarrow> 0) g))"

text \<open>\<open>rz.keep_alive as u64 * 3 / 2\<close>: the cast extends the sign, the product wraps.\<close>

definition keep_alive_limit :: "int \<Rightarrow> nat" where
  "keep_alive_limit ka = unat ((word_of_int ka :: u64) * 3) div 2"

definition tcp_tick :: "RzHost \<Rightarrow> TcpState \<Rightarrow> TcpState flow" where
  "tcp_tick h = (\<lambda>(rz, l, g).
    if should_exit g then Break
    else if elapsed h (last_recv_msg l) div 1000 > keep_alive_limit (keep_alive rz)
    then Bail ''Rendezvous connection is timeout''
    else if (\<not> key_confirmed (config (rz_store g)) \<or> \<not> get_host_key_confirmed (rz_store g) (host_prefix rz))
         \<and> (case tcp_last_register_sent l of Some x \<Rightarrow> elapsed_ms h x | None \<Rightarrow> REG_INTERVAL) \<ge> REG_INTERVAL
    then (case register_pk h g of
            (_, Some e) \<Rightarrow> Bail e
          | (g1, None) \<Rightarrow> Continue (rz, l\<lparr>tcp_last_register_sent := Some (rh_time h)\<rparr>, g1))
    else Continue (rz, l, g))"

definition tcp_step :: "RzHost \<Rightarrow> TcpEvent \<Rightarrow> TcpState \<Rightarrow> TcpState flow" where
  "tcp_step h ev = (\<lambda>(rz, l, g).
    let l1 = l\<lparr>last_recv_msg := rh_time h\<rparr> in
    case ev of
      TcpReset \<Rightarrow> Bail ''Rendezvous connection is reset by the peer''
    | TcpFail e \<Rightarrow> Bail e
    | TcpEmpty \<Rightarrow> (case rh_send h of None \<Rightarrow> Continue (rz, l1, put Heartbeat g) | Some e \<Rightarrow> Bail e)
    | TcpUnparsed e \<Rightarrow> Bail e
    | TcpRecv msg \<Rightarrow>
        (case handle_resp h (tcp_update_latency h (rz_host rz)) msg rz l1 g of
           (_, _, _, Some e) \<Rightarrow> Bail e
         | (rz1, l2, g1, None) \<Rightarrow> Continue (rz1, l2, g1))
    | TcpTick \<Rightarrow> tcp_tick h (rz, l, g))"

text \<open>\<open>start\<close>: which of the two loops runs.\<close>

definition uses_tcp :: "bool \<Rightarrow> Store \<Rightarrow> bool" where
  "uses_tcp test_tcp st \<longleftrightarrow> test_tcp \<or> is_proxy st \<or> use_ws st \<or> is_udp_disabled st"

section \<open>Opening connections\<close>

text \<open>\<open>create_relay_connection_\<close>: a stream to the relay, on which the host asks for the peer's half.\<close>

definition create_relay_connection ::
  "RzHost \<Rightarrow> string \<Rightarrow> string \<Rightarrow> SocketAddr \<Rightarrow> bool \<Rightarrow> bool \<Rightarrow> u64 option \<Rightarrow> RzGlobals \<Rightarrow> RzGlobals" where
  "create_relay_connection h relay_server uuid peer_addr secure ipv4 cp g =
    (case rh_relay_connect h of
       Inr _ \<Rightarrow> (case rh_relay_send h of
          None \<Rightarrow> put (RelayStream peer_addr secure cp)
                   (put (ToRelay (check_port relay_server RELAY_PORT) ipv4 (RelayRequest (rh_key h) uuid)) g)
        | Some _ \<Rightarrow> g)
     | _ \<Rightarrow> g)"

definition create_relay ::
  "RzHost \<Rightarrow> RendezvousMediator \<Rightarrow> bytes \<Rightarrow> string \<Rightarrow> string \<Rightarrow> bool \<Rightarrow> bool \<Rightarrow> bytes \<Rightarrow> u64 option \<Rightarrow> RzGlobals
    \<Rightarrow> RzGlobals \<times> string option" where
  "create_relay h rz socket_addr relay_server uuid secure initiate socket_addr_v6 cp g =
    (case rh_connect h of
       Inr _ \<Rightarrow>
         (let (g1, rr) = (if initiate then let (g1, i) = get_id h g in (g1, RelayResponse socket_addr uuid relay_server (Some i) socket_addr_v6)
                          else (g, RelayResponse socket_addr [] [] None socket_addr_v6))
          in case rh_send h of
               None \<Rightarrow> (create_relay_connection h relay_server uuid (mangle_decode socket_addr) secure (is_ipv4 (rz_addr rz)) cp
                          (put (ToRendezvous (rz_host rz) rr) g1), None)
             | Some e \<Rightarrow> (g1, Some e))
     | Inl e \<Rightarrow> (g, Some e))"

text \<open>The check for duplicates: another request from the same address within a tenth of a second.  Two
  locks are taken, one to read the last request and one to write it.\<close>

definition is_duplicate :: "RzHost \<Rightarrow> SocketAddr \<Rightarrow> SocketAddr \<times> nat \<Rightarrow> bool" where
  "is_duplicate h addr lst \<longleftrightarrow> fst lst = addr \<and> elapsed h (snd lst) div 1000 < 100"

definition handle_request_relay ::
  "RzHost \<Rightarrow> RendezvousMediator \<Rightarrow> RequestRelay \<Rightarrow> RzGlobals \<Rightarrow> RzGlobals \<times> string option" where
  "handle_request_relay h rz rr g =
    (let addr = mangle_decode (rr_socket_addr rr); lst = last_relay_msg g;
         g1 = g\<lparr>last_relay_msg := (addr, rh_time h)\<rparr>
     in if is_duplicate h addr lst then (g1, None)
        else create_relay h rz (rr_socket_addr rr) (rr_relay_server rr) (rr_uuid rr) (rr_secure rr) False []
               (rr_control_permissions rr) g1)"

text \<open>\<open>start_ipv6\<close> with its task: the address of the socket, or none.\<close>

definition start_ipv6 :: "RzHost \<Rightarrow> SocketAddr \<Rightarrow> SocketAddr \<Rightarrow> u64 option \<Rightarrow> RzGlobals \<Rightarrow> RzGlobals \<times> bytes" where
  "start_ipv6 h peer_addr_v6 peer_addr_v4 cp g = (case rh_ipv6 h of
     Some local_addr_v6 \<Rightarrow> (put (UdpListen peer_addr_v6 peer_addr_v4 cp) g, local_addr_v6)
   | None \<Rightarrow> (g, []))"

definition handle_intranet_direct ::
  "RzHost \<Rightarrow> RendezvousMediator \<Rightarrow> FetchLocalAddr \<Rightarrow> string \<Rightarrow> bytes \<Rightarrow> RzGlobals \<Rightarrow> RzGlobals \<times> string option" where
  "handle_intranet_direct h rz fla relay_server socket_addr_v6 g =
    (let peer_addr = mangle_decode (fla_socket_addr fla) in
     case rh_connect h of
       Inr sock \<Rightarrow> (case rh_local_parse h sock of
          Inr local_addr \<Rightarrow>
            (let (g1, i) = get_id h g;
                 m = LocalAddrMsg i (mangle_encode (rh_mangle_tm h) peer_addr) (mangle_encode (rh_mangle_tm h) local_addr)
                       relay_server socket_addr_v6
             in case rh_send h of
                  None \<Rightarrow> (put (AcceptOn sock peer_addr True (fla_control_permissions fla)) (put (ToRendezvous (rz_host rz) m) g1), None)
                | Some e \<Rightarrow> (g1, Some e))
        | Inl e \<Rightarrow> (g, Some e))
     | Inl e \<Rightarrow> (g, Some e))"

definition handle_intranet ::
  "RzHost \<Rightarrow> RendezvousMediator \<Rightarrow> FetchLocalAddr \<Rightarrow> RzGlobals \<Rightarrow> RzGlobals \<times> string option" where
  "handle_intranet h rz fla g =
    (let addr = mangle_decode (fla_socket_addr fla); lst = last_msg g; g1 = g\<lparr>last_msg := (addr, rh_time h)\<rparr> in
     if is_duplicate h addr lst then (g1, None)
     else
       let peer_addr_v6 = mangle_decode (fla_socket_addr_v6 fla);
           relay_server = get_relay_server rz (fla_relay_server fla);
           relay = use_ws (rz_store g1) \<or> is_proxy (rz_store g1);
           (g2, v6) = (if sa_port peer_addr_v6 > 0 \<and> \<not> relay
                       then start_ipv6 h peer_addr_v6 addr (fla_control_permissions fla) g1 else (g1, []));
           relayed = (\<lambda>g. create_relay h rz (fla_socket_addr fla) relay_server (rh_uuid h) True True v6
                            (fla_control_permissions fla) g)
       in if is_ipv4 (rz_addr rz) \<and> \<not> relay \<and> \<not> is_disable_tcp_listen (rz_store g2)
          then (case handle_intranet_direct h rz fla relay_server v6 g2 of
                  (g3, None) \<Rightarrow> (g3, None) | (g3, Some _) \<Rightarrow> relayed g3)
          else relayed g2)"

definition nat_type_from_i32 :: "int \<Rightarrow> int" where
  "nat_type_from_i32 n = (if n = 0 \<or> n = 1 \<or> n = 2 then n else 0)"

text \<open>The message goes out once and, from a task of its own, twice more; then the host listens.\<close>

definition punch_udp_hole ::
  "RzHost \<Rightarrow> RendezvousMediator \<Rightarrow> SocketAddr \<Rightarrow> PunchHoleSent \<Rightarrow> u64 option \<Rightarrow> RzGlobals \<Rightarrow> RzGlobals \<times> string option" where
  "punch_udp_hole h rz peer_addr m cp g = (case rh_direct_udp h of
     Some e \<Rightarrow> (g, Some e)
   | None \<Rightarrow> (put (UdpListen peer_addr peer_addr cp)
               (fold put (replicate 3 (UdpToRendezvous (rz_host rz) (PunchHoleSentMsg m))) g), None))"

definition handle_punch_hole ::
  "RzHost \<Rightarrow> RendezvousMediator \<Rightarrow> PunchHole \<Rightarrow> RzGlobals \<Rightarrow> RzGlobals \<times> string option" where
  "handle_punch_hole h rz ph g =
    (let peer_addr = mangle_decode (ph_socket_addr ph); lst = last_msg g; g1 = g\<lparr>last_msg := (peer_addr, rh_time h)\<rparr> in
     if is_duplicate h peer_addr lst then (g1, None)
     else
       let peer_addr_v6 = mangle_decode (ph_socket_addr_v6 ph);
           relay = use_ws (rz_store g1) \<or> is_proxy (rz_store g1) \<or> ph_force_relay ph;
           cp = ph_control_permissions ph;
           (g2, v6) = (if sa_port peer_addr_v6 > 0 \<and> \<not> relay then start_ipv6 h peer_addr_v6 peer_addr cp g1 else (g1, []));
           relay_server = get_relay_server rz (ph_relay_server ph)
       in if ph_nat_type ph = 2 \<or> nat_type (config2 (rz_store g2)) = 2 \<or> relay
             \<or> (is_disable_tcp_listen (rz_store g2) \<and> ph_udp_port ph \<le> 0)
          then create_relay h rz (ph_socket_addr ph) relay_server (rh_uuid h) True True v6 cp g2
          else
            let (g3, i) = get_id h g2;
                m = \<lparr>phs_socket_addr = ph_socket_addr ph, phs_id = i, phs_relay_server = relay_server,
                     phs_nat_type = nat_type_from_i32 (nat_type (config2 (rz_store g2))), phs_socket_addr_v6 = v6\<rparr>
            in if ph_udp_port ph > 0
               then punch_udp_hole h rz (set_port (word_of_int (ph_udp_port ph)) peer_addr) m cp g3
               else (case rh_connect h of
                       Inr sock \<Rightarrow>
                         (case rh_send h of
                            None \<Rightarrow> (put (AcceptOn sock peer_addr True cp)
                                     (put (ToRendezvous (rz_host rz) (PunchHoleSentMsg m)) (put (PunchTcp peer_addr) g3)), None)
                          | Some e \<Rightarrow> (put (PunchTcp peer_addr) g3, Some e))
                     | Inl e \<Rightarrow> (g3, Some e)))"

fun run_task :: "RzHost \<Rightarrow> RendezvousMediator \<Rightarrow> RzTask \<Rightarrow> RzGlobals \<Rightarrow> RzGlobals \<times> string option" where
  "run_task h rz (PunchHoleTask ph) g = handle_punch_hole h rz ph g"
| "run_task h rz (RelayTask rr) g = handle_request_relay h rz rr g"
| "run_task h rz (IntranetTask fla) g = handle_intranet h rz fla g"

section \<open>The outer loop and direct access\<close>

text \<open>One round of \<open>start_all\<close>: before the mediator runs, whether it runs at all, and the time slept after
  it in milliseconds, from the error of the mediator and the time the round has taken.\<close>

definition service_wanted :: "bool \<Rightarrow> Store \<Rightarrow> bool" where
  "service_wanted installing st \<longleftrightarrow> \<not> option2bool ''stop-service'' (get_opt st ''stop-service'') \<and> \<not> installing"

definition round_begin :: "bool \<Rightarrow> RzGlobals \<Rightarrow> RzGlobals" where
  "round_begin installing g =
    (let g1 = g\<lparr>solving_pk_mismatch := []\<rparr> in
     if service_wanted installing (rz_store g1) then g1\<lparr>should_exit := False, manual_restarted := False\<rparr> else g1)"

definition round_end :: "bool \<Rightarrow> RzGlobals \<Rightarrow> RzGlobals" where
  "round_end wanted g = (if wanted then g\<lparr>should_exit := True, online := []\<rparr> else g\<lparr>online := []\<rparr>)"

definition round_timeout :: "string option \<Rightarrow> nat" where
  "round_timeout err = (case err of
     Some e \<Rightarrow> (let e1 = ''rendezvous mediator error: '' @ e in
                 if sublist ''10054'' e1 \<or> sublist ''11001'' e1 then 3000 else CONNECT_TIMEOUT)
   | None \<Rightarrow> CONNECT_TIMEOUT)"

definition round_sleep :: "string option \<Rightarrow> nat \<Rightarrow> RzGlobals \<Rightarrow> nat" where
  "round_sleep err elapsed_millis g =
    (if \<not> manual_restarted g then
       (if elapsed_millis < round_timeout err then 1000 * ((round_timeout err - elapsed_millis) div 1000) else 0)
     else 33)"

definition restart_mediator :: "RzGlobals \<Rightarrow> RzGlobals" where
  "restart_mediator g = g\<lparr>should_exit := True, manual_restarted := True\<rparr>"

definition get_direct_port :: "Store \<Rightarrow> int" where
  "get_direct_port st =
    (let port = unwrap_or 0 (parse_i32 (get_opt st ''direct-access-port''))
     in if port \<le> 0 then RENDEZVOUS_PORT + 2 else port)"

definition direct_disabled :: "Store \<Rightarrow> bool" where
  "direct_disabled st \<longleftrightarrow> \<not> option2bool ''direct-server'' (get_opt st ''direct-server'')
     \<or> option2bool ''stop-service'' (get_opt st ''stop-service'')"

text \<open>The listener with the port it is bound to, and the configured port it was opened for.\<close>

type_synonym DirectState = "u16 option \<times> int"

text \<open>The first half of an iteration opens the listener, unless the system refuses the port; the second
  closes it or accepts a peer.  The configuration may change in between.\<close>

definition direct_listen :: "Store \<Rightarrow> bool \<Rightarrow> DirectState \<Rightarrow> DirectState" where
  "direct_listen st bind_ok = (\<lambda>(listener, port).
    if \<not> direct_disabled st \<and> listener = None
    then let p = get_direct_port st in (if bind_ok then Some (word_of_int p) else None, p)
    else (listener, port))"

definition direct_accept :: "bool \<Rightarrow> Store \<Rightarrow> SocketAddr option \<Rightarrow> DirectState \<Rightarrow> DirectState \<times> (SocketAddr \<times> bool \<times> u64 option) option" where
  "direct_accept disabled st peer = (\<lambda>(listener, port). case listener of
     None \<Rightarrow> ((listener, port), None)
   | Some l \<Rightarrow>
       if disabled \<or> port \<noteq> get_direct_port st then ((None, port), None)
       else ((listener, port), map_option (\<lambda>a. (a, False, None)) peer))"

definition direct_server :: "Store \<Rightarrow> bool \<Rightarrow> Store \<Rightarrow> SocketAddr option \<Rightarrow> DirectState \<Rightarrow> DirectState \<times> (SocketAddr \<times> bool \<times> u64 option) option" where
  "direct_server st bind_ok st' peer s = direct_accept (direct_disabled st) st' peer (direct_listen st bind_ok s)"

text \<open>\<open>CheckIfResendPk\<close>: a value that remembers the public key when it is built and looks again when it is
  dropped.\<close>

definition get_cached_pk :: "RzGlobals \<Rightarrow> string option" where
  "get_cached_pk g = map_option snd (key_cache g)"

definition check_if_resend_pk_drop :: "Env \<Rightarrow> string option \<Rightarrow> RzGlobals \<Rightarrow> RzGlobals" where
  "check_if_resend_pk_drop e pk g =
    (if sent_register_pk g \<and> get_cached_pk g \<noteq> pk
     then g\<lparr>rz_store := set_key_confirmed e False (rz_store g)\<rparr> else g)"

end
