(* ===== verification/Rendezvous_Correct.thy ===== *)
theory Rendezvous_Correct
  imports Rendezvous
begin

text \<open>
  Properties of the rendezvous mediator.  A run of the UDP loop is built step by step: between two steps
  other tasks may change the globals, except that only the mediator confirms a key and works on a
  mismatch of identities.  The trace of a run has the time, the event and the outputs of each step.
\<close>

section \<open>Runs\<close>

definition interference :: "RzGlobals \<Rightarrow> RzGlobals \<Rightarrow> bool" where
  "interference g g' \<longleftrightarrow> solving_pk_mismatch g' = solving_pk_mismatch g
     \<and> (key_confirmed (config (rz_store g')) \<longrightarrow> key_confirmed (config (rz_store g)))"

type_synonym UdpTrace = "(nat \<times> UdpEvent \<times> RzOut list) list"

inductive udp_run :: "UdpState \<Rightarrow> UdpTrace \<Rightarrow> UdpState \<Rightarrow> bool" for s0 where
  start: "udp_run s0 [] s0"
| step: "udp_run s0 tr (rz, l, g) \<Longrightarrow> interference g g1 \<Longrightarrow> list_all (\<lambda>(t, _). t \<le> rh_time h) tr \<Longrightarrow>
    udp_step h ev (rz, l, g1\<lparr>rz_outs := []\<rparr>) = Continue (rz', l', g') \<Longrightarrow>
    udp_run s0 (tr @ [(rh_time h, ev, rz_outs g')]) (rz', l', g')"

inductive_cases udp_run_snocE: "udp_run s0 (tr @ [x]) s"

fun is_registration :: "RzOut \<Rightarrow> bool" where
  "is_registration (ToServer (RegisterPk _ _ _ _)) = True"
| "is_registration (ToServer (RegisterPeer _ _)) = True"
| "is_registration _ = False"

definition registers :: "RzOut list \<Rightarrow> bool" where
  "registers os = list_ex is_registration os"

fun is_answer :: "UdpEvent \<Rightarrow> bool" where
  "is_answer (UdpRecv (Some (Some (RegisterPeerResponse _)))) = True"
| "is_answer (UdpRecv (Some (Some (RegisterPkResponse _ _)))) = True"
| "is_answer _ = False"

section \<open>What the operations keep\<close>

lemma put_simps [simp]:
  "rz_outs (put x g) = rz_outs g @ [x]" "rz_store (put x g) = rz_store g"
  "solving_pk_mismatch (put x g) = solving_pk_mismatch g" "last_msg (put x g) = last_msg g"
  by (simp_all add: put_def)

lemma get_id_keeps [simp]:
  "rz_outs (fst (get_id h g)) = rz_outs g" "solving_pk_mismatch (fst (get_id h g)) = solving_pk_mismatch g"
  by (simp_all add: get_id_def Let_def split: option.split)

lemma key_confirmed_set_id [simp]: "key_confirmed (config (set_id e i st)) = key_confirmed (config st)"
  by (simp add: set_id_def config_store_def)

lemma key_confirmed_get_id [simp]:
  "key_confirmed (config (rz_store (fst (get_id h g)))) = key_confirmed (config (rz_store g))"
  by (simp add: get_id_def Let_def split: option.split)

lemma get_key_pair_keeps [simp]:
  "rz_store (fst (get_key_pair h g)) = rz_store g" "solving_pk_mismatch (fst (get_key_pair h g)) = solving_pk_mismatch g"
  by (simp_all add: get_key_pair_def Let_def split: option.split)

lemma get_key_pair_outs: "\<exists>os. rz_outs (fst (get_key_pair h g)) = rz_outs g @ os \<and> (\<forall>x\<in>set os. \<exists>kp. x = SaveKeyPair kp)"
  by (auto simp: get_key_pair_def Let_def split: option.split)

lemma update_latency_keeps [simp]:
  "solving_pk_mismatch (update_latency e hst n g) = solving_pk_mismatch g"
  "rz_outs (update_latency e hst n g) = rz_outs g"
  "config (rz_store (update_latency e hst n g)) = config (rz_store g)"
  "should_exit (update_latency e hst n g) = should_exit g"
  by (simp_all add: update_latency_def Let_def config2_store_def)

lemma set_key_confirmed_get [simp]: "key_confirmed (config (set_key_confirmed e v st)) = v"
  by (simp add: set_key_confirmed_def config_store_def)

lemma config_set_serial [simp]: "config (set_serial e n st) = config st"
  by (simp add: set_serial_def config2_store_def)

text \<open>\<open>register_pk\<close>: on success exactly one key registration, of the machine's identity, goes out.\<close>

lemma register_pk_spec:
  assumes "register_pk h g = (g', r)"
  shows "solving_pk_mismatch g' = solving_pk_mismatch g" and "key_confirmed (config (rz_store g')) = key_confirmed (config (rz_store g))"
    and "r = None \<Longrightarrow> \<exists>pre i u pk b. rz_outs g' = rz_outs g @ pre @ [ToServer (RegisterPk i u pk b)] \<and> (\<forall>x\<in>set pre. \<exists>kp. x = SaveKeyPair kp)
       \<and> i = snd (get_id h g)"
proof -
  obtain g1 kp where 1: "get_key_pair h g = (g1, kp)" by (cases "get_key_pair h g")
  obtain g2 i where 2: "get_id h g1 = (g2, i)" by (cases "get_id h g1")
  have st: "rz_store g1 = rz_store g" "solving_pk_mismatch g1 = solving_pk_mismatch g"
    using get_key_pair_keeps [of h g] 1 by simp_all
  obtain pre where pre: "rz_outs g1 = rz_outs g @ pre" "\<forall>x\<in>set pre. \<exists>kp. x = SaveKeyPair kp"
    using get_key_pair_outs [of h g] 1 by auto
  have k: "rz_outs g2 = rz_outs g1" "solving_pk_mismatch g2 = solving_pk_mismatch g1"
    "key_confirmed (config (rz_store g2)) = key_confirmed (config (rz_store g1))"
    using get_id_keeps [of h g1] key_confirmed_get_id [of h g1] 2 by simp_all
  have i: "i = snd (get_id h g)"
    using 2 st(1) by (auto simp: get_id_def Let_def split: option.splits if_splits)
  show "solving_pk_mismatch g' = solving_pk_mismatch g" "key_confirmed (config (rz_store g')) = key_confirmed (config (rz_store g))"
    using assms k st by (auto simp: register_pk_def 1 2 sink_send_def split: option.splits)
  show "r = None \<Longrightarrow> \<exists>pre i u pk b. rz_outs g' = rz_outs g @ pre @ [ToServer (RegisterPk i u pk b)] \<and> (\<forall>x\<in>set pre. \<exists>kp. x = SaveKeyPair kp)
       \<and> i = snd (get_id h g)"
    using assms k(1) pre i by (auto simp: register_pk_def 1 2 sink_send_def split: option.splits)
qed

lemma register_pk_no_peer:
  assumes "register_pk h g = (g', None)"
  shows "ToServer (RegisterPeer i n) \<in> set (rz_outs g') \<longleftrightarrow> ToServer (RegisterPeer i n) \<in> set (rz_outs g)"
  using register_pk_spec(3) [OF assms refl] by fastforce

lemma update_id_keeps [simp]:
  "rz_outs (update_id h g) = rz_outs g" "solving_pk_mismatch (update_id h g) = solving_pk_mismatch g"
  "key_confirmed (config (rz_store (update_id h g))) = key_confirmed (config (rz_store g))"
  by (simp_all add: update_id_def Let_def)

lemma show_nat_not_Nil [simp]: "show_nat n \<noteq> []"
  by (simp add: show_nat.simps [of n])

lemma update_id_new: "cfg_id (config (rz_store (update_id h g))) = show_nat (1000000000 + rh_new_id h mod 1000000000)"
  by (simp add: update_id_def Let_def set_id_def config_store_def)

lemma mismatch_spec:
  assumes "handle_uuid_mismatch h rz g = (g', r)" and "solving_pk_mismatch g = [] \<or> solving_pk_mismatch g = rz_host rz"
  shows "solving_pk_mismatch g' = rz_host rz" and "\<not> key_confirmed (config (rz_store g'))"
    and "r = None \<Longrightarrow> \<exists>pre u pk b. rz_outs g' = rz_outs g @ pre @ [ToServer (RegisterPk (show_nat (1000000000 + rh_new_id h mod 1000000000)) u pk b)]
       \<and> (\<forall>x\<in>set pre. \<exists>kp. x = SaveKeyPair kp)"
proof -
  define g2 where "g2 = (update_id h (g\<lparr>rz_store := set_key_confirmed (rh_env h) False (rz_store g)\<rparr>))\<lparr>solving_pk_mismatch := rz_host rz\<rparr>"
  have r: "register_pk h g2 = (g', r)"
    using assms by (simp add: handle_uuid_mismatch_def g2_def Let_def)
  have "cfg_id (config (rz_store g2)) = show_nat (1000000000 + rh_new_id h mod 1000000000)"
    by (simp add: g2_def update_id_new)
  then have i: "snd (get_id h g2) = show_nat (1000000000 + rh_new_id h mod 1000000000)"
    by (simp add: get_id_def Let_def)
  show "solving_pk_mismatch g' = rz_host rz" "\<not> key_confirmed (config (rz_store g'))"
    using register_pk_spec(1,2) [OF r] by (simp_all add: g2_def)
  show "r = None \<Longrightarrow> \<exists>pre u pk b. rz_outs g' = rz_outs g @ pre @ [ToServer (RegisterPk (show_nat (1000000000 + rh_new_id h mod 1000000000)) u pk b)]
       \<and> (\<forall>x\<in>set pre. \<exists>kp. x = SaveKeyPair kp)"
    using register_pk_spec(3) [OF r] i by (auto simp: g2_def)
qed

text \<open>\<open>register_peer\<close>: on success a registration goes out, of the identity alone only when the key is
  confirmed.\<close>

lemma register_peer_spec:
  assumes "register_peer h rz g = (g', r)" and "solving_pk_mismatch g = [] \<or> solving_pk_mismatch g = rz_host rz"
  shows "solving_pk_mismatch g' = solving_pk_mismatch g" and "key_confirmed (config (rz_store g')) = key_confirmed (config (rz_store g))"
    and "r = None \<Longrightarrow> registers (rz_outs g')"
    and "\<not> key_confirmed (config (rz_store g)) \<Longrightarrow> r = None \<Longrightarrow> ToServer (RegisterPeer i n) \<in> set (rz_outs g') \<Longrightarrow> ToServer (RegisterPeer i n) \<in> set (rz_outs g)"
proof -
  note R = assms(1) [unfolded register_peer_def, simplified assms(2), simplified]
  consider (pk) "register_pk h g = (g', r)"
    | (peer) "key_confirmed (config (rz_store g))" "sink_send h (RegisterPeer (snd (get_id h g)) (get_serial (rz_store (fst (get_id h g))))) (fst (get_id h g)) = (g', r)"
    using R by (auto simp: case_prod_unfold Let_def split: if_splits)
  note C = this
  show "solving_pk_mismatch g' = solving_pk_mismatch g" "key_confirmed (config (rz_store g')) = key_confirmed (config (rz_store g))"
    using C by (cases; auto dest: register_pk_spec(1,2) simp: sink_send_def split: option.splits)+
  show "r = None \<Longrightarrow> registers (rz_outs g')"
    using C by (cases; auto dest: register_pk_spec(3) simp: sink_send_def registers_def split: option.splits)
  show "\<not> key_confirmed (config (rz_store g)) \<Longrightarrow> r = None \<Longrightarrow> ToServer (RegisterPeer i n) \<in> set (rz_outs g') \<Longrightarrow> ToServer (RegisterPeer i n) \<in> set (rz_outs g)"
    using C register_pk_no_peer [of h g g' i n] by cases auto
qed

section \<open>Steps of the loop\<close>

abbreviation solves :: "string \<Rightarrow> RzGlobals \<Rightarrow> bool" where
  "solves hst g \<equiv> solving_pk_mismatch g = [] \<or> solving_pk_mismatch g = hst"

lemma pk_response_solves:
  assumes "pk_response h n rz g = (g', r)" and "solves (rz_host rz) g"
  shows "solves (rz_host rz) g'" and "n \<noteq> 0 \<Longrightarrow> key_confirmed (config (rz_store g')) \<Longrightarrow> key_confirmed (config (rz_store g))"
    and "n \<noteq> 0 \<Longrightarrow> r = None \<Longrightarrow> ToServer (RegisterPeer i k) \<in> set (rz_outs g') \<Longrightarrow> ToServer (RegisterPeer i k) \<in> set (rz_outs g)"
  using assms mismatch_spec [of h rz g g' r] by (auto simp: pk_response_def Let_def split: if_splits)

lemma udp_update_keeps:
  assumes "udp_update_latency h hst (l, g) = (l', g')"
  shows "last_register_resp l' = Some (rh_time h) \<and> last_register_sent l' = None \<and> reg_timeout l' = MIN_REG_TIMEOUT"
    and "solving_pk_mismatch g' = solving_pk_mismatch g" and "rz_outs g' = rz_outs g" and "config (rz_store g') = config (rz_store g)"
  using assms by (auto simp: udp_update_latency_def Let_def split: if_splits)

lemma recv_answer:
  assumes "udp_step h ev (rz, l, g) = Continue (rz', l', g')" and "is_answer ev" and "solves (rz_host rz) g"
  shows "rz_host rz' = rz_host rz \<and> solves (rz_host rz) g' \<and> last_register_resp l' = Some (rh_time h)
    \<and> last_register_sent l' = None \<and> reg_timeout l' = MIN_REG_TIMEOUT"
    and "(\<And>k. ev \<noteq> UdpRecv (Some (Some (RegisterPkResponse 0 k)))) \<Longrightarrow> key_confirmed (config (rz_store g')) \<Longrightarrow> key_confirmed (config (rz_store g))"
    and "(\<And>k. ev \<noteq> UdpRecv (Some (Some (RegisterPkResponse 0 k)))) \<Longrightarrow> ToServer (RegisterPeer i n) \<in> set (rz_outs g') \<Longrightarrow> ToServer (RegisterPeer i n) \<in> set (rz_outs g)"
proof -
  obtain l1 g1 where u: "udp_update_latency h (rz_host rz) (l, g) = (l1, g1)" by (cases "udp_update_latency h (rz_host rz) (l, g)")
  note U = udp_update_keeps [OF u]
  have s1: "solves (rz_host rz) g1" using U(2) assms(3) by simp
  consider (peer) b where "ev = UdpRecv (Some (Some (RegisterPeerResponse b)))" | (pk) m k where "ev = UdpRecv (Some (Some (RegisterPkResponse m k)))"
    using assms(2) by (cases ev rule: is_answer.cases) auto
  note C = this
  have P: "\<lbrakk>ev = UdpRecv (Some (Some (RegisterPeerResponse b)))\<rbrakk> \<Longrightarrow> rz' = rz \<and> l' = l1 \<and> (register_pk h g1 = (g', None) \<or> g' = g1)" for b
    using assms(1) u by (auto simp: udp_step_def handle_resp_def split: if_splits prod.splits option.splits)
  have K: "\<lbrakk>ev = UdpRecv (Some (Some (RegisterPkResponse m k)))\<rbrakk> \<Longrightarrow> rz_host rz' = rz_host rz \<and> l' = l1 \<and> pk_response h m rz g1 = (g', None)" for m k
    using assms(1) u by (auto simp: udp_step_def handle_resp_def split: if_splits prod.splits option.splits)
  show "rz_host rz' = rz_host rz \<and> solves (rz_host rz) g' \<and> last_register_resp l' = Some (rh_time h)
    \<and> last_register_sent l' = None \<and> reg_timeout l' = MIN_REG_TIMEOUT"
    using C
  proof cases
    case (peer b)
    from P [OF this] U(1) s1 register_pk_spec(1) [of h g1 g' None] show ?thesis by auto
  next
    case (pk m k)
    from K [OF this] U(1) pk_response_solves(1) [OF _ s1] show ?thesis by auto
  qed
  show "key_confirmed (config (rz_store g))"
    if "\<And>k. ev \<noteq> UdpRecv (Some (Some (RegisterPkResponse 0 k)))" "key_confirmed (config (rz_store g'))"
    using C
  proof cases
    case (peer b)
    from P [OF this] U(4) that(2) register_pk_spec(2) [of h g1 g' None] show ?thesis by auto
  next
    case (pk m k)
    then have "m \<noteq> 0" using that(1) by blast
    from K [OF pk] U(4) that(2) pk_response_solves(2) [OF _ s1 this] show ?thesis by simp blast
  qed
  show "ToServer (RegisterPeer i n) \<in> set (rz_outs g)"
    if "\<And>k. ev \<noteq> UdpRecv (Some (Some (RegisterPkResponse 0 k)))" "ToServer (RegisterPeer i n) \<in> set (rz_outs g')"
    using C
  proof cases
    case (peer b)
    from P [OF this] U(3) that(2) register_pk_no_peer [of h g1 g' i n] show ?thesis by auto
  next
    case (pk m k)
    then have "m \<noteq> 0" using that(1) by blast
    from K [OF pk] U(3) that(2) pk_response_solves(3) [OF _ s1 this] show ?thesis by simp blast
  qed
qed

lemma recv_other:
  assumes "udp_step h ev (rz, l, g) = Continue (rz', l', g')" and "\<not> is_answer ev" and "ev \<noteq> UdpTick"
  shows "rz' = rz \<and> l' = l \<and> solving_pk_mismatch g' = solving_pk_mismatch g"
    and "config (rz_store g') = config (rz_store g)"
    and "ToServer m \<in> set (rz_outs g') \<longleftrightarrow> ToServer m \<in> set (rz_outs g)"
  using assms by (cases ev rule: is_answer.cases; force simp: udp_step_def handle_resp_def split: option.splits RzUnion.splits)+

lemma count_failure_keeps:
  assumes "count_failure h (rz, l, g) = ((rz', l', g'), r)"
  shows "rz_host rz' = rz_host rz \<and> host_prefix rz' = host_prefix rz \<and> last_register_resp l' = last_register_resp l \<and> reg_timeout l' = reg_timeout l"
    and "solving_pk_mismatch g' = solving_pk_mismatch g" and "rz_outs g' = rz_outs g" and "config (rz_store g') = config (rz_store g)"
  using assms by (auto simp: count_failure_def Let_def split: if_splits sum.splits option.splits)

lemma tick_step:
  assumes "udp_tick h (rz, l, g) = Continue (rz', l', g')" and "solves (rz_host rz) g" and "reg_timeout l = MIN_REG_TIMEOUT"
  shows "rz_host rz' = rz_host rz \<and> solving_pk_mismatch g' = solving_pk_mismatch g \<and> last_register_resp l' = last_register_resp l \<and> reg_timeout l' = MIN_REG_TIMEOUT"
    and "last_register_sent l' = Some (rh_time h) \<and> registers (rz_outs g')
       \<or> (\<exists>x. last_register_sent l' = Some x \<and> last_register_sent l = Some x \<and> rh_time h < x + 3000000)
       \<or> (\<exists>x. last_register_sent l' = None \<and> last_register_resp l = Some x \<and> rh_time h < x + 15000000)"
    and "key_confirmed (config (rz_store g')) = key_confirmed (config (rz_store g))"
    and "\<not> key_confirmed (config (rz_store g)) \<Longrightarrow> ToServer (RegisterPeer i n) \<in> set (rz_outs g') \<Longrightarrow> ToServer (RegisterPeer i n) \<in> set (rz_outs g)"
proof -
  let ?timeout = "case last_register_sent l of Some x \<Rightarrow> elapsed_ms h x \<ge> reg_timeout l | None \<Rightarrow> False"
  let ?expired = "case last_register_resp l of Some x \<Rightarrow> elapsed_ms h x \<ge> REG_INTERVAL | None \<Rightarrow> True"
  consider (quiet) "\<not> ?timeout" "\<not> (last_register_sent l = None \<and> ?expired)" "rz' = rz" "l' = l" "g' = g"
    | (send) rz2 l2 g2 g3 where "(if ?timeout then count_failure h (rz, l, g) else ((rz, l, g), None)) = ((rz2, l2, g2), None)"
        "register_peer h rz2 g2 = (g3, None)" "rz' = rz2" "l' = l2\<lparr>last_register_sent := Some (rh_time h)\<rparr>" "g' = g3"
  proof (cases "?timeout \<or> (last_register_sent l = None \<and> ?expired)")
    case False
    with assms(1) quiet show thesis by (auto simp: udp_tick_def using_public_server_def split: if_splits)
  next
    case True
    obtain rz2 l2 g2 r where x: "(if ?timeout then count_failure h (rz, l, g) else ((rz, l, g), None)) = ((rz2, l2, g2), r)"
      by (metis prod.exhaust)
    obtain g3 r3 where g3: "register_peer h rz2 g2 = (g3, r3)" by (cases "register_peer h rz2 g2")
    have "udp_tick h (rz, l, g) = (if should_exit g then Break else case r of Some e \<Rightarrow> Bail e | None \<Rightarrow>
        (case r3 of Some e \<Rightarrow> Bail e | None \<Rightarrow> Continue (rz2, l2\<lparr>last_register_sent := Some (rh_time h)\<rparr>, g3)))"
      using True by (simp add: udp_tick_def using_public_server_def x g3 split: option.split)
    with assms(1) x g3 send show thesis by (auto split: if_splits option.splits)
  qed
  note C = this
  have S: "rz_host rz2 = rz_host rz \<and> solving_pk_mismatch g2 = solving_pk_mismatch g \<and> last_register_resp l2 = last_register_resp l
      \<and> reg_timeout l2 = reg_timeout l \<and> rz_outs g2 = rz_outs g \<and> config (rz_store g2) = config (rz_store g)"
    if "(if ?timeout then count_failure h (rz, l, g) else ((rz, l, g), None)) = ((rz2, l2, g2), None)" for rz2 l2 g2
    using that count_failure_keeps [of h rz l g rz2 l2 g2 None] by (auto split: if_splits)
  show "rz_host rz' = rz_host rz \<and> solving_pk_mismatch g' = solving_pk_mismatch g \<and> last_register_resp l' = last_register_resp l \<and> reg_timeout l' = MIN_REG_TIMEOUT"
    using C
  proof cases
    case (send rz2 l2 g2 g3)
    from S [OF send(1)] assms(2) have "solves (rz_host rz2) g2" by auto
    from register_peer_spec(1) [OF send(2) this] S [OF send(1)] send(3-5) assms(3) show ?thesis by simp
  qed (simp add: assms(3))
  show "last_register_sent l' = Some (rh_time h) \<and> registers (rz_outs g')
       \<or> (\<exists>x. last_register_sent l' = Some x \<and> last_register_sent l = Some x \<and> rh_time h < x + 3000000)
       \<or> (\<exists>x. last_register_sent l' = None \<and> last_register_resp l = Some x \<and> rh_time h < x + 15000000)"
    using C
  proof cases
    case quiet
    then show ?thesis
      using assms(3) by (cases "last_register_sent l"; cases "last_register_resp l") (auto simp: elapsed_ms_def elapsed_def MIN_REG_TIMEOUT_def REG_INTERVAL_def)
  next
    case (send rz2 l2 g2 g3)
    from S [OF send(1)] assms(2) have "solves (rz_host rz2) g2" by auto
    from register_peer_spec(3) [OF send(2) this] send show ?thesis by simp
  qed
  show "key_confirmed (config (rz_store g')) = key_confirmed (config (rz_store g))"
    using C
  proof cases
    case (send rz2 l2 g2 g3)
    from S [OF send(1)] assms(2) have "solves (rz_host rz2) g2" by auto
    from register_peer_spec(2) [OF send(2) this] S [OF send(1)] send(3-5) show ?thesis by simp
  qed simp
  show "ToServer (RegisterPeer i n) \<in> set (rz_outs g)"
    if "\<not> key_confirmed (config (rz_store g))" "ToServer (RegisterPeer i n) \<in> set (rz_outs g')"
    using C
  proof cases
    case (send rz2 l2 g2 g3)
    from S [OF send(1)] assms(2) have "solves (rz_host rz2) g2" by auto
    from register_peer_spec(4) [OF send(2) this, of i n] S [OF send(1)] send that show ?thesis by simp
  qed (use that in simp)
qed

section \<open>Registrations are kept fresh\<close>

definition registered_at :: "UdpTrace \<Rightarrow> nat \<Rightarrow> bool" where
  "registered_at tr x \<longleftrightarrow> (\<exists>e os. (x, e, os) \<in> set tr \<and> registers os)"

definition answered_at :: "UdpTrace \<Rightarrow> nat \<Rightarrow> bool" where
  "answered_at tr x \<longleftrightarrow> (\<exists>e os. (x, e, os) \<in> set tr \<and> is_answer e)"

lemma at_snoc [intro]:
  "registered_at tr x \<Longrightarrow> registered_at (tr @ ys) x" "answered_at tr x \<Longrightarrow> answered_at (tr @ ys) x"
  "registers os \<Longrightarrow> registered_at (tr @ [(x, e, os)]) x" "is_answer e \<Longrightarrow> answered_at (tr @ [(x, e, os)]) x"
  by (auto simp: registered_at_def answered_at_def)

definition sound :: "string \<Rightarrow> UdpTrace \<Rightarrow> UdpState \<Rightarrow> bool" where
  "sound hst tr = (\<lambda>(rz, l, g). rz_host rz = hst \<and> solves hst g \<and> reg_timeout l = MIN_REG_TIMEOUT
     \<and> (\<forall>x. last_register_sent l = Some x \<longrightarrow> registered_at tr x)
     \<and> (\<forall>x. last_register_resp l = Some x \<longrightarrow> answered_at tr x))"

lemma sound_step:
  assumes "sound hst tr (rz, l, g)" and "interference g g1" and "udp_step h ev (rz, l, g1\<lparr>rz_outs := []\<rparr>) = Continue (rz', l', g')"
  shows "sound hst (tr @ [(rh_time h, ev, rz_outs g')]) (rz', l', g')"
proof -
  let ?g = "g1\<lparr>rz_outs := []\<rparr>"
  have s: "solves (rz_host rz) ?g" and rt: "reg_timeout l = MIN_REG_TIMEOUT" and hst: "rz_host rz = hst"
    using assms(1,2) by (auto simp: sound_def interference_def)
  consider (answer) "is_answer ev" | (tick) "ev = UdpTick" | (other) "\<not> is_answer ev" "ev \<noteq> UdpTick" by auto
  then show ?thesis
  proof cases
    case answer
    from recv_answer(1) [OF assms(3) this s] answer hst show ?thesis
      by (auto simp: sound_def)
  next
    case tick
    then have "udp_tick h (rz, l, ?g) = Continue (rz', l', g')" using assms(3) by (simp add: udp_step_def)
    from tick_step(1,2) [OF this s rt] assms(1) s show ?thesis by (auto simp: sound_def hst)
  next
    case other
    from recv_other(1) [OF assms(3) this] assms(1,2) show ?thesis by (fastforce simp: sound_def interference_def)
  qed
qed

lemma run_sound: "udp_run s0 tr s \<Longrightarrow> sound hst tr0 s0 \<Longrightarrow> sound hst (tr0 @ tr) s"
proof (induction rule: udp_run.induct)
  case (step tr rz l g g1 h ev rz' l' g')
  from sound_step [OF step.IH [OF step.prems] step.hyps(2,4)] show ?case by simp
qed simp

lemma start_sound: "solving_pk_mismatch g = [] \<Longrightarrow> sound (check_port host RENDEZVOUS_PORT) [] (start_udp h host addr g)"
  by (simp add: sound_def start_udp_def Let_def)

text \<open>C12: The host stays registered.  After every tick of the timer, either a registration went out less
  than three seconds ago, or the server answered one less than fifteen seconds ago.\<close>

theorem registration_kept_fresh:
  assumes "solving_pk_mismatch g = []" and "udp_run (start_udp h host addr g) (tr @ [(tm, UdpTick, os)]) s"
  shows "\<exists>(t, e, out) \<in> set (tr @ [(tm, UdpTick, os)]). t \<le> tm \<and> (registers out \<and> tm < t + 3000000 \<or> is_answer e \<and> tm < t + 15000000)"
proof -
  obtain rz l g0 g1 k rz' l' g' where 1: "udp_run (start_udp h host addr g) tr (rz, l, g0)" "interference g0 g1"
    "list_all (\<lambda>(t, _). t \<le> rh_time k) tr" "udp_step k UdpTick (rz, l, g1\<lparr>rz_outs := []\<rparr>) = Continue (rz', l', g')"
    "tm = rh_time k" "os = rz_outs g'"
    using assms(2) by (elim udp_run_snocE) auto
  have a: "sound (check_port host RENDEZVOUS_PORT) tr (rz, l, g0)"
    using run_sound [OF _ start_sound [OF assms(1)]] 1 by fastforce
  have s: "solves (rz_host rz) (g1\<lparr>rz_outs := []\<rparr>)" and rt: "reg_timeout l = MIN_REG_TIMEOUT"
    using a 1 by (auto simp: sound_def interference_def)
  have tk: "udp_tick k (rz, l, g1\<lparr>rz_outs := []\<rparr>) = Continue (rz', l', g')" and n: "tm = rh_time k" "os = rz_outs g'"
    using 1 by (auto simp: udp_step_def)
  have le: "t \<le> tm" if "(t, e, os') \<in> set tr" for t e os'
    using 1 that by (auto simp: list_all_iff n)
  from tick_step(2) [OF tk s rt] consider "registers os"
    | x e out where "(x, e, out) \<in> set tr" "registers out" "tm < x + 3000000"
    | x e out where "(x, e, out) \<in> set tr" "is_answer e" "tm < x + 15000000"
    using a n by (auto simp: sound_def registered_at_def answered_at_def)
  then show ?thesis by cases (use le in \<open>force+\<close>)
qed

text \<open>A machine that starts for the first time.\<close>

definition demo_rz :: RzGlobals where
  "demo_rz = \<lparr>rz_store = first_run, key_cache = None, online = [], solving_pk_mismatch = [],
     last_msg = (V4 [0, 0, 0, 0] 0, 0), last_relay_msg = (V4 [0, 0, 0, 0] 0, 0), should_exit = False,
     manual_restarted = False, sent_register_pk = False, rz_outs = []\<rparr>"

definition demo_rz_host :: "nat \<Rightarrow> RzHost" where
  "demo_rz_host t = \<lparr>rh_env = plain_env, rh_time = t, rh_hostname = None, rh_mac = None, rh_new_id = 7,
     rh_keypair = (''sk'', ''pk''), rh_machine_uuid = ''u'', rh_send = None, rh_connect = Inr (V4 [10, 0, 0, 2] 5),
     rh_local_parse = Inr, rh_relay_connect = Inr (), rh_relay_send = None, rh_direct_udp = None, rh_ipv6 = None,
     rh_uuid = ''r'', rh_mangle_tm = 0, rh_key = [], rh_rebind = Inr None\<rparr>"

lemma demo_rz_host_sel [simp]:
  "rh_time (demo_rz_host t) = t" "rh_new_id (demo_rz_host t) = 7" "rh_send (demo_rz_host t) = None"
  "rh_connect (demo_rz_host t) = Inr (V4 [10, 0, 0, 2] 5)" "rh_relay_connect (demo_rz_host t) = Inr ()"
  "rh_relay_send (demo_rz_host t) = None" "rh_rebind (demo_rz_host t) = Inr None" "rh_key (demo_rz_host t) = []"
  by (simp_all add: demo_rz_host_def)

abbreviation demo_start :: UdpState where
  "demo_start \<equiv> start_udp (demo_rz_host 0) ''h'' (TargetDomain ''h'' 0) demo_rz"

definition demo_registered :: UdpState where
  "demo_registered = (case demo_start of (rz, l, g) \<Rightarrow> (rz, l\<lparr>last_register_sent := Some 5\<rparr>,
     g\<lparr>key_cache := Some (''sk'', ''pk''), sent_register_pk := True,
       rz_outs := [SaveKeyPair (''sk'', ''pk''), ToServer (RegisterPk ''123'' ''u'' ''pk'' False)]\<rparr>))"

lemmas demo_tick_simps = udp_step_def udp_tick_def using_public_server_def demo_rz_def demo_rz_host_def register_peer_def
  register_pk_def get_key_pair_def get_id_def put_def sink_send_def first_run_def encrypted_config_def no_register_device_def builtin_eq_def

lemma demo_tick: "udp_step (demo_rz_host 5) UdpTick demo_start = Continue demo_registered"
  by (simp add: start_udp_def demo_registered_def demo_tick_simps Let_def hm_get_def)

lemma demo_quiet:
  "udp_step (demo_rz_host 1000000) UdpTick (case demo_registered of (rz, l, g) \<Rightarrow> (rz, l, g\<lparr>rz_outs := []\<rparr>))
     = Continue (case demo_registered of (rz, l, g) \<Rightarrow> (rz, l, g\<lparr>rz_outs := []\<rparr>))"
  by (simp add: start_udp_def demo_registered_def demo_tick_simps Let_def elapsed_ms_def elapsed_def MIN_REG_TIMEOUT_def)

lemma interference_refl [simp]: "interference g g" by (simp add: interference_def)

lemma demo_run1: "udp_run demo_start [(5, UdpTick, rz_outs (snd (snd demo_registered)))] demo_registered"
proof -
  have "udp_run demo_start ([] @ [(rh_time (demo_rz_host 5), UdpTick, rz_outs (snd (snd demo_registered)))])
    (fst demo_registered, fst (snd demo_registered), snd (snd demo_registered))"
    by (rule udp_run.step [OF _ interference_refl, of _ _ "fst demo_start" "fst (snd demo_start)" "snd (snd demo_start)"])
       (use demo_tick in \<open>simp_all add: udp_run.start start_udp_def demo_rz_def Let_def\<close>)
  then show ?thesis by (simp add: demo_rz_host_def)
qed

text \<open>The first tick registers, a second one a second later has nothing to do.\<close>

theorem registration_kept_fresh_witness:
  "\<exists>tr s. udp_run demo_start (tr @ [(1000000, UdpTick, [])]) s \<and>
     (\<exists>(t, e, out) \<in> set (tr @ [(1000000, UdpTick, [])]). t \<le> 1000000 \<and> (registers out \<and> 1000000 < t + 3000000 \<or> is_answer e \<and> 1000000 < t + 15000000))"
proof -
  let ?tr = "[(5 :: nat, UdpTick, rz_outs (snd (snd demo_registered)))]"
  obtain rz l g where d: "demo_registered = (rz, l, g)" by (cases demo_registered)
  have "udp_run demo_start (?tr @ [(rh_time (demo_rz_host 1000000), UdpTick, rz_outs (g\<lparr>rz_outs := []\<rparr>))]) (rz, l, g\<lparr>rz_outs := []\<rparr>)"
    by (rule udp_run.step [OF demo_run1 [unfolded d] interference_refl, folded d])
       (use demo_quiet in \<open>simp_all add: d demo_rz_host_def\<close>)
  then have "udp_run demo_start (?tr @ [(1000000, UdpTick, [])]) (rz, l, g\<lparr>rz_outs := []\<rparr>)"
    by (simp add: demo_rz_host_def)
  moreover from registration_kept_fresh [OF _ this] have "\<exists>(t, e, out) \<in> set (?tr @ [(1000000 :: nat, UdpTick, [])]).
      t \<le> 1000000 \<and> (registers out \<and> 1000000 < t + 3000000 \<or> is_answer e \<and> 1000000 < t + 15000000)"
    by (simp add: demo_rz_def)
  ultimately show ?thesis by blast
qed

section \<open>A new identity is confirmed before it is used\<close>

lemma unconfirmed_step:
  assumes "\<not> key_confirmed (config (rz_store g))" and "sound hst tr (rz, l, g)" and "interference g g1"
    and "udp_step h ev (rz, l, g1\<lparr>rz_outs := []\<rparr>) = Continue (rz', l', g')"
    and "\<And>k. ev \<noteq> UdpRecv (Some (Some (RegisterPkResponse 0 k)))"
  shows "\<not> key_confirmed (config (rz_store g')) \<and> ToServer (RegisterPeer i n) \<notin> set (rz_outs g')"
proof -
  let ?g = "g1\<lparr>rz_outs := []\<rparr>"
  have s: "solves (rz_host rz) ?g" and rt: "reg_timeout l = MIN_REG_TIMEOUT"
    using assms(2,3) by (auto simp: sound_def interference_def)
  have k: "\<not> key_confirmed (config (rz_store ?g))" using assms(1,3) by (auto simp: interference_def)
  consider (answer) "is_answer ev" | (tick) "ev = UdpTick" | (other) "\<not> is_answer ev" "ev \<noteq> UdpTick" by auto
  then show ?thesis
  proof cases
    case answer
    from recv_answer(2,3) [OF assms(4) this s assms(5)] k show ?thesis by auto
  next
    case tick
    then have "udp_tick h (rz, l, ?g) = Continue (rz', l', g')" using assms(4) by (simp add: udp_step_def)
    from tick_step(3,4) [OF this s rt] k show ?thesis by auto
  next
    case other
    from recv_other(2,3) [OF assms(4) this] k show ?thesis by auto
  qed
qed

lemma unconfirmed_run:
  assumes "udp_run s0 tr s" and "sound hst tr0 s0" and "\<not> key_confirmed (config (rz_store (snd (snd s0))))"
    and "list_all (\<lambda>(_, ev, _). \<forall>k. ev \<noteq> UdpRecv (Some (Some (RegisterPkResponse 0 k)))) tr"
  shows "\<not> key_confirmed (config (rz_store (snd (snd s)))) \<and> list_all (\<lambda>(_, _, os). \<forall>i n. ToServer (RegisterPeer i n) \<notin> set os) tr"
  using assms
proof (induction rule: udp_run.induct)
  case (step tr rz l g g1 h ev rz' l' g')
  from run_sound [OF step(1) assms(2)] have "sound hst (tr0 @ tr) (rz, l, g)" .
  from unconfirmed_step [OF _ this step(2,4)] step.IH step.prems show ?case by auto
qed simp

text \<open>C13: A rejected identity is replaced and proven anew.  When the server reports that the identity
  belongs to another machine, the host draws a new one and registers its key under it at once; from then
  on, until the server confirms the key, it never registers by identity alone, whatever else arrives
  and however other tasks interfere.\<close>

theorem rejected_identity_replaced:
  assumes "solving_pk_mismatch g = []" and "udp_run (start_udp h0 host addr g) tr (rz, l, g0)" and "interference g0 g1"
    and "udp_step h (UdpRecv (Some (Some (RegisterPkResponse 2 ka)))) (rz, l, g1\<lparr>rz_outs := []\<rparr>) = Continue s1"
    and "udp_run s1 tr' s2" and "list_all (\<lambda>(_, ev, _). \<forall>k. ev \<noteq> UdpRecv (Some (Some (RegisterPkResponse 0 k)))) tr'"
  shows "(\<exists>u pk b. ToServer (RegisterPk (show_nat (1000000000 + rh_new_id h mod 1000000000)) u pk b) \<in> set (rz_outs (snd (snd s1))))
    \<and> list_all (\<lambda>(_, _, os). \<forall>i n. ToServer (RegisterPeer i n) \<notin> set os) tr'"
proof -
  obtain rz1 l1 g2 where s1: "s1 = (rz1, l1, g2)" by (cases s1)
  let ?g = "g1\<lparr>rz_outs := []\<rparr>"
  have a: "sound (check_port host RENDEZVOUS_PORT) tr (rz, l, g0)"
    using run_sound [OF assms(2) start_sound [OF assms(1)]] by simp
  note a1 = sound_step [OF a assms(3) assms(4) [unfolded s1]]
  obtain l3 g3 where u: "udp_update_latency h (rz_host rz) (l, ?g) = (l3, g3)" by (cases "udp_update_latency h (rz_host rz) (l, ?g)")
  have m: "handle_uuid_mismatch h rz g3 = (g2, None)"
    using assms(4) by (auto simp: s1 udp_step_def handle_resp_def u pk_response_def split: prod.splits option.splits)
  have "solves (rz_host rz) g3" using a assms(3) udp_update_keeps(2) [OF u] by (auto simp: sound_def interference_def)
  note M = mismatch_spec(2,3) [OF m this]
  have "\<not> key_confirmed (config (rz_store (snd (snd s1))))" using M(1) s1 by simp
  from unconfirmed_run [OF assms(5) a1 [folded s1] this assms(6)] M(2) [OF refl] show ?thesis by (simp add: s1) (metis append_assoc in_set_conv_decomp)
qed

text \<open>The server rejects the first registration; at the next tick the host has nothing but its key to
  send.\<close>

lemma answered_continues:
  "rh_send h = None \<Longrightarrow> \<exists>s1. udp_step h (UdpRecv (Some (Some (RegisterPkResponse n k)))) (rz, l, g) = Continue s1"
  by (auto simp: udp_step_def handle_resp_def pk_response_def handle_uuid_mismatch_def register_pk_def sink_send_def
      case_prod_unfold Let_def split: prod.splits option.splits)

lemma register_peer_continues: "rh_send h = None \<Longrightarrow> snd (register_peer h rz g) = None"
  by (simp add: register_peer_def register_pk_def sink_send_def case_prod_unfold Let_def)

lemma count_failure_continues: "rh_rebind h = Inr x \<Longrightarrow> snd (count_failure h (rz, l, g)) = None"
  by (simp add: count_failure_def Let_def split: option.split)

lemma tick_continues:
  assumes "rh_send h = None" and "rh_rebind h = Inr x" and "\<not> should_exit g"
  shows "\<exists>s. udp_tick h (rz, l, g) = Continue s"
proof -
  have "\<exists>s. (case (if b then count_failure h (rz, l1, g) else ((rz, l1, g), None)) of (_, Some e) \<Rightarrow> Bail e
      | ((rz2, l2, g2), None) \<Rightarrow> (case register_peer h rz2 g2 of (_, Some e) \<Rightarrow> Bail e
         | (g3, None) \<Rightarrow> Continue (rz2, l2\<lparr>last_register_sent := Some (rh_time h)\<rparr>, g3))) = Continue s" for b l1
  proof -
    obtain rz2 l2 g2 where x: "(if b then count_failure h (rz, l1, g) else ((rz, l1, g), None)) = ((rz2, l2, g2), None)"
      using count_failure_continues [OF assms(2), of rz l1 g] by (cases b; cases "count_failure h (rz, l1, g)") auto
    obtain g3 where "register_peer h rz2 g2 = (g3, None)"
      using register_peer_continues [OF assms(1), of rz2 g2] by (cases "register_peer h rz2 g2") simp
    with x show ?thesis by simp
  qed
  then show ?thesis using assms(3) by (simp add: udp_tick_def Let_def)
qed

theorem rejected_identity_replaced_witness:
  "\<exists>s1 s2 os. udp_run s1 [(20000000, UdpTick, os)] s2 \<and> (\<forall>i n. ToServer (RegisterPeer i n) \<notin> set os)
     \<and> (\<exists>u pk b. ToServer (RegisterPk (show_nat 1000000007) u pk b) \<in> set (rz_outs (snd (snd s1))))"
proof -
  obtain rz l g where d: "demo_registered = (rz, l, g)" by (cases demo_registered)
  let ?h = "demo_rz_host 10" and ?k = "demo_rz_host 20000000"
  have r: "rh_send (demo_rz_host t) = None" "rh_rebind (demo_rz_host t) = Inr None" "rh_time (demo_rz_host t) = t" "rh_new_id (demo_rz_host t) = 7" for t
    by (simp_all add: demo_rz_host_def)
  obtain rz1 l1 g1 where s1: "udp_step ?h (UdpRecv (Some (Some (RegisterPkResponse 2 0)))) (rz, l, g\<lparr>rz_outs := []\<rparr>) = Continue (rz1, l1, g1)"
    using answered_continues [OF r(1)] by (metis prod.exhaust)
  obtain s2 where s2: "udp_step ?k UdpTick (rz1, l1, g1\<lparr>should_exit := False, rz_outs := []\<rparr>) = Continue s2"
    using tick_continues [OF r(1,2), of "g1\<lparr>should_exit := False, rz_outs := []\<rparr>" 20000000 rz1 l1] by (auto simp: udp_step_def)
  obtain rz2 l2 g2 where s2': "s2 = (rz2, l2, g2)" by (cases s2)
  have "udp_run (rz1, l1, g1) ([] @ [(rh_time ?k, UdpTick, rz_outs g2)]) (rz2, l2, g2)"
    by (rule udp_run.step [OF udp_run.start, of _ "g1\<lparr>should_exit := False\<rparr>"])
       (use s2 in \<open>simp_all add: interference_def s2'\<close>)
  then have run: "udp_run (rz1, l1, g1) [(20000000, UdpTick, rz_outs g2)] (rz2, l2, g2)" by (simp add: r)
  from rejected_identity_replaced [OF _ demo_run1 [unfolded d] interference_refl s1 run]
  have "(\<exists>u pk b. ToServer (RegisterPk (show_nat 1000000007) u pk b) \<in> set (rz_outs g1)) \<and> (\<forall>i n. ToServer (RegisterPeer i n) \<notin> set (rz_outs g2))"
    by (simp add: r demo_rz_def)
  with run show ?thesis by (intro exI [of _ "(rz1, l1, g1)"] exI [of _ "(rz2, l2, g2)"] exI [of _ "rz_outs g2"]) simp
qed

section \<open>Connections opened for announced peers\<close>

text \<open>What the task of an announcement may put out: how a connection is opened, and whether an output
  reveals or uses an address of the host directly.\<close>

fun opens :: "RzOut \<Rightarrow> (bool \<times> u64 option) option" where
  "opens (AcceptOn _ _ secure cp) = Some (secure, cp)"
| "opens (UdpListen _ _ cp) = Some (True, cp)"
| "opens (RelayStream _ secure cp) = Some (secure, cp)"
| "opens _ = None"

fun is_direct :: "RzOut \<Rightarrow> bool" where
  "is_direct (AcceptOn _ _ _ _) = True"
| "is_direct (UdpListen _ _ _) = True"
| "is_direct (PunchTcp _) = True"
| "is_direct (UdpToRendezvous _ _) = True"
| "is_direct (ToRendezvous _ (LocalAddrMsg _ _ _ _ _)) = True"
| "is_direct (ToRendezvous _ (PunchHoleSentMsg _)) = True"
| "is_direct _ = False"

fun task_grant :: "RzTask \<Rightarrow> bool \<times> u64 option" where
  "task_grant (PunchHoleTask ph) = (True, ph_control_permissions ph)"
| "task_grant (RelayTask rr) = (rr_secure rr, rr_control_permissions rr)"
| "task_grant (IntranetTask fla) = (True, fla_control_permissions fla)"

fun relay_only :: "Store \<Rightarrow> RzTask \<Rightarrow> bool" where
  "relay_only st (PunchHoleTask ph) = (use_ws st \<or> is_proxy st \<or> ph_force_relay ph)"
| "relay_only st (RelayTask rr) = True"
| "relay_only st (IntranetTask fla) = (use_ws st \<or> is_proxy st)"

definition proper :: "bool \<Rightarrow> bool \<times> u64 option \<Rightarrow> RzOut \<Rightarrow> bool" where
  "proper relayed grant x \<longleftrightarrow> (opens x = None \<or> opens x = Some grant) \<and> (relayed \<longrightarrow> \<not> is_direct x)"

definition adds :: "(RzOut \<Rightarrow> bool) \<Rightarrow> RzGlobals \<Rightarrow> RzGlobals \<Rightarrow> bool" where
  "adds P g g' \<longleftrightarrow> (\<exists>os. rz_outs g' = rz_outs g @ os \<and> list_all P os)"

lemma adds_refl [simp]: "adds P g g" by (simp add: adds_def)

lemma adds_trans: "adds P g g' \<Longrightarrow> adds P g' g'' \<Longrightarrow> adds P g g''"
  by (auto simp: adds_def)

lemma adds_put: "adds P g g' \<Longrightarrow> P x \<Longrightarrow> adds P g (put x g')"
  by (auto simp: adds_def)

lemma adds_get_id: "adds P g g' \<Longrightarrow> adds P g (fst (get_id h g'))"
  by (simp add: adds_def)

lemma adds_last: "adds P g (g'\<lparr>last_msg := x\<rparr>) = adds P g g'" "adds P (g\<lparr>last_msg := x\<rparr>) g' = adds P g g'"
  "adds P (g\<lparr>last_relay_msg := x\<rparr>) g' = adds P g g'"
  by (simp_all add: adds_def)

lemma relay_adds:
  assumes "create_relay h rz a rs u secure init v6 cp g = (g', r)"
  shows "adds (proper relayed (secure, cp)) g g'"
  using assms
  by (auto simp: create_relay_def create_relay_connection_def proper_def case_prod_unfold Let_def
      intro!: adds_put adds_get_id split: sum.splits option.splits if_splits)

lemma ipv6_adds:
  assumes "start_ipv6 h a b cp g = (g', v6)" and "\<not> relayed"
  shows "adds (proper relayed (True, cp)) g g'"
  using assms by (auto simp: start_ipv6_def proper_def intro!: adds_put split: option.splits)

lemma direct_adds:
  assumes "handle_intranet_direct h rz fla rs v6 g = (g', r)"
  shows "adds (proper False (True, fla_control_permissions fla)) g g'"
  using assms
  by (auto simp: handle_intranet_direct_def proper_def case_prod_unfold Let_def
      intro!: adds_put adds_get_id split: sum.splits option.splits)

lemma punch_udp_adds:
  assumes "punch_udp_hole h rz a m cp g = (g', r)"
  shows "adds (proper False (True, cp)) g g'"
  using assms by (auto simp: punch_udp_hole_def proper_def numeral_3_eq_3 intro!: adds_put split: option.splits)

lemma intranet_adds:
  assumes "handle_intranet h rz fla g = (g', r)"
  shows "adds (proper (use_ws (rz_store g) \<or> is_proxy (rz_store g)) (True, fla_control_permissions fla)) g g'"
proof (cases "is_duplicate h (mangle_decode (fla_socket_addr fla)) (last_msg g)")
  case True
  with assms show ?thesis by (auto simp: handle_intranet_def adds_last)
next
  case False
  let ?a = "mangle_decode (fla_socket_addr fla)" and ?a6 = "mangle_decode (fla_socket_addr_v6 fla)"
  let ?relay = "use_ws (rz_store g) \<or> is_proxy (rz_store g)" and ?cp = "fla_control_permissions fla"
  let ?g1 = "g\<lparr>last_msg := (?a, rh_time h)\<rparr>" and ?rs = "get_relay_server rz (fla_relay_server fla)"
  let ?P = "proper ?relay (True, ?cp)"
  obtain g2 v6 where 2: "(if sa_port ?a6 > 0 \<and> \<not> ?relay then start_ipv6 h ?a6 ?a ?cp ?g1 else (?g1, [])) = (g2, v6)"
    by (metis prod.exhaust)
  have a2: "adds ?P g g2" using 2 ipv6_adds [of h ?a6 ?a ?cp ?g1 g2 v6 ?relay] by (auto simp: adds_last split: if_splits)
  let ?relayed = "create_relay h rz (fla_socket_addr fla) ?rs (rh_uuid h) True True v6 ?cp"
  have E: "handle_intranet h rz fla g = (if is_ipv4 (rz_addr rz) \<and> \<not> ?relay \<and> \<not> is_disable_tcp_listen (rz_store g2)
       then (case handle_intranet_direct h rz fla ?rs v6 g2 of (g3, None) \<Rightarrow> (g3, None) | (g3, Some _) \<Rightarrow> ?relayed g3) else ?relayed g2)"
    using False 2 by (simp add: handle_intranet_def Let_def)
  show ?thesis
  proof (cases "is_ipv4 (rz_addr rz) \<and> \<not> ?relay \<and> \<not> is_disable_tcp_listen (rz_store g2)")
    case True
    obtain g3 r3 where 3: "handle_intranet_direct h rz fla ?rs v6 g2 = (g3, r3)" by (cases "handle_intranet_direct h rz fla ?rs v6 g2")
    have "?relay = False" using True by simp
    with direct_adds [OF 3] have "adds ?P g2 g3" by simp
    with a2 have a3: "adds ?P g g3" by (rule adds_trans)
    show ?thesis
    proof (cases r3)
      case None
      with E True 3 a3 assms show ?thesis by simp
    next
      case (Some e)
      with E True 3 assms have "?relayed g3 = (g', r)" by simp
      from relay_adds [OF this] a3 show ?thesis by (rule adds_trans [rotated])
    qed
  next
    case F: False
    with E assms have "?relayed g2 = (g', r)" by (simp only: if_False)
    from relay_adds [OF this] a2 show ?thesis by (rule adds_trans [rotated])
  qed
qed

lemma punch_hole_adds:
  assumes "handle_punch_hole h rz ph g = (g', r)"
  shows "adds (proper (use_ws (rz_store g) \<or> is_proxy (rz_store g) \<or> ph_force_relay ph) (True, ph_control_permissions ph)) g g'"
proof (cases "is_duplicate h (mangle_decode (ph_socket_addr ph)) (last_msg g)")
  case True
  with assms show ?thesis by (auto simp: handle_punch_hole_def adds_last)
next
  case False
  let ?a = "mangle_decode (ph_socket_addr ph)" and ?a6 = "mangle_decode (ph_socket_addr_v6 ph)"
  let ?relay = "use_ws (rz_store g) \<or> is_proxy (rz_store g) \<or> ph_force_relay ph" and ?cp = "ph_control_permissions ph"
  let ?g1 = "g\<lparr>last_msg := (?a, rh_time h)\<rparr>" and ?rs = "get_relay_server rz (ph_relay_server ph)"
  let ?P = "proper ?relay (True, ?cp)"
  obtain g2 v6 where 2: "(if sa_port ?a6 > 0 \<and> \<not> ?relay then start_ipv6 h ?a6 ?a ?cp ?g1 else (?g1, [])) = (g2, v6)"
    by (metis prod.exhaust)
  have a2: "adds ?P g g2" using 2 ipv6_adds [of h ?a6 ?a ?cp ?g1 g2 v6 ?relay] by (auto simp: adds_last split: if_splits)
  let ?c = "ph_nat_type ph = 2 \<or> nat_type (config2 (rz_store g2)) = 2 \<or> ?relay \<or> (is_disable_tcp_listen (rz_store g2) \<and> ph_udp_port ph \<le> 0)"
  show ?thesis
  proof (cases ?c)
    case True
    with False 2 assms have "create_relay h rz (ph_socket_addr ph) ?rs (rh_uuid h) True True v6 ?cp g2 = (g', r)"
      by (simp add: handle_punch_hole_def Let_def)
    from relay_adds [OF this] a2 show ?thesis by (rule adds_trans [rotated])
  next
    case c: False
    then have P: "?P = proper False (True, ?cp)" by simp
    obtain g3 i where 3: "get_id h g2 = (g3, i)" by (cases "get_id h g2")
    have a3: "adds ?P g g3" using adds_get_id [OF a2, of h] 3 by simp
    let ?m = "\<lparr>phs_socket_addr = ph_socket_addr ph, phs_id = i, phs_relay_server = ?rs,
                     phs_nat_type = nat_type_from_i32 (nat_type (config2 (rz_store g2))), phs_socket_addr_v6 = v6\<rparr>"
    show ?thesis
    proof (cases "ph_udp_port ph > 0")
      case True
      with c False 2 3 assms have "punch_udp_hole h rz (set_port (word_of_int (ph_udp_port ph)) ?a) ?m ?cp g3 = (g', r)"
        by (simp add: handle_punch_hole_def Let_def)
      from punch_udp_adds [OF this] a3 show ?thesis unfolding P by (rule adds_trans [rotated])
    next
      case F: False
      have "(case rh_connect h of
                       Inr sock \<Rightarrow>
                         (case rh_send h of
                            None \<Rightarrow> (put (AcceptOn sock ?a True ?cp)
                                     (put (ToRendezvous (rz_host rz) (PunchHoleSentMsg ?m)) (put (PunchTcp ?a) g3)), None)
                          | Some e \<Rightarrow> (put (PunchTcp ?a) g3, Some e))
                     | Inl e \<Rightarrow> (g3, Some e)) = (g', r)"
        using F c False 2 3 assms by (simp add: handle_punch_hole_def Let_def)
      then show ?thesis
        using a3 unfolding P by (auto simp: proper_def intro!: adds_put split: sum.splits option.splits)
    qed
  qed
qed

lemma task_adds:
  assumes "run_task h rz t g = (g', r)"
  shows "adds (proper (relay_only (rz_store g) t) (task_grant t)) g g'"
proof (cases t)
  case (RelayTask rr)
  with assms show ?thesis
    using relay_adds [of h rz "rr_socket_addr rr" "rr_relay_server rr" "rr_uuid rr" "rr_secure rr" False "[]" "rr_control_permissions rr"
        "g\<lparr>last_relay_msg := (mangle_decode (rr_socket_addr rr), rh_time h)\<rparr>" g' r True]
    by (auto simp: handle_request_relay_def adds_def Let_def split: if_splits)
qed (use assms in \<open>simp_all add: intranet_adds punch_hole_adds\<close>)

end
