(* ===== verification/Connection_Setup.thy ===== *)
theory Connection_Setup
  imports Rendezvous_Correct Secure_Channel Connection_Safety
begin

text \<open>
  From an announcement of the rendezvous server to a running connection: \<open>create_tcp_connection\<close> of
  \<open>server.rs\<close> puts the key exchange of \<open>Secure_Channel\<close> in front of \<open>Connection::start\<close>.  What the server
  denied the peer in the announcement, the connection never does.
\<close>

section \<open>Setting a connection up\<close>

definition key_bytes :: "string \<Rightarrow> bytes" where
  "key_bytes s = map of_char s"

text \<open>The messages sent, and the error or the stream and the started connection.  \<open>Connection::start\<close> gets
  channels of its own.\<close>

definition create_tcp_connection ::
  "Nacl \<Rightarrow> Host \<Rightarrow> string \<Rightarrow> string \<times> string \<Rightarrow> bytes \<Rightarrow> HsIn \<Rightarrow> nat list \<Rightarrow> nat list \<Rightarrow> Server \<Rightarrow> SocketAddr \<Rightarrow> bool \<Rightarrow> u64 option
    \<Rightarrow> World \<Rightarrow> HsMsg list \<times> (string, FramedStream \<times> CS \<times> bool) outcome" where
  "create_tcp_connection n h host_id kp our_sk_b reply r1 r2 sv addr secure cp w =
    (let (sv1, i) = get_new_id sv; w1 = w\<lparr>server := Some sv1\<rparr> in
     case server_handshake n host_id (key_bytes (fst kp)) (key_bytes (snd kp)) our_sk_b secure reply of
       (ms, Err e) \<Rightarrow> (ms, Err e)
     | (ms, Panic) \<Rightarrow> (ms, Panic)
     | (ms, Ok (k, renew)) \<Rightarrow>
         (let w2 = (if renew then w1\<lparr>store := set_key_confirmed (env h) False (store w1)\<rparr> else w1);
              stream = (case k of Some key \<Rightarrow> set_key key stream_new | None \<Rightarrow> stream_new)
          in (ms, Ok (stream, conn_start h addr \<lparr>conn_id = i, tx = True, tx_video = True\<rparr> cp r1 r2 w2))))"

text \<open>The address a connection is set up with: a listener takes that of the peer it accepts.\<close>

fun connects :: "SocketAddr \<Rightarrow> RzOut \<Rightarrow> (SocketAddr \<times> bool \<times> u64 option) option" where
  "connects peer (AcceptOn _ _ secure cp) = Some (peer, secure, cp)"
| "connects peer (UdpListen _ v4 cp) = Some (v4, True, cp)"
| "connects peer (RelayStream a secure cp) = Some (a, secure, cp)"
| "connects peer _ = None"

lemma connects_opens: "connects peer x = Some (a, s, cp) \<Longrightarrow> opens x = Some (s, cp)"
  by (cases x) auto

section \<open>Denied rights\<close>

text \<open>What needs which right of the announcement.\<close>

definition uses :: "Permission \<Rightarrow> Out \<Rightarrow> bool" where
  "uses p x \<longleftrightarrow> (case x of
     InputOut (InMouse _ simulate _) \<Rightarrow> p = P_keyboard \<and> simulate
   | InputOut BlockOn \<Rightarrow> p = P_keyboard \<or> p = P_block_input
   | InputOut BlockOff \<Rightarrow> p = P_keyboard \<or> p = P_block_input
   | InputOut _ \<Rightarrow> p = P_keyboard
   | ResolutionOut _ _ _ \<Rightarrow> p = P_keyboard
   | LockScreen \<Rightarrow> p = P_keyboard
   | SetClipboard _ \<Rightarrow> p = P_clipboard
   | Reboot \<Rightarrow> p = P_restart
   | _ \<Rightarrow> False)"

definition has_right :: "Permission \<Rightarrow> Connection \<Rightarrow> bool" where
  "has_right p c \<longleftrightarrow> (case p of P_keyboard \<Rightarrow> keyboard c | P_clipboard \<Rightarrow> clipboard c | P_restart \<Rightarrow> restart c
     | P_block_input \<Rightarrow> block_input c | _ \<Rightarrow> True)"

lemma allowed_uses: "allowed c c' x \<Longrightarrow> uses p x \<Longrightarrow> has_right p c"
  by (auto simp: has_right_def uses_def split: Out.splits MessageInput.splits)

lemma lesser_right: "lesser c c' \<Longrightarrow> has_right p c' \<Longrightarrow> has_right p c"
  by (cases p) (auto simp: has_right_def lesser_def rights_def)

lemma started_without_right:
  assumes "get_control_permission perms p = Some False" and "uses p x"
  shows "\<not> has_right p (conn (fst (conn_start h addr inn (Some perms) r1 r2 w)))"
  using rights_conn_start [of h addr inn "Some perms" r1 r2 w] assms
  by (auto simp: has_right_def rights_def permission_def permission_of_option_def uses_def split: Out.splits MessageInput.splits)

lemma created_starts:
  assumes "snd (create_tcp_connection n h host_id kp sk reply r1 r2 sv addr secure cp w) = Ok (stream, s0)"
  obtains inn w' where "s0 = conn_start h addr inn cp r1 r2 w'"
  using assms by (auto simp: create_tcp_connection_def Let_def case_prod_unfold split: prod.splits outcome.splits)


text \<open>A peer announced without the clipboard, admitted by the user of the host, sends its clipboard.\<close>

lemma admitted_no_forward:
  "\<not> port_forward_socket (conn (send_logon_response h (upd_conn (\<lambda>c. c\<lparr>require_2fa := None\<rparr>) ((fst (conn_start k addr inn cp r1 r2 w))\<lparr>world := w'\<rparr>))))"
  (is "\<not> port_forward_socket (conn (send_logon_response h ?u))")
proof (cases rule: send_logon_cases [of h ?u])
  case (granted ty t b)
  then show ?thesis
    using core_D(13) [OF granted(1)] origin_conn_start [of k addr inn cp r1 r2 w] by (auto simp: origin_def)
next
  case same
  then show ?thesis using origin_conn_start [of k addr inn cp r1 r2 w] by (auto simp: origin_def)
qed

definition demo_relay :: RequestRelay where
  "demo_relay = \<lparr>rr_socket_addr = [], rr_relay_server = ''r'', rr_uuid = ''u'', rr_secure = True, rr_control_permissions = Some 16\<rparr>"


end
