(* ===== verification/Backup_Helper.thy ===== *)
theory Backup_Helper
  imports Rust_Strings "HOL-Library.List_Lexorder" "HOL-Library.Char_ord" "HOL-Library.Sublist"
begin

text \<open>
  \<open>libs/seedesktop_backup_helper/src/main.rs\<close>: names of backups in the cloud, what an upload prunes, and the
  restoring of a backup over the live configuration.  The credentials, the service and the zip reader
  answer through the record \<open>Cloud\<close>; the file system is a tree, and every operation on it may fail as
  \<open>io\<close> says.  Paths are lists of components.
\<close>

section \<open>Names\<close>

text \<open>\<open>str::replace\<close>.\<close>

function replace_str :: "string \<Rightarrow> string \<Rightarrow> string \<Rightarrow> string" where
  "replace_str p t [] = []"
| "replace_str p t (c # cs) =
    (if p \<noteq> [] \<and> starts_with p (c # cs) then t @ replace_str p t (drop (length p) (c # cs)) else c # replace_str p t cs)"
  by pat_completeness auto
termination by (relation "measure (\<lambda>(_, _, s). length s)") (auto simp: neq_Nil_conv)

definition bad_parts :: "string list" where
  "bad_parts = [''/'', [CHR 0x5C], ''..'', '':'', ''*'', ''?'', [CHR 0x22], ''<'', ''>'', ''|'']"

text \<open>\<open>lower\<close> is \<open>str::to_lowercase\<close>, a table of the Unicode standard.\<close>

definition sanitize_email :: "(string \<Rightarrow> string) \<Rightarrow> string \<Rightarrow> string" where
  "sanitize_email lower mail =
    (let s = lower (trim mail) in
     if s = [] then ''unknown''
     else let s1 = fold (\<lambda>bad s. replace_str bad ''_'' s) bad_parts (replace_str ''@'' ''_at_'' s)
          in if s1 = [] then ''unknown'' else s1)"

definition REMOTE_BACKUP_ROOT :: string where "REMOTE_BACKUP_ROOT = ''seedesktop/backups''"
definition MAX_BACKUPS :: nat where "MAX_BACKUPS = 3"

definition prefix_for_email :: "(string \<Rightarrow> string) \<Rightarrow> string \<Rightarrow> string" where
  "prefix_for_email lower mail = REMOTE_BACKUP_ROOT @ ''/'' @ sanitize_email lower mail @ ''/SeeDesktop/''"

text \<open>The pattern \<open>backup_\d{8}_\d{6}.zip\<close>, with ASCII digits.\<close>

definition parse_stamp :: "string \<Rightarrow> string option" where
  "parse_stamp filename =
    (if starts_with ''backup_'' filename \<and> length filename = 26 \<and> drop 22 filename = ''.zip'' then
       (let st = take 15 (drop 7 filename) in
        if list_all is_digit (take 8 st) \<and> st ! 8 = CHR ''_'' \<and> list_all is_digit (drop 9 st) then Some st else None)
     else None)"

definition hex_upper :: "nat \<Rightarrow> char" where
  "hex_upper n = (if n < 10 then char_of (48 + n) else char_of (55 + n))"

definition unreserved :: "char \<Rightarrow> bool" where
  "unreserved c \<longleftrightarrow> is_upper c \<or> is_lower c \<or> is_digit c \<or> c \<in> set ''-_.~''"

definition urlencoding_gcs :: "string \<Rightarrow> string" where
  "urlencoding_gcs s = concat (map (\<lambda>b. if unreserved b then [b]
     else [CHR ''%'', hex_upper (char_code b div 16), hex_upper (char_code b mod 16)]) s)"

definition GCS_BUCKET_NAME :: string where "GCS_BUCKET_NAME = ''my-saas-uploads-2025''"

definition gcs_object_url :: "string \<Rightarrow> string" where
  "gcs_object_url object_name =
     ''https://storage.googleapis.com/storage/v1/b/'' @ GCS_BUCKET_NAME @ ''/o/'' @ urlencoding_gcs object_name"

text \<open>\<open>Path::file_name\<close> on Windows, where both slashes separate.\<close>

definition leaf_name :: "string \<Rightarrow> string" where
  "leaf_name name =
    (let comps = filter (\<lambda>c. c \<noteq> [] \<and> c \<noteq> ''.'') (split_by (\<lambda>c. c = CHR ''/'' \<or> c = CHR 0x5C) name)
     in if comps = [] \<or> last comps = ''..'' then [] else last comps)"

section \<open>Uploads\<close>

text \<open>A page of a listing: its objects and the token of the next page.  The loop ends at a page with no
  token; \<open>pages\<close> are the answers of the service in order.\<close>

fun list_objects :: "(string + string list \<times> string option) list \<Rightarrow> string list \<Rightarrow> string + string list" where
  "list_objects [] all = Inl ''no answer''"
| "list_objects (Inl e # _) all = Inl e"
| "list_objects (Inr (items, token) # pages) all =
    (case token of
       None \<Rightarrow> Inr (all @ items)
     | Some t \<Rightarrow> if t = [] then Inr (all @ items) else list_objects pages (all @ items))"

definition backups_of :: "string list \<Rightarrow> (string \<times> string) list" where
  "backups_of all = concat (map (\<lambda>n. case parse_stamp (leaf_name n) of Some st \<Rightarrow> [(n, st)] | None \<Rightarrow> []) all)"

text \<open>\<open>sort_by\<close> in descending order of the stamps, a stable sort.\<close>

definition newest_first :: "(string \<times> string) list \<Rightarrow> (string \<times> string) list" where
  "newest_first bs = rev (sort_key snd (rev bs))"

datatype Request = PostZip string | Delete string

record Cloud =
  token_answer :: "string + unit"
  upload_answer :: "string + unit"
  pages :: "(string + string list \<times> string option) list"
  time_stamp :: string

definition cmd_upload :: "(string \<Rightarrow> string) \<Rightarrow> Cloud \<Rightarrow> bool \<Rightarrow> string \<Rightarrow> Request list \<times> string option" where
  "cmd_upload lower cl zip_is_file email =
    (if \<not> zip_is_file then ([], Some ''zip not found'')
     else case token_answer cl of Inl e \<Rightarrow> ([], Some e) | Inr _ \<Rightarrow>
       (let prefix = prefix_for_email lower email;
            object_name = prefix @ ''backup_'' @ time_stamp cl @ ''.zip'';
            post = PostZip object_name
        in case upload_answer cl of Inl e \<Rightarrow> ([post], Some e) | Inr _ \<Rightarrow>
           (case list_objects (pages cl) [] of
              Inl e \<Rightarrow> ([post], Some e)
            | Inr all \<Rightarrow>
                (let backups = newest_first (backups_of all) in
                 (post # (if length backups > MAX_BACKUPS
                          then map (\<lambda>(n, _). Delete (gcs_object_url n)) (drop MAX_BACKUPS backups) else []), None)))))"

text \<open>The listing for the user: the stamps, newest first.\<close>

definition cmd_list_json :: "Cloud \<Rightarrow> string + string list" where
  "cmd_list_json cl = (case token_answer cl of Inl e \<Rightarrow> Inl e | Inr _ \<Rightarrow>
     (case list_objects (pages cl) [] of
        Inl e \<Rightarrow> Inl e
      | Inr all \<Rightarrow> Inr (rev (sort (rev (map snd (backups_of all)))))))"

section \<open>The file system\<close>

type_synonym path = "string list"

datatype Node = FileN bytes | DirN "(string \<times> Node) list"

fun lookup :: "Node \<Rightarrow> path \<Rightarrow> Node option" where
  "lookup n [] = Some n"
| "lookup (DirN es) (c # cs) = (case hm_get es c of Some n \<Rightarrow> lookup n cs | None \<Rightarrow> None)"
| "lookup (FileN b) (c # cs) = None"

text \<open>Puts a node at a path whose parent exists, or removes the one there.\<close>

fun set_at :: "path \<Rightarrow> Node option \<Rightarrow> Node \<Rightarrow> Node" where
  "set_at [] v n = (case v of Some m \<Rightarrow> m | None \<Rightarrow> n)"
| "set_at (c # cs) v (FileN b) = FileN b"
| "set_at (c # cs) v (DirN es) =
    (if cs = [] then DirN (case v of Some m \<Rightarrow> hm_insert c m es | None \<Rightarrow> hm_remove c es)
     else case hm_get es c of Some n \<Rightarrow> DirN (hm_insert c (set_at cs v n) es) | None \<Rightarrow> DirN es)"

fun is_dir :: "Node option \<Rightarrow> bool" where
  "is_dir (Some (DirN _)) = True"
| "is_dir _ = False"

fun mkdirs :: "path \<Rightarrow> Node \<Rightarrow> Node option" where
  "mkdirs [] n = (if is_dir (Some n) then Some n else None)"
| "mkdirs (c # cs) (FileN b) = None"
| "mkdirs (c # cs) (DirN es) = (case mkdirs cs (case hm_get es c of Some n \<Rightarrow> n | None \<Rightarrow> DirN []) of
     Some n \<Rightarrow> Some (DirN (hm_insert c n es)) | None \<Rightarrow> None)"

text \<open>An operation of \<open>std::fs\<close>, and what the system answers: \<open>io\<close> tells whether it lets an operation
  succeed, \<open>remains\<close> what a failed removal leaves at the path.\<close>

datatype IoOp = IoRename path path | IoRemoveAll path | IoCreateDir path | IoReadDir path | IoCopy path | IoRemoveFile path

record ZipEntry =
  ze_name :: string
  ze_enclosed :: "path option"
  ze_data :: bytes

record Machine =
  io :: "IoOp \<Rightarrow> bool"
  remains :: "path \<Rightarrow> Node"
  appdata :: "path option"
  localappdata :: "path option"
  temp_dir :: path
  tmp_name :: string
  bak_name :: string
  support_bak :: string
  local_bak :: string
  downloaded :: bool
  zip_archive :: "string + ZipEntry list"

definition fs_rename :: "Machine \<Rightarrow> path \<Rightarrow> path \<Rightarrow> Node \<Rightarrow> Node option" where
  "fs_rename e p q d = (case lookup d p of
     None \<Rightarrow> None
   | Some n \<Rightarrow> if io e (IoRename p q) \<and> lookup d q = None \<and> is_dir (lookup d (butlast q)) \<and> \<not> prefix p q
               then Some (set_at q (Some n) (set_at p None d)) else None)"

definition remove_dir_all :: "Machine \<Rightarrow> path \<Rightarrow> Node \<Rightarrow> Node \<times> bool" where
  "remove_dir_all e p d =
    (if \<not> is_dir (lookup d p) then (d, False)
     else if io e (IoRemoveAll p) then (set_at p None d, True)
     else (set_at p (Some (remains e p)) d, False))"

definition create_dir_all :: "Machine \<Rightarrow> path \<Rightarrow> Node \<Rightarrow> Node option" where
  "create_dir_all e p d = (if io e (IoCreateDir p) then mkdirs p d else None)"

definition remove_file :: "Machine \<Rightarrow> path \<Rightarrow> Node \<Rightarrow> Node" where
  "remove_file e p d = (case lookup d p of
     Some (FileN _) \<Rightarrow> if io e (IoRemoveFile p) then set_at p None d else d | _ \<Rightarrow> d)"

section \<open>Restoring\<close>

text \<open>\<open>copy_dir_all\<close>, over the tree of the source; the flag tells whether it succeeded.\<close>

fun copy_dir_all :: "Machine \<Rightarrow> path \<Rightarrow> Node \<Rightarrow> Node \<Rightarrow> Node \<times> bool"
  and copy_entries :: "Machine \<Rightarrow> path \<Rightarrow> (string \<times> Node) list \<Rightarrow> Node \<Rightarrow> Node \<times> bool" where
  "copy_dir_all e dst (FileN b) d = (d, False)"
| "copy_dir_all e dst (DirN es) d = (case create_dir_all e dst d of
     None \<Rightarrow> (d, False)
   | Some d1 \<Rightarrow> if io e (IoReadDir dst) then copy_entries e dst es d1 else (d1, False))"
| "copy_entries e dst [] d = (d, True)"
| "copy_entries e dst ((c, FileN b) # es) d =
    (if io e (IoCopy (dst @ [c])) then copy_entries e dst es (set_at (dst @ [c]) (Some (FileN b)) d) else (d, False))"
| "copy_entries e dst ((c, DirN ns) # es) d = (case copy_dir_all e (dst @ [c]) (DirN ns) d of
     (d1, True) \<Rightarrow> copy_entries e dst es d1 | (d1, False) \<Rightarrow> (d1, False))"

definition AB_DATA_FILENAME :: string where "AB_DATA_FILENAME = ''SeeDesktop_ab''"
definition AB_RESTORE_MERGE_FLAG :: string where "AB_RESTORE_MERGE_FLAG = ''ab_restore_merge_pending''"

definition strip_address_book_data :: "Machine \<Rightarrow> path \<Rightarrow> Node \<Rightarrow> Node" where
  "strip_address_book_data e dir d = remove_file e (dir @ [AB_RESTORE_MERGE_FLAG]) (remove_file e (dir @ [AB_DATA_FILENAME]) d)"

fun extract_entries :: "Machine \<Rightarrow> path \<Rightarrow> ZipEntry list \<Rightarrow> nat \<Rightarrow> Node \<Rightarrow> Node \<times> nat option" where
  "extract_entries e root [] k d = (d, Some k)"
| "extract_entries e root (z # zs) k d = (case ze_enclosed z of
     None \<Rightarrow> extract_entries e root zs k d
   | Some rel \<Rightarrow>
       (if ze_name z \<noteq> [] \<and> (last (ze_name z) = CHR ''/'' \<or> last (ze_name z) = CHR 0x5C)
        then (case create_dir_all e (root @ rel) d of
                None \<Rightarrow> (d, None) | Some d1 \<Rightarrow> extract_entries e root zs k d1)
        else (case create_dir_all e (root @ butlast rel) d of
                None \<Rightarrow> (d, None)
              | Some d1 \<Rightarrow>
                  if io e (IoCopy (root @ rel)) \<and> rel \<noteq> [] \<and> \<not> is_dir (lookup d1 (root @ rel))
                  then extract_entries e root zs (k + 1) (set_at (root @ rel) (Some (FileN (ze_data z))) d1)
                  else (d1, None))))"

definition eq_ignore_case :: "string \<Rightarrow> string \<Rightarrow> bool" where
  "eq_ignore_case a b \<longleftrightarrow> map (\<lambda>c. if is_upper c then char_of (char_code c + 32) else c) a
     = map (\<lambda>c. if is_upper c then char_of (char_code c + 32) else c) b"

definition resolve_seedesktop_root :: "Machine \<Rightarrow> path \<Rightarrow> Node \<Rightarrow> path option" where
  "resolve_seedesktop_root e root d =
    (if is_dir (lookup d (root @ [''SeeDesktop''])) then Some (root @ [''SeeDesktop''])
     else case lookup d root of
        Some (DirN es) \<Rightarrow>
          (if io e (IoReadDir root)
           then map_option (\<lambda>(c, _). root @ [c]) (find (\<lambda>(c, n). is_dir (Some n) \<and> eq_ignore_case c ''seedesktop'') es)
           else None)
      | _ \<Rightarrow> None)"

definition extract_zip_to_staging :: "Machine \<Rightarrow> path \<Rightarrow> Node \<Rightarrow> Node \<times> path option" where
  "extract_zip_to_staging e root d = (case zip_archive e of
     Inl _ \<Rightarrow> (d, None)
   | Inr [] \<Rightarrow> (d, None)
   | Inr zs \<Rightarrow>
       (case (if lookup d root = None then (d, True) else remove_dir_all e root d) of
          (d1, False) \<Rightarrow> (d1, None)
        | (d1, True) \<Rightarrow> (case create_dir_all e root d1 of
             None \<Rightarrow> (d1, None)
           | Some d2 \<Rightarrow> (case extract_entries e root zs 0 d2 of
               (d3, None) \<Rightarrow> (d3, None)
             | (d3, Some k) \<Rightarrow>
                 if k = 0 then (d3, None)
                 else (case resolve_seedesktop_root e root d3 of
                    None \<Rightarrow> (d3, None)
                  | Some sd \<Rightarrow> (strip_address_book_data e sd d3, Some sd))))))"

text \<open>The core of both installations: move the old folder away, move or copy the new one in, and go back
  when the copy fails.  The flag tells whether it succeeded.\<close>

definition roll_back :: "Machine \<Rightarrow> bool \<Rightarrow> path \<Rightarrow> path \<Rightarrow> Node \<Rightarrow> Node" where
  "roll_back e had_old target bak d =
    (let d1 = (if lookup d target \<noteq> None then fst (remove_dir_all e target d) else d)
     in if had_old \<and> is_dir (lookup d1 bak)
        then (case fs_rename e bak target d1 of Some d2 \<Rightarrow> d2 | None \<Rightarrow> d1) else d1)"

definition swap_in :: "Machine \<Rightarrow> path \<Rightarrow> path \<Rightarrow> path \<Rightarrow> Node \<Rightarrow> Node \<times> bool" where
  "swap_in e src target bak d =
    (let had_old = is_dir (lookup d target) in
     case (if had_old then fs_rename e target bak d else Some d) of
       None \<Rightarrow> (d, False)
     | Some d1 \<Rightarrow>
         (case fs_rename e src target d1 of
            Some d2 \<Rightarrow> (d2, True)
          | None \<Rightarrow>
              (case copy_dir_all e target (case lookup d1 src of Some n \<Rightarrow> n | None \<Rightarrow> FileN []) d1 of
                 (d2, True) \<Rightarrow> (d2, True)
               | (d2, False) \<Rightarrow> (roll_back e had_old target bak d2, False))))"

definition drop_bak :: "Machine \<Rightarrow> bool \<Rightarrow> path \<Rightarrow> Node \<Rightarrow> Node" where
  "drop_bak e had_old bak d = (if had_old \<and> is_dir (lookup d bak) then fst (remove_dir_all e bak d) else d)"

definition install_optional_staging_folder :: "Machine \<Rightarrow> path \<Rightarrow> string \<Rightarrow> path \<Rightarrow> string \<Rightarrow> Node \<Rightarrow> Node \<times> bool" where
  "install_optional_staging_folder e root folder target bak_leaf d =
    (let src = root @ [folder] in
     case lookup d src of
       Some (DirN es) \<Rightarrow>
         if \<not> io e (IoReadDir src) then (d, False)
         else if es = [] then (d, True)
         else (case create_dir_all e (butlast target) d of
                 None \<Rightarrow> (d, False)
               | Some d1 \<Rightarrow>
                   (let bak = butlast target @ [bak_leaf]; had_old = is_dir (lookup d1 target) in
                    case swap_in e src target bak d1 of
                      (d2, False) \<Rightarrow> (d2, False)
                    | (d2, True) \<Rightarrow>
                        (let d3 = (if is_dir (lookup d2 src) then fst (remove_dir_all e src d2) else d2)
                         in (drop_bak e had_old bak d3, True))))
     | _ \<Rightarrow> (d, True))"

definition install_backup :: "Machine \<Rightarrow> path \<Rightarrow> path \<Rightarrow> Node \<Rightarrow> Node \<times> bool" where
  "install_backup e tmp ap d =
    (let target = ap @ [''SeeDesktop'']; bak = ap @ [bak_name e]; root = tmp @ [''staging''] in
     if \<not> downloaded e then (d, False)
     else case extract_zip_to_staging e root d of
       (d1, None) \<Rightarrow> (d1, False)
     | (d1, Some sd) \<Rightarrow>
         (let had_old = is_dir (lookup d1 target) in
          case swap_in e sd target bak d1 of
            (d2, False) \<Rightarrow> (d2, False)
          | (d2, True) \<Rightarrow>
              (let d3 = drop_bak e had_old bak d2 in
               case install_optional_staging_folder e root ''FlutterSupport'' (ap @ [''Toppc'', ''SeeDesktop'']) (support_bak e) d3 of
                 (d4, False) \<Rightarrow> (d4, False)
               | (d4, True) \<Rightarrow>
                   (case localappdata e of
                      None \<Rightarrow> (d4, False)
                    | Some la \<Rightarrow>
                        (case install_optional_staging_folder e root ''FlutterLocal'' (la @ [''Toppc'', ''SeeDesktop'']) (local_bak e) d4 of
                           (d5, False) \<Rightarrow> (d5, False)
                         | (d5, True) \<Rightarrow>
                             (strip_address_book_data e target (fst (remove_dir_all e root d5)), True))))))"

text \<open>\<open>cmd_restore\<close> on Windows; \<open>reachable\<close> tells whether credentials and token were obtained.\<close>

definition cmd_restore :: "Machine \<Rightarrow> bool \<Rightarrow> string \<Rightarrow> Node \<Rightarrow> Node \<times> bool" where
  "cmd_restore e reachable stamp d =
    (if trim stamp = [] \<or> \<not> reachable then (d, False)
     else let tmp = temp_dir e @ [tmp_name e] in
       case create_dir_all e tmp d of
         None \<Rightarrow> (d, False)
       | Some d1 \<Rightarrow>
           (let (d2, ok) = (case appdata e of None \<Rightarrow> (d1, False) | Some ap \<Rightarrow> install_backup e tmp ap d1)
            in (fst (remove_dir_all e tmp d2), ok)))"

end
