(* ===== verification/Backup_Correct.thy ===== *)
theory Backup_Correct
  imports Backup_Helper
begin

text \<open>
  Properties of the backup helper: every user's backups stay in one folder of the bucket, an upload prunes
  only what is older than the backups it keeps, and restoring is all or nothing.
\<close>

section \<open>Trees\<close>

fun wf_node :: "Node \<Rightarrow> bool" where
  "wf_node (FileN _) = True"
| "wf_node (DirN es) = (distinct (map fst es) \<and> list_all (\<lambda>(_, n). wf_node n) es)"

lemma lookup_append: "lookup n (p @ q) = (case lookup n p of Some m \<Rightarrow> lookup m q | None \<Rightarrow> None)"
  by (induction n p rule: lookup.induct) (auto split: option.split)

lemma lookup_set_at_other: "\<not> prefix p q \<Longrightarrow> \<not> prefix q p \<Longrightarrow> lookup (set_at p v d) q = lookup d q"
proof (induction p v d arbitrary: q rule: set_at.induct)
  case (3 c cs v es)
  then show ?case
    by (cases q) (auto simp: hashmap_simps split: option.split)
qed auto

lemma hm_insert_twice [simp]: "hm_insert k v (hm_insert k w m) = hm_insert k v m"
  unfolding hm_insert_def by (induction m) auto

lemma hm_insert_fresh: "k \<notin> fst ` set m \<Longrightarrow> hm_insert k v m = m @ [(k, v)]"
  unfolding hm_insert_def by (induction m) auto

lemma lookup_set_at_same: "p \<noteq> [] \<Longrightarrow> is_dir (lookup d (butlast p)) \<Longrightarrow> lookup (set_at p (Some m) d) p = Some m"
proof (induction p "Some m" d rule: set_at.induct)
  case (3 c cs es)
  then show ?case by (cases cs) (auto simp: hashmap_simps split: option.splits)
qed (auto split: if_splits)

lemma lookup_set_at_None: "p \<noteq> [] \<Longrightarrow> lookup (set_at p None d) p = None"
proof (induction p "None :: Node option" d rule: set_at.induct)
  case (3 c cs es)
  then show ?case by (auto simp: hashmap_simps split: option.splits)
qed auto

lemma set_at_twice: "p \<noteq> [] \<Longrightarrow> set_at p (Some m) (set_at p (Some n) d) = set_at p (Some m) d"
proof (induction p "Some n" d rule: set_at.induct)
  case (3 c cs es)
  then show ?case by (auto simp: hashmap_simps split: option.splits)
qed auto

lemma set_at_child:
  "lookup d p = Some (DirN es) \<Longrightarrow> p \<noteq> [] \<Longrightarrow> set_at (p @ [c]) (Some m) d = set_at p (Some (DirN (hm_insert c m es))) d"
proof (induction d p rule: lookup.induct)
  case (2 es' x xs)
  then show ?case by (cases xs) (auto simp: hashmap_simps split: option.splits)
qed auto

lemma lookup_mkdirs: "mkdirs p d = Some d' \<Longrightarrow> \<not> prefix q p \<Longrightarrow> lookup d' q = lookup d q"
proof (induction p d arbitrary: d' q rule: mkdirs.induct)
  case (3 c cs es)
  then obtain n where n: "mkdirs cs (case hm_get es c of Some n \<Rightarrow> n | None \<Rightarrow> DirN []) = Some n" "d' = DirN (hm_insert c n es)"
    by (auto split: option.splits)
  from 3(3) obtain x xs where q: "q = x # xs" by (cases q) auto
  show ?case
  proof (cases "x = c")
    case True
    with 3(1) [OF n(1), of xs] 3(3) q n(2) show ?thesis by (cases xs) (auto simp: hashmap_simps split: option.splits)
  qed (simp add: q n(2) hashmap_simps)
qed (auto split: if_splits)

lemma mkdirs_is_dir: "mkdirs p d = Some d' \<Longrightarrow> is_dir (lookup d' p)"
proof (induction p d arbitrary: d' rule: mkdirs.induct)
  case (3 c cs es)
  then show ?case by (auto simp: hashmap_simps split: option.splits)
qed (auto split: if_splits)

lemma mkdirs_new:
  "p \<noteq> [] \<Longrightarrow> is_dir (lookup d (butlast p)) \<Longrightarrow> lookup d p = None \<Longrightarrow> mkdirs p d = Some (set_at p (Some (DirN [])) d)"
proof (induction p d rule: mkdirs.induct)
  case (3 c cs es)
  then show ?case by (cases cs) (auto split: option.splits)
qed (auto split: if_splits)

lemma parent_dir: "lookup d p = Some n \<Longrightarrow> p \<noteq> [] \<Longrightarrow> is_dir (lookup d (butlast p))"
proof -
  assume a: "lookup d p = Some n" "p \<noteq> []"
  then have "lookup d (butlast p @ [last p]) = Some n" by simp
  then obtain m where "lookup d (butlast p) = Some m" "lookup m [last p] = Some n"
    by (auto simp only: lookup_append split: option.splits)
  then show ?thesis by (cases m) auto
qed

section \<open>Copying\<close>

lemma copy_frame:
  "\<not> prefix dst q \<Longrightarrow> \<not> prefix q dst \<Longrightarrow> lookup (fst (copy_dir_all e dst n d)) q = lookup d q"
  "\<not> prefix dst q \<Longrightarrow> \<not> prefix q dst \<Longrightarrow> lookup (fst (copy_entries e dst es d)) q = lookup d q"
proof (induction e dst n d and e dst es d arbitrary: q and q rule: copy_dir_all_copy_entries.induct)
  case (2 e dst es d)
  then show ?case by (auto simp: create_dir_all_def lookup_mkdirs split: option.splits)
next
  case (4 e dst c b es d)
  then have "lookup (set_at (dst @ [c]) (Some (FileN b)) d) q = lookup d q"
    by (intro lookup_set_at_other) (auto dest: append_prefixD)
  with 4 show ?case by auto
next
  case (5 e dst c ns es d)
  have q: "\<not> prefix (dst @ [c]) q" "\<not> prefix q (dst @ [c])" using 5(3,4) by (auto dest: append_prefixD)
  show ?case
    using 5(1) [OF q] 5(2) [OF _ _ 5(3,4)] by (auto split: prod.splits bool.splits)
qed auto

lemma copy_exact:
  "copy_dir_all e dst n d = (d', True) \<Longrightarrow> wf_node n \<Longrightarrow> dst \<noteq> [] \<Longrightarrow> is_dir (lookup d (butlast dst)) \<Longrightarrow> lookup d dst = None
    \<Longrightarrow> d' = set_at dst (Some n) d"
  "copy_entries e dst es d = (d', True) \<Longrightarrow> wf_node (DirN (done @ es)) \<Longrightarrow> dst \<noteq> [] \<Longrightarrow> lookup d dst = Some (DirN done)
    \<Longrightarrow> d' = set_at dst (Some (DirN (done @ es))) d"
proof (induction e dst n d and e dst es d arbitrary: d' and d' "done" rule: copy_dir_all_copy_entries.induct)
  case (2 e dst es d)
  let ?d1 = "set_at dst (Some (DirN [])) d"
  from 2 have m: "mkdirs dst d = Some ?d1" by (intro mkdirs_new) auto
  with 2(2) have c: "copy_entries e dst es ?d1 = (d', True)" "io e (IoCreateDir dst)" "io e (IoReadDir dst)"
    by (auto simp: create_dir_all_def split: if_splits)
  have "lookup ?d1 dst = Some (DirN [])" using 2 by (intro lookup_set_at_same) auto
  from 2(1) [OF _ c(3) c(1), of "[]"] 2 this c m show ?case by (simp add: create_dir_all_def set_at_twice)
next
  case (3 e dst d)
  have "set_at dst (Some (DirN done)) d = d" using 3(3,4)
  proof (induction d dst rule: lookup.induct)
    case (2 es c cs)
    have u: "hm_insert k v m = m" if "hm_get m k = Some v" for k v and m :: "(string \<times> Node) list"
      using that unfolding hm_insert_def hm_get_def by (induction m) (auto split: if_splits)
    from 2 show ?case by (cases cs) (auto simp: u split: option.splits)
  qed auto
  with 3(1) show ?case by simp
next
  case (4 e dst c b es d)
  let ?d1 = "set_at (dst @ [c]) (Some (FileN b)) d"
  have c: "c \<notin> fst ` set done" using 4(3) by auto
  have d1: "?d1 = set_at dst (Some (DirN (done @ [(c, FileN b)]))) d"
    using set_at_child [OF 4(5,4)] c by (simp add: hm_insert_fresh)
  have "is_dir (lookup d (butlast dst))"
    using parent_dir [OF 4(5,4)] .
  then have l: "lookup ?d1 dst = Some (DirN (done @ [(c, FileN b)]))" unfolding d1 using 4(4) by (intro lookup_set_at_same)
  have cp: "io e (IoCopy (dst @ [c]))" "copy_entries e dst es ?d1 = (d', True)" using 4(2) by (auto split: if_splits)
  from 4(1) [OF cp _ 4(4) l] 4(3,4) show ?case by (simp add: d1 set_at_twice)
next
  case (5 e dst c ns es d)
  obtain d1 where d1: "copy_dir_all e (dst @ [c]) (DirN ns) d = (d1, True)" "copy_entries e dst es d1 = (d', True)"
    using 5(3) by (auto split: prod.splits bool.splits)
  have c: "c \<notin> fst ` set done" using 5(4) by auto
  have par: "is_dir (lookup d (butlast dst))"
    using parent_dir [OF 5(6,5)] .
  from c have "map_of done c = None" by (simp add: map_of_eq_None_iff)
  then have "lookup d (dst @ [c]) = None" using 5(6) by (simp add: lookup_append hm_get_def)
  from 5(1) [OF d1(1) _ _ _ this] 5(4,6) have "d1 = set_at (dst @ [c]) (Some (DirN ns)) d" by simp
  then have e1: "d1 = set_at dst (Some (DirN (done @ [(c, DirN ns)]))) d"
    using set_at_child [OF 5(6,5)] c by (simp add: hm_insert_fresh)
  then have l: "lookup d1 dst = Some (DirN (done @ [(c, DirN ns)]))" using 5(5) par by (simp add: lookup_set_at_same)
  from 5(2) [OF d1(1) [symmetric] refl d1(2) _ 5(5) l] 5(4,5) show ?case by (simp add: e1 set_at_twice)
qed auto

section \<open>Well-formed trees\<close>

lemma wf_entries: "wf_node (DirN es) \<Longrightarrow> hm_get es c = Some n \<Longrightarrow> wf_node n"
  by (auto simp: hm_get_def list_all_iff dest!: map_of_SomeD)

lemma set_update_subset: "set (AList.update k v m) \<subseteq> insert (k, v) (set m)"
  by (induction m) auto

lemma wf_insert: "wf_node (DirN es) \<Longrightarrow> wf_node n \<Longrightarrow> wf_node (DirN (hm_insert c n es))"
  using set_update_subset [of c n es] by (auto simp: hm_insert_def distinct_update list_all_iff)

lemma wf_remove: "wf_node (DirN es) \<Longrightarrow> wf_node (DirN (hm_remove c es))"
  by (auto simp: hm_remove_def list_all_iff AList.delete_eq intro: distinct_map_filter)

lemma wf_lookup: "wf_node d \<Longrightarrow> lookup d p = Some n \<Longrightarrow> wf_node n"
  by (induction d p rule: lookup.induct) (auto split: option.splits dest: wf_entries simp del: wf_node.simps(2))

lemma wf_set_at: "wf_node d \<Longrightarrow> (\<And>n. v = Some n \<Longrightarrow> wf_node n) \<Longrightarrow> wf_node (set_at p v d)"
proof (induction p v d rule: set_at.induct)
  case (3 c cs v es)
  then show ?case by (auto intro: wf_insert wf_remove dest: wf_entries split: option.split simp del: wf_node.simps(2))
qed (auto split: option.split)

lemma wf_mkdirs: "wf_node d \<Longrightarrow> mkdirs p d = Some d' \<Longrightarrow> wf_node d'"
proof (induction p d arbitrary: d' rule: mkdirs.induct)
  case (3 c cs es)
  then obtain n where n: "mkdirs cs (case hm_get es c of Some n \<Rightarrow> n | None \<Rightarrow> DirN []) = Some n" "d' = DirN (hm_insert c n es)"
    by (auto split: option.splits)
  have "wf_node (case hm_get es c of Some n \<Rightarrow> n | None \<Rightarrow> DirN [])"
    using wf_entries [OF 3(2)] by (auto split: option.split)
  with 3(1) n(1) have "wf_node n" by blast
  with 3(2) n(2) show ?case by (simp only: wf_insert)
qed (auto split: if_splits)

lemma wf_create: "wf_node d \<Longrightarrow> create_dir_all e p d = Some d' \<Longrightarrow> wf_node d'"
  by (auto simp: create_dir_all_def wf_mkdirs split: if_splits)

lemma wf_remove_dir_all: "wf_node d \<Longrightarrow> (\<And>p. wf_node (remains e p)) \<Longrightarrow> wf_node (fst (remove_dir_all e p d))"
  by (auto simp: remove_dir_all_def intro!: wf_set_at)

lemma wf_strip: "wf_node d \<Longrightarrow> wf_node (strip_address_book_data e p d)"
  by (auto simp: strip_address_book_data_def remove_file_def intro!: wf_set_at split: option.split Node.split)

lemma wf_extract_entries: "wf_node d \<Longrightarrow> wf_node (fst (extract_entries e root zs k d))"
proof (induction e root zs k d rule: extract_entries.induct)
  case (2 e root z zs k d)
  show ?case
  proof (cases "ze_enclosed z")
    case (Some rel)
    have "create_dir_all e q d = Some d1 \<Longrightarrow> wf_node d1" "create_dir_all e q d = Some d1 \<Longrightarrow> wf_node (set_at q' (Some (FileN b)) d1)" for q q' d1 b
      using wf_create [OF 2(4)] by (blast, auto intro!: wf_set_at)
    with 2(2,3) [OF Some] 2(4) Some show ?thesis by (simp split: option.split)
  qed (use 2 in simp)
qed simp

lemma wf_extract:
  assumes "extract_zip_to_staging e root d = (d', r)" and "wf_node d" and "\<And>p. wf_node (remains e p)"
  shows "wf_node d'"
proof (cases "\<exists>z zs. zip_archive e = Inr (z # zs)")
  case True
  then obtain z zs where z: "zip_archive e = Inr (z # zs)" by blast
  obtain d1 b1 where 1: "(if lookup d root = None then (d, True) else remove_dir_all e root d) = (d1, b1)" by (metis prod.exhaust)
  have w1: "wf_node d1" using 1 assms(2) wf_remove_dir_all [OF assms(2,3), of root] by (auto split: if_splits)
  show ?thesis
  proof (cases "b1 \<and> create_dir_all e root d1 \<noteq> None")
    case True
    then obtain d2 where 2: "create_dir_all e root d1 = Some d2" by blast
    obtain d3 k where 3: "extract_entries e root (z # zs) 0 d2 = (d3, k)" by (cases "extract_entries e root (z # zs) 0 d2")
    have "wf_node d3" using wf_extract_entries [OF wf_create [OF w1 2], of e root "z # zs" 0] 3 by simp
    with assms(1) z 1 2 3 True show ?thesis
      by (auto simp: extract_zip_to_staging_def wf_strip split: option.splits if_splits)
  qed (use assms(1) z 1 w1 in \<open>auto simp: extract_zip_to_staging_def split: bool.splits option.splits\<close>)
qed (use assms in \<open>auto simp: extract_zip_to_staging_def split: sum.splits list.splits\<close>)

section \<open>Swapping a folder in\<close>

text \<open>Paths that are not inside one another.\<close>

definition apart :: "path \<Rightarrow> path \<Rightarrow> bool" where
  "apart p q \<longleftrightarrow> \<not> prefix p q \<and> \<not> prefix q p"

lemma apart_sym: "apart p q \<Longrightarrow> apart q p"
  by (simp add: apart_def)

lemma apart_append: "apart p q \<Longrightarrow> apart (p @ r) q" "apart p q \<Longrightarrow> apart p (q @ r)"
  by (auto simp: apart_def dest: append_prefixD)
     (metis prefix_same_cases append_prefixD prefixI)+

lemma lookup_apart [simp]: "apart p q \<Longrightarrow> lookup (set_at p v d) q = lookup d q"
  by (simp add: apart_def lookup_set_at_other)

lemma is_dir_set_at: "is_dir (lookup d q) \<Longrightarrow> \<not> prefix p q \<Longrightarrow> is_dir (lookup (set_at p v d) q)"
proof (induction p v d arbitrary: q rule: set_at.induct)
  case (3 c cs v es)
  then show ?case by (cases q) (auto simp: hashmap_simps split: option.splits)
qed auto

lemma is_dir_mkdirs: "is_dir (lookup d q) \<Longrightarrow> mkdirs p d = Some d' \<Longrightarrow> is_dir (lookup d' q)"
proof (induction p d arbitrary: q d' rule: mkdirs.induct)
  case (3 c cs es)
  then obtain n where n: "mkdirs cs (case hm_get es c of Some n \<Rightarrow> n | None \<Rightarrow> DirN []) = Some n" "d' = DirN (hm_insert c n es)"
    by (auto split: option.splits)
  show ?case
  proof (cases q)
    case (Cons x xs)
    with 3(1) [OF _ n(1), of xs] 3(2) n(2) show ?thesis by (cases "x = c") (auto simp: hashmap_simps split: option.splits)
  qed (simp add: n(2))
qed (auto split: if_splits)

lemma is_dir_copy:
  "is_dir (lookup d q) \<Longrightarrow> \<not> prefix dst q \<Longrightarrow> is_dir (lookup (fst (copy_dir_all e dst n d)) q)"
  "is_dir (lookup d q) \<Longrightarrow> \<not> strict_prefix dst q \<Longrightarrow> is_dir (lookup (fst (copy_entries e dst es d)) q)"
proof (induction e dst n d and e dst es d arbitrary: q and q rule: copy_dir_all_copy_entries.induct)
  case (2 e dst es d)
  then show ?case
    by (auto simp: create_dir_all_def is_dir_mkdirs strict_prefix_def split: option.splits)
next
  case (4 e dst c b es d)
  have "\<not> prefix (dst @ [c]) q" using 4(3) by (metis append_prefixD strict_prefix_def prefix_snoc prefix_order.antisym not_Cons_self2 self_append_conv)
  then have "is_dir (lookup (set_at (dst @ [c]) (Some (FileN b)) d) q)" by (rule is_dir_set_at [OF 4(2)])
  with 4 show ?case by auto
next
  case (5 e dst c ns es d)
  have "\<not> prefix (dst @ [c]) q" using 5(4) by (metis append_prefixD strict_prefix_def prefix_snoc prefix_order.antisym not_Cons_self2 self_append_conv)
  from 5(1) [OF 5(3) this] 5(2) [OF _ _ _ 5(4)] show ?case by (auto split: prod.splits bool.splits)
qed auto

lemma copy_target_dir:
  assumes "lookup d dst = None"
  shows "lookup (fst (copy_dir_all e dst n d)) dst = None \<or> is_dir (lookup (fst (copy_dir_all e dst n d)) dst)"
proof (cases n)
  case (DirN es)
  show ?thesis
  proof (cases "create_dir_all e dst d")
    case (Some d1)
    then have "is_dir (lookup d1 dst)" by (auto simp: create_dir_all_def mkdirs_is_dir split: if_splits)
    with Some DirN show ?thesis by (auto intro: is_dir_copy(2))
  qed (simp add: DirN assms)
qed (simp add: assms)

lemma swap_in_spec:
  assumes "swap_in e src target bak d = (d', ok)"
    and "lookup d target = Some old" and "is_dir (Some old)" and "lookup d bak = None" and "bak \<noteq> []" and "target \<noteq> []"
    and "butlast bak = butlast target" and "apart bak target" and "apart src target" and "apart src bak"
    and "lookup d src = Some new" and "wf_node new"
    and "io e (IoRemoveAll target)" and "io e (IoRename bak target)"
  shows "lookup d' target = (if ok then Some new else Some old)" and "ok \<Longrightarrow> lookup d' bak = Some old"
proof -
  have par: "is_dir (lookup d (butlast target))" using parent_dir [OF assms(2,6)] .
  have np: "\<not> prefix target (butlast target)" "\<not> prefix bak (butlast target)" "\<not> prefix src (butlast target)"
    using assms(5-7,9) by (auto simp: apart_def) (metis prefix_length_le length_butlast diff_less length_greater_0_conv less_numeral_extra(1) not_le,
      metis prefix_length_le length_butlast diff_less length_greater_0_conv less_numeral_extra(1) not_le assms(7), metis prefix_order.trans prefixeq_butlast)
  have "lookup d' target = (if ok then Some new else Some old) \<and> (ok \<longrightarrow> lookup d' bak = Some old)"
  proof (cases "fs_rename e target bak d")
    case None
    with assms(1-3) show ?thesis by (auto simp: swap_in_def)
  next
    case (Some d1)
    then have d1: "d1 = set_at bak (Some old) (set_at target None d)"
      using assms(2) by (auto simp: fs_rename_def split: if_splits)
    have par0: "is_dir (lookup (set_at target None d) (butlast target))" using is_dir_set_at [OF par np(1)] .
    have par1: "is_dir (lookup d1 (butlast target))" unfolding d1 using is_dir_set_at [OF par0 np(2)] .
    have t1: "lookup d1 target = None" unfolding d1 using assms(6,8) by (simp add: lookup_set_at_None)
    have b1: "lookup d1 bak = Some old" unfolding d1 using assms(5,7) par0 by (simp add: lookup_set_at_same)
    have s1: "lookup d1 src = Some new" unfolding d1 using assms(9,10,11) by (simp add: apart_sym)
    show ?thesis
    proof (cases "fs_rename e src target d1")
      case (Some d2)
      then have d2: "d2 = set_at target (Some new) (set_at src None d1)" using s1 by (auto simp: fs_rename_def split: if_splits)
      have "is_dir (lookup (set_at src None d1) (butlast target))" using is_dir_set_at [OF par1 np(3)] .
      then have "lookup d2 target = Some new" unfolding d2 using assms(6) by (simp add: lookup_set_at_same)
      moreover have "lookup d2 bak = Some old" unfolding d2 using b1 assms(8,10) by (simp add: apart_sym)
      moreover have "d' = d2" "ok" using assms(1,2,3) \<open>fs_rename e target bak d = Some d1\<close> Some by (auto simp: swap_in_def)
      ultimately show ?thesis by simp
    next
      case None
      obtain d2 k where 2: "copy_dir_all e target new d1 = (d2, k)" by (cases "copy_dir_all e target new d1")
      have b2: "lookup d2 bak = Some old" using copy_frame(1) [of target bak e new d1] 2 b1 assms(8) by (simp add: apart_def)
      show ?thesis
      proof (cases k)
        case True
        with 2 copy_exact(1) [OF _ assms(12,6) par1 t1, of e d2] have "lookup d2 target = Some new"
          using par1 assms(6) by (simp add: lookup_set_at_same)
        moreover have "d' = d2" "ok" using assms(1,2,3) \<open>fs_rename e target bak d = Some d1\<close> None 2 True s1 by (auto simp: swap_in_def)
        ultimately show ?thesis using b2 by simp
      next
        case False
        define d3 where "d3 = (if lookup d2 target \<noteq> None then fst (remove_dir_all e target d2) else d2)"
        have "lookup d2 target = None \<or> is_dir (lookup d2 target)" using copy_target_dir [OF t1, of e new] 2 by simp
        then have t3: "lookup d3 target = None" and b3: "lookup d3 bak = Some old"
          using assms(6,8,13) b2 by (auto simp: d3_def remove_dir_all_def lookup_set_at_None apart_sym)
        have "is_dir (lookup d2 (butlast target))" using is_dir_copy(1) [OF par1 np(1), of e new] 2 by simp
        then have par3: "is_dir (lookup d3 (butlast target))"
          using is_dir_set_at [OF _ np(1)] by (auto simp: d3_def remove_dir_all_def)
        have d4: "fs_rename e bak target d3 = Some (set_at target (Some old) (set_at bak None d3))"
          using t3 b3 par3 assms(8,14) by (simp add: fs_rename_def apart_def)
        have "lookup (set_at target (Some old) (set_at bak None d3)) target = Some old"
          using assms(6) is_dir_set_at [OF par3 np(2)] by (simp add: lookup_set_at_same)
        moreover have "roll_back e True target bak d2 = set_at target (Some old) (set_at bak None d3)"
          unfolding roll_back_def Let_def d3_def [symmetric] using b3 d4 assms(3) by simp
        moreover have "d' = roll_back e True target bak d2" "\<not> ok"
          using assms(1,2,3) \<open>fs_rename e target bak d = Some d1\<close> None 2 False s1 by (auto simp: swap_in_def)
        ultimately show ?thesis by simp
      qed
    qed
  qed
  then show "lookup d' target = (if ok then Some new else Some old)" "ok \<Longrightarrow> lookup d' bak = Some old" by auto
qed

section \<open>Frames\<close>

lemma rename_frame: "fs_rename e p q d = Some d' \<Longrightarrow> apart p x \<Longrightarrow> apart q x \<Longrightarrow> lookup d' x = lookup d x"
  by (auto simp: fs_rename_def split: option.splits if_splits)

lemma remove_frame: "apart p x \<Longrightarrow> lookup (fst (remove_dir_all e p d)) x = lookup d x"
  by (simp add: remove_dir_all_def)

lemma roll_back_frame: "apart target x \<Longrightarrow> apart bak x \<Longrightarrow> lookup (roll_back e h target bak d) x = lookup d x"
  by (auto simp: roll_back_def Let_def remove_frame dest: rename_frame split: option.split)

lemma drop_bak_frame: "apart bak x \<Longrightarrow> lookup (drop_bak e h bak d) x = lookup d x"
  by (simp add: drop_bak_def remove_frame)

lemma swap_frame:
  assumes "apart src x" and "apart target x" and "apart bak x"
  shows "lookup (fst (swap_in e src target bak d)) x = lookup d x"
proof (cases "if is_dir (lookup d target) then fs_rename e target bak d else Some d")
  case (Some d1)
  have 1: "lookup d1 x = lookup d x" using Some assms rename_frame by (auto split: if_splits)
  have 2: "lookup (fst (copy_dir_all e target n d1)) x = lookup d1 x" for n
    using copy_frame(1) assms(2) by (simp add: apart_def)
  show ?thesis
  proof (cases "fs_rename e src target d1")
    case None
    obtain d2 k where c: "copy_dir_all e target (case lookup d1 src of Some n \<Rightarrow> n | None \<Rightarrow> FileN []) d1 = (d2, k)"
      by (metis prod.exhaust)
    then have "lookup d2 x = lookup d x" using 1 2 by (metis fst_conv)
    with Some None c assms show ?thesis by (cases k) (simp_all add: swap_in_def roll_back_frame)
  next
    case (Some d2)
    then show ?thesis
      using \<open>(if is_dir (lookup d target) then fs_rename e target bak d else Some d) = Some d1\<close> 1 assms rename_frame [OF Some]
      by (simp add: swap_in_def)
  qed
qed (simp add: swap_in_def)

lemma optional_frame:
  assumes "apart (root @ [folder]) x" and "apart target x" and "apart (butlast target @ [leaf]) x" and "\<not> prefix x (butlast target)"
  shows "lookup (fst (install_optional_staging_folder e root folder target leaf d)) x = lookup d x"
proof (cases "\<exists>es. lookup d (root @ [folder]) = Some (DirN es) \<and> io e (IoReadDir (root @ [folder])) \<and> es \<noteq> []")
  case True
  then obtain es where es: "lookup d (root @ [folder]) = Some (DirN es)" "io e (IoReadDir (root @ [folder]))" "es \<noteq> []" by blast
  show ?thesis
  proof (cases "create_dir_all e (butlast target) d")
    case (Some d1)
    then have 1: "lookup d1 x = lookup d x" using assms(4) by (auto simp: create_dir_all_def lookup_mkdirs split: if_splits)
    obtain d2 k where 2: "swap_in e (root @ [folder]) target (butlast target @ [leaf]) d1 = (d2, k)"
      by (cases "swap_in e (root @ [folder]) target (butlast target @ [leaf]) d1")
    then have "lookup d2 x = lookup d x" using swap_frame [OF assms(1-3), of e d1] 1 by simp
    with es Some 2 assms show ?thesis
      by (cases k) (simp_all add: install_optional_staging_folder_def drop_bak_frame remove_frame Let_def)
  qed (use es in \<open>simp add: install_optional_staging_folder_def\<close>)
qed (auto simp: install_optional_staging_folder_def Let_def split: option.split Node.split)

lemma strip_frame: "apart p x \<Longrightarrow> lookup (strip_address_book_data e p d) x = lookup d x"
  by (auto simp: strip_address_book_data_def remove_file_def apart_append split: option.split Node.split)

lemma extract_entries_frame: "apart root x \<Longrightarrow> lookup (fst (extract_entries e root zs k d)) x = lookup d x"
proof (induction e root zs k d rule: extract_entries.induct)
  case (2 e root z zs k d)
  show ?case
  proof (cases "ze_enclosed z")
    case (Some rel)
    have "create_dir_all e (root @ q) d = Some d1 \<Longrightarrow> lookup d1 x = lookup d x" for q d1
      using 2(4) by (auto simp: create_dir_all_def apart_def dest: append_prefixD intro!: lookup_mkdirs split: if_splits)
        (metis prefix_same_cases prefixI)
    moreover have "lookup (set_at (root @ q) v d1) x = lookup d1 x" for q v d1
      using 2(4) by (simp add: apart_append)
    ultimately show ?thesis using 2(2,3) [OF Some] 2(4) Some by (simp split: option.split)
  qed (use 2 in simp)
qed simp

lemma extract_frame:
  assumes "extract_zip_to_staging e root d = (d', r)" and "apart root x"
  shows "lookup d' x = lookup d x"
proof (cases "\<exists>z zs. zip_archive e = Inr (z # zs)")
  case True
  then obtain z zs where z: "zip_archive e = Inr (z # zs)" by blast
  obtain d1 b1 where 1: "(if lookup d root = None then (d, True) else remove_dir_all e root d) = (d1, b1)" by (metis prod.exhaust)
  have w1: "lookup d1 x = lookup d x" using 1 remove_frame [OF assms(2), of e d] by (auto split: if_splits)
  show ?thesis
  proof (cases "b1 \<and> create_dir_all e root d1 \<noteq> None")
    case True
    then obtain d2 where 2: "create_dir_all e root d1 = Some d2" by blast
    then have w2: "lookup d2 x = lookup d x" using w1 assms(2) by (auto simp: create_dir_all_def lookup_mkdirs apart_def split: if_splits)
    obtain d3 k where 3: "extract_entries e root (z # zs) 0 d2 = (d3, k)" by (cases "extract_entries e root (z # zs) 0 d2")
    have w3: "lookup d3 x = lookup d x" using extract_entries_frame [OF assms(2), of e "z # zs" 0 d2] 3 w2 by simp
    have "apart sd x" if "resolve_seedesktop_root e root d3 = Some sd" for sd
      using that assms(2) by (auto simp: resolve_seedesktop_root_def apart_append split: if_splits option.splits Node.splits)
    with assms(1) z 1 2 3 True w3 show ?thesis
      by (auto simp: extract_zip_to_staging_def strip_frame split: option.splits if_splits)
  qed (use assms(1) z 1 w1 in \<open>auto simp: extract_zip_to_staging_def split: bool.splits option.splits\<close>)
qed (use assms in \<open>auto simp: extract_zip_to_staging_def split: sum.splits list.splits\<close>)

definition no_address_book :: "Node option \<Rightarrow> bool" where
  "no_address_book n \<longleftrightarrow> (case n of Some m \<Rightarrow> (\<forall>b. lookup m [AB_DATA_FILENAME] \<noteq> Some (FileN b) \<and> lookup m [AB_RESTORE_MERGE_FLAG] \<noteq> Some (FileN b)) | None \<Rightarrow> False)"

lemma strip_strips:
  assumes "is_dir (lookup d p)" and "\<And>q. io e (IoRemoveFile q)"
  shows "is_dir (lookup (strip_address_book_data e p d) p)" and "no_address_book (lookup (strip_address_book_data e p d) p)"
proof -
  have f: "lookup (remove_file e (p @ [c]) x) (p @ [c]) \<noteq> Some (FileN b)" for c x b
    using assms(2) by (auto simp: remove_file_def lookup_set_at_None split: option.splits Node.splits)
  have k: "is_dir (lookup (remove_file e (p @ [c]) x) p)" if "is_dir (lookup x p)" for c x
    using is_dir_set_at [OF that, of "p @ [c]"] that by (auto simp: remove_file_def split: option.split Node.split)
  have o: "lookup (remove_file e (p @ [c]) x) (p @ [c']) = lookup x (p @ [c'])" if "c \<noteq> c'" for c c' x
    using that by (auto simp: remove_file_def apart_def split: option.split Node.split)
  let ?d = "strip_address_book_data e p d"
  show dir: "is_dir (lookup ?d p)" using k [OF k [OF assms(1)]] by (simp add: strip_address_book_data_def)
  have ne: "AB_RESTORE_MERGE_FLAG \<noteq> AB_DATA_FILENAME" by (simp add: AB_RESTORE_MERGE_FLAG_def AB_DATA_FILENAME_def)
  have "lookup ?d (p @ [AB_DATA_FILENAME]) \<noteq> Some (FileN b)" "lookup ?d (p @ [AB_RESTORE_MERGE_FLAG]) \<noteq> Some (FileN b)" for b
    using f o [OF ne] by (simp_all add: strip_address_book_data_def)
  with dir show "no_address_book (lookup ?d p)"
    by (cases "lookup ?d p") (auto simp: no_address_book_def lookup_append)
qed

lemma strip_noop: "no_address_book (lookup d p) \<Longrightarrow> strip_address_book_data e p d = d"
  by (auto simp: no_address_book_def strip_address_book_data_def remove_file_def lookup_append split: option.splits Node.split)

lemma extract_steps:
  assumes "extract_zip_to_staging e root d = (d', Some sd)"
  obtains d1 d2 d3 zs k where "(if lookup d root = None then (d, True) else remove_dir_all e root d) = (d1, True)"
    "create_dir_all e root d1 = Some d2" "extract_entries e root zs 0 d2 = (d3, Some k)"
    "resolve_seedesktop_root e root d3 = Some sd" "d' = strip_address_book_data e sd d3"
  using assms
  by (auto simp: extract_zip_to_staging_def simp del: extract_entries.simps
      split: sum.splits list.splits prod.splits bool.splits option.splits if_splits)

lemma resolve_dir:
  assumes "resolve_seedesktop_root e root d = Some sd" and "wf_node d"
  shows "is_dir (lookup d sd) \<and> prefix root sd"
proof (cases "is_dir (lookup d (root @ [''SeeDesktop'']))")
  case False
  then obtain es c n where es: "lookup d root = Some (DirN es)" "find (\<lambda>(c, n). is_dir (Some n) \<and> eq_ignore_case c ''seedesktop'') es = Some (c, n)"
    "sd = root @ [c]"
    using assms(1) by (auto simp: resolve_seedesktop_root_def split: option.splits Node.splits if_splits)
  then have n: "(c, n) \<in> set es" "is_dir (Some n)" by (auto simp: find_Some_iff in_set_conv_nth)
  have "wf_node (DirN es)" using wf_lookup [OF assms(2) es(1)] .
  then have "map_of es c = Some n" using n(1) by simp
  with es n show ?thesis by (simp add: lookup_append hm_get_def)
qed (use assms in \<open>auto simp: resolve_seedesktop_root_def\<close>)

lemma extracted:
  assumes "extract_zip_to_staging e root d = (d', Some sd)" and "\<And>q. io e (IoRemoveFile q)" and "wf_node d" and "\<And>p. wf_node (remains e p)"
  shows "is_dir (lookup d' sd)" and "no_address_book (lookup d' sd)" and "prefix root sd"
proof -
  from assms(1) obtain d1 d2 d3 zs k where x: "(if lookup d root = None then (d, True) else remove_dir_all e root d) = (d1, True)"
    "create_dir_all e root d1 = Some d2" "extract_entries e root zs 0 d2 = (d3, Some k)"
    "resolve_seedesktop_root e root d3 = Some sd" "d' = strip_address_book_data e sd d3" by (rule extract_steps)
  have "wf_node d1" using x(1) wf_remove_dir_all [OF assms(3,4), of root] assms(3) by (auto split: if_splits)
  from wf_extract_entries [OF wf_create [OF this x(2)], of e root zs 0] x(3) have "wf_node d3" by simp
  from resolve_dir [OF x(4) this] show "is_dir (lookup d' sd)" "no_address_book (lookup d' sd)" "prefix root sd"
    using strip_strips [OF _ assms(2)] x(5) by simp_all
qed

section \<open>Restoring is all or nothing\<close>

text \<open>A machine with a live configuration \<open>old\<close>, where the working paths do not overlap, files can be
  deleted and what a roll back needs is possible.\<close>

definition ready :: "Machine \<Rightarrow> path \<Rightarrow> Node \<Rightarrow> Node \<Rightarrow> bool" where
  "ready e ap old d \<longleftrightarrow>
     (let target = ap @ [''SeeDesktop'']; bak = ap @ [bak_name e]; tmp = temp_dir e @ [tmp_name e] in
      appdata e = Some ap \<and> lookup d target = Some old \<and> is_dir (Some old) \<and> lookup d bak = None \<and> bak_name e \<noteq> ''SeeDesktop''
      \<and> apart tmp target \<and> apart tmp bak \<and> (case localappdata e of Some la \<Rightarrow> apart la target | None \<Rightarrow> True)
      \<and> wf_node d \<and> (\<forall>p. wf_node (remains e p)) \<and> (\<forall>p. io e (IoRemoveFile p))
      \<and> io e (IoRemoveAll target) \<and> io e (IoRename bak target))"

text \<open>The folder a backup brings: what extracting the archive leaves in the staging area.\<close>

definition backup_content :: "Machine \<Rightarrow> Node \<Rightarrow> Node option" where
  "backup_content e d =
    (let tmp = temp_dir e @ [tmp_name e] in
     case create_dir_all e tmp d of
       None \<Rightarrow> None
     | Some d0 \<Rightarrow> (case extract_zip_to_staging e (tmp @ [''staging'']) d0 of (d1, Some sd) \<Rightarrow> lookup d1 sd | _ \<Rightarrow> None))"

lemma install_spec:
  assumes "install_backup e tmp ap d = (d', ok)" and "tmp = temp_dir e @ [tmp_name e]" and "ready e ap old d"
  shows "lookup d' (ap @ [''SeeDesktop'']) = Some old \<and> \<not> ok
    \<or> (\<exists>d1 sd new. extract_zip_to_staging e (tmp @ [''staging'']) d = (d1, Some sd) \<and> lookup d1 sd = Some new
         \<and> lookup d' (ap @ [''SeeDesktop'']) = Some new \<and> no_address_book (Some new))"
proof -
  let ?t = "ap @ [''SeeDesktop'']" and ?b = "ap @ [bak_name e]" and ?r = "tmp @ [''staging'']"
  have R: "lookup d ?t = Some old" "is_dir (Some old)" "lookup d ?b = None" "apart tmp ?t" "apart tmp ?b" "apart ?b ?t" "wf_node d"
    "\<And>p. wf_node (remains e p)" "\<And>p. io e (IoRemoveFile p)" "io e (IoRemoveAll ?t)" "io e (IoRename ?b ?t)"
    "case localappdata e of Some la \<Rightarrow> apart la ?t | None \<Rightarrow> True"
    using assms(2,3) by (auto simp: ready_def apart_def Let_def)
  obtain d1 x where 1: "extract_zip_to_staging e ?r d = (d1, x)" by (cases "extract_zip_to_staging e ?r d")
  have ar: "apart ?r ?t" "apart ?r ?b" using R(4,5) by (simp_all only: apart_append)
  have f1: "lookup d1 ?t = Some old" "lookup d1 ?b = None" using extract_frame [OF 1] ar R(1,3) by simp_all
  show ?thesis
  proof (cases "downloaded e \<and> x \<noteq> None")
    case False
    then show ?thesis using assms(1) 1 R(1) f1(1) by (auto simp: install_backup_def Let_def split: if_splits)
  next
    case True
    then obtain sd where x: "x = Some sd" by blast
    note E = extracted [OF 1 [unfolded x] R(9,7,8)]
    from E(1) obtain new where new: "lookup d1 sd = Some new" by (cases "lookup d1 sd") auto
    have w: "wf_node new" using wf_lookup [OF wf_extract [OF 1 R(7,8)] new] .
    from E(3) obtain z where sd: "sd = ?r @ z" by (auto elim: prefixE)
    have as: "apart sd ?t" "apart sd ?b" unfolding sd using ar by (simp_all only: apart_append)
    obtain d2 k where 2: "swap_in e sd ?t ?b d1 = (d2, k)" by (cases "swap_in e sd ?t ?b d1")
    note S = swap_in_spec [OF 2 f1(1) R(2) f1(2) _ _ _ R(6) as new w R(10,11), simplified]
    show ?thesis
    proof (cases k)
      case False
      then show ?thesis using assms(1) True 1 x 2 S f1(1) R(2) by (simp add: install_backup_def Let_def)
    next
      case k: True
      let ?d3 = "drop_bak e (is_dir (lookup d1 ?t)) ?b d2"
      let ?s = "install_optional_staging_folder e ?r ''FlutterSupport'' (ap @ [''Toppc'', ''SeeDesktop'']) (support_bak e) ?d3"
      have 3: "lookup ?d3 ?t = Some new" using S k R(6) by (simp add: drop_bak_frame)
      have rt: "apart (?r @ [c]) ?t" for c using ar(1) by (rule apart_append)
      have 4: "lookup (fst ?s) ?t = Some new"
        by (subst optional_frame) (use rt 3 in \<open>auto simp: apart_def butlast_append\<close>)
      have 5: "lookup (fst (install_optional_staging_folder e ?r ''FlutterLocal'' (la @ [''Toppc'', ''SeeDesktop'']) (local_bak e) d4)) ?t = lookup d4 ?t"
        if "localappdata e = Some la" for la d4
      proof (rule optional_frame [OF rt])
        have la: "apart la ?t" using R(12) that by simp
        show "apart (la @ [''Toppc'', ''SeeDesktop'']) ?t" "apart (butlast (la @ [''Toppc'', ''SeeDesktop'']) @ [local_bak e]) ?t"
          using apart_append(1) [OF la] by (simp_all add: butlast_append)
        show "\<not> prefix ?t (butlast (la @ [''Toppc'', ''SeeDesktop'']))"
          using apart_append(1) [OF la, of "[''Toppc'']"] by (simp add: butlast_append apart_def)
      qed
      have N: "no_address_book (Some new)" using E(2) new by simp
      obtain d4 k4 where s4: "?s = (d4, k4)" by (cases ?s)
      have t4: "lookup d4 ?t = Some new" using 4 s4 by simp
      have "lookup d' ?t = Some new"
      proof (cases "k4 \<and> localappdata e \<noteq> None")
        case False
        then show ?thesis using assms(1) True 1 x 2 k s4 t4 by (auto simp: install_backup_def Let_def split: bool.splits)
      next
        case K: True
        then obtain la where la: "localappdata e = Some la" by blast
        obtain d5 k5 where s5: "install_optional_staging_folder e ?r ''FlutterLocal'' (la @ [''Toppc'', ''SeeDesktop'']) (local_bak e) d4 = (d5, k5)"
          by (cases "install_optional_staging_folder e ?r ''FlutterLocal'' (la @ [''Toppc'', ''SeeDesktop'']) (local_bak e) d4")
        have t5: "lookup d5 ?t = Some new" using 5 [OF la, of d4] s5 t4 by simp
        then have t6: "lookup (fst (remove_dir_all e ?r d5)) ?t = Some new" using remove_frame [OF ar(1)] by simp
        then have "strip_address_book_data e ?t (fst (remove_dir_all e ?r d5)) = fst (remove_dir_all e ?r d5)"
          using N by (intro strip_noop) simp
        with t5 t6 show ?thesis using assms(1) True 1 x 2 k s4 K la s5 by (cases k5) (simp_all add: install_backup_def Let_def)
      qed
      with 1 x new N show ?thesis by blast
    qed
  qed
qed

lemma restore_outcome:
  assumes "ready e ap old d" and "cmd_restore e reachable stamp d = (d', ok)"
  shows "lookup d' (ap @ [''SeeDesktop'']) = Some old \<and> \<not> ok
    \<or> (\<exists>new. backup_content e d = Some new \<and> lookup d' (ap @ [''SeeDesktop'']) = Some new \<and> no_address_book (Some new))"
proof -
  let ?t = "ap @ [''SeeDesktop'']" and ?b = "ap @ [bak_name e]" and ?tmp = "temp_dir e @ [tmp_name e]"
  have R: "appdata e = Some ap" "lookup d ?t = Some old" "apart ?tmp ?t" "apart ?tmp ?b" using assms(1) by (auto simp: ready_def Let_def)
  show ?thesis
  proof (cases "trim stamp = [] \<or> \<not> reachable \<or> create_dir_all e ?tmp d = None")
    case True
    with assms(2) R(2) show ?thesis by (auto simp: cmd_restore_def Let_def split: if_splits option.splits)
  next
    case False
    then obtain d0 where 0: "create_dir_all e ?tmp d = Some d0" by blast
    then have f0: "lookup d0 ?t = lookup d ?t" "lookup d0 ?b = lookup d ?b" "wf_node d0"
      using R(3,4) assms(1) by (auto simp: create_dir_all_def lookup_mkdirs apart_def ready_def Let_def intro: wf_mkdirs split: if_splits)
    then have r0: "ready e ap old d0" using assms(1) by (simp add: ready_def Let_def)
    obtain d2 k where 2: "install_backup e ?tmp ap d0 = (d2, k)" by (cases "install_backup e ?tmp ap d0")
    have "d' = fst (remove_dir_all e ?tmp d2)" "ok = k" using assms(2) False 0 2 R(1) by (auto simp: cmd_restore_def Let_def)
    then have "lookup d' ?t = lookup d2 ?t" "ok = k" using remove_frame [OF R(3)] by simp_all
    with install_spec [OF 2 refl r0] 0 show ?thesis by (auto simp: backup_content_def Let_def)
  qed
qed

text \<open>C33: Restoring is all or nothing.  On a machine where files can be deleted and the saved folder can be moved
  back, whatever else fails on the way (the download, the archive, the rename of the new folder, the copy,
  the folders of the user interface, the environment), the live configuration is afterwards either the
  old one, untouched, with an error reported, or exactly the folder of the backup, without an address
  book.\<close>

theorem restore_all_or_nothing:
  assumes "ready e ap old d" and "cmd_restore e reachable stamp d = (d', ok)"
  shows "lookup d' (ap @ [''SeeDesktop'']) = Some old \<and> \<not> ok
    \<or> (\<exists>new. backup_content e d = Some new \<and> lookup d' (ap @ [''SeeDesktop'']) = Some new \<and> no_address_book (Some new))"
  using restore_outcome [OF assms] .

text \<open>A machine whose disk has a configuration with an address book, and a backup of one file.\<close>

definition demo_machine :: Machine where
  "demo_machine = \<lparr>io = (\<lambda>_. True), remains = (\<lambda>_. FileN []), appdata = Some [''roaming''], localappdata = Some [''local''],
     temp_dir = [''temp''], tmp_name = ''sd'', bak_name = ''bak'', support_bak = ''b1'', local_bak = ''b2'', downloaded = True,
     zip_archive = Inr [\<lparr>ze_name = ''SeeDesktop/x'', ze_enclosed = Some [''SeeDesktop'', ''x''], ze_data = [7]\<rparr>]\<rparr>"

definition demo_disk :: Node where
  "demo_disk = DirN [(''roaming'', DirN [(''SeeDesktop'', DirN [(AB_DATA_FILENAME, FileN [1])])]), (''local'', DirN []), (''temp'', DirN [])]"

lemma demo_ready: "ready demo_machine [''roaming''] (DirN [(AB_DATA_FILENAME, FileN [1])]) demo_disk"
  by (simp add: ready_def demo_machine_def demo_disk_def apart_def hm_get_def)

theorem restore_all_or_nothing_witness:
  "\<exists>d' new. cmd_restore demo_machine True ''s'' demo_disk = (d', True) \<and> backup_content demo_machine demo_disk = Some new
     \<and> lookup d' [''roaming'', ''SeeDesktop''] = Some new \<and> no_address_book (Some new)"
proof -
  have ok: "snd (cmd_restore demo_machine True ''s'' demo_disk)" by code_simp
  obtain d' where d': "cmd_restore demo_machine True ''s'' demo_disk = (d', True)"
    using ok by (cases "cmd_restore demo_machine True ''s'' demo_disk") simp
  from restore_all_or_nothing [OF demo_ready d'] d' show ?thesis by simp
qed



section \<open>The folder of a user\<close>

lemma replace_char: "replace_str [c] [x] s = map (\<lambda>y. if y = c then x else y) s"
  by (induction "[c]" "[x]" s rule: replace_str.induct) (auto simp: starts_with_def)

lemma replace_not_Nil: "s \<noteq> [] \<Longrightarrow> t \<noteq> [] \<Longrightarrow> replace_str p t s \<noteq> []"
  by (cases s) auto

fun has_dots :: "string \<Rightarrow> bool" where
  "has_dots (c # d # cs) \<longleftrightarrow> c = CHR ''.'' \<and> d = CHR ''.'' \<or> has_dots (d # cs)"
| "has_dots _ \<longleftrightarrow> False"

lemma has_dots_sublist: "sublist ''..'' s \<Longrightarrow> has_dots s"
proof (induction s rule: has_dots.induct)
  case (1 c d cs)
  then show ?case by (auto simp: sublist_Cons_right)
qed (auto simp: sublist_Cons_right)

lemma has_dots_map: "(\<And>x. f x = CHR ''.'' \<Longrightarrow> x = CHR ''.'') \<Longrightarrow> has_dots (map f s) \<Longrightarrow> has_dots s"
  by (induction s rule: has_dots.induct) auto

lemma replace_dots: "\<not> has_dots (replace_str ''..'' ''_'' s) \<and> (\<forall>r. replace_str ''..'' ''_'' s = CHR ''.'' # r \<longrightarrow> (\<exists>r'. s = CHR ''.'' # r'))"
proof (induction s rule: length_induct)
  case (1 s)
  show ?case
  proof (cases s)
    case (Cons c cs)
    show ?thesis
    proof (cases "starts_with ''..'' s")
      case True
      then obtain r where r: "s = CHR ''.'' # CHR ''.'' # r" unfolding starts_with_def Cons by (cases cs) auto
      then have e: "replace_str ''..'' ''_'' s = CHR ''_'' # replace_str ''..'' ''_'' r" by (simp add: starts_with_def)
      have "\<not> has_dots (replace_str ''..'' ''_'' r)" using 1 r by simp
      then show ?thesis unfolding e by (cases "replace_str ''..'' ''_'' r") auto
    next
      case False
      then have e: "replace_str ''..'' ''_'' s = c # replace_str ''..'' ''_'' cs" using Cons by simp
      have i: "\<not> has_dots (replace_str ''..'' ''_'' cs)" "\<And>r. replace_str ''..'' ''_'' cs = CHR ''.'' # r \<Longrightarrow> \<exists>r'. cs = CHR ''.'' # r'"
        using 1 Cons by auto
      have "\<not> (c = CHR ''.'' \<and> (\<exists>r. replace_str ''..'' ''_'' cs = CHR ''.'' # r))"
        using i(2) False Cons by (auto simp: starts_with_def)
      with i(1) e show ?thesis by (cases "replace_str ''..'' ''_'' cs") (auto simp: Cons)
    qed
  qed simp
qed

lemma sanitized_parts:
  obtains "sanitize_email lower mail = ''unknown''"
  | s0 f where "sanitize_email lower mail = map f (replace_str ''..'' ''_'' (map (\<lambda>y. if y = CHR 0x5C then CHR ''_'' else y)
        (map (\<lambda>y. if y = CHR ''/'' then CHR ''_'' else y) s0)))" "s0 \<noteq> []"
      "\<And>x. f x = CHR ''.'' \<Longrightarrow> x = CHR ''.''" "\<And>x. f x \<noteq> x \<Longrightarrow> f x = CHR ''_''" "\<And>x. f x \<notin> set '':*?<>|'' \<union> {CHR 0x22}"
proof (cases "lower (trim mail) = []")
  case True
  with that(1) show ?thesis by (simp add: sanitize_email_def)
next
  case False
  define f where "f x = (if x \<in> set '':*?<>|'' \<union> {CHR 0x22} then CHR ''_'' else x)" for x
  let ?s0 = "replace_str ''@'' ''_at_'' (lower (trim mail))"
  have s0: "?s0 \<noteq> []" using False by (simp add: replace_not_Nil)
  let ?r = "replace_str ''..'' ''_'' (map (\<lambda>y. if y = CHR 0x5C then CHR ''_'' else y) (map (\<lambda>y. if y = CHR ''/'' then CHR ''_'' else y) ?s0))"
  have "fold (\<lambda>bad s. replace_str bad ''_'' s) bad_parts ?s0 = map f ?r"
    by (simp add: bad_parts_def replace_char f_def)
  moreover have "map f ?r \<noteq> []" using s0 by (simp add: replace_not_Nil)
  ultimately have "sanitize_email lower mail = map f ?r" using False by (simp add: sanitize_email_def Let_def)
  then show ?thesis by (rule that(2) [OF _ s0]) (auto simp: f_def split: if_splits)
qed

lemma replace_set: "set (replace_str p t s) \<subseteq> set s \<union> set t"
proof (induction p t s rule: replace_str.induct)
  case (2 p t c cs)
  have "set (drop (length p) (c # cs)) \<subseteq> set (c # cs)" by (rule set_drop_subset)
  with 2 show ?case by (auto split: if_splits)
qed simp

lemma split_piece: "c \<notin> set a \<Longrightarrow> split_on c (a @ c # b) = a # split_on c b"
  by (induction a) (auto simp: split_on_def split: list.split)

lemma split_none: "c \<notin> set a \<Longrightarrow> split_on c a = [a]"
  by (induction a) (auto simp: split_on_def)

text \<open>The backups of a user stay in one folder of the bucket.  Whatever the text given as an e-mail
  address, the folder is one component, not empty, without slashes, colons, quotes, wild cards or two
  dots in a row.\<close>

theorem backup_folder_confined:
  "split_on CHR ''/'' (prefix_for_email lower mail)
     = [''seedesktop'', ''backups'', sanitize_email lower mail, ''SeeDesktop'', []]
   \<and> sanitize_email lower mail \<noteq> [] \<and> \<not> sublist ''..'' (sanitize_email lower mail)
   \<and> set (sanitize_email lower mail) \<inter> (set ''/:*?<>|'' \<union> {CHR 0x22, CHR 0x5C}) = {}"
proof -
  have S: "sanitize_email lower mail \<noteq> [] \<and> \<not> sublist ''..'' (sanitize_email lower mail)
    \<and> set (sanitize_email lower mail) \<inter> (set ''/:*?<>|'' \<union> {CHR 0x22, CHR 0x5C}) = {}"
  proof (cases rule: sanitized_parts [of lower mail])
    case 1
    then show ?thesis by (auto dest!: has_dots_sublist)
  next
    case (2 s0 f)
    let ?a = "map (\<lambda>y. if y = CHR 0x5C then CHR ''_'' else y) (map (\<lambda>y. if y = CHR ''/'' then CHR ''_'' else y) s0)"
    have "CHR 0x5C \<notin> set (replace_str ''..'' ''_'' ?a)" "CHR ''/'' \<notin> set (replace_str ''..'' ''_'' ?a)"
      using replace_set [of "''..''" "''_''" ?a] by (auto split: if_splits)
    moreover have kept: "x \<in> set l" if "x \<in> set (map f l)" "x \<noteq> CHR ''_''" for x l
    proof -
      from that(1) obtain y where "y \<in> set l" "x = f y" by auto
      with that(2) 2(4) [of y] show ?thesis by (cases "f y = y") auto
    qed
    ultimately have a: "CHR 0x5C \<notin> set (sanitize_email lower mail)" "CHR ''/'' \<notin> set (sanitize_email lower mail)"
      unfolding 2(1) by (auto dest!: kept simp del: set_map)
    have b: "\<not> sublist ''..'' (sanitize_email lower mail)"
    proof
      assume "sublist ''..'' (sanitize_email lower mail)"
      from has_dots_map [OF 2(3) has_dots_sublist [OF this [unfolded 2(1)]]] replace_dots show False by simp
    qed
    have c: "sanitize_email lower mail \<noteq> []" unfolding 2(1) using 2(2) by (simp add: replace_not_Nil)
    have "set (sanitize_email lower mail) \<inter> (set '':*?<>|'' \<union> {CHR 0x22}) = {}" unfolding 2(1) set_map using 2(5) by blast
    with a b c show ?thesis by auto
  qed
  have p: "prefix_for_email lower mail = ''seedesktop'' @ CHR ''/'' # ''backups'' @ CHR ''/'' # sanitize_email lower mail @ CHR ''/'' # ''SeeDesktop'' @ CHR ''/'' # []"
    by (simp add: prefix_for_email_def REMOTE_BACKUP_ROOT_def)
  have "CHR ''/'' \<notin> set (sanitize_email lower mail)" using S by auto
  from split_piece [OF this, of "''SeeDesktop/''"]
  have "split_on CHR ''/'' (sanitize_email lower mail @ ''/SeeDesktop/'') = [sanitize_email lower mail, ''SeeDesktop'', []]"
    by (simp add: split_on_def)
  then show ?thesis using S by (simp add: p split_on_def)
qed

section \<open>Two users, one folder\<close>

definition ascii_lower :: "string \<Rightarrow> string" where
  "ascii_lower = map (\<lambda>c. if is_upper c then char_of (char_code c + 32) else c)"

text \<open>Different users can share a folder.  Both \<open>a/b@x.org\<close> and \<open>a_b@x.org\<close> are e-mail addresses; their
  backups land in the same folder, where each sees, restores and prunes those of the other.\<close>

theorem users_share_folder:
  "prefix_for_email ascii_lower ''a/b@x.org'' = prefix_for_email ascii_lower ''a_b@x.org''"
  by code_simp

section \<open>What an upload prunes\<close>

definition unhex :: "char \<Rightarrow> nat" where
  "unhex c = (if char_code c < 58 then char_code c - 48 else char_code c - 55)"

fun percent_decode :: "string \<Rightarrow> string" where
  "percent_decode (c # a # b # cs) = (if c = CHR ''%'' then char_of (16 * unhex a + unhex b) # percent_decode cs
     else c # percent_decode (a # b # cs))"
| "percent_decode (c # cs) = c # percent_decode cs"
| "percent_decode [] = []"

lemma unhex_hex [simp]: "n < 16 \<Longrightarrow> unhex (hex_upper n) = n"
  by (simp add: hex_upper_def char_code_def unhex_def)

lemma decode_unreserved: "c \<noteq> CHR ''%'' \<Longrightarrow> percent_decode (c # cs) = c # percent_decode cs"
  by (cases cs rule: percent_decode.cases) auto

lemma percent_roundtrip: "percent_decode (urlencoding_gcs s) = s"
proof (induction s)
  case (Cons b s)
  have pc: "\<not> unreserved CHR ''%''" by code_simp
  show ?case
  proof (cases "unreserved b")
    case True
    then have "b \<noteq> CHR ''%''" using pc by auto
    with Cons True show ?thesis by (simp add: urlencoding_gcs_def decode_unreserved)
  next
    case False
    have "char_code b < 256" by (simp add: char_code_def)
    then have "char_code b div 16 < 16" "char_code b mod 16 < 16" by simp_all
    moreover have "char_of (char_code b) = b" by (simp add: char_code_def)
    ultimately show ?thesis using Cons False by (simp add: urlencoding_gcs_def)
  qed
qed (simp add: urlencoding_gcs_def)

lemma object_url_inj: "gcs_object_url a = gcs_object_url b \<longleftrightarrow> a = b"
  by (auto simp: gcs_object_url_def) (metis percent_roundtrip)

lemma sort_desc_prefix:
  assumes "(n, st) \<in> set (drop k (newest_first bs))" and "(m, t) \<in> set (take k (newest_first bs))"
  shows "st \<le> t"
proof -
  have "sorted_wrt (\<lambda>x y. snd y \<le> snd x) (newest_first bs)"
    using sorted_sort_key [of snd "rev bs"] by (simp add: newest_first_def sorted_wrt_rev sorted_wrt_map)
  then have "sorted_wrt (\<lambda>x y. snd y \<le> snd x) (take k (newest_first bs) @ drop k (newest_first bs))" by simp
  with assms show ?thesis unfolding sorted_wrt_append by fastforce
qed

lemma backups_distinct: "distinct all \<Longrightarrow> distinct (map fst (backups_of all))"
proof (induction all)
  case (Cons a all)
  have "fst ` set (backups_of all) \<subseteq> set all" by (auto simp: backups_of_def split: option.splits)
  with Cons show ?case by (auto simp: backups_of_def split: option.split)
qed (simp add: backups_of_def)

text \<open>C34: An upload prunes the oldest backups only.  Every deletion it asks for is that of a listed backup for
  which three other listed backups, none older, are kept; objects with other names are left alone.\<close>

theorem upload_prunes_oldest:
  assumes "list_objects (pages cl) [] = Inr all" and "distinct all" and "Delete u \<in> set (fst (cmd_upload lower cl True email))"
  shows "\<exists>n st kept. u = gcs_object_url n \<and> (n, st) \<in> set (backups_of all) \<and> kept \<subseteq> set (backups_of all) \<and> card kept = 3
    \<and> (\<forall>(m, t) \<in> kept. st \<le> t \<and> Delete (gcs_object_url m) \<notin> set (fst (cmd_upload lower cl True email)))"
proof -
  let ?bs = "newest_first (backups_of all)"
  have set_bs: "set ?bs = set (backups_of all)" and dist: "distinct (map fst ?bs)"
    using backups_distinct [OF assms(2)] by (auto simp: newest_first_def distinct_map inj_on_def simp flip: rev_map)
  have out: "Delete v \<in> set (fst (cmd_upload lower cl True email)) \<longleftrightarrow> token_answer cl = Inr () \<and> upload_answer cl = Inr ()
      \<and> length ?bs > MAX_BACKUPS \<and> (\<exists>n st. (n, st) \<in> set (drop MAX_BACKUPS ?bs) \<and> v = gcs_object_url n)" for v
    using assms(1) by (auto simp: cmd_upload_def Let_def split: sum.splits)
  obtain n st where n: "length ?bs > MAX_BACKUPS" "(n, st) \<in> set (drop MAX_BACKUPS ?bs)" "u = gcs_object_url n"
    using assms(3) out by blast
  let ?kept = "set (take MAX_BACKUPS ?bs)"
  have "card ?kept = 3"
    using n(1) dist by (subst distinct_card) (auto simp: MAX_BACKUPS_def distinct_map distinct_take)
  moreover have "?kept \<subseteq> set (backups_of all)" "(n, st) \<in> set (backups_of all)"
    using set_take_subset [of MAX_BACKUPS ?bs] in_set_dropD [OF n(2)] set_bs by auto
  moreover have "st \<le> t \<and> Delete (gcs_object_url m) \<notin> set (fst (cmd_upload lower cl True email))" if "(m, t) \<in> ?kept" for m t
  proof -
    have "distinct (map fst (take MAX_BACKUPS ?bs @ drop MAX_BACKUPS ?bs))" using dist by simp
    then have "(m, t') \<notin> set (drop MAX_BACKUPS ?bs)" for t'
      using that unfolding map_append distinct_append by (metis disjoint_iff fst_conv image_eqI set_map)
    then show ?thesis using sort_desc_prefix [OF n(2) that] by (simp add: out object_url_inj)
  qed
  ultimately show ?thesis using n(3) by blast
qed

definition demo_cloud :: Cloud where
  "demo_cloud = \<lparr>token_answer = Inr (), upload_answer = Inr (),
     pages = [Inr (map (\<lambda>c. ''u/backup_2025010'' @ [c] @ ''_000000.zip'') ''12'', Some ''t''),
              Inr (map (\<lambda>c. ''u/backup_2025010'' @ [c] @ ''_000000.zip'') ''345'' @ [''u/notes.txt''], None)], time_stamp = ''20250105_000000''\<rparr>"

text \<open>Five backups on two pages: the upload deletes the two oldest.\<close>

theorem upload_prunes_oldest_witness:
  "Delete (gcs_object_url ''u/backup_20250102_000000.zip'') \<in> set (fst (cmd_upload ascii_lower demo_cloud True ''u''))
   \<and> (\<exists>all n st kept. list_objects (pages demo_cloud) [] = Inr all \<and> gcs_object_url ''u/backup_20250102_000000.zip'' = gcs_object_url n
      \<and> (n, st) \<in> set (backups_of all) \<and> kept \<subseteq> set (backups_of all) \<and> card kept = 3)"
proof -
  obtain all where all: "list_objects (pages demo_cloud) [] = Inr all" by (simp add: demo_cloud_def)
  then have "distinct all" by (auto simp: demo_cloud_def)
  have d: "Delete (gcs_object_url ''u/backup_20250102_000000.zip'') \<in> set (fst (cmd_upload ascii_lower demo_cloud True ''u''))"
    by code_simp
  from upload_prunes_oldest [OF all \<open>distinct all\<close> d] d all show ?thesis by blast
qed

end
