(* ===== verification/Client_Files.thy ===== *)
theory Client_Files
  imports Client_Login
begin

text \<open>
  File transfers on the controlling side, \<open>src/src/client/io_loop.rs\<close>: the jobs of a session, the
  requests of its user interface and the file responses of the host.  Requests are values of \<open>Data\<close>
  (\<open>src/src/client.rs\<close>); the session also sends some to itself, which wait in \<open>self_queue\<close>.  The local
  disk is the file system of \<open>File_Transfer\<close> with the trees found at paths.  A handler returns None when
  it panics.  The build is the one of a Unix desktop.
\<close>

section \<open>Requests, outputs and state\<close>

datatype Data =
    Close
  | Login string string string bool
  | DataMessage Msg
  | SendFiles int JobType string string int bool bool
  | RemoveDirAll int string bool bool
  | ConfirmDeleteFiles int int
  | SetNoConfirm int
  | DataRemoveDir int string
  | DataRemoveFile int string int bool
  | DataCreateDir int string bool
  | CancelJob int
  | RemovePortForward int
  | AddPortForward int string int
  | NewRDP
  | SetConfirmOverrideFile int int bool bool bool
  | AddJob int JobType string string int bool bool
  | ResumeJob int bool
  | RecordScreen bool
  | ElevateDirect
  | ElevateWithLogon string string
  | NewVoiceCall
  | CloseVoiceCall
  | ResetDecoder "nat option"
  | DataRenameFile int string string bool
  | TakeScreenshot int string

text \<open>What the host answers to file requests; a digest comes with its flag \<open>is_upload\<close>.\<close>

datatype HostFileResponse =
    HfEmptyDirs string "FileDirectory list"
  | HfDir int string "FileEntry list"
  | HfDigest DigestMsg bool
  | HfBlock FileTransferBlock
  | HfDone int int
  | HfError int string int
  | HfNone

text \<open>Messages to the host and calls of the user interface.  The speed of a job is given by the bytes
  and the milliseconds it is the quotient of.\<close>

datatype FileOut =
    FilePeer Msg
  | UpdateFolderFiles int "FileEntry list" string bool bool
  | UpdateEmptyDirs string "FileDirectory list"
  | JobError int string int
  | JobDone int int
  | JobProgress int int nat int nat
  | ConfirmDelete int int string
  | OverrideFileConfirm int int string bool bool

record RemoveJob =
  rj_files :: "FileEntry list"
  rj_path :: string
  rj_sep :: string
  rj_is_remote :: bool
  no_confirm :: bool
  last_update_job_status :: nat

record ClientFiles =
  reading :: "TransferJob list"
  writing :: "TransferJob list"
  remove_jobs :: "(int, RemoveJob) hashmap"
  fast_timer :: bool
  last_update_jobs_status :: "nat \<times> (int, nat) hashmap"
  self_queue :: "Data list"
  local_fs :: FS
  local_trees :: "(string, fnode) hashmap"
  file_outs :: "FileOut list"

text \<open>The time is in milliseconds; a write to the disk may fail in the ways of \<open>IoResult\<close>.\<close>

record FileEnv =
  fe_lib :: Lib
  fe_io :: IoResult
  fe_time :: nat
  fe_version :: int
  fe_peer_platform :: string
  fe_platform :: string

definition file_put :: "FileOut \<Rightarrow> ClientFiles \<Rightarrow> ClientFiles" where
  "file_put x s = s\<lparr>file_outs := file_outs s @ [x]\<rparr>"

definition file_action :: "FileAction \<Rightarrow> ClientFiles \<Rightarrow> ClientFiles" where
  "file_action a = file_put (FilePeer (FileActionMsg a))"

definition set_files :: "FileEntry list \<Rightarrow> TransferJob \<Rightarrow> TransferJob" where
  "set_files es job = job\<lparr>files := es\<rparr>"

definition set_overwrite_strategy :: "bool option \<Rightarrow> TransferJob \<Rightarrow> TransferJob" where
  "set_overwrite_strategy o1 job = job\<lparr>default_overwrite_strategy := o1\<rparr>"

definition is_support_file_transfer_resume_num :: "int \<Rightarrow> bool" where
  "is_support_file_transfer_resume_num ver \<longleftrightarrow> get_version_number ''1.4.2'' \<le> ver"

definition get_path_sep :: "FileEnv \<Rightarrow> bool \<Rightarrow> string" where
  "get_path_sep e is_rem =
    (if (if is_rem then fe_peer_platform e else fe_platform e) = ''Windows'' then [CHR 0x5C] else ''/'')"

section \<open>Progress of jobs\<close>

definition RemoveJob_new :: "nat \<Rightarrow> FileEntry list \<Rightarrow> string \<Rightarrow> string \<Rightarrow> bool \<Rightarrow> RemoveJob" where
  "RemoveJob_new tm es path sep is_rem =
     \<lparr>rj_files = es, rj_path = path, rj_sep = sep, rj_is_remote = is_rem, no_confirm = False, last_update_job_status = tm\<rparr>"

definition report :: "int \<Rightarrow> int \<Rightarrow> string option \<Rightarrow> ClientFiles \<Rightarrow> ClientFiles" where
  "report i n err = file_put (case err of Some x \<Rightarrow> JobError i x n | None \<Rightarrow> JobDone i n)"

definition handle_job_status :: "nat \<Rightarrow> int \<Rightarrow> int \<Rightarrow> string option \<Rightarrow> ClientFiles \<Rightarrow> ClientFiles" where
  "handle_job_status tm i n err s = (case hm_get (remove_jobs s) i of
     Some job \<Rightarrow>
       if no_confirm job then
         let k = as_usize (wrap32 (n + 1)) in
         if k < length (rj_files job) then
           let path = rj_path job @ rj_sep job @ name (rj_files job ! k);
               s1 = s\<lparr>self_queue := self_queue s @ [DataRemoveFile i path (wrap32 (int k)) (rj_is_remote job)]\<rparr>
           in if 1000 \<le> wrap32 (int (tm - last_update_job_status job))
              then report i n err (s1\<lparr>remove_jobs := hm_insert i (job\<lparr>last_update_job_status := tm\<rparr>) (remove_jobs s1)\<rparr>)
              else s1
         else report i n err (s\<lparr>remove_jobs := hm_remove i (remove_jobs s)\<rparr>)
       else report i n err s
   | None \<Rightarrow> report i n err s)"

text \<open>The subtraction of the transferred bytes wraps.\<close>

definition update_job_status :: "int \<Rightarrow> TransferJob \<Rightarrow> ClientFiles \<Rightarrow> ClientFiles" where
  "update_job_status elapsed job s =
    (if elapsed \<le> 0 then s
     else
       let (t0, m) = last_update_jobs_status s;
           lst = (case hm_get m (job_id job) of Some v \<Rightarrow> v | None \<Rightarrow> 0)
       in file_put (JobProgress (job_id job) (wrap32 (file_num job - 1)) ((transferred job + 2 ^ 64 - lst) mod 2 ^ 64) elapsed
                      (finished_size job))
            (s\<lparr>last_update_jobs_status := (t0, hm_insert (job_id job) (transferred job) m)\<rparr>))"

definition update_jobs_status :: "nat \<Rightarrow> ClientFiles \<Rightarrow> ClientFiles" where
  "update_jobs_status tm s =
    (let elapsed = wrap32 (int (tm - fst (last_update_jobs_status s))) in
     if elapsed < 1000 then s
     else
       let s1 = fold (update_job_status elapsed) (writing s) (fold (update_job_status elapsed) (reading s) s)
       in s1\<lparr>last_update_jobs_status := (tm, snd (last_update_jobs_status s1))\<rparr>)"

section \<open>Requests of the user\<close>

definition new_local_read :: "FileEnv \<Rightarrow> int \<Rightarrow> JobType \<Rightarrow> string \<Rightarrow> string \<Rightarrow> int \<Rightarrow> bool \<Rightarrow> bool \<Rightarrow> ClientFiles \<Rightarrow> TransferJob option" where
  "new_local_read e i ty path to fnum hidden is_rem s = (case hm_get (local_trees s) path of
     None \<Rightarrow> None
   | Some t \<Rightarrow> new_read i ty to (FilePath path) t fnum hidden is_rem (can_enable_overwrite_detection (fe_version e)))"

definition on_send_files :: "FileEnv \<Rightarrow> int \<Rightarrow> JobType \<Rightarrow> string \<Rightarrow> string \<Rightarrow> int \<Rightarrow> bool \<Rightarrow> bool \<Rightarrow> ClientFiles \<Rightarrow> ClientFiles" where
  "on_send_files e i ty path to fnum hidden is_rem s =
    (if is_rem then
       let dst = (case ty of Generic \<Rightarrow> FilePath to | Printer \<Rightarrow> MemoryCursor []);
           job = new_write i ty path dst fnum hidden is_rem [] (can_enable_overwrite_detection (fe_version e))
       in file_action (FaSend i path fnum hidden ty) (s\<lparr>writing := writing s @ [job]\<rparr>)
     else case new_local_read e i ty path to fnum hidden is_rem s of
       None \<Rightarrow> handle_job_status (fe_time e) i (-1) (Some ''read'') s
     | Some job \<Rightarrow>
         file_action (FaReceive i to fnum (files job) (total_size job))
           ((file_put (UpdateFolderFiles (job_id job) (files job) path (\<not> is_rem) True) s)
              \<lparr>reading := reading s @ [job], fast_timer := True\<rparr>))"

definition on_add_job :: "FileEnv \<Rightarrow> int \<Rightarrow> JobType \<Rightarrow> string \<Rightarrow> string \<Rightarrow> int \<Rightarrow> bool \<Rightarrow> bool \<Rightarrow> ClientFiles \<Rightarrow> ClientFiles" where
  "on_add_job e i ty path to fnum hidden is_rem s =
    (if is_rem then
       let job = new_write i ty path (FilePath to) fnum hidden is_rem [] (can_enable_overwrite_detection (fe_version e))
       in s\<lparr>writing := writing s @ [job\<lparr>is_last_job := True\<rparr>]\<rparr>
     else case new_local_read e i ty path to fnum hidden is_rem s of
       None \<Rightarrow> handle_job_status (fe_time e) i (-1) (Some ''read'') s
     | Some job \<Rightarrow>
         (file_put (UpdateFolderFiles (job_id job) (files job) path (\<not> is_rem) True) s)
           \<lparr>reading := reading s @ [job\<lparr>is_last_job := True\<rparr>], fast_timer := True\<rparr>)"

definition resumed :: "TransferJob \<Rightarrow> TransferJob" where
  "resumed job = job\<lparr>is_last_job := False, is_resume := True\<rparr>"

definition on_resume_job :: "int \<Rightarrow> bool \<Rightarrow> ClientFiles \<Rightarrow> ClientFiles" where
  "on_resume_job i is_rem s =
    (if is_rem then
       (case get_job i (writing s) of
          None \<Rightarrow> s
        | Some job \<Rightarrow>
            file_action (FaSend i (remote job) (file_num job) (show_hidden job) Generic)
              (s\<lparr>writing := update_job i resumed (writing s)\<rparr>))
     else
       (case get_job i (reading s) of
          None \<Rightarrow> s
        | Some job \<Rightarrow>
           (case data_source job of
              FilePath _ \<Rightarrow>
                let f = (\<lambda>j. set_finished_size_on_resume (resumed j))
                in file_action (FaReceive i (remote job) (file_num job) (files job) (total_size job))
                     (s\<lparr>reading := update_job i f (reading s)\<rparr>)
            | MemoryCursor _ \<Rightarrow> s)))"

definition override_answer :: "int \<Rightarrow> int \<Rightarrow> bool \<Rightarrow> ConfirmRequest" where
  "override_answer i n need_override =
     \<lparr>cr_id = i, cr_file_num = n, cr_union = (if need_override then OffsetBlk 0 else Skip True)\<rparr>"

definition on_confirm_override :: "int \<Rightarrow> int \<Rightarrow> bool \<Rightarrow> bool \<Rightarrow> bool \<Rightarrow> ClientFiles \<Rightarrow> ClientFiles option" where
  "on_confirm_override i n need_override rem is_upload s =
    (let req = override_answer i n need_override;
         strat = (if rem then update_job i (set_overwrite_strategy (Some need_override)) else (\<lambda>js. js))
     in if is_upload then
          (case get_job i (reading s) of
             None \<Rightarrow> Some s
           | Some _ \<Rightarrow> map_option (\<lambda>js. s\<lparr>reading := js\<rparr>) (confirm_job i (\<lambda>_. req) (local_fs s) (strat (reading s))))
        else
          (case get_job i (writing s) of
             None \<Rightarrow> Some s
           | Some _ \<Rightarrow> map_option (\<lambda>js. file_action (FaSendConfirm req) (s\<lparr>writing := js\<rparr>))
                         (confirm_job i (\<lambda>_. req) (local_fs s) (strat (writing s)))))"

definition on_remove_dir_all :: "FileEnv \<Rightarrow> int \<Rightarrow> string \<Rightarrow> bool \<Rightarrow> bool \<Rightarrow> ClientFiles \<Rightarrow> ClientFiles" where
  "on_remove_dir_all e i path is_rem hidden s =
    (let sep = get_path_sep e is_rem in
     if is_rem then
       (file_action (FaAllFiles i path hidden) s)
         \<lparr>remove_jobs := hm_insert i (RemoveJob_new (fe_time e) [] path sep is_rem) (remove_jobs s)\<rparr>
     else case (case hm_get (local_trees s) path of None \<Rightarrow> None | Some t \<Rightarrow> read_dir_recursive t [] hidden) of
       Some es \<Rightarrow>
         (file_put (UpdateFolderFiles i es path (\<not> is_rem) False) s)
           \<lparr>remove_jobs := hm_insert i (RemoveJob_new (fe_time e) es path sep is_rem) (remove_jobs s)\<rparr>
     | None \<Rightarrow> handle_job_status (fe_time e) i (-1) (Some ''read'') s)"

definition on_cancel_job :: "int \<Rightarrow> ClientFiles \<Rightarrow> ClientFiles" where
  "on_cancel_job i s =
    (let s1 = file_action (FaCancel i) s;
         (ws, w) = remove_job i (writing s1)
     in s1\<lparr>writing := ws, local_fs := (case w of Some job \<Rightarrow> remove_download_file job (local_fs s1) | None \<Rightarrow> local_fs s1),
           reading := fst (remove_job i (reading s1)), remove_jobs := hm_remove i (remove_jobs s1)\<rparr>)"

definition ui_remove_file :: "FileEnv \<Rightarrow> int \<Rightarrow> string \<Rightarrow> int \<Rightarrow> bool \<Rightarrow> ClientFiles \<Rightarrow> ClientFiles" where
  "ui_remove_file e i path n is_rem s =
    (if is_rem then file_action (FaRemoveFile i path n) s
     else if fs_exists (local_fs s) path \<and> path \<notin> set (denied (local_fs s))
     then handle_job_status (fe_time e) i n None (s\<lparr>local_fs := fs_remove path (local_fs s)\<rparr>)
     else handle_job_status (fe_time e) i n (Some ''remove_file'') s)"

definition on_create_dir :: "FileEnv \<Rightarrow> int \<Rightarrow> string \<Rightarrow> bool \<Rightarrow> ClientFiles \<Rightarrow> ClientFiles" where
  "on_create_dir e i path is_rem s =
    (if is_rem then file_action (FaCreate i path) s
     else if path \<in> set (denied (local_fs s)) then handle_job_status (fe_time e) i (-1) (Some ''create_dir'') s
     else case hm_get (local_trees s) path of
       Some (Directory _ _ _ _) \<Rightarrow> handle_job_status (fe_time e) i (-1) None s
     | Some _ \<Rightarrow> handle_job_status (fe_time e) i (-1) (Some ''create_dir'') s
     | None \<Rightarrow> handle_job_status (fe_time e) i (-1) None
                 (s\<lparr>local_trees := hm_insert path (Directory True True 0 []) (local_trees s)\<rparr>))"

definition on_rename_file :: "FileEnv \<Rightarrow> int \<Rightarrow> string \<Rightarrow> string \<Rightarrow> bool \<Rightarrow> ClientFiles \<Rightarrow> ClientFiles" where
  "on_rename_file e i path new_name is_rem s =
    (if is_rem then file_action (FaRename i path new_name) s
     else case rename_file path new_name (local_fs s) of
       (fs', res) \<Rightarrow> handle_job_status (fe_time e) i (-1) (case res of Err x \<Rightarrow> Some x | _ \<Rightarrow> None) (s\<lparr>local_fs := fs'\<rparr>))"

text \<open>The file requests among the requests of the user interface; others are left alone here.\<close>

definition file_request :: "FileEnv \<Rightarrow> Data \<Rightarrow> ClientFiles \<Rightarrow> ClientFiles option" where
  "file_request e d s = (case d of
     SendFiles i ty path to fnum hidden is_rem \<Rightarrow> Some (on_send_files e i ty path to fnum hidden is_rem s)
   | AddJob i ty path to fnum hidden is_rem \<Rightarrow> Some (on_add_job e i ty path to fnum hidden is_rem s)
   | ResumeJob i is_rem \<Rightarrow> Some (on_resume_job i is_rem s)
   | SetNoConfirm i \<Rightarrow> Some (s\<lparr>remove_jobs := hm_modify i (\<lambda>j. j\<lparr>no_confirm := True\<rparr>) (remove_jobs s)\<rparr>)
   | ConfirmDeleteFiles i n \<Rightarrow>
       Some (case hm_get (remove_jobs s) i of
               Some job \<Rightarrow> if as_usize n < length (rj_files job)
                          then file_put (ConfirmDelete i n (name (rj_files job ! as_usize n))) s else s
             | None \<Rightarrow> s)
   | SetConfirmOverrideFile i n need_override rem is_upload \<Rightarrow> on_confirm_override i n need_override rem is_upload s
   | RemoveDirAll i path is_rem hidden \<Rightarrow> Some (on_remove_dir_all e i path is_rem hidden s)
   | CancelJob i \<Rightarrow> Some (on_cancel_job i s)
   | DataRemoveDir i path \<Rightarrow> Some (file_action (FaRemoveDir i path True) s)
   | DataRemoveFile i path n is_rem \<Rightarrow> Some (ui_remove_file e i path n is_rem s)
   | DataCreateDir i path is_rem \<Rightarrow> Some (on_create_dir e i path is_rem s)
   | DataRenameFile i path new_name is_rem \<Rightarrow> Some (on_rename_file e i path new_name is_rem s)
   | _ \<Rightarrow> Some s)"

section \<open>Responses of the host\<close>

definition on_dir :: "FileEnv \<Rightarrow> int \<Rightarrow> string \<Rightarrow> FileEntry list \<Rightarrow> ClientFiles \<Rightarrow> ClientFiles" where
  "on_dir e i path es s =
    (let es1 = (if fe_peer_platform e = ''Windows'' then transform_windows_path es else es);
         s1 = file_put (UpdateFolderFiles i es1 path False False) s
     in case get_job i (writing s1) of
          Some _ \<Rightarrow> s1\<lparr>writing := update_job i (\<lambda>j. set_finished_size_on_resume (set_files es1 j)) (writing s1)\<rparr>
        | None \<Rightarrow> s1\<lparr>remove_jobs := hm_modify i (\<lambda>j. j\<lparr>rj_files := es1\<rparr>) (remove_jobs s1)\<rparr>)"

text \<open>Confirming a file on the local job and at the host; \<open>OffsetBlk\<close> has 32 bits on the wire.\<close>

definition send_confirm :: "bool \<Rightarrow> int \<Rightarrow> int \<Rightarrow> ConfirmUnion \<Rightarrow> ClientFiles \<Rightarrow> ClientFiles option" where
  "send_confirm is_upload i n u s =
    (let req = \<lparr>cr_id = i, cr_file_num = n, cr_union = u\<rparr> in
     map_option (file_action (FaSendConfirm req))
       (if is_upload then map_option (\<lambda>js. s\<lparr>reading := js\<rparr>) (confirm_job i (\<lambda>_. req) (local_fs s) (reading s))
        else map_option (\<lambda>js. s\<lparr>writing := js\<rparr>) (confirm_job i (\<lambda>_. req) (local_fs s) (writing s))))"

definition decide :: "bool \<Rightarrow> TransferJob \<Rightarrow> string \<Rightarrow> DigestMsg \<Rightarrow> ClientFiles \<Rightarrow> ClientFiles option" where
  "decide is_upload job path dg s =
    (let cont = dm_is_identical dg \<and> is_resume job \<and> 0 < dm_transferred_size dg;
         strategy = (if cont then Some True else default_overwrite_strategy job);
         offset = (if cont then dm_transferred_size dg mod 2 ^ 32 else 0)
     in case strategy of
          Some overwrite \<Rightarrow> send_confirm is_upload (dm_id dg) (dm_file_num dg) (if overwrite then OffsetBlk offset else Skip True) s
        | None \<Rightarrow> Some (file_put (OverrideFileConfirm (dm_id dg) (dm_file_num dg) path is_upload (dm_is_identical dg)) s))"

definition on_upload_digest :: "DigestMsg \<Rightarrow> ClientFiles \<Rightarrow> ClientFiles option" where
  "on_upload_digest dg s = (case get_job (dm_id dg) (reading s) of
     None \<Rightarrow> Some s
   | Some job \<Rightarrow>
      if length (files job) \<le> as_usize (dm_file_num dg) then Some s
      else case data_source job of
        MemoryCursor _ \<Rightarrow> Some s
      | FilePath p \<Rightarrow> decide True job (TransferJob_join p (name (files job ! as_usize (dm_file_num dg)))) dg s)"

definition on_download_digest :: "FileEnv \<Rightarrow> DigestMsg \<Rightarrow> ClientFiles \<Rightarrow> ClientFiles option" where
  "on_download_digest e dg s = (case get_job (dm_id dg) (writing s) of
     None \<Rightarrow> Some s
   | Some job \<Rightarrow>
      if length (files job) \<le> as_usize (dm_file_num dg) then Some s
      else case data_source job of
        MemoryCursor _ \<Rightarrow> Some s
      | FilePath p \<Rightarrow>
         let path = TransferJob_join p (name (files job ! as_usize (dm_file_num dg)));
             s1 = s\<lparr>writing := update_job (dm_id dg) (set_digest (dm_file_size dg) (dm_last_modified dg)) (writing s)\<rparr>
         in case is_write_need_confirmation (fe_lib e) (is_support_file_transfer_resume_num (fe_version e) \<and> is_resume job)
                   path dg (local_fs s1) of
              IsSame \<Rightarrow> send_confirm False (dm_id dg) (dm_file_num dg) (Skip True) s1
            | NeedConfirm d \<Rightarrow> decide False job path d s1
            | NoSuchFile \<Rightarrow> send_confirm False (dm_id dg) (dm_file_num dg) (OffsetBlk 0) s1)"

definition on_block :: "FileEnv \<Rightarrow> FileTransferBlock \<Rightarrow> ClientFiles \<Rightarrow> ClientFiles" where
  "on_block e b s = (case get_job (blk_id b) (writing s) of
     None \<Rightarrow> s
   | Some job \<Rightarrow>
      (case job_write (fe_lib e) (fe_io e) b (local_fs s, job) of
         ((fs', job'), _) \<Rightarrow>
           let s1 = s\<lparr>local_fs := fs', writing := update_job (blk_id b) (\<lambda>_. job') (writing s)\<rparr>
           in if job_type job' = Generic then update_jobs_status (fe_time e) s1 else s1))"

definition on_done :: "FileEnv \<Rightarrow> int \<Rightarrow> int \<Rightarrow> ClientFiles \<Rightarrow> ClientFiles" where
  "on_done e i n s = (case remove_job i (writing s) of
     (_, None) \<Rightarrow> handle_job_status (fe_time e) i n None s
   | (ws, Some job) \<Rightarrow>
      let s1 = s\<lparr>writing := ws, local_fs := modify_time job (local_fs s)\<rparr>
      in (case job_type job of
            Generic \<Rightarrow> handle_job_status (fe_time e) i n (job_error job) s1
          | Printer \<Rightarrow> s1))"

definition on_error :: "FileEnv \<Rightarrow> int \<Rightarrow> string \<Rightarrow> int \<Rightarrow> ClientFiles \<Rightarrow> ClientFiles" where
  "on_error e i err n s = (case remove_job i (writing s) of
     (ws, Some job) \<Rightarrow>
       let s1 = s\<lparr>writing := ws\<rparr>
       in if job_type job = Generic then handle_job_status (fe_time e) i n (Some err) s1 else s1
   | (_, None) \<Rightarrow>
      (case remove_job i (reading s) of
         (rs, Some job) \<Rightarrow>
           let s1 = s\<lparr>reading := rs\<rparr>
           in if job_type job = Generic then handle_job_status (fe_time e) i n (Some err) s1 else s1
       | (_, None) \<Rightarrow> handle_job_status (fe_time e) i n (Some err) s))"

definition file_response :: "FileEnv \<Rightarrow> HostFileResponse \<Rightarrow> ClientFiles \<Rightarrow> ClientFiles option" where
  "file_response e r s = (case r of
     HfEmptyDirs path ds \<Rightarrow> Some (file_put (UpdateEmptyDirs path ds) s)
   | HfDir i path es \<Rightarrow> Some (on_dir e i path es s)
   | HfDigest dg is_upload \<Rightarrow> if is_upload then on_upload_digest dg s else on_download_digest e dg s
   | HfBlock b \<Rightarrow> Some (on_block e b s)
   | HfDone i n \<Rightarrow> Some (on_done e i n s)
   | HfError i err n \<Rightarrow> Some (on_error e i err n s)
   | HfNone \<Rightarrow> Some s)"

definition host_confirm :: "ConfirmRequest \<Rightarrow> ClientFiles \<Rightarrow> ClientFiles option" where
  "host_confirm r s = (case get_job (cr_id r) (reading s) of
     None \<Rightarrow> Some s
   | Some _ \<Rightarrow> map_option (\<lambda>js. s\<lparr>reading := js\<rparr>) (confirm_job (cr_id r) (\<lambda>_. r) (local_fs s) (reading s)))"

section \<open>The timer\<close>

definition to_host :: "FileMsg \<Rightarrow> Msg" where
  "to_host m = (case m of
     RespError i err n \<Rightarrow> FileResponseMsg (FrError i n err)
   | RespBlock b \<Rightarrow> FileResponseMsg (FrBlock (blk_id b) (blk_file_num b) (blk_data b) (blk_compressed b))
   | RespDone i n \<Rightarrow> FileResponseMsg (FrDone i n)
   | RespDigest d \<Rightarrow> FileResponseMsg (FrDigest (dm_id d) (dm_file_num d) (dm_last_modified d) (dm_file_size d) (dm_is_resume d))
   | RespDir _ _ _ \<Rightarrow> FileResponseMsg FrNone
   | ActSendConfirm r \<Rightarrow> FileActionMsg (FaSendConfirm r)
   | ActReceive i path n es tot \<Rightarrow> FileActionMsg (FaReceive i path n es tot)
   | ActSend i ty path n hidden \<Rightarrow> FileActionMsg (FaSend i path n hidden ty))"

text \<open>The tick of the timer: blocks of the reading jobs go out; Inl is the error that ends the loop.\<close>

definition file_tick :: "FileEnv \<Rightarrow> rd list \<Rightarrow> bool \<Rightarrow> ClientFiles \<Rightarrow> string + ClientFiles" where
  "file_tick e sched net s =
    (if reading s = [] then Inr (s\<lparr>fast_timer := False\<rparr>)
     else case handle_read_jobs (fe_lib e) sched net (local_fs s) (reading s) of
       (js, ms, res) \<Rightarrow>
         let s1 = fold (\<lambda>m. file_put (FilePeer (to_host m))) ms (s\<lparr>reading := js\<rparr>)
         in (case res of Ok _ \<Rightarrow> Inr (update_jobs_status (fe_time e) s1) | Err x \<Rightarrow> Inl x | Panic \<Rightarrow> Inl []))"

end
