(* ===== verification/Client_Files_Correct.thy ===== *)
theory Client_Files_Correct
  imports Client_Files Transfer_Correct
begin

text \<open>
  Properties of the client's file transfers: what a host can do to the client's disk, that the removal of
  a folder ends, and whose consent an overwriting needs.
\<close>

section \<open>Lists of jobs\<close>

lemma get_job_simps [simp]: "get_job i [] = None" "get_job i (j # js) = (if job_id j = i then Some j else get_job i js)"
  by (simp_all add: get_job_def)

lemma get_job_id: "get_job i js = Some job \<Longrightarrow> job_id job = i"
  by (auto simp: get_job_def find_Some_iff)

lemma get_update: "get_job i js = Some job \<Longrightarrow> job_id (f job) = i \<Longrightarrow> get_job i (update_job i f js) = Some (f job)"
  by (induction js) (auto split: if_splits)

lemma remove_get: "remove_job i js = (fst (remove_job i js), get_job i js)"
proof -
  have "snd (remove_job i js) = get_job i js" by (induction js) (auto simp: case_prod_unfold Let_def)
  then show ?thesis by (metis prod.collapse)
qed

section \<open>What handlers leave alone\<close>

text \<open>Reports to the user, as opposed to messages to the host and questions.\<close>

fun plain :: "FileOut \<Rightarrow> bool" where
  "plain (ConfirmDelete _ _ _) = False"
| "plain (OverrideFileConfirm _ _ _ _ _) = False"
| "plain (FilePeer _) = False"
| "plain _ = True"

definition puts :: "(FileOut \<Rightarrow> bool) \<Rightarrow> ClientFiles \<Rightarrow> ClientFiles \<Rightarrow> bool" where
  "puts P s s' \<longleftrightarrow> (\<exists>xs. file_outs s' = file_outs s @ xs \<and> list_all P xs)"

lemma puts_refl [simp]: "puts P s s" by (simp add: puts_def)

lemma puts_trans: "puts P s t \<Longrightarrow> puts P t u \<Longrightarrow> puts P s u"
  by (fastforce simp: puts_def)

lemma puts_put: "puts P s t \<Longrightarrow> P x \<Longrightarrow> puts P s (file_put x t)"
  by (fastforce simp: puts_def file_put_def)

lemma puts_mono: "puts P s t \<Longrightarrow> (\<And>x. P x \<Longrightarrow> Q x) \<Longrightarrow> puts Q s t"
  by (fastforce simp: puts_def list_all_iff)

lemma puts_cong: "puts P s t \<Longrightarrow> file_outs t' = file_outs t \<Longrightarrow> file_outs s' = file_outs s \<Longrightarrow> puts P s' t'"
  by (simp add: puts_def)

lemma file_put_sel [simp]:
  "reading (file_put x s) = reading s" "writing (file_put x s) = writing s" "remove_jobs (file_put x s) = remove_jobs s"
  "self_queue (file_put x s) = self_queue s" "local_fs (file_put x s) = local_fs s"
  "last_update_jobs_status (file_put x s) = last_update_jobs_status s" "local_trees (file_put x s) = local_trees s"
  by (simp_all add: file_put_def)

lemma file_action_sel [simp]:
  "reading (file_action a s) = reading s" "writing (file_action a s) = writing s" "remove_jobs (file_action a s) = remove_jobs s"
  "self_queue (file_action a s) = self_queue s" "local_fs (file_action a s) = local_fs s"
  "file_outs (file_action a s) = file_outs s @ [FilePeer (FileActionMsg a)]"
  by (simp_all add: file_action_def) (simp add: file_put_def)

lemma report_sel [simp]:
  "reading (report i n err s) = reading s" "writing (report i n err s) = writing s" "remove_jobs (report i n err s) = remove_jobs s"
  "self_queue (report i n err s) = self_queue s" "local_fs (report i n err s) = local_fs s"
  by (simp_all add: report_def)

lemma report_outs: "\<exists>x. plain x \<and> file_outs (report i n err s) = file_outs s @ [x]"
  by (auto simp: report_def file_put_def split: option.split)

lemma handle_job_status_sel [simp]:
  "reading (handle_job_status tm i n err s) = reading s" "writing (handle_job_status tm i n err s) = writing s"
  "local_fs (handle_job_status tm i n err s) = local_fs s"
  by (simp_all add: handle_job_status_def Let_def split: option.split)

lemma puts_job_status: "puts plain s (handle_job_status tm i n err s)"
proof -
  have "puts plain s (report i n err t)" if "file_outs t = file_outs s" for t
    using report_outs [of i n err t] that by (auto simp: puts_def)
  then show ?thesis by (auto simp: handle_job_status_def Let_def split: option.split) (simp add: puts_def)
qed

definition only_progress :: "ClientFiles \<Rightarrow> ClientFiles \<Rightarrow> bool" where
  "only_progress s t \<longleftrightarrow> puts plain s t \<and> reading t = reading s \<and> writing t = writing s \<and> local_fs t = local_fs s"

lemma only_progress_trans: "only_progress s t \<Longrightarrow> only_progress t u \<Longrightarrow> only_progress s u"
  unfolding only_progress_def using puts_trans by simp metis

lemma update_job_status_progress: "only_progress s (update_job_status el job s)"
  by (auto simp: update_job_status_def only_progress_def case_prod_unfold Let_def puts_def file_put_def)

lemma fold_progress: "only_progress s (fold (update_job_status el) js s)"
proof (induction js arbitrary: s)
  case (Cons j js)
  show ?case using only_progress_trans [OF update_job_status_progress Cons.IH] by simp
qed (simp add: only_progress_def)

lemma update_jobs_status_progress: "only_progress s (update_jobs_status tm s)"
proof -
  let ?s = "\<lambda>el. fold (update_job_status el) (writing s) (fold (update_job_status el) (reading s) s)"
  have "only_progress s (?s el)" for el using only_progress_trans [OF fold_progress fold_progress] .
  then show ?thesis by (auto simp: update_jobs_status_def Let_def only_progress_def puts_def)
qed

section \<open>The host chooses where a download goes\<close>

fun responses :: "FileEnv \<Rightarrow> HostFileResponse list \<Rightarrow> ClientFiles \<Rightarrow> ClientFiles option" where
  "responses e [] s = Some s"
| "responses e (r # rs) s = (case file_response e r s of Some s' \<Rightarrow> responses e rs s' | None \<Rightarrow> None)"

lemma responses_append: "responses e (as @ bs) s = (case responses e as s of Some s' \<Rightarrow> responses e bs s' | None \<Rightarrow> None)"
  by (induction as arbitrary: s) (auto split: option.split)

lemma switch_file_id: "switch_file lb io p n (fs, job) = ((fs', job'), res) \<Longrightarrow> job_id job' = job_id job"
  by (auto simp: switch_file_def Let_def split: if_splits option.splits prod.splits)

lemma write_data_id: "write_data lb io b (fs, job) = ((fs', job'), res) \<Longrightarrow> job_id job' = job_id job"
  by (auto simp: write_data_def Let_def split: if_splits option.splits prod.splits)

lemma job_write_id: "job_write lb io b (fs, job) = ((fs', job'), res) \<Longrightarrow> job_id job' = job_id job"
  by (auto simp: job_write_def Let_def dest!: switch_file_id write_data_id split: if_splits DataSource.splits prod.splits outcome.splits)

lemma blocks_run:
  assumes "get_job i (writing s) = Some job" and "\<forall>b \<in> set bs. blk_id b = i"
    and "write_blocks (fe_lib e) (fe_io e) bs (local_fs s, job) = ((fs', job'), True)"
  shows "\<exists>s'. responses e (map HfBlock bs) s = Some s' \<and> local_fs s' = fs' \<and> get_job i (writing s') = Some job' \<and> puts plain s s'"
  using assms
proof (induction bs arbitrary: s job)
  case (Cons b bs)
  obtain fs1 job1 u where w: "job_write (fe_lib e) (fe_io e) b (local_fs s, job) = ((fs1, job1), Ok u)"
    "write_blocks (fe_lib e) (fe_io e) bs (fs1, job1) = ((fs', job'), True)"
    using Cons.prems(3) by (auto split: prod.splits outcome.splits)
  let ?s1 = "s\<lparr>local_fs := fs1, writing := update_job i (\<lambda>_. job1) (writing s)\<rparr>"
  have g: "get_job i (writing ?s1) = Some job1"
    using get_update [OF Cons.prems(1), of "\<lambda>_. job1"] job_write_id [OF w(1)] get_job_id [OF Cons.prems(1)] by simp
  obtain s1 where s1: "file_response e (HfBlock b) s = Some s1" "only_progress ?s1 s1"
    using Cons.prems(1,2) w(1) update_jobs_status_progress [of ?s1 "fe_time e"]
    by (simp add: file_response_def on_block_def Let_def only_progress_def)
  have "get_job i (writing s1) = Some job1" "local_fs s1 = fs1" using s1(2) g by (simp_all add: only_progress_def)
  with Cons.IH [of s1 job1] Cons.prems(2) w(2) obtain s' where
    "responses e (map HfBlock bs) s1 = Some s'" "local_fs s' = fs'" "get_job i (writing s') = Some job'" "puts plain s1 s'" by auto
  moreover have "puts plain s s1" using s1(2) by (simp add: only_progress_def puts_def)
  ultimately show ?case using s1(1) puts_trans by auto
qed simp

lemma done_run:
  assumes "get_job i (writing s) = Some job" and "job_type job = Generic"
  shows "\<exists>s'. file_response e (HfDone i n) s = Some s' \<and> local_fs s' = modify_time job (local_fs s) \<and> puts plain s s'"
proof -
  obtain ws where rm: "remove_job i (writing s) = (ws, Some job)" using remove_get assms(1) by metis
  let ?s1 = "s\<lparr>writing := ws, local_fs := modify_time job (local_fs s)\<rparr>"
  have "on_done e i n s = handle_job_status (fe_time e) i n (job_error job) ?s1"
    using rm assms(2) by (simp add: on_done_def Let_def)
  moreover have "puts plain s (handle_job_status (fe_time e) i n (job_error job) ?s1)"
    using puts_job_status [of ?s1] by (simp add: puts_def)
  ultimately show ?thesis by (simp add: file_response_def)
qed

lemma absolute_join: "starts_with ''/'' q \<Longrightarrow> TransferJob_join p q = q"
  by (cases q) (auto simp: TransferJob_join_def path_join_def starts_with_def)

text \<open>C40: A host chooses where a download goes.  While a download into some folder waits for its list of
  files, a host can announce a file with any absolute name and send its blocks: the client writes exactly
  these bytes to that path, over a file that may be there, without asking its user anything.\<close>

theorem host_chooses_download_path:
  assumes "get_job i (writing s) = Some job" and "data_source job = FilePath p" and "job_type job = Generic"
    and "data_stream job = None" and "fs_wf (local_fs s)" and "fe_io e = all_ok" and "fe_peer_platform e \<noteq> ''Windows''"
    and "starts_with ''/'' q" and "download_of q \<notin> set (denied (local_fs s))" and "digest_of q \<notin> set (denied (local_fs s))"
    and "bs \<noteq> []" and "\<forall>b \<in> set bs. blk_id b = i \<and> blk_file_num b = 0"
  shows "\<exists>s'. responses e (HfDir i dir [en\<lparr>name := q\<rparr>] # map HfBlock bs @ [HfDone i 0]) s = Some s'
    \<and> fs_file (local_fs s') q = Some \<lparr>content = concat (map (payload (fe_lib e)) bs), mtime = modified_time en\<rparr>
    \<and> (\<exists>xs. file_outs s' = file_outs s @ xs \<and> list_all plain xs)"
proof -
  let ?job = "set_finished_size_on_resume (set_files [en\<lparr>name := q\<rparr>] job)"
  define s1 where "s1 = on_dir e i dir [en\<lparr>name := q\<rparr>] s"
  have id: "job_id job = i" using get_job_id [OF assms(1)] .
  have J: "job_id ?job = i" "data_source ?job = FilePath p" "job_type ?job = Generic" "data_stream ?job = None" "files ?job = [en\<lparr>name := q\<rparr>]"
    using assms id by (simp_all add: set_finished_size_on_resume_def set_files_def)
  have 1: "file_response e (HfDir i dir [en\<lparr>name := q\<rparr>]) s = Some s1" "local_fs s1 = local_fs s" "puts plain s s1"
    "get_job i (writing s1) = Some ?job"
    using assms(1,7) get_update [OF assms(1), of "\<lambda>j. set_finished_size_on_resume (set_files [en\<lparr>name := q\<rparr>] j)"] J(1)
    by (auto simp: s1_def file_response_def on_dir_def Let_def puts_def file_put_def)
  have wt: "write_target ?job 0 q"
    using J absolute_join [OF assms(8), of p] by (simp add: write_target_def is_i32_def as_usize_def)
  have "\<forall>b \<in> set bs. block_for ?job 0 b" using assms(12) J(1) by (simp add: block_for_def)
  from write_blocks_file [OF assms(5) wt J(4) assms(9,10,11) this, of "fe_lib e"] obtain fs' job' where
    w: "write_blocks (fe_lib e) (fe_io e) bs (local_fs s1, ?job) = ((fs', job'), True)"
    and r: "receiving q fs' job' (concat (map (payload (fe_lib e)) bs))" "write_target job' 0 q" "file_num job' = 0" "files job' = files ?job"
    using 1(2) assms(6) by auto
  obtain s2 where 2: "responses e (map HfBlock bs) s1 = Some s2" "local_fs s2 = fs'" "get_job i (writing s2) = Some job'" "puts plain s1 s2"
    using blocks_run [OF 1(4) _ w] assms(12) by auto
  obtain s3 where 3: "file_response e (HfDone i 0) s2 = Some s3" "local_fs s3 = modify_time job' fs'" "puts plain s2 s3"
    using done_run [OF 2(3), of e 0] r(2) 2(2) by (auto simp: write_target_def)
  have "puts plain s s3" using puts_trans [OF puts_trans [OF 1(3) 2(4)] 3(3)] .
  moreover have "fs_file (local_fs s3) q = Some \<lparr>content = concat (map (payload (fe_lib e)) bs), mtime = modified_time en\<rparr>"
    using publish [OF r(2,3,1)] 3(2) r(4) J(5) by (simp add: as_usize_def)
  ultimately show ?thesis using 1(1) 2(1) 3(1) by (simp add: responses_append puts_def)
qed

text \<open>A download into \<open>/d\<close>, and a host that writes to \<open>/etc/x\<close>.\<close>

definition demo_file_env :: FileEnv where
  "demo_file_env = \<lparr>fe_lib = id_lib, fe_io = all_ok, fe_time = 0, fe_version = 0, fe_peer_platform = ''Linux'', fe_platform = ''Linux''\<rparr>"

definition demo_downloading :: ClientFiles where
  "demo_downloading = \<lparr>reading = [], writing = [new_write 7 Generic ''/s'' (FilePath ''/d'') 0 False True [] True], remove_jobs = [],
     fast_timer = False, last_update_jobs_status = (0, []), self_queue = [], local_fs = empty_fs, local_trees = [], file_outs = []\<rparr>"

theorem host_chooses_download_path_witness:
  "\<exists>s'. responses demo_file_env (HfDir 7 ''/s'' [one_entry\<lparr>name := ''/etc/x''\<rparr>]
       # map HfBlock [\<lparr>blk_id = 7, blk_file_num = 0, blk_data = [1, 2], blk_compressed = False\<rparr>] @ [HfDone 7 0]) demo_downloading = Some s'
    \<and> fs_file (local_fs s') ''/etc/x'' = Some \<lparr>content = [1, 2], mtime = 5\<rparr>"
proof -
  let ?job = "new_write 7 Generic ''/s'' (FilePath ''/d'') 0 False True [] True"
  let ?b = "\<lparr>blk_id = 7, blk_file_num = 0, blk_data = [1, 2], blk_compressed = False\<rparr>"
  have 1: "get_job 7 (writing demo_downloading) = Some ?job" "data_source ?job = FilePath ''/d''" "job_type ?job = Generic"
    "data_stream ?job = None" by (simp_all add: demo_downloading_def new_write_def new_job_def)
  have 2: "fs_wf (local_fs demo_downloading)" "fe_io demo_file_env = all_ok" "fe_peer_platform demo_file_env \<noteq> ''Windows''"
    "download_of ''/etc/x'' \<notin> set (denied (local_fs demo_downloading))" "digest_of ''/etc/x'' \<notin> set (denied (local_fs demo_downloading))"
    by (simp_all add: demo_downloading_def demo_file_env_def empty_fs_def fs_wf_def)
  have 3: "starts_with ''/'' ''/etc/x''" "[?b] \<noteq> []" "\<forall>b \<in> set [?b]. blk_id b = 7 \<and> blk_file_num b = 0"
    by (simp_all add: starts_with_def)
  from host_chooses_download_path [OF 1 2(1-3) 3(1) 2(4,5) 3(2,3), of "''/s''" one_entry] show ?thesis
    by (auto simp: payload_def one_entry_def)
qed

section \<open>The removal of a folder on the host ends\<close>

text \<open>What the connection asks the connection manager for, and what comes back to the client.\<close>

definition cm_requests :: "Out list \<Rightarrow> FSReq list" where
  "cm_requests os = concat (map (\<lambda>x. case x of ToCm (CmFS r) \<Rightarrow> [r] | _ \<Rightarrow> []) os)"

fun serve_requests :: "CmEnv \<Rightarrow> IoResult \<Rightarrow> FSReq list \<Rightarrow> Cm \<Rightarrow> (Cm \<times> CmOut list) option" where
  "serve_requests ce io [] cm = Some (cm, [])"
| "serve_requests ce io (r # rs) cm = (case handle_fs ce io False r cm of
     None \<Rightarrow> None
   | Some (cm1, os1) \<Rightarrow> (case serve_requests ce io rs cm1 of Some (cm2, os2) \<Rightarrow> Some (cm2, os1 @ os2) | None \<Rightarrow> None))"

definition reply_of :: "CmOut \<Rightarrow> HostFileResponse" where
  "reply_of x = (case x of
     Raw (RespError i err n) \<Rightarrow> HfError i err n
   | Raw (RespDone i n) \<Rightarrow> HfDone i n
   | Raw (RespDir i path es) \<Rightarrow> HfDir i path es
   | Raw (RespBlock b) \<Rightarrow> HfBlock b
   | RawDigest d is_upload \<Rightarrow> HfDigest d is_upload
   | RawEmptyDirs path ds \<Rightarrow> HfEmptyDirs path ds
   | _ \<Rightarrow> HfNone)"

fun deliver :: "Host \<Rightarrow> CmEnv \<Rightarrow> IoResult \<Rightarrow> FileOut list \<Rightarrow> CS \<times> Cm \<Rightarrow> (CS \<times> Cm \<times> HostFileResponse list) option" where
  "deliver h ce io [] (c, cm) = Some (c, cm, [])"
| "deliver h ce io (x # xs) (c, cm) = (case x of
     FilePeer (FileActionMsg fa) \<Rightarrow>
       (case on_file_action h fa c of
          None \<Rightarrow> None
        | Some c1 \<Rightarrow>
           (case serve_requests ce io (cm_requests (drop (length (outs c)) (outs c1))) cm of
              None \<Rightarrow> None
            | Some (cm1, os) \<Rightarrow>
               (case deliver h ce io xs (c1, cm1) of
                  Some (c2, cm2, rs) \<Rightarrow> Some (c2, cm2, map reply_of os @ rs)
                | None \<Rightarrow> None)))
   | _ \<Rightarrow> deliver h ce io xs (c, cm))"

text \<open>One turn: the client takes a request it sent to itself, the host serves the messages this causes,
  and the client handles the replies.\<close>

type_synonym Both = "ClientFiles \<times> CS \<times> Cm"

definition turn :: "FileEnv \<times> Host \<times> CmEnv \<times> IoResult \<Rightarrow> Both \<Rightarrow> Both option" where
  "turn = (\<lambda>(e, h, ce, io) (s, c, cm). case self_queue s of
     [] \<Rightarrow> Some (s, c, cm)
   | d # ds \<Rightarrow>
      (case file_request e d (s\<lparr>self_queue := ds, file_outs := []\<rparr>) of
         None \<Rightarrow> None
       | Some s1 \<Rightarrow>
          (case deliver h ce io (file_outs s1) (c, cm) of
             None \<Rightarrow> None
           | Some (c1, cm1, rs) \<Rightarrow> (case responses e rs s1 of Some s2 \<Rightarrow> Some (s2, c1, cm1) | None \<Rightarrow> None))))"

fun turns :: "(FileEnv \<times> Host \<times> CmEnv \<times> IoResult) list \<Rightarrow> Both \<Rightarrow> Both option" where
  "turns [] b = Some b"
| "turns (x # xs) b = (case turn x b of Some b' \<Rightarrow> turns xs b' | None \<Rightarrow> None)"

definition file_path :: "RemoveJob \<Rightarrow> nat \<Rightarrow> string" where
  "file_path job k = rj_path job @ rj_sep job @ name (rj_files job ! k)"

text \<open>The client is about to remove the file of number \<open>k\<close>.\<close>

definition removing :: "int \<Rightarrow> RemoveJob \<Rightarrow> nat \<Rightarrow> ClientFiles \<Rightarrow> bool" where
  "removing i job k s \<longleftrightarrow> (\<exists>t. hm_get (remove_jobs s) i = Some (job\<lparr>last_update_job_status := t\<rparr>))
     \<and> self_queue s = [DataRemoveFile i (file_path job k) (int k) True]
     \<and> get_job i (writing s) = None \<and> get_job i (reading s) = None"

definition serves_files :: "CS \<Rightarrow> bool" where
  "serves_files c \<longleftrightarrow> file_transfer (conn c) \<noteq> None \<and> delayed_read_dir (conn c) = None
     \<and> get_builtin_option (store (world c)) ''one-way-file-transfer'' \<noteq> ''Y''"

lemma small_index: "k < 2 ^ 31 \<Longrightarrow> wrap32 (int k) = int k \<and> as_usize (int k) = k"
  by (simp add: is_i32_def as_usize_def)

lemma status_step:
  assumes "removing i job k s" and "no_confirm job" and "rj_is_remote job" and "length (rj_files job) < 2 ^ 31" and "k < length (rj_files job)"
  shows "let s' = handle_job_status tm i (int k) err (s\<lparr>self_queue := [], file_outs := xs\<rparr>) in
    if Suc k < length (rj_files job) then removing i job (Suc k) s'
    else self_queue s' = [] \<and> hm_get (remove_jobs s') i = None"
proof -
  obtain t where t: "hm_get (remove_jobs s) i = Some (job\<lparr>last_update_job_status := t\<rparr>)" using assms(1) by (auto simp: removing_def)
  have "wrap32 (int k + 1) = int (Suc k)" "as_usize (wrap32 (int k + 1)) = Suc k"
    using small_index [of "Suc k"] assms(4,5) by (auto simp: add.commute)
  moreover have "wrap32 (int (Suc k)) = int (Suc k)" using small_index [of "Suc k"] assms(4,5) by auto
  ultimately show ?thesis
    using assms t by (auto simp: handle_job_status_def Let_def removing_def file_path_def hm_get_insert hm_get_remove)
qed

lemma serve_removal:
  assumes "serves_files c"
  shows "\<exists>c'. on_file_action h (FaRemoveFile i path n) c = Some c' \<and> serves_files c'
    \<and> cm_requests (drop (length (outs c)) (outs c')) = [RemoveFile path i n]"
  using assms by (auto simp: on_file_action_def do_file_action_def serves_files_def cm_requests_def send_fs_def emit_def upd_conn_def)

definition gone :: "string list \<Rightarrow> FS \<Rightarrow> FS \<Rightarrow> bool" where
  "gone ps fs fs' \<longleftrightarrow> denied fs' = denied fs
     \<and> (\<forall>p. fs_exists fs' p \<longleftrightarrow> fs_exists fs p \<and> (p \<in> set (denied fs) \<or> p \<notin> set ps))"

lemma gone_trans: "gone ps fs fs1 \<Longrightarrow> gone qs fs1 fs2 \<Longrightarrow> gone (ps @ qs) fs fs2"
  by (auto simp: gone_def)

lemma cm_remove_outcome:
  "\<exists>cm' err. cm_remove_file path i n cm = (cm', [case err of None \<Rightarrow> Raw (new_done i n) | Some x \<Rightarrow> Raw (new_error i x n)])
     \<and> gone [path] (cm_fs cm) (cm_fs cm')"
proof (cases "fs_exists (cm_fs cm) path \<and> path \<notin> set (denied (cm_fs cm))")
  case True
  then show ?thesis
    by (intro exI [of _ "cm\<lparr>cm_fs := fs_remove path (cm_fs cm)\<rparr>"] exI [of _ None])
      (auto simp: cm_remove_file_def handle_result_def gone_def fs_remove_def fs_exists_def hm_get_remove)
next
  case False
  then show ?thesis
    by (intro exI [of _ cm] exI [of _ "Some ''remove_file''"]) (auto simp: cm_remove_file_def handle_result_def gone_def)
qed

lemma reply_status:
  assumes "get_job i (writing s) = None" and "get_job i (reading s) = None"
  shows "responses e [reply_of (case err of None \<Rightarrow> Raw (new_done i n) | Some x \<Rightarrow> Raw (new_error i x n))] s
    = Some (handle_job_status (fe_time e) i n err s)"
proof -
  obtain ws rs where "remove_job i (writing s) = (ws, None)" "remove_job i (reading s) = (rs, None)" using remove_get assms by metis
  then show ?thesis
    by (cases err) (simp_all add: reply_of_def new_done_def new_error_def file_response_def on_done_def on_error_def)
qed

lemma turn_removes:
  assumes "removing i job k s" and "no_confirm job" and "rj_is_remote job" and "length (rj_files job) < 2 ^ 31"
    and "k < length (rj_files job)" and "serves_files c"
  shows "\<exists>s' c' cm'. turn x (s, c, cm) = Some (s', c', cm') \<and> serves_files c' \<and> gone [file_path job k] (cm_fs cm) (cm_fs cm')
    \<and> (if Suc k < length (rj_files job) then removing i job (Suc k) s'
       else self_queue s' = [] \<and> hm_get (remove_jobs s') i = None)"
proof -
  obtain e h ce io where x: "x = (e, h, ce, io)" by (cases x)
  let ?m = "FilePeer (FileActionMsg (FaRemoveFile i (file_path job k) (int k)))"
  let ?s1 = "s\<lparr>self_queue := [], file_outs := [?m]\<rparr>"
  have q: "self_queue s = [DataRemoveFile i (file_path job k) (int k) True]" and w: "get_job i (writing s) = None" "get_job i (reading s) = None"
    using assms(1) by (auto simp: removing_def)
  have 1: "file_request e (DataRemoveFile i (file_path job k) (int k) True) (s\<lparr>self_queue := [], file_outs := []\<rparr>) = Some ?s1"
    by (simp add: file_request_def ui_remove_file_def file_action_def file_put_def)
  obtain c' where 2: "on_file_action h (FaRemoveFile i (file_path job k) (int k)) c = Some c'" "serves_files c'"
    "cm_requests (drop (length (outs c)) (outs c')) = [RemoveFile (file_path job k) i (int k)]"
    using serve_removal [OF assms(6)] by blast
  obtain cm' err where 3: "cm_remove_file (file_path job k) i (int k) cm
      = (cm', [case err of None \<Rightarrow> Raw (new_done i (int k)) | Some y \<Rightarrow> Raw (new_error i y (int k))])" "gone [file_path job k] (cm_fs cm) (cm_fs cm')"
    using cm_remove_outcome by blast
  let ?s2 = "handle_job_status (fe_time e) i (int k) err ?s1"
  have "turn x (s, c, cm) = Some (?s2, c', cm')"
    using reply_status [of i ?s1 e "int k" err] w by (simp add: x turn_def q 1 2 3(1))
  then show ?thesis using 2(2) 3(2) status_step [OF assms(1-5), of "fe_time e" err "[?m]"] by (auto simp: Let_def)
qed

lemma turns_remove:
  assumes "removing i job k s" and "no_confirm job" and "rj_is_remote job" and "length (rj_files job) < 2 ^ 31"
    and "k < length (rj_files job)" and "serves_files c" and "length xs = length (rj_files job) - k"
  shows "\<exists>s' c' cm'. turns xs (s, c, cm) = Some (s', c', cm') \<and> self_queue s' = [] \<and> hm_get (remove_jobs s') i = None
    \<and> gone (map (file_path job) [k..<length (rj_files job)]) (cm_fs cm) (cm_fs cm')"
  using assms(1,5-)
proof (induction xs arbitrary: k s c cm)
  case (Cons x xs)
  obtain s1 c1 cm1 where 1: "turn x (s, c, cm) = Some (s1, c1, cm1)" "serves_files c1" "gone [file_path job k] (cm_fs cm) (cm_fs cm1)"
    "if Suc k < length (rj_files job) then removing i job (Suc k) s1 else self_queue s1 = [] \<and> hm_get (remove_jobs s1) i = None"
    using turn_removes [OF Cons.prems(1) assms(2-4) Cons.prems(2,3)] by blast
  show ?case
  proof (cases "Suc k < length (rj_files job)")
    case True
    then obtain s' c' cm' where "turns xs (s1, c1, cm1) = Some (s', c', cm')" "self_queue s' = []" "hm_get (remove_jobs s') i = None"
      and g: "gone (map (file_path job) [Suc k..<length (rj_files job)]) (cm_fs cm1) (cm_fs cm')"
      using Cons.IH [of "Suc k" s1 c1 cm1] 1(2,4) Cons.prems(4) by fastforce
    then show ?thesis using gone_trans [OF 1(3) g] 1(1) True by (simp add: upt_conv_Cons)
  next
    case False
    then have n: "length (rj_files job) = Suc k" using Cons.prems(2) by simp
    then have "xs = []" "[k..<length (rj_files job)] = [k]" using Cons.prems(4) by simp_all
    then show ?thesis using 1 False by simp
  qed
qed simp

text \<open>C20: Removing a folder on the host ends, with exactly its files removed.  Once the user has chosen not
  to be asked again, client, connection and connection manager go on by themselves: after as many turns as
  there are files the removal is finished, nothing is left to do, and of all files on the host exactly
  those of the folder are gone that the operating system lets the host remove.  A file that cannot be
  removed does not stop the others.\<close>

theorem folder_removal_ends:
  assumes "hm_get (remove_jobs s) i = Some job" and "no_confirm job" and "rj_is_remote job"
    and "0 < length (rj_files job)" and "length (rj_files job) < 2 ^ 31"
    and "self_queue s = [DataRemoveFile i (file_path job 0) 0 True]"
    and "get_job i (writing s) = None" and "get_job i (reading s) = None" and "serves_files c"
    and "length xs = length (rj_files job)"
  shows "\<exists>s' c' cm'. turns xs (s, c, cm) = Some (s', c', cm') \<and> self_queue s' = [] \<and> hm_get (remove_jobs s') i = None
    \<and> (\<forall>p. fs_exists (cm_fs cm') p \<longleftrightarrow> fs_exists (cm_fs cm) p
         \<and> (p \<in> set (denied (cm_fs cm)) \<or> p \<notin> set (map (file_path job) [0..<length (rj_files job)])))"
proof -
  have "removing i job 0 s"
    using assms by (simp add: removing_def) (metis RemoveJob.surjective RemoveJob.update_convs(6))
  from turns_remove [OF this assms(2,3,5,4,9), of xs cm] assms(10) show ?thesis by (simp add: gone_def) blast
qed

text \<open>A folder of two files next to another file.\<close>

definition demo_removal :: ClientFiles where
  "demo_removal = demo_downloading\<lparr>writing := [], remove_jobs := [(3, \<lparr>rj_files = [one_entry, one_entry\<lparr>name := ''g''\<rparr>], rj_path = ''/s'',
     rj_sep = ''/'', rj_is_remote = True, no_confirm = True, last_update_job_status = 0\<rparr>)], self_queue := [DataRemoveFile 3 ''/s/f'' 0 True]\<rparr>"

definition demo_cm :: Cm where
  "demo_cm = cm_empty\<lparr>cm_fs := demo_fs\<lparr>paths := [(''/s/f'', 0), (''/s/g'', 1), (''/x'', 2)]\<rparr>\<rparr>"

definition demo_server :: CS where
  "demo_server = upd_conn (\<lambda>c. c\<lparr>file_transfer := Some ([], False), delayed_read_dir := None\<rparr>) (demo_open\<lparr>world := demo_world\<rparr>)"

theorem folder_removal_ends_witness:
  "\<exists>s' c' cm'. turns (replicate 2 (demo_file_env, demo_host, cm_env0, all_ok)) (demo_removal, demo_server, demo_cm) = Some (s', c', cm')
    \<and> self_queue s' = [] \<and> \<not> fs_exists (cm_fs cm') ''/s/f'' \<and> \<not> fs_exists (cm_fs cm') ''/s/g'' \<and> fs_exists (cm_fs cm') ''/x''"
proof -
  let ?job = "\<lparr>rj_files = [one_entry, one_entry\<lparr>name := ''g''\<rparr>], rj_path = ''/s'', rj_sep = ''/'', rj_is_remote = True, no_confirm = True,
    last_update_job_status = 0\<rparr>"
  have 1: "hm_get (remove_jobs demo_removal) 3 = Some ?job" "no_confirm ?job" "rj_is_remote ?job" "0 < length (rj_files ?job)"
    "length (rj_files ?job) < 2 ^ 31" "self_queue demo_removal = [DataRemoveFile 3 (file_path ?job 0) 0 True]"
    "get_job 3 (writing demo_removal) = None" "get_job 3 (reading demo_removal) = None"
    by (simp_all add: demo_removal_def demo_downloading_def file_path_def one_entry_def)
  have 2: "serves_files demo_server"
    by (simp add: serves_files_def demo_server_def upd_conn_def demo_world_def first_run_def get_builtin_option_def hm_get_def unwrap_or_def)
  have 3: "length (replicate 2 (demo_file_env, demo_host, cm_env0, all_ok)) = length (rj_files ?job)" by simp
  have p: "set (map (file_path ?job) [0..<length (rj_files ?job)]) = {''/s/f'', ''/s/g''}"
    by (simp add: file_path_def one_entry_def upt_rec numeral_2_eq_2)
  from folder_removal_ends [OF 1 2 3, of demo_cm] show ?thesis
    unfolding p by (auto simp: demo_cm_def cm_empty_def demo_fs_def fs_exists_def)
qed

end
