(* ===== verification/Client_Consent.thy ===== *)
theory Client_Consent
  imports Client_Files_Correct
begin

text \<open>
  Runs of the client's transfers and the consent to overwriting: every go-ahead for a file goes back to
  the user of the client, to a file that does not exist yet, or to a resumed download.
\<close>

section \<open>Runs\<close>

datatype FileEvent = FromUser Data | FromHost HostFileResponse | FromHostConfirm ConfirmRequest | JobTick "rd list" bool

definition file_step :: "FileEnv \<Rightarrow> FileEvent \<Rightarrow> ClientFiles \<Rightarrow> ClientFiles option" where
  "file_step e ev s = (case ev of
     FromUser d \<Rightarrow> file_request e d s
   | FromHost r \<Rightarrow> file_response e r s
   | FromHostConfirm r \<Rightarrow> host_confirm r s
   | JobTick sched net \<Rightarrow> (case file_tick e sched net s of Inr s' \<Rightarrow> Some s' | Inl _ \<Rightarrow> None))"

text \<open>Between two events other programs may change the disk in any way: each event comes with the file
  system it finds.\<close>

type_synonym Moment = "FileEnv \<times> FS \<times> FileEvent"

fun file_run :: "Moment list \<Rightarrow> ClientFiles \<Rightarrow> ClientFiles option" where
  "file_run [] s = Some s"
| "file_run ((e, fs, ev) # ms) s = (case file_step e ev (s\<lparr>local_fs := fs\<rparr>) of Some s' \<Rightarrow> file_run ms s' | None \<Rightarrow> None)"

text \<open>The user answered for this job that files are to be overwritten from now on; the user resumed it.\<close>

definition always_overwrite :: "Moment list \<Rightarrow> int \<Rightarrow> bool" where
  "always_overwrite past i \<longleftrightarrow> (\<exists>e fs n up. (e, fs, FromUser (SetConfirmOverrideFile i n True True up)) \<in> set past)"

definition resumed_by_user :: "Moment list \<Rightarrow> int \<Rightarrow> bool" where
  "resumed_by_user past i \<longleftrightarrow> (\<exists>e fs r. (e, fs, FromUser (ResumeJob i r)) \<in> set past)"

section \<open>What jobs remember\<close>

definition same_job :: "TransferJob \<Rightarrow> TransferJob \<Rightarrow> bool" where
  "same_job j j' \<longleftrightarrow> job_id j' = job_id j \<and> default_overwrite_strategy j' = default_overwrite_strategy j \<and> is_resume j' = is_resume j"

lemma same_refl [simp]: "same_job j j" by (simp add: same_job_def)

lemma same_trans: "same_job a b \<Longrightarrow> same_job b c \<Longrightarrow> same_job a c" by (simp add: same_job_def)

definition stems :: "TransferJob list \<Rightarrow> TransferJob list \<Rightarrow> bool" where
  "stems js js' \<longleftrightarrow> (\<forall>j' \<in> set js'. \<exists>j \<in> set js. same_job j j')"

lemma stems_refl [simp]: "stems js js" unfolding stems_def using same_refl by blast

lemma stems_trans: "stems a b \<Longrightarrow> stems b c \<Longrightarrow> stems a c"
  unfolding stems_def using same_trans by blast

lemma stems_Cons: "same_job j j' \<Longrightarrow> stems js js' \<Longrightarrow> stems (j # js) (j' # js')"
  by (auto simp: stems_def)

lemma stems_remove: "stems js (fst (remove_job i js))"
proof -
  have "set (fst (remove_job i js)) \<subseteq> set js" by (induction js) (auto simp: case_prod_unfold Let_def)
  then show ?thesis using same_refl unfolding stems_def by blast
qed

lemma stems_update: "(\<And>j. get_job i js = Some j \<Longrightarrow> same_job j (f j)) \<Longrightarrow> stems js (update_job i f js)"
  by (induction js) (auto intro!: stems_Cons split: if_splits)

lemma same_confirm: "confirm r fs job = Ok job' \<Longrightarrow> same_job job job'"
  by (auto simp: confirm_def same_job_def set_file_skipped_def set_file_confirmed_def set_stream_offset_def Let_def
      split: if_splits ConfirmUnion.splits DataSource.splits option.splits)

lemma stems_confirm: "confirm_job i req fs js = Some js' \<Longrightarrow> stems js js'"
  by (auto simp: confirm_job_def intro!: stems_update dest: same_confirm split: option.splits outcome.splits)

lemma same_write: "job_write lb io b (fs, job) = ((fs', job'), res) \<Longrightarrow> same_job job job'"
  by (auto simp: same_job_def job_write_def switch_file_def write_data_def Let_def
      split: if_splits DataSource.splits prod.splits outcome.splits option.splits)

lemma same_open: "open_data_stream fs job = (job', res) \<Longrightarrow> same_job job job'"
  by (auto simp: same_job_def open_data_stream_def Let_def split: if_splits DataSource.splits option.splits)

lemma same_init: "init_data_stream net fs job = (job', ms, res) \<Longrightarrow> same_job job job'"
proof -
  assume a: "init_data_stream net fs job = (job', ms, res)"
  obtain job1 r where o: "open_data_stream fs job = (job1, r)" by (cases "open_data_stream fs job")
  have "same_job job1 job'" using a o
    by (auto simp: init_data_stream_def same_job_def split: outcome.splits if_splits prod.splits bool.splits)
  then show ?thesis using same_open [OF o] same_trans by blast
qed

lemma same_read: "job_read lb sched fs job = (job', res) \<Longrightarrow> same_job job job'"
  by (auto simp: same_job_def job_read_def next_file_def Let_def split: if_splits option.splits)

text \<open>The messages of reading jobs are blocks, digests, ends and errors, never confirmations.\<close>

fun no_action :: "FileMsg \<Rightarrow> bool" where
  "no_action (ActSendConfirm _) = False" | "no_action _ = True"

lemma init_messages: "init_data_stream net fs job = (job', ms, res) \<Longrightarrow> list_all no_action ms"
  by (auto simp: init_data_stream_def split: outcome.splits if_splits prod.splits bool.splits)

lemma init_jobs_stems: "init_jobs net fs js = (js', ms, ok) \<Longrightarrow> stems js js' \<and> list_all no_action ms"
proof (induction js arbitrary: js' ms ok)
  case (Cons j js)
  obtain js1 ms1 ok1 where r: "init_jobs net fs js = (js1, ms1, ok1)" by (cases "init_jobs net fs js") auto
  obtain j1 ms2 res where i: "init_data_stream net fs j = (j1, ms2, res)" by (cases "init_data_stream net fs j") auto
  have 1: "stems js js1" "list_all no_action ms1" using Cons.IH [OF r] by auto
  have 2: "same_job j j1" "list_all no_action ms2" using same_init [OF i] init_messages [OF i] by auto
  show ?case using Cons.prems r i 1 2
    by (auto intro!: stems_Cons simp: new_error_def split: if_splits outcome.splits)
qed auto

lemma read_first_stems: "read_first lb sched net fs js = (js', ms, fin, lg, ok) \<Longrightarrow> stems js js' \<and> list_all no_action ms"
proof (induction js arbitrary: js' ms fin lg ok)
  case (Cons j js)
  obtain js1 ms1 fin1 lg1 ok1 where r: "read_first lb sched net fs js = (js1, ms1, fin1, lg1, ok1)" by (cases "read_first lb sched net fs js") auto
  obtain j1 res where i: "job_read lb sched fs j = (j1, res)" by (cases "job_read lb sched fs j")
  have 1: "stems js js1" "list_all no_action ms1" using Cons.IH [OF r] by auto
  have 2: "same_job j j1" using same_read [OF i] .
  show ?case using Cons.prems r i 1 2
    by (auto intro!: stems_Cons simp: new_error_def new_block_def new_done_def split: if_splits outcome.splits option.splits)
qed auto

lemma handle_read_jobs_stems:
  assumes "handle_read_jobs lb sched net fs js = (js', ms, res)"
  shows "stems js js' \<and> list_all no_action ms"
proof -
  obtain js1 ms1 ok1 where 1: "init_jobs net fs js = (js1, ms1, ok1)" by (cases "init_jobs net fs js") auto
  obtain js2 ms2 fin lg ok2 where 2: "read_first lb sched net fs js1 = (js2, ms2, fin, lg, ok2)" by (cases "read_first lb sched net fs js1") auto
  have f: "stems js2 (fold (\<lambda>i js. fst (remove_job i js)) fin js2)" for fin
    by (induction fin arbitrary: js2) (auto intro: stems_trans stems_remove)
  note a = init_jobs_stems [OF 1] read_first_stems [OF 2]
  have "stems js js2" using a stems_trans by blast
  moreover from this have "stems js (fold (\<lambda>i js. fst (remove_job i js)) fin js2)" using f stems_trans by blast
  ultimately show ?thesis using assms a 1 2 by (auto simp: handle_read_jobs_def Let_def split: if_splits)
qed

section \<open>The memory of jobs comes from the user\<close>

definition owed :: "Moment list \<Rightarrow> TransferJob \<Rightarrow> bool" where
  "owed past j \<longleftrightarrow> (default_overwrite_strategy j = Some True \<longrightarrow> always_overwrite past (job_id j))
     \<and> (is_resume j \<longrightarrow> resumed_by_user past (job_id j))"

definition consented :: "Moment list \<Rightarrow> ClientFiles \<Rightarrow> bool" where
  "consented past s \<longleftrightarrow> (\<forall>j \<in> set (reading s) \<union> set (writing s). owed past j)"

lemma owed_same: "same_job j j' \<Longrightarrow> owed past j \<Longrightarrow> owed past j'"
  by (simp add: same_job_def owed_def)

lemma owed_more: "owed past j \<Longrightarrow> owed (past @ qs) j"
  unfolding owed_def always_overwrite_def resumed_by_user_def by (simp only: set_append) blast

lemma owed_new: "owed past (new_job i ty rem ds n hid isr es tot od)"
  by (simp add: owed_def new_job_def)

lemma owed_stems: "stems js js' \<Longrightarrow> \<forall>j \<in> set js. owed past j \<Longrightarrow> \<forall>j \<in> set js'. owed past j"
  unfolding stems_def using owed_same by blast

lemma consented_stems:
  "consented past s \<Longrightarrow> stems (reading s) (reading s') \<Longrightarrow> stems (writing s) (writing s') \<Longrightarrow> consented past s'"
  unfolding consented_def using owed_stems [of "reading s" "reading s'" past] owed_stems [of "writing s" "writing s'" past] by blast

text \<open>A step neither adds jobs nor changes what they remember, or it is one of the listed requests.\<close>

definition adds_job :: "Data \<Rightarrow> bool" where
  "adds_job d = (case d of SendFiles _ _ _ _ _ _ _ \<Rightarrow> True | AddJob _ _ _ _ _ _ _ \<Rightarrow> True | ResumeJob _ _ \<Rightarrow> True
     | SetConfirmOverrideFile _ _ _ _ _ \<Rightarrow> True | _ \<Rightarrow> False)"

lemma request_stems:
  "file_request e d s = Some s' \<Longrightarrow> \<not> adds_job d \<Longrightarrow> stems (reading s) (reading s') \<and> stems (writing s) (writing s')"
  by (auto simp: file_request_def adds_job_def on_remove_dir_all_def on_cancel_job_def ui_remove_file_def on_create_dir_def
      on_rename_file_def Let_def case_prod_unfold stems_remove split: Data.splits option.splits if_splits fnode.splits)

lemma send_confirm_stems: "send_confirm up i n u s = Some s' \<Longrightarrow> stems (reading s) (reading s') \<and> stems (writing s) (writing s')"
  by (auto simp: send_confirm_def Let_def dest: stems_confirm split: if_splits)

lemma decide_stems: "decide up job path dg s = Some s' \<Longrightarrow> stems (reading s) (reading s') \<and> stems (writing s) (writing s')"
  by (auto simp: decide_def Let_def dest: send_confirm_stems split: option.splits)

lemma same_digest: "same_job j (set_digest a b j)" by (simp add: same_job_def set_digest_def)

lemma on_block_stems: "stems (reading s) (reading (on_block e b s)) \<and> stems (writing s) (writing (on_block e b s))"
proof (cases "get_job (blk_id b) (writing s)")
  case (Some job)
  obtain fs' job' res where w: "job_write (fe_lib e) (fe_io e) b (local_fs s, job) = ((fs', job'), res)"
    by (metis surj_pair)
  let ?s1 = "s\<lparr>local_fs := fs', writing := update_job (blk_id b) (\<lambda>_. job') (writing s)\<rparr>"
  have "stems (writing s) (writing ?s1)" using Some same_write [OF w] by (auto intro!: stems_update)
  moreover have "on_block e b s = (if job_type job' = Generic then update_jobs_status (fe_time e) ?s1 else ?s1)"
    using Some w by (simp add: on_block_def)
  ultimately show ?thesis using update_jobs_status_progress [of ?s1 "fe_time e"] by (auto simp: only_progress_def)
qed (simp add: on_block_def)

lemma on_dir_stems: "stems (reading s) (reading (on_dir e i path es s)) \<and> stems (writing s) (writing (on_dir e i path es s))"
proof -
  have "same_job j (set_finished_size_on_resume (set_files es1 j))" for j es1
    by (simp add: same_job_def set_finished_size_on_resume_def set_files_def)
  then show ?thesis by (auto simp: on_dir_def Let_def intro: stems_update split: option.split)
qed

lemma on_download_digest_stems:
  "on_download_digest e dg s = Some s' \<Longrightarrow> stems (reading s) (reading s') \<and> stems (writing s) (writing s')"
proof -
  assume a: "on_download_digest e dg s = Some s'"
  let ?s1 = "s\<lparr>writing := update_job (dm_id dg) (set_digest (dm_file_size dg) (dm_last_modified dg)) (writing s)\<rparr>"
  have 1: "stems (writing s) (writing ?s1)" "reading ?s1 = reading s" using same_digest by (auto intro: stems_update)
  have "s' = s \<or> stems (reading ?s1) (reading s') \<and> stems (writing ?s1) (writing s')"
    using a by (auto simp: on_download_digest_def Let_def dest: send_confirm_stems decide_stems
        split: option.splits if_splits DataSource.splits DigestCheckResult.splits)
  then show ?thesis using 1 stems_trans [OF 1(1)] by auto
qed

lemma response_stems: "file_response e r s = Some s' \<Longrightarrow> stems (reading s) (reading s') \<and> stems (writing s) (writing s')"
proof (cases r)
  case (HfDone i n)
  assume "file_response e r s = Some s'"
  then show ?thesis using HfDone stems_remove [of "writing s" i]
    by (auto simp: file_response_def on_done_def Let_def split: prod.splits option.splits JobType.splits)
next
  case (HfError i err n)
  assume "file_response e r s = Some s'"
  then show ?thesis using HfError stems_remove [of "writing s" i] stems_remove [of "reading s" i]
    by (auto simp: file_response_def on_error_def Let_def split: prod.splits option.splits if_splits)
qed (auto simp: file_response_def on_upload_digest_def on_block_stems on_dir_stems
    dest: on_download_digest_stems decide_stems split: if_splits option.splits DataSource.splits)

lemma put_messages: "fold (\<lambda>m. file_put (FilePeer (to_host m))) ms s = s\<lparr>file_outs := file_outs s @ map (\<lambda>m. FilePeer (to_host m)) ms\<rparr>"
  by (induction ms arbitrary: s) (simp_all add: file_put_def)

lemma tick_stems:
  assumes "file_tick e sched net s = Inr s'"
  shows "stems (reading s) (reading s') \<and> stems (writing s) (writing s')
    \<and> (\<exists>xs. file_outs s' = file_outs s @ xs \<and> (\<forall>r. FilePeer (FileActionMsg (FaSendConfirm r)) \<notin> set xs))"
proof (cases "reading s = []")
  case False
  obtain js ms res where r: "handle_read_jobs (fe_lib e) sched net (local_fs s) (reading s) = (js, ms, res)"
    by (cases "handle_read_jobs (fe_lib e) sched net (local_fs s) (reading s)")
  let ?s1 = "s\<lparr>reading := js, file_outs := file_outs s @ map (\<lambda>m. FilePeer (to_host m)) ms\<rparr>"
  have s': "s' = update_jobs_status (fe_time e) ?s1"
    using assms False r by (simp add: file_tick_def put_messages Let_def split: outcome.splits)
  obtain xs where "file_outs s' = file_outs ?s1 @ xs" "list_all plain xs"
    using update_jobs_status_progress [of ?s1 "fe_time e"] s' by (auto simp: only_progress_def puts_def)
  moreover have "FilePeer (FileActionMsg (FaSendConfirm q)) \<noteq> FilePeer (to_host m)" if "m \<in> set ms" for m q
    using handle_read_jobs_stems [OF r] that by (auto simp: list_all_iff to_host_def split: FileMsg.splits)
  ultimately show ?thesis
    using handle_read_jobs_stems [OF r] update_jobs_status_progress [of ?s1 "fe_time e"] s'
    by (fastforce simp: only_progress_def list_all_iff)
qed (use assms in \<open>auto simp: file_tick_def\<close>)

lemma consented_step:
  assumes "consented past s" and "file_step e ev s = Some s'"
  shows "consented (past @ [(e, fs, ev)]) s'"
proof -
  let ?new = "past @ [(e, fs, ev)]"
  have c: "consented ?new s" using assms(1) owed_more by (auto simp: consented_def)
  then have cs: "\<forall>j \<in> set (reading s). owed ?new j" "\<forall>j \<in> set (writing s). owed ?new j" by (auto simp: consented_def)
  show ?thesis
  proof (cases "\<exists>d. ev = FromUser d \<and> adds_job d")
    case False
    then have "stems (reading s) (reading s') \<and> stems (writing s) (writing s')"
      using assms(2) request_stems response_stems tick_stems
      by (auto simp: file_step_def host_confirm_def dest: stems_confirm split: FileEvent.splits sum.splits option.splits)
    then show ?thesis using consented_stems [OF c] by blast
  next
    case True
    then obtain d where d: "ev = FromUser d" "adds_job d" and r: "file_request e d s = Some s'"
      using assms(2) by (auto simp: file_step_def)
    have upd: "\<forall>j \<in> set (update_job i f js). owed ?new j"
      if "\<forall>j \<in> set js. owed ?new j" "\<And>j. job_id j = i \<Longrightarrow> owed ?new j \<Longrightarrow> owed ?new (f j)" for i f js
      using that by (induction js) auto
    have "(\<forall>j \<in> set (reading s'). owed ?new j) \<and> (\<forall>j \<in> set (writing s'). owed ?new j)"
    proof (cases d)
      case (SendFiles i ty path to n hid isr)
      then show ?thesis using r cs owed_new
        by (auto simp: file_request_def on_send_files_def new_local_read_def new_read_def new_write_def Let_def split: if_splits option.splits)
    next
      case (AddJob i ty path to n hid isr)
      then show ?thesis using r cs owed_new
        by (auto simp: file_request_def on_add_job_def new_local_read_def new_read_def new_write_def Let_def owed_def split: if_splits option.splits)
    next
      case (ResumeJob i isr)
      have "resumed_by_user ?new i" by (auto simp: resumed_by_user_def d(1) ResumeJob)
      then have R: "owed ?new (resumed j)" "owed ?new (set_finished_size_on_resume (resumed j))" if "job_id j = i" "owed ?new j" for j
        using that by (simp_all add: owed_def resumed_def set_finished_size_on_resume_def)
      have "\<forall>j \<in> set (update_job i resumed (writing s)). owed ?new j" by (rule upd [OF cs(2)]) (rule R(1))
      moreover have "\<forall>j \<in> set (update_job i (\<lambda>j. set_finished_size_on_resume (resumed j)) (reading s)). owed ?new j"
        by (rule upd [OF cs(1)]) (rule R(2))
      ultimately show ?thesis using r cs ResumeJob
        by (auto simp: file_request_def on_resume_job_def Let_def split: if_splits option.splits DataSource.splits)
    next
      case (SetConfirmOverrideFile i n ov rem up)
      have own: "owed ?new (set_overwrite_strategy (Some ov) j)" if "job_id j = i" "owed ?new j" "rem" for j
      proof (cases ov)
        case True
        have "(e, fs, FromUser (SetConfirmOverrideFile i n True True up)) \<in> set ?new"
          using d(1) SetConfirmOverrideFile True that(3) by simp
        then have "always_overwrite ?new i" unfolding always_overwrite_def by blast
        then show ?thesis using that by (simp add: owed_def set_overwrite_strategy_def)
      qed (use that in \<open>simp add: owed_def set_overwrite_strategy_def\<close>)
      have "\<forall>j \<in> set ((if rem then update_job i (set_overwrite_strategy (Some ov)) else (\<lambda>js. js)) js). owed ?new j"
        if js: "\<forall>j \<in> set js. owed ?new j" for js
      proof (cases rem)
        case True
        show ?thesis unfolding if_P [OF True] by (rule upd [OF js]) (rule own [OF _ _ True])
      qed (use js in simp)
      then have K: "\<forall>j \<in> set js'. owed ?new j" if "\<forall>j \<in> set js. owed ?new j"
        "confirm_job i q fs0 ((if rem then update_job i (set_overwrite_strategy (Some ov)) else (\<lambda>js. js)) js) = Some js'" for js js' q fs0
        using stems_confirm [OF that(2)] owed_stems that(1) by blast
      have r': "on_confirm_override i n ov rem up s = Some s'" using r by (simp add: file_request_def SetConfirmOverrideFile)
      show ?thesis
      proof (cases up)
        case True
        with r' have "s' = s \<or> (\<exists>js'. reading s' = js' \<and> writing s' = writing s \<and> confirm_job i (\<lambda>_. override_answer i n ov) (local_fs s)
            ((if rem then update_job i (set_overwrite_strategy (Some ov)) else (\<lambda>js. js)) (reading s)) = Some js')"
          unfolding on_confirm_override_def Let_def by (auto split: option.splits)
        then show ?thesis using K [OF cs(1)] cs by metis
      next
        case False
        with r' have "s' = s \<or> (\<exists>js'. writing s' = js' \<and> reading s' = reading s \<and> confirm_job i (\<lambda>_. override_answer i n ov) (local_fs s)
            ((if rem then update_job i (set_overwrite_strategy (Some ov)) else (\<lambda>js. js)) (writing s)) = Some js')"
          unfolding on_confirm_override_def Let_def by (auto split: option.splits)
        then show ?thesis using K [OF cs(2)] cs by metis
      qed
    qed (use d in \<open>simp_all add: adds_job_def\<close>)
    then show ?thesis by (auto simp: consented_def)
  qed
qed

lemma consented_run: "file_run ms s = Some s' \<Longrightarrow> consented past s \<Longrightarrow> consented (past @ ms) s'"
proof (induction ms arbitrary: s past)
  case (Cons m ms)
  obtain e fs ev where m: "m = (e, fs, ev)" by (cases m)
  with Cons.prems(1) obtain s1 where s1: "file_step e ev (s\<lparr>local_fs := fs\<rparr>) = Some s1" "file_run ms s1 = Some s'"
    by (auto split: option.splits)
  have "consented past (s\<lparr>local_fs := fs\<rparr>)" using Cons.prems(2) by (simp add: consented_def)
  from consented_step [OF this s1(1), of fs] Cons.IH [OF s1(2), of "past @ [m]"] m show ?case by simp
qed simp

section \<open>Who gives the go-ahead\<close>

definition acks :: "ClientFiles \<Rightarrow> ClientFiles \<Rightarrow> ConfirmRequest \<Rightarrow> bool" where
  "acks s s' q \<longleftrightarrow> (\<exists>xs. file_outs s' = file_outs s @ xs \<and> FilePeer (FileActionMsg (FaSendConfirm q)) \<in> set xs)"

lemma plain_acks: "puts plain s s' \<Longrightarrow> \<not> acks s s' q"
  by (fastforce simp: puts_def acks_def list_all_iff)

lemma acks_simps [simp]:
  "\<not> acks s s q" "file_outs t = file_outs s \<Longrightarrow> \<not> acks s t q"
  "acks s (file_action a t) q \<longleftrightarrow> a = FaSendConfirm q" if "file_outs t = file_outs s"
  using that by (auto simp: acks_def)

lemma update_acks [simp]:
  "acks s (t\<lparr>reading := a\<rparr>) q = acks s t q" "acks s (t\<lparr>writing := b\<rparr>) q = acks s t q" "acks s (t\<lparr>remove_jobs := c\<rparr>) q = acks s t q"
  "acks s (t\<lparr>fast_timer := d\<rparr>) q = acks s t q" "acks s (t\<lparr>local_fs := f\<rparr>) q = acks s t q" "acks s (t\<lparr>local_trees := g\<rparr>) q = acks s t q"
  by (simp_all add: acks_def)

lemma put_acks: "file_outs t = file_outs s \<Longrightarrow> acks s (file_put x t) q \<longleftrightarrow> x = FilePeer (FileActionMsg (FaSendConfirm q))"
  by (auto simp: acks_def file_put_def)

lemma status_acks: "file_outs t = file_outs s \<Longrightarrow> \<not> acks s (handle_job_status tm i n err t) q"
  using puts_job_status [of t tm i n err] by (intro plain_acks) (simp add: puts_def)

lemma request_acks:
  assumes "file_request e d s = Some s'" and "acks s s' q" and "cr_union q = OffsetBlk k"
  shows "\<exists>rm up. d = SetConfirmOverrideFile (cr_id q) (cr_file_num q) True rm up"
proof (cases d)
  case (SetConfirmOverrideFile i n ov rm up)
  with assms show ?thesis
    by (auto simp: file_request_def on_confirm_override_def Let_def override_answer_def split: if_splits option.splits)
next
  case (SendFiles i ty path to n hid isr)
  with assms status_acks [of s s] show ?thesis
    by (auto simp: file_request_def on_send_files_def Let_def acks_def [of _ "file_action _ _"] file_put_def split: if_splits option.splits)
qed (use assms in \<open>auto simp: file_request_def on_send_files_def on_add_job_def on_resume_job_def on_remove_dir_all_def
       on_cancel_job_def ui_remove_file_def on_create_dir_def on_rename_file_def Let_def case_prod_unfold put_acks status_acks
     split: option.splits if_splits fnode.splits DataSource.splits\<close>)

lemma send_confirm_acks:
  "send_confirm up i n u s = Some s' \<Longrightarrow> acks s s' q \<Longrightarrow> q = \<lparr>cr_id = i, cr_file_num = n, cr_union = u\<rparr>"
  by (auto simp: send_confirm_def Let_def split: if_splits)

lemma decide_acks:
  assumes "decide up job path dg s = Some s'" and "acks s s' q" and "cr_union q = OffsetBlk k"
  shows "cr_id q = dm_id dg \<and> cr_file_num q = dm_file_num dg \<and> (is_resume job \<or> default_overwrite_strategy job = Some True)"
  using assms by (auto simp: decide_def Let_def put_acks dest!: send_confirm_acks split: option.splits if_splits)

lemma owed_allows:
  "owed past j \<Longrightarrow> is_resume j \<or> default_overwrite_strategy j = Some True \<Longrightarrow> always_overwrite past (job_id j) \<or> resumed_by_user past (job_id j)"
  by (auto simp: owed_def)

lemma confirmation_message:
  "is_write_need_confirmation lb r path dg fs = NeedConfirm d \<Longrightarrow> dm_id d = dm_id dg \<and> dm_file_num d = dm_file_num dg"
  "is_write_need_confirmation lb r path dg fs = NoSuchFile \<Longrightarrow> fs_file fs path = None"
  by (auto simp: is_write_need_confirmation_def Let_def split: option.splits if_splits)

text \<open>Nothing is at the place of the download yet.\<close>

definition new_file :: "ClientFiles \<Rightarrow> FS \<Rightarrow> int \<Rightarrow> int \<Rightarrow> bool" where
  "new_file s fs i n \<longleftrightarrow> (\<exists>job p. get_job i (writing s) = Some job \<and> data_source job = FilePath p
     \<and> fs_file fs (TransferJob_join p (name (files job ! as_usize n))) = None)"

lemma response_acks:
  assumes "file_response e r s = Some s'" and "acks s s' q" and "cr_union q = OffsetBlk k" and "consented past s"
  shows "\<exists>dg up. r = HfDigest dg up \<and> dm_id dg = cr_id q \<and> dm_file_num dg = cr_file_num q
    \<and> (always_overwrite past (cr_id q) \<or> resumed_by_user past (cr_id q) \<or> \<not> up \<and> new_file s (local_fs s) (cr_id q) (cr_file_num q))"
proof (cases r)
  case (HfDigest dg up)
  show ?thesis
  proof (cases up)
    case True
    then obtain job path where j: "get_job (dm_id dg) (reading s) = Some job" "decide True job path dg s = Some s'"
      using assms(1,2) HfDigest by (auto simp: file_response_def on_upload_digest_def split: option.splits if_splits DataSource.splits)
    have "owed past job" using assms(4) get_job_mem [OF j(1)] by (auto simp: consented_def)
    then show ?thesis using decide_acks [OF j(2) assms(2,3)] owed_allows [of past job] get_job_id [OF j(1)] HfDigest by auto
  next
    case False
    then have d: "on_download_digest e dg s = Some s'" using assms(1) HfDigest by (simp add: file_response_def)
    let ?s1 = "s\<lparr>writing := update_job (dm_id dg) (set_digest (dm_file_size dg) (dm_last_modified dg)) (writing s)\<rparr>"
    from d assms(2) obtain job p where j: "get_job (dm_id dg) (writing s) = Some job" "data_source job = FilePath p"
      by (auto simp: on_download_digest_def split: option.splits if_splits DataSource.splits)
    let ?path = "TransferJob_join p (name (files job ! as_usize (dm_file_num dg)))"
    have a1: "acks ?s1 s' q" using assms(2) by (simp add: acks_def)
    have o: "owed past job" using assms(4) get_job_mem [OF j(1)] by (auto simp: consented_def)
    have "\<not> length (files job) \<le> as_usize (dm_file_num dg)" using d j assms(2) by (auto simp: on_download_digest_def)
    then consider "send_confirm False (dm_id dg) (dm_file_num dg) (Skip True) ?s1 = Some s'"
      | c where "decide False job ?path c ?s1 = Some s'" "dm_id c = dm_id dg" "dm_file_num c = dm_file_num dg"
      | "send_confirm False (dm_id dg) (dm_file_num dg) (OffsetBlk 0) ?s1 = Some s'" "fs_file (local_fs s) ?path = None"
      using d j by (auto simp: on_download_digest_def Let_def dest: confirmation_message split: DigestCheckResult.splits)
    then show ?thesis
    proof cases
      case 1
      then show ?thesis using send_confirm_acks [OF 1 a1] assms(3) by simp
    next
      case 2
      then show ?thesis
        using decide_acks [OF 2(1) a1 assms(3)] owed_allows [OF o] get_job_id [OF j(1)] HfDigest by auto
    next
      case 3
      then show ?thesis using send_confirm_acks [OF 3(1) a1] j False HfDigest by (auto simp: new_file_def)
    qed
  qed
next
  case (HfDone i n)
  then show ?thesis using assms(1,2) by (auto simp: file_response_def on_done_def Let_def status_acks split: prod.splits option.splits JobType.splits)
next
  case (HfError i err n)
  then show ?thesis using assms(1,2) by (auto simp: file_response_def on_error_def Let_def status_acks split: prod.splits option.splits if_splits)
next
  case (HfBlock b)
  have "puts plain s (update_jobs_status tm (s\<lparr>local_fs := a, writing := c\<rparr>))" for a c tm
    using update_jobs_status_progress [of "s\<lparr>local_fs := a, writing := c\<rparr>" tm] by (simp add: only_progress_def puts_def)
  then have "puts plain s (on_block e b s)"
    by (auto simp: on_block_def Let_def split: option.split prod.split) (simp add: puts_def)
  then show ?thesis using assms(1,2) HfBlock plain_acks by (auto simp: file_response_def)
next
  case (HfDir i path es)
  then show ?thesis using assms(1,2) by (auto simp: file_response_def on_dir_def Let_def put_acks split: option.splits)
qed (use assms(1,2) in \<open>auto simp: file_response_def put_acks\<close>)

definition no_transfers :: "FS \<Rightarrow> (string, fnode) hashmap \<Rightarrow> ClientFiles" where
  "no_transfers fs ts = \<lparr>reading = [], writing = [], remove_jobs = [], fast_timer = False, last_update_jobs_status = (0, []),
     self_queue = [], local_fs = fs, local_trees = ts, file_outs = []\<rparr>"

text \<open>C19: Overwriting needs consent.  Whatever has happened in a session, when the client gives the
  go-ahead for a file (to write it from the start or from an offset), then either its user has just said
  so for this file, or it answers a digest of this file and the user has said for this transfer that
  files are to be overwritten, or has resumed the transfer, or it is a download and nothing is at its
  place.\<close>

theorem overwriting_needs_consent:
  assumes "file_run past (no_transfers fs0 ts) = Some s" and "file_step e ev (s\<lparr>local_fs := fs\<rparr>) = Some s'"
    and "file_outs s' = file_outs s @ xs" and "FilePeer (FileActionMsg (FaSendConfirm q)) \<in> set xs" and "cr_union q = OffsetBlk k"
  shows "(\<exists>rm up. ev = FromUser (SetConfirmOverrideFile (cr_id q) (cr_file_num q) True rm up))
    \<or> (\<exists>dg up. ev = FromHost (HfDigest dg up) \<and> dm_id dg = cr_id q \<and> dm_file_num dg = cr_file_num q
        \<and> (always_overwrite past (cr_id q) \<or> resumed_by_user past (cr_id q) \<or> \<not> up \<and> new_file s fs (cr_id q) (cr_file_num q)))"
proof -
  let ?s = "s\<lparr>local_fs := fs\<rparr>"
  have "consented [] (no_transfers fs0 ts)" by (simp add: consented_def no_transfers_def)
  from consented_run [OF assms(1) this] have c: "consented past ?s" by (simp add: consented_def)
  have a: "acks ?s s' q" using assms(3,4) by (simp add: acks_def)
  show ?thesis
  proof (cases ev)
    case (FromUser d)
    then show ?thesis using request_acks [of e d ?s s' q k] assms(2,5) a by (simp add: file_step_def)
  next
    case (FromHost r)
    then show ?thesis using response_acks [of e r ?s s' q k past] assms(2,5) a c by (auto simp: file_step_def new_file_def)
  next
    case (FromHostConfirm r)
    then show ?thesis using assms(2) a by (auto simp: file_step_def host_confirm_def acks_def split: option.splits)
  next
    case (JobTick sched net)
    then have "file_tick e sched net ?s = Inr s'" using assms(2) by (simp add: file_step_def split: sum.splits)
    from tick_stems [OF this] a show ?thesis by (auto simp: acks_def)
  qed
qed

text \<open>A download of one file into an empty folder: the digest of the host is answered without asking.\<close>

definition demo_download :: "Moment list" where
  "demo_download = [(demo_file_env, empty_fs, FromUser (SendFiles 7 Generic ''/s'' ''/d'' 0 False True)),
     (demo_file_env, empty_fs, FromHost (HfDir 7 ''/s'' [one_entry]))]"

definition demo_digest :: DigestMsg where
  "demo_digest = \<lparr>dm_id = 7, dm_file_num = 0, dm_last_modified = 5, dm_file_size = 2, dm_is_identical = False,
     dm_transferred_size = 0, dm_is_resume = False\<rparr>"

definition demo_waiting :: ClientFiles where
  "demo_waiting = the (file_run demo_download (no_transfers empty_fs []))"

theorem overwriting_needs_consent_witness:
  "always_overwrite demo_download 7 \<or> resumed_by_user demo_download 7 \<or> new_file demo_waiting empty_fs 7 0"
proof -
  let ?job = "(new_write 7 Generic ''/s'' (FilePath ''/d'') 0 False True [] (can_enable_overwrite_detection (fe_version demo_file_env)))\<lparr>files := [one_entry]\<rparr>"
  let ?q = "\<lparr>cr_id = 7, cr_file_num = 0, cr_union = OffsetBlk 0\<rparr>"
  have run: "file_run demo_download (no_transfers empty_fs []) = Some demo_waiting"
    and w: "writing demo_waiting = [?job]"
    by (simp_all add: demo_waiting_def demo_download_def no_transfers_def file_step_def file_request_def on_send_files_def
        file_response_def on_dir_def demo_file_env_def new_write_def new_job_def set_files_def set_finished_size_on_resume_def
        file_put_def file_action_def Let_def)
  obtain js where js: "confirm_job 7 (\<lambda>_. ?q) empty_fs (update_job 7 (set_digest 2 5) [?job]) = Some js"
    by (simp add: confirm_job_def confirm_def new_write_def new_job_def set_digest_def set_file_confirmed_def)
  have step: "file_step demo_file_env (FromHost (HfDigest demo_digest False)) (demo_waiting\<lparr>local_fs := empty_fs\<rparr>)
      = Some (file_action (FaSendConfirm ?q) (demo_waiting\<lparr>local_fs := empty_fs, writing := js\<rparr>))"
    using w js by (simp add: file_step_def file_response_def on_download_digest_def send_confirm_def demo_digest_def new_write_def new_job_def
        is_write_need_confirmation_def fs_file_def empty_fs_def as_usize_def Let_def)
  from overwriting_needs_consent [OF run step, of "[FilePeer (FileActionMsg (FaSendConfirm ?q))]" ?q 0] show ?thesis by auto
qed

end
