(* ===== verification/Client_Video.thy ===== *)
theory Client_Video
  imports Client_Config
begin

text \<open>
  The video threads of a session and the control of the frame rate, \<open>src/src/client/io_loop.rs\<close>
  (\<open>VideoThread\<close>, \<open>FpsControl\<close>, \<open>fps_control\<close>).  A thread is what the session shares with it: the
  queue of frames, the rate it decodes at, the number of frames it has shown and the flag to discard the
  queue.  Times are in milliseconds.
\<close>

section \<open>Threads\<close>

definition VIDEO_QUEUE_SIZE :: nat where "VIDEO_QUEUE_SIZE = 120"

record FpsControl =
  refresh_times :: nat
  last_refresh_instant :: "nat option"
  idle_counter :: nat
  inactive_counter :: nat

record VideoThread =
  video_queue :: "nat list"
  decode_fps :: "nat option"
  frame_count :: nat
  discard_queue :: bool
  fps_ctl :: FpsControl

type_synonym Threads = "(nat, VideoThread) hashmap"

definition thread_new :: VideoThread where
  "thread_new = \<lparr>video_queue = [], decode_fps = None, frame_count = 0, discard_queue = False,
     fps_ctl = \<lparr>refresh_times = 0, last_refresh_instant = None, idle_counter = 0, inactive_counter = 0\<rparr>\<rparr>"

definition upd_ctl :: "(FpsControl \<Rightarrow> FpsControl) \<Rightarrow> VideoThread \<Rightarrow> VideoThread" where
  "upd_ctl f v = v\<lparr>fps_ctl := f (fps_ctl v)\<rparr>"

definition queue_len :: "VideoThread \<Rightarrow> nat" where
  "queue_len v = length (video_queue v)"

text \<open>\<open>ArrayQueue::force_push\<close>: a full queue gives up its oldest element; the flag tells whether it did.\<close>

definition force_push :: "nat \<Rightarrow> nat list \<Rightarrow> nat list \<times> bool" where
  "force_push x q = (if length q < VIDEO_QUEUE_SIZE then (q @ [x], False) else (tl q @ [x], True))"

section \<open>Control of the frame rate\<close>

definition inactive_threshold :: nat where "inactive_threshold = 15"

definition count_inactive :: "(nat, int) hashmap \<Rightarrow> Threads \<Rightarrow> Threads" where
  "count_inactive rates ths =
     map (\<lambda>(k, v). (k, upd_ctl (\<lambda>c. c\<lparr>inactive_counter :=
        (if (case hm_get rates k of Some f \<Rightarrow> f | None \<Rightarrow> 0) = 0 then inactive_counter c + 1 else 0)\<rparr>) v)) ths"

definition usable_custom_fps :: "nat option \<Rightarrow> nat" where
  "usable_custom_fps c = (let f = (case c of Some x \<Rightarrow> x | None \<Rightarrow> 30) in if f < 5 \<or> 120 < f then 30 else f)"

text \<open>The minimum of optional rates, where none is below every rate.\<close>

definition min_decode_fps :: "Threads \<Rightarrow> nat option" where
  "min_decode_fps ths =
    (let fs = map (\<lambda>(_, v). decode_fps v) (filter (\<lambda>(_, v). inactive_counter (fps_ctl v) < inactive_threshold) ths)
     in if fs = [] \<or> None \<in> set fs then None else Some (Min (set (map the fs))))"

definition limited_fps :: "bool \<Rightarrow> nat \<Rightarrow> nat \<Rightarrow> nat" where
  "limited_fps dirc m custom = min (if dirc then m * 9 div 10 else m * 4 div 5) custom"

definition fps_trending :: "nat \<Rightarrow> nat \<Rightarrow> VideoThread \<Rightarrow> VideoThread \<times> bool option" where
  "fps_trending limited last_fps v = (case decode_fps v of
     None \<Rightarrow> (v, None)
   | Some d \<Rightarrow>
      let len = queue_len v; c = fps_ctl v in
      if inactive_threshold < inactive_counter c then (v, None)
      else if 1 < len \<and> limited < last_fps \<or> max 1 (d div 2) < len then (upd_ctl (\<lambda>c. c\<lparr>idle_counter := 0\<rparr>) v, Some False)
      else if len \<le> 1 then
        (let v1 = upd_ctl (\<lambda>c. c\<lparr>idle_counter := idle_counter c + 1\<rparr>) v
         in (v1, if 3 < idle_counter (fps_ctl v1) \<and> last_fps + 3 \<le> limited then Some True else None))
      else (upd_ctl (\<lambda>c. c\<lparr>idle_counter := 0\<rparr>) v, None))"

definition next_auto_fps :: "bool list \<Rightarrow> nat \<Rightarrow> nat \<Rightarrow> nat option \<Rightarrow> nat option" where
  "next_auto_fps trends limited max_queue last_fps =
    (let decrease = (False \<in> set trends); increase = (\<not> decrease \<and> True \<in> set trends) in
     if last_fps = None \<or> decrease \<or> increase then
       (let f = max 1 (if decrease \<and> limited < max_queue then limited div 2 else limited)
        in if Some f \<noteq> last_fps then Some f else None)
     else None)"

definition wants_refresh :: "nat \<Rightarrow> nat \<Rightarrow> VideoThread \<Rightarrow> bool" where
  "wants_refresh tm m v \<longleftrightarrow>
     refresh_times (fps_ctl v) < 20 \<and> min m (VIDEO_QUEUE_SIZE div 2) < queue_len v
     \<and> (refresh_times (fps_ctl v) = 0 \<or> (case last_refresh_instant (fps_ctl v) of Some t \<Rightarrow> 10 < (tm - t) div 1000 | None \<Rightarrow> False))"

definition refreshed :: "nat \<Rightarrow> nat \<Rightarrow> VideoThread \<Rightarrow> VideoThread" where
  "refreshed tm m v = (if wants_refresh tm m v
     then upd_ctl (\<lambda>c. c\<lparr>refresh_times := refresh_times c + 1, last_refresh_instant := Some tm\<rparr>) v else v)"

text \<open>The threads, the new rate to ask the host for, and the displays to refresh.\<close>

definition fps_control :: "nat \<Rightarrow> bool \<Rightarrow> nat option \<Rightarrow> nat option \<Rightarrow> (nat, int) hashmap \<Rightarrow> Threads
    \<Rightarrow> Threads \<times> nat option \<times> nat list" where
  "fps_control tm dirc custom last_fps rates ths =
    (let ths1 = count_inactive rates ths;
         c = usable_custom_fps custom;
         max_queue = fold (\<lambda>(_, v). max (queue_len v)) ths1 0
     in case min_decode_fps ths1 of
          None \<Rightarrow> (ths1, None, [])
        | Some m \<Rightarrow>
           let limited = limited_fps dirc m c;
               lst = (case last_fps of Some f \<Rightarrow> f | None \<Rightarrow> c);
               tr = map (\<lambda>(k, v). (k, fps_trending limited lst v)) ths1;
               ths2 = map (\<lambda>(k, v, _). (k, v)) tr;
               trends = List.map_filter (\<lambda>(_, _, t). t) tr
           in (map (\<lambda>(k, v). (k, refreshed tm m v)) ths2, next_auto_fps trends limited max_queue last_fps,
               map fst (filter (\<lambda>(_, v). wants_refresh tm m v) ths2)))"

section \<open>Bounds\<close>

lemma usable_custom_bounds: "5 \<le> usable_custom_fps c \<and> usable_custom_fps c \<le> 120"
  by (auto simp: usable_custom_fps_def Let_def)

lemma limited_le: "limited_fps d m c \<le> c" "limited_fps d m c \<le> m * 9 div 10"
  by (auto simp: limited_fps_def min_def)

lemma next_auto_bounds: "next_auto_fps ts l q lf = Some f \<Longrightarrow> 1 \<le> f \<and> f \<le> max 1 l \<and> lf \<noteq> Some f"
  by (auto simp: next_auto_fps_def Let_def split: if_splits)

lemma min_decode_le:
  assumes "min_decode_fps ths = Some m" and "(k, v) \<in> set ths" and "inactive_counter (fps_ctl v) < inactive_threshold" and "decode_fps v = Some d"
  shows "m \<le> d"
proof -
  let ?fs = "map (\<lambda>(_, v). decode_fps v) (filter (\<lambda>(_, v). inactive_counter (fps_ctl v) < inactive_threshold) ths)"
  have "Some d \<in> set ?fs" using assms(2-4) by force
  then have "d \<in> set (map the ?fs)" by (metis image_eqI list.set_map option.sel)
  moreover have "m = Min (set (map the ?fs))" using assms(1) by (auto simp: min_decode_fps_def Let_def split: if_splits)
  ultimately show ?thesis by simp
qed

lemma auto_fps_spec:
  assumes "fps_control tm dirc custom lf rates ths = (ths', Some f, ds)"
  shows "1 \<le> f \<and> f \<le> usable_custom_fps custom \<and> lf \<noteq> Some f
    \<and> (\<forall>(k, v) \<in> set (count_inactive rates ths). inactive_counter (fps_ctl v) < inactive_threshold \<longrightarrow>
         (\<exists>d. decode_fps v = Some d \<and> f \<le> max 1 (d * 9 div 10)))"
proof -
  obtain m where m: "min_decode_fps (count_inactive rates ths) = Some m"
    using assms by (auto simp: fps_control_def Let_def split: option.splits)
  obtain ts q where n: "next_auto_fps ts (limited_fps dirc m (usable_custom_fps custom)) q lf = Some f"
    using assms m by (auto simp: fps_control_def Let_def)
  let ?l = "limited_fps dirc m (usable_custom_fps custom)"
  note b = next_auto_bounds [OF n]
  have "\<exists>d. decode_fps v = Some d \<and> f \<le> max 1 (d * 9 div 10)"
    if v: "(k, v) \<in> set (count_inactive rates ths)" "inactive_counter (fps_ctl v) < inactive_threshold" for k v
  proof -
    have "decode_fps v \<noteq> None" using m v by (force simp: min_decode_fps_def Let_def split: if_splits)
    then obtain d where d: "decode_fps v = Some d" by blast
    have "m * 9 div 10 \<le> d * 9 div 10" using min_decode_le [OF m v d] by (simp add: div_le_mono)
    then have "?l \<le> d * 9 div 10" using limited_le(2) [of dirc m "usable_custom_fps custom"] by linarith
    then show ?thesis using b d by fastforce
  qed
  moreover have "f \<le> usable_custom_fps custom" using b limited_le(1) [of dirc m "usable_custom_fps custom"] usable_custom_bounds [of custom] by simp linarith
  ultimately show ?thesis using b by blast
qed

end
