(* ===== verification/Client_Session.thy ===== *)
theory Client_Session
  imports Client_Files Client_Video
begin

text \<open>
  A session on the controlling side, \<open>Remote\<close> of \<open>src/src/client/io_loop.rs\<close> with the session object of
  \<open>src/src/ui_session_interface.rs\<close>: what it does with each message of the host and each request of its
  user interface, its timers, its end.  The build is the Flutter one on a Unix desktop with file
  clipboard.  Calls of the user interface and data for the media threads are values of \<open>UiCall\<close>; opaque
  payloads are numbers.
\<close>

section \<open>Messages, outputs and state\<close>

datatype MediaData = MdFrame nat | MdQueue | MdReset | MdRecord bool

datatype BlockInputState = BlkStateUnknown | BlkOnSucceeded | BlkOnFailed | BlkOffSucceeded | BlkOffFailed

datatype PrivacyModeState =
    PrvStateUnknown | PrvOnByOther | PrvNotSupported | PrvOnSucceeded | PrvOnFailedDenied | PrvOnFailedPlugin | PrvOnFailed
  | PrvOffSucceeded | PrvOffByPeer | PrvOffFailed | PrvOffUnknown

text \<open>Of the information on the host: the flag for terminals, what the JSON of \<open>platform_additions\<close> says
  (installed, implementation of virtual displays, camera), the displays with position and size, the
  sessions of Windows.\<close>

record HostInfo =
  hi_info :: PeerInfo
  hi_terminal :: "bool option"
  hi_additions :: "(bool \<times> string \<times> bool) option"
  hi_displays :: "(int \<times> int \<times> int \<times> int) list"
  hi_current :: int
  hi_sessions :: "nat list"
  hi_current_sid :: nat

datatype HostMsg =
    HmVideoFrame int bool CodecFormat nat
  | HmHash string string
  | HmLoginError string bool
  | HmLoginOk HostInfo
  | HmCursor nat
  | HmClipboards "nat list"
  | HmCliprdr bool bool nat
  | HmFile HostFileResponse
  | HmFileConfirm ConfirmRequest
  | HmAudioFormat nat
  | HmChat string
  | HmPermission "Perm option" bool
  | HmSwitchDisplay int int int int int
  | HmCloseReason string
  | HmBlockInput BlockInputState string
  | HmPrivacy PrivacyModeState string string
  | HmUac bool
  | HmForegroundElevated bool
  | HmElevation string
  | HmPortableService bool
  | HmSwitchBack
  | HmSupportedEncoding nat
  | HmFollowDisplay int
  | HmTestDelay bool nat
  | HmAudioFrame nat
  | HmMessageBox string string string string
  | HmVoiceCallRequest bool
  | HmVoiceCallResponse bool int
  | HmDisplays nat
  | HmScreenshot string nat
  | HmTerminalOpened bool string
  | HmTerminal nat
  | HmOther

datatype UiCall =
    CloseSuccess
  | AdaptSize
  | UiSetPermission string bool
  | CancelMsgBox string
  | UiBlockInput bool
  | UiPrivacyMode
  | UiTextClipboard
  | UiFileClipboard
  | VideoOut nat MediaData
  | NewVideoThread nat
  | AudioFormatOut nat
  | AudioFrameOut nat
  | ClipboardOut "nat list"
  | CursorOut nat
  | ChatOut string
  | PeerSwitchDisplay int
  | SetDisplay int int int int
  | SetDisplays nat
  | InitResolution int
  | InputOsPassword string
  | SetPeerInfo
  | OnConnected ConnType
  | SelectedSession nat
  | WindowsSessions "nat list"
  | StartClipboard
  | InitClipboard nat
  | LoadLastJobs
  | EmptyClipboardFiles
  | RecordStatus bool
  | VoiceCallWaiting
  | VoiceCallStarted
  | VoiceCallClosed string
  | StopVoiceThread
  | PortableServiceRunning bool
  | SwitchBackOut
  | FollowDisplay int
  | DelayStatus nat
  | QualityStatus
  | ScreenshotOut string nat
  | TerminalShown nat
  | EstablishError string
  | StopClipboard

datatype SessOut = Out ClientOut | FileOutput FileOut | Ui UiCall

record ParsedPeerInfo =
  pp_platform :: string
  pp_installed :: bool
  pp_idd :: string
  pp_camera :: bool
  pp_terminal :: bool

record Remote =
  cl :: Client
  cf :: ClientFiles
  own_queue :: "Data list"
  server_keyboard :: bool
  server_clipboard :: bool
  server_file :: bool
  is_connected :: bool
  first_frame :: bool
  video_format :: CodecFormat
  threads :: Threads
  voice_sender :: bool
  voice_ts :: "int option"
  elevation_requested :: bool
  parsed :: ParsedPeerInfo
  last_record_state :: bool
  sent_close_reason :: bool
  last_recv :: nat
  got_first :: bool
  fps_instant :: nat
  sess_outs :: "SessOut list"

text \<open>What a step finds outside: libraries, the clock in milliseconds and as Unix time, options, the
  answers of the clipboards.\<close>

record SessEnv =
  se_client :: ClientEnv
  se_lib :: Lib
  se_io :: IoResult
  se_time :: nat
  se_unix :: int
  se_platform :: string
  se_preset :: string
  se_auto_record :: bool
  se_clip_served :: "nat \<Rightarrow> nat list"
  se_other_clip :: bool
  se_current_clip :: "nat option"
  se_meta_json :: "TransferJobMeta \<Rightarrow> string"

definition lc :: "Remote \<Rightarrow> LoginConfigHandler" where "lc r = lch (cl r)"

definition say :: "SessOut \<Rightarrow> Remote \<Rightarrow> Remote" where
  "say x r = r\<lparr>sess_outs := sess_outs r @ [x]\<rparr>"

definition peer_send :: "Msg \<Rightarrow> Remote \<Rightarrow> Remote" where "peer_send m = say (Out (ToPeer m))"
definition ui :: "UiCall \<Rightarrow> Remote \<Rightarrow> Remote" where "ui c = say (Ui c)"

definition msgbox :: "string \<Rightarrow> string \<Rightarrow> string \<Rightarrow> string \<Rightarrow> Remote \<Rightarrow> Remote" where
  "msgbox ty title txt link = say (Out (MsgBox ty title txt link))"

definition on_error_box :: "string \<Rightarrow> Remote \<Rightarrow> Remote" where
  "on_error_box err = msgbox ''error'' ''Error'' err []"

definition send_self :: "Data \<Rightarrow> Remote \<Rightarrow> Remote" where
  "send_self d r = r\<lparr>own_queue := own_queue r @ [d]\<rparr>"

text \<open>Operations of the login handler and of the transfers, with their outputs in order.\<close>

definition client_do :: "(Client \<Rightarrow> Client) \<Rightarrow> Remote \<Rightarrow> Remote" where
  "client_do f r = (let c = f ((cl r)\<lparr>couts := []\<rparr>) in r\<lparr>cl := c\<lparr>couts := []\<rparr>, sess_outs := sess_outs r @ map Out (couts c)\<rparr>)"

definition upd_lc :: "(LoginConfigHandler \<Rightarrow> LoginConfigHandler) \<Rightarrow> Remote \<Rightarrow> Remote" where
  "upd_lc f r = r\<lparr>cl := upd_lch f (cl r)\<rparr>"

definition files_done :: "ClientFiles \<Rightarrow> Remote \<Rightarrow> Remote" where
  "files_done s r = r\<lparr>cf := s\<lparr>self_queue := [], file_outs := []\<rparr>, own_queue := own_queue r @ self_queue s,
     sess_outs := sess_outs r @ map FileOutput (file_outs s)\<rparr>"

definition files_do :: "(ClientFiles \<Rightarrow> ClientFiles option) \<Rightarrow> Remote \<Rightarrow> Remote option" where
  "files_do f r = (case f ((cf r)\<lparr>self_queue := [], file_outs := []\<rparr>) of None \<Rightarrow> None | Some s \<Rightarrow> Some (files_done s r))"

definition file_env :: "SessEnv \<Rightarrow> Remote \<Rightarrow> FileEnv" where
  "file_env e r = \<lparr>fe_lib = se_lib e, fe_io = se_io e, fe_time = se_time e, fe_version = lh_version (lc r),
     fe_peer_platform = pi_platform (pc_info (lh_config (lc r))), fe_platform = se_platform e\<rparr>"

section \<open>Small operations\<close>

definition is_text_clipboard_required :: "Remote \<Rightarrow> bool" where
  "is_text_clipboard_required r \<longleftrightarrow> server_clipboard r \<and> server_keyboard r \<and> \<not> pc_disable_clipboard (lh_config (lc r))"

definition is_file_clipboard_required :: "Remote \<Rightarrow> bool" where
  "is_file_clipboard_required r \<longleftrightarrow> server_keyboard r \<and> server_file r \<and> enable_file_copy_paste (lh_config (lc r))"

definition refresh_video :: "int \<Rightarrow> Remote \<Rightarrow> Remote" where
  "refresh_video d r = send_self (DataMessage
     (if get_version_number ''1.2.4'' \<le> lh_version (lc r) then refresh_display (as_usize d) else refresh)) r"

definition send_close_reason :: "string \<Rightarrow> Remote \<Rightarrow> Remote" where
  "send_close_reason reason r = (if sent_close_reason r then r
     else (peer_send (MiscMsg (MCloseReason reason)) r)\<lparr>sent_close_reason := True\<rparr>)"

definition stop_voice_call :: "Remote \<Rightarrow> Remote" where
  "stop_voice_call r = (if voice_sender r then (ui StopVoiceThread r)\<lparr>voice_sender := False\<rparr> else r)"

definition start_voice_call :: "Remote \<Rightarrow> bool" where
  "start_voice_call r \<longleftrightarrow> conn_type (lc r) \<notin> {FILE_TRANSFER, PORT_FORWARD, RDP, TERMINAL}"

definition to_threads :: "MediaData \<Rightarrow> Remote \<Rightarrow> Remote" where
  "to_threads m r = fold (\<lambda>(k, _). ui (VideoOut k m)) (threads r) r"

definition update_record_state :: "Remote \<Rightarrow> Remote" where
  "update_record_state r =
    (let permission = record_permission (lc r);
         r1 = (if \<not> permission then upd_lc (\<lambda>l. l\<lparr>record_state := False\<rparr>) r else r);
         start = (record_state (lc r1) \<and> permission)
     in if last_record_state r1 = start then r1
        else send_self (DataMessage (MiscMsg (MClientRecordStatus start)))
               (ui (RecordStatus start) (to_threads (MdRecord start) (r1\<lparr>last_record_state := start\<rparr>))))"

definition new_video_thread :: "SessEnv \<Rightarrow> nat \<Rightarrow> Remote \<Rightarrow> Remote" where
  "new_video_thread e d r =
    (let r1 = (ui (NewVideoThread d) r)\<lparr>threads := hm_insert d thread_new (threads r)\<rparr>
     in if length (threads r1) = 1
        then update_record_state (upd_lc (\<lambda>l. l\<lparr>record_state := se_auto_record e\<rparr>) r1) else r1)"

definition is_support_virtual_display :: "ParsedPeerInfo \<Rightarrow> bool" where
  "is_support_virtual_display p \<longleftrightarrow> pp_installed p \<and> pp_platform p = ''Windows''
     \<and> (pp_idd p = ''rustdesk_idd'' \<or> pp_idd p = ''amyuni_idd'')"

text \<open>The message for a virtual display has no counterpart in the model of the host.\<close>

definition send_toggle_virtual_display_msg :: "Remote \<Rightarrow> Remote" where
  "send_toggle_virtual_display_msg r =
    (if \<not> is_support_virtual_display (parsed r) then r
     else fold (\<lambda>d. case parse_i32 d of Some _ \<Rightarrow> peer_send (MiscMsg MMiscOther) | None \<Rightarrow> (\<lambda>r. r))
            (split_on CHR '','' (handler_option (lc r) ''virtual-display'')) r)"

definition send_toggle_privacy_mode_msg :: "Remote \<Rightarrow> Remote" where
  "send_toggle_privacy_mode_msg r =
    (if get_version_number ''1.2.4'' \<le> lh_version (lc r) \<and> get_toggle_option (lc r) ''privacy-mode'' then
       (let impl_key = handler_option (lc r) ''privacy-mode-impl-key'' in
        if impl_key = ''privacy_mode_impl_virtual_display'' \<and> \<not> is_support_virtual_display (parsed r) then r
        else peer_send (MiscMsg (MTogglePrivacyMode True impl_key)) r)
     else r)"

definition check_view_camera_support :: "string \<Rightarrow> string \<Rightarrow> Remote \<Rightarrow> Remote \<times> bool" where
  "check_view_camera_support ver platform r =
    (if pp_camera (parsed r) then (r, True)
     else if get_version_number ver < get_version_number ''1.3.9'' \<and> (platform = ''Windows'' \<or> platform = ''Linux'')
     then (msgbox ''error'' ''Download new version'' ''upgrade_remote_rustdesk_client_to_{1.3.9}_tip'' [] r, False)
     else (on_error_box ''view_camera_unsupported_tip'' r, False))"

definition check_terminal_support :: "string \<Rightarrow> Remote \<Rightarrow> Remote \<times> bool" where
  "check_terminal_support ver r =
    (if pp_terminal (parsed r) then (r, True)
     else if get_version_number ver < get_version_number ''1.4.1''
     then (msgbox ''error'' ''Remote terminal not supported''
            ''Remote terminal is not supported by the remote side. Please upgrade to version 1.4.1 or higher.'' [] r, False)
     else (on_error_box ''Remote terminal is not supported by the remote side'' r, False))"

section \<open>Requests of the user interface\<close>

definition ui_message :: "Msg \<Rightarrow> Remote \<Rightarrow> Remote" where
  "ui_message m r =
    (let discard = (\<lambda>v. v\<lparr>discard_queue := True\<rparr>) in
     peer_send m (case m of
         MiscMsg (MRefreshVideo _) \<Rightarrow> r\<lparr>threads := map (\<lambda>(k, v). (k, discard v)) (threads r)\<rparr>
       | MiscMsg (MRefreshVideoDisplay d) \<Rightarrow> r\<lparr>threads := hm_modify (as_usize d) discard (threads r)\<rparr>
       | _ \<Rightarrow> r))"

definition new_voice_call :: "SessEnv \<Rightarrow> Remote \<Rightarrow> Remote" where
  "new_voice_call e r = ui VoiceCallWaiting (peer_send (VoiceCallRequest True (se_unix e)) (r\<lparr>voice_ts := Some (se_unix e)\<rparr>))"

definition close_voice_call :: "SessEnv \<Rightarrow> Remote \<Rightarrow> Remote" where
  "close_voice_call e r =
     peer_send (VoiceCallRequest False (se_unix e)) (ui (VoiceCallClosed ''Closed manually by the peer'') (stop_voice_call r))"

definition reset_decoder :: "nat option \<Rightarrow> Remote \<Rightarrow> Remote" where
  "reset_decoder d r = (case d of
     Some k \<Rightarrow> if hm_get (threads r) k \<noteq> None then ui (VideoOut k MdReset) r else r
   | None \<Rightarrow> to_threads MdReset r)"

definition handle_msg_from_ui :: "SessEnv \<Rightarrow> Data \<Rightarrow> Remote \<Rightarrow> (Remote \<times> bool) option" where
  "handle_msg_from_ui e d r = (case d of
     Close \<Rightarrow> Some (send_close_reason [] r, False)
   | Login os_user os_pass pw rm \<Rightarrow> Some (client_do (handle_login_from_ui (se_client e) os_user os_pass pw rm) r, True)
   | DataMessage m \<Rightarrow> Some (ui_message m r, True)
   | RecordScreen start \<Rightarrow> Some (update_record_state (upd_lc (\<lambda>l. l\<lparr>record_state := start\<rparr>) r), True)
   | ElevateDirect \<Rightarrow> Some ((peer_send (MiscMsg MMiscOther) r)\<lparr>elevation_requested := True\<rparr>, True)
   | ElevateWithLogon _ _ \<Rightarrow> Some ((peer_send (MiscMsg MMiscOther) r)\<lparr>elevation_requested := True\<rparr>, True)
   | NewVoiceCall \<Rightarrow> Some (new_voice_call e r, True)
   | CloseVoiceCall \<Rightarrow> Some (close_voice_call e r, True)
   | ResetDecoder k \<Rightarrow> Some (reset_decoder k r, True)
   | TakeScreenshot k sid \<Rightarrow> Some (peer_send (ScreenshotRequest k sid) r, True)
   | _ \<Rightarrow> map_option (\<lambda>r. (r, True)) (files_do (file_request (file_env e r) d) r))"

end
