(* ===== verification/Client_Loop.thy ===== *)
theory Client_Loop
  imports Client_Session "HOL-Library.Signed_Division"
begin

text \<open>
  The messages of the host and the loop of a session, \<open>handle_msg_from_peer\<close> and \<open>io_loop\<close> of
  \<open>src/src/client/io_loop.rs\<close>, \<open>handle_peer_info\<close> and \<open>ConnectionRoundState\<close> of
  \<open>src/src/ui_session_interface.rs\<close>.  A handler returns the session and whether the loop goes on.
\<close>

section \<open>Login\<close>

definition set_peer_info :: "HostInfo \<Rightarrow> Remote \<Rightarrow> Remote" where
  "set_peer_info hi r =
    (let p = (parsed r)\<lparr>pp_platform := peer_platform (hi_info hi)\<rparr>;
         p1 = (case hi_terminal hi of Some t \<Rightarrow> p\<lparr>pp_terminal := t\<rparr> | None \<Rightarrow> p);
         p2 = (case hi_additions hi of Some (i, idd, cam) \<Rightarrow> p1\<lparr>pp_installed := i, pp_idd := idd, pp_camera := cam\<rparr> | None \<Rightarrow> p1)
     in r\<lparr>parsed := p2\<rparr>)"

definition show_sessions :: "HostInfo \<Rightarrow> Remote \<Rightarrow> Remote" where
  "show_sessions hi r =
    (if hi_sessions hi = [] then r
     else if selected_windows_session_id (lc r) = Some (hi_current_sid hi) then ui (SelectedSession (hi_current_sid hi)) r
     else ui (WindowsSessions (hi_sessions hi)) r)"

definition shows_displays :: "Remote \<Rightarrow> bool" where
  "shows_displays r \<longleftrightarrow> conn_type (lc r) \<notin> {FILE_TRANSFER, PORT_FORWARD, RDP, TERMINAL}"

definition session_peer_info :: "SessEnv \<Rightarrow> HostInfo \<Rightarrow> Remote \<Rightarrow> Remote" where
  "session_peer_info e hi r =
    (let info = hi_info hi;
         keep = client_do (handler_peer_info (se_client e) info);
         cur = (if length (hi_displays hi) \<le> as_usize (hi_current hi) then 0 else hi_current hi);
         r1 = upd_lc (\<lambda>l. l\<lparr>lh_peer_info := Some info\<rparr>) r;
         r2 = (if get_version_number (peer_version info) < get_version_number ''1.1.10'' then ui (UiSetPermission ''restart'' False) r1 else r1);
         finish = (\<lambda>r. let r4 = ui SetPeerInfo (keep (ui UiPrivacyMode r));
                          r5 = (if conn_type (lc r4) = FILE_TRANSFER then ui CloseSuccess r4
                                else if shows_displays r4 then msgbox ''success'' ''Successful'' ''Connected, waiting for image...'' [] r4 else r4)
                      in show_sessions hi (ui (OnConnected (conn_type (lc r5))) r5))
     in if conn_type (lc r2) = FILE_TRANSFER then
          (if peer_username info = [] \<and> hi_sessions hi = []
           then on_error_box ''No active console user logged on, please connect and logon first.'' r2 else finish r2)
        else if shows_displays r2 then
          (if hi_displays hi = [] then
             msgbox ''error'' ''Error'' (if conn_type (lc r2) = VIEW_CAMERA then ''No cameras'' else ''No displays'') [] (ui UiPrivacyMode (keep r2))
           else
             let r3 = ui (InitResolution cur) r2;
                 p = should_auto_login (lc r3);
                 r4 = (if p \<noteq> [] then ui (InputOsPassword p) r3 else r3);
                 (x, y, w, h) = hi_displays hi ! as_usize cur
             in finish (ui (SetDisplay x y w h) r4))
        else finish r2)"

definition start_clipboard :: "SessEnv \<Rightarrow> Remote \<Rightarrow> Remote" where
  "start_clipboard e r =
    (let r1 = ui StartClipboard r;
         r2 = (if sync_init_clipboard (lh_config (lc r1)) then (case se_current_clip e of Some m \<Rightarrow> ui (InitClipboard m) r1 | None \<Rightarrow> r1) else r1)
     in ui UiFileClipboard (ui UiTextClipboard r2))"

definition on_login_ok :: "SessEnv \<Rightarrow> HostInfo \<Rightarrow> Remote \<Rightarrow> Remote \<times> bool" where
  "on_login_ok e hi r =
    (let info = hi_info hi;
         keep = client_do (handler_peer_info (se_client e) info);
         r1 = set_peer_info hi r;
         (r2, cam) = (if conn_type (lc r1) = VIEW_CAMERA then check_view_camera_support (peer_version info) (peer_platform info) r1 else (r1, True))
     in if \<not> cam then (keep r2, False)
        else
          let (r3, term) = (if conn_type (lc r2) = TERMINAL then check_terminal_support (peer_version info) r2 else (r2, True))
          in if \<not> term then (keep r3, False)
             else
               let r4 = session_peer_info e hi r3;
                   r5 = (if conn_type (lc r4) = DEFAULT_CONN then start_clipboard e r4 else r4);
                   r6 = (if conn_type (lc r5) = FILE_TRANSFER then ui LoadLastJobs r5 else r5)
               in (r6\<lparr>is_connected := True\<rparr>, True))"

definition on_login_error :: "SessEnv \<Rightarrow> string \<Rightarrow> bool \<Rightarrow> Remote \<Rightarrow> Remote \<times> bool" where
  "on_login_error e err trust r =
    (let r1 = (if err = REQUIRE_2FA then upd_lc (\<lambda>l. l\<lparr>lh_trusted_devices := trust\<rparr>) r else r)
     in (client_do (\<lambda>c. fst (handle_login_error (se_client e) err c)) r1, snd (handle_login_error (se_client e) err ((cl r1)\<lparr>couts := []\<rparr>))))"

section \<open>Frames\<close>

definition on_first_frame :: "Remote \<Rightarrow> Remote" where
  "on_first_frame r =
    (if first_frame r then r
     else send_toggle_privacy_mode_msg (send_toggle_virtual_display_msg (ui AdaptSize (ui CloseSuccess (r\<lparr>first_frame := True\<rparr>)))))"

definition on_video_frame :: "SessEnv \<Rightarrow> int \<Rightarrow> bool \<Rightarrow> CodecFormat \<Rightarrow> nat \<Rightarrow> Remote \<Rightarrow> Remote" where
  "on_video_frame e d key fmt x r =
    (let r1 = (on_first_frame r)\<lparr>video_format := fmt\<rparr>;
         k = as_usize d;
         r2 = (if hm_get (threads r1) k = None then new_video_thread e k r1 else r1)
     in case hm_get (threads r2) k of
          None \<Rightarrow> r2
        | Some v \<Rightarrow>
           if key then ui (VideoOut k (MdFrame x)) r2
           else case force_push x (video_queue v) of
             (q, full) \<Rightarrow>
               let r3 = r2\<lparr>threads := hm_insert k (v\<lparr>video_queue := q\<rparr>) (threads r2)\<rparr>
               in if full then refresh_video (wrap32 (int k)) r3 else ui (VideoOut k MdQueue) r3)"

section \<open>Permissions and notifications\<close>

definition on_permission :: "Perm option \<Rightarrow> bool \<Rightarrow> Remote \<Rightarrow> Remote" where
  "on_permission p on r = (case p of
     Some PermKeyboard \<Rightarrow>
       ui (UiSetPermission ''keyboard'' on) (ui UiFileClipboard (ui UiTextClipboard (r\<lparr>server_keyboard := on\<rparr>)))
   | Some PermClipboard \<Rightarrow> ui (UiSetPermission ''clipboard'' on) (ui UiTextClipboard (r\<lparr>server_clipboard := on\<rparr>))
   | Some PermAudio \<Rightarrow> ui (UiSetPermission ''audio'' on) r
   | Some PermFile \<Rightarrow>
       (let r1 = r\<lparr>server_file := on\<rparr> in
        if \<not> on \<and> conn_type (lc r1) = FILE_TRANSFER then r1
        else
          let r2 = ui (UiSetPermission ''file'' on) (ui UiFileClipboard r1)
          in if \<not> on then ui EmptyClipboardFiles r2 else r2)
   | Some PermRestart \<Rightarrow> ui (UiSetPermission ''restart'' on) r
   | Some PermRecording \<Rightarrow>
       ui (UiSetPermission ''recording'' on) (update_record_state (upd_lc (\<lambda>l. l\<lparr>record_permission := on\<rparr>) r))
   | Some PermBlockInput \<Rightarrow> ui (UiSetPermission ''block_input'' on) r
   | None \<Rightarrow> r)"

definition on_switch_display :: "int \<Rightarrow> int \<Rightarrow> int \<Rightarrow> int \<Rightarrow> int \<Rightarrow> Remote \<Rightarrow> Remote" where
  "on_switch_display d x y w h r =
    (let r1 = ui (PeerSwitchDisplay d) r;
         r2 = (if hm_get (threads r1) (as_usize d) \<noteq> None then ui (VideoOut (as_usize d) MdReset) r1 else r1)
     in if 0 < w \<and> 0 < h then ui (SetDisplay x y w h) r2 else r2)"

definition failed_or :: "string \<Rightarrow> string \<Rightarrow> string" where
  "failed_or d s = (if s = [] then d else s)"

definition on_block_input :: "BlockInputState \<Rightarrow> string \<Rightarrow> Remote \<Rightarrow> Remote" where
  "on_block_input st details r = (case st of
     BlkOnSucceeded \<Rightarrow> ui (UiBlockInput True) r
   | BlkOnFailed \<Rightarrow> ui (UiBlockInput False) (msgbox ''custom-error'' ''Block user input'' (failed_or ''Failed'' details) [] r)
   | BlkOffSucceeded \<Rightarrow> ui (UiBlockInput False) r
   | BlkOffFailed \<Rightarrow> msgbox ''custom-error'' ''Unblock user input'' (failed_or ''Failed'' details) [] r
   | BlkStateUnknown \<Rightarrow> r)"

definition update_privacy_mode :: "SessEnv \<Rightarrow> string \<Rightarrow> bool \<Rightarrow> Remote \<Rightarrow> Remote" where
  "update_privacy_mode e impl_key on r =
     ui UiPrivacyMode (client_do (change_config (se_client e) (\<lambda>c.
       let c1 = c\<lparr>pc_privacy_mode := on\<rparr>
       in if on then c1\<lparr>pc_options := hm_insert ''privacy-mode-impl-key''
                 (if impl_key = [] then ''privacy_mode_impl_mag'' else impl_key) (pc_options c1)\<rparr>
          else c1)) r)"

definition on_privacy :: "SessEnv \<Rightarrow> PrivacyModeState \<Rightarrow> string \<Rightarrow> string \<Rightarrow> Remote \<Rightarrow> Remote \<times> bool" where
  "on_privacy e st details impl_key r =
    (let box = (\<lambda>ty txt. msgbox ty ''Privacy mode'' txt []); upd = update_privacy_mode e impl_key in
     case st of
       PrvOnByOther \<Rightarrow> (msgbox ''error'' ''Connecting...'' ''Someone turns on privacy mode, exit'' [] r, False)
     | PrvNotSupported \<Rightarrow> (upd False (box ''custom-error'' ''Unsupported'' r), True)
     | PrvOnSucceeded \<Rightarrow> (upd True (box ''custom-nocancel'' ''Enter privacy mode'' r), True)
     | PrvOnFailedDenied \<Rightarrow> (upd False (box ''custom-error'' ''Peer denied'' r), True)
     | PrvOnFailedPlugin \<Rightarrow> (upd False (box ''custom-error'' ''Please install plugins'' r), True)
     | PrvOnFailed \<Rightarrow> (upd False (box ''custom-error'' (failed_or ''Failed'' details) r), True)
     | PrvOffSucceeded \<Rightarrow> (upd False (box ''custom-nocancel'' ''Exit privacy mode'' r), True)
     | PrvOffByPeer \<Rightarrow> (upd False (box ''custom-error'' ''Peer exit'' r), True)
     | PrvOffFailed \<Rightarrow> (box ''custom-error'' (failed_or ''Failed to turn off'' details) r, True)
     | PrvOffUnknown \<Rightarrow> (upd False (box ''custom-error'' ''Turned off'' r), True)
     | PrvStateUnknown \<Rightarrow> (r, True))"

definition cancel_boxes :: "string \<Rightarrow> Remote \<Rightarrow> Remote" where
  "cancel_boxes first r = ui (CancelMsgBox ''elevation-error'') (ui (CancelMsgBox ''wait-uac'') (ui (CancelMsgBox first) r))"

definition on_uac :: "bool \<Rightarrow> Remote \<Rightarrow> Remote" where
  "on_uac on r = (if on \<and> server_keyboard r then msgbox ''on-uac'' ''Prompt'' ''Please wait for confirmation of UAC...'' [] r
     else cancel_boxes ''on-uac'' r)"

definition on_foreground :: "bool \<Rightarrow> Remote \<Rightarrow> Remote" where
  "on_foreground on r = (if on \<and> server_keyboard r
     then msgbox ''on-foreground-elevated'' ''Prompt'' ''elevated_foreground_window_tip'' [] r
     else cancel_boxes ''on-foreground-elevated'' r)"

definition on_elevation :: "string \<Rightarrow> Remote \<Rightarrow> Remote" where
  "on_elevation err r = (if err = [] then msgbox ''wait-uac'' [] [] [] r
     else msgbox ''elevation-error'' ''Elevation Error'' err [] (ui (CancelMsgBox ''wait-uac'') r))"

definition on_portable_service :: "bool \<Rightarrow> Remote \<Rightarrow> Remote" where
  "on_portable_service b r =
    (let r1 = ui (PortableServiceRunning b) r
     in if elevation_requested r1 \<and> b then msgbox ''custom-nocancel-success'' ''Successful'' ''Elevate successfully'' [] r1 else r1)"

definition HELPER_URL :: "(string, string) hashmap" where
  "HELPER_URL = [(''rustdesk docs home'', ''https://seedesktop.com/docs/en/''),
     (''rustdesk docs x11-required'', ''https://seedesktop.com/docs/en/manual/linux/#x11-required''),
     (''rustdesk x11 headless'', LINK_HEADLESS_LINUX_SUPPORT)]"

definition on_message_box :: "string \<Rightarrow> string \<Rightarrow> string \<Rightarrow> string \<Rightarrow> Remote \<Rightarrow> Remote" where
  "on_message_box ty title txt link r =
     msgbox ty title txt (case hm_get HELPER_URL link of Some v \<Rightarrow> v | None \<Rightarrow> []) r"

definition on_voice_response :: "bool \<Rightarrow> int \<Rightarrow> Remote \<Rightarrow> Remote" where
  "on_voice_response accepted ts r = (case voice_ts r of
     None \<Rightarrow> r
   | Some t \<Rightarrow>
      let r1 = r\<lparr>voice_ts := None\<rparr>
      in if ts \<noteq> t then r1
         else if accepted then
           (let r2 = ui VoiceCallStarted r1 in r2\<lparr>voice_sender := start_voice_call r2\<rparr>)
         else ui (VoiceCallClosed []) r1)"

definition on_cliprdr :: "SessEnv \<Rightarrow> bool \<Rightarrow> bool \<Rightarrow> nat \<Rightarrow> Remote \<Rightarrow> Remote" where
  "on_cliprdr e format_list beginning x r =
    (if format_list \<and> se_other_clip e then r
     else if beginning \<and> \<not> is_file_clipboard_required r then r
     else if get_version_number ''1.3.8'' \<le> lh_version (lc r)
     then fold (\<lambda>m. peer_send (CliprdrMsg m)) (se_clip_served e x) r else r)"

definition on_terminal_opened :: "SessEnv \<Rightarrow> bool \<Rightarrow> string \<Rightarrow> Remote \<Rightarrow> Remote" where
  "on_terminal_opened e ok sid r =
    (if ok \<and> sid \<noteq> [] then client_do (\<lambda>c. handler_set_option (se_client e) (get_key_terminal_service_id (lch c)) sid c) r else r)"

section \<open>A message of the host\<close>

definition handle_msg_from_peer :: "SessEnv \<Rightarrow> HostMsg \<Rightarrow> Remote \<Rightarrow> (Remote \<times> bool) option" where
  "handle_msg_from_peer e m r = (case m of
     HmVideoFrame d key fmt x \<Rightarrow> Some (on_video_frame e d key fmt x r, True)
   | HmHash salt1 challenge \<Rightarrow> Some (client_do (handle_hash (se_client e) (se_preset e) salt1 challenge) r, True)
   | HmLoginError err trust \<Rightarrow> Some (on_login_error e err trust r)
   | HmLoginOk hi \<Rightarrow> Some (on_login_ok e hi r)
   | HmCursor x \<Rightarrow> Some (ui (CursorOut x) r, True)
   | HmClipboards xs \<Rightarrow> Some (if pc_disable_clipboard (lh_config (lc r)) then r else ui (ClipboardOut xs) r, True)
   | HmCliprdr format_list beginning x \<Rightarrow> Some (on_cliprdr e format_list beginning x r, True)
   | HmFile fr \<Rightarrow> map_option (\<lambda>r. (r, True)) (files_do (file_response (file_env e r) fr) r)
   | HmFileConfirm c \<Rightarrow> map_option (\<lambda>r. (r, True)) (files_do (host_confirm c) r)
   | HmAudioFormat x \<Rightarrow> Some (ui (AudioFormatOut x) r, True)
   | HmChat t \<Rightarrow> Some (ui (ChatOut t) r, True)
   | HmPermission p on \<Rightarrow> Some (on_permission p on r, True)
   | HmSwitchDisplay d x y w h \<Rightarrow> Some (on_switch_display d x y w h r, True)
   | HmCloseReason c \<Rightarrow> Some (msgbox ''error'' ''Connection Error'' c [] (r\<lparr>sent_close_reason := True\<rparr>), False)
   | HmBlockInput st details \<Rightarrow> Some (on_block_input st details r, True)
   | HmPrivacy st details impl_key \<Rightarrow> Some (on_privacy e st details impl_key r)
   | HmUac on \<Rightarrow> Some (on_uac on r, True)
   | HmForegroundElevated on \<Rightarrow> Some (on_foreground on r, True)
   | HmElevation err \<Rightarrow> Some (on_elevation err r, True)
   | HmPortableService b \<Rightarrow> Some (on_portable_service b r, True)
   | HmSwitchBack \<Rightarrow> Some (ui SwitchBackOut r, True)
   | HmSupportedEncoding x \<Rightarrow> Some (upd_lc (\<lambda>l. l\<lparr>supported_encoding := x\<rparr>) r, True)
   | HmFollowDisplay d \<Rightarrow> Some (ui (FollowDisplay d) r, True)
   | HmTestDelay from_client x \<Rightarrow> Some (if from_client then r else peer_send (TestDelay from_client x) (ui (DelayStatus x) r), True)
   | HmAudioFrame x \<Rightarrow> Some (if pc_disable_audio (lh_config (lc r)) then r else ui (AudioFrameOut x) r, True)
   | HmMessageBox ty title txt link \<Rightarrow> Some (on_message_box ty title txt link r, True)
   | HmVoiceCallRequest connect \<Rightarrow>
       Some (if \<not> connect \<and> voice_sender r then ui (VoiceCallClosed []) (stop_voice_call r) else r, True)
   | HmVoiceCallResponse accepted ts \<Rightarrow> Some (on_voice_response accepted ts r, True)
   | HmDisplays x \<Rightarrow> Some (ui (SetDisplays x) r, True)
   | HmScreenshot sid x \<Rightarrow> Some (ui (ScreenshotOut sid x) r, True)
   | HmTerminalOpened ok sid \<Rightarrow> Some (ui (TerminalShown 0) (on_terminal_opened e ok sid r), True)
   | HmTerminal x \<Rightarrow> Some (ui (TerminalShown x) r, True)
   | HmOther \<Rightarrow> Some (r, True))"

section \<open>The loop\<close>

text \<open>A message of the peer (None: not parseable), an error of the stream, its end, a request of the user,
  the next request the session sent itself, a message of the local file clipboard, the timers, a step of a
  video thread (frames taken from its queue, rate it decodes at, frames shown), the task that sends the
  first clipboard.\<close>

datatype SessEvent =
    PeerMessage "HostMsg option"
  | PeerError string
  | PeerGone
  | UserData Data
  | OwnData
  | LocalClip "nat + string \<times> string \<times> string" bool
  | SessTimer "rd list" bool
  | StatusTimer bool
  | ThreadStep nat nat "nat option" nat
  | InitClipboardTask nat

definition on_local_clip :: "nat + string \<times> string \<times> string \<Rightarrow> bool \<Rightarrow> Remote \<Rightarrow> Remote" where
  "on_local_clip c stopping_allowed r = (case c of
     Inr (ty, title, txt) \<Rightarrow> msgbox ty title txt [] r
   | Inl x \<Rightarrow>
      if stopping_allowed \<and> (PeerConfig.view_only (lh_config (lc r)) \<or> \<not> is_connected r
            \<or> \<not> (server_file r \<and> enable_file_copy_paste (lh_config (lc r)))) then r
      else peer_send (CliprdrMsg x) r)"

definition on_timer :: "SessEnv \<Rightarrow> rd list \<Rightarrow> bool \<Rightarrow> Remote \<Rightarrow> Remote \<times> bool" where
  "on_timer e sched net r =
    (if 30000 \<le> se_time e - last_recv r then (msgbox ''error'' ''Connection Error'' ''Timeout'' [] r, False)
     else case file_tick (file_env e r) sched net ((cf r)\<lparr>self_queue := [], file_outs := []\<rparr>) of
       Inl err \<Rightarrow> (msgbox ''error'' ''Connection Error'' err [] r, False)
     | Inr s \<Rightarrow> (files_done s r, True))"

definition fps_message :: "nat \<Rightarrow> Data" where
  "fps_message f = DataMessage (MiscMsg (MOption (option_message_new\<lparr>om_custom_fps := wrap32 (int f)\<rparr>)))"

definition on_status :: "SessEnv \<Rightarrow> bool \<Rightarrow> Remote \<Rightarrow> Remote" where
  "on_status e dirc r =
    (let elapsed = se_time e - fps_instant r in
     if elapsed < 1000 then r
     else
       let rates = map (\<lambda>(k, v). (k, wrap32 (wrap32 (int (frame_count v)) * 1000) sdiv wrap32 (int elapsed))) (threads r);
           ths = map (\<lambda>(k, v). (k, v\<lparr>frame_count := 0\<rparr>)) (threads r);
           (ths1, f, ds) = fps_control (se_time e) dirc (custom_fps (lc r)) (last_auto_fps (lc r)) rates ths;
           r1 = r\<lparr>fps_instant := se_time e, threads := ths1\<rparr>;
           r2 = (case f of Some x \<Rightarrow> upd_lc (\<lambda>l. l\<lparr>last_auto_fps := Some x\<rparr>) (send_self (fps_message x) r1) | None \<Rightarrow> r1)
       in ui QualityStatus (fold (\<lambda>d. refresh_video (wrap32 (int d))) ds r2))"

definition thread_step :: "nat \<Rightarrow> nat \<Rightarrow> nat option \<Rightarrow> nat \<Rightarrow> Remote \<Rightarrow> Remote" where
  "thread_step k n dfps shown r = r\<lparr>threads := hm_modify k (\<lambda>v. v\<lparr>video_queue := drop n (video_queue v), decode_fps := dfps,
     frame_count := frame_count v + shown\<rparr>) (threads r)\<rparr>"

definition sess_step :: "SessEnv \<Rightarrow> bool \<Rightarrow> SessEvent \<Rightarrow> Remote \<Rightarrow> (Remote \<times> bool) option" where
  "sess_step e dirc ev r = (case ev of
     PeerMessage m \<Rightarrow>
       (let r1 = r\<lparr>last_recv := se_time e\<rparr>;
            r2 = (if got_first r1 then r1 else upd_lc (\<lambda>l. l\<lparr>received := True\<rparr>) (r1\<lparr>got_first := True\<rparr>))
        in case m of Some x \<Rightarrow> handle_msg_from_peer e x r2 | None \<Rightarrow> Some (r2, True))
   | PeerError err \<Rightarrow> Some (ui (EstablishError err) r, False)
   | PeerGone \<Rightarrow> Some (if restarting_remote_device (lc r)
        then msgbox ''restarting'' ''Restarting remote device'' ''remote_restarting_tip'' [] r
        else msgbox ''error'' ''Connection Error'' ''Reset by the peer'' [] r, False)
   | UserData d \<Rightarrow> handle_msg_from_ui e d r
   | OwnData \<Rightarrow> (case own_queue r of [] \<Rightarrow> Some (r, True) | d # ds \<Rightarrow> handle_msg_from_ui e d (r\<lparr>own_queue := ds\<rparr>))
   | LocalClip c stopping_allowed \<Rightarrow> Some (on_local_clip c stopping_allowed r, True)
   | SessTimer sched net \<Rightarrow> Some (on_timer e sched net r)
   | StatusTimer _ \<Rightarrow> Some (on_status e dirc r, True)
   | ThreadStep k n dfps shown \<Rightarrow> Some (thread_step k n dfps shown r, True)
   | InitClipboardTask x \<Rightarrow>
       Some (if is_text_clipboard_required r then send_self (DataMessage (ClipboardMsg x)) r else r, True))"

text \<open>A run of the loop; None when a handler panics.  Events after the loop has ended have no effect.\<close>

fun sess_run :: "bool \<Rightarrow> (SessEnv \<times> SessEvent) list \<Rightarrow> Remote \<Rightarrow> (Remote \<times> bool) option" where
  "sess_run dirc [] r = Some (r, True)"
| "sess_run dirc ((e, ev) # es) r = (case sess_step e dirc ev r of
     None \<Rightarrow> None
   | Some (r', False) \<Rightarrow> Some (r', False)
   | Some (r', True) \<Rightarrow> sess_run dirc es r')"

section \<open>Rounds and the end\<close>

datatype ConnectionState = Connecting | Connected | Disconnected

record RoundState =
  round_no :: nat
  round_state :: ConnectionState

text \<open>The counter has 32 bits; the addition panics on overflow only in debug builds.\<close>

definition new_round :: "RoundState \<Rightarrow> RoundState \<times> nat" where
  "new_round s = (let n = (round_no s + 1) mod 2 ^ 32 in (s\<lparr>round_no := n, round_state := Connecting\<rparr>, n))"

definition set_connected :: "RoundState \<Rightarrow> RoundState" where
  "set_connected s = s\<lparr>round_state := Connected\<rparr>"

definition is_round_gt :: "nat \<Rightarrow> RoundState \<Rightarrow> bool" where
  "is_round_gt n s \<longleftrightarrow> (if n = 2 ^ 32 - 1 \<and> round_no s = 0 then True else n < round_no s)"

definition set_disconnected :: "nat \<Rightarrow> RoundState \<Rightarrow> RoundState \<times> bool" where
  "set_disconnected n s = (if is_round_gt n s then (s, False) else (s\<lparr>round_state := Disconnected\<rparr>, True))"

definition reconnect :: "bool \<Rightarrow> bool \<Rightarrow> RoundState \<Rightarrow> Remote \<Rightarrow> (RoundState \<times> Remote \<times> nat) option" where
  "reconnect has_thread relay s r =
    (if has_thread \<and> round_state s = Connecting then None
     else
       let r1 = (if has_thread \<and> round_state s = Connected then send_self Close r else r);
           (s1, n) = new_round s
       in Some (s1, upd_lc (\<lambda>l. (if relay then l\<lparr>force_relay := True\<rparr> else l)\<lparr>lh_peer_info := None\<rparr>) r1, n))"

definition loop_end :: "bool \<Rightarrow> nat \<Rightarrow> RoundState \<Rightarrow> Remote \<Rightarrow> RoundState \<times> Remote" where
  "loop_end kcp n s r =
    (let r1 = stop_voice_call r;
         r2 = (if kcp then send_close_reason ''kcp'' r1 else r1);
         (s1, ok) = set_disconnected n s
     in (s1, if conn_type (lc r2) = DEFAULT_CONN \<and> ok then ui EmptyClipboardFiles (ui StopClipboard r2) else r2))"

definition sync_jobs_status_to_local :: "SessEnv \<Rightarrow> Remote \<Rightarrow> Remote" where
  "sync_jobs_status_to_local e r =
    (if \<not> is_connected r then r
     else
       let metas = TransferSerde.make (map (\<lambda>j. se_meta_json e (gen_meta j)) (writing (cf r)))
                     (map (\<lambda>j. se_meta_json e (gen_meta j)) (reading (cf r)))
       in client_do (\<lambda>c. case load_config (se_client e) c of
            (c1, pc) \<Rightarrow> if pc_transfer pc \<noteq> metas then save_config (se_client e) (pc\<lparr>pc_transfer := metas\<rparr>) c1 else c1) r)"

end
