(* ===== verification/Spec2Isabelle.thy ===== *)
theory Spec2Isabelle
  imports Bytes_Codec Addr_Mangle Video_QoS Host_Server Config_Store Transfer_Correct Cm_Files
    Login_Guard Codec_Negotiation Privacy_Mode Secure_Channel Connection_End Connection_Isolation
    Client_Options Connection_Setup Backup_Correct Client_Consent Client_Loop
begin

text \<open>
  SeeDesktop is a remote desktop program.  On the controlled machine a \<^emph>\<open>server\<close> owns services (video of
  each display, audio, clipboard, cursor) that publish to subscribers; every incoming peer is a
  \<^emph>\<open>connection\<close>, a task that logs the peer in, checks its permissions and carries out what it asks for;
  a \<^emph>\<open>connection manager\<close>, a process of the logged-in user, shows the connections and touches the file
  system for them.  The configuration, the list of failed logins, the sessions, privacy mode and the
  codec negotiation are globals all connections share.  On the controlling machine a \<^emph>\<open>session\<close> keeps a
  stored configuration for each peer, answers the peer's requests for a password and turns the choices
  of the user into option messages.  Messages travel over a framed stream, encrypted
  under a key the two ends agree on.  The controlled machine keeps itself registered at a \<^emph>\<open>rendezvous
  server\<close>, whose announcements make it open connections to peers, directly or over a relay.  A separate
  \<^emph>\<open>backup helper\<close> stores the configuration in a bucket and restores it.

  \<^bold>\<open>Theories and sources.\<close>

  \<^item> \<open>Prelude\<close>: results of fallible calls (\<open>outcome\<close>: value, error or panic), machine integers, hash
    maps with their update and removal laws.  \<open>Rust_Strings\<close>, \<open>Utf8\<close>, \<open>F32\<close>, \<open>Ip_Text\<close>: what the program
    uses of the standard library (splitting, trimming, parsing of numbers, UTF-8, rounding of 32-bit
    floats, text of IP addresses), and of \<open>libs/hbb_common/src/lib.rs\<close> the version numbers.
  \<^item> \<open>Bytes_Codec\<close> (\<open>libs/hbb_common/src/bytes_codec.rs\<close>): length-prefixed frames; the decoder as a
    state machine fed with chunks.  Round trip, independence of the chunks, the packet limit.
  \<^item> \<open>Secure_Channel\<close> (\<open>libs/hbb_common/src/tcp.rs\<close>, \<open>create_tcp_connection\<close> of \<open>server.rs\<close>,
    \<open>secure_connection\<close> of \<open>client.rs\<close>, \<open>secure_tcp\<close> of \<open>common.rs\<close>): the encrypted stream over the
    codec and the key exchange, over the primitives of libsodium.  Round trip, agreement on the key,
    what an adversary on the network can and cannot do.
  \<^item> \<open>Addr_Mangle\<close> (\<open>libs/hbb_common/src/lib.rs\<close>): the address obfuscation of the rendezvous protocol.
  \<^item> \<open>Video_QoS\<close> (\<open>server/video_qos.rs\<close>): frame rate and quality from delays and client requests; safety of
    every run, caps, monotonicity under congestion, the round-trip estimate as a function of its history.
  \<^item> \<open>Service\<close>, \<open>Host_Server\<close> (\<open>server/service.rs\<close>, \<open>server.rs\<close>, \<open>ConnInner\<close> of \<open>server/connection.rs\<close>):
    subscriptions, snapshots, deliveries, the server's table of services and connections.  Its
    operations refine a relation between services and connections.
  \<^item> \<open>Password_Security\<close>, \<open>Config_Store\<close> (\<open>libs/hbb_common/src/password_security.rs\<close>, \<open>config.rs\<close>): stored
    secrets over an abstract secret box, options, passwords, trusted devices, load and store.
  \<^item> \<open>File_Listing\<close>, \<open>File_Transfer\<close>, \<open>Transfer_Correct\<close> (\<open>libs/hbb_common/src/fs.rs\<close>, \<open>compress.rs\<close>):
    listings over a tree, transfer jobs over a file system of inodes with both ends of a transfer.
  \<^item> \<open>Cm_Files\<close> (\<open>ui_cm_interface.rs\<close>, \<open>ipc.rs\<close>): the file requests of the connection manager.
  \<^item> \<open>Login_Guard\<close> (\<open>LOGIN_FAILURES\<close> of \<open>server/connection.rs\<close>): counting of failed logins.
  \<^item> \<open>Codec_Negotiation\<close> (\<open>libs/scrap/src/common/codec.rs\<close>): the choice of the encoding format.
  \<^item> \<open>Privacy_Mode\<close> (\<open>privacy_mode.rs\<close>, \<open>privacy_mode/macos.rs\<close>, \<open>privacy_mode/win_topmost_window.rs\<close>): who
    may cover the screen.
  \<^item> \<open>Connection_State\<close>, \<open>Connection_Options\<close>, \<open>Connection_Auth\<close>, \<open>Connection_Message\<close>, \<open>Connection_Loop\<close>
    (\<open>server/connection.rs\<close>): the record of a connection and the globals, \<open>permission\<close> and
    \<open>update_options\<close>, admission (\<open>start\<close>, \<open>LoginRequest\<close>, \<open>Auth2FA\<close>, \<open>SwitchSidesResponse\<close>,
    \<open>send_logon_response\<close>), \<open>on_message\<close> with all its handlers, and the \<open>select!\<close> loop with the branches
    for the connection manager, the peer, the services, the timers and the file clipboard, followed by
    port forwarding, the end of the loop and the drop.
  \<^item> \<open>Connection_Frame\<close>, \<open>Connection_Admission\<close>, \<open>Connection_Effects\<close>, \<open>Connection_Safety\<close>: lemmas on what
    handlers leave alone, the ways to become authorized, the outputs of handlers, and the properties.
    \<open>Connection_End\<close>: what an ended connection leaves behind.  \<open>Connection_Isolation\<close>: the events of one
    connection and the subscriptions of the others.
  \<^item> \<open>Peer_Config\<close> (\<open>PeerConfig\<close> and \<open>LocalConfig\<close> of \<open>libs/hbb_common/src/config.rs\<close>): what is stored for a
    peer, with its encrypted password and options; storing and loading.
  \<^item> \<open>Client_Config\<close>, \<open>Client_Login\<close> (\<open>LoginConfigHandler\<close>, \<open>handle_hash\<close>, \<open>handle_login_from_ui\<close>,
    \<open>handle_login_error\<close> and their neighbours in \<open>client.rs\<close>; keyboard modes of \<open>common.rs\<close> and
    \<open>keyboard.rs\<close>; \<open>handle_relay_id\<close> of \<open>ui_interface.rs\<close>): the session's configuration, its toggles and
    the option messages they send, the login request, the choice among the passwords a client may have.
    \<open>Client_Correct\<close>, \<open>Client_Options\<close>: both ends together.  A client with the right password is admitted by
    the login handler of the connection, a remembered password logs in again, a password of a shared
    address book is not stored, and the host's view of the options agrees with the client's after every
    sequence of toggles.
  \<^item> \<open>Client_Files\<close>, \<open>Client_Files_Correct\<close>, \<open>Client_Consent\<close> (\<open>client/io_loop.rs\<close>): the file transfers of a
    session, with the requests of its user interface, the responses of the host and the timer that sends
    blocks.  The unattended removal of a folder is followed through client, connection and connection
    manager until it ends; a file is overwritten only with the consent of the user, as long as the host
    follows the protocol, and a host that does not can write anywhere.
  \<^item> \<open>Rendezvous\<close>, \<open>Rendezvous_Correct\<close> (\<open>rendezvous_mediator.rs\<close>, with \<open>check_port\<close> and its neighbours of
    \<open>socket_client.rs\<close> and the identity and key of \<open>config.rs\<close>): the loops that keep the host registered over
    UDP or TCP, the answers of the server, and the tasks of its announcements (hole punching, intranet,
    relay) with the connections they open.  A run of the UDP loop is an inductive relation in which other
    tasks may change the globals between two steps.  The registration stays fresh, a rejected identity is
    replaced.
  \<^item> \<open>Connection_Setup\<close> (\<open>create_tcp_connection\<close> of \<open>server.rs\<close>): from an announcement through the handshake
    to the connection it starts; a right the announcement denies is never used.
  \<^item> \<open>Backup_Helper\<close>, \<open>Backup_Correct\<close> (\<open>libs/seedesktop_backup_helper/src/main.rs\<close>): names of backups, upload
    with pruning, listing, and the restore with its staging, renames, copies and rollbacks over a tree of
    files in which every operation may fail.

  \<^bold>\<open>State and effects.\<close>  A structure of the program is a record, an enumeration a datatype, a global
  a field of \<open>World\<close>.  A handler maps a state (connection, globals, outputs so far) to a state; messages to
  the peer, requests to the connection manager, injected input and the like are values of \<open>Out\<close>.  What
  the operating system and third-party crates answer is a field of \<open>Host\<close> (hash function, one-time code
  check, directory trees, displays, clock) and arbitrary in the theorems.  A run of a connection is a
  list of events, each with the host's answers and the globals it finds: other connections may change
  the globals between two events in any way.

  \<^bold>\<open>Interfaces.\<close>  The locales state what a component relies on: subscription tables in \<open>Service\<close>, the
  owner discipline of an implementation of privacy mode in \<open>Privacy_Mode\<close>, relations that survive the
  login path in \<open>Connection_Admission\<close>, properties of outputs in \<open>Connection_Effects\<close>; each is
  interpreted on the definitions of the code.

  \<^bold>\<open>Loops.\<close>  Loops over data are structural recursions; the loop of a connection, of a service and of a
  port forward recurse over the list of events they are given, so no fuel is needed.  The decoder of
  \<open>Bytes_Codec\<close> and the reading loop of a transfer have termination proofs by the bytes left.

  \<^bold>\<open>Not modelled.\<close>  The Windows and mobile branches of \<open>server/connection.rs\<close> (elevation, virtual
  displays, printer, session selection), log and audit records, the text of \<open>PeerInfo\<close>; starting the
  connection manager process; capture and encoding of frames, audio devices, keyboard layouts and input
  injection, which call platform libraries; opening of sockets, TLS, KCP, NAT tests and the discovery of
  machines on the local network; the credentials and HTTP requests of the backup helper; of
  the controlling side the choice of a route to the peer, the loop and the media threads; the user
  interfaces.  The defaults of the display settings and the address-book, group and LAN caches of
  \<open>config.rs\<close>.
\<close>

end
